(* ===== verification/Prelude.thy ===== *)
theory Prelude
  imports Main "HOL-Library.Word"
begin

text \<open>
  Shared vocabulary of the development: the C integer types as words, the register macros
  of the HAL (\<open>SET_BIT\<close>, \<open>CLEAR_BIT\<close>, \<open>HAL_IS_BIT_SET\<close>), the status and lock enums, byte
  memory, the environment of a polling loop, and the generic lemmas the components use.
  The collection \<open>flag_simps\<close> decides the flag tests of the drivers: a test of one mask after
  updates of disjoint masks.
\<close>

unbundle bit_operations_syntax

named_theorems flag_simps \<open>evaluation of register flag tests\<close>

section \<open>C integer types\<close>

type_synonym u8 = "8 word"
type_synonym u16 = "16 word"
type_synonym u32 = "32 word"

section \<open>Register access macros\<close>

text \<open>\<open>SET_BIT(REG, BIT)\<close>, \<open>CLEAR_BIT(REG, BIT)\<close> of stm32f4xx.h and \<open>HAL_IS_BIT_SET\<close> of
  stm32f4xx_hal_def.h.\<close>

definition SET_BIT :: "u32 \<Rightarrow> u32 \<Rightarrow> u32" where
  "SET_BIT r m = r OR m"

definition CLEAR_BIT :: "u32 \<Rightarrow> u32 \<Rightarrow> u32" where
  "CLEAR_BIT r m = r AND NOT m"

definition HAL_IS_BIT_SET :: "u32 \<Rightarrow> u32 \<Rightarrow> bool" where
  "HAL_IS_BIT_SET r m \<longleftrightarrow> r AND m \<noteq> 0"

text \<open>A flag test after a write to the register: the same mask, or a disjoint one. The side
  conditions are closed word terms in every use.\<close>

lemma u32_eq_iff: "(a :: u32) = b \<longleftrightarrow> (\<forall>n < 32. bit a n = bit b n)"
  by (auto intro: bit_word_eqI)

lemma is_set_iff: "HAL_IS_BIT_SET r m \<longleftrightarrow> (\<exists>n < 32. bit r n \<and> bit m n)"
  by (auto simp: HAL_IS_BIT_SET_def u32_eq_iff bit_simps)

lemma bit_SET_BIT: "n < 32 \<Longrightarrow> bit (SET_BIT r m) n \<longleftrightarrow> bit r n \<or> bit m n"
  by (simp add: SET_BIT_def bit_simps)

lemma bit_CLEAR_BIT: "n < 32 \<Longrightarrow> bit (CLEAR_BIT r m) n \<longleftrightarrow> bit r n \<and> \<not> bit m n"
  by (simp add: CLEAR_BIT_def bit_simps)

lemma disjoint_iff: "(m :: u32) AND k = 0 \<longleftrightarrow> (\<forall>n < 32. \<not> (bit m n \<and> bit k n))"
  by (auto simp: u32_eq_iff bit_simps)

lemma sub_iff: "(m :: u32) AND k = m \<longleftrightarrow> (\<forall>n < 32. bit m n \<longrightarrow> bit k n)"
  by (auto simp: u32_eq_iff bit_simps)

lemma is_set_SET_sub [flag_simps]:
  "m AND k = m \<Longrightarrow> m \<noteq> 0 \<Longrightarrow> HAL_IS_BIT_SET (SET_BIT r k) m"
  unfolding is_set_iff sub_iff by (auto simp: bit_SET_BIT u32_eq_iff)

lemma is_set_SET_other [flag_simps]:
  "m AND k = 0 \<Longrightarrow> HAL_IS_BIT_SET (SET_BIT r k) m = HAL_IS_BIT_SET r m"
  unfolding is_set_iff disjoint_iff by (auto simp: bit_SET_BIT)

lemma is_set_CLEAR_sub [flag_simps]:
  "m AND k = m \<Longrightarrow> \<not> HAL_IS_BIT_SET (CLEAR_BIT r k) m"
  unfolding is_set_iff sub_iff by (auto simp: bit_CLEAR_BIT)

lemma is_set_CLEAR_other [flag_simps]:
  "m AND k = 0 \<Longrightarrow> HAL_IS_BIT_SET (CLEAR_BIT r k) m = HAL_IS_BIT_SET r m"
  unfolding is_set_iff disjoint_iff by (auto simp: bit_CLEAR_BIT)

lemma is_set_SET_same [flag_simps]: "m \<noteq> 0 \<Longrightarrow> HAL_IS_BIT_SET (SET_BIT r m) m"
  by (rule is_set_SET_sub) simp_all

lemma is_set_CLEAR_same [flag_simps]: "\<not> HAL_IS_BIT_SET (CLEAR_BIT r m) m"
  by (rule is_set_CLEAR_sub) simp

lemma is_set_mono: "m AND k = m \<Longrightarrow> HAL_IS_BIT_SET r m \<Longrightarrow> HAL_IS_BIT_SET r k"
  unfolding is_set_iff sub_iff by auto

lemma push_bit_sub: "m AND k = m \<Longrightarrow> push_bit n m AND push_bit n k = push_bit n (m :: u32)"
  by (metis push_bit_and)

lemma bit_small: "(x :: u32) < 2 ^ k \<Longrightarrow> bit x n \<Longrightarrow> n < k"
  by (metis bit_and_iff bit_mask_iff less_mask_eq)

lemma is_set_zero [flag_simps]: "\<not> HAL_IS_BIT_SET 0 m"
  by (simp add: HAL_IS_BIT_SET_def)

section \<open>HAL status and lock\<close>

text \<open>\<open>HAL_StatusTypeDef\<close> and \<open>HAL_LockTypeDef\<close> of stm32f4xx_hal_def.h.\<close>

datatype HAL_StatusTypeDef = HAL_OK | HAL_ERROR | HAL_BUSY | HAL_TIMEOUT

datatype HAL_LockTypeDef = HAL_UNLOCKED | HAL_LOCKED

section \<open>Byte memory\<close>

type_synonym memory = "u32 \<Rightarrow> u8"

text \<open>The \<open>n\<close> bytes at \<open>a\<close>.\<close>

fun read_bytes :: "memory \<Rightarrow> u32 \<Rightarrow> nat \<Rightarrow> u8 list" where
  "read_bytes m a 0 = []"
| "read_bytes m a (Suc n) = m a # read_bytes m (a + 1) n"

lemma length_read_bytes [simp]: "length (read_bytes m a n) = n"
  by (induction n arbitrary: a) auto

lemma read_bytes_append:
  "read_bytes m a (i + j) = read_bytes m a i @ read_bytes m (a + of_nat i) j"
  by (induction i arbitrary: a) (simp_all add: algebra_simps)

lemma read_bytes_snoc:
  "read_bytes m a (Suc n) = read_bytes m a n @ [m (a + of_nat n)]"
  using read_bytes_append [of m a n 1] by simp

lemma read_bytes_nth: "i < n \<Longrightarrow> read_bytes m a n ! i = m (a + of_nat i)"
proof (induction n arbitrary: a i)
  case 0
  then show ?case by simp
next
  case (Suc n)
  then show ?case by (cases i) (simp_all add: algebra_simps)
qed

lemma read_two: "read_bytes m a (unat (2 :: u16)) = [m a, m (a + 1)]"
proof -
  have "unat (2 :: u16) = Suc (Suc 0)"
    by simp
  then show ?thesis
    by (simp only: read_bytes.simps)
qed

lemma read_bytes_upd_other:
  "(\<forall>i < n. p \<noteq> a + of_nat i) \<Longrightarrow> read_bytes (m(p := b)) a n = read_bytes m a n"
  by (rule nth_equalityI) (auto simp: read_bytes_nth)

lemma read_bytes_cong: "(\<And>x. x < n \<Longrightarrow> m' (a + of_nat x) = m (a + of_nat x)) \<Longrightarrow> read_bytes m' a n = read_bytes m a n"
  by (rule nth_equalityI) (simp_all add: read_bytes_nth)

text \<open>The bytes of a word in memory, lowest first.\<close>

definition u32_bytes :: "u32 \<Rightarrow> u8 list" where
  "u32_bytes v = [ucast v, ucast (drop_bit 8 v), ucast (drop_bit 16 v), ucast (drop_bit 24 v)]"

lemma length_u32_bytes [simp]: "length (u32_bytes v) = 4"
  by (simp add: u32_bytes_def)

section \<open>The environment of a polling loop\<close>

text \<open>
  A polling loop of a driver reads the millisecond tick (\<open>HAL_GetTick\<close>) and a hardware
  register that the hardware changes by itself. Both are inputs of the model:
  \<^item> \<open>tickstart\<close>: the tick read at the entry of the routine;
  \<^item> \<open>tick_at i\<close>: the tick read in the \<open>i\<close>-th iteration of its loop;
  \<^item> \<open>stop_polls\<close>: how many reads of a DMA stream's \<open>EN\<close> bit still return 1 after the bit was
    cleared (the reference manual: the transfer of the current item is finished first).
\<close>

record hw_env =
  tickstart :: u32
  tick_at :: "nat \<Rightarrow> u32"
  stop_polls :: nat

section \<open>Values of machine integers\<close>

lemma unat_add16: "unat (a :: u16) + unat b < 65536 \<Longrightarrow> unat (a + b) = unat a + unat b"
  by (simp add: unat_word_ariths)

lemma unat_add32: "unat (a :: u32) + unat b < 4294967296 \<Longrightarrow> unat (a + b) = unat a + unat b"
  by (simp add: unat_word_ariths)

lemma unat_mult32: "unat (a :: u32) * unat b < 4294967296 \<Longrightarrow> unat (a * b) = unat a * unat b"
  by (simp add: unat_word_ariths)

lemma unat_u32_bound: "unat (s :: u32) < 4294967296"
  using unsigned_less [of s, where 'a = nat] by simp

lemma unat_u16_bound: "unat (s :: u16) < 65536"
  using unsigned_less [of s, where 'a = nat] by simp

lemma unat_u8_bound: "unat (s :: u8) < 256"
  using unsigned_less [of s, where 'a = nat] by simp

lemma unat_small: "n < 4294967296 \<Longrightarrow> unat (of_nat n :: u32) = n"
  by (simp only: unat_of_nat) simp

lemma unat_of_nat32: "n < 2 ^ 32 \<Longrightarrow> unat (of_nat n :: u32) = n"
  by (rule unat_small) simp

lemma unat_ucast16_32 [simp]: "unat (ucast (s :: u16) :: u32) = unat s"
  using unat_u16_bound [of s] by (simp add: unsigned_ucast_eq take_bit_nat_eq_self)

lemma unat_ucast8_16 [simp]: "unat (ucast (s :: u8) :: u16) = unat s"
  using unat_u8_bound [of s] by (simp add: unsigned_ucast_eq take_bit_nat_eq_self)

lemma unat_ucast8_32 [simp]: "unat (ucast (s :: u8) :: u32) = unat s"
  using unat_u8_bound [of s] by (simp add: unsigned_ucast_eq take_bit_nat_eq_self)

lemma unat_ucast32_16: "unat (a :: u32) < 65536 \<Longrightarrow> unat (ucast a :: u16) = unat a"
  by (simp add: unsigned_ucast_eq take_bit_nat_eq_self)

lemma unat_ucast16_8: "unat (a :: u16) < 256 \<Longrightarrow> unat (ucast a :: u8) = unat a"
  by (simp add: unsigned_ucast_eq take_bit_nat_eq_self)

lemma unat_sub16_32: "unat (n :: u32) \<le> unat (s :: u16) \<Longrightarrow> unat ((ucast s :: u32) - n) = unat s - unat n"
  by (simp add: unat_sub word_le_nat_alt)

lemma ucast16_32_nat: "(ucast (s :: u16) :: u32) = of_nat (unat s)"
  by (simp add: word_eq_iff_unsigned)

text \<open>A 16-bit counter that is not zero.\<close>

lemma u16_count_down: "0 < (c :: u16) \<Longrightarrow> \<exists>m. unat c = Suc m \<and> unat (c - 1) = m"
  by (metis unat_minus_one Suc_pred unat_gt_0 word_gt_0 diff_Suc_1)

lemma and_0xFF_u8: "(b :: u8) AND 0xFF = b"
proof -
  have "(0xFF :: u8) = - 1"
    by simp
  then show ?thesis
    by (simp only: and.right_neutral)
qed

lemma ucast_and_0xFF: "(ucast ((w :: u32) AND 0xFF) :: u8) = ucast w"
proof -
  have "(ucast (w AND 0xFF) :: u8) = ucast w AND ucast (0xFF :: u32)"
    by (rule bit_word_eqI) (auto simp: bit_simps)
  also have "(ucast (0xFF :: u32) :: u8) = 0xFF"
    by simp
  finally show ?thesis
    by (simp only: and_0xFF_u8)
qed

lemma of_nat_u32_nonzero: "0 < k \<Longrightarrow> k < 4294967296 \<Longrightarrow> (of_nat k :: u32) \<noteq> 0"
proof
  assume k: "0 < k" "k < 4294967296" "(of_nat k :: u32) = 0"
  have "unat (of_nat k :: u32) = k"
    using k(2) by (simp only: unat_of_nat) simp
  with k have "k = 0"
    by (metis unat_0)
  then show False
    using k(1) by simp
qed

lemma and_push_bit_sub: "(x :: u32) AND push_bit n k = 0 \<Longrightarrow> m AND k = m \<Longrightarrow> x AND push_bit n m = 0"
proof -
  assume a: "x AND push_bit n k = 0" "m AND k = m"
  have "x AND push_bit n m = x AND (push_bit n m AND push_bit n k)"
    using a(2) by (simp flip: push_bit_and)
  also have "\<dots> = push_bit n m AND (x AND push_bit n k)"
    by (rule and.left_commute)
  finally show ?thesis
    using a(1) by simp
qed

lemma bit_word_rcat:
  "bit (word_rcat (ws :: 'a::len word list) :: 'b::len word) n \<longleftrightarrow>
    n < LENGTH('b) \<and> n div LENGTH('a) < length ws \<and> bit (rev ws ! (n div LENGTH('a))) (n mod LENGTH('a))"
  by (simp add: word_rcat_def bit_word_of_int_iff bit_horner_sum_uint_exp_iff)

lemma rcat_u32_bytes: "word_rcat (rev (u32_bytes v)) = (v :: u32)"
proof (rule bit_word_eqI)
  fix n assume n: "n < LENGTH(32)"
  obtain q r where qr: "n = 8 * q + r" "r < 8" "q < 4"
    using n that [of "n div 8" "n mod 8"] by simp
  then have "n div 8 = q" "n mod 8 = r" "q = 0 \<or> q = 1 \<or> q = 2 \<or> q = 3"
    by auto
  then show "bit (word_rcat (rev (u32_bytes v)) :: u32) n = bit v n"
    using n qr by (auto simp: bit_word_rcat u32_bytes_def bit_simps)
qed

end
