(* ===== verification/HalDma.thy ===== *)
theory HalDma
  imports Prelude
begin

text \<open>
  The DMA driver, HALLIB/STM32F4xx_HAL_Driver/Src/stm32f4xx_hal_dma.c. A handle is the C
  struct \<open>DMA_HandleTypeDef\<close> together with the registers of the stream its \<open>Instance\<close> points
  to and the interrupt status word at its \<open>StreamBaseAddress\<close>: the driver reaches the
  hardware only through them. Callbacks are function pointers of the client: the handle is
  polymorphic in their type, \<open>None\<close> is \<open>NULL\<close>, and the interrupt handler is given a dispatcher
  and the access functions of the handle in the client's state.
\<close>

section \<open>Register masks (stm32f407xx.h, stm32f4xx_hal_dma.h)\<close>

abbreviation DMA_SxCR_EN :: u32 where "DMA_SxCR_EN \<equiv> 0x1"
abbreviation DMA_SxCR_CIRC :: u32 where "DMA_SxCR_CIRC \<equiv> 0x100"
abbreviation DMA_SxCR_DBM :: u32 where "DMA_SxCR_DBM \<equiv> 0x40000"
abbreviation DMA_SxCR_CT :: u32 where "DMA_SxCR_CT \<equiv> 0x80000"
abbreviation DMA_SxCR_MBURST :: u32 where "DMA_SxCR_MBURST \<equiv> 0x1800000"
abbreviation DMA_SxCR_MBURST_1 :: u32 where "DMA_SxCR_MBURST_1 \<equiv> 0x1000000"
abbreviation DMA_SxCR_CHSEL :: u32 where "DMA_SxCR_CHSEL \<equiv> 0xE000000"
abbreviation DMA_SxCR_PBURST :: u32 where "DMA_SxCR_PBURST \<equiv> 0x600000"
abbreviation DMA_SxCR_PL :: u32 where "DMA_SxCR_PL \<equiv> 0x30000"
abbreviation DMA_SxCR_MSIZE :: u32 where "DMA_SxCR_MSIZE \<equiv> 0x6000"
abbreviation DMA_SxCR_PSIZE :: u32 where "DMA_SxCR_PSIZE \<equiv> 0x1800"
abbreviation DMA_SxCR_MINC :: u32 where "DMA_SxCR_MINC \<equiv> 0x400"
abbreviation DMA_SxCR_PINC :: u32 where "DMA_SxCR_PINC \<equiv> 0x200"
abbreviation DMA_SxCR_DIR :: u32 where "DMA_SxCR_DIR \<equiv> 0xC0"
abbreviation DMA_SxFCR_DMDIS :: u32 where "DMA_SxFCR_DMDIS \<equiv> 0x4"
abbreviation DMA_SxFCR_FTH :: u32 where "DMA_SxFCR_FTH \<equiv> 0x3"

abbreviation DMA_IT_TC :: u32 where "DMA_IT_TC \<equiv> 0x10"
abbreviation DMA_IT_HT :: u32 where "DMA_IT_HT \<equiv> 0x8"
abbreviation DMA_IT_TE :: u32 where "DMA_IT_TE \<equiv> 0x4"
abbreviation DMA_IT_DME :: u32 where "DMA_IT_DME \<equiv> 0x2"
abbreviation DMA_IT_FE :: u32 where "DMA_IT_FE \<equiv> 0x80"

abbreviation DMA_FLAG_FEIF0_4 :: u32 where "DMA_FLAG_FEIF0_4 \<equiv> 0x00800001"
abbreviation DMA_FLAG_DMEIF0_4 :: u32 where "DMA_FLAG_DMEIF0_4 \<equiv> 0x00800004"
abbreviation DMA_FLAG_TEIF0_4 :: u32 where "DMA_FLAG_TEIF0_4 \<equiv> 0x8"
abbreviation DMA_FLAG_HTIF0_4 :: u32 where "DMA_FLAG_HTIF0_4 \<equiv> 0x10"
abbreviation DMA_FLAG_TCIF0_4 :: u32 where "DMA_FLAG_TCIF0_4 \<equiv> 0x20"

abbreviation HAL_DMA_ERROR_NONE :: u32 where "HAL_DMA_ERROR_NONE \<equiv> 0x0"
abbreviation HAL_DMA_ERROR_TE :: u32 where "HAL_DMA_ERROR_TE \<equiv> 0x1"
abbreviation HAL_DMA_ERROR_FE :: u32 where "HAL_DMA_ERROR_FE \<equiv> 0x2"
abbreviation HAL_DMA_ERROR_DME :: u32 where "HAL_DMA_ERROR_DME \<equiv> 0x4"
abbreviation HAL_DMA_ERROR_TIMEOUT :: u32 where "HAL_DMA_ERROR_TIMEOUT \<equiv> 0x20"
abbreviation HAL_DMA_ERROR_PARAM :: u32 where "HAL_DMA_ERROR_PARAM \<equiv> 0x40"
abbreviation HAL_DMA_ERROR_NO_XFER :: u32 where "HAL_DMA_ERROR_NO_XFER \<equiv> 0x80"

abbreviation DMA_MEMORY_TO_PERIPH :: u32 where "DMA_MEMORY_TO_PERIPH \<equiv> 0x40"
abbreviation DMA_PERIPH_TO_MEMORY :: u32 where "DMA_PERIPH_TO_MEMORY \<equiv> 0x0"
abbreviation DMA_FIFOMODE_DISABLE :: u32 where "DMA_FIFOMODE_DISABLE \<equiv> 0x0"
abbreviation DMA_FIFOMODE_ENABLE :: u32 where "DMA_FIFOMODE_ENABLE \<equiv> DMA_SxFCR_DMDIS"
abbreviation DMA_FIFO_THRESHOLD_1QUARTERFULL :: u32 where "DMA_FIFO_THRESHOLD_1QUARTERFULL \<equiv> 0x0"
abbreviation DMA_FIFO_THRESHOLD_HALFFULL :: u32 where "DMA_FIFO_THRESHOLD_HALFFULL \<equiv> 0x1"
abbreviation DMA_FIFO_THRESHOLD_3QUARTERSFULL :: u32 where "DMA_FIFO_THRESHOLD_3QUARTERSFULL \<equiv> 0x2"
abbreviation DMA_FIFO_THRESHOLD_FULL :: u32 where "DMA_FIFO_THRESHOLD_FULL \<equiv> 0x3"
abbreviation DMA_MBURST_SINGLE :: u32 where "DMA_MBURST_SINGLE \<equiv> 0x0"
abbreviation DMA_MBURST_INC16 :: u32 where "DMA_MBURST_INC16 \<equiv> 0x1800000"
abbreviation DMA_PBURST_SINGLE :: u32 where "DMA_PBURST_SINGLE \<equiv> 0x0"
abbreviation DMA_MDATAALIGN_BYTE :: u32 where "DMA_MDATAALIGN_BYTE \<equiv> 0x0"
abbreviation DMA_MDATAALIGN_HALFWORD :: u32 where "DMA_MDATAALIGN_HALFWORD \<equiv> 0x2000"
abbreviation DMA_PDATAALIGN_BYTE :: u32 where "DMA_PDATAALIGN_BYTE \<equiv> 0x0"
abbreviation DMA_PINC_DISABLE :: u32 where "DMA_PINC_DISABLE \<equiv> 0x0"
abbreviation DMA_MINC_ENABLE :: u32 where "DMA_MINC_ENABLE \<equiv> DMA_SxCR_MINC"
abbreviation DMA_NORMAL :: u32 where "DMA_NORMAL \<equiv> 0x0"
abbreviation DMA_PRIORITY_LOW :: u32 where "DMA_PRIORITY_LOW \<equiv> 0x0"
abbreviation DMA_PRIORITY_MEDIUM :: u32 where "DMA_PRIORITY_MEDIUM \<equiv> 0x10000"
abbreviation DMA_PRIORITY_HIGH :: u32 where "DMA_PRIORITY_HIGH \<equiv> 0x20000"
abbreviation DMA_CHANNEL_4 :: u32 where "DMA_CHANNEL_4 \<equiv> 0x8000000"
abbreviation DMA_CHANNEL_5 :: u32 where "DMA_CHANNEL_5 \<equiv> 0xA000000"

text \<open>\<open>HAL_TIMEOUT_DMA_ABORT\<close>, in milliseconds.\<close>

abbreviation HAL_TIMEOUT_DMA_ABORT :: u32 where "HAL_TIMEOUT_DMA_ABORT \<equiv> 5"

section \<open>The handle\<close>

datatype HAL_DMA_StateTypeDef =
    HAL_DMA_STATE_RESET | HAL_DMA_STATE_READY | HAL_DMA_STATE_BUSY
  | HAL_DMA_STATE_TIMEOUT | HAL_DMA_STATE_ERROR | HAL_DMA_STATE_ABORT

datatype HAL_DMA_CallbackIDTypeDef =
    HAL_DMA_XFER_CPLT_CB_ID | HAL_DMA_XFER_HALFCPLT_CB_ID | HAL_DMA_XFER_M1CPLT_CB_ID
  | HAL_DMA_XFER_M1HALFCPLT_CB_ID | HAL_DMA_XFER_ERROR_CB_ID | HAL_DMA_XFER_ABORT_CB_ID
  | HAL_DMA_XFER_ALL_CB_ID

record DMA_InitTypeDef =
  Channel :: u32
  Direction :: u32
  PeriphInc :: u32
  MemInc :: u32
  PeriphDataAlignment :: u32
  MemDataAlignment :: u32
  DMode :: u32
  Priority :: u32
  FIFOMode :: u32
  FIFOThreshold :: u32
  MemBurst :: u32
  PeriphBurst :: u32

text \<open>
  \<open>DInstance\<close> is the address of the stream's registers, \<open>S_CR\<close> to \<open>S_FCR\<close> the registers there
  (\<open>DMA_Stream_TypeDef\<close>), \<open>ISR\<close> the status word at \<open>StreamBaseAddress\<close> (\<open>LISR\<close> or \<open>HISR\<close>),
  which a write to the clear register behind it (\<open>IFCR\<close>) clears bit by bit. \<open>Parent\<close> is left
  out: it points back to the client's state, which the model passes explicitly.
\<close>

record 'cb DMA_HandleTypeDef =
  DInstance :: u32
  S_CR :: u32
  S_NDTR :: u32
  S_PAR :: u32
  S_M0AR :: u32
  S_M1AR :: u32
  S_FCR :: u32
  ISR :: u32
  DInit :: DMA_InitTypeDef
  DLock :: HAL_LockTypeDef
  DState :: HAL_DMA_StateTypeDef
  XferCpltCallback :: "'cb option"
  XferHalfCpltCallback :: "'cb option"
  XferM1CpltCallback :: "'cb option"
  XferM1HalfCpltCallback :: "'cb option"
  XferErrorCallback :: "'cb option"
  XferAbortCallback :: "'cb option"
  DErrorCode :: u32
  StreamBaseAddress :: u32
  StreamIndex :: u32

text \<open>\<open>__HAL_DMA_ENABLE\<close>, \<open>__HAL_DMA_DISABLE\<close>, \<open>__HAL_DMA_GET_IT_SOURCE\<close>, the shift of a flag
  mask to the stream's position, and a write to \<open>regs->IFCR\<close>.\<close>

definition HAL_DMA_ENABLE :: "'cb DMA_HandleTypeDef \<Rightarrow> 'cb DMA_HandleTypeDef" where
  "HAL_DMA_ENABLE h = h\<lparr>S_CR := SET_BIT (S_CR h) DMA_SxCR_EN\<rparr>"

definition HAL_DMA_DISABLE :: "'cb DMA_HandleTypeDef \<Rightarrow> 'cb DMA_HandleTypeDef" where
  "HAL_DMA_DISABLE h = h\<lparr>S_CR := CLEAR_BIT (S_CR h) DMA_SxCR_EN\<rparr>"

definition HAL_DMA_GET_IT_SOURCE :: "'cb DMA_HandleTypeDef \<Rightarrow> u32 \<Rightarrow> bool" where
  "HAL_DMA_GET_IT_SOURCE h it =
     (if it \<noteq> DMA_IT_FE then HAL_IS_BIT_SET (S_CR h) it else HAL_IS_BIT_SET (S_FCR h) it)"

definition stream_mask :: "'cb DMA_HandleTypeDef \<Rightarrow> u32 \<Rightarrow> u32" where
  "stream_mask h m = push_bit (unat (StreamIndex h)) m"

definition write_IFCR :: "u32 \<Rightarrow> 'cb DMA_HandleTypeDef \<Rightarrow> 'cb DMA_HandleTypeDef" where
  "write_IFCR m h = h\<lparr>ISR := CLEAR_BIT (ISR h) m\<rparr>"

lemmas dma_reg_defs = HAL_DMA_ENABLE_def HAL_DMA_DISABLE_def HAL_DMA_GET_IT_SOURCE_def
  stream_mask_def write_IFCR_def

text \<open>
  The loop \<open>while (CR & EN != RESET) { if (HAL_GetTick() - tickstart > lim) return ...; }\<close>:
  True when the stream is seen disabled, False when the time limit is passed first.
\<close>

function wait_stopped :: "hw_env \<Rightarrow> u32 \<Rightarrow> nat \<Rightarrow> bool" where
  "wait_stopped env lim i =
     (if i < stop_polls env
      then (if tick_at env i - tickstart env > lim then False else wait_stopped env lim (Suc i))
      else True)"
  by pat_completeness auto
termination
  by (relation "measure (\<lambda>(env, lim, i). stop_polls env - i)") auto

declare wait_stopped.simps [simp del]

definition stream_stops :: "hw_env \<Rightarrow> bool" where
  "stream_stops env = wait_stopped env HAL_TIMEOUT_DMA_ABORT 0"

lemma stream_stops_immediate: "stop_polls env = 0 \<Longrightarrow> stream_stops env"
  by (simp add: stream_stops_def wait_stopped.simps)

section \<open>Private functions\<close>

definition DMA_SetConfig ::
  "'cb DMA_HandleTypeDef \<Rightarrow> u32 \<Rightarrow> u32 \<Rightarrow> u32 \<Rightarrow> 'cb DMA_HandleTypeDef" where
  "DMA_SetConfig h SrcAddress DstAddress DataLength =
     (let h = h\<lparr>S_CR := CLEAR_BIT (S_CR h) DMA_SxCR_DBM\<rparr>;
          h = h\<lparr>S_NDTR := DataLength\<rparr>
      in if Direction (DInit h) = DMA_MEMORY_TO_PERIPH
         then h\<lparr>S_PAR := DstAddress, S_M0AR := SrcAddress\<rparr>
         else h\<lparr>S_PAR := SrcAddress, S_M0AR := DstAddress\<rparr>)"

definition flagBitshiftOffset :: "u32 list" where
  "flagBitshiftOffset = [0, 6, 16, 22, 0, 6, 16, 22]"

text \<open>The stream number indexes an array of 8: an \<open>Instance\<close> that is no stream would read
  outside it, so the model has no value there.\<close>

definition DMA_CalcBaseAndBitshift ::
  "'cb DMA_HandleTypeDef \<Rightarrow> (u32 \<times> 'cb DMA_HandleTypeDef) option" where
  "DMA_CalcBaseAndBitshift h =
     (let stream_number = ((DInstance h AND 0xFF) - 16) div 24
      in if unat stream_number < length flagBitshiftOffset then
           (let h = h\<lparr>StreamIndex := flagBitshiftOffset ! unat stream_number\<rparr>;
                h = (if stream_number > 3
                     then h\<lparr>StreamBaseAddress := (DInstance h AND NOT 0x3FF) + 4\<rparr>
                     else h\<lparr>StreamBaseAddress := DInstance h AND NOT 0x3FF\<rparr>)
            in Some (StreamBaseAddress h, h))
         else None)"

definition DMA_CheckFifoParam :: "'cb DMA_HandleTypeDef \<Rightarrow> HAL_StatusTypeDef" where
  "DMA_CheckFifoParam h =
     (let tmp = FIFOThreshold (DInit h); burst = MemBurst (DInit h);
          quarter = (tmp = DMA_FIFO_THRESHOLD_1QUARTERFULL \<or> tmp = DMA_FIFO_THRESHOLD_3QUARTERSFULL);
          burst8 = (burst AND DMA_SxCR_MBURST_1 = DMA_SxCR_MBURST_1)
      in if MemDataAlignment (DInit h) = DMA_MDATAALIGN_BYTE then
           (if quarter then (if burst8 then HAL_ERROR else HAL_OK)
            else if tmp = DMA_FIFO_THRESHOLD_HALFFULL then
              (if burst = DMA_MBURST_INC16 then HAL_ERROR else HAL_OK)
            else HAL_OK)
         else if MemDataAlignment (DInit h) = DMA_MDATAALIGN_HALFWORD then
           (if quarter then HAL_ERROR
            else if tmp = DMA_FIFO_THRESHOLD_HALFFULL then (if burst8 then HAL_ERROR else HAL_OK)
            else if tmp = DMA_FIFO_THRESHOLD_FULL then
              (if burst = DMA_MBURST_INC16 then HAL_ERROR else HAL_OK)
            else HAL_OK)
         else
           (if quarter \<or> tmp = DMA_FIFO_THRESHOLD_HALFFULL then HAL_ERROR
            else if tmp = DMA_FIFO_THRESHOLD_FULL then (if burst8 then HAL_ERROR else HAL_OK)
            else HAL_OK))"

section \<open>Initialisation\<close>

text \<open>The masks \<open>HAL_DMA_Init\<close> clears in \<open>CR\<close> and in \<open>FCR\<close>.\<close>

abbreviation DMA_Init_CR_mask :: u32 where
  "DMA_Init_CR_mask \<equiv> DMA_SxCR_CHSEL OR DMA_SxCR_MBURST OR DMA_SxCR_PBURST OR DMA_SxCR_PL
     OR DMA_SxCR_MSIZE OR DMA_SxCR_PSIZE OR DMA_SxCR_MINC OR DMA_SxCR_PINC OR DMA_SxCR_CIRC
     OR DMA_SxCR_DIR OR DMA_SxCR_CT OR DMA_SxCR_DBM"

abbreviation DMA_Init_FCR_mask :: u32 where
  "DMA_Init_FCR_mask \<equiv> DMA_SxFCR_DMDIS OR DMA_SxFCR_FTH"

definition DMA_Init_CR :: "DMA_InitTypeDef \<Rightarrow> u32 \<Rightarrow> u32" where
  "DMA_Init_CR i cr =
     (let tmp = CLEAR_BIT cr DMA_Init_CR_mask;
          tmp = tmp OR Channel i OR Direction i OR PeriphInc i OR MemInc i
                OR PeriphDataAlignment i OR MemDataAlignment i OR DMode i OR Priority i
      in if FIFOMode i = DMA_FIFOMODE_ENABLE then tmp OR MemBurst i OR PeriphBurst i else tmp)"

text \<open>
  \<open>None\<close> as the argument is the \<open>NULL\<close> handle. The outer \<open>option\<close> is \<open>None\<close> where
  \<open>DMA_CalcBaseAndBitshift\<close> would read outside its table.
\<close>

definition HAL_DMA_Init :: "hw_env \<Rightarrow> 'cb DMA_HandleTypeDef option
    \<Rightarrow> (HAL_StatusTypeDef \<times> 'cb DMA_HandleTypeDef option) option" where
  "HAL_DMA_Init env hdma =
     (case hdma of
        None \<Rightarrow> Some (HAL_ERROR, None)
      | Some h \<Rightarrow>
          (let h = h\<lparr>DLock := HAL_UNLOCKED\<rparr>;
               h = h\<lparr>DState := HAL_DMA_STATE_BUSY\<rparr>;
               enabled = HAL_IS_BIT_SET (S_CR h) DMA_SxCR_EN;
               h = HAL_DMA_DISABLE h
           in if enabled \<and> \<not> stream_stops env then
                Some (HAL_TIMEOUT,
                  Some ((HAL_DMA_ENABLE h)\<lparr>DErrorCode := HAL_DMA_ERROR_TIMEOUT,
                                           DState := HAL_DMA_STATE_TIMEOUT\<rparr>))
              else
                (let h = h\<lparr>S_CR := DMA_Init_CR (DInit h) (S_CR h)\<rparr>;
                     tmp = CLEAR_BIT (S_FCR h) DMA_Init_FCR_mask OR FIFOMode (DInit h);
                     fifo = (FIFOMode (DInit h) = DMA_FIFOMODE_ENABLE);
                     tmp = (if fifo then tmp OR FIFOThreshold (DInit h) else tmp)
                 in if fifo \<and> MemBurst (DInit h) \<noteq> DMA_MBURST_SINGLE
                       \<and> DMA_CheckFifoParam h \<noteq> HAL_OK then
                      Some (HAL_ERROR,
                        Some (h\<lparr>DErrorCode := HAL_DMA_ERROR_PARAM, DState := HAL_DMA_STATE_READY\<rparr>))
                    else
                      (case DMA_CalcBaseAndBitshift (h\<lparr>S_FCR := tmp\<rparr>) of
                         None \<Rightarrow> None
                       | Some (regs, h) \<Rightarrow>
                           (let h = write_IFCR (stream_mask h 0x3F) h;
                                h = h\<lparr>DErrorCode := HAL_DMA_ERROR_NONE\<rparr>;
                                h = h\<lparr>DState := HAL_DMA_STATE_READY\<rparr>
                            in Some (HAL_OK, Some h))))))"

definition HAL_DMA_DeInit :: "'cb DMA_HandleTypeDef option
    \<Rightarrow> (HAL_StatusTypeDef \<times> 'cb DMA_HandleTypeDef option) option" where
  "HAL_DMA_DeInit hdma =
     (case hdma of
        None \<Rightarrow> Some (HAL_ERROR, None)
      | Some h \<Rightarrow>
          if DState h = HAL_DMA_STATE_BUSY then Some (HAL_BUSY, Some h)
          else
            (let h = HAL_DMA_DISABLE h;
                 h = h\<lparr>S_CR := 0, S_NDTR := 0, S_PAR := 0, S_M0AR := 0, S_M1AR := 0,
                       S_FCR := 0x21\<rparr>
             in (case DMA_CalcBaseAndBitshift h of
                   None \<Rightarrow> None
                 | Some (regs, h) \<Rightarrow>
                     (let h = write_IFCR (stream_mask h 0x3F) h;
                          h = h\<lparr>DErrorCode := HAL_DMA_ERROR_NONE\<rparr>;
                          h = h\<lparr>DState := HAL_DMA_STATE_RESET\<rparr>;
                          h = h\<lparr>DLock := HAL_UNLOCKED\<rparr>
                      in Some (HAL_OK, Some h)))))"

section \<open>Starting and aborting a transfer\<close>

definition HAL_DMA_Start :: "'cb DMA_HandleTypeDef \<Rightarrow> u32 \<Rightarrow> u32 \<Rightarrow> u32
    \<Rightarrow> HAL_StatusTypeDef \<times> 'cb DMA_HandleTypeDef" where
  "HAL_DMA_Start h SrcAddress DstAddress DataLength =
     (if DLock h = HAL_LOCKED then (HAL_BUSY, h)
      else
        (let h = h\<lparr>DLock := HAL_LOCKED\<rparr>
         in if DState h = HAL_DMA_STATE_READY then
              (let h = h\<lparr>DState := HAL_DMA_STATE_BUSY\<rparr>;
                   h = h\<lparr>DErrorCode := HAL_DMA_ERROR_NONE\<rparr>;
                   h = DMA_SetConfig h SrcAddress DstAddress DataLength
               in (HAL_OK, HAL_DMA_ENABLE h))
            else (HAL_BUSY, h\<lparr>DLock := HAL_UNLOCKED\<rparr>)))"

definition HAL_DMA_Start_IT :: "'cb DMA_HandleTypeDef \<Rightarrow> u32 \<Rightarrow> u32 \<Rightarrow> u32
    \<Rightarrow> HAL_StatusTypeDef \<times> 'cb DMA_HandleTypeDef" where
  "HAL_DMA_Start_IT h SrcAddress DstAddress DataLength =
     (if DLock h = HAL_LOCKED then (HAL_BUSY, h)
      else
        (let h = h\<lparr>DLock := HAL_LOCKED\<rparr>
         in if DState h = HAL_DMA_STATE_READY then
              (let h = h\<lparr>DState := HAL_DMA_STATE_BUSY\<rparr>;
                   h = h\<lparr>DErrorCode := HAL_DMA_ERROR_NONE\<rparr>;
                   h = DMA_SetConfig h SrcAddress DstAddress DataLength;
                   h = write_IFCR (stream_mask h 0x3F) h;
                   h = h\<lparr>S_CR := SET_BIT (S_CR h) (DMA_IT_TC OR DMA_IT_TE OR DMA_IT_DME)\<rparr>;
                   h = h\<lparr>S_FCR := SET_BIT (S_FCR h) DMA_IT_FE\<rparr>;
                   h = (if XferHalfCpltCallback h \<noteq> None
                        then h\<lparr>S_CR := SET_BIT (S_CR h) DMA_IT_HT\<rparr> else h)
               in (HAL_OK, HAL_DMA_ENABLE h))
            else (HAL_BUSY, h\<lparr>DLock := HAL_UNLOCKED\<rparr>)))"

text \<open>The interrupt enables an abort turns off, shared by \<open>HAL_DMA_Abort\<close> and the abort
  branch of the interrupt handler.\<close>

definition dma_disable_its :: "'cb DMA_HandleTypeDef \<Rightarrow> 'cb DMA_HandleTypeDef" where
  "dma_disable_its h =
     (let h = h\<lparr>S_CR := CLEAR_BIT (S_CR h) (DMA_IT_TC OR DMA_IT_TE OR DMA_IT_DME)\<rparr>;
          h = h\<lparr>S_FCR := CLEAR_BIT (S_FCR h) DMA_IT_FE\<rparr>
      in if XferHalfCpltCallback h \<noteq> None \<or> XferM1HalfCpltCallback h \<noteq> None
         then h\<lparr>S_CR := CLEAR_BIT (S_CR h) DMA_IT_HT\<rparr> else h)"

definition HAL_DMA_Abort :: "hw_env \<Rightarrow> 'cb DMA_HandleTypeDef
    \<Rightarrow> HAL_StatusTypeDef \<times> 'cb DMA_HandleTypeDef" where
  "HAL_DMA_Abort env h =
     (if DState h \<noteq> HAL_DMA_STATE_BUSY then
        (HAL_ERROR, h\<lparr>DErrorCode := HAL_DMA_ERROR_NO_XFER, DLock := HAL_UNLOCKED\<rparr>)
      else
        (let h = dma_disable_its h;
             enabled = HAL_IS_BIT_SET (S_CR h) DMA_SxCR_EN;
             h = HAL_DMA_DISABLE h
         in if enabled \<and> \<not> stream_stops env then
              (HAL_TIMEOUT,
                (HAL_DMA_ENABLE h)\<lparr>DErrorCode := HAL_DMA_ERROR_TIMEOUT, DLock := HAL_UNLOCKED,
                                   DState := HAL_DMA_STATE_TIMEOUT\<rparr>)
            else
              (let h = write_IFCR (stream_mask h 0x3F) h;
                   h = h\<lparr>DLock := HAL_UNLOCKED\<rparr>;
                   h = h\<lparr>DState := HAL_DMA_STATE_READY\<rparr>
               in (HAL_OK, h))))"

definition HAL_DMA_Abort_IT ::
  "'cb DMA_HandleTypeDef \<Rightarrow> HAL_StatusTypeDef \<times> 'cb DMA_HandleTypeDef" where
  "HAL_DMA_Abort_IT h =
     (if DState h \<noteq> HAL_DMA_STATE_BUSY then
        (HAL_ERROR, h\<lparr>DErrorCode := HAL_DMA_ERROR_NO_XFER\<rparr>)
      else (HAL_OK, HAL_DMA_DISABLE (h\<lparr>DState := HAL_DMA_STATE_ABORT\<rparr>)))"

section \<open>The interrupt handler\<close>

text \<open>
  \<open>HAL_DMA_IRQHandler\<close> reads the status word once (\<open>tmpisr\<close>) and then works through the five
  flags in order. The error flags touch the handle only. The half-transfer and the
  transfer-complete parts call callbacks, which may change the handle (restart it, for
  instance), so they work on the client's state: \<open>get\<close> reads the handle in it, \<open>upd\<close> changes
  it there, \<open>call\<close> runs a callback.
\<close>

definition dma_irq_TE :: "u32 \<Rightarrow> 'cb DMA_HandleTypeDef \<Rightarrow> 'cb DMA_HandleTypeDef" where
  "dma_irq_TE tmpisr h =
     (if HAL_IS_BIT_SET tmpisr (stream_mask h DMA_FLAG_TEIF0_4) then
        (if HAL_DMA_GET_IT_SOURCE h DMA_IT_TE then
           (let h = h\<lparr>S_CR := CLEAR_BIT (S_CR h) DMA_IT_TE\<rparr>;
                h = write_IFCR (stream_mask h DMA_FLAG_TEIF0_4) h
            in h\<lparr>DErrorCode := DErrorCode h OR HAL_DMA_ERROR_TE\<rparr>)
         else h)
      else h)"

definition dma_irq_FE :: "u32 \<Rightarrow> 'cb DMA_HandleTypeDef \<Rightarrow> 'cb DMA_HandleTypeDef" where
  "dma_irq_FE tmpisr h =
     (if HAL_IS_BIT_SET tmpisr (stream_mask h DMA_FLAG_FEIF0_4) then
        (if HAL_DMA_GET_IT_SOURCE h DMA_IT_FE then
           (let h = write_IFCR (stream_mask h DMA_FLAG_FEIF0_4) h
            in h\<lparr>DErrorCode := DErrorCode h OR HAL_DMA_ERROR_FE\<rparr>)
         else h)
      else h)"

definition dma_irq_DME :: "u32 \<Rightarrow> 'cb DMA_HandleTypeDef \<Rightarrow> 'cb DMA_HandleTypeDef" where
  "dma_irq_DME tmpisr h =
     (if HAL_IS_BIT_SET tmpisr (stream_mask h DMA_FLAG_DMEIF0_4) then
        (if HAL_DMA_GET_IT_SOURCE h DMA_IT_DME then
           (let h = write_IFCR (stream_mask h DMA_FLAG_DMEIF0_4) h
            in h\<lparr>DErrorCode := DErrorCode h OR HAL_DMA_ERROR_DME\<rparr>)
         else h)
      else h)"

text \<open>\<open>if (cb != NULL) cb(hdma);\<close>\<close>

definition call_cb :: "('cb \<Rightarrow> 's \<Rightarrow> 's) \<Rightarrow> 'cb option \<Rightarrow> 's \<Rightarrow> 's" where
  "call_cb call cb s = (case cb of None \<Rightarrow> s | Some f \<Rightarrow> call f s)"

definition dma_irq_HT :: "('s \<Rightarrow> 'cb DMA_HandleTypeDef)
    \<Rightarrow> (('cb DMA_HandleTypeDef \<Rightarrow> 'cb DMA_HandleTypeDef) \<Rightarrow> 's \<Rightarrow> 's)
    \<Rightarrow> ('cb \<Rightarrow> 's \<Rightarrow> 's) \<Rightarrow> u32 \<Rightarrow> 's \<Rightarrow> 's" where
  "dma_irq_HT get upd call tmpisr s =
     (if HAL_IS_BIT_SET tmpisr (stream_mask (get s) DMA_FLAG_HTIF0_4) then
        (if HAL_DMA_GET_IT_SOURCE (get s) DMA_IT_HT then
           (let s = upd (\<lambda>h. write_IFCR (stream_mask h DMA_FLAG_HTIF0_4) h) s
            in if HAL_IS_BIT_SET (S_CR (get s)) DMA_SxCR_DBM then
                 (if \<not> HAL_IS_BIT_SET (S_CR (get s)) DMA_SxCR_CT
                  then call_cb call (XferHalfCpltCallback (get s)) s
                  else call_cb call (XferM1HalfCpltCallback (get s)) s)
               else
                 (let s = (if \<not> HAL_IS_BIT_SET (S_CR (get s)) DMA_SxCR_CIRC
                           then upd (\<lambda>h. h\<lparr>S_CR := CLEAR_BIT (S_CR h) DMA_IT_HT\<rparr>) s else s)
                  in call_cb call (XferHalfCpltCallback (get s)) s))
         else s)
      else s)"

text \<open>The abort branch inside the transfer-complete part ends the handler (\<open>return\<close>): the
  first component is True then.\<close>

definition dma_irq_TC :: "('s \<Rightarrow> 'cb DMA_HandleTypeDef)
    \<Rightarrow> (('cb DMA_HandleTypeDef \<Rightarrow> 'cb DMA_HandleTypeDef) \<Rightarrow> 's \<Rightarrow> 's)
    \<Rightarrow> ('cb \<Rightarrow> 's \<Rightarrow> 's) \<Rightarrow> u32 \<Rightarrow> 's \<Rightarrow> bool \<times> 's" where
  "dma_irq_TC get upd call tmpisr s =
     (if HAL_IS_BIT_SET tmpisr (stream_mask (get s) DMA_FLAG_TCIF0_4) then
        (if HAL_DMA_GET_IT_SOURCE (get s) DMA_IT_TC then
           (let s = upd (\<lambda>h. write_IFCR (stream_mask h DMA_FLAG_TCIF0_4) h) s
            in if DState (get s) = HAL_DMA_STATE_ABORT then
                 (let s = upd dma_disable_its s;
                      s = upd (\<lambda>h. write_IFCR (stream_mask h 0x3F) h) s;
                      s = upd (\<lambda>h. h\<lparr>DLock := HAL_UNLOCKED\<rparr>) s;
                      s = upd (\<lambda>h. h\<lparr>DState := HAL_DMA_STATE_READY\<rparr>) s
                  in (True, call_cb call (XferAbortCallback (get s)) s))
               else if HAL_IS_BIT_SET (S_CR (get s)) DMA_SxCR_DBM then
                 (if \<not> HAL_IS_BIT_SET (S_CR (get s)) DMA_SxCR_CT
                  then (False, call_cb call (XferM1CpltCallback (get s)) s)
                  else (False, call_cb call (XferCpltCallback (get s)) s))
               else
                 (let s = (if \<not> HAL_IS_BIT_SET (S_CR (get s)) DMA_SxCR_CIRC
                           then upd (\<lambda>h. h\<lparr>S_CR := CLEAR_BIT (S_CR h) DMA_IT_TC,
                                           DLock := HAL_UNLOCKED,
                                           DState := HAL_DMA_STATE_READY\<rparr>) s
                           else s)
                  in (False, call_cb call (XferCpltCallback (get s)) s)))
         else (False, s))
      else (False, s))"

text \<open>The error case at the end. Its \<open>do ... while\<close> loop only waits (a bounded number of
  rounds) for the stream to stop and changes nothing.\<close>

definition dma_irq_error :: "('s \<Rightarrow> 'cb DMA_HandleTypeDef)
    \<Rightarrow> (('cb DMA_HandleTypeDef \<Rightarrow> 'cb DMA_HandleTypeDef) \<Rightarrow> 's \<Rightarrow> 's)
    \<Rightarrow> ('cb \<Rightarrow> 's \<Rightarrow> 's) \<Rightarrow> 's \<Rightarrow> 's" where
  "dma_irq_error get upd call s =
     (if DErrorCode (get s) \<noteq> HAL_DMA_ERROR_NONE then
        (let s = (if HAL_IS_BIT_SET (DErrorCode (get s)) HAL_DMA_ERROR_TE then
                    (let s = upd (\<lambda>h. h\<lparr>DState := HAL_DMA_STATE_ABORT\<rparr>) s;
                         s = upd HAL_DMA_DISABLE s;
                         s = upd (\<lambda>h. h\<lparr>DLock := HAL_UNLOCKED\<rparr>) s
                     in upd (\<lambda>h. h\<lparr>DState := HAL_DMA_STATE_READY\<rparr>) s)
                  else s)
         in call_cb call (XferErrorCallback (get s)) s)
      else s)"

definition HAL_DMA_IRQHandler :: "('s \<Rightarrow> 'cb DMA_HandleTypeDef)
    \<Rightarrow> (('cb DMA_HandleTypeDef \<Rightarrow> 'cb DMA_HandleTypeDef) \<Rightarrow> 's \<Rightarrow> 's)
    \<Rightarrow> ('cb \<Rightarrow> 's \<Rightarrow> 's) \<Rightarrow> 's \<Rightarrow> 's" where
  "HAL_DMA_IRQHandler get upd call s =
     (let tmpisr = ISR (get s);
          s = upd (dma_irq_TE tmpisr) s;
          s = upd (dma_irq_FE tmpisr) s;
          s = upd (dma_irq_DME tmpisr) s;
          s = dma_irq_HT get upd call tmpisr s;
          (returned, s) = dma_irq_TC get upd call tmpisr s
      in if returned then s else dma_irq_error get upd call s)"

section \<open>Callback registration, state queries\<close>

definition HAL_DMA_RegisterCallback :: "'cb DMA_HandleTypeDef \<Rightarrow> HAL_DMA_CallbackIDTypeDef
    \<Rightarrow> 'cb option \<Rightarrow> HAL_StatusTypeDef \<times> 'cb DMA_HandleTypeDef" where
  "HAL_DMA_RegisterCallback h CallbackID pCallback =
     (if DLock h = HAL_LOCKED then (HAL_BUSY, h)
      else
        (let h = h\<lparr>DLock := HAL_LOCKED\<rparr>;
             (status, h) =
               (if DState h = HAL_DMA_STATE_READY then
                  (case CallbackID of
                     HAL_DMA_XFER_CPLT_CB_ID \<Rightarrow> (HAL_OK, h\<lparr>XferCpltCallback := pCallback\<rparr>)
                   | HAL_DMA_XFER_HALFCPLT_CB_ID \<Rightarrow> (HAL_OK, h\<lparr>XferHalfCpltCallback := pCallback\<rparr>)
                   | HAL_DMA_XFER_M1CPLT_CB_ID \<Rightarrow> (HAL_OK, h\<lparr>XferM1CpltCallback := pCallback\<rparr>)
                   | HAL_DMA_XFER_M1HALFCPLT_CB_ID \<Rightarrow> (HAL_OK, h\<lparr>XferM1HalfCpltCallback := pCallback\<rparr>)
                   | HAL_DMA_XFER_ERROR_CB_ID \<Rightarrow> (HAL_OK, h\<lparr>XferErrorCallback := pCallback\<rparr>)
                   | HAL_DMA_XFER_ABORT_CB_ID \<Rightarrow> (HAL_OK, h\<lparr>XferAbortCallback := pCallback\<rparr>)
                   | HAL_DMA_XFER_ALL_CB_ID \<Rightarrow> (HAL_OK, h))
                else (HAL_ERROR, h))
         in (status, h\<lparr>DLock := HAL_UNLOCKED\<rparr>)))"

definition HAL_DMA_UnRegisterCallback :: "'cb DMA_HandleTypeDef \<Rightarrow> HAL_DMA_CallbackIDTypeDef
    \<Rightarrow> HAL_StatusTypeDef \<times> 'cb DMA_HandleTypeDef" where
  "HAL_DMA_UnRegisterCallback h CallbackID =
     (if DLock h = HAL_LOCKED then (HAL_BUSY, h)
      else
        (let h = h\<lparr>DLock := HAL_LOCKED\<rparr>;
             (status, h) =
               (if DState h = HAL_DMA_STATE_READY then
                  (case CallbackID of
                     HAL_DMA_XFER_CPLT_CB_ID \<Rightarrow> (HAL_OK, h\<lparr>XferCpltCallback := None\<rparr>)
                   | HAL_DMA_XFER_HALFCPLT_CB_ID \<Rightarrow> (HAL_OK, h\<lparr>XferHalfCpltCallback := None\<rparr>)
                   | HAL_DMA_XFER_M1CPLT_CB_ID \<Rightarrow> (HAL_OK, h\<lparr>XferM1CpltCallback := None\<rparr>)
                   | HAL_DMA_XFER_M1HALFCPLT_CB_ID \<Rightarrow> (HAL_OK, h\<lparr>XferM1HalfCpltCallback := None\<rparr>)
                   | HAL_DMA_XFER_ERROR_CB_ID \<Rightarrow> (HAL_OK, h\<lparr>XferErrorCallback := None\<rparr>)
                   | HAL_DMA_XFER_ABORT_CB_ID \<Rightarrow> (HAL_OK, h\<lparr>XferAbortCallback := None\<rparr>)
                   | HAL_DMA_XFER_ALL_CB_ID \<Rightarrow>
                       (HAL_OK, h\<lparr>XferCpltCallback := None, XferHalfCpltCallback := None,
                                  XferM1CpltCallback := None, XferM1HalfCpltCallback := None,
                                  XferErrorCallback := None, XferAbortCallback := None\<rparr>))
                else (HAL_ERROR, h))
         in (status, h\<lparr>DLock := HAL_UNLOCKED\<rparr>)))"

definition HAL_DMA_GetState :: "'cb DMA_HandleTypeDef \<Rightarrow> HAL_DMA_StateTypeDef" where
  "HAL_DMA_GetState h = DState h"

definition HAL_DMA_GetError :: "'cb DMA_HandleTypeDef \<Rightarrow> u32" where
  "HAL_DMA_GetError h = DErrorCode h"


section \<open>The lock discipline of a handle\<close>

text \<open>
  A handle that runs a transfer is locked, and only a handle that runs or aborts one is. Every
  operation keeps this, whatever its branch, so a handle in state \<open>READY\<close> can always be started.
\<close>

definition dma_lock_ok :: "'cb DMA_HandleTypeDef \<Rightarrow> bool" where
  "dma_lock_ok h \<longleftrightarrow>
     (DState h = HAL_DMA_STATE_BUSY \<longrightarrow> DLock h = HAL_LOCKED) \<and>
     (DLock h = HAL_LOCKED \<longrightarrow> DState h \<in> {HAL_DMA_STATE_BUSY, HAL_DMA_STATE_ABORT})"

text \<open>Updates that touch neither the state nor the lock.\<close>

definition same_lock :: "'cb DMA_HandleTypeDef \<Rightarrow> 'cb DMA_HandleTypeDef \<Rightarrow> bool" where
  "same_lock h h' \<longleftrightarrow> DState h' = DState h \<and> DLock h' = DLock h"

lemma same_lock_ok: "same_lock h h' \<Longrightarrow> dma_lock_ok h' = dma_lock_ok h"
  by (simp add: same_lock_def dma_lock_ok_def)

lemma same_lock_parts:
  "same_lock h (write_IFCR m h)" "same_lock h (HAL_DMA_ENABLE h)" "same_lock h (HAL_DMA_DISABLE h)"
  "same_lock h (dma_irq_TE t h)" "same_lock h (dma_irq_FE t h)" "same_lock h (dma_irq_DME t h)"
  "same_lock h (dma_disable_its h)" "same_lock h (DMA_SetConfig h s d n)"
  by (simp_all add: same_lock_def dma_reg_defs dma_irq_TE_def dma_irq_FE_def dma_irq_DME_def
      dma_disable_its_def DMA_SetConfig_def Let_def)

lemmas dma_lock_parts = same_lock_parts [THEN same_lock_ok]

lemma same_lock_DMA_CalcBaseAndBitshift:
  "DMA_CalcBaseAndBitshift h = Some (r, h') \<Longrightarrow> same_lock h h'"
  by (auto simp: DMA_CalcBaseAndBitshift_def same_lock_def Let_def split: if_splits)

lemma HAL_DMA_Init_lock_ok:
  "HAL_DMA_Init env (Some h) = Some (st, Some h') \<Longrightarrow> dma_lock_ok h'"
  by (auto simp: HAL_DMA_Init_def Let_def dma_lock_ok_def DMA_CalcBaseAndBitshift_def
      HAL_DMA_ENABLE_def HAL_DMA_DISABLE_def write_IFCR_def split: if_splits option.splits)

lemma HAL_DMA_DeInit_lock_ok:
  "HAL_DMA_DeInit (Some h) = Some (st, Some h') \<Longrightarrow> dma_lock_ok h \<Longrightarrow> dma_lock_ok h'"
  by (auto simp: HAL_DMA_DeInit_def Let_def dma_lock_ok_def DMA_CalcBaseAndBitshift_def
      HAL_DMA_DISABLE_def write_IFCR_def split: if_splits option.splits)

lemma HAL_DMA_Start_lock_ok: "dma_lock_ok h \<Longrightarrow> dma_lock_ok (snd (HAL_DMA_Start h s d n))"
  by (auto simp: HAL_DMA_Start_def Let_def dma_lock_ok_def DMA_SetConfig_def HAL_DMA_ENABLE_def)

lemma HAL_DMA_Start_IT_lock_ok: "dma_lock_ok h \<Longrightarrow> dma_lock_ok (snd (HAL_DMA_Start_IT h s d n))"
  by (auto simp: HAL_DMA_Start_IT_def Let_def dma_lock_ok_def DMA_SetConfig_def
      HAL_DMA_ENABLE_def write_IFCR_def)

lemma HAL_DMA_Abort_lock_ok: "dma_lock_ok h \<Longrightarrow> dma_lock_ok (snd (HAL_DMA_Abort env h))"
  by (auto simp: HAL_DMA_Abort_def Let_def dma_lock_ok_def HAL_DMA_ENABLE_def HAL_DMA_DISABLE_def
      write_IFCR_def)

lemma HAL_DMA_Abort_IT_lock_ok: "dma_lock_ok h \<Longrightarrow> dma_lock_ok (snd (HAL_DMA_Abort_IT h))"
  by (auto simp: HAL_DMA_Abort_IT_def Let_def dma_lock_ok_def HAL_DMA_DISABLE_def)

lemma HAL_DMA_RegisterCallback_lock_ok:
  "dma_lock_ok h \<Longrightarrow> dma_lock_ok (snd (HAL_DMA_RegisterCallback h i cb))"
  by (auto simp: HAL_DMA_RegisterCallback_def Let_def dma_lock_ok_def
      split: HAL_DMA_CallbackIDTypeDef.splits)

lemma HAL_DMA_UnRegisterCallback_lock_ok:
  "dma_lock_ok h \<Longrightarrow> dma_lock_ok (snd (HAL_DMA_UnRegisterCallback h i))"
  by (auto simp: HAL_DMA_UnRegisterCallback_def Let_def dma_lock_ok_def
      split: HAL_DMA_CallbackIDTypeDef.splits)

section \<open>Starting, aborting, restarting\<close>

text \<open>The stream registers of a running transfer: what \<open>HAL_DMA_Start_IT\<close> leaves.\<close>

definition dma_running :: "u32 \<Rightarrow> u32 \<Rightarrow> u32 \<Rightarrow> 'cb DMA_HandleTypeDef \<Rightarrow> bool" where
  "dma_running par m0 n h \<longleftrightarrow>
     DState h = HAL_DMA_STATE_BUSY \<and> DLock h = HAL_LOCKED \<and> DErrorCode h = HAL_DMA_ERROR_NONE \<and>
     HAL_IS_BIT_SET (S_CR h) DMA_SxCR_EN \<and> \<not> HAL_IS_BIT_SET (S_CR h) DMA_SxCR_DBM \<and>
     HAL_IS_BIT_SET (S_CR h) DMA_IT_TC \<and> HAL_IS_BIT_SET (S_CR h) DMA_IT_TE \<and>
     HAL_IS_BIT_SET (S_CR h) DMA_IT_DME \<and> HAL_IS_BIT_SET (S_FCR h) DMA_IT_FE \<and>
     S_NDTR h = n \<and> S_PAR h = par \<and> S_M0AR h = m0 \<and>
     \<not> HAL_IS_BIT_SET (ISR h) (stream_mask h 0x3F)"

lemma HAL_DMA_Start_IT_p2m:
  assumes "dma_lock_ok h" "DState h = HAL_DMA_STATE_READY"
    and "Direction (DInit h) = DMA_PERIPH_TO_MEMORY"
  shows "\<exists>h'. HAL_DMA_Start_IT h src dst n = (HAL_OK, h') \<and> dma_running src dst n h'"
  using assms
  by (cases "DLock h")
    (auto simp: HAL_DMA_Start_IT_def dma_running_def dma_lock_ok_def DMA_SetConfig_def
      HAL_DMA_ENABLE_def write_IFCR_def stream_mask_def flag_simps Let_def)

lemma HAL_DMA_Start_IT_m2p:
  assumes "dma_lock_ok h" "DState h = HAL_DMA_STATE_READY"
    and "Direction (DInit h) = DMA_MEMORY_TO_PERIPH"
  shows "\<exists>h'. HAL_DMA_Start_IT h src dst n = (HAL_OK, h') \<and> dma_running dst src n h'"
  using assms
  by (cases "DLock h")
    (auto simp: HAL_DMA_Start_IT_def dma_running_def dma_lock_ok_def DMA_SetConfig_def
      HAL_DMA_ENABLE_def write_IFCR_def stream_mask_def flag_simps Let_def)

lemma HAL_DMA_Start_IT_busy:
  "DState h \<noteq> HAL_DMA_STATE_READY \<Longrightarrow> dma_lock_ok h \<Longrightarrow>
   HAL_DMA_Start_IT h src dst n =
     (HAL_BUSY, if DLock h = HAL_LOCKED then h else h\<lparr>DLock := HAL_UNLOCKED\<rparr>)"
  by (simp add: HAL_DMA_Start_IT_def Let_def)

lemma HAL_DMA_Abort_stops:
  assumes "DState h = HAL_DMA_STATE_BUSY" "stream_stops env"
  shows "\<exists>h'. HAL_DMA_Abort env h = (HAL_OK, h') \<and>
    DState h' = HAL_DMA_STATE_READY \<and> DLock h' = HAL_UNLOCKED \<and>
    \<not> HAL_IS_BIT_SET (S_CR h') DMA_SxCR_EN \<and> \<not> HAL_IS_BIT_SET (S_CR h') DMA_IT_TC \<and>
    \<not> HAL_IS_BIT_SET (ISR h') (stream_mask h 0x3F) \<and>
    S_NDTR h' = S_NDTR h \<and> DInit h' = DInit h \<and> StreamIndex h' = StreamIndex h"
  using assms
  by (simp add: HAL_DMA_Abort_def dma_disable_its_def HAL_DMA_DISABLE_def write_IFCR_def
      stream_mask_def flag_simps Let_def)

text \<open>The fields the operations leave alone: which stream it is and how it was set up.\<close>

definition dma_same_setup :: "'cb DMA_HandleTypeDef \<Rightarrow> 'cb DMA_HandleTypeDef \<Rightarrow> bool" where
  "dma_same_setup h h' \<longleftrightarrow>
     DInstance h' = DInstance h \<and> DInit h' = DInit h \<and> StreamIndex h' = StreamIndex h \<and>
     StreamBaseAddress h' = StreamBaseAddress h"

lemma dma_same_setup_ops:
  "dma_same_setup h (snd (HAL_DMA_Start h s d n))"
  "dma_same_setup h (snd (HAL_DMA_Start_IT h s d n))"
  "dma_same_setup h (snd (HAL_DMA_Abort env h))"
  "dma_same_setup h (snd (HAL_DMA_Abort_IT h))"
  by (simp_all add: dma_same_setup_def HAL_DMA_Start_def HAL_DMA_Start_IT_def HAL_DMA_Abort_def
      HAL_DMA_Abort_IT_def DMA_SetConfig_def dma_disable_its_def dma_reg_defs Let_def)

lemma dma_disable_its_fields [simp]:
  "DState (dma_disable_its h) = DState h" "DLock (dma_disable_its h) = DLock h"
  "ISR (dma_disable_its h) = ISR h" "StreamIndex (dma_disable_its h) = StreamIndex h"
  "XferAbortCallback (dma_disable_its h) = XferAbortCallback h"
  by (simp_all add: dma_disable_its_def Let_def)

lemma write_IFCR_fields [simp]:
  "DState (write_IFCR m h) = DState h" "DLock (write_IFCR m h) = DLock h"
  "S_CR (write_IFCR m h) = S_CR h" "StreamIndex (write_IFCR m h) = StreamIndex h"
  "XferAbortCallback (write_IFCR m h) = XferAbortCallback h"
  by (simp_all add: write_IFCR_def)

text \<open>What the interrupt handler does to a handle whose abort has completed.\<close>

definition dma_finish_abort :: "'cb DMA_HandleTypeDef \<Rightarrow> 'cb DMA_HandleTypeDef" where
  "dma_finish_abort h =
     (write_IFCR (stream_mask h 0x3F)
       (dma_disable_its (write_IFCR (stream_mask h DMA_FLAG_TCIF0_4) h)))
       \<lparr>DLock := HAL_UNLOCKED, DState := HAL_DMA_STATE_READY\<rparr>"

lemma dma_finish_abort_ready:
  "DState (dma_finish_abort h) = HAL_DMA_STATE_READY" "DLock (dma_finish_abort h) = HAL_UNLOCKED"
  "\<not> HAL_IS_BIT_SET (ISR (dma_finish_abort h)) (stream_mask h 0x3F)"
  by (simp_all add: dma_finish_abort_def write_IFCR_def flag_simps)

section \<open>The owner of a handle\<close>

text \<open>
  The interrupt handler works on a handle inside its client's state. What it needs of the
  client is that \<open>get\<close> and \<open>upd\<close> access one field: an update is seen by the next read, two
  updates compose, and an update that changes nothing is no update. \<open>valid\<close> is the
  condition under which the field is there (the client's handle pointer is not \<open>NULL\<close>).
\<close>

locale dma_owner =
  fixes get :: "'s \<Rightarrow> 'cb DMA_HandleTypeDef"
    and upd :: "('cb DMA_HandleTypeDef \<Rightarrow> 'cb DMA_HandleTypeDef) \<Rightarrow> 's \<Rightarrow> 's"
    and valid :: "'s \<Rightarrow> bool"
  assumes get_upd: "valid s \<Longrightarrow> get (upd f s) = f (get s)"
    and valid_upd: "valid (upd f s) = valid s"
    and upd_upd: "upd f (upd g s) = upd (\<lambda>h. f (g h)) s"
    and upd_cong: "valid s \<Longrightarrow> f (get s) = g (get s) \<Longrightarrow> upd f s = upd g s"
    and upd_id: "valid s \<Longrightarrow> upd (\<lambda>h. h) s = s"
begin

lemma upd_same: "valid s \<Longrightarrow> f (get s) = get s \<Longrightarrow> upd f s = s"
  using upd_cong [of s f "\<lambda>h. h"] by (simp add: upd_id)

text \<open>No flag of the stream and no recorded error: the interrupt is spurious.\<close>

lemma irq_spurious:
  assumes v: "valid s" and f: "\<not> HAL_IS_BIT_SET (ISR (get s)) (stream_mask (get s) 0x0080003D)"
    and e: "DErrorCode (get s) = HAL_DMA_ERROR_NONE"
  shows "HAL_DMA_IRQHandler get upd call s = s"
proof -
  have sub: "\<not> HAL_IS_BIT_SET (ISR (get s)) (stream_mask (get s) m)"
    if m: "m AND 0x0080003D = m" for m :: u32
    using f is_set_mono [OF push_bit_sub [OF m]] unfolding stream_mask_def by blast
  have "dma_irq_TE (ISR (get s)) (get s) = get s" "dma_irq_FE (ISR (get s)) (get s) = get s"
    "dma_irq_DME (ISR (get s)) (get s) = get s"
    using sub by (simp_all add: dma_irq_TE_def dma_irq_FE_def dma_irq_DME_def)
  then show ?thesis
    using v e sub
    by (simp add: HAL_DMA_IRQHandler_def upd_same dma_irq_HT_def dma_irq_TC_def
        dma_irq_error_def Let_def)
qed

text \<open>No error flag: only the half-transfer and the transfer-complete parts act.\<close>

lemma irq_no_error:
  assumes v: "valid s" and f: "\<not> HAL_IS_BIT_SET (ISR (get s)) (stream_mask (get s) 0x0080000D)"
  shows "HAL_DMA_IRQHandler get upd call s =
    (case dma_irq_TC get upd call (ISR (get s)) (dma_irq_HT get upd call (ISR (get s)) s) of
       (returned, s') \<Rightarrow> if returned then s' else dma_irq_error get upd call s')"
proof -
  have sub: "\<not> HAL_IS_BIT_SET (ISR (get s)) (stream_mask (get s) m)"
    if m: "m AND 0x0080000D = m" for m :: u32
    using f is_set_mono [OF push_bit_sub [OF m]] unfolding stream_mask_def by blast
  have "dma_irq_TE (ISR (get s)) (get s) = get s" "dma_irq_FE (ISR (get s)) (get s) = get s"
    "dma_irq_DME (ISR (get s)) (get s) = get s"
    using sub by (simp_all add: dma_irq_TE_def dma_irq_FE_def dma_irq_DME_def)
  then show ?thesis
    using v by (simp add: HAL_DMA_IRQHandler_def upd_same Let_def)
qed

lemma irq_HT_none:
  "\<not> HAL_IS_BIT_SET t (stream_mask (get s) DMA_FLAG_HTIF0_4) \<or> \<not> HAL_IS_BIT_SET (S_CR (get s)) DMA_IT_HT
   \<Longrightarrow> dma_irq_HT get upd call t s = s"
  by (auto simp: dma_irq_HT_def HAL_DMA_GET_IT_SOURCE_def)

lemma irq_HT_normal:
  assumes "valid s" "HAL_IS_BIT_SET t (stream_mask (get s) DMA_FLAG_HTIF0_4)"
    "HAL_IS_BIT_SET (S_CR (get s)) DMA_IT_HT" "\<not> HAL_IS_BIT_SET (S_CR (get s)) DMA_SxCR_DBM"
    "\<not> HAL_IS_BIT_SET (S_CR (get s)) DMA_SxCR_CIRC"
  shows "dma_irq_HT get upd call t s =
    call_cb call (XferHalfCpltCallback (get s))
      (upd (\<lambda>h. h\<lparr>ISR := CLEAR_BIT (ISR h) (stream_mask h DMA_FLAG_HTIF0_4),
                  S_CR := CLEAR_BIT (S_CR h) DMA_IT_HT\<rparr>) s)"
  using assms
  by (simp add: dma_irq_HT_def HAL_DMA_GET_IT_SOURCE_def get_upd valid_upd write_IFCR_def upd_upd
      Let_def)

lemma irq_TC_none:
  "\<not> HAL_IS_BIT_SET t (stream_mask (get s) DMA_FLAG_TCIF0_4) \<or> \<not> HAL_IS_BIT_SET (S_CR (get s)) DMA_IT_TC
   \<Longrightarrow> dma_irq_TC get upd call t s = (False, s)"
  by (auto simp: dma_irq_TC_def HAL_DMA_GET_IT_SOURCE_def)

text \<open>Completion in normal mode: the handle is ready and unlocked before the callback runs.\<close>

lemma irq_TC_normal:
  assumes "valid s" "HAL_IS_BIT_SET t (stream_mask (get s) DMA_FLAG_TCIF0_4)"
    "HAL_IS_BIT_SET (S_CR (get s)) DMA_IT_TC" "\<not> HAL_IS_BIT_SET (S_CR (get s)) DMA_SxCR_DBM"
    "\<not> HAL_IS_BIT_SET (S_CR (get s)) DMA_SxCR_CIRC" "DState (get s) \<noteq> HAL_DMA_STATE_ABORT"
  shows "dma_irq_TC get upd call t s = (False,
    call_cb call (XferCpltCallback (get s))
      (upd (\<lambda>h. h\<lparr>ISR := CLEAR_BIT (ISR h) (stream_mask h DMA_FLAG_TCIF0_4),
                  S_CR := CLEAR_BIT (S_CR h) DMA_IT_TC,
                  DLock := HAL_UNLOCKED, DState := HAL_DMA_STATE_READY\<rparr>) s))"
  using assms
  by (simp add: dma_irq_TC_def HAL_DMA_GET_IT_SOURCE_def get_upd valid_upd write_IFCR_def upd_upd
      Let_def)

text \<open>Completion of an abort requested by \<open>HAL_DMA_Abort_IT\<close>.\<close>

lemma irq_TC_abort:
  assumes "valid s" "HAL_IS_BIT_SET t (stream_mask (get s) DMA_FLAG_TCIF0_4)"
    "HAL_IS_BIT_SET (S_CR (get s)) DMA_IT_TC" "DState (get s) = HAL_DMA_STATE_ABORT"
  shows "dma_irq_TC get upd call t s =
    (True, call_cb call (XferAbortCallback (get s)) (upd dma_finish_abort s))"
  using assms
  by (simp add: dma_irq_TC_def HAL_DMA_GET_IT_SOURCE_def get_upd valid_upd upd_upd
      dma_finish_abort_def [abs_def] stream_mask_def Let_def)

text \<open>The lock discipline survives an interrupt when the callbacks keep it.\<close>

definition lock_inv :: "'s \<Rightarrow> bool" where
  "lock_inv s \<longleftrightarrow> valid s \<and> dma_lock_ok (get s)"

lemma lock_inv_upd: "valid s \<Longrightarrow> lock_inv (upd f s) = dma_lock_ok (f (get s))"
  by (simp add: lock_inv_def get_upd valid_upd)

lemmas owner_simps = get_upd valid_upd upd_upd lock_inv_upd

lemma call_cb_lock_inv:
  "(\<And>f s. lock_inv s \<Longrightarrow> lock_inv (call f s)) \<Longrightarrow> lock_inv s \<Longrightarrow> lock_inv (call_cb call cb s)"
  by (simp add: call_cb_def split: option.split)

lemma irq_HT_lock_inv:
  assumes c: "\<And>f s. lock_inv s \<Longrightarrow> lock_inv (call f s)" and s: "lock_inv s"
  shows "lock_inv (dma_irq_HT get upd call t s)"
proof -
  have "valid s" "dma_lock_ok (get s)"
    using s by (simp_all add: lock_inv_def)
  then show ?thesis
    using s by (auto simp: dma_irq_HT_def Let_def owner_simps intro!: call_cb_lock_inv [OF c])
      (simp_all add: dma_lock_ok_def)
qed

lemma irq_TC_lock_inv:
  assumes c: "\<And>f s. lock_inv s \<Longrightarrow> lock_inv (call f s)" and s: "lock_inv s"
  shows "lock_inv (snd (dma_irq_TC get upd call t s))"
proof -
  have v: "valid s" "dma_lock_ok (get s)"
    using s by (simp_all add: lock_inv_def)
  show ?thesis
  proof (cases "DState (get s) = HAL_DMA_STATE_ABORT")
    case True
    have "lock_inv (upd dma_finish_abort s)"
      using v by (simp add: owner_simps dma_lock_ok_def dma_finish_abort_ready)
    then show ?thesis
      using s v True irq_TC_abort [of s t call] irq_TC_none [of t s call]
      by (cases "HAL_IS_BIT_SET t (stream_mask (get s) DMA_FLAG_TCIF0_4) \<and>
          HAL_IS_BIT_SET (S_CR (get s)) DMA_IT_TC") (auto intro!: call_cb_lock_inv [OF c])
  next
    case False
    then show ?thesis
      using s v by (auto simp: dma_irq_TC_def Let_def owner_simps intro!: call_cb_lock_inv [OF c])
        (simp_all add: dma_lock_ok_def)
  qed
qed

lemma irq_error_lock_inv:
  assumes c: "\<And>f s. lock_inv s \<Longrightarrow> lock_inv (call f s)" and s: "lock_inv s"
  shows "lock_inv (dma_irq_error get upd call s)"
proof -
  have "valid s" "dma_lock_ok (get s)"
    using s by (simp_all add: lock_inv_def)
  then show ?thesis
    using s by (auto simp: dma_irq_error_def Let_def owner_simps intro!: call_cb_lock_inv [OF c])
      (simp_all add: dma_lock_ok_def)
qed

lemma irq_lock_inv:
  assumes c: "\<And>f s. lock_inv s \<Longrightarrow> lock_inv (call f s)" and s: "lock_inv s"
  shows "lock_inv (HAL_DMA_IRQHandler get upd call s)"
proof -
  let ?t = "ISR (get s)"
  let ?s1 = "upd (dma_irq_DME ?t) (upd (dma_irq_FE ?t) (upd (dma_irq_TE ?t) s))"
  have "lock_inv ?s1"
    using s by (simp add: lock_inv_def owner_simps dma_lock_parts)
  then have "lock_inv (dma_irq_HT get upd call ?t ?s1)"
    by (rule irq_HT_lock_inv [rotated]) (rule c)
  then have "lock_inv (snd (dma_irq_TC get upd call ?t (dma_irq_HT get upd call ?t ?s1)))"
    by (rule irq_TC_lock_inv [rotated]) (rule c)
  then show ?thesis
    using irq_error_lock_inv [of call, OF c]
    by (simp add: HAL_DMA_IRQHandler_def Let_def case_prod_beta)
qed

end

text \<open>The driver itself as the client: the state is the handle.\<close>

interpretation dma_self: dma_owner "\<lambda>h. h" "\<lambda>f h. f h" "\<lambda>_. True"
  by unfold_locales auto

lemma HAL_DMA_IRQHandler_lock_ok:
  assumes "\<And>f h. dma_lock_ok h \<Longrightarrow> dma_lock_ok (call f h)" "dma_lock_ok h"
  shows "dma_lock_ok (HAL_DMA_IRQHandler (\<lambda>h. h) (\<lambda>f h. f h) call h)"
  using dma_self.irq_lock_inv [of call h] assms by (simp add: dma_self.lock_inv_def)


section \<open>Examples\<close>

text \<open>A stream 2 of DMA2 handle after reset, for concrete inputs.\<close>

definition dma_example :: "'cb DMA_HandleTypeDef" where
  "dma_example = \<lparr>DInstance = 0x40026440, S_CR = 0, S_NDTR = 0, S_PAR = 0, S_M0AR = 0, S_M1AR = 0,
     S_FCR = 0x21, ISR = 0,
     DInit = \<lparr>Channel = DMA_CHANNEL_4, Direction = DMA_PERIPH_TO_MEMORY,
       PeriphInc = DMA_PINC_DISABLE, MemInc = DMA_MINC_ENABLE,
       PeriphDataAlignment = DMA_PDATAALIGN_BYTE, MemDataAlignment = DMA_MDATAALIGN_BYTE,
       DMode = DMA_NORMAL, Priority = DMA_PRIORITY_MEDIUM, FIFOMode = DMA_FIFOMODE_DISABLE,
       FIFOThreshold = DMA_FIFO_THRESHOLD_FULL, MemBurst = DMA_MBURST_SINGLE,
       PeriphBurst = DMA_PBURST_SINGLE\<rparr>,
     DLock = HAL_UNLOCKED, DState = HAL_DMA_STATE_RESET, XferCpltCallback = None,
     XferHalfCpltCallback = None, XferM1CpltCallback = None, XferM1HalfCpltCallback = None,
     XferErrorCallback = None, XferAbortCallback = None, DErrorCode = 0,
     StreamBaseAddress = 0, StreamIndex = 0\<rparr>"

definition env_example :: hw_env where
  "env_example = \<lparr>tickstart = 0, tick_at = (\<lambda>_. 0), stop_polls = 0\<rparr>"

lemma dma_example_init:
  "\<exists>h. HAL_DMA_Init env_example (Some dma_example) = Some (HAL_OK, Some h) \<and>
     DState h = HAL_DMA_STATE_READY \<and> DLock h = HAL_UNLOCKED \<and> StreamIndex h = 16 \<and>
     StreamBaseAddress h = 0x40026400 \<and> DInit h = DInit (dma_example :: 'cb DMA_HandleTypeDef)"
  by (simp add: HAL_DMA_Init_def dma_example_def DMA_CalcBaseAndBitshift_def write_IFCR_def
      HAL_DMA_DISABLE_def flagBitshiftOffset_def flag_simps Let_def)

section \<open>The flags of a stream\<close>

lemma nat_less_8_cases:
  "(n :: nat) < 8 \<Longrightarrow> n = 0 \<or> n = 1 \<or> n = 2 \<or> n = 3 \<or> n = 4 \<or> n = 5 \<or> n = 6 \<or> n = 7"
  by linarith

lemma stream_number:
  assumes "base \<in> {0x40026000, 0x40026400}" "n < 8"
  shows "unat ((((base + 0x10 + 0x18 * of_nat n) AND 0xFF) - 16) div 24 :: u32) = n"
    and "(base + 0x10 + 0x18 * of_nat n) AND NOT 0x3FF = (base :: u32)"
  using nat_less_8_cases [OF assms(2)] assms(1) by (elim disjE insertE emptyE; simp)+

lemma stream_calc:
  assumes "base \<in> {0x40026000, 0x40026400}" "n < 8"
    and h: "DInstance h = base + 0x10 + 0x18 * of_nat n"
  defines "b \<equiv> base + (if n < 4 then 0 else 4)"
  shows "DMA_CalcBaseAndBitshift h =
    Some (b, h\<lparr>StreamIndex := flagBitshiftOffset ! n, StreamBaseAddress := b\<rparr>)"
proof -
  define k :: u32 where "k = (((base + 0x10 + 0x18 * of_nat n) AND 0xFF) - 16) div 24"
  have "unat k = n"
    using stream_number(1) [OF assms(1,2)] by (simp add: k_def)
  moreover from this have "k > 3 \<longleftrightarrow> \<not> n < 4"
    by (auto simp: word_less_nat_alt)
  ultimately show ?thesis
    using stream_number(2) [OF assms(1,2)] assms(2)
    by (simp add: DMA_CalcBaseAndBitshift_def Let_def h b_def flip: k_def)
      (simp add: flagBitshiftOffset_def)
qed

definition dma_flag_masks :: u32 where
  "dma_flag_masks = DMA_FLAG_FEIF0_4 OR DMA_FLAG_DMEIF0_4 OR DMA_FLAG_TEIF0_4 OR DMA_FLAG_HTIF0_4
     OR DMA_FLAG_TCIF0_4 OR 0x3F"

lemma flag_masks_disjoint:
  "list_all (\<lambda>n. list_all (\<lambda>m. m = n \<or> (m < 4) \<noteq> (n < 4) \<or>
       push_bit (unat (flagBitshiftOffset ! n)) dma_flag_masks
         AND push_bit (unat (flagBitshiftOffset ! m)) 0x3D = 0) [0..<8]) [0..<8]"
  by code_simp

text \<open>
  For each of the 16 streams, \<open>DMA_CalcBaseAndBitshift\<close> finds the status register
  of its half (\<open>LISR\<close> at the controller's base for streams 0 to 3, \<open>HISR\<close> at base + 4 for
  4 to 7) and a shift at which the five flag masks of the driver select no flag of another
  stream (\<open>0x3D\<close>, the five flags of a stream's six-bit field): no handler reads or clears a flag of another stream.
\<close>

theorem dma_stream_flags:
  assumes "base \<in> {0x40026000, 0x40026400}" "n < 8"
    and "DInstance h = base + 0x10 + 0x18 * of_nat n"
  shows "\<exists>h'. DMA_CalcBaseAndBitshift h = Some (base + (if n < 4 then 0 else 4), h') \<and>
    StreamIndex h' = [0, 6, 16, 22] ! (n mod 4) \<and>
    (\<forall>m < 8. m \<noteq> n \<longrightarrow> (m < 4) = (n < 4) \<longrightarrow>
       stream_mask h' dma_flag_masks AND push_bit (unat (flagBitshiftOffset ! m)) 0x3D = 0)"
proof -
  have "[0, 6, 16, 22] ! (n mod 4) = flagBitshiftOffset ! n"
    using nat_less_8_cases [OF assms(2)] by (auto simp: flagBitshiftOffset_def)
  then show ?thesis
    using stream_calc [OF assms] flag_masks_disjoint assms(2)
    by (fastforce simp: stream_mask_def list_all_iff)
qed

theorem dma_stream_flags_witness:
  "\<exists>h'. DMA_CalcBaseAndBitshift (dma_example :: nat DMA_HandleTypeDef) = Some (0x40026400, h') \<and>
    StreamIndex h' = 16"
  using dma_stream_flags [of "0x40026400" 2 "dma_example :: nat DMA_HandleTypeDef"]
  by (auto simp: dma_example_def)

end
