(* ===== verification/HalUart.thy ===== *)
theory HalUart
  imports HalDma
begin

text \<open>
  The UART driver, HALLIB/STM32F4xx_HAL_Driver/Src/stm32f4xx_hal_uart.c. The handle is the C
  struct \<open>UART_HandleTypeDef\<close> with the registers of the peripheral its \<open>Instance\<close> points to,
  the DMA handles its \<open>hdmatx\<close> and \<open>hdmarx\<close> point to, and the memory its buffers lie in. It is
  an extensible record: a client's state extends it, so the user callbacks the driver calls
  are functions on the client's state. A dereference of a \<open>NULL\<close> DMA handle sets \<open>fault\<close>.
\<close>

section \<open>Register masks and constants (stm32f407xx.h, stm32f4xx_hal_uart.h)\<close>

abbreviation USART_SR_PE :: u32 where "USART_SR_PE \<equiv> 0x1"
abbreviation USART_SR_FE :: u32 where "USART_SR_FE \<equiv> 0x2"
abbreviation USART_SR_NE :: u32 where "USART_SR_NE \<equiv> 0x4"
abbreviation USART_SR_ORE :: u32 where "USART_SR_ORE \<equiv> 0x8"
abbreviation USART_SR_IDLE :: u32 where "USART_SR_IDLE \<equiv> 0x10"
abbreviation USART_SR_RXNE :: u32 where "USART_SR_RXNE \<equiv> 0x20"
abbreviation USART_SR_TC :: u32 where "USART_SR_TC \<equiv> 0x40"
abbreviation USART_SR_TXE :: u32 where "USART_SR_TXE \<equiv> 0x80"

abbreviation USART_CR1_SBK :: u32 where "USART_CR1_SBK \<equiv> 0x1"
abbreviation USART_CR1_RWU :: u32 where "USART_CR1_RWU \<equiv> 0x2"
abbreviation USART_CR1_RE :: u32 where "USART_CR1_RE \<equiv> 0x4"
abbreviation USART_CR1_TE :: u32 where "USART_CR1_TE \<equiv> 0x8"
abbreviation USART_CR1_IDLEIE :: u32 where "USART_CR1_IDLEIE \<equiv> 0x10"
abbreviation USART_CR1_RXNEIE :: u32 where "USART_CR1_RXNEIE \<equiv> 0x20"
abbreviation USART_CR1_TCIE :: u32 where "USART_CR1_TCIE \<equiv> 0x40"
abbreviation USART_CR1_TXEIE :: u32 where "USART_CR1_TXEIE \<equiv> 0x80"
abbreviation USART_CR1_PEIE :: u32 where "USART_CR1_PEIE \<equiv> 0x100"
abbreviation USART_CR1_PS :: u32 where "USART_CR1_PS \<equiv> 0x200"
abbreviation USART_CR1_PCE :: u32 where "USART_CR1_PCE \<equiv> 0x400"
abbreviation USART_CR1_WAKE :: u32 where "USART_CR1_WAKE \<equiv> 0x800"
abbreviation USART_CR1_M :: u32 where "USART_CR1_M \<equiv> 0x1000"
abbreviation USART_CR1_UE :: u32 where "USART_CR1_UE \<equiv> 0x2000"
abbreviation USART_CR1_OVER8 :: u32 where "USART_CR1_OVER8 \<equiv> 0x8000"

abbreviation USART_CR2_ADD :: u32 where "USART_CR2_ADD \<equiv> 0xF"
abbreviation USART_CR2_LBDL :: u32 where "USART_CR2_LBDL \<equiv> 0x20"
abbreviation USART_CR2_CLKEN :: u32 where "USART_CR2_CLKEN \<equiv> 0x800"
abbreviation USART_CR2_STOP :: u32 where "USART_CR2_STOP \<equiv> 0x3000"
abbreviation USART_CR2_LINEN :: u32 where "USART_CR2_LINEN \<equiv> 0x4000"

abbreviation USART_CR3_EIE :: u32 where "USART_CR3_EIE \<equiv> 0x1"
abbreviation USART_CR3_IREN :: u32 where "USART_CR3_IREN \<equiv> 0x2"
abbreviation USART_CR3_HDSEL :: u32 where "USART_CR3_HDSEL \<equiv> 0x8"
abbreviation USART_CR3_SCEN :: u32 where "USART_CR3_SCEN \<equiv> 0x20"
abbreviation USART_CR3_DMAR :: u32 where "USART_CR3_DMAR \<equiv> 0x40"
abbreviation USART_CR3_DMAT :: u32 where "USART_CR3_DMAT \<equiv> 0x80"
abbreviation USART_CR3_RTSE :: u32 where "USART_CR3_RTSE \<equiv> 0x100"
abbreviation USART_CR3_CTSE :: u32 where "USART_CR3_CTSE \<equiv> 0x200"

abbreviation HAL_UART_STATE_RESET :: u32 where "HAL_UART_STATE_RESET \<equiv> 0x00"
abbreviation HAL_UART_STATE_READY :: u32 where "HAL_UART_STATE_READY \<equiv> 0x20"
abbreviation HAL_UART_STATE_BUSY :: u32 where "HAL_UART_STATE_BUSY \<equiv> 0x24"
abbreviation HAL_UART_STATE_BUSY_TX :: u32 where "HAL_UART_STATE_BUSY_TX \<equiv> 0x21"
abbreviation HAL_UART_STATE_BUSY_RX :: u32 where "HAL_UART_STATE_BUSY_RX \<equiv> 0x22"
abbreviation HAL_UART_STATE_BUSY_TX_RX :: u32 where "HAL_UART_STATE_BUSY_TX_RX \<equiv> 0x23"

abbreviation HAL_UART_ERROR_NONE :: u32 where "HAL_UART_ERROR_NONE \<equiv> 0x0"
abbreviation HAL_UART_ERROR_PE :: u32 where "HAL_UART_ERROR_PE \<equiv> 0x1"
abbreviation HAL_UART_ERROR_NE :: u32 where "HAL_UART_ERROR_NE \<equiv> 0x2"
abbreviation HAL_UART_ERROR_FE :: u32 where "HAL_UART_ERROR_FE \<equiv> 0x4"
abbreviation HAL_UART_ERROR_ORE :: u32 where "HAL_UART_ERROR_ORE \<equiv> 0x8"
abbreviation HAL_UART_ERROR_DMA :: u32 where "HAL_UART_ERROR_DMA \<equiv> 0x10"

abbreviation UART_WORDLENGTH_8B :: u32 where "UART_WORDLENGTH_8B \<equiv> 0x0"
abbreviation UART_WORDLENGTH_9B :: u32 where "UART_WORDLENGTH_9B \<equiv> 0x1000"
abbreviation UART_STOPBITS_1 :: u32 where "UART_STOPBITS_1 \<equiv> 0x0"
abbreviation UART_PARITY_NONE :: u32 where "UART_PARITY_NONE \<equiv> 0x0"
abbreviation UART_HWCONTROL_NONE :: u32 where "UART_HWCONTROL_NONE \<equiv> 0x0"
abbreviation UART_MODE_TX_RX :: u32 where "UART_MODE_TX_RX \<equiv> 0xC"
abbreviation UART_OVERSAMPLING_8 :: u32 where "UART_OVERSAMPLING_8 \<equiv> 0x8000"

abbreviation USART1 :: u32 where "USART1 \<equiv> 0x40011000"
abbreviation USART2 :: u32 where "USART2 \<equiv> 0x40004400"
abbreviation USART3 :: u32 where "USART3 \<equiv> 0x40004800"
abbreviation UART4 :: u32 where "UART4 \<equiv> 0x40004C00"
abbreviation UART5 :: u32 where "UART5 \<equiv> 0x40005000"
abbreviation USART6 :: u32 where "USART6 \<equiv> 0x40011400"

text \<open>The address of the data register of a peripheral: offset 4 in \<open>USART_TypeDef\<close>.\<close>

abbreviation DR_addr :: "u32 \<Rightarrow> u32" where "DR_addr inst \<equiv> inst + 4"

section \<open>The handle\<close>

record UART_InitTypeDef =
  BaudRate :: u32
  WordLength :: u32
  StopBits :: u32
  Parity :: u32
  Mode :: u32
  HwFlowCtl :: u32
  OverSampling :: u32

text \<open>The functions this driver installs in a DMA handle.\<close>

datatype uart_dma_cb =
    UART_DMATransmitCplt | UART_DMATxHalfCplt | UART_DMAReceiveCplt | UART_DMARxHalfCplt
  | UART_DMAError | UART_DMAAbortOnError | UART_DMATxAbortCallback | UART_DMARxAbortCallback
  | UART_DMATxOnlyAbortCallback | UART_DMARxOnlyAbortCallback

type_synonym uart_dma = "uart_dma_cb DMA_HandleTypeDef"

text \<open>
  \<open>SR\<close> to \<open>CR3\<close> are the registers of \<open>Instance\<close>. \<open>DR\<close> is what a read of the data register
  returns; the values written to it are kept in order in \<open>tx_log\<close>. The C fields \<open>gState\<close> and
  \<open>RxState\<close> hold the bit patterns of \<open>HAL_UART_StateTypeDef\<close>.
\<close>

record UART_HandleTypeDef =
  Instance :: u32
  SR :: u32
  DR :: u32
  BRR :: u32
  CR1 :: u32
  CR2 :: u32
  CR3 :: u32
  tx_log :: "u32 list"
  mem :: memory
  fault :: bool
  Init :: UART_InitTypeDef
  pTxBuffPtr :: u32
  TxXferSize :: u16
  TxXferCount :: u16
  pRxBuffPtr :: u32
  RxXferSize :: u16
  RxXferCount :: u16
  hdmatx :: "uart_dma option"
  hdmarx :: "uart_dma option"
  Lock :: HAL_LockTypeDef
  gState :: u32
  RxState :: u32
  ErrorCode :: u32

type_synonym 'a huart = "'a UART_HandleTypeDef_scheme"

abbreviation set_CR1 :: "u32 \<Rightarrow> 'a huart \<Rightarrow> 'a huart" where
  "set_CR1 m u \<equiv> u\<lparr>CR1 := SET_BIT (CR1 u) m\<rparr>"
abbreviation clear_CR1 :: "u32 \<Rightarrow> 'a huart \<Rightarrow> 'a huart" where
  "clear_CR1 m u \<equiv> u\<lparr>CR1 := CLEAR_BIT (CR1 u) m\<rparr>"
abbreviation set_CR2 :: "u32 \<Rightarrow> 'a huart \<Rightarrow> 'a huart" where
  "set_CR2 m u \<equiv> u\<lparr>CR2 := SET_BIT (CR2 u) m\<rparr>"
abbreviation clear_CR2 :: "u32 \<Rightarrow> 'a huart \<Rightarrow> 'a huart" where
  "clear_CR2 m u \<equiv> u\<lparr>CR2 := CLEAR_BIT (CR2 u) m\<rparr>"
abbreviation set_CR3 :: "u32 \<Rightarrow> 'a huart \<Rightarrow> 'a huart" where
  "set_CR3 m u \<equiv> u\<lparr>CR3 := SET_BIT (CR3 u) m\<rparr>"
abbreviation clear_CR3 :: "u32 \<Rightarrow> 'a huart \<Rightarrow> 'a huart" where
  "clear_CR3 m u \<equiv> u\<lparr>CR3 := CLEAR_BIT (CR3 u) m\<rparr>"

text \<open>
  Reading \<open>SR\<close> and then \<open>DR\<close> clears the error flags, \<open>IDLE\<close> and \<open>RXNE\<close>; every read of \<open>DR\<close> in the
  driver follows a read of \<open>SR\<close>. Writing \<open>SR\<close> clears the bits written as 0 that can be cleared
  so (\<open>TC\<close>, \<open>RXNE\<close>).
\<close>

abbreviation SR_rx_flags :: u32 where
  "SR_rx_flags \<equiv> USART_SR_PE OR USART_SR_FE OR USART_SR_NE OR USART_SR_ORE OR USART_SR_IDLE
     OR USART_SR_RXNE"

definition read_DR :: "'a huart \<Rightarrow> u32 \<times> 'a huart" where
  "read_DR u = (DR u, u\<lparr>SR := CLEAR_BIT (SR u) SR_rx_flags\<rparr>)"

definition write_DR :: "u32 \<Rightarrow> 'a huart \<Rightarrow> 'a huart" where
  "write_DR v u = u\<lparr>tx_log := tx_log u @ [v], SR := CLEAR_BIT (SR u) (USART_SR_TXE OR USART_SR_TC)\<rparr>"

definition HAL_UART_GET_FLAG :: "'a huart \<Rightarrow> u32 \<Rightarrow> bool" where
  "HAL_UART_GET_FLAG u flag \<longleftrightarrow> SR u AND flag = flag"

definition HAL_UART_CLEAR_FLAG :: "'a huart \<Rightarrow> u32 \<Rightarrow> 'a huart" where
  "HAL_UART_CLEAR_FLAG u flag =
     u\<lparr>SR := CLEAR_BIT (SR u) (flag AND (USART_SR_TC OR USART_SR_RXNE))\<rparr>"

definition HAL_UART_CLEAR_PEFLAG :: "'a huart \<Rightarrow> 'a huart" where
  "HAL_UART_CLEAR_PEFLAG u = snd (read_DR u)"

lemmas uart_reg_defs = read_DR_def write_DR_def HAL_UART_CLEAR_FLAG_def HAL_UART_CLEAR_PEFLAG_def

text \<open>The DMA handles, accessed through the pointers of the handle.\<close>

definition get_tx :: "'a huart \<Rightarrow> uart_dma" where
  "get_tx u = the (hdmatx u)"

definition upd_tx :: "(uart_dma \<Rightarrow> uart_dma) \<Rightarrow> 'a huart \<Rightarrow> 'a huart" where
  "upd_tx f u = (case hdmatx u of None \<Rightarrow> u\<lparr>fault := True\<rparr> | Some h \<Rightarrow> u\<lparr>hdmatx := Some (f h)\<rparr>)"

definition get_rx :: "'a huart \<Rightarrow> uart_dma" where
  "get_rx u = the (hdmarx u)"

definition upd_rx :: "(uart_dma \<Rightarrow> uart_dma) \<Rightarrow> 'a huart \<Rightarrow> 'a huart" where
  "upd_rx f u = (case hdmarx u of None \<Rightarrow> u\<lparr>fault := True\<rparr> | Some h \<Rightarrow> u\<lparr>hdmarx := Some (f h)\<rparr>)"

interpretation uart_tx: dma_owner get_tx upd_tx "\<lambda>u. hdmatx u \<noteq> None"
  by unfold_locales (auto simp: get_tx_def upd_tx_def split: option.splits)

interpretation uart_rx: dma_owner get_rx upd_rx "\<lambda>u. hdmarx u \<noteq> None"
  by unfold_locales (auto simp: get_rx_def upd_rx_def split: option.splits)

section \<open>User callbacks\<close>

text \<open>The \<open>__weak\<close> functions of the driver, which a client may define.\<close>

record 's uart_user =
  HAL_UART_TxCpltCallback :: "'s \<Rightarrow> 's"
  HAL_UART_TxHalfCpltCallback :: "'s \<Rightarrow> 's"
  HAL_UART_RxCpltCallback :: "'s \<Rightarrow> 's"
  HAL_UART_RxHalfCpltCallback :: "'s \<Rightarrow> 's"
  HAL_UART_ErrorCallback :: "'s \<Rightarrow> 's"
  HAL_UART_AbortCpltCallback :: "'s \<Rightarrow> 's"
  HAL_UART_AbortTransmitCpltCallback :: "'s \<Rightarrow> 's"
  HAL_UART_AbortReceiveCpltCallback :: "'s \<Rightarrow> 's"

text \<open>The driver's own definitions of them: they do nothing.\<close>

definition weak_callbacks :: "'s uart_user" where
  "weak_callbacks = \<lparr>HAL_UART_TxCpltCallback = id, HAL_UART_TxHalfCpltCallback = id,
     HAL_UART_RxCpltCallback = id, HAL_UART_RxHalfCpltCallback = id,
     HAL_UART_ErrorCallback = id, HAL_UART_AbortCpltCallback = id,
     HAL_UART_AbortTransmitCpltCallback = id, HAL_UART_AbortReceiveCpltCallback = id\<rparr>"

section \<open>Private functions\<close>

definition UART_EndTxTransfer :: "'a huart \<Rightarrow> 'a huart" where
  "UART_EndTxTransfer u =
     (let u = clear_CR1 (USART_CR1_TXEIE OR USART_CR1_TCIE) u
      in u\<lparr>gState := HAL_UART_STATE_READY\<rparr>)"

definition UART_EndRxTransfer :: "'a huart \<Rightarrow> 'a huart" where
  "UART_EndRxTransfer u =
     (let u = clear_CR1 (USART_CR1_RXNEIE OR USART_CR1_PEIE) u;
          u = clear_CR3 USART_CR3_EIE u
      in u\<lparr>RxState := HAL_UART_STATE_READY\<rparr>)"

text \<open>The divider macros of stm32f4xx_hal_uart.h, in 32-bit unsigned arithmetic.\<close>

definition UART_DIV_SAMPLING16 :: "u32 \<Rightarrow> u32 \<Rightarrow> u32" where
  "UART_DIV_SAMPLING16 pclk baud = (pclk * 25) div (4 * baud)"

definition UART_DIVMANT_SAMPLING16 :: "u32 \<Rightarrow> u32 \<Rightarrow> u32" where
  "UART_DIVMANT_SAMPLING16 pclk baud = UART_DIV_SAMPLING16 pclk baud div 100"

definition UART_DIVFRAQ_SAMPLING16 :: "u32 \<Rightarrow> u32 \<Rightarrow> u32" where
  "UART_DIVFRAQ_SAMPLING16 pclk baud =
     ((UART_DIV_SAMPLING16 pclk baud - UART_DIVMANT_SAMPLING16 pclk baud * 100) * 16 + 50) div 100"

definition UART_BRR_SAMPLING16 :: "u32 \<Rightarrow> u32 \<Rightarrow> u32" where
  "UART_BRR_SAMPLING16 pclk baud =
     (push_bit 4 (UART_DIVMANT_SAMPLING16 pclk baud) + (UART_DIVFRAQ_SAMPLING16 pclk baud AND 0xF0))
      + (UART_DIVFRAQ_SAMPLING16 pclk baud AND 0x0F)"

definition UART_DIV_SAMPLING8 :: "u32 \<Rightarrow> u32 \<Rightarrow> u32" where
  "UART_DIV_SAMPLING8 pclk baud = (pclk * 25) div (2 * baud)"

definition UART_DIVMANT_SAMPLING8 :: "u32 \<Rightarrow> u32 \<Rightarrow> u32" where
  "UART_DIVMANT_SAMPLING8 pclk baud = UART_DIV_SAMPLING8 pclk baud div 100"

definition UART_DIVFRAQ_SAMPLING8 :: "u32 \<Rightarrow> u32 \<Rightarrow> u32" where
  "UART_DIVFRAQ_SAMPLING8 pclk baud =
     ((UART_DIV_SAMPLING8 pclk baud - UART_DIVMANT_SAMPLING8 pclk baud * 100) * 8 + 50) div 100"

definition UART_BRR_SAMPLING8 :: "u32 \<Rightarrow> u32 \<Rightarrow> u32" where
  "UART_BRR_SAMPLING8 pclk baud =
     (push_bit 4 (UART_DIVMANT_SAMPLING8 pclk baud)
       + push_bit 1 (UART_DIVFRAQ_SAMPLING8 pclk baud AND 0xF8))
      + (UART_DIVFRAQ_SAMPLING8 pclk baud AND 0x07)"

text \<open>The peripheral clocks, as \<open>HAL_RCC_GetPCLK1Freq\<close> and \<open>HAL_RCC_GetPCLK2Freq\<close> report them.\<close>

record rcc_freq =
  PCLK1Freq :: u32
  PCLK2Freq :: u32

definition UART_SetConfig :: "rcc_freq \<Rightarrow> 'a huart \<Rightarrow> 'a huart" where
  "UART_SetConfig rcc u =
     (let tmpreg = CLEAR_BIT (CR2 u) USART_CR2_STOP;
          u = u\<lparr>CR2 := tmpreg OR StopBits (Init u)\<rparr>;
          tmpreg = CLEAR_BIT (CR1 u) (USART_CR1_M OR USART_CR1_PCE OR USART_CR1_PS OR USART_CR1_TE
            OR USART_CR1_RE OR USART_CR1_OVER8);
          u = u\<lparr>CR1 := tmpreg OR (WordLength (Init u) OR Parity (Init u) OR Mode (Init u)
            OR OverSampling (Init u))\<rparr>;
          tmpreg = CLEAR_BIT (CR3 u) (USART_CR3_RTSE OR USART_CR3_CTSE);
          u = u\<lparr>CR3 := tmpreg OR HwFlowCtl (Init u)\<rparr>
      in if OverSampling (Init u) = UART_OVERSAMPLING_8 then
           (if Instance u = USART1 \<or> Instance u = USART6
            then u\<lparr>BRR := UART_BRR_SAMPLING8 (PCLK2Freq rcc) (BaudRate (Init u))\<rparr>
            else u\<lparr>BRR := UART_BRR_SAMPLING8 (PCLK1Freq rcc) (BaudRate (Init u))\<rparr>)
         else
           (if Instance u = USART1 \<or> Instance u = USART6
            then u\<lparr>BRR := UART_BRR_SAMPLING16 (PCLK2Freq rcc) (BaudRate (Init u))\<rparr>
            else u\<lparr>BRR := UART_BRR_SAMPLING16 (PCLK1Freq rcc) (BaudRate (Init u))\<rparr>))"

section \<open>Initialisation\<close>

text \<open>
  The four initialisation routines start alike (low-level initialisation on the first call,
  peripheral disabled, \<open>UART_SetConfig\<close>) and end alike (peripheral enabled, states ready).
  \<open>msp\<close> is \<open>HAL_UART_MspInit\<close>. \<open>None\<close> is the \<open>NULL\<close> handle.
\<close>

definition null_check :: "('a huart \<Rightarrow> HAL_StatusTypeDef \<times> 'a huart)
    \<Rightarrow> 'a huart option \<Rightarrow> HAL_StatusTypeDef \<times> 'a huart option" where
  "null_check f hu = (case hu of None \<Rightarrow> (HAL_ERROR, None) | Some u \<Rightarrow> (let (st, u) = f u in (st, Some u)))"

definition uart_init_enter :: "rcc_freq \<Rightarrow> ('a huart \<Rightarrow> 'a huart) \<Rightarrow> 'a huart \<Rightarrow> 'a huart" where
  "uart_init_enter rcc msp u =
     (let u = (if gState u = HAL_UART_STATE_RESET then msp (u\<lparr>Lock := HAL_UNLOCKED\<rparr>) else u);
          u = u\<lparr>gState := HAL_UART_STATE_BUSY\<rparr>;
          u = clear_CR1 USART_CR1_UE u
      in UART_SetConfig rcc u)"

definition uart_init_leave :: "'a huart \<Rightarrow> HAL_StatusTypeDef \<times> 'a huart" where
  "uart_init_leave u =
     (let u = set_CR1 USART_CR1_UE u;
          u = u\<lparr>ErrorCode := HAL_UART_ERROR_NONE\<rparr>;
          u = u\<lparr>gState := HAL_UART_STATE_READY\<rparr>;
          u = u\<lparr>RxState := HAL_UART_STATE_READY\<rparr>
      in (HAL_OK, u))"

definition HAL_UART_Init :: "rcc_freq \<Rightarrow> ('a huart \<Rightarrow> 'a huart) \<Rightarrow> 'a huart option
    \<Rightarrow> HAL_StatusTypeDef \<times> 'a huart option" where
  "HAL_UART_Init rcc msp u = null_check (\<lambda>u.
     (let u = uart_init_enter rcc msp u;
          u = clear_CR2 (USART_CR2_LINEN OR USART_CR2_CLKEN) u;
          u = clear_CR3 (USART_CR3_SCEN OR USART_CR3_HDSEL OR USART_CR3_IREN) u
      in uart_init_leave u)) u"

definition HAL_HalfDuplex_Init :: "rcc_freq \<Rightarrow> ('a huart \<Rightarrow> 'a huart) \<Rightarrow> 'a huart option
    \<Rightarrow> HAL_StatusTypeDef \<times> 'a huart option" where
  "HAL_HalfDuplex_Init rcc msp u = null_check (\<lambda>u.
     (let u = uart_init_enter rcc msp u;
          u = clear_CR2 (USART_CR2_LINEN OR USART_CR2_CLKEN) u;
          u = clear_CR3 (USART_CR3_IREN OR USART_CR3_SCEN) u;
          u = set_CR3 USART_CR3_HDSEL u
      in uart_init_leave u)) u"

definition HAL_LIN_Init :: "rcc_freq \<Rightarrow> ('a huart \<Rightarrow> 'a huart) \<Rightarrow> 'a huart option \<Rightarrow> u32
    \<Rightarrow> HAL_StatusTypeDef \<times> 'a huart option" where
  "HAL_LIN_Init rcc msp u BreakDetectLength = null_check (\<lambda>u.
     (let u = uart_init_enter rcc msp u;
          u = clear_CR2 USART_CR2_CLKEN u;
          u = clear_CR3 (USART_CR3_HDSEL OR USART_CR3_IREN OR USART_CR3_SCEN) u;
          u = set_CR2 USART_CR2_LINEN u;
          u = clear_CR2 USART_CR2_LBDL u;
          u = set_CR2 BreakDetectLength u
      in uart_init_leave u)) u"

definition HAL_MultiProcessor_Init :: "rcc_freq \<Rightarrow> ('a huart \<Rightarrow> 'a huart) \<Rightarrow> 'a huart option \<Rightarrow> u8 \<Rightarrow> u32
    \<Rightarrow> HAL_StatusTypeDef \<times> 'a huart option" where
  "HAL_MultiProcessor_Init rcc msp u Address WakeUpMethod = null_check (\<lambda>u.
     (let u = uart_init_enter rcc msp u;
          u = clear_CR2 (USART_CR2_LINEN OR USART_CR2_CLKEN) u;
          u = clear_CR3 (USART_CR3_SCEN OR USART_CR3_HDSEL OR USART_CR3_IREN) u;
          u = clear_CR2 USART_CR2_ADD u;
          u = set_CR2 (ucast Address) u;
          u = clear_CR1 USART_CR1_WAKE u;
          u = set_CR1 WakeUpMethod u
      in uart_init_leave u)) u"

text \<open>\<open>mspde\<close> is \<open>HAL_UART_MspDeInit\<close>.\<close>

definition HAL_UART_DeInit :: "('a huart \<Rightarrow> 'a huart) \<Rightarrow> 'a huart option \<Rightarrow> HAL_StatusTypeDef \<times> 'a huart option" where
  "HAL_UART_DeInit mspde u = null_check (\<lambda>u.
     (let u = u\<lparr>gState := HAL_UART_STATE_BUSY\<rparr>;
          u = mspde u;
          u = u\<lparr>ErrorCode := HAL_UART_ERROR_NONE\<rparr>;
          u = u\<lparr>gState := HAL_UART_STATE_RESET\<rparr>;
          u = u\<lparr>RxState := HAL_UART_STATE_RESET\<rparr>;
          u = u\<lparr>Lock := HAL_UNLOCKED\<rparr>
      in (HAL_OK, u))) u"
section \<open>Transfers\<close>

definition HAL_UART_Transmit_IT :: "'a huart \<Rightarrow> u32 \<Rightarrow> u16 \<Rightarrow> HAL_StatusTypeDef \<times> 'a huart" where
  "HAL_UART_Transmit_IT u pData Size =
     (if gState u = HAL_UART_STATE_READY then
        (if pData = 0 \<or> Size = 0 then (HAL_ERROR, u)
         else if Lock u = HAL_LOCKED then (HAL_BUSY, u)
         else
           (let u = u\<lparr>Lock := HAL_LOCKED\<rparr>;
                u = u\<lparr>pTxBuffPtr := pData\<rparr>;
                u = u\<lparr>TxXferSize := Size\<rparr>;
                u = u\<lparr>TxXferCount := Size\<rparr>;
                u = u\<lparr>ErrorCode := HAL_UART_ERROR_NONE\<rparr>;
                u = u\<lparr>gState := HAL_UART_STATE_BUSY_TX\<rparr>;
                u = u\<lparr>Lock := HAL_UNLOCKED\<rparr>;
                u = set_CR1 USART_CR1_TXEIE u
            in (HAL_OK, u)))
      else (HAL_BUSY, u))"

definition HAL_UART_Receive_IT :: "'a huart \<Rightarrow> u32 \<Rightarrow> u16 \<Rightarrow> HAL_StatusTypeDef \<times> 'a huart" where
  "HAL_UART_Receive_IT u pData Size =
     (if RxState u = HAL_UART_STATE_READY then
        (if pData = 0 \<or> Size = 0 then (HAL_ERROR, u)
         else if Lock u = HAL_LOCKED then (HAL_BUSY, u)
         else
           (let u = u\<lparr>Lock := HAL_LOCKED\<rparr>;
                u = u\<lparr>pRxBuffPtr := pData\<rparr>;
                u = u\<lparr>RxXferSize := Size\<rparr>;
                u = u\<lparr>RxXferCount := Size\<rparr>;
                u = u\<lparr>ErrorCode := HAL_UART_ERROR_NONE\<rparr>;
                u = u\<lparr>RxState := HAL_UART_STATE_BUSY_RX\<rparr>;
                u = u\<lparr>Lock := HAL_UNLOCKED\<rparr>;
                u = set_CR3 USART_CR3_EIE u;
                u = set_CR1 (USART_CR1_PEIE OR USART_CR1_RXNEIE) u
            in (HAL_OK, u)))
      else (HAL_BUSY, u))"

text \<open>The status of \<open>HAL_DMA_Start_IT\<close> is ignored by both DMA routines.\<close>

definition HAL_UART_Transmit_DMA :: "'a huart \<Rightarrow> u32 \<Rightarrow> u16 \<Rightarrow> HAL_StatusTypeDef \<times> 'a huart" where
  "HAL_UART_Transmit_DMA u pData Size =
     (if gState u = HAL_UART_STATE_READY then
        (if pData = 0 \<or> Size = 0 then (HAL_ERROR, u)
         else if Lock u = HAL_LOCKED then (HAL_BUSY, u)
         else
           (let u = u\<lparr>Lock := HAL_LOCKED\<rparr>;
                u = u\<lparr>pTxBuffPtr := pData\<rparr>;
                u = u\<lparr>TxXferSize := Size\<rparr>;
                u = u\<lparr>TxXferCount := Size\<rparr>;
                u = u\<lparr>ErrorCode := HAL_UART_ERROR_NONE\<rparr>;
                u = u\<lparr>gState := HAL_UART_STATE_BUSY_TX\<rparr>;
                u = upd_tx (\<lambda>h. h\<lparr>XferCpltCallback := Some UART_DMATransmitCplt\<rparr>) u;
                u = upd_tx (\<lambda>h. h\<lparr>XferHalfCpltCallback := Some UART_DMATxHalfCplt\<rparr>) u;
                u = upd_tx (\<lambda>h. h\<lparr>XferErrorCallback := Some UART_DMAError\<rparr>) u;
                u = upd_tx (\<lambda>h. h\<lparr>XferAbortCallback := None\<rparr>) u;
                u = upd_tx (\<lambda>h. snd (HAL_DMA_Start_IT h pData (DR_addr (Instance u)) (ucast Size))) u;
                u = HAL_UART_CLEAR_FLAG u USART_SR_TC;
                u = u\<lparr>Lock := HAL_UNLOCKED\<rparr>;
                u = set_CR3 USART_CR3_DMAT u
            in (HAL_OK, u)))
      else (HAL_BUSY, u))"

definition HAL_UART_Receive_DMA :: "'a huart \<Rightarrow> u32 \<Rightarrow> u16 \<Rightarrow> HAL_StatusTypeDef \<times> 'a huart" where
  "HAL_UART_Receive_DMA u pData Size =
     (if RxState u = HAL_UART_STATE_READY then
        (if pData = 0 \<or> Size = 0 then (HAL_ERROR, u)
         else if Lock u = HAL_LOCKED then (HAL_BUSY, u)
         else
           (let u = u\<lparr>Lock := HAL_LOCKED\<rparr>;
                u = u\<lparr>pRxBuffPtr := pData\<rparr>;
                u = u\<lparr>RxXferSize := Size\<rparr>;
                u = u\<lparr>ErrorCode := HAL_UART_ERROR_NONE\<rparr>;
                u = u\<lparr>RxState := HAL_UART_STATE_BUSY_RX\<rparr>;
                u = upd_rx (\<lambda>h. h\<lparr>XferCpltCallback := Some UART_DMAReceiveCplt\<rparr>) u;
                u = upd_rx (\<lambda>h. h\<lparr>XferHalfCpltCallback := Some UART_DMARxHalfCplt\<rparr>) u;
                u = upd_rx (\<lambda>h. h\<lparr>XferErrorCallback := Some UART_DMAError\<rparr>) u;
                u = upd_rx (\<lambda>h. h\<lparr>XferAbortCallback := None\<rparr>) u;
                u = upd_rx (\<lambda>h. snd (HAL_DMA_Start_IT h (DR_addr (Instance u)) pData (ucast Size))) u;
                u = HAL_UART_CLEAR_PEFLAG u;
                u = u\<lparr>Lock := HAL_UNLOCKED\<rparr>;
                u = set_CR1 USART_CR1_PEIE u;
                u = set_CR3 USART_CR3_EIE u;
                u = set_CR3 USART_CR3_DMAR u
            in (HAL_OK, u)))
      else (HAL_BUSY, u))"

definition HAL_UART_DMAPause :: "'a huart \<Rightarrow> HAL_StatusTypeDef \<times> 'a huart" where
  "HAL_UART_DMAPause u =
     (if Lock u = HAL_LOCKED then (HAL_BUSY, u)
      else
        (let u = u\<lparr>Lock := HAL_LOCKED\<rparr>;
             u = (if gState u = HAL_UART_STATE_BUSY_TX \<and> HAL_IS_BIT_SET (CR3 u) USART_CR3_DMAT
                  then clear_CR3 USART_CR3_DMAT u else u);
             u = (if RxState u = HAL_UART_STATE_BUSY_RX \<and> HAL_IS_BIT_SET (CR3 u) USART_CR3_DMAR
                  then (let u = clear_CR1 USART_CR1_PEIE u;
                            u = clear_CR3 USART_CR3_EIE u
                        in clear_CR3 USART_CR3_DMAR u)
                  else u)
         in (HAL_OK, u\<lparr>Lock := HAL_UNLOCKED\<rparr>)))"

definition HAL_UART_DMAResume :: "'a huart \<Rightarrow> HAL_StatusTypeDef \<times> 'a huart" where
  "HAL_UART_DMAResume u =
     (if Lock u = HAL_LOCKED then (HAL_BUSY, u)
      else
        (let u = u\<lparr>Lock := HAL_LOCKED\<rparr>;
             u = (if gState u = HAL_UART_STATE_BUSY_TX then set_CR3 USART_CR3_DMAT u else u);
             u = (if RxState u = HAL_UART_STATE_BUSY_RX
                  then (let u = HAL_UART_CLEAR_PEFLAG u;
                            u = set_CR1 USART_CR1_PEIE u;
                            u = set_CR3 USART_CR3_EIE u
                        in set_CR3 USART_CR3_DMAR u)
                  else u)
         in (HAL_OK, u\<lparr>Lock := HAL_UNLOCKED\<rparr>)))"

text \<open>\<open>HAL_DMA_Abort\<close> on a handle the pointer of which was tested against \<open>NULL\<close>.\<close>

definition abort_tx :: "hw_env \<Rightarrow> 'a huart \<Rightarrow> 'a huart" where
  "abort_tx env u =
     (if hdmatx u \<noteq> None then upd_tx (\<lambda>h. snd (HAL_DMA_Abort env h)) u else u)"

definition abort_rx :: "hw_env \<Rightarrow> 'a huart \<Rightarrow> 'a huart" where
  "abort_rx env u =
     (if hdmarx u \<noteq> None then upd_rx (\<lambda>h. snd (HAL_DMA_Abort env h)) u else u)"

definition HAL_UART_DMAStop :: "hw_env \<Rightarrow> 'a huart \<Rightarrow> HAL_StatusTypeDef \<times> 'a huart" where
  "HAL_UART_DMAStop env u =
     (let u = (if gState u = HAL_UART_STATE_BUSY_TX \<and> HAL_IS_BIT_SET (CR3 u) USART_CR3_DMAT
               then (let u = clear_CR3 USART_CR3_DMAT u;
                         u = abort_tx env u
                     in UART_EndTxTransfer u)
               else u);
          u = (if RxState u = HAL_UART_STATE_BUSY_RX \<and> HAL_IS_BIT_SET (CR3 u) USART_CR3_DMAR
               then (let u = clear_CR3 USART_CR3_DMAR u;
                         u = abort_rx env u
                     in UART_EndRxTransfer u)
               else u)
      in (HAL_OK, u))"

section \<open>Aborts\<close>

text \<open>Clears the DMA request of the transmitter (receiver), and aborts its stream with the
  abort callback removed first: the part the three blocking abort routines share.\<close>

definition abort_tx_nocb :: "hw_env \<Rightarrow> 'a huart \<Rightarrow> 'a huart" where
  "abort_tx_nocb env u =
     (if HAL_IS_BIT_SET (CR3 u) USART_CR3_DMAT then
        (let u = clear_CR3 USART_CR3_DMAT u
         in if hdmatx u \<noteq> None then
              (let u = upd_tx (\<lambda>h. h\<lparr>XferAbortCallback := None\<rparr>) u
               in upd_tx (\<lambda>h. snd (HAL_DMA_Abort env h)) u)
            else u)
      else u)"

definition abort_rx_nocb :: "hw_env \<Rightarrow> 'a huart \<Rightarrow> 'a huart" where
  "abort_rx_nocb env u =
     (if HAL_IS_BIT_SET (CR3 u) USART_CR3_DMAR then
        (let u = clear_CR3 USART_CR3_DMAR u
         in if hdmarx u \<noteq> None then
              (let u = upd_rx (\<lambda>h. h\<lparr>XferAbortCallback := None\<rparr>) u
               in upd_rx (\<lambda>h. snd (HAL_DMA_Abort env h)) u)
            else u)
      else u)"

definition HAL_UART_Abort :: "hw_env \<Rightarrow> 'a huart \<Rightarrow> HAL_StatusTypeDef \<times> 'a huart" where
  "HAL_UART_Abort env u =
     (let u = clear_CR1 (USART_CR1_RXNEIE OR USART_CR1_PEIE OR USART_CR1_TXEIE OR USART_CR1_TCIE) u;
          u = clear_CR3 USART_CR3_EIE u;
          u = abort_tx_nocb env u;
          u = abort_rx_nocb env u;
          u = u\<lparr>TxXferCount := 0\<rparr>;
          u = u\<lparr>RxXferCount := 0\<rparr>;
          u = u\<lparr>ErrorCode := HAL_UART_ERROR_NONE\<rparr>;
          u = u\<lparr>RxState := HAL_UART_STATE_READY\<rparr>;
          u = u\<lparr>gState := HAL_UART_STATE_READY\<rparr>
      in (HAL_OK, u))"

definition HAL_UART_AbortTransmit :: "hw_env \<Rightarrow> 'a huart \<Rightarrow> HAL_StatusTypeDef \<times> 'a huart" where
  "HAL_UART_AbortTransmit env u =
     (let u = clear_CR1 (USART_CR1_TXEIE OR USART_CR1_TCIE) u;
          u = abort_tx_nocb env u;
          u = u\<lparr>TxXferCount := 0\<rparr>;
          u = u\<lparr>gState := HAL_UART_STATE_READY\<rparr>
      in (HAL_OK, u))"

definition HAL_UART_AbortReceive :: "hw_env \<Rightarrow> 'a huart \<Rightarrow> HAL_StatusTypeDef \<times> 'a huart" where
  "HAL_UART_AbortReceive env u =
     (let u = clear_CR1 (USART_CR1_RXNEIE OR USART_CR1_PEIE) u;
          u = clear_CR3 USART_CR3_EIE u;
          u = abort_rx_nocb env u;
          u = u\<lparr>RxXferCount := 0\<rparr>;
          u = u\<lparr>RxState := HAL_UART_STATE_READY\<rparr>
      in (HAL_OK, u))"

text \<open>The end of an abort of both directions, before its user callback.\<close>

definition abort_cplt :: "'a huart \<Rightarrow> 'a huart" where
  "abort_cplt u =
     u\<lparr>TxXferCount := 0, RxXferCount := 0, ErrorCode := HAL_UART_ERROR_NONE,
       gState := HAL_UART_STATE_READY, RxState := HAL_UART_STATE_READY\<rparr>"

definition HAL_UART_Abort_IT :: "'a huart uart_user \<Rightarrow> 'a huart \<Rightarrow> HAL_StatusTypeDef \<times> 'a huart" where
  "HAL_UART_Abort_IT user u =
     (let u = clear_CR1 (USART_CR1_RXNEIE OR USART_CR1_PEIE OR USART_CR1_TXEIE OR USART_CR1_TCIE) u;
          u = clear_CR3 USART_CR3_EIE u;
          dmat = HAL_IS_BIT_SET (CR3 u) USART_CR3_DMAT;
          u = (if hdmatx u \<noteq> None then
                 upd_tx (\<lambda>h. h\<lparr>XferAbortCallback :=
                   (if dmat then Some UART_DMATxAbortCallback else None)\<rparr>) u
               else u);
          dmar = HAL_IS_BIT_SET (CR3 u) USART_CR3_DMAR;
          u = (if hdmarx u \<noteq> None then
                 upd_rx (\<lambda>h. h\<lparr>XferAbortCallback :=
                   (if dmar then Some UART_DMARxAbortCallback else None)\<rparr>) u
               else u);
          AbortCplt = True;
          (AbortCplt, u) =
            (if HAL_IS_BIT_SET (CR3 u) USART_CR3_DMAT then
               (let u = clear_CR3 USART_CR3_DMAT u
                in if hdmatx u \<noteq> None then
                     (let (st, h) = HAL_DMA_Abort_IT (get_tx u);
                          u = upd_tx (\<lambda>_. h) u
                      in if st \<noteq> HAL_OK
                         then (AbortCplt, upd_tx (\<lambda>h. h\<lparr>XferAbortCallback := None\<rparr>) u)
                         else (False, u))
                   else (AbortCplt, u))
             else (AbortCplt, u));
          (AbortCplt, u) =
            (if HAL_IS_BIT_SET (CR3 u) USART_CR3_DMAR then
               (let u = clear_CR3 USART_CR3_DMAR u
                in if hdmarx u \<noteq> None then
                     (let (st, h) = HAL_DMA_Abort_IT (get_rx u);
                          u = upd_rx (\<lambda>_. h) u
                      in if st \<noteq> HAL_OK
                         then (True, upd_rx (\<lambda>h. h\<lparr>XferAbortCallback := None\<rparr>) u)
                         else (False, u))
                   else (AbortCplt, u))
             else (AbortCplt, u))
      in if AbortCplt then (HAL_OK, HAL_UART_AbortCpltCallback user (abort_cplt u))
         else (HAL_OK, u))"

section \<open>The functions called by the DMA driver\<close>

definition do_UART_DMATransmitCplt :: "'a huart uart_user \<Rightarrow> 'a huart \<Rightarrow> 'a huart" where
  "do_UART_DMATransmitCplt user u =
     (if S_CR (get_tx u) AND DMA_SxCR_CIRC = 0 then
        (let u = u\<lparr>TxXferCount := 0\<rparr>;
             u = clear_CR3 USART_CR3_DMAT u
         in set_CR1 USART_CR1_TCIE u)
      else HAL_UART_TxCpltCallback user u)"

definition do_UART_DMAReceiveCplt :: "'a huart uart_user \<Rightarrow> 'a huart \<Rightarrow> 'a huart" where
  "do_UART_DMAReceiveCplt user u =
     (let u = (if S_CR (get_rx u) AND DMA_SxCR_CIRC = 0 then
                 (let u = u\<lparr>RxXferCount := 0\<rparr>;
                      u = clear_CR1 USART_CR1_PEIE u;
                      u = clear_CR3 USART_CR3_EIE u;
                      u = clear_CR3 USART_CR3_DMAR u
                  in u\<lparr>RxState := HAL_UART_STATE_READY\<rparr>)
               else u)
      in HAL_UART_RxCpltCallback user u)"

definition do_UART_DMAError :: "'a huart uart_user \<Rightarrow> 'a huart \<Rightarrow> 'a huart" where
  "do_UART_DMAError user u =
     (let u = (if gState u = HAL_UART_STATE_BUSY_TX \<and> HAL_IS_BIT_SET (CR3 u) USART_CR3_DMAT
               then UART_EndTxTransfer (u\<lparr>TxXferCount := 0\<rparr>) else u);
          u = (if RxState u = HAL_UART_STATE_BUSY_RX \<and> HAL_IS_BIT_SET (CR3 u) USART_CR3_DMAR
               then UART_EndRxTransfer (u\<lparr>RxXferCount := 0\<rparr>) else u);
          u = u\<lparr>ErrorCode := ErrorCode u OR HAL_UART_ERROR_DMA\<rparr>
      in HAL_UART_ErrorCallback user u)"

definition do_UART_DMATxAbortCallback :: "'a huart uart_user \<Rightarrow> 'a huart \<Rightarrow> 'a huart" where
  "do_UART_DMATxAbortCallback user u =
     (let u = upd_tx (\<lambda>h. h\<lparr>XferAbortCallback := None\<rparr>) u
      in if hdmarx u \<noteq> None \<and> XferAbortCallback (get_rx u) \<noteq> None then u
         else HAL_UART_AbortCpltCallback user (abort_cplt u))"

definition do_UART_DMARxAbortCallback :: "'a huart uart_user \<Rightarrow> 'a huart \<Rightarrow> 'a huart" where
  "do_UART_DMARxAbortCallback user u =
     (let u = upd_rx (\<lambda>h. h\<lparr>XferAbortCallback := None\<rparr>) u
      in if hdmatx u \<noteq> None \<and> XferAbortCallback (get_tx u) \<noteq> None then u
         else HAL_UART_AbortCpltCallback user (abort_cplt u))"

definition do_UART_DMATxOnlyAbortCallback :: "'a huart uart_user \<Rightarrow> 'a huart \<Rightarrow> 'a huart" where
  "do_UART_DMATxOnlyAbortCallback user u =
     HAL_UART_AbortTransmitCpltCallback user (u\<lparr>TxXferCount := 0, gState := HAL_UART_STATE_READY\<rparr>)"

definition do_UART_DMARxOnlyAbortCallback :: "'a huart uart_user \<Rightarrow> 'a huart \<Rightarrow> 'a huart" where
  "do_UART_DMARxOnlyAbortCallback user u =
     HAL_UART_AbortReceiveCpltCallback user (u\<lparr>RxXferCount := 0, RxState := HAL_UART_STATE_READY\<rparr>)"

definition do_UART_DMAAbortOnError :: "'a huart uart_user \<Rightarrow> 'a huart \<Rightarrow> 'a huart" where
  "do_UART_DMAAbortOnError user u =
     HAL_UART_ErrorCallback user (u\<lparr>RxXferCount := 0, TxXferCount := 0\<rparr>)"

text \<open>A call through a function pointer of a DMA handle.\<close>

fun run_dma_cb :: "'a huart uart_user \<Rightarrow> uart_dma_cb \<Rightarrow> 'a huart \<Rightarrow> 'a huart" where
  "run_dma_cb user UART_DMATransmitCplt u = do_UART_DMATransmitCplt user u"
| "run_dma_cb user UART_DMATxHalfCplt u = HAL_UART_TxHalfCpltCallback user u"
| "run_dma_cb user UART_DMAReceiveCplt u = do_UART_DMAReceiveCplt user u"
| "run_dma_cb user UART_DMARxHalfCplt u = HAL_UART_RxHalfCpltCallback user u"
| "run_dma_cb user UART_DMAError u = do_UART_DMAError user u"
| "run_dma_cb user UART_DMAAbortOnError u = do_UART_DMAAbortOnError user u"
| "run_dma_cb user UART_DMATxAbortCallback u = do_UART_DMATxAbortCallback user u"
| "run_dma_cb user UART_DMARxAbortCallback u = do_UART_DMARxAbortCallback user u"
| "run_dma_cb user UART_DMATxOnlyAbortCallback u = do_UART_DMATxOnlyAbortCallback user u"
| "run_dma_cb user UART_DMARxOnlyAbortCallback u = do_UART_DMARxOnlyAbortCallback user u"

text \<open>The DMA interrupt of the stream the transmitter (receiver) of a UART is linked to.\<close>

definition tx_dma_irq :: "'a huart uart_user \<Rightarrow> 'a huart \<Rightarrow> 'a huart" where
  "tx_dma_irq user = HAL_DMA_IRQHandler get_tx upd_tx (run_dma_cb user)"

definition rx_dma_irq :: "'a huart uart_user \<Rightarrow> 'a huart \<Rightarrow> 'a huart" where
  "rx_dma_irq user = HAL_DMA_IRQHandler get_rx upd_rx (run_dma_cb user)"

definition HAL_UART_AbortTransmit_IT :: "'a huart uart_user \<Rightarrow> 'a huart \<Rightarrow> HAL_StatusTypeDef \<times> 'a huart" where
  "HAL_UART_AbortTransmit_IT user u =
     (let u = clear_CR1 (USART_CR1_TXEIE OR USART_CR1_TCIE) u
      in if HAL_IS_BIT_SET (CR3 u) USART_CR3_DMAT then
           (let u = clear_CR3 USART_CR3_DMAT u
            in if hdmatx u \<noteq> None then
                 (let u = upd_tx (\<lambda>h. h\<lparr>XferAbortCallback := Some UART_DMATxOnlyAbortCallback\<rparr>) u;
                      (st, h) = HAL_DMA_Abort_IT (get_tx u);
                      u = upd_tx (\<lambda>_. h) u
                  in if st \<noteq> HAL_OK
                     then (HAL_OK, call_cb (run_dma_cb user) (XferAbortCallback (get_tx u)) u)
                     else (HAL_OK, u))
               else (HAL_OK, do_UART_DMATxOnlyAbortCallback user u))
         else (HAL_OK, do_UART_DMATxOnlyAbortCallback user u))"

definition HAL_UART_AbortReceive_IT :: "'a huart uart_user \<Rightarrow> 'a huart \<Rightarrow> HAL_StatusTypeDef \<times> 'a huart" where
  "HAL_UART_AbortReceive_IT user u =
     (let u = clear_CR1 (USART_CR1_RXNEIE OR USART_CR1_PEIE) u;
          u = clear_CR3 USART_CR3_EIE u
      in if HAL_IS_BIT_SET (CR3 u) USART_CR3_DMAR then
           (let u = clear_CR3 USART_CR3_DMAR u
            in if hdmarx u \<noteq> None then
                 (let u = upd_rx (\<lambda>h. h\<lparr>XferAbortCallback := Some UART_DMARxOnlyAbortCallback\<rparr>) u;
                      (st, h) = HAL_DMA_Abort_IT (get_rx u);
                      u = upd_rx (\<lambda>_. h) u
                  in if st \<noteq> HAL_OK
                     then (HAL_OK, call_cb (run_dma_cb user) (XferAbortCallback (get_rx u)) u)
                     else (HAL_OK, u))
               else (HAL_OK, do_UART_DMARxOnlyAbortCallback user u))
         else (HAL_OK, do_UART_DMARxOnlyAbortCallback user u))"

section \<open>The interrupt-driven transfers and the interrupt handler\<close>

definition read_u16 :: "memory \<Rightarrow> u32 \<Rightarrow> u16" where
  "read_u16 m a = ucast (m a) OR push_bit 8 (ucast (m (a + 1)))"

definition write_u16 :: "u16 \<Rightarrow> u32 \<Rightarrow> memory \<Rightarrow> memory" where
  "write_u16 v a m = m(a := ucast v, a + 1 := ucast (drop_bit 8 v))"

definition UART_Transmit_IT :: "'a huart \<Rightarrow> HAL_StatusTypeDef \<times> 'a huart" where
  "UART_Transmit_IT u =
     (if gState u = HAL_UART_STATE_BUSY_TX then
        (let u = (if WordLength (Init u) = UART_WORDLENGTH_9B then
                    (let u = write_DR (ucast (read_u16 (mem u) (pTxBuffPtr u) AND 0x01FF)) u
                     in if Parity (Init u) = UART_PARITY_NONE
                        then u\<lparr>pTxBuffPtr := pTxBuffPtr u + 2\<rparr>
                        else u\<lparr>pTxBuffPtr := pTxBuffPtr u + 1\<rparr>)
                  else
                    (let u = write_DR (ucast (mem u (pTxBuffPtr u) AND 0xFF)) u
                     in u\<lparr>pTxBuffPtr := pTxBuffPtr u + 1\<rparr>));
             u = u\<lparr>TxXferCount := TxXferCount u - 1\<rparr>;
             u = (if TxXferCount u = 0
                  then (let u = clear_CR1 USART_CR1_TXEIE u in set_CR1 USART_CR1_TCIE u) else u)
         in (HAL_OK, u))
      else (HAL_BUSY, u))"

definition UART_EndTransmit_IT :: "'a huart uart_user \<Rightarrow> 'a huart \<Rightarrow> HAL_StatusTypeDef \<times> 'a huart" where
  "UART_EndTransmit_IT user u =
     (let u = clear_CR1 USART_CR1_TCIE u;
          u = u\<lparr>gState := HAL_UART_STATE_READY\<rparr>
      in (HAL_OK, HAL_UART_TxCpltCallback user u))"

definition UART_Receive_IT :: "'a huart uart_user \<Rightarrow> 'a huart \<Rightarrow> HAL_StatusTypeDef \<times> 'a huart" where
  "UART_Receive_IT user u =
     (if RxState u = HAL_UART_STATE_BUSY_RX then
        (let u = (if WordLength (Init u) = UART_WORDLENGTH_9B then
                    (if Parity (Init u) = UART_PARITY_NONE then
                       (let (v, u) = read_DR u;
                            u = u\<lparr>mem := write_u16 (ucast v AND 0x01FF) (pRxBuffPtr u) (mem u)\<rparr>
                        in u\<lparr>pRxBuffPtr := pRxBuffPtr u + 2\<rparr>)
                     else
                       (let (v, u) = read_DR u;
                            u = u\<lparr>mem := write_u16 (ucast v AND 0x00FF) (pRxBuffPtr u) (mem u)\<rparr>
                        in u\<lparr>pRxBuffPtr := pRxBuffPtr u + 1\<rparr>))
                  else
                    (let (v, u) = read_DR u;
                         b = (if Parity (Init u) = UART_PARITY_NONE
                              then ucast (v AND 0x00FF) else ucast (v AND 0x007F));
                         u = u\<lparr>mem := (mem u)(pRxBuffPtr u := b)\<rparr>
                     in u\<lparr>pRxBuffPtr := pRxBuffPtr u + 1\<rparr>));
             u = u\<lparr>RxXferCount := RxXferCount u - 1\<rparr>
         in if RxXferCount u = 0 then
              (let u = clear_CR1 (USART_CR1_RXNEIE OR USART_CR1_PEIE) u;
                   u = clear_CR3 USART_CR3_EIE u;
                   u = u\<lparr>RxState := HAL_UART_STATE_READY\<rparr>
               in (HAL_OK, HAL_UART_RxCpltCallback user u))
            else (HAL_OK, u))
      else (HAL_BUSY, u))"

text \<open>The error part of the interrupt handler: the error bits are collected, and in DMA
  reception (or on an overrun) the reception is ended and its stream aborted.\<close>

definition uart_irq_collect :: "u32 \<Rightarrow> u32 \<Rightarrow> u32 \<Rightarrow> 'a huart \<Rightarrow> 'a huart" where
  "uart_irq_collect isrflags cr1its cr3its u =
     (let u = (if HAL_IS_BIT_SET isrflags USART_SR_PE \<and> HAL_IS_BIT_SET cr1its USART_CR1_PEIE
               then u\<lparr>ErrorCode := ErrorCode u OR HAL_UART_ERROR_PE\<rparr> else u);
          u = (if HAL_IS_BIT_SET isrflags USART_SR_NE \<and> HAL_IS_BIT_SET cr3its USART_CR3_EIE
               then u\<lparr>ErrorCode := ErrorCode u OR HAL_UART_ERROR_NE\<rparr> else u);
          u = (if HAL_IS_BIT_SET isrflags USART_SR_FE \<and> HAL_IS_BIT_SET cr3its USART_CR3_EIE
               then u\<lparr>ErrorCode := ErrorCode u OR HAL_UART_ERROR_FE\<rparr> else u)
      in if HAL_IS_BIT_SET isrflags USART_SR_ORE \<and> HAL_IS_BIT_SET cr3its USART_CR3_EIE
         then u\<lparr>ErrorCode := ErrorCode u OR HAL_UART_ERROR_ORE\<rparr> else u)"

definition uart_irq_blocking :: "'a huart uart_user \<Rightarrow> 'a huart \<Rightarrow> 'a huart" where
  "uart_irq_blocking user u =
     (let u = UART_EndRxTransfer u
      in if HAL_IS_BIT_SET (CR3 u) USART_CR3_DMAR then
           (let u = clear_CR3 USART_CR3_DMAR u
            in if hdmarx u \<noteq> None then
                 (let u = upd_rx (\<lambda>h. h\<lparr>XferAbortCallback := Some UART_DMAAbortOnError\<rparr>) u;
                      (st, h) = HAL_DMA_Abort_IT (get_rx u);
                      u = upd_rx (\<lambda>_. h) u
                  in if st \<noteq> HAL_OK
                     then call_cb (run_dma_cb user) (XferAbortCallback (get_rx u)) u
                     else u)
               else HAL_UART_ErrorCallback user u)
         else HAL_UART_ErrorCallback user u)"

definition HAL_UART_IRQHandler :: "'a huart uart_user \<Rightarrow> 'a huart \<Rightarrow> 'a huart" where
  "HAL_UART_IRQHandler user u =
     (let isrflags = SR u; cr1its = CR1 u; cr3its = CR3 u;
          errorflags = isrflags AND (USART_SR_PE OR USART_SR_FE OR USART_SR_ORE OR USART_SR_NE)
      in if errorflags = 0 \<and> HAL_IS_BIT_SET isrflags USART_SR_RXNE
            \<and> HAL_IS_BIT_SET cr1its USART_CR1_RXNEIE
         then snd (UART_Receive_IT user u)
         else if errorflags \<noteq> 0 \<and> (HAL_IS_BIT_SET cr3its USART_CR3_EIE
                 \<or> HAL_IS_BIT_SET cr1its (USART_CR1_RXNEIE OR USART_CR1_PEIE))
         then
           (let u = uart_irq_collect isrflags cr1its cr3its u
            in if ErrorCode u \<noteq> HAL_UART_ERROR_NONE then
                 (let u = (if HAL_IS_BIT_SET isrflags USART_SR_RXNE
                              \<and> HAL_IS_BIT_SET cr1its USART_CR1_RXNEIE
                           then snd (UART_Receive_IT user u) else u);
                      dmarequest = HAL_IS_BIT_SET (CR3 u) USART_CR3_DMAR
                  in if HAL_IS_BIT_SET (ErrorCode u) HAL_UART_ERROR_ORE \<or> dmarequest
                     then uart_irq_blocking user u
                     else (HAL_UART_ErrorCallback user u)\<lparr>ErrorCode := HAL_UART_ERROR_NONE\<rparr>)
               else u)
         else if HAL_IS_BIT_SET isrflags USART_SR_TXE \<and> HAL_IS_BIT_SET cr1its USART_CR1_TXEIE
         then snd (UART_Transmit_IT u)
         else if HAL_IS_BIT_SET isrflags USART_SR_TC \<and> HAL_IS_BIT_SET cr1its USART_CR1_TCIE
         then snd (UART_EndTransmit_IT user u)
         else u)"

section \<open>Peripheral control and state\<close>

text \<open>The five control routines lock the handle, mark it busy, change \<open>CR1\<close> and release it.\<close>

definition uart_control :: "('a huart \<Rightarrow> 'a huart) \<Rightarrow> 'a huart \<Rightarrow> HAL_StatusTypeDef \<times> 'a huart" where
  "uart_control change u =
     (if Lock u = HAL_LOCKED then (HAL_BUSY, u)
      else
        (let u = u\<lparr>Lock := HAL_LOCKED\<rparr>;
             u = u\<lparr>gState := HAL_UART_STATE_BUSY\<rparr>;
             u = change u;
             u = u\<lparr>gState := HAL_UART_STATE_READY\<rparr>;
             u = u\<lparr>Lock := HAL_UNLOCKED\<rparr>
         in (HAL_OK, u)))"

definition HAL_LIN_SendBreak :: "'a huart \<Rightarrow> HAL_StatusTypeDef \<times> 'a huart" where
  "HAL_LIN_SendBreak = uart_control (set_CR1 USART_CR1_SBK)"

definition HAL_MultiProcessor_EnterMuteMode :: "'a huart \<Rightarrow> HAL_StatusTypeDef \<times> 'a huart" where
  "HAL_MultiProcessor_EnterMuteMode = uart_control (set_CR1 USART_CR1_RWU)"

definition HAL_MultiProcessor_ExitMuteMode :: "'a huart \<Rightarrow> HAL_StatusTypeDef \<times> 'a huart" where
  "HAL_MultiProcessor_ExitMuteMode = uart_control (clear_CR1 USART_CR1_RWU)"

definition HAL_HalfDuplex_EnableTransmitter :: "'a huart \<Rightarrow> HAL_StatusTypeDef \<times> 'a huart" where
  "HAL_HalfDuplex_EnableTransmitter =
     uart_control (\<lambda>u. u\<lparr>CR1 := CLEAR_BIT (CR1 u) (USART_CR1_TE OR USART_CR1_RE) OR USART_CR1_TE\<rparr>)"

definition HAL_HalfDuplex_EnableReceiver :: "'a huart \<Rightarrow> HAL_StatusTypeDef \<times> 'a huart" where
  "HAL_HalfDuplex_EnableReceiver =
     uart_control (\<lambda>u. u\<lparr>CR1 := CLEAR_BIT (CR1 u) (USART_CR1_TE OR USART_CR1_RE) OR USART_CR1_RE\<rparr>)"

definition HAL_UART_GetState :: "'a huart \<Rightarrow> u32" where
  "HAL_UART_GetState u = gState u OR RxState u"

definition HAL_UART_GetError :: "'a huart \<Rightarrow> u32" where
  "HAL_UART_GetError u = ErrorCode u"


section \<open>Starting and stopping reception by DMA\<close>

text \<open>The RX stream as \<open>HAL_UART_Receive_DMA\<close> starts it, and the transmitter's part of
  \<open>HAL_UART_DMAStop\<close>.\<close>

definition rx_start :: "u32 \<Rightarrow> u32 \<Rightarrow> u16 \<Rightarrow> uart_dma \<Rightarrow> uart_dma" where
  "rx_start inst pData Size h = snd (HAL_DMA_Start_IT
     (h\<lparr>XferCpltCallback := Some UART_DMAReceiveCplt, XferHalfCpltCallback := Some UART_DMARxHalfCplt,
        XferErrorCallback := Some UART_DMAError, XferAbortCallback := None\<rparr>)
     (DR_addr inst) pData (ucast Size))"

lemma HAL_UART_Receive_DMA_ok:
  assumes "RxState u = HAL_UART_STATE_READY" "pData \<noteq> 0" "Size \<noteq> 0" "Lock u = HAL_UNLOCKED"
    "hdmarx u = Some h"
  shows "HAL_UART_Receive_DMA u pData Size = (HAL_OK,
    u\<lparr>pRxBuffPtr := pData, RxXferSize := Size, ErrorCode := HAL_UART_ERROR_NONE,
      RxState := HAL_UART_STATE_BUSY_RX, hdmarx := Some (rx_start (Instance u) pData Size h),
      SR := CLEAR_BIT (SR u) SR_rx_flags, Lock := HAL_UNLOCKED,
      CR1 := SET_BIT (CR1 u) USART_CR1_PEIE,
      CR3 := SET_BIT (SET_BIT (CR3 u) USART_CR3_EIE) USART_CR3_DMAR\<rparr>)"
  using assms
  by (simp add: HAL_UART_Receive_DMA_def Let_def upd_rx_def rx_start_def uart_reg_defs)

definition stop_tx :: "hw_env \<Rightarrow> 'a huart \<Rightarrow> 'a huart" where
  "stop_tx env u =
     (if gState u = HAL_UART_STATE_BUSY_TX \<and> HAL_IS_BIT_SET (CR3 u) USART_CR3_DMAT
      then UART_EndTxTransfer (abort_tx env (clear_CR3 USART_CR3_DMAT u)) else u)"

lemma HAL_UART_DMAStop_rx:
  assumes "RxState u = HAL_UART_STATE_BUSY_RX" "HAL_IS_BIT_SET (CR3 u) USART_CR3_DMAR"
    "hdmarx u = Some h"
  shows "HAL_UART_DMAStop env u = (HAL_OK, (stop_tx env u)
    \<lparr>CR3 := CLEAR_BIT (CLEAR_BIT (CR3 (stop_tx env u)) USART_CR3_DMAR) USART_CR3_EIE,
     hdmarx := Some (snd (HAL_DMA_Abort env h)),
     CR1 := CLEAR_BIT (CR1 (stop_tx env u)) (USART_CR1_RXNEIE OR USART_CR1_PEIE),
     RxState := HAL_UART_STATE_READY\<rparr>)"
  using assms
  by (auto simp: HAL_UART_DMAStop_def Let_def stop_tx_def abort_rx_def abort_tx_def upd_rx_def
      upd_tx_def UART_EndRxTransfer_def UART_EndTxTransfer_def flag_simps split: option.splits)

lemma HAL_UART_DMAStop_no_rx:
  assumes "RxState u \<noteq> HAL_UART_STATE_BUSY_RX \<or> \<not> HAL_IS_BIT_SET (CR3 u) USART_CR3_DMAR"
  shows "HAL_UART_DMAStop env u = (HAL_OK, stop_tx env u)"
  using assms
  by (auto simp: HAL_UART_DMAStop_def Let_def stop_tx_def abort_tx_def
      upd_tx_def UART_EndTxTransfer_def flag_simps split: option.splits)

section \<open>Initialisation of a handle after reset\<close>

lemma CLEAR_zero [simp]: "CLEAR_BIT 0 m = 0"
  by (simp add: CLEAR_BIT_def)

definition brr_for :: "rcc_freq \<Rightarrow> u32 \<Rightarrow> u32 \<Rightarrow> u32" where
  "brr_for rcc inst baud = UART_BRR_SAMPLING16
     (if inst = USART1 \<or> inst = USART6 then PCLK2Freq rcc else PCLK1Freq rcc) baud"

lemma UART_SetConfig_reset:
  assumes "CR1 u = 0" "CR2 u = 0" "CR3 u = 0" "HwFlowCtl (Init u) = 0" "OverSampling (Init u) = 0"
    "WordLength (Init u) = 0" "StopBits (Init u) = 0" "Mode (Init u) = UART_MODE_TX_RX"
  shows "UART_SetConfig rcc u = u\<lparr>CR1 := Parity (Init u) OR UART_MODE_TX_RX, CR2 := 0, CR3 := 0,
    BRR := brr_for rcc (Instance u) (BaudRate (Init u))\<rparr>"
  using assms by (simp add: UART_SetConfig_def brr_for_def)

lemma HAL_UART_Init_reset:
  assumes g: "gState u = HAL_UART_STATE_RESET"
    and m: "msp (u\<lparr>Lock := HAL_UNLOCKED\<rparr>) = u\<lparr>Lock := HAL_UNLOCKED, hdmatx := ht, hdmarx := hr\<rparr>"
    and c: "CR1 u = 0" "CR2 u = 0" "CR3 u = 0" "HwFlowCtl (Init u) = 0" "OverSampling (Init u) = 0"
      "WordLength (Init u) = 0" "StopBits (Init u) = 0" "Mode (Init u) = UART_MODE_TX_RX"
  shows "HAL_UART_Init rcc msp (Some u) = (HAL_OK, Some (u\<lparr>Lock := HAL_UNLOCKED, hdmatx := ht,
      hdmarx := hr, CR1 := SET_BIT (Parity (Init u) OR UART_MODE_TX_RX) USART_CR1_UE, CR2 := 0,
      CR3 := 0, BRR := brr_for rcc (Instance u) (BaudRate (Init u)),
      ErrorCode := HAL_UART_ERROR_NONE, gState := HAL_UART_STATE_READY, RxState := HAL_UART_STATE_READY\<rparr>))"
proof -
  have "uart_init_enter rcc msp u = (u\<lparr>Lock := HAL_UNLOCKED, hdmatx := ht, hdmarx := hr,
      gState := HAL_UART_STATE_BUSY, CR1 := Parity (Init u) OR UART_MODE_TX_RX, CR2 := 0,
      CR3 := 0, BRR := brr_for rcc (Instance u) (BaudRate (Init u))\<rparr>)"
    unfolding uart_init_enter_def using g m c by (simp add: UART_SetConfig_reset)
  then show ?thesis
    by (simp add: HAL_UART_Init_def null_check_def uart_init_leave_def)
qed

end
