(* ===== verification/UsartMsp.thy ===== *)
theory UsartMsp
  imports HalUart
begin

text \<open>
  The board support of the serial ports, the second half of SYSTEM/usart/usart.c: what
  \<open>HAL_UART_MspInit\<close> configures for each of the six ports (pins, clocks, interrupt lines, DMA
  streams), and which interrupt handler serves which port and direction.
\<close>

section \<open>Streams, interrupt lines, pins\<close>

datatype usart_port = usart1 | usart2 | usart3 | usart4 | usart5 | usart6

definition usart_ports :: "usart_port list" where
  "usart_ports = [usart1, usart2, usart3, usart4, usart5, usart6]"

lemma usart_ports_all: "list_all P usart_ports \<longleftrightarrow> (\<forall>k. P k)"
proof -
  have "k \<in> set usart_ports" for k
    by (cases k) (simp_all add: usart_ports_def)
  then show ?thesis
    by (auto simp: list_all_iff)
qed

fun USART_Instance :: "usart_port \<Rightarrow> u32" where
  "USART_Instance usart1 = USART1"
| "USART_Instance usart2 = USART2"
| "USART_Instance usart3 = USART3"
| "USART_Instance usart4 = UART4"
| "USART_Instance usart5 = UART5"
| "USART_Instance usart6 = USART6"

lemma USART_Instance_inj: "USART_Instance k = USART_Instance l \<longleftrightarrow> k = l"
  by (cases k; cases l) simp_all

text \<open>The port whose struct the code reaches for an \<open>Instance\<close>.\<close>

definition port_of :: "u32 \<Rightarrow> usart_port option" where
  "port_of inst =
     (if inst = USART1 then Some usart1
      else if inst = USART2 then Some usart2
      else if inst = USART3 then Some usart3
      else if inst = UART4 then Some usart4
      else if inst = UART5 then Some usart5
      else if inst = USART6 then Some usart6
      else None)"

lemma port_of_Instance [simp]: "port_of (USART_Instance k) = Some k"
  by (cases k) (simp_all add: port_of_def)

datatype dma_ctrl = DMA1 | DMA2

text \<open>The address of a stream's registers (stm32f407xx.h).\<close>

fun DMA_base :: "dma_ctrl \<Rightarrow> u32" where
  "DMA_base DMA1 = 0x40026000"
| "DMA_base DMA2 = 0x40026400"

definition DMA_Stream :: "dma_ctrl \<Rightarrow> nat \<Rightarrow> u32" where
  "DMA_Stream c n = DMA_base c + 0x10 + 0x18 * of_nat n"

datatype IRQn = USART_IRQn usart_port | DMA_Stream_IRQn dma_ctrl nat

datatype gpio = GPIOA | GPIOB | GPIOC | GPIOD

datatype periph = USART_CLK usart_port | GPIO_CLK gpio | DMA_CLK dma_ctrl

text \<open>The calls \<open>HAL_UART_MspInit\<close> makes besides those that concern DMA handles.\<close>

datatype msp_event =
    RCC_CLK_ENABLE periph
  | HAL_GPIO_Init gpio u32 u32 u32 u32 u32 \<comment> \<open>port, Pin, Mode, Pull, Speed, Alternate\<close>
  | HAL_NVIC_SetPriority IRQn nat nat
  | HAL_NVIC_EnableIRQ IRQn

abbreviation GPIO_MODE_AF_PP :: u32 where "GPIO_MODE_AF_PP \<equiv> 2"
abbreviation GPIO_PULLUP :: u32 where "GPIO_PULLUP \<equiv> 1"
abbreviation GPIO_SPEED_FREQ_HIGH :: u32 where "GPIO_SPEED_FREQ_HIGH \<equiv> 2"

text \<open>\<open>GPIO_PIN_n\<close>.\<close>

abbreviation GPIO_PIN :: "nat \<Rightarrow> u32" where "GPIO_PIN n \<equiv> push_bit n 1"

definition pin_init :: "gpio \<Rightarrow> u32 \<Rightarrow> u32 \<Rightarrow> msp_event" where
  "pin_init g pin af = HAL_GPIO_Init g pin GPIO_MODE_AF_PP GPIO_PULLUP GPIO_SPEED_FREQ_HIGH af"

definition irq_init :: "IRQn \<Rightarrow> nat \<Rightarrow> nat \<Rightarrow> msp_event list" where
  "irq_init n pre sub = [HAL_NVIC_SetPriority n pre sub, HAL_NVIC_EnableIRQ n]"

section \<open>\<open>HAL_UART_MspInit\<close>\<close>

text \<open>The pins, clocks and interrupt lines, in the order of the calls.\<close>

definition msp_usart1 :: "msp_event list" where
  "msp_usart1 =
     [RCC_CLK_ENABLE (USART_CLK usart1), RCC_CLK_ENABLE (GPIO_CLK GPIOA),
      pin_init GPIOA (GPIO_PIN 9) 7, pin_init GPIOA (GPIO_PIN 10) 7]
     @ irq_init (USART_IRQn usart1) 2 0
     @ [RCC_CLK_ENABLE (DMA_CLK DMA2)]
     @ irq_init (DMA_Stream_IRQn DMA2 7) 2 0 @ irq_init (DMA_Stream_IRQn DMA2 5) 2 0"

definition msp_usart2 :: "msp_event list" where
  "msp_usart2 =
     [RCC_CLK_ENABLE (USART_CLK usart2), RCC_CLK_ENABLE (GPIO_CLK GPIOA),
      pin_init GPIOA (GPIO_PIN 2) 7, pin_init GPIOA (GPIO_PIN 3) 7]
     @ irq_init (USART_IRQn usart2) 2 1
     @ [RCC_CLK_ENABLE (DMA_CLK DMA1)]
     @ irq_init (DMA_Stream_IRQn DMA1 6) 2 1 @ irq_init (DMA_Stream_IRQn DMA1 5) 2 1"

definition msp_usart3 :: "msp_event list" where
  "msp_usart3 =
     [RCC_CLK_ENABLE (USART_CLK usart3), RCC_CLK_ENABLE (GPIO_CLK GPIOB),
      pin_init GPIOB (GPIO_PIN 10) 7, pin_init GPIOB (GPIO_PIN 11) 7]
     @ irq_init (USART_IRQn usart3) 2 2
     @ [RCC_CLK_ENABLE (DMA_CLK DMA1)]
     @ irq_init (DMA_Stream_IRQn DMA1 3) 2 2 @ irq_init (DMA_Stream_IRQn DMA1 1) 2 2"

definition msp_usart4 :: "msp_event list" where
  "msp_usart4 =
     [RCC_CLK_ENABLE (USART_CLK usart4), RCC_CLK_ENABLE (GPIO_CLK GPIOC),
      pin_init GPIOC (GPIO_PIN 10) 8, pin_init GPIOC (GPIO_PIN 11) 8]
     @ irq_init (USART_IRQn usart4) 2 3
     @ [RCC_CLK_ENABLE (DMA_CLK DMA1)]
     @ irq_init (DMA_Stream_IRQn DMA1 2) 2 3 @ irq_init (DMA_Stream_IRQn DMA1 4) 2 3"

definition msp_usart5 :: "msp_event list" where
  "msp_usart5 =
     [RCC_CLK_ENABLE (USART_CLK usart5), RCC_CLK_ENABLE (GPIO_CLK GPIOC),
      RCC_CLK_ENABLE (GPIO_CLK GPIOD),
      pin_init GPIOD (GPIO_PIN 2) 8, pin_init GPIOC (GPIO_PIN 12) 8]
     @ irq_init (USART_IRQn usart5) 2 3
     @ [RCC_CLK_ENABLE (DMA_CLK DMA1)]
     @ irq_init (DMA_Stream_IRQn DMA1 7) 2 3 @ irq_init (DMA_Stream_IRQn DMA1 0) 2 3"

definition msp_usart6 :: "msp_event list" where
  "msp_usart6 =
     [RCC_CLK_ENABLE (USART_CLK usart6), RCC_CLK_ENABLE (GPIO_CLK GPIOC),
      pin_init GPIOC (GPIO_PIN 6 OR GPIO_PIN 7) 8]
     @ irq_init (USART_IRQn usart6) 2 3
     @ [RCC_CLK_ENABLE (DMA_CLK DMA2)]
     @ irq_init (DMA_Stream_IRQn DMA2 6) 2 3 @ irq_init (DMA_Stream_IRQn DMA2 1) 2 3"

fun msp_events :: "usart_port \<Rightarrow> msp_event list" where
  "msp_events usart1 = msp_usart1"
| "msp_events usart2 = msp_usart2"
| "msp_events usart3 = msp_usart3"
| "msp_events usart4 = msp_usart4"
| "msp_events usart5 = msp_usart5"
| "msp_events usart6 = msp_usart6"

lemmas msp_usart_defs = msp_usart1_def msp_usart2_def msp_usart3_def msp_usart4_def msp_usart5_def msp_usart6_def

text \<open>The stream (controller, number), channel and priority of each direction.\<close>

fun tx_stream :: "usart_port \<Rightarrow> dma_ctrl \<times> nat" where
  "tx_stream usart1 = (DMA2, 7)"
| "tx_stream usart2 = (DMA1, 6)"
| "tx_stream usart3 = (DMA1, 3)"
| "tx_stream usart4 = (DMA1, 4)"
| "tx_stream usart5 = (DMA1, 7)"
| "tx_stream usart6 = (DMA2, 6)"

fun rx_stream :: "usart_port \<Rightarrow> dma_ctrl \<times> nat" where
  "rx_stream usart1 = (DMA2, 5)"
| "rx_stream usart2 = (DMA1, 5)"
| "rx_stream usart3 = (DMA1, 1)"
| "rx_stream usart4 = (DMA1, 2)"
| "rx_stream usart5 = (DMA1, 0)"
| "rx_stream usart6 = (DMA2, 1)"

definition dma_channel :: "usart_port \<Rightarrow> u32" where
  "dma_channel k = (if k = usart6 then DMA_CHANNEL_5 else DMA_CHANNEL_4)"

fun tx_priority :: "usart_port \<Rightarrow> u32" where
  "tx_priority usart1 = DMA_PRIORITY_HIGH"
| "tx_priority usart2 = DMA_PRIORITY_MEDIUM"
| "tx_priority _ = DMA_PRIORITY_LOW"

fun rx_priority :: "usart_port \<Rightarrow> u32" where
  "rx_priority usart1 = DMA_PRIORITY_HIGH"
| "rx_priority usart2 = DMA_PRIORITY_MEDIUM"
| "rx_priority usart3 = DMA_PRIORITY_MEDIUM"
| "rx_priority usart4 = DMA_PRIORITY_MEDIUM"
| "rx_priority _ = DMA_PRIORITY_LOW"

definition dma_config :: "u32 \<Rightarrow> u32 \<Rightarrow> u32 \<Rightarrow> DMA_InitTypeDef" where
  "dma_config channel direction priority =
     \<lparr>Channel = channel, Direction = direction, PeriphInc = DMA_PINC_DISABLE,
      MemInc = DMA_MINC_ENABLE, PeriphDataAlignment = DMA_PDATAALIGN_BYTE,
      MemDataAlignment = DMA_MDATAALIGN_BYTE, DMode = DMA_NORMAL, Priority = priority,
      FIFOMode = DMA_FIFOMODE_DISABLE, FIFOThreshold = DMA_FIFO_THRESHOLD_FULL,
      MemBurst = DMA_MBURST_SINGLE, PeriphBurst = DMA_PBURST_SINGLE\<rparr>"

definition tx_config :: "usart_port \<Rightarrow> DMA_InitTypeDef" where
  "tx_config k = dma_config (dma_channel k) DMA_MEMORY_TO_PERIPH (tx_priority k)"

definition rx_config :: "usart_port \<Rightarrow> DMA_InitTypeDef" where
  "rx_config k = dma_config (dma_channel k) DMA_PERIPH_TO_MEMORY (rx_priority k)"

text \<open>The handler objects of a port are zero-initialised globals before they are linked; the
  stream registers have their reset values.\<close>

definition zero_handler :: uart_dma where
  "zero_handler = \<lparr>DInstance = 0, S_CR = 0, S_NDTR = 0, S_PAR = 0, S_M0AR = 0, S_M1AR = 0,
     S_FCR = 0x21, ISR = 0, 
     DInit = \<lparr>Channel = 0, Direction = 0, PeriphInc = 0, MemInc = 0, PeriphDataAlignment = 0,
       MemDataAlignment = 0, DMode = 0, Priority = 0, FIFOMode = 0, FIFOThreshold = 0, MemBurst = 0,
       PeriphBurst = 0\<rparr>, DLock = HAL_UNLOCKED,
     DState = HAL_DMA_STATE_RESET, XferCpltCallback = None, XferHalfCpltCallback = None,
     XferM1CpltCallback = None, XferM1HalfCpltCallback = None, XferErrorCallback = None,
     XferAbortCallback = None, DErrorCode = 0, StreamBaseAddress = 0, StreamIndex = 0\<rparr>"

definition handler_or_zero :: "uart_dma option \<Rightarrow> uart_dma" where
  "handler_or_zero h = (case h of None \<Rightarrow> zero_handler | Some h \<Rightarrow> h)"

text \<open>\<open>HAL_DMA_Init(&handler)\<close> with its status ignored, as the code calls it.\<close>

definition dma_init_handler :: "hw_env \<Rightarrow> u32 \<Rightarrow> DMA_InitTypeDef \<Rightarrow> uart_dma \<Rightarrow> uart_dma option" where
  "dma_init_handler env inst cfg h =
     (case HAL_DMA_Init env (Some (h\<lparr>DInstance := inst, DInit := cfg\<rparr>)) of
        Some (_, Some h') \<Rightarrow> Some h' | _ \<Rightarrow> None)"

text \<open>The DMA part: both handles configured, initialised and linked.\<close>

definition HAL_UART_MspInit :: "hw_env \<Rightarrow> 'a huart \<Rightarrow> 'a huart" where
  "HAL_UART_MspInit env u =
     (case port_of (Instance u) of
        None \<Rightarrow> u
      | Some k \<Rightarrow>
          (let (c, n) = tx_stream k;
               u = u\<lparr>hdmatx := dma_init_handler env (DMA_Stream c n) (tx_config k)
                                 (handler_or_zero (hdmatx u))\<rparr>;
               (c, n) = rx_stream k
           in u\<lparr>hdmarx := dma_init_handler env (DMA_Stream c n) (rx_config k)
                            (handler_or_zero (hdmarx u))\<rparr>))"

section \<open>Which handler an interrupt runs\<close>

datatype irq_action = USARTx_IRQHandler | DMA_TX_IRQHandler | DMA_RX_IRQHandler

text \<open>The DMA stream handlers \<open>DMA1_Stream0_IRQHandler\<close> to \<open>DMA2_Stream7_IRQHandler\<close> of the file and
  the six \<open>USARTx_IRQHandler\<close>: the port and direction whose handle each passes on.\<close>

fun irq_route :: "IRQn \<Rightarrow> (usart_port \<times> irq_action) option" where
  "irq_route (USART_IRQn k) = Some (k, USARTx_IRQHandler)"
| "irq_route (DMA_Stream_IRQn c n) =
     (if (c, n) = (DMA1, 3) then Some (usart3, DMA_TX_IRQHandler)
      else if (c, n) = (DMA1, 1) then Some (usart3, DMA_RX_IRQHandler)
      else if (c, n) = (DMA2, 7) then Some (usart1, DMA_TX_IRQHandler)
      else if (c, n) = (DMA2, 5) then Some (usart1, DMA_RX_IRQHandler)
      else if (c, n) = (DMA1, 5) then Some (usart2, DMA_RX_IRQHandler)
      else if (c, n) = (DMA1, 6) then Some (usart2, DMA_TX_IRQHandler)
      else if (c, n) = (DMA1, 2) then Some (usart4, DMA_RX_IRQHandler)
      else if (c, n) = (DMA1, 4) then Some (usart4, DMA_TX_IRQHandler)
      else if (c, n) = (DMA1, 0) then Some (usart5, DMA_RX_IRQHandler)
      else if (c, n) = (DMA1, 7) then Some (usart5, DMA_TX_IRQHandler)
      else if (c, n) = (DMA2, 1) then Some (usart6, DMA_RX_IRQHandler)
      else if (c, n) = (DMA2, 6) then Some (usart6, DMA_TX_IRQHandler)
      else None)"

section \<open>The DMA handles after \<open>HAL_UART_MspInit\<close>\<close>

lemma stream_n: "snd (tx_stream k) < 8" "snd (rx_stream k) < 8"
  by (cases k; simp)+

lemma DMA_Init_zero:
  assumes "n < 8" "FIFOMode cfg = DMA_FIFOMODE_DISABLE"
  shows "\<exists>h. dma_init_handler env (DMA_Stream c n) cfg zero_handler = Some h \<and>
    DInstance h = DMA_Stream c n \<and> DInit h = cfg \<and> DState h = HAL_DMA_STATE_READY \<and>
    DLock h = HAL_UNLOCKED \<and> DErrorCode h = HAL_DMA_ERROR_NONE \<and> ISR h = 0 \<and>
    S_CR h = DMA_Init_CR cfg 0 \<and> StreamIndex h = flagBitshiftOffset ! n"
proof -
  have b: "DMA_base c \<in> {0x40026000, 0x40026400}"
    by (cases c) simp_all
  show ?thesis
    using assms(2)
    by (simp add: stream_calc [OF b assms(1)] dma_init_handler_def HAL_DMA_Init_def zero_handler_def HAL_DMA_DISABLE_def
        DMA_Stream_def write_IFCR_def CLEAR_BIT_def flag_simps Let_def)
qed

lemma tx_config_CR: "\<not> HAL_IS_BIT_SET (DMA_Init_CR (tx_config k) 0) (DMA_SxCR_CIRC OR DMA_SxCR_DBM)"
  and rx_config_CR: "\<not> HAL_IS_BIT_SET (DMA_Init_CR (rx_config k) 0) (DMA_SxCR_CIRC OR DMA_SxCR_DBM)"
  by (cases k; simp add: DMA_Init_CR_def tx_config_def rx_config_def dma_config_def dma_channel_def CLEAR_BIT_def
      HAL_IS_BIT_SET_def)+


lemma HAL_UART_MspInit_ok:
  assumes "port_of (Instance u) = Some k" "hdmatx u = None" "hdmarx u = None"
  shows "\<exists>ht hr. HAL_UART_MspInit env u = u\<lparr>hdmatx := Some ht, hdmarx := Some hr\<rparr> \<and>
    DInstance ht = (case tx_stream k of (c, n) \<Rightarrow> DMA_Stream c n) \<and> DInit ht = tx_config k \<and>
    DInstance hr = (case rx_stream k of (c, n) \<Rightarrow> DMA_Stream c n) \<and> DInit hr = rx_config k \<and>
    StreamIndex ht \<in> {0, 6, 16, 22} \<and> S_CR ht = DMA_Init_CR (tx_config k) 0 \<and>
    StreamIndex hr \<in> {0, 6, 16, 22} \<and> S_CR hr = DMA_Init_CR (rx_config k) 0 \<and>
    (\<forall>h \<in> {ht, hr}. DState h = HAL_DMA_STATE_READY \<and> DLock h = HAL_UNLOCKED \<and>
       DErrorCode h = HAL_DMA_ERROR_NONE \<and> ISR h = 0)"
proof -
  obtain ct nt cr nr where s: "tx_stream k = (ct, nt)" "rx_stream k = (cr, nr)"
    by (metis surj_pair)
  then have n: "nt < 8" "nr < 8"
    using stream_n [of k] by simp_all
  have f: "FIFOMode (tx_config k) = DMA_FIFOMODE_DISABLE" "FIFOMode (rx_config k) = DMA_FIFOMODE_DISABLE"
    by (simp_all add: tx_config_def rx_config_def dma_config_def)
  have "flagBitshiftOffset ! nt \<in> {0, 6, 16, 22}" "flagBitshiftOffset ! nr \<in> {0, 6, 16, 22}"
    using nat_less_8_cases [OF n(1)] nat_less_8_cases [OF n(2)] by (auto simp: flagBitshiftOffset_def)
  moreover obtain ht hr where
    "dma_init_handler env (DMA_Stream ct nt) (tx_config k) zero_handler = Some ht"
    "DInstance ht = DMA_Stream ct nt" "DInit ht = tx_config k" "DState ht = HAL_DMA_STATE_READY"
    "DLock ht = HAL_UNLOCKED" "DErrorCode ht = HAL_DMA_ERROR_NONE" "ISR ht = 0"
    "S_CR ht = DMA_Init_CR (tx_config k) 0" "StreamIndex ht = flagBitshiftOffset ! nt"
    "dma_init_handler env (DMA_Stream cr nr) (rx_config k) zero_handler = Some hr"
    "DInstance hr = DMA_Stream cr nr" "DInit hr = rx_config k" "DState hr = HAL_DMA_STATE_READY"
    "DLock hr = HAL_UNLOCKED" "DErrorCode hr = HAL_DMA_ERROR_NONE" "ISR hr = 0"
    "S_CR hr = DMA_Init_CR (rx_config k) 0" "StreamIndex hr = flagBitshiftOffset ! nr"
    using DMA_Init_zero [OF n(1) f(1), of env ct] DMA_Init_zero [OF n(2) f(2), of env cr] by blast
  ultimately show ?thesis
    using assms s
    by (intro exI [of _ ht] exI [of _ hr]) (simp add: HAL_UART_MspInit_def handler_or_zero_def)
qed

end
