(* ===== verification/Usart.thy ===== *)
theory Usart
  imports UsartMsp
begin

text \<open>
  The serial port layer, the first half of SYSTEM/usart/usart.c, in the configuration it is
  built in (\<open>USART_DMA_ENABLE\<close> is 1): reception by DMA into one of two buffers, ended by the
  idle-line interrupt or by a full buffer, and handed to a user function by
  \<open>receive_str_manage\<close>; transmission by DMA or by polling.
\<close>

section \<open>The port\<close>

text \<open>
  \<open>STUsart\<close> of usart.h: the record extends the UART handle, its member \<open>USART_Handler\<close>. The
  members \<open>buff1\<close> and \<open>buff2\<close> are arrays in memory: the record has their addresses. The DMA
  handles \<open>DMA_TX_Handler\<close> and \<open>DMA_RX_Handler\<close> are the ones \<open>hdmatx\<close> and \<open>hdmarx\<close> point to once
  \<open>HAL_UART_MspInit\<close> has linked them. The field \<open>mem\<close> of the handle is the memory as the streams and functions of this port
  see it; where bytes pass from one port to another, the records share one memory (\<open>one_memory\<close> in \<open>Lwip\<close>).
\<close>

record 'f STUsart = UART_HandleTypeDef +
  receive_count :: u16
  buff :: u32
  func :: "'f option"
  buff1 :: u32
  DMA_buff :: u32
  buff2 :: u32
  DMA_Receive_Count :: u16
  DMA_Receive_Size :: u16
  USART_State :: u8

abbreviation USART_RECEIVE_MAX :: u16 where "USART_RECEIVE_MAX \<equiv> 50"

text \<open>The flags of \<open>USART_State\<close>: the user buffer is being processed; it has been processed;
  the DMA buffer became full meanwhile; the DMA buffer holds data.\<close>

abbreviation ST_PROCESSING :: u8 where "ST_PROCESSING \<equiv> 0x1"
abbreviation ST_PROCESSED :: u8 where "ST_PROCESSED \<equiv> 0x2"
abbreviation ST_REFILLED :: u8 where "ST_REFILLED \<equiv> 0x4"
abbreviation ST_DMA_DATA :: u8 where "ST_DMA_DATA \<equiv> 0x8"

definition st_has :: "u8 \<Rightarrow> u8 \<Rightarrow> bool" where
  "st_has w m \<longleftrightarrow> w AND m \<noteq> 0"

definition st_set :: "u8 \<Rightarrow> u8 \<Rightarrow> u8" where
  "st_set w m = w OR m"

definition st_clear :: "u8 \<Rightarrow> u8 \<Rightarrow> u8" where
  "st_clear w m = w AND NOT m"

abbreviation state_has :: "'f STUsart \<Rightarrow> u8 \<Rightarrow> bool" where
  "state_has p m \<equiv> st_has (USART_State p) m"

abbreviation state_set :: "u8 \<Rightarrow> 'f STUsart \<Rightarrow> 'f STUsart" where
  "state_set m p \<equiv> p\<lparr>USART_State := st_set (USART_State p) m\<rparr>"

abbreviation state_clear :: "u8 \<Rightarrow> 'f STUsart \<Rightarrow> 'f STUsart" where
  "state_clear m p \<equiv> p\<lparr>USART_State := st_clear (USART_State p) m\<rparr>"

lemma u8_eq_iff: "(a :: u8) = b \<longleftrightarrow> (\<forall>n < 8. bit a n = bit b n)"
  by (auto intro: bit_word_eqI)

lemma st_has_set [simp]:
  "m AND k = 0 \<Longrightarrow> st_has (st_set w m) k = st_has w k"
  "k \<noteq> 0 \<Longrightarrow> st_has (st_set w k) k"
  unfolding st_has_def st_set_def by (auto simp: u8_eq_iff bit_simps)

lemma st_has_clear [simp]:
  "m AND k = 0 \<Longrightarrow> st_has (st_clear w m) k = st_has w k"
  "\<not> st_has (st_clear w k) k"
  unfolding st_has_def st_clear_def by (auto simp: u8_eq_iff bit_simps)

lemma state_has_A: "w AND 0xA = 0xA \<longleftrightarrow> st_has w ST_PROCESSED \<and> st_has w ST_DMA_DATA"
proof -
  have "(\<forall>n < 8. P n) \<longleftrightarrow> P 0 \<and> P 1 \<and> P 2 \<and> P 3 \<and> P 4 \<and> P 5 \<and> P 6 \<and> P (7 :: nat)" for P
    using nat_less_8_cases by auto
  then show ?thesis
    unfolding st_has_def u8_eq_iff by (simp add: bit_simps)
qed

text \<open>\<open>DMA_RX_Handler.Instance->NDTR\<close>.\<close>

definition rx_NDTR :: "'f STUsart \<Rightarrow> u32" where
  "rx_NDTR p = S_NDTR (get_rx p)"

text \<open>\<open>temp = DMA_buff; DMA_buff = buff; buff = temp;\<close>\<close>

definition swap_buffers :: "'f STUsart \<Rightarrow> 'f STUsart" where
  "swap_buffers p = (let temp = DMA_buff p in p\<lparr>DMA_buff := buff p, buff := temp\<rparr>)"

text \<open>\<open>HAL_UART_Receive_DMA\<close> at an offset into the DMA buffer, its status ignored.\<close>

definition restart_rx :: "u8 \<Rightarrow> 'f STUsart \<Rightarrow> 'f STUsart" where
  "restart_rx buff_shift p =
     snd (HAL_UART_Receive_DMA p (DMA_buff p + ucast buff_shift) (DMA_Receive_Size p))"

section \<open>\<open>com_init\<close>\<close>

definition com_init :: "hw_env \<Rightarrow> rcc_freq \<Rightarrow> 'f STUsart \<Rightarrow> 'f STUsart" where
  "com_init env rcc p =
     (let p = p\<lparr>Init := (Init p)\<lparr>HwFlowCtl := UART_HWCONTROL_NONE\<rparr>\<rparr>;
          p = p\<lparr>Init := (Init p)\<lparr>OverSampling := 0\<rparr>\<rparr>;
          p = p\<lparr>Init := (Init p)\<lparr>StopBits := UART_STOPBITS_1\<rparr>\<rparr>;
          p = p\<lparr>Init := (Init p)\<lparr>WordLength := UART_WORDLENGTH_8B\<rparr>\<rparr>;
          p = p\<lparr>Init := (Init p)\<lparr>Mode := UART_MODE_TX_RX\<rparr>\<rparr>;
          p = the (snd (HAL_UART_Init rcc (HAL_UART_MspInit env) (Some p)));
          p = p\<lparr>buff := buff1 p\<rparr>;
          p = p\<lparr>DMA_Receive_Size := USART_RECEIVE_MAX\<rparr>;
          p = state_set ST_PROCESSED p;
          p = p\<lparr>DMA_buff := buff2 p\<rparr>;
          p = set_CR1 USART_CR1_IDLEIE p
      in snd (HAL_UART_Receive_DMA p (DMA_buff p) (DMA_Receive_Size p)))"

section \<open>Reception interrupts\<close>

text \<open>\<open>HAL_UART_RxCpltCallback\<close>: the DMA buffer is full, so it becomes the user buffer, processed
  or not. The six branches of the source are the same code for the six ports.\<close>

definition usart_RxCpltCallback :: "'f STUsart \<Rightarrow> 'f STUsart" where
  "usart_RxCpltCallback p =
     (if port_of (Instance p) = None then p
      else
        (let p = p\<lparr>DMA_Receive_Count := DMA_Receive_Count p + DMA_Receive_Size p\<rparr>;
             p = swap_buffers p;
             p = p\<lparr>receive_count := DMA_Receive_Count p\<rparr>;
             p = p\<lparr>DMA_Receive_Size := USART_RECEIVE_MAX\<rparr>;
             p = p\<lparr>DMA_Receive_Count := 0\<rparr>;
             p = (if state_has p ST_PROCESSING then state_set ST_REFILLED p else p);
             p = state_clear ST_PROCESSED p
         in restart_rx 0 p))"

text \<open>The callbacks of the build: only this one is defined outside the driver.\<close>

definition usart_user :: "'f STUsart uart_user" where
  "usart_user = weak_callbacks\<lparr>HAL_UART_RxCpltCallback := usart_RxCpltCallback\<rparr>"

text \<open>The part of \<open>USARTx_IRQHandler\<close> after a detected idle line and before the restart: the
  result is the offset at which reception goes on.\<close>

definition idle_swap :: "'f STUsart \<Rightarrow> u8 \<times> 'f STUsart" where
  "idle_swap p =
     (if state_has p ST_PROCESSED then
        (let p = swap_buffers p;
             p = p\<lparr>DMA_Receive_Size := USART_RECEIVE_MAX\<rparr>;
             p = state_clear ST_PROCESSED p;
             p = p\<lparr>receive_count := DMA_Receive_Count p\<rparr>;
             p = p\<lparr>DMA_Receive_Count := 0\<rparr>;
             p = state_clear ST_DMA_DATA p
         in (0, p))
      else
        (let buff_shift = (ucast (DMA_Receive_Count p) :: u8);
             p = p\<lparr>DMA_Receive_Size := USART_RECEIVE_MAX - ucast buff_shift\<rparr>;
             p = state_set ST_DMA_DATA p
         in (buff_shift, p)))"

definition usart_IRQHandler :: "hw_env \<Rightarrow> 'f STUsart \<Rightarrow> 'f STUsart" where
  "usart_IRQHandler env p =
     (let p = HAL_UART_IRQHandler usart_user p
      in if HAL_IS_BIT_SET (SR p) USART_SR_IDLE then
           (let p = HAL_UART_CLEAR_PEFLAG p;
                p = p\<lparr>DMA_Receive_Count :=
                      DMA_Receive_Count p + ucast (ucast (DMA_Receive_Size p) - rx_NDTR p)\<rparr>;
                p = snd (HAL_UART_DMAStop env p);
                (buff_shift, p) = idle_swap p
            in restart_rx buff_shift p)
         else p)"

section \<open>\<open>receive_str_manage\<close>\<close>

text \<open>
  The function runs in the main loop, so an interrupt can come between any two of its
  steps. It is given in the four parts between which the model lets interrupts in: the
  exchange of the buffers, the entry of the processing, the call of the user function, and
  its exit. \<open>run\<close> is that function, of the buffer address, the count and the two arguments
  passed on, with the interrupts that come while it runs.
\<close>

definition rsm_swap :: "hw_env \<Rightarrow> 'f STUsart \<Rightarrow> 'f STUsart" where
  "rsm_swap env p =
     (if USART_State p AND 0xA = 0xA then
        (if ucast (DMA_Receive_Size p) \<noteq> rx_NDTR p then p
         else
           (let p = snd (HAL_UART_DMAStop env p);
                p = swap_buffers p;
                buff_shift = 0;
                p = p\<lparr>DMA_Receive_Size := USART_RECEIVE_MAX\<rparr>;
                p = state_clear ST_PROCESSED p;
                p = p\<lparr>receive_count := DMA_Receive_Count p\<rparr>;
                p = p\<lparr>DMA_Receive_Count := 0\<rparr>;
                p = state_clear ST_DMA_DATA p
            in restart_rx buff_shift p))
      else p)"

definition rsm_enter :: "'f STUsart \<Rightarrow> 'f STUsart" where
  "rsm_enter p = state_set ST_PROCESSING p"

definition rsm_exit :: "'f STUsart \<Rightarrow> 'f STUsart" where
  "rsm_exit p =
     (let p = (if state_has p ST_REFILLED then state_clear ST_REFILLED p
               else (let p = p\<lparr>receive_count := 0\<rparr> in state_set ST_PROCESSED p))
      in state_clear ST_PROCESSING p)"

definition receive_str_manage :: "hw_env
    \<Rightarrow> ('f \<Rightarrow> u32 \<Rightarrow> u16 \<Rightarrow> u32 \<Rightarrow> u16 \<Rightarrow> 'f STUsart \<Rightarrow> u32 \<times> 'f STUsart)
    \<Rightarrow> 'f STUsart \<Rightarrow> u32 \<Rightarrow> u8 \<Rightarrow> u8 \<times> 'f STUsart" where
  "receive_str_manage env run p store count =
     (let tmp = 0;
          p = rsm_swap env p
      in if receive_count p \<noteq> 0 then
           (let p = rsm_enter p
            in case func p of
                 None \<Rightarrow> (tmp, p\<lparr>fault := True\<rparr>)
               | Some f \<Rightarrow>
                   (let (ret, p) = run f (buff p) (receive_count p) store (ucast count) p;
                        tmp = ucast ret
                    in (tmp, rsm_exit p)))
         else (tmp, p))"

section \<open>Transmission\<close>

text \<open>
  The polling loops read \<open>HAL_UART_GetState\<close> or \<open>SR\<close> again and again while interrupts and the
  hardware go on. \<open>hw i\<close> is what they do to the port before the \<open>i\<close>-th read, \<open>tick_at env i\<close>
  the tick read in the \<open>i\<close>-th round; \<open>fuel\<close> bounds the rounds, and \<open>None\<close> is a loop that is
  still running when it is used up.
\<close>

fun wait_not_busy_tx :: "hw_env \<Rightarrow> (nat \<Rightarrow> 'f STUsart \<Rightarrow> 'f STUsart) \<Rightarrow> u32 \<Rightarrow> nat \<Rightarrow> nat
    \<Rightarrow> 'f STUsart \<Rightarrow> (HAL_StatusTypeDef \<times> 'f STUsart) option" where
  "wait_not_busy_tx env hw lim 0 i p = None"
| "wait_not_busy_tx env hw lim (Suc fuel) i p =
     (let p = hw i p
      in if HAL_UART_GetState p = HAL_UART_STATE_BUSY_TX then
           (if tick_at env i - tickstart env > lim then Some (HAL_TIMEOUT, p)
            else wait_not_busy_tx env hw lim fuel (Suc i) p)
         else Some (HAL_OK, p))"

fun wait_TXE :: "(nat \<Rightarrow> 'f STUsart \<Rightarrow> 'f STUsart) \<Rightarrow> nat \<Rightarrow> nat \<Rightarrow> 'f STUsart
    \<Rightarrow> (nat \<times> 'f STUsart) option" where
  "wait_TXE hw 0 i p = None"
| "wait_TXE hw (Suc fuel) i p =
     (let p = hw i p
      in if SR p AND USART_SR_TXE = 0 then wait_TXE hw fuel (Suc i) p else Some (Suc i, p))"

definition com_send_str :: "hw_env \<Rightarrow> (nat \<Rightarrow> 'f STUsart \<Rightarrow> 'f STUsart) \<Rightarrow> nat
    \<Rightarrow> 'f STUsart \<Rightarrow> u32 \<Rightarrow> u16 \<Rightarrow> (HAL_StatusTypeDef \<times> 'f STUsart) option" where
  "com_send_str env hw fuel p str len =
     (case wait_not_busy_tx env hw 10 fuel 0 p of
        None \<Rightarrow> None
      | Some (st, p) \<Rightarrow>
          if st = HAL_TIMEOUT then Some (HAL_TIMEOUT, p)
          else Some (HAL_UART_Transmit_DMA p str len))"

text \<open>\<open>hw2\<close> is the hardware's part in the loops on \<open>SR\<close> that follow.\<close>

definition com_send_byte :: "hw_env \<Rightarrow> (nat \<Rightarrow> 'f STUsart \<Rightarrow> 'f STUsart)
    \<Rightarrow> (nat \<Rightarrow> 'f STUsart \<Rightarrow> 'f STUsart) \<Rightarrow> nat \<Rightarrow> 'f STUsart \<Rightarrow> u8
    \<Rightarrow> (HAL_StatusTypeDef \<times> 'f STUsart) option" where
  "com_send_byte env hw hw2 fuel p byte =
     (case wait_not_busy_tx env hw 10 fuel 0 p of
        None \<Rightarrow> None
      | Some (st, p) \<Rightarrow>
          if st = HAL_TIMEOUT then Some (HAL_TIMEOUT, p)
          else (case wait_TXE hw2 fuel 0 p of
                  None \<Rightarrow> None
                | Some (_, p) \<Rightarrow> Some (HAL_OK, write_DR (ucast byte) p)))"

text \<open>The string loop of \<open>com_send_pstr\<close>: \<open>n\<close> bounds the characters. Its time limit is the
  global \<open>Timeout\<close>.\<close>

fun send_chars :: "(nat \<Rightarrow> 'f STUsart \<Rightarrow> 'f STUsart) \<Rightarrow> nat \<Rightarrow> nat \<Rightarrow> nat \<Rightarrow> u32 \<Rightarrow> 'f STUsart
    \<Rightarrow> (nat \<times> 'f STUsart) option" where
  "send_chars hw2 fuel 0 i str p = None"
| "send_chars hw2 fuel (Suc n) i str p =
     (if mem p str \<noteq> 0 then
        (case wait_TXE hw2 fuel i p of
           None \<Rightarrow> None
         | Some (i, p) \<Rightarrow> send_chars hw2 fuel n i (str + 1) (write_DR (ucast (mem p str)) p))
      else Some (i, p))"

definition com_send_pstr :: "u8 \<Rightarrow> hw_env \<Rightarrow> (nat \<Rightarrow> 'f STUsart \<Rightarrow> 'f STUsart)
    \<Rightarrow> (nat \<Rightarrow> 'f STUsart \<Rightarrow> 'f STUsart) \<Rightarrow> nat \<Rightarrow> 'f STUsart \<Rightarrow> u32
    \<Rightarrow> (HAL_StatusTypeDef \<times> 'f STUsart) option" where
  "com_send_pstr Timeout env hw hw2 fuel p str =
     (case wait_not_busy_tx env hw (ucast Timeout) fuel 0 p of
        None \<Rightarrow> None
      | Some (st, p) \<Rightarrow>
          if st = HAL_TIMEOUT then Some (HAL_TIMEOUT, p)
          else (case send_chars hw2 fuel fuel 0 str p of
                  None \<Rightarrow> None
                | Some (i, p) \<Rightarrow>
                    (case wait_TXE hw2 fuel i p of
                       None \<Rightarrow> None
                     | Some (_, p) \<Rightarrow> Some (HAL_OK, p))))"

text \<open>\<open>fputc\<close> waits for \<open>TC\<close> (0x40) of USART1 and writes the character.\<close>

fun wait_TC :: "(nat \<Rightarrow> 'f STUsart \<Rightarrow> 'f STUsart) \<Rightarrow> nat \<Rightarrow> nat \<Rightarrow> 'f STUsart \<Rightarrow> 'f STUsart option" where
  "wait_TC hw 0 i p = None"
| "wait_TC hw (Suc fuel) i p =
     (let p = hw i p
      in if SR p AND 0x40 = 0 then wait_TC hw fuel (Suc i) p else Some p)"

definition fputc :: "(nat \<Rightarrow> 'f STUsart \<Rightarrow> 'f STUsart) \<Rightarrow> nat \<Rightarrow> u32 \<Rightarrow> 'f STUsart
    \<Rightarrow> (u32 \<times> 'f STUsart) option" where
  "fputc hw fuel ch p =
     (case wait_TC hw fuel 0 p of
        None \<Rightarrow> None
      | Some p \<Rightarrow> Some (ch, write_DR (ucast (ucast ch :: u8)) p))"

end
