(* ===== verification/UsartSystem.thy ===== *)
theory UsartSystem
  imports Usart
begin

text \<open>
  A serial port in operation: the receiver's hardware, the two interrupts of reception and the
  main loop, in any interleaving, as a step relation over the operations of the serial port layer. The
  invariant of a port is kept by every operation, and the bytes of the line are accounted for.
\<close>

section \<open>The receiver's hardware\<close>

text \<open>
  A received byte goes to \<open>DR\<close>. With \<open>DMAR\<close> set and the stream enabled it is moved at once to the
  stream's current address: \<open>M0AR\<close> plus the number of items already moved, which is what
  \<open>NDTR\<close> has counted down from the \<open>RxXferSize\<close> the stream was started with. At half of the
  count \<open>HTIF\<close> is set; at its end \<open>TCIF\<close> is set and the stream disables itself (normal mode).
  A byte that nobody takes stays in \<open>DR\<close> (\<open>RXNE\<close>), and the next one then is lost (\<open>ORE\<close>).
\<close>

definition rx_addr :: "'f STUsart \<Rightarrow> u32" where
  "rx_addr p = S_M0AR (get_rx p) + (ucast (RxXferSize p) - rx_NDTR p)"

definition rx_accepts :: "'f STUsart \<Rightarrow> bool" where
  "rx_accepts p \<longleftrightarrow> \<not> HAL_IS_BIT_SET (SR p) USART_SR_RXNE \<and> HAL_IS_BIT_SET (CR3 p) USART_CR3_DMAR
     \<and> HAL_IS_BIT_SET (S_CR (get_rx p)) DMA_SxCR_EN"

definition dma_item :: "u32 \<Rightarrow> uart_dma \<Rightarrow> uart_dma" where
  "dma_item count h =
     (let n = S_NDTR h - 1;
          h = h\<lparr>S_NDTR := n\<rparr>;
          h = (if n = count div 2 then h\<lparr>ISR := SET_BIT (ISR h) (stream_mask h DMA_FLAG_HTIF0_4)\<rparr> else h)
      in if n = 0 then h\<lparr>ISR := SET_BIT (ISR h) (stream_mask h DMA_FLAG_TCIF0_4),
                         S_CR := CLEAR_BIT (S_CR h) DMA_SxCR_EN\<rparr>
         else h)"

definition hw_rx_byte :: "u8 \<Rightarrow> 'f STUsart \<Rightarrow> 'f STUsart" where
  "hw_rx_byte b p =
     (if rx_accepts p then
        p\<lparr>DR := ucast b, mem := (mem p)(rx_addr p := b),
          hdmarx := Some (dma_item (ucast (RxXferSize p)) (get_rx p))\<rparr>
      else if HAL_IS_BIT_SET (SR p) USART_SR_RXNE then p\<lparr>SR := SET_BIT (SR p) USART_SR_ORE\<rparr>
      else p\<lparr>DR := ucast b, SR := SET_BIT (SR p) USART_SR_RXNE\<rparr>)"

definition hw_rx_idle :: "'f STUsart \<Rightarrow> 'f STUsart" where
  "hw_rx_idle p = p\<lparr>SR := SET_BIT (SR p) USART_SR_IDLE\<rparr>"

section \<open>The stream of the receiver\<close>

definition stream_setup :: "uart_dma \<Rightarrow> bool" where
  "stream_setup h \<longleftrightarrow>
     Direction (DInit h) = DMA_PERIPH_TO_MEMORY \<and> StreamIndex h \<in> {0, 6, 16, 22} \<and>
     \<not> HAL_IS_BIT_SET (S_CR h) DMA_SxCR_CIRC \<and> \<not> HAL_IS_BIT_SET (S_CR h) DMA_SxCR_DBM \<and>
     DErrorCode h = HAL_DMA_ERROR_NONE \<and>
     \<not> HAL_IS_BIT_SET (ISR h) (stream_mask h 0x80000D)"

text \<open>The same of the stream of the transmitter.\<close>

definition tx_setup :: "uart_dma \<Rightarrow> bool" where
  "tx_setup h \<longleftrightarrow>
     Direction (DInit h) = DMA_MEMORY_TO_PERIPH \<and> StreamIndex h \<in> {0, 6, 16, 22} \<and>
     \<not> HAL_IS_BIT_SET (S_CR h) DMA_SxCR_CIRC \<and> \<not> HAL_IS_BIT_SET (S_CR h) DMA_SxCR_DBM \<and>
     DErrorCode h = HAL_DMA_ERROR_NONE \<and>
     \<not> HAL_IS_BIT_SET (ISR h) (stream_mask h 0x80000D)"

text \<open>A transfer of \<open>n\<close> items to address \<open>a\<close>, running or complete with its interrupt pending.\<close>

definition stream_active :: "u32 \<Rightarrow> u16 \<Rightarrow> uart_dma \<Rightarrow> bool" where
  "stream_active a n h \<longleftrightarrow> stream_setup h \<and>
     DState h = HAL_DMA_STATE_BUSY \<and> DLock h = HAL_LOCKED \<and>
     HAL_IS_BIT_SET (S_CR h) DMA_IT_TC \<and> S_M0AR h = a \<and> unat (S_NDTR h) \<le> unat n \<and>
     HAL_IS_BIT_SET (S_CR h) DMA_SxCR_EN = (S_NDTR h \<noteq> 0) \<and>
     HAL_IS_BIT_SET (ISR h) (stream_mask h DMA_FLAG_TCIF0_4) = (S_NDTR h = 0) \<and>
     XferCpltCallback h = Some UART_DMAReceiveCplt \<and> XferHalfCpltCallback h = Some UART_DMARxHalfCplt"

text \<open>No transfer, and none completed.\<close>

definition stream_idle :: "uart_dma \<Rightarrow> bool" where
  "stream_idle h \<longleftrightarrow> stream_setup h \<and>
     DState h = HAL_DMA_STATE_READY \<and> DLock h = HAL_UNLOCKED \<and>
     \<not> HAL_IS_BIT_SET (ISR h) (stream_mask h DMA_FLAG_TCIF0_4) \<and>
     XferCpltCallback h = Some UART_DMAReceiveCplt \<and> XferHalfCpltCallback h = Some UART_DMARxHalfCplt"

lemma push_bit_and_rev [flag_simps]: "push_bit n a AND push_bit n b = push_bit n (a AND b :: u32)"
  by (simp add: push_bit_and)

lemma is_set_CLEAR_mono [flag_simps]:
  "\<not> HAL_IS_BIT_SET r m \<Longrightarrow> \<not> HAL_IS_BIT_SET (CLEAR_BIT r k) m"
  unfolding is_set_iff by (auto simp: bit_CLEAR_BIT)

lemma is_set_union: "HAL_IS_BIT_SET r (a OR b) \<longleftrightarrow> HAL_IS_BIT_SET r a \<or> HAL_IS_BIT_SET r b"
  unfolding is_set_iff by (auto simp: bit_simps)

lemma stream_mask_nonzero:
  "StreamIndex h \<in> {0, 6, 16, 22} \<Longrightarrow> push_bit (unat (StreamIndex h)) (0x20 :: u32) \<noteq> 0"
  by auto

lemma rx_start_active:
  assumes "stream_setup h" "DState h = HAL_DMA_STATE_READY" "DLock h = HAL_UNLOCKED" "n \<noteq> 0"
  shows "stream_active a n (rx_start inst a n h)" "S_NDTR (rx_start inst a n h) = ucast n"
proof -
  have n: "(ucast n :: u32) \<noteq> 0"
    using assms(4) by (metis unat_ucast16_32 unat_eq_zero)
  show "stream_active a n (rx_start inst a n h)"
    using assms n stream_mask_nonzero [of h]
    by (simp add: stream_active_def stream_setup_def rx_start_def HAL_DMA_Start_IT_def DMA_SetConfig_def
        HAL_DMA_ENABLE_def write_IFCR_def stream_mask_def flag_simps Let_def)
  show "S_NDTR (rx_start inst a n h) = ucast n"
    using assms
    by (simp add: rx_start_def HAL_DMA_Start_IT_def DMA_SetConfig_def
        HAL_DMA_ENABLE_def write_IFCR_def Let_def)
qed

lemma abort_active_idle:
  assumes "stream_active a n h" "stream_stops env"
  shows "stream_idle (snd (HAL_DMA_Abort env h))" "S_NDTR (snd (HAL_DMA_Abort env h)) = S_NDTR h"
  using assms
  by (simp_all add: stream_idle_def stream_active_def stream_setup_def HAL_DMA_Abort_def dma_disable_its_def
      HAL_DMA_DISABLE_def write_IFCR_def stream_mask_def flag_simps Let_def)

lemma dma_item_active:
  assumes "stream_active a n h" "S_NDTR h \<noteq> 0"
  shows "stream_active a n (dma_item t h)" "unat (S_NDTR (dma_item t h)) = unat (S_NDTR h) - 1"
proof -
  have d: "unat (S_NDTR h - 1) = unat (S_NDTR h) - 1"
    using assms(2) by (simp add: unat_minus_one)
  have "S_NDTR (dma_item t h) = S_NDTR h - 1"
    by (simp add: dma_item_def Let_def)
  then show "unat (S_NDTR (dma_item t h)) = unat (S_NDTR h) - 1"
    by (simp only: d)
  show "stream_active a n (dma_item t h)"
    using assms d stream_mask_nonzero [of h]
    by (auto simp: stream_active_def stream_setup_def dma_item_def stream_mask_def flag_simps Let_def)
qed

text \<open>The half-transfer part of the interrupt handler, for a stream in normal mode the
  half-transfer callback of which does nothing.\<close>

definition ht_part :: "u32 \<Rightarrow> uart_dma \<Rightarrow> uart_dma" where
  "ht_part t h =
     (if HAL_IS_BIT_SET t (stream_mask h DMA_FLAG_HTIF0_4) \<and> HAL_IS_BIT_SET (S_CR h) DMA_IT_HT
      then h\<lparr>ISR := CLEAR_BIT (ISR h) (stream_mask h DMA_FLAG_HTIF0_4), S_CR := CLEAR_BIT (S_CR h) DMA_IT_HT\<rparr>
      else h)"

lemma ht_part_keeps:
  "stream_active a n h \<Longrightarrow> stream_active a n (ht_part t h)"
  "stream_idle h \<Longrightarrow> stream_idle (ht_part t h)"
  "S_NDTR (ht_part t h) = S_NDTR h"
  by (auto simp: ht_part_def stream_active_def stream_idle_def stream_setup_def stream_mask_def
      flag_simps)

lemma usart_user_RxHalf [simp]: "HAL_UART_RxHalfCpltCallback usart_user p = p"
  and usart_user_RxCplt [simp]: "HAL_UART_RxCpltCallback usart_user p = usart_RxCpltCallback p"
  and usart_user_TxCplt [simp]: "HAL_UART_TxCpltCallback usart_user p = p"
  by (simp_all add: usart_user_def weak_callbacks_def)

lemma hdmarx_same: "hdmarx p = Some h \<Longrightarrow> p\<lparr>hdmarx := Some h\<rparr> = (p :: 'f STUsart)"
  by (cases p) simp

lemma and_zero_is_set: "r AND m = 0 \<longleftrightarrow> \<not> HAL_IS_BIT_SET r m"
  by (simp add: HAL_IS_BIT_SET_def)

lemma rx_irq_HT:
  assumes "hdmarx p = Some h" "stream_setup h" "XferHalfCpltCallback h = Some UART_DMARxHalfCplt"
  shows "dma_irq_HT get_rx upd_rx (run_dma_cb usart_user) t p = p\<lparr>hdmarx := Some (ht_part t h)\<rparr>"
proof (cases "HAL_IS_BIT_SET t (stream_mask h DMA_FLAG_HTIF0_4) \<and> HAL_IS_BIT_SET (S_CR h) DMA_IT_HT")
  case True
  then show ?thesis
    using assms uart_rx.irq_HT_normal [of p t "run_dma_cb usart_user"]
    by (simp add: stream_setup_def get_rx_def upd_rx_def ht_part_def call_cb_def)
next
  case False
  then have "dma_irq_HT get_rx upd_rx (run_dma_cb usart_user) t p = p"
    using assms by (intro uart_rx.irq_HT_none) (auto simp: get_rx_def)
  then show ?thesis
    using False assms(1) by (auto simp: ht_part_def hdmarx_same)
qed

lemma rx_irq_split:
  assumes "hdmarx p = Some h" "stream_setup h" "XferHalfCpltCallback h = Some UART_DMARxHalfCplt"
  shows "rx_dma_irq usart_user p =
    (case dma_irq_TC get_rx upd_rx (run_dma_cb usart_user) (ISR h) (p\<lparr>hdmarx := Some (ht_part (ISR h) h)\<rparr>) of
       (returned, q) \<Rightarrow> if returned then q else dma_irq_error get_rx upd_rx (run_dma_cb usart_user) q)"
  using assms uart_rx.irq_no_error [of p "run_dma_cb usart_user"] rx_irq_HT [OF assms]
  by (simp add: rx_dma_irq_def get_rx_def stream_setup_def)

lemma rx_irq_no_TC:
  assumes h: "hdmarx p = Some h" "stream_setup h" "XferHalfCpltCallback h = Some UART_DMARxHalfCplt"
    and t: "\<not> HAL_IS_BIT_SET (ISR h) (stream_mask h DMA_FLAG_TCIF0_4)"
  shows "rx_dma_irq usart_user p = p\<lparr>hdmarx := Some (ht_part (ISR h) h)\<rparr>"
proof -
  let ?q = "p\<lparr>hdmarx := Some (ht_part (ISR h) h)\<rparr>"
  have "StreamIndex (ht_part (ISR h) h) = StreamIndex h" "DErrorCode (ht_part (ISR h) h) = DErrorCode h"
    by (simp_all add: ht_part_def)
  then have "dma_irq_TC get_rx upd_rx (run_dma_cb usart_user) (ISR h) ?q = (False, ?q)"
    "dma_irq_error get_rx upd_rx (run_dma_cb usart_user) ?q = ?q"
    using t h(2) by (auto intro!: uart_rx.irq_TC_none simp: get_rx_def stream_mask_def
        dma_irq_error_def stream_setup_def)
  then show ?thesis
    using rx_irq_split [OF h] by simp
qed

text \<open>The handle when \<open>UART_DMAReceiveCplt\<close> is called.\<close>

definition tc_part :: "u32 \<Rightarrow> uart_dma \<Rightarrow> uart_dma" where
  "tc_part t h = (ht_part t h)\<lparr>ISR := CLEAR_BIT (ISR (ht_part t h)) (stream_mask h DMA_FLAG_TCIF0_4),
     S_CR := CLEAR_BIT (S_CR (ht_part t h)) DMA_IT_TC, DLock := HAL_UNLOCKED,
     DState := HAL_DMA_STATE_READY\<rparr>"

lemma tc_part_idle: "stream_active a n h \<Longrightarrow> stream_idle (tc_part t h)"
  "S_NDTR (tc_part t h) = S_NDTR h"
  by (auto simp: tc_part_def ht_part_def stream_active_def stream_idle_def stream_setup_def
      stream_mask_def flag_simps)

text \<open>What \<open>UART_DMAReceiveCplt\<close> does before it calls the user callback.\<close>

definition rx_complete :: "uart_dma \<Rightarrow> 'f STUsart \<Rightarrow> 'f STUsart" where
  "rx_complete h p = p\<lparr>hdmarx := Some h, RxXferCount := 0,
     CR1 := CLEAR_BIT (CR1 p) USART_CR1_PEIE,
     CR3 := CLEAR_BIT (CLEAR_BIT (CR3 p) USART_CR3_EIE) USART_CR3_DMAR,
     RxState := HAL_UART_STATE_READY\<rparr>"

lemma rx_irq_TC:
  assumes h: "hdmarx p = Some h" "stream_active a n h" "S_NDTR h = 0"
    and e: "\<And>q. q = usart_RxCpltCallback (rx_complete (tc_part (ISR h) h) p) \<Longrightarrow>
      DErrorCode (get_rx q) = HAL_DMA_ERROR_NONE"
  shows "rx_dma_irq usart_user p = usart_RxCpltCallback (rx_complete (tc_part (ISR h) h) p)"
proof -
  let ?k = "ht_part (ISR h) h"
  let ?q = "p\<lparr>hdmarx := Some ?k\<rparr>"
  have a: "stream_active a n ?k" "stream_setup h" "XferHalfCpltCallback h = Some UART_DMARxHalfCplt"
    using h(2) ht_part_keeps by (auto simp: stream_active_def)
  have i: "StreamIndex ?k = StreamIndex h"
    by (simp add: ht_part_def)
  have t: "HAL_IS_BIT_SET (ISR h) (stream_mask ?k DMA_FLAG_TCIF0_4)"
    using h(2,3) i by (simp add: stream_active_def stream_mask_def)
  have "dma_irq_TC get_rx upd_rx (run_dma_cb usart_user) (ISR h) ?q =
     (False, usart_RxCpltCallback (rx_complete (tc_part (ISR h) h) p))"
    using uart_rx.irq_TC_normal [of ?q "ISR h" "run_dma_cb usart_user"] t a(1) i
    by (simp add: stream_active_def stream_setup_def get_rx_def upd_rx_def call_cb_def
        do_UART_DMAReceiveCplt_def rx_complete_def tc_part_def stream_mask_def flag_simps
        and_zero_is_set Let_def)
  then show ?thesis
    using rx_irq_split [OF h(1) a(2,3)] e by (simp add: dma_irq_error_def)
qed

section \<open>The invariant of a receiving port\<close>

text \<open>The two buffers lie apart in memory and do not wrap around.\<close>

definition regions_ok :: "u32 \<Rightarrow> u32 \<Rightarrow> bool" where
  "regions_ok a b \<longleftrightarrow> a \<noteq> 0 \<and> b \<noteq> 0 \<and> unat a + 50 \<le> 2 ^ 32 \<and> unat b + 50 \<le> 2 ^ 32 \<and>
     (unat a + 50 \<le> unat b \<or> unat b + 50 \<le> unat a)"

definition buffers_ok :: "'f STUsart \<Rightarrow> bool" where
  "buffers_ok p \<longleftrightarrow> regions_ok (buff1 p) (buff2 p) \<and>
     (buff p = buff1 p \<and> DMA_buff p = buff2 p \<or> buff p = buff2 p \<and> DMA_buff p = buff1 p)"

text \<open>The transmitter is not in use, and no interrupt of it is enabled.\<close>

definition quiet_tx :: "'f STUsart \<Rightarrow> bool" where
  "quiet_tx p \<longleftrightarrow> gState p = HAL_UART_STATE_READY \<and> \<not> HAL_IS_BIT_SET (CR1 p) USART_CR1_RXNEIE \<and>
     \<not> HAL_IS_BIT_SET (CR1 p) USART_CR1_TXEIE \<and> \<not> HAL_IS_BIT_SET (CR1 p) USART_CR1_TCIE"

definition rx_live :: "'f STUsart \<Rightarrow> bool" where
  "rx_live p \<longleftrightarrow> (\<exists>h. hdmarx p = Some h \<and>
     stream_active (DMA_buff p + ucast (DMA_Receive_Count p)) (DMA_Receive_Size p) h \<and>
     DMA_Receive_Size p \<noteq> 0 \<and> RxXferSize p = DMA_Receive_Size p \<and>
     RxState p = HAL_UART_STATE_BUSY_RX \<and> HAL_IS_BIT_SET (CR3 p) USART_CR3_DMAR \<and>
     (S_NDTR h \<noteq> 0 \<longrightarrow> \<not> HAL_IS_BIT_SET (SR p) USART_SR_RXNE) \<and>
     \<not> HAL_IS_BIT_SET (SR p) (USART_SR_PE OR USART_SR_FE OR USART_SR_ORE OR USART_SR_NE))"

text \<open>Reception has stopped because the DMA buffer is full and the user buffer is in use.\<close>

definition rx_stalled :: "'f STUsart \<Rightarrow> bool" where
  "rx_stalled p \<longleftrightarrow> (\<exists>h. hdmarx p = Some h \<and> stream_idle h \<and> S_NDTR h = 0 \<and>
     DMA_Receive_Size p = 0 \<and>
     RxState p = HAL_UART_STATE_READY \<and> \<not> HAL_IS_BIT_SET (CR3 p) USART_CR3_DMAR \<and>
     \<not> HAL_IS_BIT_SET (CR3 p) USART_CR3_EIE \<and> \<not> HAL_IS_BIT_SET (CR1 p) USART_CR1_PEIE)"

definition state_ok :: "'f STUsart \<Rightarrow> bool" where
  "state_ok p \<longleftrightarrow>
     (state_has p ST_PROCESSED \<longrightarrow> receive_count p = 0 \<and> \<not> state_has p ST_PROCESSING) \<and>
     (state_has p ST_REFILLED \<longrightarrow> state_has p ST_PROCESSING) \<and> unat (receive_count p) \<le> 50"

definition port_inv :: "'f STUsart \<Rightarrow> bool" where
  "port_inv p \<longleftrightarrow> port_of (Instance p) \<noteq> None \<and> Lock p = HAL_UNLOCKED \<and> \<not> fault p \<and> quiet_tx p \<and>
     buffers_ok p \<and> unat (DMA_Receive_Count p) + unat (DMA_Receive_Size p) = 50 \<and>
     (rx_live p \<or> rx_stalled p) \<and> state_ok p"

section \<open>The two buffers as byte lists\<close>

definition user_pending :: "'f STUsart \<Rightarrow> u8 list" where
  "user_pending p =
     (if state_has p ST_PROCESSED \<or> state_has p ST_PROCESSING \<and> \<not> state_has p ST_REFILLED then []
      else read_bytes (mem p) (buff p) (unat (receive_count p)))"

definition dma_fill :: "'f STUsart \<Rightarrow> nat" where
  "dma_fill p = unat (DMA_Receive_Count p) + (unat (DMA_Receive_Size p) - unat (rx_NDTR p))"

definition dma_pending :: "'f STUsart \<Rightarrow> u8 list" where
  "dma_pending p = read_bytes (mem p) (DMA_buff p) (dma_fill p)"

section \<open>Stopping and restarting\<close>

definition rx_halted :: "uart_dma \<Rightarrow> 'f STUsart \<Rightarrow> 'f STUsart" where
  "rx_halted h p = p\<lparr>hdmarx := Some h,
     CR3 := CLEAR_BIT (CLEAR_BIT (CR3 p) USART_CR3_DMAR) USART_CR3_EIE,
     CR1 := CLEAR_BIT (CR1 p) (USART_CR1_RXNEIE OR USART_CR1_PEIE), RxState := HAL_UART_STATE_READY\<rparr>"

lemma DMAStop_live:
  assumes "quiet_tx p" "RxState p = HAL_UART_STATE_BUSY_RX" "HAL_IS_BIT_SET (CR3 p) USART_CR3_DMAR"
    "hdmarx p = Some h"
  shows "HAL_UART_DMAStop env p = (HAL_OK, rx_halted (snd (HAL_DMA_Abort env h)) p)"
  using assms HAL_UART_DMAStop_rx [of p h env]
  by (auto simp: quiet_tx_def stop_tx_def rx_halted_def)

lemma DMAStop_stalled:
  "quiet_tx p \<Longrightarrow> RxState p \<noteq> HAL_UART_STATE_BUSY_RX \<Longrightarrow> HAL_UART_DMAStop env p = (HAL_OK, p)"
  using HAL_UART_DMAStop_no_rx [of p env]
  by (auto simp: quiet_tx_def stop_tx_def)

definition rx_restarted :: "u32 \<Rightarrow> uart_dma \<Rightarrow> 'f STUsart \<Rightarrow> 'f STUsart" where
  "rx_restarted a h p = p\<lparr>pRxBuffPtr := a, RxXferSize := DMA_Receive_Size p,
      ErrorCode := HAL_UART_ERROR_NONE, RxState := HAL_UART_STATE_BUSY_RX,
      hdmarx := Some (rx_start (Instance p) a (DMA_Receive_Size p) h),
      SR := CLEAR_BIT (SR p) SR_rx_flags, Lock := HAL_UNLOCKED, CR1 := SET_BIT (CR1 p) USART_CR1_PEIE,
      CR3 := SET_BIT (SET_BIT (CR3 p) USART_CR3_EIE) USART_CR3_DMAR\<rparr>"

lemma restart_rx_ok:
  assumes "hdmarx p = Some h" "RxState p = HAL_UART_STATE_READY" "Lock p = HAL_UNLOCKED"
    "DMA_Receive_Size p \<noteq> 0" "DMA_buff p + ucast k \<noteq> 0"
  shows "restart_rx k p = rx_restarted (DMA_buff p + ucast k) h p"
  using assms HAL_UART_Receive_DMA_ok [of p "DMA_buff p + ucast k" "DMA_Receive_Size p" h]
  by (simp add: restart_rx_def rx_restarted_def)

lemma restart_rx_fields:
  "func (restart_rx k p) = func p" "buff (restart_rx k p) = buff p" "DMA_buff (restart_rx k p) = DMA_buff p"
  "DMA_Receive_Count (restart_rx k p) = DMA_Receive_Count p" "USART_State (restart_rx k p) = USART_State p"
  by (simp_all add: restart_rx_def HAL_UART_Receive_DMA_def upd_rx_def uart_reg_defs Let_def
      split: option.split)

lemma restart_rx_refused:
  "DMA_Receive_Size p = 0 \<Longrightarrow> RxState p = HAL_UART_STATE_READY \<Longrightarrow> restart_rx k p = p"
  by (simp add: restart_rx_def HAL_UART_Receive_DMA_def)

lemma rx_restarted_live:
  assumes "stream_setup h" "DState h = HAL_DMA_STATE_READY" "DLock h = HAL_UNLOCKED"
    "DMA_Receive_Size p \<noteq> 0" "a = DMA_buff p + ucast (DMA_Receive_Count p)"
  shows "rx_live (rx_restarted a h p)" "rx_NDTR (rx_restarted a h p) = ucast (DMA_Receive_Size p)"
  using assms(4,5) rx_start_active [OF assms(1-4)]
  by (simp_all add: rx_live_def rx_restarted_def rx_NDTR_def get_rx_def flag_simps)

lemma buffers_ok_swap: "buffers_ok p \<Longrightarrow> buffers_ok (swap_buffers p)"
  by (auto simp: buffers_ok_def swap_buffers_def)

lemma buffers_ok_regions: "buffers_ok p \<Longrightarrow> regions_ok (buff p) (DMA_buff p)"
  by (auto simp: buffers_ok_def regions_ok_def)

lemma regions_addr:
  assumes "regions_ok a b" "k < 50"
  shows "unat (b + of_nat k) = unat b + k" "b + of_nat k \<noteq> 0"
proof -
  have k: "unat (of_nat k :: u32) = k"
    using assms(2) by (simp add: unat_of_nat)
  then show "unat (b + of_nat k) = unat b + k"
    using assms unat_add32 [of b "of_nat k"] by (simp add: regions_ok_def)
  then show "b + of_nat k \<noteq> 0"
    using assms(1) by (metis add_is_0 regions_ok_def unat_0 unat_eq_zero)
qed

section \<open>Every operation keeps the invariant\<close>

lemma rx_restarted_fields [simp]:
  "port_of (Instance (rx_restarted a h p)) = port_of (Instance p)"
  "Lock (rx_restarted a h p) = HAL_UNLOCKED" "fault (rx_restarted a h p) = fault p"
  "mem (rx_restarted a h p) = mem p" "buffers_ok (rx_restarted a h p) = buffers_ok p"
  "buff (rx_restarted a h p) = buff p" "DMA_buff (rx_restarted a h p) = DMA_buff p"
  "DMA_Receive_Count (rx_restarted a h p) = DMA_Receive_Count p"
  "DMA_Receive_Size (rx_restarted a h p) = DMA_Receive_Size p"
  "USART_State (rx_restarted a h p) = USART_State p"
  "receive_count (rx_restarted a h p) = receive_count p"
  "quiet_tx (rx_restarted a h p) = quiet_tx p"
  by (simp_all add: rx_restarted_def buffers_ok_def quiet_tx_def flag_simps)

text \<open>The exchange of the buffers by any of the three routines: the bytes collected in the DMA
  buffer become the user's, and reception restarts at the start of the other buffer.\<close>

lemma exchange_inv:
  assumes q: "q = p\<lparr>DMA_buff := buff p, buff := DMA_buff p, DMA_Receive_Size := 50,
      receive_count := n, DMA_Receive_Count := 0, USART_State := st, hdmarx := Some h, CR1 := c1,
      CR3 := c3, SR := sr, RxState := HAL_UART_STATE_READY, RxXferCount := xc\<rparr>"
    and p: "port_of (Instance p) \<noteq> None" "Lock p = HAL_UNLOCKED" "\<not> fault p" "quiet_tx q"
      "buffers_ok p"
    and h: "stream_setup h" "DState h = HAL_DMA_STATE_READY" "DLock h = HAL_UNLOCKED"
    and st: "state_ok q" "\<not> state_has q ST_PROCESSED"
      "state_has q ST_PROCESSING \<longleftrightarrow> state_has q ST_REFILLED"
  shows "port_inv (restart_rx 0 q)" "dma_pending (restart_rx 0 q) = []"
    "user_pending (restart_rx 0 q) = read_bytes (mem p) (DMA_buff p) (unat n)"
    "DErrorCode (get_rx (restart_rx 0 q)) = HAL_DMA_ERROR_NONE"
    "USART_State (restart_rx 0 q) = st"
proof -
  have b: "buffers_ok q" "DMA_buff q \<noteq> 0"
    using p(5) q by (auto simp: buffers_ok_def regions_ok_def)
  have r: "restart_rx 0 q = rx_restarted (DMA_buff q) h q"
    using restart_rx_ok [of q h 0] b(2) p(2) q by simp
  have live: "rx_live (rx_restarted (DMA_buff q) h q)" "rx_NDTR (rx_restarted (DMA_buff q) h q) = 50"
    using rx_restarted_live [of h q "DMA_buff q"] h q by simp_all
  have "stream_setup (get_rx (restart_rx 0 q))"
    using live r by (auto simp: rx_live_def stream_active_def get_rx_def)
  then show "DErrorCode (get_rx (restart_rx 0 q)) = HAL_DMA_ERROR_NONE"
    by (simp add: stream_setup_def)
  have so: "state_ok (rx_restarted (DMA_buff q) h q)"
    using st(1) by (simp add: state_ok_def)
  show "port_inv (restart_rx 0 q)"
    unfolding r port_inv_def using p live b(1) so q by simp
  show "dma_pending (restart_rx 0 q) = []"
    unfolding r dma_pending_def dma_fill_def using live q by simp
  show "user_pending (restart_rx 0 q) = read_bytes (mem p) (DMA_buff p) (unat n)"
    unfolding r user_pending_def using st(2,3) q by auto
  show "USART_State (restart_rx 0 q) = st"
    unfolding r using q by simp
qed

text \<open>Reception goes on behind the bytes already there, or stalls when there is no room.\<close>

lemma append_inv:
  assumes q: "q = p\<lparr>DMA_Receive_Count := c, DMA_Receive_Size := s, USART_State := st,
      hdmarx := Some h, CR1 := c1, CR3 := c3, SR := sr, RxState := HAL_UART_STATE_READY\<rparr>"
    and p: "port_of (Instance p) \<noteq> None" "Lock p = HAL_UNLOCKED" "\<not> fault p" "quiet_tx q"
      "buffers_ok p" "unat c + unat s = 50" "state_ok q"
    and h: "stream_idle h" "s = 0 \<longrightarrow> S_NDTR h = 0"
    and off: "\<not> HAL_IS_BIT_SET c3 USART_CR3_DMAR" "\<not> HAL_IS_BIT_SET c3 USART_CR3_EIE"
      "\<not> HAL_IS_BIT_SET c1 USART_CR1_PEIE"
    and k: "ucast k = (ucast c :: u32)"
  shows "port_inv (restart_rx k q)"
    "dma_pending (restart_rx k q) = read_bytes (mem p) (DMA_buff p) (unat c)"
    "user_pending (restart_rx k q) = user_pending q"
    "USART_State (restart_rx k q) = st"
proof -
  have b: "buffers_ok q" "regions_ok (buff p) (DMA_buff p)"
    using p(5) q buffers_ok_regions [OF p(5)] by (auto simp: buffers_ok_def)
  have "port_inv (restart_rx k q) \<and>
    dma_pending (restart_rx k q) = read_bytes (mem p) (DMA_buff p) (unat c) \<and>
    user_pending (restart_rx k q) = user_pending q \<and> USART_State (restart_rx k q) = st"
  proof (cases "s = 0")
    case True
    then have r: "restart_rx k q = q"
      using q by (simp add: restart_rx_refused)
    have "rx_stalled q"
      using True h off q by (auto simp: rx_stalled_def)
    then show ?thesis
      unfolding r using p b q True h(2)
      by (simp add: port_inv_def dma_pending_def dma_fill_def rx_NDTR_def get_rx_def)
  next
    case False
    then have "unat c < 50"
      using p(6) by (metis add_diff_cancel_left' diff_is_0_eq' linorder_not_less unat_eq_zero)
    then have "DMA_buff p + of_nat (unat c) \<noteq> 0"
      by (rule regions_addr(2) [OF b(2)])
    then have nz: "DMA_buff q + ucast k \<noteq> 0"
      unfolding k ucast16_32_nat using q by simp
    let ?r = "rx_restarted (DMA_buff q + ucast k) h q"
    have r: "restart_rx k q = ?r"
      using restart_rx_ok [of q h k] nz False p(2) q by simp
    have live: "rx_live ?r" "rx_NDTR ?r = ucast s"
      using rx_restarted_live [of h q "DMA_buff q + ucast k"] h(1) q k False
      by (simp_all add: stream_idle_def)
    have so: "state_ok ?r"
      using p(7) by (simp add: state_ok_def)
    have "port_inv ?r"
      unfolding port_inv_def using p(1-6) live(1) b(1) so q by simp
    moreover have "dma_pending ?r = read_bytes (mem p) (DMA_buff p) (unat c)"
      unfolding dma_pending_def dma_fill_def using live(2) q by simp
    moreover have "user_pending ?r = user_pending q" "USART_State ?r = st"
      using q by (simp_all add: user_pending_def )
    ultimately show ?thesis
      unfolding r by simp
  qed
  then show "port_inv (restart_rx k q)"
    "dma_pending (restart_rx k q) = read_bytes (mem p) (DMA_buff p) (unat c)"
    "user_pending (restart_rx k q) = user_pending q" "USART_State (restart_rx k q) = st"
    by blast+
qed

subsection \<open>The idle-line interrupt\<close>

lemma HAL_UART_IRQHandler_quiet:
  assumes "quiet_tx p" "rx_live p \<or> rx_stalled p"
  shows "HAL_UART_IRQHandler usart_user p = p"
  using assms is_set_union [of "CR1 p" USART_CR1_RXNEIE USART_CR1_PEIE]
  by (auto simp: HAL_UART_IRQHandler_def quiet_tx_def rx_live_def rx_stalled_def and_zero_is_set
      Let_def)

lemma fill_count:
  assumes "port_inv p"
  shows "unat (DMA_Receive_Count p + ucast (ucast (DMA_Receive_Size p) - rx_NDTR p)) = dma_fill p"
    "dma_fill p \<le> 50" "unat (rx_NDTR p) \<le> unat (DMA_Receive_Size p)"
proof -
  have sum: "unat (DMA_Receive_Count p) + unat (DMA_Receive_Size p) = 50"
    using assms by (simp add: port_inv_def)
  show n: "unat (rx_NDTR p) \<le> unat (DMA_Receive_Size p)"
    using assms by (auto simp: port_inv_def rx_live_def rx_stalled_def stream_active_def rx_NDTR_def
        get_rx_def)
  let ?d = "ucast (DMA_Receive_Size p) - rx_NDTR p"
  have d: "unat ?d = unat (DMA_Receive_Size p) - unat (rx_NDTR p)"
    using n by (rule unat_sub16_32)
  then have "unat (ucast ?d :: u16) = unat (DMA_Receive_Size p) - unat (rx_NDTR p)"
    using unat_ucast32_16 [of ?d] unat_u16_bound [of "DMA_Receive_Size p"] by simp
  then show "unat (DMA_Receive_Count p + ucast ?d) = dma_fill p"
    using unat_add16 [of "DMA_Receive_Count p" "ucast ?d"] sum by (simp add: dma_fill_def)
  show "dma_fill p \<le> 50"
    using sum by (simp add: dma_fill_def)
qed

text \<open>The port when the idle-line interrupt has stopped reception.\<close>

definition idle_stopped :: "u16 \<Rightarrow> uart_dma \<Rightarrow> u32 \<Rightarrow> u32 \<Rightarrow> 'f STUsart \<Rightarrow> 'f STUsart" where
  "idle_stopped c h c1 c3 p = p\<lparr>SR := CLEAR_BIT (SR p) SR_rx_flags, DMA_Receive_Count := c,
     hdmarx := Some h, CR1 := c1, CR3 := c3, RxState := HAL_UART_STATE_READY\<rparr>"

lemma idle_stop:
  assumes p: "port_inv p" and env: "stream_stops env"
    and c: "c = DMA_Receive_Count p + ucast (ucast (DMA_Receive_Size p) - rx_NDTR p)"
  shows "\<exists>h c1 c3. snd (HAL_UART_DMAStop env ((HAL_UART_CLEAR_PEFLAG p)\<lparr>DMA_Receive_Count := c\<rparr>)) =
      idle_stopped c h c1 c3 p \<and> stream_idle h \<and> S_NDTR h = rx_NDTR p \<and>
      quiet_tx (idle_stopped c h c1 c3 p) \<and> \<not> HAL_IS_BIT_SET c3 USART_CR3_DMAR \<and>
      \<not> HAL_IS_BIT_SET c3 USART_CR3_EIE \<and> \<not> HAL_IS_BIT_SET c1 USART_CR1_PEIE"
proof -
  let ?q = "(HAL_UART_CLEAR_PEFLAG p)\<lparr>DMA_Receive_Count := c\<rparr>"
  have q: "quiet_tx ?q"
    using p by (simp add: port_inv_def quiet_tx_def uart_reg_defs)
  consider (live) h where "rx_live p" "hdmarx p = Some h" | (stalled) h where "rx_stalled p" "hdmarx p = Some h"
    using p by (auto simp: port_inv_def rx_live_def rx_stalled_def)
  then show ?thesis
  proof cases
    case live
    then have a: "stream_active (DMA_buff p + ucast (DMA_Receive_Count p)) (DMA_Receive_Size p) h"
      "RxState ?q = HAL_UART_STATE_BUSY_RX" "HAL_IS_BIT_SET (CR3 ?q) USART_CR3_DMAR" "hdmarx ?q = Some h"
      by (auto simp: rx_live_def uart_reg_defs)
    have eq: "snd (HAL_UART_DMAStop env ?q) = idle_stopped c (snd (HAL_DMA_Abort env h))
        (CLEAR_BIT (CR1 p) (USART_CR1_RXNEIE OR USART_CR1_PEIE))
        (CLEAR_BIT (CLEAR_BIT (CR3 p) USART_CR3_DMAR) USART_CR3_EIE) p"
      using DMAStop_live [OF q a(2-4), of env]
      by (simp add: idle_stopped_def rx_halted_def uart_reg_defs)
    show ?thesis
      unfolding eq using abort_active_idle [OF a(1) env] q live(2)
      by (intro exI [of _ "snd (HAL_DMA_Abort env h)"]
          exI [of _ "CLEAR_BIT (CR1 p) (USART_CR1_RXNEIE OR USART_CR1_PEIE)"]
          exI [of _ "CLEAR_BIT (CLEAR_BIT (CR3 p) USART_CR3_DMAR) USART_CR3_EIE"])
        (simp add: rx_NDTR_def get_rx_def quiet_tx_def idle_stopped_def uart_reg_defs flag_simps)
  next
    case stalled
    then have "snd (HAL_UART_DMAStop env ?q) = idle_stopped c h (CR1 p) (CR3 p) p"
      using DMAStop_stalled [OF q, of env]
      by (cases p) (auto simp: rx_stalled_def idle_stopped_def uart_reg_defs)
    then show ?thesis
      using stalled q
      by (intro exI [of _ h] exI [of _ "CR1 p"] exI [of _ "CR3 p"])
        (auto simp: rx_stalled_def rx_NDTR_def get_rx_def quiet_tx_def idle_stopped_def uart_reg_defs)
  qed
qed

lemma state_ok_idle:
  assumes "state_ok p" "state_has p ST_PROCESSED" "unat c \<le> 50"
    and "USART_State q = st_clear (st_clear (USART_State p) ST_PROCESSED) ST_DMA_DATA" "receive_count q = c"
  shows "state_ok q" "\<not> state_has q ST_PROCESSED" "\<not> state_has q ST_PROCESSING" "\<not> state_has q ST_REFILLED"
  using assms by (auto simp: state_ok_def)

lemma irq_idle_processed:
  assumes p: "port_inv p" and env: "stream_stops env" and i: "HAL_IS_BIT_SET (SR p) USART_SR_IDLE"
    and st: "state_has p ST_PROCESSED"
  shows "port_inv (usart_IRQHandler env p)" "dma_pending (usart_IRQHandler env p) = []"
    "user_pending (usart_IRQHandler env p) = dma_pending p"
    "USART_State (usart_IRQHandler env p) = st_clear (st_clear (USART_State p) ST_PROCESSED) ST_DMA_DATA"
    "buff (usart_IRQHandler env p) = DMA_buff p" "DMA_buff (usart_IRQHandler env p) = buff p"
    "DMA_Receive_Count (usart_IRQHandler env p) = 0"
proof -
  define c where "c = DMA_Receive_Count p + ucast (ucast (DMA_Receive_Size p) - rx_NDTR p)"
  obtain h c1 c3 where s: "snd (HAL_UART_DMAStop env ((HAL_UART_CLEAR_PEFLAG p)\<lparr>DMA_Receive_Count := c\<rparr>)) =
      idle_stopped c h c1 c3 p" "stream_idle h" "quiet_tx (idle_stopped c h c1 c3 p)"
    using idle_stop [OF p env c_def] by blast
  let ?st = "st_clear (st_clear (USART_State p) ST_PROCESSED) ST_DMA_DATA"
  define q where "q = p\<lparr>DMA_buff := buff p, buff := DMA_buff p, DMA_Receive_Size := 50,
      receive_count := c, DMA_Receive_Count := 0, USART_State := ?st, hdmarx := Some h, CR1 := c1,
      CR3 := c3, SR := CLEAR_BIT (SR p) SR_rx_flags, RxState := HAL_UART_STATE_READY,
      RxXferCount := RxXferCount p\<rparr>"
  have irq: "usart_IRQHandler env p = restart_rx 0 q"
  proof -
    have "state_has (idle_stopped c h c1 c3 p) ST_PROCESSED"
      using st by (simp add: idle_stopped_def)
    then have "idle_swap (idle_stopped c h c1 c3 p) = (0, q)"
      by (cases p) (simp add: idle_swap_def idle_stopped_def swap_buffers_def q_def)
    moreover have "HAL_UART_IRQHandler usart_user p = p"
      using HAL_UART_IRQHandler_quiet p by (auto simp: port_inv_def)
    ultimately show ?thesis
      using i s(1) by (simp add: usart_IRQHandler_def c_def Let_def uart_reg_defs rx_NDTR_def get_rx_def)
  qed
  have c: "unat c = dma_fill p" "unat c \<le> 50"
    using fill_count [OF p] c_def by simp_all
  have so: "state_ok q" "\<not> state_has q ST_PROCESSED" "\<not> state_has q ST_PROCESSING" "\<not> state_has q ST_REFILLED"
    using state_ok_idle [of p c q] p st c by (auto simp: port_inv_def q_def)
  have ex: "port_of (Instance p) \<noteq> None" "Lock p = HAL_UNLOCKED" "\<not> fault p" "quiet_tx q" "buffers_ok p"
    "stream_setup h" "DState h = HAL_DMA_STATE_READY" "DLock h = HAL_UNLOCKED"
    using p s(2,3) by (auto simp: port_inv_def stream_idle_def quiet_tx_def q_def idle_stopped_def)
  note x = exchange_inv [OF q_def ex so(1,2)]
  have pr: "state_has q ST_PROCESSING \<longleftrightarrow> state_has q ST_REFILLED"
    using so(3,4) by simp
  show "port_inv (usart_IRQHandler env p)" "dma_pending (usart_IRQHandler env p) = []"
    "user_pending (usart_IRQHandler env p) = dma_pending p" "USART_State (usart_IRQHandler env p) = ?st"
    unfolding irq using x pr c(1) by (simp_all add: dma_pending_def)
  show "buff (usart_IRQHandler env p) = DMA_buff p" "DMA_buff (usart_IRQHandler env p) = buff p"
    "DMA_Receive_Count (usart_IRQHandler env p) = 0"
    unfolding irq by (simp_all add: restart_rx_fields q_def)
qed

lemma irq_idle_unprocessed:
  assumes p: "port_inv p" and env: "stream_stops env" and i: "HAL_IS_BIT_SET (SR p) USART_SR_IDLE"
    and st: "\<not> state_has p ST_PROCESSED"
  shows "port_inv (usart_IRQHandler env p)" "dma_pending (usart_IRQHandler env p) = dma_pending p"
    "user_pending (usart_IRQHandler env p) = user_pending p"
    "USART_State (usart_IRQHandler env p) = st_set (USART_State p) ST_DMA_DATA"
    "buff (usart_IRQHandler env p) = buff p" "DMA_buff (usart_IRQHandler env p) = DMA_buff p"
    "unat (DMA_Receive_Count (usart_IRQHandler env p)) = dma_fill p"
proof -
  define c where "c = DMA_Receive_Count p + ucast (ucast (DMA_Receive_Size p) - rx_NDTR p)"
  obtain h c1 c3 where s: "snd (HAL_UART_DMAStop env ((HAL_UART_CLEAR_PEFLAG p)\<lparr>DMA_Receive_Count := c\<rparr>)) =
      idle_stopped c h c1 c3 p" "stream_idle h" "S_NDTR h = rx_NDTR p" "quiet_tx (idle_stopped c h c1 c3 p)"
    and off: "\<not> HAL_IS_BIT_SET c3 USART_CR3_DMAR" "\<not> HAL_IS_BIT_SET c3 USART_CR3_EIE"
      "\<not> HAL_IS_BIT_SET c1 USART_CR1_PEIE"
    using idle_stop [OF p env c_def] by blast
  define k where "k = (ucast c :: u8)"
  define s' :: u16 where "s' = 50 - ucast k"
  define q where "q = p\<lparr>DMA_Receive_Count := c, DMA_Receive_Size := s',
      USART_State := st_set (USART_State p) ST_DMA_DATA, hdmarx := Some h, CR1 := c1, CR3 := c3,
      SR := CLEAR_BIT (SR p) SR_rx_flags, RxState := HAL_UART_STATE_READY\<rparr>"
  have irq: "usart_IRQHandler env p = restart_rx k q"
  proof -
    have "idle_swap (idle_stopped c h c1 c3 p) = (k, q)"
      using st by (simp add: idle_swap_def idle_stopped_def q_def s'_def k_def Let_def)
    moreover have "HAL_UART_IRQHandler usart_user p = p"
      using HAL_UART_IRQHandler_quiet p by (auto simp: port_inv_def)
    ultimately show ?thesis
      using i s(1) by (simp add: usart_IRQHandler_def c_def Let_def uart_reg_defs rx_NDTR_def get_rx_def)
  qed
  have c: "unat c = dma_fill p" "unat c \<le> 50"
    using fill_count [OF p] c_def by simp_all
  have k: "unat k = unat c"
    using c(2) by (simp add: k_def unat_ucast16_8)
  have s': "unat s' = 50 - unat c"
    using c(2) k by (simp add: s'_def unat_sub word_le_nat_alt)
  have nd: "s' = 0 \<longrightarrow> S_NDTR h = 0"
  proof
    assume "s' = 0"
    then have "dma_fill p = 50"
      using s' c by simp
    then have "unat (rx_NDTR p) = 0"
      using fill_count(3) [OF p] p by (auto simp: dma_fill_def port_inv_def)
    then show "S_NDTR h = 0"
      using s(3) by (simp add: unat_eq_zero)
  qed
  have ex: "port_of (Instance p) \<noteq> None" "Lock p = HAL_UNLOCKED" "\<not> fault p" "quiet_tx q" "buffers_ok p"
    "unat c + unat s' = 50" "state_ok q"
    using p s(4) s' c by (auto simp: port_inv_def quiet_tx_def q_def idle_stopped_def state_ok_def)
  have kc: "ucast k = (ucast c :: u32)"
    by (rule unsigned_word_eqI [where ?'a = nat]) (simp add: k)
  note x = append_inv [OF q_def ex s(2) nd off kc]
  have "user_pending q = user_pending p"
    by (simp add: user_pending_def q_def)
  then show "port_inv (usart_IRQHandler env p)" "dma_pending (usart_IRQHandler env p) = dma_pending p"
    "user_pending (usart_IRQHandler env p) = user_pending p"
    "USART_State (usart_IRQHandler env p) = st_set (USART_State p) ST_DMA_DATA"
    unfolding irq using x c(1) by (simp_all add: dma_pending_def)
  show "buff (usart_IRQHandler env p) = buff p" "DMA_buff (usart_IRQHandler env p) = DMA_buff p"
    "unat (DMA_Receive_Count (usart_IRQHandler env p)) = dma_fill p"
    unfolding irq using c(1) by (simp_all add: restart_rx_fields q_def)
qed

lemma irq_usart_no_idle:
  assumes "port_inv p" "\<not> HAL_IS_BIT_SET (SR p) USART_SR_IDLE"
  shows "usart_IRQHandler env p = p"
  using assms HAL_UART_IRQHandler_quiet [of p] by (auto simp: usart_IRQHandler_def port_inv_def)

subsection \<open>The DMA interrupt of the receiver\<close>

lemmas restart_rx_func = restart_rx_fields(1)

lemma irq_rx_dma_pending:
  assumes p: "port_inv p" and n: "rx_NDTR p \<noteq> 0 \<or> rx_stalled p"
  shows "port_inv (rx_dma_irq usart_user p)" "dma_pending (rx_dma_irq usart_user p) = dma_pending p"
    "user_pending (rx_dma_irq usart_user p) = user_pending p"
    "USART_State (rx_dma_irq usart_user p) = USART_State p"
    "buff (rx_dma_irq usart_user p) = buff p" "DMA_buff (rx_dma_irq usart_user p) = DMA_buff p"
proof -
  consider (live) h where "rx_live p" "hdmarx p = Some h" "S_NDTR h \<noteq> 0"
    | (stalled) h where "rx_stalled p" "hdmarx p = Some h"
    using p n by (auto simp: port_inv_def rx_live_def rx_stalled_def rx_NDTR_def get_rx_def)
  then obtain h where h: "hdmarx p = Some h"
    "stream_setup h" "XferHalfCpltCallback h = Some UART_DMARxHalfCplt"
    "\<not> HAL_IS_BIT_SET (ISR h) (stream_mask h DMA_FLAG_TCIF0_4)"
    by cases (auto simp: rx_live_def rx_stalled_def stream_active_def stream_idle_def)
  let ?q = "p\<lparr>hdmarx := Some (ht_part (ISR h) h)\<rparr>"
  have r: "rx_dma_irq usart_user p = ?q"
    by (rule rx_irq_no_TC [OF h])
  have "rx_live ?q \<or> rx_stalled ?q"
    using p h(1) by (auto simp: port_inv_def rx_live_def rx_stalled_def ht_part_keeps)
  then show "port_inv (rx_dma_irq usart_user p)"
    using p unfolding r by (auto simp: port_inv_def quiet_tx_def buffers_ok_def state_ok_def)
  show "dma_pending (rx_dma_irq usart_user p) = dma_pending p"
    using h(1) unfolding r by (simp add: dma_pending_def dma_fill_def rx_NDTR_def get_rx_def ht_part_keeps)
  show "user_pending (rx_dma_irq usart_user p) = user_pending p"
    "USART_State (rx_dma_irq usart_user p) = USART_State p"
    "buff (rx_dma_irq usart_user p) = buff p" "DMA_buff (rx_dma_irq usart_user p) = DMA_buff p"
    unfolding r by (simp_all add: user_pending_def)
qed

definition st_full :: "u8 \<Rightarrow> u8" where
  "st_full w = st_clear (if st_has w ST_PROCESSING then st_set w ST_REFILLED else w) ST_PROCESSED"

lemma irq_rx_dma_complete:
  assumes p: "port_inv p" "rx_live p" and n: "rx_NDTR p = 0"
  shows "port_inv (rx_dma_irq usart_user p)" "dma_pending (rx_dma_irq usart_user p) = []"
    "user_pending (rx_dma_irq usart_user p) = dma_pending p" "length (dma_pending p) = 50"
    "USART_State (rx_dma_irq usart_user p) = st_full (USART_State p)"
    "func (rx_dma_irq usart_user p) = func p"
    "buff (rx_dma_irq usart_user p) = DMA_buff p" "DMA_buff (rx_dma_irq usart_user p) = buff p"
    "DMA_Receive_Count (rx_dma_irq usart_user p) = 0"
proof -
  obtain h where h: "hdmarx p = Some h"
    "stream_active (DMA_buff p + ucast (DMA_Receive_Count p)) (DMA_Receive_Size p) h" "S_NDTR h = 0"
    using p n by (auto simp: rx_live_def rx_NDTR_def get_rx_def)
  define k where "k = tc_part (ISR h) h"
  define c where "c = DMA_Receive_Count p + DMA_Receive_Size p"
  define q where "q = p\<lparr>DMA_buff := buff p, buff := DMA_buff p, DMA_Receive_Size := 50,
      receive_count := c, DMA_Receive_Count := 0, USART_State := st_full (USART_State p),
      hdmarx := Some k, CR1 := CLEAR_BIT (CR1 p) USART_CR1_PEIE,
      CR3 := CLEAR_BIT (CLEAR_BIT (CR3 p) USART_CR3_EIE) USART_CR3_DMAR, SR := SR p,
      RxState := HAL_UART_STATE_READY, RxXferCount := 0\<rparr>"
  have c: "unat c = 50" "dma_fill p = 50"
    using p(1) n unat_add16 [of "DMA_Receive_Count p" "DMA_Receive_Size p"]
    by (simp_all add: port_inv_def c_def dma_fill_def)
  have cb: "usart_RxCpltCallback (rx_complete k p) = restart_rx 0 q"
    using p(1) by (cases p)
      (auto simp: usart_RxCpltCallback_def rx_complete_def q_def port_inv_def swap_buffers_def
        st_full_def c_def Let_def)
  have so: "state_ok q" "\<not> state_has q ST_PROCESSED"
      "state_has q ST_PROCESSING \<longleftrightarrow> state_has q ST_REFILLED"
    using p(1) c by (auto simp: port_inv_def state_ok_def q_def st_full_def)
  have "stream_idle k"
    unfolding k_def by (rule tc_part_idle(1) [OF h(2)])
  then have ex: "port_of (Instance p) \<noteq> None" "Lock p = HAL_UNLOCKED" "\<not> fault p" "quiet_tx q"
    "buffers_ok p" "stream_setup k" "DState k = HAL_DMA_STATE_READY" "DLock k = HAL_UNLOCKED"
    using p(1) by (auto simp: port_inv_def stream_idle_def quiet_tx_def q_def flag_simps)
  note x = exchange_inv [OF q_def ex so]
  have irq: "rx_dma_irq usart_user p = restart_rx 0 q"
    using rx_irq_TC [OF h] x(4) cb unfolding k_def by simp
  show "port_inv (rx_dma_irq usart_user p)" "dma_pending (rx_dma_irq usart_user p) = []"
    "user_pending (rx_dma_irq usart_user p) = dma_pending p" "length (dma_pending p) = 50"
    "USART_State (rx_dma_irq usart_user p) = st_full (USART_State p)"
    "func (rx_dma_irq usart_user p) = func p"
    unfolding irq using x c by (simp_all add: dma_pending_def restart_rx_func) (simp add: q_def)
  show "buff (rx_dma_irq usart_user p) = DMA_buff p" "DMA_buff (rx_dma_irq usart_user p) = buff p"
    "DMA_Receive_Count (rx_dma_irq usart_user p) = 0"
    unfolding irq by (simp_all add: restart_rx_fields q_def)
qed

subsection \<open>The main loop\<close>

lemma rsm_swap_skip:
  "\<not> (state_has p ST_PROCESSED \<and> state_has p ST_DMA_DATA \<and> ucast (DMA_Receive_Size p) = rx_NDTR p)
   \<Longrightarrow> rsm_swap env p = p"
  by (auto simp: rsm_swap_def state_has_A)

lemma rsm_swap_exchange:
  assumes p: "port_inv p" and env: "stream_stops env"
    and st: "state_has p ST_PROCESSED" "state_has p ST_DMA_DATA" "ucast (DMA_Receive_Size p) = rx_NDTR p"
  shows "port_inv (rsm_swap env p)" "dma_pending (rsm_swap env p) = []"
    "user_pending (rsm_swap env p) = dma_pending p"
    "USART_State (rsm_swap env p) = st_clear (st_clear (USART_State p) ST_PROCESSED) ST_DMA_DATA"
    "buff (rsm_swap env p) = DMA_buff p" "DMA_buff (rsm_swap env p) = buff p"
    "DMA_Receive_Count (rsm_swap env p) = 0"
proof -
  define c where "c = DMA_Receive_Count p"
  have fill: "dma_fill p = unat c"
    using st(3) by (simp add: dma_fill_def c_def flip: st(3))
  obtain h ca cb where s: "snd (HAL_UART_DMAStop env p) = p\<lparr>hdmarx := Some h, CR1 := ca, CR3 := cb,
      RxState := HAL_UART_STATE_READY\<rparr>" "stream_idle h"
      "quiet_tx (p\<lparr>hdmarx := Some h, CR1 := ca, CR3 := cb, RxState := HAL_UART_STATE_READY\<rparr>)"
  proof -
    have q: "quiet_tx p"
      using p by (simp add: port_inv_def)
    consider (live) h where "rx_live p" "hdmarx p = Some h" | (stalled) h where "rx_stalled p" "hdmarx p = Some h"
      using p by (auto simp: port_inv_def rx_live_def rx_stalled_def)
    then show ?thesis
    proof cases
      case live
      then have a: "stream_active (DMA_buff p + ucast (DMA_Receive_Count p)) (DMA_Receive_Size p) h"
        "RxState p = HAL_UART_STATE_BUSY_RX" "HAL_IS_BIT_SET (CR3 p) USART_CR3_DMAR"
        by (auto simp: rx_live_def)
      show ?thesis
        using that [where h = "snd (HAL_DMA_Abort env h)"
            and ca = "CLEAR_BIT (CR1 p) (USART_CR1_RXNEIE OR USART_CR1_PEIE)"
            and cb = "CLEAR_BIT (CLEAR_BIT (CR3 p) USART_CR3_DMAR) USART_CR3_EIE"]
          DMAStop_live [OF q a(2,3) live(2), of env] abort_active_idle [OF a(1) env] q
        by (simp add: rx_halted_def quiet_tx_def flag_simps)
    next
      case stalled
      then show ?thesis
        using that [where h = h and ca = "CR1 p" and cb = "CR3 p"] DMAStop_stalled [OF q, of env] q
        by (cases p) (auto simp: rx_stalled_def quiet_tx_def)
    qed
  qed
  let ?st = "st_clear (st_clear (USART_State p) ST_PROCESSED) ST_DMA_DATA"
  define q where "q = p\<lparr>DMA_buff := buff p, buff := DMA_buff p, DMA_Receive_Size := 50,
      receive_count := c, DMA_Receive_Count := 0, USART_State := ?st, hdmarx := Some h, CR1 := ca,
      CR3 := cb, SR := SR p, RxState := HAL_UART_STATE_READY, RxXferCount := RxXferCount p\<rparr>"
  have r: "rsm_swap env p = restart_rx 0 q"
    using st s(1) by (cases p)
      (simp add: rsm_swap_def state_has_A swap_buffers_def q_def c_def Let_def)
  have "unat c \<le> 50"
    using p by (auto simp: port_inv_def c_def)
  then have so: "state_ok q" "\<not> state_has q ST_PROCESSED" "\<not> state_has q ST_PROCESSING" "\<not> state_has q ST_REFILLED"
    using state_ok_idle [of p c q] p st by (auto simp: port_inv_def q_def)
  have ex: "port_of (Instance p) \<noteq> None" "Lock p = HAL_UNLOCKED" "\<not> fault p" "quiet_tx q" "buffers_ok p"
    "stream_setup h" "DState h = HAL_DMA_STATE_READY" "DLock h = HAL_UNLOCKED"
    using p s(2,3) by (auto simp: port_inv_def stream_idle_def quiet_tx_def q_def)
  note x = exchange_inv [OF q_def ex so(1,2)]
  have pr: "state_has q ST_PROCESSING \<longleftrightarrow> state_has q ST_REFILLED"
    using so(3,4) by simp
  show "port_inv (rsm_swap env p)" "dma_pending (rsm_swap env p) = []"
    "user_pending (rsm_swap env p) = dma_pending p" "USART_State (rsm_swap env p) = ?st"
    unfolding r using x pr fill by (simp_all add: dma_pending_def)
  show "buff (rsm_swap env p) = DMA_buff p" "DMA_buff (rsm_swap env p) = buff p"
    "DMA_Receive_Count (rsm_swap env p) = 0"
    unfolding r by (simp_all add: restart_rx_fields q_def)
qed

subsection \<open>A received byte\<close>

lemma rx_accepts_live:
  assumes "port_inv p" "rx_accepts p"
  shows "rx_live p" "rx_NDTR p \<noteq> 0" "rx_addr p = DMA_buff p + of_nat (dma_fill p)" "dma_fill p < 50"
proof -
  obtain h where h: "hdmarx p = Some h" "rx_live p"
    "stream_active (DMA_buff p + ucast (DMA_Receive_Count p)) (DMA_Receive_Size p) h"
    "RxXferSize p = DMA_Receive_Size p"
    using assms by (auto simp: port_inv_def rx_accepts_def rx_stalled_def rx_live_def)
  then show "rx_live p" and nz: "rx_NDTR p \<noteq> 0"
    using assms by (auto simp: rx_accepts_def stream_active_def rx_NDTR_def get_rx_def)
  let ?d = "ucast (DMA_Receive_Size p) - rx_NDTR p"
  have "unat ?d = unat (DMA_Receive_Size p) - unat (rx_NDTR p)"
    using fill_count(3) [OF assms(1)] by (rule unat_sub16_32)
  then have d: "?d = of_nat (unat (DMA_Receive_Size p) - unat (rx_NDTR p))"
    by (metis of_nat_unat ucast_id)
  have "rx_addr p = DMA_buff p + ucast (DMA_Receive_Count p) + ?d"
    using h by (simp add: rx_addr_def stream_active_def get_rx_def)
  then show "rx_addr p = DMA_buff p + of_nat (dma_fill p)"
    unfolding d dma_fill_def of_nat_add by simp
  have "unat (rx_NDTR p) \<noteq> 0"
    using nz by (simp add: unat_eq_zero)
  then show "dma_fill p < 50"
    using fill_count(3) [OF assms(1)] assms(1) by (simp add: dma_fill_def port_inv_def)
qed

text \<open>The write goes into the DMA buffer, behind the bytes there, and not into the user's.\<close>

lemma rx_addr_outside:
  assumes "regions_ok a b" "f < 50" "n \<le> 50"
  shows "read_bytes (m(b + of_nat f := v)) a n = read_bytes m a n"
proof (rule read_bytes_upd_other, intro allI impI notI)
  fix i assume i: "i < n" "b + of_nat f = a + of_nat i"
  have "regions_ok b a"
    using assms(1) by (auto simp: regions_ok_def)
  then have "unat (a + of_nat i) = unat a + i"
    using regions_addr(1) [of b a i] i(1) assms(3) by simp
  moreover have "unat (b + of_nat f) = unat b + f"
    using regions_addr(1) [OF assms(1,2)] .
  ultimately show False
    using i assms by (auto simp: regions_ok_def)
qed

lemma rx_addr_next:
  assumes "regions_ok a b" "f < 50"
  shows "read_bytes (m(b + of_nat f := v)) b (Suc f) = read_bytes m b f @ [v]"
proof -
  have "read_bytes (m(b + of_nat f := v)) b f = read_bytes m b f"
  proof (rule read_bytes_upd_other, intro allI impI notI)
    fix i assume i: "i < f" "b + of_nat f = b + of_nat i"
    then show False
      using regions_addr(1) [OF assms(1), of f] regions_addr(1) [OF assms(1), of i] assms(2) by simp
  qed
  then show ?thesis
    by (simp add: read_bytes_snoc del: read_bytes.simps)
qed

lemma rx_byte_accepted:
  assumes p: "port_inv p" and a: "rx_accepts p"
  shows "port_inv (hw_rx_byte b p)" "dma_pending (hw_rx_byte b p) = dma_pending p @ [b]"
    "user_pending (hw_rx_byte b p) = user_pending p" "USART_State (hw_rx_byte b p) = USART_State p"
proof -
  note l = rx_accepts_live [OF p a]
  obtain h where h: "hdmarx p = Some h"
    "stream_active (DMA_buff p + ucast (DMA_Receive_Count p)) (DMA_Receive_Size p) h" "S_NDTR h \<noteq> 0"
    using l(1,2) by (auto simp: rx_live_def rx_NDTR_def get_rx_def)
  let ?k = "dma_item (ucast (RxXferSize p)) h"
  note i = dma_item_active [OF h(2,3), of "ucast (RxXferSize p)"]
  define q where "q = p\<lparr>DR := ucast b, mem := (mem p)(rx_addr p := b), hdmarx := Some ?k\<rparr>"
  have q: "hw_rx_byte b p = q"
    using a h(1) by (simp add: hw_rx_byte_def q_def get_rx_def)
  have "rx_live q"
    using l(1) h(1) i(1) a by (auto simp: rx_live_def q_def rx_accepts_def)
  then show "port_inv (hw_rx_byte b p)"
    using p unfolding q by (auto simp: port_inv_def quiet_tx_def buffers_ok_def state_ok_def q_def)
  have r: "regions_ok (buff p) (DMA_buff p)"
    using p buffers_ok_regions by (auto simp: port_inv_def)
  have "unat (rx_NDTR q) = unat (rx_NDTR p) - 1"
    using i(2) h(1) by (simp add: rx_NDTR_def get_rx_def q_def)
  moreover obtain m where "unat (rx_NDTR p) = Suc m"
    using l(2) by (metis unat_eq_zero not0_implies_Suc)
  ultimately have f: "dma_fill q = Suc (dma_fill p)"
    using fill_count(3) [OF p] by (simp add: dma_fill_def q_def)
  then show "dma_pending (hw_rx_byte b p) = dma_pending p @ [b]"
    using rx_addr_next [OF r l(4)] unfolding q by (simp add: dma_pending_def q_def l(3))
  have "unat (receive_count p) \<le> 50"
    using p by (simp add: port_inv_def state_ok_def)
  then show "user_pending (hw_rx_byte b p) = user_pending p"
    using rx_addr_outside [OF r l(4)] unfolding q by (simp add: user_pending_def q_def l(3))
  show "USART_State (hw_rx_byte b p) = USART_State p"
    unfolding q by (simp add: q_def)
qed

text \<open>A byte that the DMA does not take changes \<open>DR\<close> and \<open>SR\<close> only; while reception is on, it is
  the first one after the stream has completed.\<close>

lemma rx_byte_refused:
  assumes p: "port_inv p" and a: "\<not> rx_accepts p"
    and o: "rx_live p \<longrightarrow> \<not> HAL_IS_BIT_SET (SR p) USART_SR_RXNE"
  shows "port_inv (hw_rx_byte b p)" "dma_pending (hw_rx_byte b p) = dma_pending p"
    "user_pending (hw_rx_byte b p) = user_pending p" "USART_State (hw_rx_byte b p) = USART_State p"
proof -
  define d where "d = (if HAL_IS_BIT_SET (SR p) USART_SR_RXNE then DR p else ucast b)"
  define s where "s = SET_BIT (SR p)
    (if HAL_IS_BIT_SET (SR p) USART_SR_RXNE then USART_SR_ORE else USART_SR_RXNE)"
  have q: "hw_rx_byte b p = p\<lparr>DR := d, SR := s\<rparr>" "rx_live p \<longrightarrow> s = SET_BIT (SR p) USART_SR_RXNE"
    using a o by (cases p, simp add: hw_rx_byte_def d_def s_def) (simp add: s_def o)
  have "rx_live (p\<lparr>DR := d, SR := s\<rparr>) \<or> rx_stalled (p\<lparr>DR := d, SR := s\<rparr>)"
  proof (cases "rx_live p")
    case True
    then have "rx_NDTR p = 0"
      using a o by (auto simp: rx_accepts_def rx_live_def stream_active_def rx_NDTR_def get_rx_def)
    then show ?thesis
      using True q(2) by (auto simp: rx_live_def rx_NDTR_def get_rx_def flag_simps)
  next
    case False
    then show ?thesis
      using p by (auto simp: port_inv_def rx_stalled_def)
  qed
  then show "port_inv (hw_rx_byte b p)"
    using p unfolding q by (auto simp: port_inv_def quiet_tx_def buffers_ok_def state_ok_def)
  show "dma_pending (hw_rx_byte b p) = dma_pending p" "user_pending (hw_rx_byte b p) = user_pending p"
    "USART_State (hw_rx_byte b p) = USART_State p"
    unfolding q by (simp_all add: dma_pending_def dma_fill_def rx_NDTR_def get_rx_def user_pending_def)
qed

lemma rx_idle_inv:
  assumes "port_inv p"
  shows "port_inv (hw_rx_idle p)" "dma_pending (hw_rx_idle p) = dma_pending p"
    "user_pending (hw_rx_idle p) = user_pending p"
proof -
  have "rx_live (hw_rx_idle p) \<or> rx_stalled (hw_rx_idle p)"
    using assms by (auto simp: port_inv_def rx_live_def rx_stalled_def hw_rx_idle_def flag_simps)
  then show "port_inv (hw_rx_idle p)"
    using assms by (auto simp: port_inv_def quiet_tx_def buffers_ok_def state_ok_def hw_rx_idle_def)
  show "dma_pending (hw_rx_idle p) = dma_pending p" "user_pending (hw_rx_idle p) = user_pending p"
    by (simp_all add: dma_pending_def dma_fill_def rx_NDTR_def get_rx_def user_pending_def hw_rx_idle_def)
qed

subsection \<open>Entry and exit of the processing\<close>

lemma rx_view_inv:
  assumes "port_inv p" "q = p\<lparr>receive_count := n, USART_State := w\<rparr>" "state_ok q"
  shows "port_inv q" "dma_pending q = dma_pending p"
proof -
  have "rx_live q \<or> rx_stalled q"
    using assms by (auto simp: port_inv_def rx_live_def rx_stalled_def)
  then show "port_inv q"
    using assms by (auto simp: port_inv_def quiet_tx_def buffers_ok_def)
  show "dma_pending q = dma_pending p"
    using assms(2) by (simp add: dma_pending_def dma_fill_def rx_NDTR_def get_rx_def)
qed

lemma rsm_enter_inv:
  assumes p: "port_inv p" and rc: "receive_count p \<noteq> 0" and st: "\<not> state_has p ST_PROCESSING"
  shows "port_inv (rsm_enter p)" "dma_pending (rsm_enter p) = dma_pending p"
    "user_pending (rsm_enter p) = []"
    "user_pending p = read_bytes (mem p) (buff p) (unat (receive_count p))"
    "state_has (rsm_enter p) ST_PROCESSING"
proof -
  have s: "\<not> state_has p ST_PROCESSED" "\<not> state_has p ST_REFILLED"
    using p rc st by (auto simp: port_inv_def state_ok_def)
  have q: "rsm_enter p = p\<lparr>receive_count := receive_count p, USART_State := st_set (USART_State p) ST_PROCESSING\<rparr>"
    by (cases p) (simp add: rsm_enter_def)
  have so: "state_ok (rsm_enter p)"
    using p s by (auto simp: port_inv_def state_ok_def rsm_enter_def)
  show "port_inv (rsm_enter p)" "dma_pending (rsm_enter p) = dma_pending p"
    using rx_view_inv [OF p q so] by simp_all
  show "user_pending (rsm_enter p) = []"
    "user_pending p = read_bytes (mem p) (buff p) (unat (receive_count p))"
    "state_has (rsm_enter p) ST_PROCESSING"
    using s st by (simp_all add: user_pending_def rsm_enter_def)
qed

lemma rsm_exit_inv:
  assumes p: "port_inv p" and st: "state_has p ST_PROCESSING"
  shows "port_inv (rsm_exit p)" "dma_pending (rsm_exit p) = dma_pending p"
    "user_pending (rsm_exit p) = user_pending p" "\<not> state_has (rsm_exit p) ST_PROCESSING"
proof -
  have s: "\<not> state_has p ST_PROCESSED"
    using p st by (auto simp: port_inv_def state_ok_def)
  let ?w = "st_clear (if state_has p ST_REFILLED then st_clear (USART_State p) ST_REFILLED
      else st_set (USART_State p) ST_PROCESSED) ST_PROCESSING"
  have q: "rsm_exit p = p\<lparr>receive_count := (if state_has p ST_REFILLED then receive_count p else 0),
      USART_State := ?w\<rparr>"
    by (cases p) (simp add: rsm_exit_def)
  have so: "state_ok (rsm_exit p)"
    using p s by (auto simp: port_inv_def state_ok_def rsm_exit_def Let_def)
  show "port_inv (rsm_exit p)" "dma_pending (rsm_exit p) = dma_pending p"
    using rx_view_inv [OF p q so] by simp_all
  show "user_pending (rsm_exit p) = user_pending p" "\<not> state_has (rsm_exit p) ST_PROCESSING"
    using s st by (auto simp: user_pending_def rsm_exit_def Let_def)
qed

section \<open>The system: receiver, interrupts and main loop\<close>

text \<open>
  The port with what happened so far: \<open>received\<close> are the bytes the DMA has stored, \<open>refused\<close> those that
  found no stream to take them, \<open>fates\<close> what became of the contents of the user buffer, in order: handed to the user
  function, or replaced by a full DMA buffer before the user function had been given them. \<open>handed\<close> is the address the user
  function was given last, \<open>phase\<close> where \<open>receive_str_manage\<close> is.
\<close>

datatype main_phase = MainIdle | MainSwapped | MainProcessing

datatype fate = Delivered | Overwritten

record 'f sys =
  port :: "'f STUsart"
  phase :: main_phase
  received :: "u8 list"
  refused :: "u8 list"
  fates :: "(fate \<times> u8 list) list"
  handed :: u32

definition sys_start :: "'f STUsart \<Rightarrow> 'f sys" where
  "sys_start p = \<lparr>port = p, phase = MainIdle, received = [], refused = [], fates = [], handed = buff p\<rparr>"

text \<open>The full-buffer interrupt takes the DMA buffer over as the user buffer when its transfer has completed.\<close>

definition takes_over :: "'f STUsart \<Rightarrow> bool" where
  "takes_over p \<longleftrightarrow> HAL_IS_BIT_SET (CR3 p) USART_CR3_DMAR \<and> rx_NDTR p = 0"

text \<open>
  The steps: a byte arrives, and is taken by the DMA or refused; the line goes idle; one of the two interrupts is
  taken, at any moment between two parts of \<open>receive_str_manage\<close>; \<open>receive_str_manage\<close> does one of its parts, each
  of them uninterrupted (\<open>swap_race_aliases_buffers\<close> is about an interrupt within one). A byte that finds \<open>RXNE\<close> set while error
  interrupts are on would raise the overrun error: there is no step for it, nor for any other error of the
  line, and none for a transmission on the same port (\<open>UsartTx\<close> has those). Every abort of a stream is immediate:
  \<open>stream_stops env\<close>.
\<close>

inductive sys_step :: "hw_env \<Rightarrow> 'f sys \<Rightarrow> 'f sys \<Rightarrow> bool" for env where
  rx_byte: "rx_accepts (port \<sigma>) \<Longrightarrow>
     sys_step env \<sigma> (\<sigma>\<lparr>port := hw_rx_byte b (port \<sigma>), received := received \<sigma> @ [b]\<rparr>)"
| rx_refuse: "\<not> rx_accepts (port \<sigma>) \<Longrightarrow>
     HAL_IS_BIT_SET (SR (port \<sigma>)) USART_SR_RXNE \<longrightarrow> \<not> HAL_IS_BIT_SET (CR3 (port \<sigma>)) USART_CR3_DMAR \<Longrightarrow>
     sys_step env \<sigma> (\<sigma>\<lparr>port := hw_rx_byte b (port \<sigma>), refused := refused \<sigma> @ [b]\<rparr>)"
| rx_idle: "sys_step env \<sigma> (\<sigma>\<lparr>port := hw_rx_idle (port \<sigma>)\<rparr>)"
| irq_usart: "sys_step env \<sigma> (\<sigma>\<lparr>port := usart_IRQHandler env (port \<sigma>)\<rparr>)"
| irq_rx_dma: "sys_step env \<sigma>
     (\<sigma>\<lparr>port := rx_dma_irq usart_user (port \<sigma>),
        fates := (if takes_over (port \<sigma>) \<and> user_pending (port \<sigma>) \<noteq> []
          then fates \<sigma> @ [(Overwritten, user_pending (port \<sigma>))] else fates \<sigma>)\<rparr>)"
| main_swap: "phase \<sigma> = MainIdle \<Longrightarrow>
     sys_step env \<sigma> (\<sigma>\<lparr>port := rsm_swap env (port \<sigma>), phase := MainSwapped\<rparr>)"
| main_nothing: "phase \<sigma> = MainSwapped \<Longrightarrow> receive_count (port \<sigma>) = 0 \<Longrightarrow>
     sys_step env \<sigma> (\<sigma>\<lparr>phase := MainIdle\<rparr>)"
| main_enter: "phase \<sigma> = MainSwapped \<Longrightarrow> receive_count (port \<sigma>) \<noteq> 0 \<Longrightarrow>
     sys_step env \<sigma> (\<sigma>\<lparr>port := rsm_enter (port \<sigma>), phase := MainProcessing, handed := buff (port \<sigma>),
        fates := fates \<sigma> @
          [(Delivered, read_bytes (mem (port \<sigma>)) (buff (port \<sigma>)) (unat (receive_count (port \<sigma>))))]\<rparr>)"
| main_exit: "phase \<sigma> = MainProcessing \<Longrightarrow>
     sys_step env \<sigma> (\<sigma>\<lparr>port := rsm_exit (port \<sigma>), phase := MainIdle\<rparr>)"

inductive_cases sys_stepE: "sys_step env \<sigma> \<sigma>'"

text \<open>The start: a port as \<open>com_init\<close> leaves it.\<close>

inductive sys_reachable :: "hw_env \<Rightarrow> 'f STUsart \<Rightarrow> 'f sys \<Rightarrow> bool" for env p0 where
  start: "sys_reachable env p0 (sys_start p0)"
| step: "sys_reachable env p0 \<sigma> \<Longrightarrow> sys_step env \<sigma> \<sigma>' \<Longrightarrow> sys_reachable env p0 \<sigma>'"

definition port_ready :: "'f STUsart \<Rightarrow> bool" where
  "port_ready p \<longleftrightarrow> port_inv p \<and> USART_State p = ST_PROCESSED \<and> dma_fill p = 0"

text \<open>Everything stored was handed out or replaced, waits in the user buffer, or waits in the DMA buffer,
  in this order.\<close>

definition conserved :: "'f sys \<Rightarrow> bool" where
  "conserved \<sigma> \<longleftrightarrow>
     received \<sigma> = concat (map snd (fates \<sigma>)) @ user_pending (port \<sigma>) @ dma_pending (port \<sigma>)"

text \<open>While the user function runs, the buffer it was given is still the user buffer, unless a full buffer was taken
  over meanwhile; and it is one of the two buffers in any case.\<close>

definition handed_ok :: "'f sys \<Rightarrow> bool" where
  "handed_ok \<sigma> \<longleftrightarrow> handed \<sigma> \<in> {buff (port \<sigma>), DMA_buff (port \<sigma>)} \<and>
     (phase \<sigma> = MainProcessing \<longrightarrow> \<not> state_has (port \<sigma>) ST_REFILLED \<longrightarrow> handed \<sigma> = buff (port \<sigma>))"

definition sys_inv :: "'f sys \<Rightarrow> bool" where
  "sys_inv \<sigma> \<longleftrightarrow> port_inv (port \<sigma>) \<and>
     (phase \<sigma> = MainProcessing \<longleftrightarrow> state_has (port \<sigma>) ST_PROCESSING) \<and>
     conserved \<sigma> \<and> handed_ok \<sigma>"

lemma sys_inv_start:
  assumes "port_ready p"
  shows "sys_inv (sys_start p)"
  using assms
  by (simp add: sys_inv_def port_ready_def conserved_def handed_ok_def sys_start_def user_pending_def
      dma_pending_def st_has_def)

lemma handed_ok_same:
  assumes "handed_ok \<sigma>" "buff q = buff (port \<sigma>)" "DMA_buff q = DMA_buff (port \<sigma>)"
    "state_has q ST_REFILLED = state_has (port \<sigma>) ST_REFILLED" "port \<sigma>' = q" "handed \<sigma>' = handed \<sigma>" "phase \<sigma>' = phase \<sigma>"
  shows "handed_ok \<sigma>'"
  using assms by (simp add: handed_ok_def)

lemma handed_ok_exchange:
  assumes "handed_ok \<sigma>" "{buff q, DMA_buff q} = {buff (port \<sigma>), DMA_buff (port \<sigma>)}"
    "phase \<sigma>' = MainProcessing \<longrightarrow> state_has q ST_REFILLED" "port \<sigma>' = q" "handed \<sigma>' = handed \<sigma>"
  shows "handed_ok \<sigma>'"
  using assms by (auto simp: handed_ok_def)

lemma sys_inv_step_rx:
  assumes "sys_inv \<sigma>"
  shows "rx_accepts (port \<sigma>) \<Longrightarrow>
      sys_inv (\<sigma>\<lparr>port := hw_rx_byte b (port \<sigma>), received := received \<sigma> @ [b]\<rparr>)"
    and "\<not> rx_accepts (port \<sigma>) \<Longrightarrow>
      HAL_IS_BIT_SET (SR (port \<sigma>)) USART_SR_RXNE \<longrightarrow> \<not> HAL_IS_BIT_SET (CR3 (port \<sigma>)) USART_CR3_DMAR \<Longrightarrow>
      sys_inv (\<sigma>\<lparr>port := hw_rx_byte b (port \<sigma>), refused := refused \<sigma> @ [b]\<rparr>)"
    and "sys_inv (\<sigma>\<lparr>port := hw_rx_idle (port \<sigma>)\<rparr>)"
proof -
  have p: "port_inv (port \<sigma>)"
    using assms by (simp add: sys_inv_def)
  have h: "handed_ok \<sigma>'" if "port \<sigma>' = hw_rx_byte b (port \<sigma>)" "handed \<sigma>' = handed \<sigma>" "phase \<sigma>' = phase \<sigma>" for \<sigma>'
    by (rule handed_ok_same [of \<sigma> "hw_rx_byte b (port \<sigma>)"]) (use assms that in \<open>simp_all add: sys_inv_def hw_rx_byte_def\<close>)
  show "sys_inv (\<sigma>\<lparr>port := hw_rx_byte b (port \<sigma>), received := received \<sigma> @ [b]\<rparr>)"
    if "rx_accepts (port \<sigma>)"
    using assms rx_byte_accepted [OF p that] h by (auto simp: sys_inv_def conserved_def)
  show "sys_inv (\<sigma>\<lparr>port := hw_rx_byte b (port \<sigma>), refused := refused \<sigma> @ [b]\<rparr>)"
    if "\<not> rx_accepts (port \<sigma>)"
      "HAL_IS_BIT_SET (SR (port \<sigma>)) USART_SR_RXNE \<longrightarrow> \<not> HAL_IS_BIT_SET (CR3 (port \<sigma>)) USART_CR3_DMAR"
  proof -
    have "rx_live (port \<sigma>) \<longrightarrow> \<not> HAL_IS_BIT_SET (SR (port \<sigma>)) USART_SR_RXNE"
      using that(2) by (auto simp: rx_live_def)
    then show ?thesis
      using assms rx_byte_refused [OF p that(1)] h by (simp add: sys_inv_def conserved_def)
  qed
  show "sys_inv (\<sigma>\<lparr>port := hw_rx_idle (port \<sigma>)\<rparr>)"
    using assms rx_idle_inv [OF p] by (simp add: sys_inv_def conserved_def handed_ok_def hw_rx_idle_def)
qed

lemma st_has_PROCESSING_irq:
  "state_ok p \<Longrightarrow> st_has (st_full (USART_State p)) ST_PROCESSING = state_has p ST_PROCESSING"
  by (simp add: st_full_def)

lemma sys_inv_step_irq:
  assumes s: "sys_inv \<sigma>" and env: "stream_stops env"
  shows "sys_inv (\<sigma>\<lparr>port := usart_IRQHandler env (port \<sigma>)\<rparr>)"
    and "sys_inv (\<sigma>\<lparr>port := rx_dma_irq usart_user (port \<sigma>),
        fates := (if takes_over (port \<sigma>) \<and> user_pending (port \<sigma>) \<noteq> []
          then fates \<sigma> @ [(Overwritten, user_pending (port \<sigma>))] else fates \<sigma>)\<rparr>)"
proof -
  let ?p = "port \<sigma>"
  have p: "port_inv ?p" and ok: "state_ok ?p" and h: "handed_ok \<sigma>"
    using s by (simp_all add: sys_inv_def port_inv_def)
  show "sys_inv (\<sigma>\<lparr>port := usart_IRQHandler env ?p\<rparr>)"
  proof (cases "HAL_IS_BIT_SET (SR ?p) USART_SR_IDLE")
    case False
    then show ?thesis
      using s irq_usart_no_idle [OF p] by simp
  next
    case i: True
    show ?thesis
    proof (cases "state_has ?p ST_PROCESSED")
      case True
      note x = irq_idle_processed [OF p env i True]
      have "\<not> state_has ?p ST_PROCESSING" "user_pending ?p = []"
        using True ok by (auto simp: user_pending_def state_ok_def)
      moreover from this have "phase \<sigma> \<noteq> MainProcessing"
        using s by (simp add: sys_inv_def)
      moreover from this have "handed_ok (\<sigma>\<lparr>port := usart_IRQHandler env ?p\<rparr>)"
        by (intro handed_ok_exchange [OF h, of "usart_IRQHandler env ?p"]) (use x in auto)
      ultimately show ?thesis
        using s x by (simp add: sys_inv_def conserved_def)
    next
      case False
      note x = irq_idle_unprocessed [OF p env i False]
      have "handed_ok (\<sigma>\<lparr>port := usart_IRQHandler env ?p\<rparr>)"
        by (rule handed_ok_same [OF h, of "usart_IRQHandler env ?p"]) (use x in auto)
      then show ?thesis
        using s x by (simp add: sys_inv_def conserved_def)
    qed
  qed
  show "sys_inv (\<sigma>\<lparr>port := rx_dma_irq usart_user ?p,
      fates := (if takes_over ?p \<and> user_pending ?p \<noteq> [] then fates \<sigma> @ [(Overwritten, user_pending ?p)]
        else fates \<sigma>)\<rparr>)" (is "sys_inv ?s")
  proof (cases "rx_NDTR ?p \<noteq> 0 \<or> rx_stalled ?p")
    case True
    note x = irq_rx_dma_pending [OF p True]
    have "handed_ok ?s"
      by (rule handed_ok_same [OF h, of "rx_dma_irq usart_user ?p"]) (use x in auto)
    moreover have "\<not> takes_over ?p"
      using True by (auto simp: takes_over_def rx_stalled_def)
    ultimately show ?thesis
      using s x by (simp add: sys_inv_def conserved_def)
  next
    case False
    then have l: "rx_live ?p" "rx_NDTR ?p = 0"
      using p by (auto simp: port_inv_def)
    note x = irq_rx_dma_complete [OF p l]
    have "phase \<sigma> = MainProcessing \<longrightarrow> state_has (rx_dma_irq usart_user ?p) ST_REFILLED"
      using s x(5) by (simp add: sys_inv_def st_full_def)
    then have "handed_ok ?s"
      by (intro handed_ok_exchange [OF h, of "rx_dma_irq usart_user ?p"]) (use x in auto)
    moreover have "takes_over ?p"
      using l by (auto simp: takes_over_def rx_live_def)
    ultimately show ?thesis
      using s x st_has_PROCESSING_irq [OF ok] by (simp add: sys_inv_def conserved_def)
  qed
qed

lemma sys_inv_step_main:
  assumes s: "sys_inv \<sigma>" and env: "stream_stops env"
  shows "phase \<sigma> = MainIdle \<Longrightarrow> sys_inv (\<sigma>\<lparr>port := rsm_swap env (port \<sigma>), phase := MainSwapped\<rparr>)"
    and "phase \<sigma> = MainSwapped \<Longrightarrow> sys_inv (\<sigma>\<lparr>phase := MainIdle\<rparr>)"
    and "phase \<sigma> = MainSwapped \<Longrightarrow> receive_count (port \<sigma>) \<noteq> 0 \<Longrightarrow>
      sys_inv (\<sigma>\<lparr>port := rsm_enter (port \<sigma>), phase := MainProcessing, handed := buff (port \<sigma>),
        fates := fates \<sigma> @
          [(Delivered, read_bytes (mem (port \<sigma>)) (buff (port \<sigma>)) (unat (receive_count (port \<sigma>))))]\<rparr>)"
    and "phase \<sigma> = MainProcessing \<Longrightarrow> sys_inv (\<sigma>\<lparr>port := rsm_exit (port \<sigma>), phase := MainIdle\<rparr>)"
proof -
  let ?p = "port \<sigma>"
  have p: "port_inv ?p" and h: "handed_ok \<sigma>"
    using s by (simp_all add: sys_inv_def)
  show "sys_inv (\<sigma>\<lparr>port := rsm_swap env ?p, phase := MainSwapped\<rparr>)" (is "sys_inv ?s") if ph: "phase \<sigma> = MainIdle"
  proof (cases "state_has ?p ST_PROCESSED \<and> state_has ?p ST_DMA_DATA \<and> ucast (DMA_Receive_Size ?p) = rx_NDTR ?p")
    case True
    moreover from this have "user_pending ?p = []"
      by (simp add: user_pending_def)
    moreover have "handed_ok ?s"
      by (rule handed_ok_exchange [OF h, of "rsm_swap env ?p"]) (use rsm_swap_exchange [OF p env] True in auto)
    ultimately show ?thesis
      using s ph rsm_swap_exchange [OF p env] by (simp add: sys_inv_def conserved_def)
  next
    case False
    then show ?thesis
      using s ph rsm_swap_skip [OF False] by (simp add: sys_inv_def conserved_def handed_ok_def)
  qed
  show "phase \<sigma> = MainSwapped \<Longrightarrow> sys_inv (\<sigma>\<lparr>phase := MainIdle\<rparr>)"
    using s by (simp add: sys_inv_def conserved_def handed_ok_def)
  show "phase \<sigma> = MainSwapped \<Longrightarrow> receive_count ?p \<noteq> 0 \<Longrightarrow>
      sys_inv (\<sigma>\<lparr>port := rsm_enter ?p, phase := MainProcessing, handed := buff ?p,
        fates := fates \<sigma> @ [(Delivered, read_bytes (mem ?p) (buff ?p) (unat (receive_count ?p)))]\<rparr>)"
    using s rsm_enter_inv [OF p] by (simp add: sys_inv_def conserved_def handed_ok_def rsm_enter_def)
  show "phase \<sigma> = MainProcessing \<Longrightarrow> sys_inv (\<sigma>\<lparr>port := rsm_exit ?p, phase := MainIdle\<rparr>)"
    using s rsm_exit_inv [OF p] by (auto simp: sys_inv_def conserved_def handed_ok_def rsm_exit_def Let_def)
qed

lemma sys_inv_step:
  assumes "sys_inv \<sigma>" "stream_stops env" "sys_step env \<sigma> \<sigma>'"
  shows "sys_inv \<sigma>'"
  using assms(3) sys_inv_step_rx [OF assms(1)] sys_inv_step_irq [OF assms(1,2)]
    sys_inv_step_main [OF assms(1,2)]
  by cases auto

lemma sys_inv_reachable:
  assumes "sys_reachable env p0 \<sigma>" "port_ready p0" "stream_stops env"
  shows "sys_inv \<sigma>"
  using assms(1)
  by induction (auto intro: sys_inv_start [OF assms(2)] sys_inv_step assms(3))

section \<open>\<open>com_init\<close> starts reception\<close>

text \<open>A port before its first \<open>com_init\<close>: a zero-initialised global, the peripheral at its reset
  values, the buffers in memory.\<close>

definition com_zero :: "'f STUsart \<Rightarrow> bool" where
  "com_zero p \<longleftrightarrow> gState p = HAL_UART_STATE_RESET \<and> hdmatx p = None \<and> hdmarx p = None \<and>
     \<not> fault p \<and> SR p = 0xC0 \<and> CR1 p = 0 \<and> CR2 p = 0 \<and> CR3 p = 0 \<and>
     receive_count p = 0 \<and> DMA_Receive_Count p = 0 \<and> USART_State p = 0 \<and>
     regions_ok (buff1 p) (buff2 p)"

definition com_q :: "rcc_freq \<Rightarrow> uart_dma \<Rightarrow> uart_dma \<Rightarrow> 'f STUsart \<Rightarrow> 'f STUsart" where
  "com_q rcc ht hr p = p\<lparr>
     Init := (Init p)\<lparr>HwFlowCtl := UART_HWCONTROL_NONE, OverSampling := 0, StopBits := UART_STOPBITS_1,
       WordLength := UART_WORDLENGTH_8B, Mode := UART_MODE_TX_RX\<rparr>,
     Lock := HAL_UNLOCKED, hdmatx := Some ht, hdmarx := Some hr,
     CR2 := 0, CR3 := 0, BRR := brr_for rcc (Instance p) (BaudRate (Init p)),
     ErrorCode := HAL_UART_ERROR_NONE, gState := HAL_UART_STATE_READY,
     RxState := HAL_UART_STATE_READY, buff := buff1 p, DMA_Receive_Size := USART_RECEIVE_MAX,
     USART_State := st_set (USART_State p) ST_PROCESSED, DMA_buff := buff2 p,
     CR1 := SET_BIT (SET_BIT (Parity (Init p) OR UART_MODE_TX_RX) USART_CR1_UE) USART_CR1_IDLEIE\<rparr>"

lemma com_init_eq:
  assumes z: "com_zero p" and k: "port_of (Instance p) = Some k"
  shows "\<exists>ht hr. com_init env rcc p = restart_rx 0 (com_q rcc ht hr p) \<and>
    DInit ht = tx_config k \<and> DInit hr = rx_config k \<and>
    DInstance ht = (case tx_stream k of (c, n) \<Rightarrow> DMA_Stream c n) \<and>
    DInstance hr = (case rx_stream k of (c, n) \<Rightarrow> DMA_Stream c n) \<and>
    stream_setup hr \<and> DState hr = HAL_DMA_STATE_READY \<and> DLock hr = HAL_UNLOCKED \<and>
    tx_setup ht \<and> DState ht = HAL_DMA_STATE_READY \<and> DLock ht = HAL_UNLOCKED"
proof -
  let ?i = "(Init p)\<lparr>HwFlowCtl := UART_HWCONTROL_NONE, OverSampling := 0, StopBits := UART_STOPBITS_1,
       WordLength := UART_WORDLENGTH_8B, Mode := UART_MODE_TX_RX\<rparr>"
  let ?p = "p\<lparr>Init := ?i\<rparr>"
  obtain ht hr where m: "HAL_UART_MspInit env (?p\<lparr>Lock := HAL_UNLOCKED\<rparr>) =
      ?p\<lparr>Lock := HAL_UNLOCKED, hdmatx := Some ht, hdmarx := Some hr\<rparr>"
    and h: "DInstance ht = (case tx_stream k of (c, n) \<Rightarrow> DMA_Stream c n)" "DInit ht = tx_config k"
      "DInstance hr = (case rx_stream k of (c, n) \<Rightarrow> DMA_Stream c n)" "DInit hr = rx_config k"
      "StreamIndex hr \<in> {0, 6, 16, 22}" "S_CR hr = DMA_Init_CR (rx_config k) 0"
      "DState hr = HAL_DMA_STATE_READY" "DLock hr = HAL_UNLOCKED"
      "DErrorCode hr = HAL_DMA_ERROR_NONE" "ISR hr = 0"
      "DState ht = HAL_DMA_STATE_READY" "DLock ht = HAL_UNLOCKED"
      "StreamIndex ht \<in> {0, 6, 16, 22}" "S_CR ht = DMA_Init_CR (tx_config k) 0"
      "DErrorCode ht = HAL_DMA_ERROR_NONE" "ISR ht = 0"
    using HAL_UART_MspInit_ok [of "?p\<lparr>Lock := HAL_UNLOCKED\<rparr>" k env] z k
    by (auto simp: com_zero_def)
  have z': "gState ?p = HAL_UART_STATE_RESET" "CR1 ?p = 0" "CR2 ?p = 0" "CR3 ?p = 0"
    "HwFlowCtl (Init ?p) = 0" "OverSampling (Init ?p) = 0" "WordLength (Init ?p) = 0"
    "StopBits (Init ?p) = 0" "Mode (Init ?p) = UART_MODE_TX_RX"
    using z by (simp_all add: com_zero_def)
  have i: "HAL_UART_Init rcc (HAL_UART_MspInit env) (Some ?p) = (HAL_OK, Some (?p\<lparr>Lock := HAL_UNLOCKED,
      hdmatx := Some ht, hdmarx := Some hr, CR1 := SET_BIT (Parity (Init p) OR UART_MODE_TX_RX) USART_CR1_UE,
      CR2 := 0, CR3 := 0, BRR := brr_for rcc (Instance p) (BaudRate (Init p)),
      ErrorCode := HAL_UART_ERROR_NONE, gState := HAL_UART_STATE_READY, RxState := HAL_UART_STATE_READY\<rparr>))"
    using HAL_UART_Init_reset [where u = ?p and msp = "HAL_UART_MspInit env" and rcc = rcc, OF z'(1) m z'(2-9)]
    by simp
  have eq: "com_init env rcc p = restart_rx 0 (com_q rcc ht hr p)"
    unfolding com_init_def restart_rx_def com_q_def using i by (simp add: Let_def)
  have "\<not> HAL_IS_BIT_SET (S_CR hr) DMA_SxCR_CIRC" "\<not> HAL_IS_BIT_SET (S_CR hr) DMA_SxCR_DBM"
    using rx_config_CR [of k] is_set_union unfolding h(6) by blast+
  then have "stream_setup hr"
    using h by (simp add: stream_setup_def rx_config_def dma_config_def flag_simps)
  moreover have "\<not> HAL_IS_BIT_SET (S_CR ht) DMA_SxCR_CIRC" "\<not> HAL_IS_BIT_SET (S_CR ht) DMA_SxCR_DBM"
    using tx_config_CR [of k] is_set_union unfolding h(14) by blast+
  then have "tx_setup ht"
    using h by (simp add: tx_setup_def tx_config_def dma_config_def flag_simps)
  ultimately show ?thesis
    using eq h by blast
qed

lemma restart_rx_log: "tx_log (restart_rx k p) = tx_log p"
  by (simp add: restart_rx_def HAL_UART_Receive_DMA_def upd_rx_def uart_reg_defs Let_def
      split: option.split)

lemma restart_rx_tx:
  "hdmatx (restart_rx k p) = hdmatx p" "gState (restart_rx k p) = gState p"
  by (simp_all add: restart_rx_def HAL_UART_Receive_DMA_def upd_rx_def uart_reg_defs Let_def
      split: option.split)

lemma com_init_tx:
  assumes "com_zero p" "port_of (Instance p) = Some k"
  shows "\<exists>h. hdmatx (com_init env rcc p) = Some h \<and> DState h = HAL_DMA_STATE_READY \<and>
    dma_lock_ok h \<and> Direction (DInit h) = DMA_MEMORY_TO_PERIPH \<and>
    gState (com_init env rcc p) = HAL_UART_STATE_READY"
  using com_init_eq [OF assms, of env rcc]
  by (auto simp: restart_rx_tx com_q_def dma_lock_ok_def tx_config_def dma_config_def)

lemma com_init_ready:
  assumes z: "com_zero p" and k: "port_of (Instance p) = Some k"
    and par: "Parity (Init p) \<in> {0, 0x400, 0x600}"
  shows "port_ready (com_init env rcc p)" "buff (com_init env rcc p) = buff1 p"
    "DMA_buff (com_init env rcc p) = buff2 p" "rx_NDTR (com_init env rcc p) = 50"
proof -
  obtain ht hr where e: "com_init env rcc p = restart_rx 0 (com_q rcc ht hr p)"
    and h: "stream_setup hr" "DState hr = HAL_DMA_STATE_READY" "DLock hr = HAL_UNLOCKED"
    using com_init_eq [OF z k, of env rcc] by blast
  let ?q = "com_q rcc ht hr p"
  have q: "hdmarx ?q = Some hr" "RxState ?q = HAL_UART_STATE_READY" "Lock ?q = HAL_UNLOCKED"
    "DMA_Receive_Size ?q = 50" "DMA_buff ?q = buff2 p" "DMA_Receive_Count ?q = 0"
    "DMA_buff ?q + ucast (0 :: u8) \<noteq> 0" "buff ?q = buff1 p" "USART_State ?q = ST_PROCESSED"
    using z by (simp_all add: com_q_def com_zero_def regions_ok_def st_set_def)
  have r: "com_init env rcc p = rx_restarted (buff2 p) hr ?q"
    using restart_rx_ok [of ?q hr 0] q unfolding e by simp
  have live: "rx_live (rx_restarted (buff2 p) hr ?q)" "rx_NDTR (rx_restarted (buff2 p) hr ?q) = 50"
    using rx_restarted_live [OF h, of ?q "buff2 p"] q by simp_all
  have "quiet_tx ?q"
    using par by (auto simp: quiet_tx_def com_q_def HAL_IS_BIT_SET_def SET_BIT_def)
  moreover have "buffers_ok ?q" "\<not> fault ?q" "port_of (Instance ?q) \<noteq> None"
    using z k by (auto simp: buffers_ok_def com_q_def com_zero_def)
  moreover have "state_ok (rx_restarted (buff2 p) hr ?q)"
    using z q(9) by (simp add: state_ok_def com_q_def com_zero_def st_has_def)
  ultimately have "port_inv (com_init env rcc p)"
    unfolding r port_inv_def using live(1) q by simp
  then show "port_ready (com_init env rcc p)"
    unfolding port_ready_def using live(2) q by (simp add: r dma_fill_def)
  show "buff (com_init env rcc p) = buff1 p" "DMA_buff (com_init env rcc p) = buff2 p"
    "rx_NDTR (com_init env rcc p) = 50"
    unfolding r using live(2) q by simp_all
qed

end
