(* ===== verification/UsartProps.thy ===== *)
theory UsartProps
  imports UsartSystem
begin

text \<open>
  What holds of reception as a whole: conservation of the byte stream, memory safety, delivery of a
  message from the line to the user function, refinement of an abstract double buffer, and two
  behaviours that a user of the layer has to know: a message of exactly 50 bytes blocks
  the one after it, and the exchange of the buffers in the main loop can alias them.
\<close>

section \<open>Lemmas on sequences of bytes and on idle ports\<close>

lemma live_accepts:
  assumes "port_inv p" "rx_live p" "dma_fill p < 50"
  shows "rx_accepts p"
proof -
  have "rx_NDTR p \<noteq> 0"
    using assms(1,3) by (auto simp: dma_fill_def port_inv_def)
  then show ?thesis
    using assms(2) by (auto simp: rx_live_def rx_accepts_def stream_active_def rx_NDTR_def get_rx_def)
qed

lemma length_dma_pending [simp]: "length (dma_pending p) = dma_fill p"
  by (simp add: dma_pending_def)

lemma live_not_stalled: "rx_live p \<Longrightarrow> \<not> rx_stalled p"
  by (auto simp: rx_live_def rx_stalled_def)

lemma hw_rx_byte_frame:
  "receive_count (hw_rx_byte b p) = receive_count p" "func (hw_rx_byte b p) = func p"
  "DMA_Receive_Count (hw_rx_byte b p) = DMA_Receive_Count p"
  "DMA_Receive_Size (hw_rx_byte b p) = DMA_Receive_Size p"
  by (simp_all add: hw_rx_byte_def)

lemma rx_byte_live: "rx_accepts p \<Longrightarrow> port_inv p \<Longrightarrow> rx_live (hw_rx_byte b p)"
  using rx_byte_accepted(1) [of p b] rx_accepts_live(1) [of p] hw_rx_byte_frame(4) [of b p]
  by (auto simp: port_inv_def rx_stalled_def rx_live_def)

lemma feed_all:
  "port_inv p \<Longrightarrow> rx_live p \<Longrightarrow> dma_fill p + length msg \<le> 50 \<Longrightarrow>
   (let q = fold hw_rx_byte msg p in
     port_inv q \<and> rx_live q \<and> dma_pending q = dma_pending p @ msg \<and>
     user_pending q = user_pending p \<and> USART_State q = USART_State p \<and>
     receive_count q = receive_count p \<and> func q = func p)"
proof (induction msg arbitrary: p)
  case Nil
  then show ?case by simp
next
  case (Cons b msg)
  have a: "rx_accepts p"
    using Cons.prems(3) by (intro live_accepts Cons.prems(1,2)) simp
  note r = rx_byte_accepted [OF Cons.prems(1) a, of b]
  have "dma_fill (hw_rx_byte b p) = Suc (dma_fill p)"
    using arg_cong [OF r(2), of length] by simp
  then have "dma_fill (hw_rx_byte b p) + length msg \<le> 50"
    using Cons.prems(3) by simp
  from Cons.IH [OF r(1) rx_byte_live [OF a Cons.prems(1)] this] show ?case
    using r by (simp add: hw_rx_byte_frame Let_def)
qed

lemma feed:
  assumes "port_inv p" "rx_live p" "dma_fill p + length msg \<le> 50"
  shows "port_inv (fold hw_rx_byte msg p)" "rx_live (fold hw_rx_byte msg p)"
    "dma_pending (fold hw_rx_byte msg p) = dma_pending p @ msg"
    "user_pending (fold hw_rx_byte msg p) = user_pending p"
    "USART_State (fold hw_rx_byte msg p) = USART_State p"
    "receive_count (fold hw_rx_byte msg p) = receive_count p"
    "func (fold hw_rx_byte msg p) = func p"
  using feed_all [OF assms] by (simp_all add: Let_def)

lemma hw_rx_idle_fields [simp]:
  "receive_count (hw_rx_idle p) = receive_count p" "func (hw_rx_idle p) = func p"
  "USART_State (hw_rx_idle p) = USART_State p" "HAL_IS_BIT_SET (SR (hw_rx_idle p)) USART_SR_IDLE"
  by (simp_all add: hw_rx_idle_def flag_simps)

lemma user_pending_count:
  "user_pending p \<noteq> [] \<Longrightarrow> receive_count p \<noteq> 0"
  "user_pending p \<noteq> [] \<Longrightarrow> user_pending p = read_bytes (mem p) (buff p) (unat (receive_count p))"
  by (auto simp: user_pending_def split: if_splits)

lemma port_ready_live: "port_ready p \<Longrightarrow> rx_live p"
  by (auto simp: port_ready_def port_inv_def rx_stalled_def dma_fill_def)

lemma st_values:
  "st_has ST_PROCESSED ST_PROCESSED" "\<not> st_has ST_PROCESSED ST_PROCESSING"
  "\<not> st_has ST_PROCESSED ST_DMA_DATA" "\<not> st_has ST_PROCESSED ST_REFILLED" "\<not> st_has 0 m"
  "st_clear (st_clear ST_PROCESSED ST_PROCESSED) ST_DMA_DATA = 0" "st_full ST_PROCESSED = 0"
  "st_set 0 ST_PROCESSING = ST_PROCESSING" "st_set ST_PROCESSING ST_PROCESSED = 3"
  "st_clear 3 ST_PROCESSING = ST_PROCESSED" "\<not> st_has ST_PROCESSING ST_REFILLED"
  "st_set 0 ST_DMA_DATA = ST_DMA_DATA"
  "\<not> st_has ST_DMA_DATA ST_PROCESSED" "\<not> st_has ST_DMA_DATA ST_PROCESSING"
  "st_set ST_DMA_DATA ST_DMA_DATA = ST_DMA_DATA"
  by (simp_all add: st_has_def st_clear_def st_set_def st_full_def)

text \<open>A port with a message in the user buffer, about to be served by \<open>receive_str_manage\<close>: the
  user function is given that message, and the port is ready for the next one when it returns.\<close>

lemma serve_user:
  assumes p: "port_inv p" "USART_State p = 0" "user_pending p \<noteq> []" "func p = Some f"
    and run: "\<And>q. snd (run f (buff p) (receive_count p) store (ucast count) q) = q"
  shows "\<exists>p'. receive_str_manage env run p store count =
      (ucast (fst (run f (buff p) (receive_count p) store (ucast count) (rsm_enter p))), p') \<and>
      port_inv p' \<and> USART_State p' = ST_PROCESSED \<and> dma_pending p' = dma_pending p \<and>
      func p' = Some f \<and> mem (rsm_enter p) = mem p \<and>
      user_pending p = read_bytes (mem p) (buff p) (unat (receive_count p))"
proof -
  have rc: "receive_count p \<noteq> 0" "user_pending p = read_bytes (mem p) (buff p) (unat (receive_count p))"
    using user_pending_count [OF p(3)] by simp_all
  have s: "rsm_swap env p = p"
    using p(2) by (intro rsm_swap_skip) (simp add: st_values)
  have np: "\<not> state_has p ST_PROCESSING"
    using p(2) by (simp add: st_values)
  note en = rsm_enter_inv [OF p(1) rc(1) np]
  note ex = rsm_exit_inv [OF en(1,5)]
  have e: "func (rsm_enter p) = Some f" "buff (rsm_enter p) = buff p"
    "receive_count (rsm_enter p) = receive_count p" "mem (rsm_enter p) = mem p"
    using p(4) by (simp_all add: rsm_enter_def)
  have "receive_str_manage env run p store count =
    (ucast (fst (run f (buff p) (receive_count p) store (ucast count) (rsm_enter p))), rsm_exit (rsm_enter p))"
    using rc e s run by (simp add: receive_str_manage_def Let_def case_prod_beta)
  moreover have "USART_State (rsm_exit (rsm_enter p)) = ST_PROCESSED"
    using p(2) by (simp add: rsm_exit_def rsm_enter_def st_values Let_def)
  moreover have "func (rsm_exit (rsm_enter p)) = Some f"
    using p(4) by (simp add: rsm_exit_def rsm_enter_def Let_def)
  ultimately show ?thesis
    using ex en rc e(4) by auto
qed

section \<open>A message, from the line to the user function\<close>

text \<open>What a port sees of a message shorter than the buffer: its bytes, then the idle line.\<close>

definition receive_message :: "hw_env \<Rightarrow> u8 list \<Rightarrow> 'f STUsart \<Rightarrow> 'f STUsart" where
  "receive_message env msg p = usart_IRQHandler env (hw_rx_idle (fold hw_rx_byte msg p))"

lemma receive_message_pending:
  assumes p: "port_ready p" and env: "stream_stops env" and l: "length msg \<le> 50"
  shows "port_inv (receive_message env msg p)" "user_pending (receive_message env msg p) = msg"
    "dma_pending (receive_message env msg p) = []" "USART_State (receive_message env msg p) = 0"
proof -
  let ?q = "hw_rx_idle (fold hw_rx_byte msg p)"
  have pi: "port_inv p" "USART_State p = ST_PROCESSED" "dma_fill p = 0" "rx_live p"
    using p port_ready_live [OF p] by (simp_all add: port_ready_def)
  then have f: "port_inv (fold hw_rx_byte msg p)" "dma_pending (fold hw_rx_byte msg p) = msg"
    "USART_State (fold hw_rx_byte msg p) = ST_PROCESSED"
    using feed [OF pi(1,4), of msg] l by (simp_all add: dma_pending_def)
  note i = rx_idle_inv [OF f(1)]
  have st: "state_has ?q ST_PROCESSED"
    using f(3) by (simp add: st_values)
  have id: "HAL_IS_BIT_SET (SR ?q) USART_SR_IDLE"
    by simp
  note x = irq_idle_processed [OF i(1) env id st]
  show "port_inv (receive_message env msg p)" "user_pending (receive_message env msg p) = msg"
    "dma_pending (receive_message env msg p) = []" "USART_State (receive_message env msg p) = 0"
    unfolding receive_message_def using x i(2) f(2,3) by (simp_all add: st_values)
qed

lemma idle_swap_func: "func (snd (idle_swap p)) = func p"
  by (simp add: idle_swap_def swap_buffers_def Let_def)

lemma stop_func: "func (snd (HAL_UART_DMAStop env p)) = func p"
  by (simp add: HAL_UART_DMAStop_def UART_EndTxTransfer_def UART_EndRxTransfer_def abort_tx_def
      abort_rx_def upd_tx_def upd_rx_def Let_def split: option.split)

lemma receive_message_func:
  assumes "port_ready p" "length msg \<le> 50"
  shows "func (receive_message env msg p) = func p"
proof -
  have pi: "port_inv p" "rx_live p" "dma_fill p = 0"
    using assms(1) port_ready_live by (auto simp: port_ready_def)
  then have f: "port_inv (hw_rx_idle (fold hw_rx_byte msg p))" "func (fold hw_rx_byte msg p) = func p"
    using feed [of p msg] rx_idle_inv(1) assms(2) by auto
  then have "HAL_UART_IRQHandler usart_user (hw_rx_idle (fold hw_rx_byte msg p)) =
      hw_rx_idle (fold hw_rx_byte msg p)"
    using HAL_UART_IRQHandler_quiet by (auto simp: port_inv_def)
  then show ?thesis
    using f(2) by (simp add: receive_message_def usart_IRQHandler_def Let_def case_prod_beta
        idle_swap_func restart_rx_func stop_func uart_reg_defs)
qed

text \<open>
  C2. End to end: a message of 1 to 49 bytes that arrives at a port between two
  messages, followed by the idle line and its interrupt, is handed to the user function by the
  next call of \<open>receive_str_manage\<close>, whole and unchanged; the call returns what that
  function returns (as a byte), and the port is ready for the next message.
\<close>

theorem message_delivered:
  assumes "port_ready p" "func p = Some f" "stream_stops env" "msg \<noteq> []" "length msg < 50"
    and "\<forall>b n q. snd (run f b n store (ucast count) q) = q"
  shows "\<exists>b n q p'. receive_str_manage env run (receive_message env msg p) store count =
      (ucast (fst (run f b n store (ucast count) q)), p') \<and>
      read_bytes (mem q) b (unat n) = msg \<and> port_ready p' \<and> func p' = Some f"
proof -
  let ?q = "receive_message env msg p"
  note r = receive_message_pending [OF assms(1,3)]
  have "port_inv ?q" "USART_State ?q = 0" "user_pending ?q \<noteq> []" "func ?q = Some f"
    using r [of msg] receive_message_func [OF assms(1)] assms(2,4,5) by simp_all
  from serve_user [OF this, of run store count env] obtain p' where
    "receive_str_manage env run ?q store count =
      (ucast (fst (run f (buff ?q) (receive_count ?q) store (ucast count) (rsm_enter ?q))), p')"
    "port_inv p'" "USART_State p' = ST_PROCESSED" "dma_pending p' = dma_pending ?q" "func p' = Some f"
    "mem (rsm_enter ?q) = mem ?q"
    "user_pending ?q = read_bytes (mem ?q) (buff ?q) (unat (receive_count ?q))"
    using assms(6) by auto
  moreover from this have "port_ready p'"
    using r(3) [of msg] assms(5) length_dma_pending [of p'] by (simp add: port_ready_def)
  ultimately show ?thesis
    using r(2) [of msg] assms(5) by (metis less_imp_le)
qed

section \<open>A message that fills the buffer exactly\<close>

definition starved :: "'f STUsart \<Rightarrow> bool" where
  "starved p \<longleftrightarrow> port_inv p \<and> USART_State p \<in> {0, ST_DMA_DATA} \<and> receive_count p = 0"

lemma starved_state:
  "starved p \<Longrightarrow> \<not> state_has p ST_PROCESSED" "starved p \<Longrightarrow> \<not> state_has p ST_PROCESSING"
  by (auto simp: starved_def st_values)

lemma starved_call: "starved p \<Longrightarrow> receive_str_manage env run p store count = (0, p)"
  using rsm_swap_skip [of p env] starved_state [of p]
  by (simp add: receive_str_manage_def starved_def)

lemma starved_no_user: "starved p \<Longrightarrow> user_pending p = []"
  by (simp add: user_pending_def starved_def)

lemma no_user_count:
  assumes "user_pending p = []" "\<not> state_has p ST_PROCESSED" "\<not> state_has p ST_PROCESSING"
  shows "receive_count p = 0"
proof -
  have "unat (receive_count p) = 0"
    using assms by (simp add: user_pending_def) (metis length_read_bytes list.size(3))
  then show ?thesis
    by (simp add: unat_eq_zero)
qed

lemma starved_idle:
  assumes s: "starved p" and env: "stream_stops env"
  shows "starved (usart_IRQHandler env (hw_rx_idle p))"
    "dma_pending (usart_IRQHandler env (hw_rx_idle p)) = dma_pending p"
proof -
  let ?i = "hw_rx_idle p" and ?q = "usart_IRQHandler env (hw_rx_idle p)"
  have p: "port_inv p"
    using s by (simp add: starved_def)
  note i = rx_idle_inv [OF p]
  have id: "HAL_IS_BIT_SET (SR ?i) USART_SR_IDLE" and np: "\<not> state_has ?i ST_PROCESSED"
    using starved_state(1) [OF s] by simp_all
  note x = irq_idle_unprocessed [OF i(1) env id np]
  have st: "USART_State ?q = ST_DMA_DATA"
    using s x(4) by (auto simp: starved_def st_values)
  have "user_pending ?q = []"
    using x(3) i(3) starved_no_user [OF s] by simp
  then have "receive_count ?q = 0"
    by (rule no_user_count) (simp_all add: st st_values)
  then show "starved ?q"
    using x(1) st by (simp add: starved_def)
  show "dma_pending ?q = dma_pending p"
    using x(2) i(2) by simp
qed

lemma starved_live: "starved p \<Longrightarrow> dma_fill p < 50 \<Longrightarrow> rx_live p"
  by (auto simp: starved_def port_inv_def rx_stalled_def dma_fill_def rx_NDTR_def get_rx_def)

lemma starved_message:
  assumes s: "starved p" and env: "stream_stops env" and l: "dma_fill p + length msg < 50"
  shows "starved (receive_message env msg p)"
    "dma_pending (receive_message env msg p) = dma_pending p @ msg"
proof -
  have live: "rx_live p"
    using starved_live [OF s] l by simp
  have p: "port_inv p"
    using s by (simp add: starved_def)
  note f = feed [OF p live less_imp_le [OF l]]
  have "starved (fold hw_rx_byte msg p)"
    using s f by (simp add: starved_def)
  from starved_idle [OF this env] f(3)
  show "starved (receive_message env msg p)"
    "dma_pending (receive_message env msg p) = dma_pending p @ msg"
    by (simp_all add: receive_message_def)
qed

lemma idle_when_ready_starves:
  assumes r: "port_ready p" and env: "stream_stops env"
  shows "starved (usart_IRQHandler env (hw_rx_idle p))"
    "dma_pending (usart_IRQHandler env (hw_rx_idle p)) = []"
proof -
  have x: "port_inv (receive_message env [] p)" "user_pending (receive_message env [] p) = []"
    "dma_pending (receive_message env [] p) = []" "USART_State (receive_message env [] p) = 0"
    using receive_message_pending [OF r env, of "[]"] by simp_all
  have e: "receive_message env [] p = usart_IRQHandler env (hw_rx_idle p)"
    by (simp add: receive_message_def)
  have "receive_count (receive_message env [] p) = 0"
    by (rule no_user_count [OF x(2)]) (simp_all add: x(4) st_values)
  then show "starved (usart_IRQHandler env (hw_rx_idle p))"
    "dma_pending (usart_IRQHandler env (hw_rx_idle p)) = []"
    using x unfolding e by (simp_all add: starved_def)
qed

text \<open>The full buffer: its interrupt hands it to the user.\<close>

lemma full_message:
  assumes r: "port_ready p" and l: "length msg = 50"
  defines "q \<equiv> rx_dma_irq usart_user (fold hw_rx_byte msg p)"
  shows "port_inv q" "user_pending q = msg" "dma_pending q = []" "USART_State q = 0" "func q = func p"
proof -
  have pi: "port_inv p" "USART_State p = ST_PROCESSED" "dma_fill p = 0" "rx_live p"
    using r port_ready_live [OF r] by (simp_all add: port_ready_def)
  note f = feed [OF pi(1,4), of msg]
  let ?f = "fold hw_rx_byte msg p"
  have d: "port_inv ?f" "rx_live ?f" "dma_pending ?f = msg" "USART_State ?f = ST_PROCESSED"
    using f pi l by (simp_all add: dma_pending_def)
  have "dma_fill ?f = 50"
    using arg_cong [OF d(3), of length] l by simp
  then have "unat (rx_NDTR ?f) = 0"
    using fill_count(3) [OF d(1)] d(1) by (auto simp: dma_fill_def port_inv_def)
  then have n: "rx_NDTR ?f = 0"
    by (simp add: unat_eq_zero)
  show "port_inv q" "user_pending q = msg" "dma_pending q = []" "USART_State q = 0" "func q = func p"
    unfolding q_def using irq_rx_dma_complete [OF d(1,2) n] d(3,4) f(7) l pi(3)
    by (simp_all add: st_values)
qed

text \<open>
  C35. A message of exactly 50 bytes is delivered; but when \<open>receive_str_manage\<close> serves it
  between the interrupt of the full buffer and the idle line that ends it, one character time later, then the interrupt of
  that idle line finds no new byte and marks an empty user buffer as unprocessed: the message that follows, if it is shorter
  than the buffer, stays in the DMA buffer however often \<open>receive_str_manage\<close> is called.
\<close>

theorem full_message_starves:
  assumes "port_ready p" "func p = Some f" "stream_stops env" "length msg = 50" "length msg2 < 50"
    and "\<forall>b n q. snd (run f b n store (ucast count) q) = q"
  shows "\<exists>b n q p'. receive_str_manage env run (rx_dma_irq usart_user (fold hw_rx_byte msg p)) store count =
      (ucast (fst (run f b n store (ucast count) q)), p') \<and> read_bytes (mem q) b (unat n) = msg \<and>
      (let p2 = receive_message env msg2 (usart_IRQHandler env (hw_rx_idle p'))
       in dma_pending p2 = msg2 \<and> (\<forall>run store count. receive_str_manage env run p2 store count = (0, p2)))"
proof -
  let ?q = "rx_dma_irq usart_user (fold hw_rx_byte msg p)"
  note r = full_message [OF assms(1,4)]
  have u: "user_pending ?q \<noteq> []"
    using r(2) assms(4) by auto
  have fn: "func ?q = Some f"
    using r(5) assms(2) by simp
  from serve_user [OF r(1,4) u fn, of run store count env] obtain p' where
    c: "receive_str_manage env run ?q store count =
      (ucast (fst (run f (buff ?q) (receive_count ?q) store (ucast count) (rsm_enter ?q))), p')"
    and p': "port_inv p'" "USART_State p' = ST_PROCESSED" "dma_pending p' = dma_pending ?q"
    and m: "mem (rsm_enter ?q) = mem ?q"
      "user_pending ?q = read_bytes (mem ?q) (buff ?q) (unat (receive_count ?q))"
    using assms(6) by auto
  have "port_ready p'"
    using p' r(3) length_dma_pending [of p'] by (simp add: port_ready_def)
  note s = idle_when_ready_starves [OF this assms(3)]
  let ?p1 = "usart_IRQHandler env (hw_rx_idle p')"
  have "dma_fill ?p1 = 0"
    using arg_cong [OF s(2), of length] by simp
  then have s2: "starved (receive_message env msg2 ?p1)" "dma_pending (receive_message env msg2 ?p1) = msg2"
    using starved_message [OF s(1) assms(3), of msg2] assms(5) s(2) by simp_all
  show ?thesis
    using c m r(2) s2 starved_call [OF s2(1)] by (metis (no_types, lifting))
qed

section \<open>A concrete port\<close>

definition port_example :: "nat STUsart" where
  "port_example = \<lparr>Instance = USART2, SR = 0xC0, DR = 0, BRR = 0, CR1 = 0, CR2 = 0, CR3 = 0,
     tx_log = [], mem = (\<lambda>_. 0), fault = False,
     Init = \<lparr>BaudRate = 115200, WordLength = 0, StopBits = 0, Parity = 0, Mode = 0, HwFlowCtl = 0,
       OverSampling = 0\<rparr>,
     pTxBuffPtr = 0, TxXferSize = 0, TxXferCount = 0, pRxBuffPtr = 0, RxXferSize = 0,
     RxXferCount = 0, hdmatx = None, hdmarx = None, Lock = HAL_UNLOCKED, gState = 0, RxState = 0,
     ErrorCode = 0, receive_count = 0, buff = 0, func = Some 7, buff1 = 0x20000010, DMA_buff = 0,
     buff2 = 0x20000044, DMA_Receive_Count = 0, DMA_Receive_Size = 0, USART_State = 0\<rparr>"

definition rcc_example :: rcc_freq where
  "rcc_example = \<lparr>PCLK1Freq = 42000000, PCLK2Freq = 84000000\<rparr>"

lemma port_example_zero: "com_zero port_example" "port_of (Instance port_example) = Some usart2"
    "Parity (Init port_example) \<in> {0, 0x400, 0x600}"
  by (simp_all add: com_zero_def port_example_def regions_ok_def port_of_def)

lemma env_example_stops: "stream_stops env_example"
  by (rule stream_stops_immediate) (simp add: env_example_def)

lemma com_init_func: "com_zero p \<Longrightarrow> port_of (Instance p) = Some k \<Longrightarrow> func (com_init env rcc p) = func p"
  using com_init_eq [of p k env rcc] by (auto simp: restart_rx_func com_q_def)

definition port_started :: "nat STUsart" where
  "port_started = com_init env_example rcc_example port_example"

lemma port_started_ready: "port_ready port_started" "func port_started = Some 7"
  using com_init_ready(1) [OF port_example_zero] com_init_func [OF port_example_zero(1,2)]
  by (simp_all add: port_started_def port_example_def)

text \<open>The byte 65 is received, the line goes idle, the interrupt is taken, the main loop serves it.\<close>

lemma sys_example:
  "\<exists>\<sigma>. sys_reachable env_example port_started \<sigma> \<and> fates \<sigma> = [(Delivered, [65])] \<and> phase \<sigma> = MainProcessing \<and>
     \<not> state_has (port \<sigma>) ST_REFILLED \<and> rx_accepts (port \<sigma>)"
proof -
  let ?p = port_started and ?e = env_example
  have pi: "port_inv ?p" "USART_State ?p = ST_PROCESSED" "dma_fill ?p = 0" "rx_live ?p"
    using port_started_ready port_ready_live by (simp_all add: port_ready_def)
  let ?s0 = "\<lparr>port = ?p, phase = MainIdle, received = [], refused = [], fates = [], handed = buff ?p\<rparr>"
  let ?p1 = "hw_rx_byte 65 ?p"
  let ?s1 = "\<lparr>port = ?p1, phase = MainIdle, received = [65], refused = [], fates = [], handed = buff ?p\<rparr>"
  let ?p2 = "hw_rx_idle ?p1"
  let ?s2 = "\<lparr>port = ?p2, phase = MainIdle, received = [65], refused = [], fates = [], handed = buff ?p\<rparr>"
  let ?p3 = "usart_IRQHandler ?e ?p2"
  let ?s3 = "\<lparr>port = ?p3, phase = MainIdle, received = [65], refused = [], fates = [], handed = buff ?p\<rparr>"
  let ?s4 = "\<lparr>port = ?p3, phase = MainSwapped, received = [65], refused = [], fates = [], handed = buff ?p\<rparr>"
  let ?p5 = "rsm_enter ?p3"
  let ?s5 = "\<lparr>port = ?p5, phase = MainProcessing, received = [65], refused = [],
    fates = [(Delivered, [65])], handed = buff ?p3\<rparr>"
  have a: "rx_accepts ?p"
    by (rule live_accepts) (simp_all add: pi)
  have m: "?p3 = receive_message ?e [65] ?p"
    by (simp add: receive_message_def)
  have r: "port_inv ?p3" "user_pending ?p3 = [65]" "dma_pending ?p3 = []" "USART_State ?p3 = 0"
    unfolding m using receive_message_pending [OF port_started_ready(1) env_example_stops, of "[65]"]
    by simp_all
  have rc: "receive_count ?p3 \<noteq> 0"
    "read_bytes (mem ?p3) (buff ?p3) (unat (receive_count ?p3)) = [65]"
    using user_pending_count [of ?p3] r(2) by simp_all
  have sw: "rsm_swap ?e ?p3 = ?p3"
    using r(4) by (intro rsm_swap_skip) (simp add: st_values)
  have "sys_reachable ?e ?p ?s0"
    using sys_reachable.start [of ?e ?p] by (simp add: sys_start_def)
  then have "sys_reachable ?e ?p ?s1"
    using sys_step.rx_byte [of ?s0 ?e 65] a by (auto intro: sys_reachable.step)
  then have "sys_reachable ?e ?p ?s2"
    using sys_step.rx_idle [of ?e ?s1] by (auto intro: sys_reachable.step)
  then have "sys_reachable ?e ?p ?s3"
    using sys_step.irq_usart [of ?e ?s2] by (auto intro: sys_reachable.step)
  then have "sys_reachable ?e ?p ?s4"
    using sys_step.main_swap [of ?s3 ?e] sw by (auto intro: sys_reachable.step)
  then have "sys_reachable ?e ?p ?s5"
    using sys_step.main_enter [of ?s4 ?e] rc by (auto intro: sys_reachable.step)
  moreover have "rx_accepts ?p5"
  proof -
    have e: "port_inv ?p5" "dma_pending ?p5 = []"
      using rsm_enter_inv [OF r(1) rc(1)] r(3,4) by (simp_all add: st_values)
    have "dma_fill ?p5 = 0"
      using arg_cong [OF e(2), of length] by simp
    moreover from this have "rx_live ?p5"
      using e(1) by (auto simp: port_inv_def rx_stalled_def dma_fill_def)
    ultimately show ?thesis
      by (intro live_accepts e(1)) simp_all
  qed
  moreover have "\<not> state_has ?p5 ST_REFILLED"
    using r(4) by (simp add: rsm_enter_def st_values)
  ultimately show ?thesis
    by (intro exI [of _ ?s5]) simp
qed

section \<open>The properties of reception\<close>

text \<open>The calls of the user function.\<close>

definition deliveries :: "'f sys \<Rightarrow> u8 list list" where
  "deliveries \<sigma> = map snd (filter (\<lambda>(f, bs). f = Delivered) (fates \<sigma>))"

lemma deliveries_all:
  "Overwritten \<notin> fst ` set (fates \<sigma>) \<Longrightarrow> deliveries \<sigma> = map snd (fates \<sigma>)"
proof -
  assume a: "Overwritten \<notin> fst ` set (fates \<sigma>)"
  have "filter (\<lambda>(f, bs). f = Delivered) (fates \<sigma>) = fates \<sigma>"
  proof (rule filter_True, rule ballI)
    fix x assume "x \<in> set (fates \<sigma>)"
    then have "fst x \<noteq> Overwritten"
      using a by (metis imageI)
    then show "case x of (f, bs) \<Rightarrow> f = Delivered"
      by (cases x, cases "fst x") simp_all
  qed
  then show ?thesis
    by (simp add: deliveries_def)
qed

text \<open>
  C1. Every byte the DMA has stored is accounted for, exactly once and in order, on a port that has been started with
  \<open>com_init\<close>, does not transmit, and sees no overrun or other error of the line: for every sequence of bytes taken or
  refused by the receiver, idle lines, its two interrupts and the parts of \<open>receive_str_manage\<close>, each part
  uninterrupted, the bytes stored are the concatenation of what the user function was handed and what a full buffer replaced
  before that, in the order of these events, followed by the bytes waiting in the user buffer and those in the DMA buffer. While no
  full buffer has replaced an unserved one, they are what the user function was handed, followed by what waits: none is lost,
  invented, duplicated or reordered.
\<close>

theorem stream_conservation:
  assumes "com_zero p0" "port_of (Instance p0) = Some k" "Parity (Init p0) \<in> {0, 0x400, 0x600}"
    and "stream_stops env" "sys_reachable env (com_init env0 rcc p0) \<sigma>"
  shows "received \<sigma> = concat (map snd (fates \<sigma>)) @ user_pending (port \<sigma>) @ dma_pending (port \<sigma>) \<and>
    (Overwritten \<notin> fst ` set (fates \<sigma>) \<longrightarrow>
      received \<sigma> = concat (deliveries \<sigma>) @ user_pending (port \<sigma>) @ dma_pending (port \<sigma>))"
  using sys_inv_reachable [OF assms(5) com_init_ready(1) [OF assms(1-3)] assms(4)] deliveries_all [of \<sigma>]
  by (simp add: sys_inv_def conserved_def)

theorem stream_conservation_witness:
  "\<exists>\<sigma>. sys_reachable env_example port_started \<sigma> \<and> deliveries \<sigma> = [[65]] \<and>
     received \<sigma> = [65] @ user_pending (port \<sigma>) @ dma_pending (port \<sigma>)"
proof -
  obtain \<sigma> where s: "sys_reachable env_example port_started \<sigma>" "fates \<sigma> = [(Delivered, [65])]"
    using sys_example by blast
  then show ?thesis
    using stream_conservation [OF port_example_zero env_example_stops s(1) [unfolded port_started_def]]
    by (auto simp: deliveries_def)
qed

text \<open>
  C4. Memory safety of reception: in every state that a port reaches by the steps of \<open>sys_step\<close>, the user buffer
  and the DMA buffer are the two buffers of the port, apart from each other; the next byte
  the DMA stores goes into the 50 bytes of the DMA buffer and not into those of the user buffer; and while the user function
  runs, it does not go into the buffer that function was given either, as long as no full buffer has been
  taken over since the call (flag 4 of \<open>USART_State\<close>): only that exchanges the buffers under the user function.
\<close>

theorem dma_writes_in_buffer:
  assumes "com_zero p0" "port_of (Instance p0) = Some k" "Parity (Init p0) \<in> {0, 0x400, 0x600}"
    and "stream_stops env" "sys_reachable env (com_init env0 rcc p0) \<sigma>" "rx_accepts (port \<sigma>)"
  shows "(buff (port \<sigma>), DMA_buff (port \<sigma>)) \<in>
      {(buff1 (port \<sigma>), buff2 (port \<sigma>)), (buff2 (port \<sigma>), buff1 (port \<sigma>))} \<and>
    regions_ok (buff1 (port \<sigma>)) (buff2 (port \<sigma>)) \<and>
    (\<exists>i < 50. unat (rx_addr (port \<sigma>)) = unat (DMA_buff (port \<sigma>)) + i) \<and>
    (\<forall>i < 50. unat (rx_addr (port \<sigma>)) \<noteq> unat (buff (port \<sigma>)) + i) \<and>
    (phase \<sigma> = MainProcessing \<longrightarrow> \<not> state_has (port \<sigma>) ST_REFILLED \<longrightarrow>
      (\<forall>i < 50. unat (rx_addr (port \<sigma>)) \<noteq> unat (handed \<sigma>) + i))"
proof -
  let ?p = "port \<sigma>"
  have p: "port_inv ?p" and h: "handed_ok \<sigma>"
    using sys_inv_reachable [OF assms(5) com_init_ready(1) [OF assms(1-3)] assms(4)]
    by (simp_all add: sys_inv_def)
  note a = rx_accepts_live [OF p assms(6)]
  have b: "buffers_ok ?p"
    using p by (simp add: port_inv_def)
  note r = buffers_ok_regions [OF b]
  have d: "unat (rx_addr ?p) = unat (DMA_buff ?p) + dma_fill ?p"
    using regions_addr(1) [OF r a(4)] a(3) by simp
  have u: "\<forall>i < 50. unat (rx_addr ?p) \<noteq> unat (buff ?p) + i"
    using a(4) r unfolding d by (auto simp: regions_ok_def)
  then show ?thesis
    using a(4) b d h by (auto simp: buffers_ok_def handed_ok_def)
qed

theorem dma_writes_in_buffer_witness:
  "\<exists>\<sigma>. sys_reachable env_example port_started \<sigma> \<and> phase \<sigma> = MainProcessing \<and>
     (\<exists>i < 50. unat (rx_addr (port \<sigma>)) = unat (DMA_buff (port \<sigma>)) + i) \<and>
     (\<forall>i < 50. unat (rx_addr (port \<sigma>)) \<noteq> unat (handed \<sigma>) + i)"
proof -
  obtain \<sigma> where s: "sys_reachable env_example port_started \<sigma>" "rx_accepts (port \<sigma>)"
    "phase \<sigma> = MainProcessing" "\<not> state_has (port \<sigma>) ST_REFILLED"
    using sys_example by blast
  show ?thesis
    using dma_writes_in_buffer [OF port_example_zero env_example_stops
        s(1) [unfolded port_started_def] s(2)] s(1,3,4) by blast
qed

section \<open>Refinement: a port is a double buffer\<close>

text \<open>
  The contract of reception without registers, streams or pointers: the list of bytes the user
  may be given and the list that is being filled; whether the user side is free, being served, and has been refilled
  meanwhile; and whether the bytes being filled in were marked to be handed over, with their number at that time.
\<close>

record dbuf =
  db_free :: bool
  db_busy :: bool
  db_refilled :: bool
  db_marked :: bool
  db_mark :: nat
  db_user :: "u8 list"
  db_dma :: "u8 list"

datatype port_op = OpByte u8 | OpIdle | OpFull | OpSwap | OpEnter | OpExit

definition db_exchange :: "dbuf \<Rightarrow> dbuf" where
  "db_exchange s = s\<lparr>db_free := False, db_marked := False, db_mark := 0, db_user := db_dma s, db_dma := []\<rparr>"

text \<open>A message ends: it is handed over at once, or marked when the user side is not free. A full buffer is handed over in any
  case. A marked message is handed over later if nothing has come after it.\<close>

fun db_step :: "port_op \<Rightarrow> dbuf \<Rightarrow> dbuf" where
  "db_step (OpByte b) s = s\<lparr>db_dma := db_dma s @ [b]\<rparr>"
| "db_step OpIdle s = (if db_free s then db_exchange s else s\<lparr>db_marked := True, db_mark := length (db_dma s)\<rparr>)"
| "db_step OpFull s = s\<lparr>db_free := False, db_refilled := db_refilled s \<or> db_busy s, db_mark := 0,
     db_user := db_dma s, db_dma := []\<rparr>"
| "db_step OpSwap s = (if db_free s \<and> db_marked s \<and> length (db_dma s) = db_mark s then db_exchange s else s)"
| "db_step OpEnter s = s\<lparr>db_busy := True, db_user := []\<rparr>"
| "db_step OpExit s = (if db_refilled s then s\<lparr>db_busy := False, db_refilled := False\<rparr>
     else s\<lparr>db_busy := False, db_free := True\<rparr>)"

fun db_enabled :: "port_op \<Rightarrow> dbuf \<Rightarrow> bool" where
  "db_enabled (OpByte b) s = (length (db_dma s) < 50)"
| "db_enabled OpIdle s = True"
| "db_enabled OpFull s = (length (db_dma s) = 50)"
| "db_enabled OpSwap s = True"
| "db_enabled OpEnter s = (db_user s \<noteq> [] \<and> \<not> db_free s \<and> \<not> db_busy s)"
| "db_enabled OpExit s = (db_busy s \<and> \<not> db_free s)"

definition port_abs :: "'f STUsart \<Rightarrow> dbuf" where
  "port_abs p = \<lparr>db_free = state_has p ST_PROCESSED, db_busy = state_has p ST_PROCESSING,
     db_refilled = state_has p ST_REFILLED, db_marked = state_has p ST_DMA_DATA,
     db_mark = unat (DMA_Receive_Count p), db_user = user_pending p, db_dma = dma_pending p\<rparr>"

fun run_op :: "hw_env \<Rightarrow> port_op \<Rightarrow> 'f STUsart \<Rightarrow> 'f STUsart" where
  "run_op env (OpByte b) p = hw_rx_byte b p"
| "run_op env OpIdle p = usart_IRQHandler env (hw_rx_idle p)"
| "run_op env OpFull p = rx_dma_irq usart_user p"
| "run_op env OpSwap p = rsm_swap env p"
| "run_op env OpEnter p = rsm_enter p"
| "run_op env OpExit p = rsm_exit p"

fun op_enabled :: "port_op \<Rightarrow> 'f STUsart \<Rightarrow> bool" where
  "op_enabled (OpByte b) p = rx_accepts p"
| "op_enabled OpIdle p = True"
| "op_enabled OpFull p = takes_over p"
| "op_enabled OpSwap p = True"
| "op_enabled OpEnter p = (receive_count p \<noteq> 0 \<and> \<not> state_has p ST_PROCESSING)"
| "op_enabled OpExit p = state_has p ST_PROCESSING"

lemma DMAR_live: "port_inv p \<Longrightarrow> HAL_IS_BIT_SET (CR3 p) USART_CR3_DMAR \<Longrightarrow> rx_live p"
  by (auto simp: port_inv_def rx_stalled_def)

lemma abs_idle: "DMA_Receive_Count (hw_rx_idle p) = DMA_Receive_Count p"
  by (simp add: hw_rx_idle_def)

lemma nothing_new:
  assumes "port_inv p"
  shows "ucast (DMA_Receive_Size p) = rx_NDTR p \<longleftrightarrow> dma_fill p = unat (DMA_Receive_Count p)"
proof -
  have "ucast (DMA_Receive_Size p) = rx_NDTR p \<longleftrightarrow> unat (DMA_Receive_Size p) = unat (rx_NDTR p)"
    by (metis unat_ucast16_32 word_unat_eq_iff)
  then show ?thesis
    using fill_count(3) [OF assms] by (auto simp: dma_fill_def)
qed

text \<open>
  C3. Refinement: each of the six operations of reception, a byte taken, the idle-line interrupt, the
  full-buffer interrupt, and the exchange, the entry and the exit of \<open>receive_str_manage\<close>, on a
  port that satisfies the invariant keeps it and does to the port exactly what the function \<open>db_step\<close> does to the abstract
  double buffer, in a state where that step is allowed.
\<close>

theorem port_refines_double_buffer:
  assumes p: "port_inv p" and env: "stream_stops env" and en: "op_enabled op p"
  shows "port_inv (run_op env op p) \<and> db_enabled op (port_abs p) \<and>
    port_abs (run_op env op p) = db_step op (port_abs p)"
proof (cases op)
  case (OpByte b)
  then show ?thesis
    using en rx_byte_accepted [OF p] rx_accepts_live(4) [OF p] hw_rx_byte_frame(3) [of b p]
    by (simp add: port_abs_def)
next
  case OpIdle
  let ?i = "hw_rx_idle p"
  note i = rx_idle_inv [OF p]
  have id: "HAL_IS_BIT_SET (SR ?i) USART_SR_IDLE"
    by simp
  have f: "dma_fill ?i = dma_fill p"
    using arg_cong [OF i(2), of length] by simp
  show ?thesis
  proof (cases "state_has p ST_PROCESSED")
    case True
    then have "state_has ?i ST_PROCESSED"
      by simp
    note x = irq_idle_processed [OF i(1) env id this]
    show ?thesis
      using OpIdle True x i(2) by (simp add: port_abs_def db_exchange_def)
  next
    case False
    then have "\<not> state_has ?i ST_PROCESSED"
      by simp
    note x = irq_idle_unprocessed [OF i(1) env id this]
    show ?thesis
      using OpIdle False x i(2,3) f by (simp add: port_abs_def)
  qed
next
  case OpFull
  then have l: "rx_live p" "rx_NDTR p = 0"
    using en DMAR_live [OF p] by (simp_all add: takes_over_def)
  show ?thesis
    using OpFull irq_rx_dma_complete [OF p l] by (auto simp: port_abs_def st_full_def)
next
  case OpSwap
  show ?thesis
  proof (cases "state_has p ST_PROCESSED \<and> state_has p ST_DMA_DATA \<and> ucast (DMA_Receive_Size p) = rx_NDTR p")
    case True
    then have st: "state_has p ST_PROCESSED" "state_has p ST_DMA_DATA" "ucast (DMA_Receive_Size p) = rx_NDTR p"
      by blast+
    have "dma_fill p = unat (DMA_Receive_Count p)"
      using nothing_new [OF p] st(3) by blast
    then show ?thesis
      using OpSwap st(1,2) rsm_swap_exchange [OF p env st] by (simp add: port_abs_def db_exchange_def)
  next
    case False
    then have "\<not> (state_has p ST_PROCESSED \<and> state_has p ST_DMA_DATA \<and> dma_fill p = unat (DMA_Receive_Count p))"
      using nothing_new [OF p] by blast
    then show ?thesis
      using OpSwap p rsm_swap_skip [OF False] by (auto simp: port_abs_def)
  qed
next
  case OpEnter
  have "\<not> state_has p ST_PROCESSED"
    using p en OpEnter by (auto simp: port_inv_def state_ok_def)
  moreover have "unat (receive_count p) \<noteq> 0"
    using en OpEnter by (simp add: unat_eq_zero)
  ultimately show ?thesis
    using OpEnter en rsm_enter_inv [OF p]
    by (cases "unat (receive_count p)") (auto simp: port_abs_def rsm_enter_def)
next
  case OpExit
  then have st: "state_has p ST_PROCESSING"
    using en by simp
  then have "\<not> state_has p ST_PROCESSED"
    using p by (auto simp: port_inv_def state_ok_def)
  then show ?thesis
    using OpExit st rsm_exit_inv [OF p st]
    by (cases "state_has p ST_REFILLED")
      (auto simp: port_abs_def rsm_exit_def user_pending_def Let_def)
qed

theorem port_refines_double_buffer_witness:
  "port_abs (hw_rx_byte 65 port_started) = db_step (OpByte 65) (port_abs port_started) \<and>
   db_dma (port_abs (hw_rx_byte 65 port_started)) = [65]"
proof -
  have pi: "port_inv port_started" "dma_fill port_started = 0" "rx_live port_started"
    using port_started_ready port_ready_live by (simp_all add: port_ready_def)
  then have "op_enabled (OpByte 65) port_started"
    using live_accepts [OF pi(1,3)] by simp
  from port_refines_double_buffer [OF pi(1) env_example_stops this] show ?thesis
    using pi(2) by (simp add: port_abs_def dma_pending_def)
qed

section \<open>A race\<close>

text \<open>
  \<open>receive_str_manage\<close> exchanges the buffers with interrupts enabled. The statements that follow
  \<open>temp = com->DMA_buff\<close>, as a function of \<open>temp\<close> and the port they then find.
\<close>

definition rsm_swap_rest :: "u32 \<Rightarrow> 'f STUsart \<Rightarrow> 'f STUsart" where
  "rsm_swap_rest temp p =
     (let p = p\<lparr>DMA_buff := buff p\<rparr>;
          p = p\<lparr>buff := temp\<rparr>;
          p = p\<lparr>DMA_Receive_Size := USART_RECEIVE_MAX\<rparr>;
          p = state_clear ST_PROCESSED p;
          p = p\<lparr>receive_count := DMA_Receive_Count p\<rparr>;
          p = p\<lparr>DMA_Receive_Count := 0\<rparr>;
          p = state_clear ST_DMA_DATA p
      in restart_rx 0 p)"

lemma rsm_swap_split:
  "rsm_swap env p =
     (if USART_State p AND 0xA = 0xA \<and> ucast (DMA_Receive_Size p) = rx_NDTR p
      then (let p1 = snd (HAL_UART_DMAStop env p) in rsm_swap_rest (DMA_buff p1) p1) else p)"
  by (simp add: rsm_swap_def rsm_swap_rest_def swap_buffers_def Let_def)

text \<open>
  C29. The exchange in \<open>receive_str_manage\<close> is not safe against the idle-line interrupt: if
  the interrupt comes between \<open>temp = com->DMA_buff\<close> and the next statement, both pointers
  of the port end up on the same buffer, so the DMA writes the bytes that follow into the buffer
  the user function works on.
\<close>

theorem swap_race_aliases_buffers:
  assumes "port_inv p" "rx_live p" "USART_State p AND 0xA = 0xA" "ucast (DMA_Receive_Size p) = rx_NDTR p"
  shows "let p1 = snd (HAL_UART_DMAStop env p);
             p3 = rsm_swap_rest (DMA_buff p1) (usart_IRQHandler env (hw_rx_idle p1))
         in buff p3 = DMA_buff p3"
proof -
  define p1 where "p1 = snd (HAL_UART_DMAStop env p)"
  have q: "quiet_tx p" and l: "RxState p = HAL_UART_STATE_BUSY_RX" "HAL_IS_BIT_SET (CR3 p) USART_CR3_DMAR"
    using assms(1,2) by (auto simp: port_inv_def rx_live_def)
  obtain h where h: "hdmarx p = Some h"
    using assms(2) by (auto simp: rx_live_def)
  have p1: "p1 = rx_halted (snd (HAL_DMA_Abort env h)) p"
    using DMAStop_live [OF q l h] by (simp add: p1_def)
  define i where "i = hw_rx_idle p1"
  have i: "buff i = buff p1" "DMA_buff i = DMA_buff p1" "state_has i ST_PROCESSED"
    "RxState i = HAL_UART_STATE_READY" "quiet_tx i" "HAL_IS_BIT_SET (SR i) USART_SR_IDLE"
    "\<not> HAL_IS_BIT_SET (CR3 i) USART_CR3_EIE" "\<not> HAL_IS_BIT_SET (CR1 i) USART_CR1_PEIE"
    using assms(3) q by (simp_all add: state_has_A i_def p1 rx_halted_def hw_rx_idle_def quiet_tx_def flag_simps)
  have irq: "HAL_UART_IRQHandler usart_user i = i"
    using i(5,7,8) is_set_union [of "CR1 i" USART_CR1_RXNEIE USART_CR1_PEIE]
    by (auto simp: HAL_UART_IRQHandler_def quiet_tx_def Let_def)
  define j where "j = (HAL_UART_CLEAR_PEFLAG i)\<lparr>DMA_Receive_Count :=
      DMA_Receive_Count i + ucast (ucast (DMA_Receive_Size i) - rx_NDTR i)\<rparr>"
  have "quiet_tx j" "RxState j \<noteq> HAL_UART_STATE_BUSY_RX"
    using i(4,5) by (simp_all add: j_def uart_reg_defs quiet_tx_def)
  then have "HAL_UART_DMAStop env j = (HAL_OK, j)"
    by (rule DMAStop_stalled)
  then have e: "usart_IRQHandler env i = (case idle_swap j of (k, p) \<Rightarrow> restart_rx k p)"
    using irq i(6) by (simp add: usart_IRQHandler_def j_def uart_reg_defs rx_NDTR_def get_rx_def Let_def)
  have "state_has j ST_PROCESSED" "buff j = buff p1" "DMA_buff j = DMA_buff p1"
    using i(1-3) by (simp_all add: j_def uart_reg_defs)
  then have "buff (usart_IRQHandler env i) = DMA_buff p1"
    unfolding e by (simp add: idle_swap_def swap_buffers_def restart_rx_fields Let_def)
  then show ?thesis
    unfolding i_def by (simp add: rsm_swap_rest_def restart_rx_fields Let_def flip: p1_def)
qed

text \<open>A port whose user side is free while the DMA buffer is marked to hold data.\<close>

definition port_swappable :: "nat STUsart" where
  "port_swappable = port_started\<lparr>receive_count := 0, USART_State := 0xA\<rparr>"

theorem swap_race_aliases_buffers_witness:
  "rsm_swap env_example port_swappable \<noteq> port_swappable \<and>
   (let p1 = snd (HAL_UART_DMAStop env_example port_swappable);
        p3 = rsm_swap_rest (DMA_buff p1) (usart_IRQHandler env_example (hw_rx_idle p1))
    in buff p3 = DMA_buff p3)"
proof -
  let ?p = port_swappable
  have s: "port_inv port_started" "USART_State port_started = ST_PROCESSED" "rx_live port_started"
    "dma_fill port_started = 0"
    using port_started_ready(1) port_ready_live by (simp_all add: port_ready_def)
  have "state_ok ?p"
    by (simp add: state_ok_def port_swappable_def st_has_def)
  then have p: "port_inv ?p"
    using rx_view_inv(1) [OF s(1) port_swappable_def] by simp
  have l: "rx_live ?p" "USART_State ?p AND 0xA = 0xA"
    using s(3) by (auto simp: rx_live_def port_swappable_def)
  have "unat (ucast (DMA_Receive_Size ?p) :: u32) = unat (rx_NDTR ?p)"
    using s(1,4) fill_count(3) [OF s(1)]
    by (simp add: port_swappable_def dma_fill_def rx_NDTR_def get_rx_def)
  then have n: "ucast (DMA_Receive_Size ?p) = rx_NDTR ?p"
    by (rule unsigned_word_eqI)
  have st: "state_has ?p ST_PROCESSED" "state_has ?p ST_DMA_DATA"
    using l(2) by (simp_all add: state_has_A)
  have "USART_State (rsm_swap env_example ?p) \<noteq> USART_State ?p"
    using rsm_swap_exchange(4) [OF p env_example_stops st n] by (simp add: port_swappable_def st_clear_def)
  then show ?thesis
    using swap_race_aliases_buffers [OF p l n, of env_example] by auto
qed

theorem message_delivered_witness:
  "\<exists>p'. receive_str_manage env_example
       (\<lambda>f b n s c q. (ucast (last (read_bytes (mem q) b (unat n))), q))
       (receive_message env_example [65, 66] port_started) 0 0 = (66, p') \<and> port_ready p'"
  using message_delivered [OF port_started_ready env_example_stops, of "[65, 66]"
      "\<lambda>f b n s c q. (ucast (last (read_bytes (mem q) b (unat n))), q)" 0 0] by auto

theorem full_message_starves_witness:
  "\<exists>p'. let p2 = receive_message env_example [1, 2, 3] (usart_IRQHandler env_example (hw_rx_idle p'))
     in dma_pending (p2 :: nat STUsart) = [1, 2, 3] \<and>
        receive_str_manage env_example (\<lambda>f b n s c p. (1, p)) p2 0 0 = (0, p2)"
  using full_message_starves [OF port_started_ready env_example_stops, of "replicate 50 65" "[1, 2, 3]"
      "\<lambda>f b n s c p. (1, p)" 0 0] by (auto simp: Let_def)

end
