(* ===== verification/UsartSend.thy ===== *)
theory UsartSend
  imports UsartProps
begin

text \<open>
  What holds of transmission: the polling loops return, a free transmitter is started as asked, a
  string is written character by character, and two behaviours of the layer that cut data
  off: a running transmission is not waited for while reception is on, and the idle-line interrupt of
  reception aborts it.
\<close>

section \<open>The wait for the transmitter\<close>

text \<open>The loop ends at the first read that is not \<open>BUSY_TX\<close> or whose tick is past the limit.\<close>

lemma wait_not_busy_tx_returns:
  assumes "tick_at env (i + n) - tickstart env > lim" "n < fuel"
  shows "wait_not_busy_tx env hw lim fuel i p \<noteq> None"
  using assms
proof (induction n arbitrary: i p fuel)
  case 0
  then show ?case
    by (cases fuel) (simp_all add: Let_def)
next
  case (Suc n)
  then obtain m where "fuel = Suc m" "n < m"
    by (cases fuel) auto
  then show ?case
    using Suc.IH [of "Suc i" m "hw i p"] Suc.prems(1) by (simp add: Let_def)
qed

text \<open>The port after \<open>n\<close> reads of the loop.\<close>

definition hw_rounds :: "(nat \<Rightarrow> 'f STUsart \<Rightarrow> 'f STUsart) \<Rightarrow> nat \<Rightarrow> 'f STUsart \<Rightarrow> 'f STUsart" where
  "hw_rounds hw n p = fold hw [0..<n] p"

text \<open>The loop goes on for exactly as long as \<open>BUSY_TX\<close> is read and the limit has not passed.\<close>

lemma wait_not_busy_tx_result:
  "wait_not_busy_tx env hw lim fuel i p = Some (st, q) \<Longrightarrow>
   \<exists>n < fuel. q = fold hw [i..<Suc (i + n)] p \<and>
     (\<forall>m < n. HAL_UART_GetState (fold hw [i..<Suc (i + m)] p) = HAL_UART_STATE_BUSY_TX \<and>
       \<not> tick_at env (i + m) - tickstart env > lim) \<and>
     (st = HAL_OK \<and> HAL_UART_GetState q \<noteq> HAL_UART_STATE_BUSY_TX \<or>
      st = HAL_TIMEOUT \<and> HAL_UART_GetState q = HAL_UART_STATE_BUSY_TX \<and> tick_at env (i + n) - tickstart env > lim)"
proof (induction fuel arbitrary: i p)
  case 0
  then show ?case by simp
next
  case (Suc fuel)
  show ?case
  proof (cases "HAL_UART_GetState (hw i p) = HAL_UART_STATE_BUSY_TX \<and> \<not> tick_at env i - tickstart env > lim")
    case True
    then have "wait_not_busy_tx env hw lim fuel (Suc i) (hw i p) = Some (st, q)"
      using Suc.prems by (simp add: Let_def)
    from Suc.IH [OF this] obtain n where n: "n < fuel" "q = fold hw [Suc i..<Suc (Suc i + n)] (hw i p)"
      "\<forall>m < n. HAL_UART_GetState (fold hw [Suc i..<Suc (Suc i + m)] (hw i p)) = HAL_UART_STATE_BUSY_TX \<and>
        \<not> tick_at env (Suc i + m) - tickstart env > lim"
      "st = HAL_OK \<and> HAL_UART_GetState q \<noteq> HAL_UART_STATE_BUSY_TX \<or>
       st = HAL_TIMEOUT \<and> HAL_UART_GetState q = HAL_UART_STATE_BUSY_TX \<and> tick_at env (Suc i + n) - tickstart env > lim"
      by blast
    have f: "fold hw [i..<Suc (i + Suc m)] p = fold hw [Suc i..<Suc (Suc i + m)] (hw i p)" for m
      by (simp add: upt_conv_Cons del: upt_Suc)
    have "HAL_UART_GetState (fold hw [i..<Suc (i + m)] p) = HAL_UART_STATE_BUSY_TX \<and>
        \<not> tick_at env (i + m) - tickstart env > lim" if "m < Suc n" for m
    proof (cases m)
      case 0
      then show ?thesis
        using True by simp
    next
      case (Suc k)
      then show ?thesis
        using n(3) that f [of k] by (simp del: upt_Suc)
    qed
    then show ?thesis
      using n f [of n] by (intro exI [of _ "Suc n"]) (simp del: upt_Suc)
  next
    case False
    then show ?thesis
      using Suc.prems
      by (intro exI [of _ 0]) (auto simp: Let_def split: if_splits)
  qed
qed

text \<open>
  C22. \<open>com_send_str\<close> returns: if the millisecond tick passes the limit of 10 at some round, a
  number of rounds beyond it is enough for every behaviour of the hardware. The loop goes on exactly while \<open>BUSY_TX\<close> is read and
  the limit has not passed; the result is \<open>HAL_TIMEOUT\<close> exactly when the last read was \<open>BUSY_TX\<close> with
  the limit passed in that round, and the port is then left as it was read; otherwise it is that of \<open>HAL_UART_Transmit_DMA\<close> on the
  first state that was not \<open>BUSY_TX\<close>.
\<close>

theorem com_send_str_returns:
  assumes "tick_at env n - tickstart env > 10" "n < fuel"
  shows "\<exists>st q j. com_send_str env hw fuel p str len = Some (st, q) \<and> j < fuel \<and>
    (\<forall>i < j. HAL_UART_GetState (hw_rounds hw (Suc i) p) = HAL_UART_STATE_BUSY_TX \<and>
      \<not> tick_at env i - tickstart env > 10) \<and>
    (if HAL_UART_GetState (hw_rounds hw (Suc j) p) = HAL_UART_STATE_BUSY_TX
     then st = HAL_TIMEOUT \<and> tick_at env j - tickstart env > 10 \<and> q = hw_rounds hw (Suc j) p
     else (st, q) = HAL_UART_Transmit_DMA (hw_rounds hw (Suc j) p) str len)"
proof -
  obtain st q where w: "wait_not_busy_tx env hw 10 fuel 0 p = Some (st, q)"
    using wait_not_busy_tx_returns [where env = env and i = 0 and n = n and lim = 10 and fuel = fuel] assms
    by fastforce
  from wait_not_busy_tx_result [OF w] obtain j where j: "j < fuel" "q = hw_rounds hw (Suc j) p"
    "\<forall>i < j. HAL_UART_GetState (hw_rounds hw (Suc i) p) = HAL_UART_STATE_BUSY_TX \<and>
      \<not> tick_at env i - tickstart env > 10"
    "st = HAL_OK \<and> HAL_UART_GetState q \<noteq> HAL_UART_STATE_BUSY_TX \<or>
     st = HAL_TIMEOUT \<and> HAL_UART_GetState q = HAL_UART_STATE_BUSY_TX \<and> tick_at env j - tickstart env > 10"
    by (auto simp: hw_rounds_def simp del: upt_Suc)
  from j(4) show ?thesis
  proof
    assume ok: "st = HAL_OK \<and> HAL_UART_GetState q \<noteq> HAL_UART_STATE_BUSY_TX"
    then have "com_send_str env hw fuel p str len = Some (HAL_UART_Transmit_DMA q str len)"
      using w by (simp add: com_send_str_def)
    then show ?thesis
      using ok j(1-3) by (metis surj_pair)
  next
    assume to: "st = HAL_TIMEOUT \<and> HAL_UART_GetState q = HAL_UART_STATE_BUSY_TX \<and> tick_at env j - tickstart env > 10"
    then have "com_send_str env hw fuel p str len = Some (HAL_TIMEOUT, q)"
      using w by (simp add: com_send_str_def)
    then show ?thesis
      using to j(1-3) by metis
  qed
qed

theorem com_send_str_returns_witness:
  "com_send_str (env_example\<lparr>tick_at := (\<lambda>i. of_nat i)\<rparr>) (\<lambda>_ p. p) 12 port_started 0x20000100 4 \<noteq> None"
  using com_send_str_returns [of "env_example\<lparr>tick_at := (\<lambda>i. of_nat i)\<rparr>" 11 12 "\<lambda>_ p. p" port_started
      "0x20000100" 4] by (auto simp: env_example_def)

section \<open>Starting a transmission\<close>

definition tx_start :: "u32 \<Rightarrow> u32 \<Rightarrow> u16 \<Rightarrow> uart_dma \<Rightarrow> uart_dma" where
  "tx_start inst pData Size h = snd (HAL_DMA_Start_IT
     (h\<lparr>XferCpltCallback := Some UART_DMATransmitCplt, XferHalfCpltCallback := Some UART_DMATxHalfCplt,
        XferErrorCallback := Some UART_DMAError, XferAbortCallback := None\<rparr>)
     pData (DR_addr inst) (ucast Size))"

lemma HAL_UART_Transmit_DMA_ok:
  assumes "gState u = HAL_UART_STATE_READY" "pData \<noteq> 0" "Size \<noteq> 0" "Lock u = HAL_UNLOCKED"
    "hdmatx u = Some h"
  shows "HAL_UART_Transmit_DMA u pData Size = (HAL_OK,
    u\<lparr>pTxBuffPtr := pData, TxXferSize := Size, TxXferCount := Size, ErrorCode := HAL_UART_ERROR_NONE,
      gState := HAL_UART_STATE_BUSY_TX, hdmatx := Some (tx_start (Instance u) pData Size h),
      SR := CLEAR_BIT (SR u) USART_SR_TC, Lock := HAL_UNLOCKED,
      CR3 := SET_BIT (CR3 u) USART_CR3_DMAT\<rparr>)"
  using assms
  by (simp add: HAL_UART_Transmit_DMA_def Let_def upd_tx_def tx_start_def uart_reg_defs)

lemma com_send_str_start:
  assumes "gState (hw 0 p) = HAL_UART_STATE_READY" "RxState (hw 0 p) \<in> {HAL_UART_STATE_READY, HAL_UART_STATE_BUSY_RX}"
    and "Lock (hw 0 p) = HAL_UNLOCKED" "hdmatx (hw 0 p) = Some h" "dma_lock_ok h"
    and "DState h = HAL_DMA_STATE_READY" "Direction (DInit h) = DMA_MEMORY_TO_PERIPH"
    and "str \<noteq> 0" "len \<noteq> 0"
  shows "\<exists>q h'. com_send_str env hw (Suc fuel) p str len = Some (HAL_OK, q) \<and> hdmatx q = Some h' \<and>
    dma_running (DR_addr (Instance (hw 0 p))) str (ucast len) h' \<and>
    gState q = HAL_UART_STATE_BUSY_TX \<and> HAL_IS_BIT_SET (CR3 q) USART_CR3_DMAT \<and>
    hdmarx q = hdmarx (hw 0 p) \<and> RxState q = RxState (hw 0 p) \<and>
    HAL_IS_BIT_SET (CR3 q) USART_CR3_DMAR = HAL_IS_BIT_SET (CR3 (hw 0 p)) USART_CR3_DMAR"
proof -
  let ?p = "hw 0 p"
  have "HAL_UART_GetState ?p \<noteq> HAL_UART_STATE_BUSY_TX"
    using assms(1,2) by (auto simp: HAL_UART_GetState_def)
  then have c: "com_send_str env hw (Suc fuel) p str len = Some (HAL_UART_Transmit_DMA ?p str len)"
    by (simp add: com_send_str_def Let_def)
  let ?h = "h\<lparr>XferCpltCallback := Some UART_DMATransmitCplt, XferHalfCpltCallback := Some UART_DMATxHalfCplt,
        XferErrorCallback := Some UART_DMAError, XferAbortCallback := None\<rparr>"
  have "dma_running (DR_addr (Instance ?p)) str (ucast len) (tx_start (Instance ?p) str len h)"
    using HAL_DMA_Start_IT_m2p [of ?h str "DR_addr (Instance ?p)" "ucast len"] assms(5-7)
    by (auto simp: tx_start_def dma_lock_ok_def)
  then show ?thesis
    unfolding c using HAL_UART_Transmit_DMA_ok [OF assms(1,8,9,3,4)] by (simp add: flag_simps)
qed

text \<open>
  \<open>com_send_str\<close> on a port with a free transmitter starts exactly the transfer asked
  for: the TX stream is enabled with \<open>len\<close> items from \<open>str\<close> to the data register, its completion and error
  interrupts on, the UART's DMA request set, and reception is not touched.
\<close>

theorem com_send_str_starts:
  assumes "gState (hw 0 p) = HAL_UART_STATE_READY" "RxState (hw 0 p) \<in> {HAL_UART_STATE_READY, HAL_UART_STATE_BUSY_RX}"
    and "Lock (hw 0 p) = HAL_UNLOCKED" "hdmatx (hw 0 p) = Some h" "dma_lock_ok h"
    and "DState h = HAL_DMA_STATE_READY" "Direction (DInit h) = DMA_MEMORY_TO_PERIPH"
    and "str \<noteq> 0" "len \<noteq> 0"
  shows "\<exists>q h'. com_send_str env hw (Suc fuel) p str len = Some (HAL_OK, q) \<and> hdmatx q = Some h' \<and>
    dma_running (DR_addr (Instance (hw 0 p))) str (ucast len) h' \<and>
    gState q = HAL_UART_STATE_BUSY_TX \<and> HAL_IS_BIT_SET (CR3 q) USART_CR3_DMAT \<and>
    hdmarx q = hdmarx (hw 0 p) \<and> RxState q = RxState (hw 0 p) \<and>
    HAL_IS_BIT_SET (CR3 q) USART_CR3_DMAR = HAL_IS_BIT_SET (CR3 (hw 0 p)) USART_CR3_DMAR"
  by (rule com_send_str_start [where hw = hw and p = p and h = h, OF assms])

section \<open>Sending while a transmission runs\<close>

text \<open>
  C36. While reception by DMA is on, which it is from \<open>com_init\<close> on, a running
  transmission is not waited for: the state read is \<open>BUSY_TX_RX\<close>, not \<open>BUSY_TX\<close>, so the loop of
  \<open>com_send_str\<close> ends in its first round, whatever the time limit, and the data is refused
  with \<open>HAL_BUSY\<close>; nothing of the port changes.
\<close>

theorem com_send_str_does_not_wait:
  assumes "gState (hw 0 p) = HAL_UART_STATE_BUSY_TX" "RxState (hw 0 p) = HAL_UART_STATE_BUSY_RX"
  shows "com_send_str env hw (Suc fuel) p str len = Some (HAL_BUSY, hw 0 p)"
  using assms by (simp add: com_send_str_def HAL_UART_GetState_def HAL_UART_Transmit_DMA_def Let_def)

theorem com_send_str_does_not_wait_witness:
  "com_send_str env_example (\<lambda>_ p. p) 1 (port_started\<lparr>gState := HAL_UART_STATE_BUSY_TX\<rparr>) 0x20000100 4 =
     Some (HAL_BUSY, port_started\<lparr>gState := HAL_UART_STATE_BUSY_TX\<rparr>)"
  using com_send_str_does_not_wait [of "\<lambda>_ p. p" "port_started\<lparr>gState := HAL_UART_STATE_BUSY_TX\<rparr>"
      env_example 0] port_ready_live [OF port_started_ready(1)]
  by (auto simp: rx_live_def)

theorem com_send_str_starts_witness:
  "\<exists>q h. com_send_str env_example (\<lambda>_ p. p) 1 port_started 0x20000100 4 = Some (HAL_OK, q) \<and>
     hdmatx q = Some h \<and> S_NDTR h = 4 \<and> S_M0AR h = 0x20000100"
proof -
  obtain h where h: "hdmatx port_started = Some h" "DState h = HAL_DMA_STATE_READY" "dma_lock_ok h"
    "Direction (DInit h) = DMA_MEMORY_TO_PERIPH" "gState port_started = HAL_UART_STATE_READY"
    using com_init_tx [OF port_example_zero(1,2)] unfolding port_started_def by blast
  have "Lock port_started = HAL_UNLOCKED" "RxState port_started = HAL_UART_STATE_BUSY_RX"
    using port_started_ready(1) port_ready_live [OF port_started_ready(1)]
    by (auto simp: port_ready_def port_inv_def rx_live_def)
  then show ?thesis
    using com_send_str_starts [of "\<lambda>_ p. p" port_started h "0x20000100" 4 env_example 0] h
    by (auto simp: dma_running_def)
qed

section \<open>The idle line cuts a transmission off\<close>

text \<open>
  C37. The idle-line interrupt of the receiver stops the transmitter of the same port as
  well: a transmission by DMA that is running when a message has been received is aborted,
  its remaining items are never sent, and no completion callback runs.
\<close>

theorem idle_line_aborts_transmission:
  assumes "quiet_tx (p\<lparr>gState := HAL_UART_STATE_READY\<rparr>)" "gState p = HAL_UART_STATE_BUSY_TX"
    and "HAL_IS_BIT_SET (CR3 p) USART_CR3_DMAT" "hdmatx p = Some h" "DState h = HAL_DMA_STATE_BUSY"
    and "rx_live p" "HAL_IS_BIT_SET (SR p) USART_SR_IDLE" "stream_stops env"
  shows "\<exists>h'. hdmatx (usart_IRQHandler env p) = Some h' \<and>
    \<not> HAL_IS_BIT_SET (S_CR h') DMA_SxCR_EN \<and> S_NDTR h' = S_NDTR h \<and> DState h' = HAL_DMA_STATE_READY \<and>
    gState (usart_IRQHandler env p) = HAL_UART_STATE_READY \<and>
    tx_log (usart_IRQHandler env p) = tx_log p"
proof -
  have irq: "HAL_UART_IRQHandler usart_user p = p"
    using assms(1,6) by (auto simp: HAL_UART_IRQHandler_def quiet_tx_def rx_live_def and_zero_is_set Let_def)
  define j where "j = (HAL_UART_CLEAR_PEFLAG p)\<lparr>DMA_Receive_Count :=
      DMA_Receive_Count p + ucast (ucast (DMA_Receive_Size p) - rx_NDTR p)\<rparr>"
  obtain hr where hr: "hdmarx p = Some hr" "RxState p = HAL_UART_STATE_BUSY_RX"
      "HAL_IS_BIT_SET (CR3 p) USART_CR3_DMAR"
    using assms(6) by (auto simp: rx_live_def)
  have s: "hdmatx (stop_tx env j) = Some (snd (HAL_DMA_Abort env h))"
    "gState (stop_tx env j) = HAL_UART_STATE_READY" "tx_log (stop_tx env j) = tx_log p"
    using assms(2-4) by (simp_all add: stop_tx_def j_def uart_reg_defs abort_tx_def upd_tx_def
        UART_EndTxTransfer_def Let_def)
  have e: "usart_IRQHandler env p =
      (case idle_swap (snd (HAL_UART_DMAStop env j)) of (k, p) \<Rightarrow> restart_rx k p)"
    using irq assms(7) by (simp add: usart_IRQHandler_def j_def uart_reg_defs rx_NDTR_def get_rx_def Let_def)
  have d: "hdmatx (snd (HAL_UART_DMAStop env j)) = Some (snd (HAL_DMA_Abort env h))"
    "gState (snd (HAL_UART_DMAStop env j)) = HAL_UART_STATE_READY"
    "tx_log (snd (HAL_UART_DMAStop env j)) = tx_log p"
    using HAL_UART_DMAStop_rx [of j hr env] hr s by (simp_all add: j_def uart_reg_defs)
  have "hdmatx (snd (idle_swap q)) = hdmatx q" "gState (snd (idle_swap q)) = gState q"
    "tx_log (snd (idle_swap q)) = tx_log q" for q :: "'a STUsart"
    by (simp_all add: idle_swap_def swap_buffers_def Let_def)
  then have "hdmatx (usart_IRQHandler env p) = Some (snd (HAL_DMA_Abort env h))"
    "gState (usart_IRQHandler env p) = HAL_UART_STATE_READY"
    "tx_log (usart_IRQHandler env p) = tx_log p"
    unfolding e using d by (simp_all add: case_prod_beta restart_rx_tx restart_rx_log)
  then show ?thesis
    using HAL_DMA_Abort_stops [OF assms(5,8)] by auto
qed

text \<open>A port that is receiving and has just been asked to send four bytes.\<close>

definition port_sending :: "nat STUsart" where
  "port_sending = hw_rx_idle (snd (HAL_UART_Transmit_DMA port_started 0x20000100 4))"

theorem idle_line_aborts_transmission_witness:
  "\<exists>h'. hdmatx (usart_IRQHandler env_example port_sending) = Some h' \<and>
     \<not> HAL_IS_BIT_SET (S_CR h') DMA_SxCR_EN \<and> S_NDTR h' = 4"
proof -
  obtain h where h: "hdmatx port_started = Some h" "DState h = HAL_DMA_STATE_READY" "dma_lock_ok h"
    "Direction (DInit h) = DMA_MEMORY_TO_PERIPH" "gState port_started = HAL_UART_STATE_READY"
    using com_init_tx [OF port_example_zero(1,2)] unfolding port_started_def by blast
  have p: "Lock port_started = HAL_UNLOCKED" "quiet_tx port_started" "rx_live port_started"
    using port_started_ready(1) port_ready_live [OF port_started_ready(1)]
    by (auto simp: port_ready_def port_inv_def)
  define k where "k = tx_start (Instance port_started) 0x20000100 4 h"
  have k: "DState k = HAL_DMA_STATE_BUSY" "S_NDTR k = 4"
    using h by (auto simp: k_def tx_start_def HAL_DMA_Start_IT_def DMA_SetConfig_def HAL_DMA_ENABLE_def
        write_IFCR_def dma_lock_ok_def Let_def)
  have s: "port_sending = hw_rx_idle (port_started\<lparr>pTxBuffPtr := 0x20000100, TxXferSize := 4,
      TxXferCount := 4, ErrorCode := HAL_UART_ERROR_NONE, gState := HAL_UART_STATE_BUSY_TX,
      hdmatx := Some k, SR := CLEAR_BIT (SR port_started) USART_SR_TC, Lock := HAL_UNLOCKED,
      CR3 := SET_BIT (CR3 port_started) USART_CR3_DMAT\<rparr>)"
    using HAL_UART_Transmit_DMA_ok [OF h(5) _ _ p(1) h(1), of "0x20000100" 4]
    by (simp add: port_sending_def k_def)
  have "quiet_tx (port_sending\<lparr>gState := HAL_UART_STATE_READY\<rparr>)"
    "gState port_sending = HAL_UART_STATE_BUSY_TX" "HAL_IS_BIT_SET (CR3 port_sending) USART_CR3_DMAT"
    "hdmatx port_sending = Some k"
    using p(2) by (simp_all add: s hw_rx_idle_def quiet_tx_def flag_simps)
  moreover have "rx_live port_sending"
    using p(3) unfolding s by (auto simp: rx_live_def hw_rx_idle_def flag_simps)
  ultimately show ?thesis
    using idle_line_aborts_transmission [of port_sending k env_example] k env_example_stops
    by (auto simp: port_sending_def)
qed

section \<open>Sending a string by polling\<close>

text \<open>
  The hardware's part: it changes neither the memory nor what was written to \<open>DR\<close>, and at least
  every \<open>d\<close>-th of its turns ends with \<open>TXE\<close> set.
\<close>

definition txe_hw :: "nat \<Rightarrow> (nat \<Rightarrow> 'f STUsart \<Rightarrow> 'f STUsart) \<Rightarrow> bool" where
  "txe_hw d hw \<longleftrightarrow> (\<forall>i p. mem (hw i p) = mem p \<and> tx_log (hw i p) = tx_log p) \<and>
     (\<forall>i. \<exists>j < d. \<forall>p. SR (hw (i + j) p) AND USART_SR_TXE \<noteq> 0)"

lemma wait_TXE_finds:
  assumes "\<forall>i p. mem (hw i p) = mem p \<and> tx_log (hw i p) = tx_log p"
    and "\<forall>p. SR (hw (i + j) p) AND USART_SR_TXE \<noteq> 0" "j < fuel"
  shows "\<exists>k q. wait_TXE hw fuel i p = Some (k, q) \<and> mem q = mem p \<and> tx_log q = tx_log p"
  using assms(2,3)
proof (induction j arbitrary: i p fuel)
  case 0
  then obtain m where "fuel = Suc m"
    by (cases fuel) auto
  then show ?case
    using 0 assms(1) by (simp add: Let_def)
next
  case (Suc j)
  then obtain m where m: "fuel = Suc m" "j < m"
    by (cases fuel) auto
  show ?case
  proof (cases "SR (hw i p) AND USART_SR_TXE = 0")
    case True
    then show ?thesis
      using Suc.IH [of "Suc i" m "hw i p"] Suc.prems(1) m assms(1) by (simp add: Let_def)
  next
    case False
    then show ?thesis
      using m assms(1) by (simp add: Let_def)
  qed
qed

lemma wait_TXE_txe_hw:
  assumes "txe_hw d hw" "d \<le> fuel"
  shows "\<exists>k q. wait_TXE hw fuel i p = Some (k, q) \<and> mem q = mem p \<and> tx_log q = tx_log p"
proof -
  obtain j where "j < d" "\<forall>p. SR (hw (i + j) p) AND USART_SR_TXE \<noteq> 0"
    using assms(1) unfolding txe_hw_def by blast
  then show ?thesis
    using wait_TXE_finds [of hw i j fuel p] assms by (auto simp: txe_hw_def)
qed

lemma write_DR_fields [simp]: "mem (write_DR v p) = mem p" "tx_log (write_DR v p) = tx_log p @ [v]"
  by (simp_all add: write_DR_def)

lemma send_chars_sends:
  assumes t: "txe_hw d hw" "d \<le> fuel"
  shows "read_bytes (mem p) a (length s) = s \<Longrightarrow> 0 \<notin> set s \<Longrightarrow> mem p (a + of_nat (length s)) = 0 \<Longrightarrow>
    length s < n \<Longrightarrow> \<exists>i' q. send_chars hw fuel n i a p = Some (i', q) \<and> mem q = mem p \<and>
      tx_log q = tx_log p @ map ucast s"
proof (induction s arbitrary: a n i p)
  case Nil
  then show ?case
    by (cases n) simp_all
next
  case (Cons c s)
  then obtain m where m: "n = Suc m" "length s < m"
    by (cases n) auto
  have c: "mem p a = c" "c \<noteq> 0" "read_bytes (mem p) (a + 1) (length s) = s"
    "mem p (a + 1 + of_nat (length s)) = 0"
    using Cons.prems by (auto simp: algebra_simps)
  obtain k q where w: "wait_TXE hw fuel i p = Some (k, q)" "mem q = mem p" "tx_log q = tx_log p"
    using wait_TXE_txe_hw [OF t] by blast
  let ?q = "write_DR (ucast c) q"
  obtain i' q' where "send_chars hw fuel m k (a + 1) ?q = Some (i', q')" "mem q' = mem ?q"
    "tx_log q' = tx_log ?q @ map ucast s"
    using Cons.IH [of ?q "a + 1" m k] c w m(2) Cons.prems(2) by auto
  then show ?case
    using m w c by auto
qed

text \<open>
  \<open>com_send_pstr\<close> on a port that is not transmitting writes the characters of a
  zero-terminated string to the data register in order, none twice and none missing, and returns \<open>HAL_OK\<close>,
  for every hardware that empties the data register at least every \<open>d\<close> polls: \<open>d\<close> polls per
  character and as many rounds as characters are enough.
\<close>

theorem com_send_pstr_sends:
  assumes "txe_hw d hw2" "d \<le> fuel" "length s < fuel"
    and "HAL_UART_GetState (hw 0 p) \<noteq> HAL_UART_STATE_BUSY_TX"
    and "read_bytes (mem (hw 0 p)) str (length s) = s" "0 \<notin> set s"
    and "mem (hw 0 p) (str + of_nat (length s)) = 0"
  shows "\<exists>q. com_send_pstr lim env hw hw2 fuel p str = Some (HAL_OK, q) \<and>
    tx_log q = tx_log (hw 0 p) @ map ucast s"
proof -
  obtain i q where c: "send_chars hw2 fuel fuel 0 str (hw 0 p) = Some (i, q)"
    "tx_log q = tx_log (hw 0 p) @ map ucast s"
    using send_chars_sends [OF assms(1,2,5-7,3)] by blast
  obtain k r where "wait_TXE hw2 fuel i q = Some (k, r)" "tx_log r = tx_log q"
    using wait_TXE_txe_hw [OF assms(1,2)] by blast
  moreover obtain m where "fuel = Suc m"
    using assms(3) by (cases fuel) auto
  ultimately show ?thesis
    using assms(4) c by (simp add: com_send_pstr_def Let_def)
qed

text \<open>A string of two characters in memory, and a hardware that is ready every second poll.\<close>

definition port_with_text :: "nat STUsart" where
  "port_with_text = port_started\<lparr>mem := (\<lambda>_. 0)(0x20000100 := 79, 0x20000101 := 75), tx_log := []\<rparr>"

definition hw_every_second :: "nat \<Rightarrow> nat STUsart \<Rightarrow> nat STUsart" where
  "hw_every_second i p = p\<lparr>SR := (if even i then SET_BIT (SR p) USART_SR_TXE else SR p)\<rparr>"

theorem com_send_pstr_sends_witness:
  "\<exists>q. com_send_pstr 10 env_example (\<lambda>_ p. p) hw_every_second 3 port_with_text 0x20000100 = Some (HAL_OK, q) \<and>
     tx_log q = [79, 75]"
proof -
  have "\<exists>j<2. \<forall>p. SR (hw_every_second (i + j) p) AND USART_SR_TXE \<noteq> 0" for i
    by (cases "even i", intro exI [of _ 0], simp add: hw_every_second_def flag_simps and_zero_is_set,
        intro exI [of _ 1], simp add: hw_every_second_def flag_simps and_zero_is_set)
  then have t: "txe_hw 2 hw_every_second"
    by (simp add: txe_hw_def hw_every_second_def)
  have "gState port_started = HAL_UART_STATE_READY" "RxState port_started = HAL_UART_STATE_BUSY_RX"
    using com_init_tx [OF port_example_zero(1,2)] port_ready_live [OF port_started_ready(1)]
    unfolding port_started_def rx_live_def by blast+
  then have g: "HAL_UART_GetState port_with_text \<noteq> HAL_UART_STATE_BUSY_TX"
    by (simp add: port_with_text_def HAL_UART_GetState_def)
  have m: "read_bytes (mem port_with_text) 0x20000100 (length [79, 75 :: u8]) = [79, 75]"
    "0 \<notin> set [79, 75 :: u8]" "mem port_with_text (0x20000100 + of_nat (length [79, 75 :: u8])) = 0"
    by (simp_all add: port_with_text_def)
  have l: "2 \<le> (3 :: nat)" "length [79, 75 :: u8] < 3" "tx_log port_with_text = []"
    by (simp_all add: port_with_text_def)
  obtain q where "com_send_pstr 10 env_example (\<lambda>_ p. p) hw_every_second 3 port_with_text 0x20000100 = Some (HAL_OK, q)"
    "tx_log q = tx_log port_with_text @ map ucast [79, 75 :: u8]"
    using com_send_pstr_sends [where hw = "\<lambda>_ p. p", OF t l(1,2) g m] by blast
  then show ?thesis
    using l(3) by auto
qed

end
