(* ===== verification/UsartTx.thy ===== *)
theory UsartTx
  imports UsartSend
begin

text \<open>
  A transmission by DMA from the call of \<open>com_send_str\<close> to its end, on a port that may be receiving at the same time: the
  transmitter's hardware, the interrupts of the UART and of the two DMA streams, bytes and idle lines that arrive, in any
  order. What has been written is always a prefix of the data; without an idle line the transmitter is free again only when all of it
  has been written, with one it may be free earlier; and it can always become free.
\<close>

section \<open>The transmitter's hardware\<close>

text \<open>
  With \<open>DMAT\<close> set, \<open>TXE\<close> set and the stream enabled, the stream moves the next item to \<open>DR\<close>, which clears
  \<open>TXE\<close>. When the character moves on to the shift register, \<open>TXE\<close> is set again; when the shift register
  is empty and nothing follows, \<open>TC\<close> is set.
\<close>

definition tx_NDTR :: "'f STUsart \<Rightarrow> u32" where
  "tx_NDTR p = S_NDTR (get_tx p)"

definition tx_addr :: "'f STUsart \<Rightarrow> u32" where
  "tx_addr p = S_M0AR (get_tx p) + (ucast (TxXferSize p) - tx_NDTR p)"

definition tx_dma_on :: "'f STUsart \<Rightarrow> bool" where
  "tx_dma_on p \<longleftrightarrow> HAL_IS_BIT_SET (CR3 p) USART_CR3_DMAT \<and> HAL_IS_BIT_SET (S_CR (get_tx p)) DMA_SxCR_EN"

definition hw_tx_item :: "'f STUsart \<Rightarrow> 'f STUsart" where
  "hw_tx_item p = p\<lparr>tx_log := tx_log p @ [ucast (mem p (tx_addr p))],
     SR := CLEAR_BIT (SR p) USART_SR_TXE,
     hdmatx := Some (dma_item (ucast (TxXferSize p)) (get_tx p))\<rparr>"

definition hw_tx_shift :: "'f STUsart \<Rightarrow> 'f STUsart" where
  "hw_tx_shift p = p\<lparr>SR := SET_BIT (SR p) USART_SR_TXE\<rparr>"

definition hw_tx_drained :: "'f STUsart \<Rightarrow> 'f STUsart" where
  "hw_tx_drained p = p\<lparr>SR := SET_BIT (SR p) USART_SR_TC\<rparr>"

text \<open>
  What can happen to a port that sends the bytes at the addresses \<open>src\<close>: its transmitter moves on; one of its three
  interrupt handlers runs; a byte is received and stored outside \<open>src\<close>, or is received and not taken by the DMA; the line goes idle;
  memory outside \<open>src\<close> changes (the program, and the receivers of the other ports). There are no steps for an overrun or another error of
  the line. Every abort of a stream is immediate: \<open>stream_stops env\<close>.
\<close>

datatype tx_event =
    TxItem | TxShift | TxDrained | TxDmaIrq | UsartIrq | RxDmaIrq | RxByte u8 | RxRefused u8 | RxIdle
  | Elsewhere "u32 \<Rightarrow> u8"

inductive tx_step :: "hw_env \<Rightarrow> u32 set \<Rightarrow> tx_event \<Rightarrow> 'f STUsart \<Rightarrow> 'f STUsart \<Rightarrow> bool" for env src where
  item: "tx_dma_on p \<Longrightarrow> HAL_IS_BIT_SET (SR p) USART_SR_TXE \<Longrightarrow> tx_step env src TxItem p (hw_tx_item p)"
| shift: "\<not> HAL_IS_BIT_SET (SR p) USART_SR_TXE \<Longrightarrow> tx_step env src TxShift p (hw_tx_shift p)"
| drained: "\<not> tx_dma_on p \<Longrightarrow> HAL_IS_BIT_SET (SR p) USART_SR_TXE \<Longrightarrow>
     tx_step env src TxDrained p (hw_tx_drained p)"
| dma_irq: "tx_step env src TxDmaIrq p (tx_dma_irq usart_user p)"
| usart_irq: "tx_step env src UsartIrq p (usart_IRQHandler env p)"
| rx_dma_irq: "tx_step env src RxDmaIrq p (rx_dma_irq usart_user p)"
| rx_byte: "rx_accepts p \<Longrightarrow> rx_addr p \<notin> src \<Longrightarrow> tx_step env src (RxByte b) p (hw_rx_byte b p)"
| rx_refused: "\<not> rx_accepts p \<Longrightarrow> \<not> HAL_IS_BIT_SET (SR p) USART_SR_RXNE \<Longrightarrow>
     tx_step env src (RxRefused b) p (hw_rx_byte b p)"
| rx_idle: "tx_step env src RxIdle p (hw_rx_idle p)"
| elsewhere: "\<forall>x \<in> src. m x = mem p x \<Longrightarrow> tx_step env src (Elsewhere m) p (p\<lparr>mem := m\<rparr>)"

inductive_cases tx_stepE: "tx_step env src e p q"

text \<open>A run, with what happened in it.\<close>

inductive tx_run :: "hw_env \<Rightarrow> u32 set \<Rightarrow> 'f STUsart \<Rightarrow> tx_event list \<Rightarrow> 'f STUsart \<Rightarrow> bool" for env src p where
  start: "tx_run env src p [] p"
| step: "tx_run env src p es q \<Longrightarrow> tx_step env src e q r \<Longrightarrow> tx_run env src p (es @ [e]) r"

section \<open>The stream of the transmitter\<close>

definition tx_stream_active :: "u32 \<Rightarrow> u16 \<Rightarrow> uart_dma \<Rightarrow> bool" where
  "tx_stream_active a n h \<longleftrightarrow> tx_setup h \<and>
     DState h = HAL_DMA_STATE_BUSY \<and> DLock h = HAL_LOCKED \<and>
     HAL_IS_BIT_SET (S_CR h) DMA_IT_TC \<and> S_M0AR h = a \<and> unat (S_NDTR h) \<le> unat n \<and>
     HAL_IS_BIT_SET (S_CR h) DMA_SxCR_EN = (S_NDTR h \<noteq> 0) \<and>
     HAL_IS_BIT_SET (ISR h) (stream_mask h DMA_FLAG_TCIF0_4) = (S_NDTR h = 0) \<and>
     XferCpltCallback h = Some UART_DMATransmitCplt \<and> XferHalfCpltCallback h = Some UART_DMATxHalfCplt"

definition tx_stream_idle :: "uart_dma \<Rightarrow> bool" where
  "tx_stream_idle h \<longleftrightarrow> tx_setup h \<and> DState h = HAL_DMA_STATE_READY \<and> DLock h = HAL_UNLOCKED \<and>
     \<not> HAL_IS_BIT_SET (ISR h) (stream_mask h DMA_FLAG_TCIF0_4) \<and>
     XferHalfCpltCallback h \<in> {None, Some UART_DMATxHalfCplt}"

lemma tx_start_active:
  assumes "tx_setup h" "DState h = HAL_DMA_STATE_READY" "DLock h = HAL_UNLOCKED" "n \<noteq> 0"
  shows "tx_stream_active a n (tx_start inst a n h)" "S_NDTR (tx_start inst a n h) = ucast n"
proof -
  have n: "(ucast n :: u32) \<noteq> 0"
    using assms(4) by (metis unat_ucast16_32 unat_eq_zero)
  show "tx_stream_active a n (tx_start inst a n h)"
    using assms n stream_mask_nonzero [of h]
    by (simp add: tx_stream_active_def tx_setup_def tx_start_def HAL_DMA_Start_IT_def DMA_SetConfig_def
        HAL_DMA_ENABLE_def write_IFCR_def stream_mask_def flag_simps Let_def)
  show "S_NDTR (tx_start inst a n h) = ucast n"
    using assms
    by (simp add: tx_start_def HAL_DMA_Start_IT_def DMA_SetConfig_def
        HAL_DMA_ENABLE_def write_IFCR_def Let_def)
qed

lemma dma_item_NDTR: "S_NDTR (dma_item t h) = S_NDTR h - 1"
  by (simp add: dma_item_def Let_def)

lemma dma_item_tx_active:
  assumes "tx_stream_active a n h" "S_NDTR h \<noteq> 0"
  shows "tx_stream_active a n (dma_item t h)"
proof -
  have "unat (S_NDTR h - 1) = unat (S_NDTR h) - 1"
    using assms(2) by (simp add: unat_minus_one)
  then show ?thesis
    using assms stream_mask_nonzero [of h]
    by (auto simp: tx_stream_active_def tx_setup_def dma_item_def stream_mask_def flag_simps Let_def)
qed

lemma ht_part_tx_keeps:
  "tx_stream_active a n h \<Longrightarrow> tx_stream_active a n (ht_part t h)"
  "tx_stream_idle h \<Longrightarrow> tx_stream_idle (ht_part t h)"
  by (auto simp: ht_part_def tx_stream_active_def tx_stream_idle_def tx_setup_def stream_mask_def flag_simps)

lemma tc_part_tx_idle: "tx_stream_active a n h \<Longrightarrow> tx_stream_idle (tc_part t h)"
  by (auto simp: tc_part_def ht_part_def tx_stream_active_def tx_stream_idle_def tx_setup_def stream_mask_def
      flag_simps)

lemma usart_user_TxHalf [simp]: "HAL_UART_TxHalfCpltCallback usart_user p = p"
  by (simp add: usart_user_def weak_callbacks_def)

lemma hdmatx_same: "hdmatx p = Some h \<Longrightarrow> p\<lparr>hdmatx := Some h\<rparr> = (p :: 'f STUsart)"
  by (cases p) simp

lemma tx_irq_HT:
  assumes "hdmatx p = Some h" "tx_setup h" "XferHalfCpltCallback h \<in> {None, Some UART_DMATxHalfCplt}"
  shows "dma_irq_HT get_tx upd_tx (run_dma_cb usart_user) t p = p\<lparr>hdmatx := Some (ht_part t h)\<rparr>"
proof (cases "HAL_IS_BIT_SET t (stream_mask h DMA_FLAG_HTIF0_4) \<and> HAL_IS_BIT_SET (S_CR h) DMA_IT_HT")
  case True
  then show ?thesis
    using assms uart_tx.irq_HT_normal [of p t "run_dma_cb usart_user"]
    by (auto simp: tx_setup_def get_tx_def upd_tx_def ht_part_def call_cb_def)
next
  case False
  then have "dma_irq_HT get_tx upd_tx (run_dma_cb usart_user) t p = p"
    using assms by (intro uart_tx.irq_HT_none) (auto simp: get_tx_def)
  then show ?thesis
    using False assms(1) by (auto simp: ht_part_def hdmatx_same)
qed

lemma tx_irq_split:
  assumes "hdmatx p = Some h" "tx_setup h" "XferHalfCpltCallback h \<in> {None, Some UART_DMATxHalfCplt}"
  shows "tx_dma_irq usart_user p =
    (case dma_irq_TC get_tx upd_tx (run_dma_cb usart_user) (ISR h) (p\<lparr>hdmatx := Some (ht_part (ISR h) h)\<rparr>) of
       (returned, q) \<Rightarrow> if returned then q else dma_irq_error get_tx upd_tx (run_dma_cb usart_user) q)"
  using assms(1,2) uart_tx.irq_no_error [of p "run_dma_cb usart_user"] tx_irq_HT [OF assms]
  by (simp add: tx_dma_irq_def get_tx_def tx_setup_def)

lemma tx_irq_no_TC:
  assumes h: "hdmatx p = Some h" "tx_setup h" "XferHalfCpltCallback h \<in> {None, Some UART_DMATxHalfCplt}"
    and t: "\<not> HAL_IS_BIT_SET (ISR h) (stream_mask h DMA_FLAG_TCIF0_4)"
  shows "tx_dma_irq usart_user p = p\<lparr>hdmatx := Some (ht_part (ISR h) h)\<rparr>"
proof -
  let ?q = "p\<lparr>hdmatx := Some (ht_part (ISR h) h)\<rparr>"
  have "StreamIndex (ht_part (ISR h) h) = StreamIndex h" "DErrorCode (ht_part (ISR h) h) = DErrorCode h"
    by (simp_all add: ht_part_def)
  then have "dma_irq_TC get_tx upd_tx (run_dma_cb usart_user) (ISR h) ?q = (False, ?q)"
    "dma_irq_error get_tx upd_tx (run_dma_cb usart_user) ?q = ?q"
    using t h(2) by (auto intro!: uart_tx.irq_TC_none simp: get_tx_def stream_mask_def
        dma_irq_error_def tx_setup_def)
  then show ?thesis
    using tx_irq_split [OF h] by simp
qed

lemma tx_irq_TC:
  assumes h: "hdmatx p = Some h" "tx_stream_active a n h" "S_NDTR h = 0"
  shows "tx_dma_irq usart_user p = p\<lparr>hdmatx := Some (tc_part (ISR h) h), TxXferCount := 0,
    CR3 := CLEAR_BIT (CR3 p) USART_CR3_DMAT, CR1 := SET_BIT (CR1 p) USART_CR1_TCIE\<rparr>"
proof -
  let ?k = "ht_part (ISR h) h"
  let ?q = "p\<lparr>hdmatx := Some ?k\<rparr>"
  let ?r = "p\<lparr>hdmatx := Some (tc_part (ISR h) h), TxXferCount := 0,
    CR3 := CLEAR_BIT (CR3 p) USART_CR3_DMAT, CR1 := SET_BIT (CR1 p) USART_CR1_TCIE\<rparr>"
  have a: "tx_stream_active a n ?k" "tx_setup h" "XferHalfCpltCallback h \<in> {None, Some UART_DMATxHalfCplt}"
    using h(2) ht_part_tx_keeps by (auto simp: tx_stream_active_def)
  have i: "StreamIndex ?k = StreamIndex h"
    by (simp add: ht_part_def)
  have t: "HAL_IS_BIT_SET (ISR h) (stream_mask ?k DMA_FLAG_TCIF0_4)"
    using h(2,3) i by (simp add: tx_stream_active_def stream_mask_def)
  have "dma_irq_TC get_tx upd_tx (run_dma_cb usart_user) (ISR h) ?q = (False, ?r)"
    using uart_tx.irq_TC_normal [of ?q "ISR h" "run_dma_cb usart_user"] t a(1) i
    by (simp add: tx_stream_active_def tx_setup_def get_tx_def upd_tx_def call_cb_def
        do_UART_DMATransmitCplt_def tc_part_def stream_mask_def flag_simps and_zero_is_set Let_def)
  moreover have "DErrorCode (tc_part (ISR h) h) = HAL_DMA_ERROR_NONE"
    using a(2) by (simp add: tc_part_def ht_part_def tx_setup_def)
  ultimately show ?thesis
    using tx_irq_split [OF h(1) a(2,3)] by (simp add: dma_irq_error_def get_tx_def)
qed

section \<open>The invariant of a transmission\<close>

definition tx_source :: "u32 \<Rightarrow> nat \<Rightarrow> u32 set" where
  "tx_source a n = (\<lambda>i. a + of_nat i) ` {..<n}"

text \<open>The receiver of the port: a transfer is running, or none is.\<close>

definition rx_side :: "'f STUsart \<Rightarrow> bool" where
  "rx_side p \<longleftrightarrow> (\<exists>h. hdmarx p = Some h \<and>
     (RxState p = HAL_UART_STATE_BUSY_RX \<and> HAL_IS_BIT_SET (CR3 p) USART_CR3_DMAR \<and> (\<exists>a n. stream_active a n h) \<or>
      RxState p = HAL_UART_STATE_READY \<and> \<not> HAL_IS_BIT_SET (CR3 p) USART_CR3_DMAR \<and> stream_idle h))"

lemma rx_live_side: "rx_live p \<Longrightarrow> rx_side p"
  by (auto simp: rx_live_def rx_side_def)

text \<open>No error of the line has been seen, and neither receiver nor transmitter works by interrupts per byte.\<close>

definition tx_calm :: "'f STUsart \<Rightarrow> bool" where
  "tx_calm p \<longleftrightarrow> Lock p = HAL_UNLOCKED \<and> rx_side p \<and>
     \<not> HAL_IS_BIT_SET (CR1 p) USART_CR1_RXNEIE \<and>
     \<not> HAL_IS_BIT_SET (CR1 p) USART_CR1_TXEIE \<and>
     \<not> HAL_IS_BIT_SET (SR p) (USART_SR_PE OR USART_SR_FE OR USART_SR_ORE OR USART_SR_NE)"

definition tx_sending :: "u32 \<Rightarrow> u8 list \<Rightarrow> u32 list \<Rightarrow> 'f STUsart \<Rightarrow> bool" where
  "tx_sending a bytes log0 p \<longleftrightarrow> gState p = HAL_UART_STATE_BUSY_TX \<and>
     HAL_IS_BIT_SET (CR3 p) USART_CR3_DMAT \<and> \<not> HAL_IS_BIT_SET (CR1 p) USART_CR1_TCIE \<and>
     unat (TxXferSize p) = length bytes \<and>
     (\<exists>h. hdmatx p = Some h \<and> tx_stream_active a (TxXferSize p) h \<and>
        tx_log p = log0 @ map ucast (take (length bytes - unat (S_NDTR h)) bytes))"

definition tx_flushing :: "u8 list \<Rightarrow> u32 list \<Rightarrow> 'f STUsart \<Rightarrow> bool" where
  "tx_flushing bytes log0 p \<longleftrightarrow> gState p = HAL_UART_STATE_BUSY_TX \<and>
     \<not> HAL_IS_BIT_SET (CR3 p) USART_CR3_DMAT \<and> HAL_IS_BIT_SET (CR1 p) USART_CR1_TCIE \<and>
     (\<exists>h. hdmatx p = Some h \<and> tx_stream_idle h) \<and> tx_log p = log0 @ map ucast bytes"

definition tx_done :: "u8 list \<Rightarrow> u32 list \<Rightarrow> 'f STUsart \<Rightarrow> bool" where
  "tx_done bytes log0 p \<longleftrightarrow> gState p = HAL_UART_STATE_READY \<and>
     \<not> HAL_IS_BIT_SET (CR3 p) USART_CR3_DMAT \<and> \<not> HAL_IS_BIT_SET (CR1 p) USART_CR1_TCIE \<and>
     (\<exists>h. hdmatx p = Some h \<and> tx_stream_idle h) \<and> tx_log p = log0 @ map ucast bytes"

text \<open>An idle line has ended the transmission.\<close>

definition tx_cut :: "u8 list \<Rightarrow> u32 list \<Rightarrow> 'f STUsart \<Rightarrow> bool" where
  "tx_cut bytes log0 p \<longleftrightarrow> gState p = HAL_UART_STATE_READY \<and>
     \<not> HAL_IS_BIT_SET (CR3 p) USART_CR3_DMAT \<and> \<not> HAL_IS_BIT_SET (CR1 p) USART_CR1_TCIE \<and>
     (\<exists>h. hdmatx p = Some h \<and> tx_stream_idle h) \<and>
     (\<exists>k \<le> length bytes. tx_log p = log0 @ map ucast (take k bytes))"

lemmas tx_phase_defs = tx_sending_def tx_flushing_def tx_done_def tx_cut_def

text \<open>The invariant; \<open>idle\<close> is whether an idle line may have come.\<close>

definition tx_inv :: "u32 \<Rightarrow> u8 list \<Rightarrow> u32 list \<Rightarrow> bool \<Rightarrow> 'f STUsart \<Rightarrow> bool" where
  "tx_inv a bytes log0 idle p \<longleftrightarrow> tx_calm p \<and> read_bytes (mem p) a (length bytes) = bytes \<and>
     (idle \<or> \<not> HAL_IS_BIT_SET (SR p) USART_SR_IDLE) \<and>
     (tx_sending a bytes log0 p \<or> tx_flushing bytes log0 p \<or> tx_done bytes log0 p \<or> idle \<and> tx_cut bytes log0 p)"

text \<open>What the phases look at. A change of anything else keeps them.\<close>

definition tx_part :: "'f STUsart \<Rightarrow> u32 \<times> uart_dma option \<times> u32 list \<times> (u32 \<Rightarrow> u8) \<times> u16 \<times> bool \<times> bool" where
  "tx_part p = (gState p, hdmatx p, tx_log p, mem p, TxXferSize p,
     HAL_IS_BIT_SET (CR3 p) USART_CR3_DMAT, HAL_IS_BIT_SET (CR1 p) USART_CR1_TCIE)"

lemma tx_inv_part:
  assumes "tx_inv a bytes log0 idle p" "tx_part q = tx_part p" "tx_calm q"
    "idle \<or> \<not> HAL_IS_BIT_SET (SR q) USART_SR_IDLE"
  shows "tx_inv a bytes log0 idle q"
  using assms by (simp add: tx_inv_def tx_phase_defs tx_part_def)

lemma tx_inv_item:
  assumes inv: "tx_inv a bytes log0 idle p" and on: "tx_dma_on p"
  shows "tx_inv a bytes log0 idle (hw_tx_item p)" "tx_sending a bytes log0 (hw_tx_item p)"
    "tx_NDTR p \<noteq> 0" "tx_NDTR (hw_tx_item p) = tx_NDTR p - 1"
proof -
  have s: "tx_sending a bytes log0 p"
    using assms by (auto simp: tx_inv_def tx_phase_defs tx_dma_on_def)
  then obtain h where h: "hdmatx p = Some h" "tx_stream_active a (TxXferSize p) h"
    "tx_log p = log0 @ map ucast (take (length bytes - unat (S_NDTR h)) bytes)"
    "unat (TxXferSize p) = length bytes"
    unfolding tx_sending_def by blast
  have n: "S_NDTR h \<noteq> 0"
    using on h(1,2) by (auto simp: tx_dma_on_def get_tx_def tx_stream_active_def)
  define k where "k = length bytes - unat (S_NDTR h)"
  have le: "unat (S_NDTR h) \<le> length bytes" "S_M0AR h = a"
    using h(2,4) by (auto simp: tx_stream_active_def)
  have pos: "0 < unat (S_NDTR h)"
    using n by (simp add: unat_gt_0)
  then have k: "k < length bytes" "length bytes - unat (S_NDTR h - 1) = Suc k"
    using le(1) n unfolding k_def by (simp_all add: unat_minus_one)
  have "unat ((ucast (TxXferSize p) :: u32) - S_NDTR h) = k"
    using unat_sub16_32 [of "S_NDTR h" "TxXferSize p"] le(1) h(4) by (simp add: k_def)
  then have "(ucast (TxXferSize p) :: u32) - S_NDTR h = of_nat k"
    by auto
  then have "tx_addr p = a + of_nat k"
    by (simp add: tx_addr_def tx_NDTR_def get_tx_def h(1) le(2))
  then have b: "mem p (tx_addr p) = bytes ! k"
    using inv k(1) read_bytes_nth [of k "length bytes" "mem p" a] by (simp add: tx_inv_def)
  have act: "tx_stream_active a (TxXferSize p) (dma_item (ucast (TxXferSize p)) h)"
    using dma_item_tx_active [OF h(2) n] .
  have "take (Suc k) bytes = take k bytes @ [bytes ! k]"
    using k(1) by (simp add: take_Suc_conv_app_nth)
  then show s': "tx_sending a bytes log0 (hw_tx_item p)"
    using s act b k h
    by (simp add: tx_sending_def hw_tx_item_def get_tx_def dma_item_NDTR k_def)
  have "tx_calm (hw_tx_item p)" "mem (hw_tx_item p) = mem p"
    "HAL_IS_BIT_SET (SR (hw_tx_item p)) USART_SR_IDLE = HAL_IS_BIT_SET (SR p) USART_SR_IDLE"
    using inv by (simp_all add: tx_inv_def tx_calm_def rx_side_def hw_tx_item_def flag_simps)
  then show "tx_inv a bytes log0 idle (hw_tx_item p)"
    using s' inv by (simp add: tx_inv_def)
  show "tx_NDTR p \<noteq> 0" "tx_NDTR (hw_tx_item p) = tx_NDTR p - 1"
    using n h(1) by (simp_all add: tx_NDTR_def get_tx_def hw_tx_item_def dma_item_NDTR)
qed

lemma tx_inv_flags:
  assumes "tx_inv a bytes log0 idle p"
  shows "tx_inv a bytes log0 idle (hw_tx_shift p)" "tx_inv a bytes log0 idle (hw_tx_drained p)"
    "tx_inv a bytes log0 True (hw_rx_idle p)"
proof -
  have c: "tx_calm (hw_tx_shift p)" "tx_calm (hw_tx_drained p)" "tx_calm (hw_rx_idle p)"
    using assms by (simp_all add: tx_inv_def tx_calm_def rx_side_def hw_tx_shift_def hw_tx_drained_def
        hw_rx_idle_def flag_simps)
  have t: "tx_part (hw_tx_shift p) = tx_part p" "tx_part (hw_tx_drained p) = tx_part p"
    "tx_part (hw_rx_idle p) = tx_part p"
    by (simp_all add: tx_part_def hw_tx_shift_def hw_tx_drained_def hw_rx_idle_def)
  have i: "idle \<or> \<not> HAL_IS_BIT_SET (SR p) USART_SR_IDLE" "tx_inv a bytes log0 True p"
    using assms by (auto simp: tx_inv_def)
  show "tx_inv a bytes log0 idle (hw_tx_shift p)"
    by (rule tx_inv_part [OF assms t(1) c(1)]) (use i(1) in \<open>simp add: hw_tx_shift_def flag_simps\<close>)
  show "tx_inv a bytes log0 idle (hw_tx_drained p)"
    by (rule tx_inv_part [OF assms t(2) c(2)]) (use i(1) in \<open>simp add: hw_tx_drained_def flag_simps\<close>)
  show "tx_inv a bytes log0 True (hw_rx_idle p)"
    by (rule tx_inv_part [OF i(2) t(3) c(3)]) simp
qed

text \<open>Memory outside the source may change.\<close>

lemma tx_inv_mem:
  assumes "tx_inv a bytes log0 idle p" "\<forall>x \<in> tx_source a (length bytes). m x = mem p x"
  shows "tx_inv a bytes log0 idle (p\<lparr>mem := m\<rparr>)"
proof -
  have "read_bytes m a (length bytes) = read_bytes (mem p) a (length bytes)"
    by (rule read_bytes_cong) (use assms(2) in \<open>auto simp: tx_source_def\<close>)
  then show ?thesis
    using assms(1) by (simp add: tx_inv_def tx_phase_defs tx_calm_def rx_side_def)
qed

lemma tx_inv_rx_byte:
  assumes inv: "tx_inv a bytes log0 idle p"
    and r: "rx_accepts p \<and> rx_addr p \<notin> tx_source a (length bytes) \<or>
      \<not> rx_accepts p \<and> \<not> HAL_IS_BIT_SET (SR p) USART_SR_RXNE"
  shows "tx_inv a bytes log0 idle (hw_rx_byte b p)"
proof (cases "rx_accepts p")
  case True
  let ?m = "(mem p)(rx_addr p := b)"
  have "\<forall>x \<in> tx_source a (length bytes). ?m x = mem p x"
    using r True by auto
  from tx_inv_mem [OF inv this] have m: "tx_inv a bytes log0 idle (p\<lparr>mem := ?m\<rparr>)" .
  obtain h where h: "hdmarx p = Some h" "RxState p = HAL_UART_STATE_BUSY_RX" "\<exists>a n. stream_active a n h"
    using inv True by (auto simp: tx_inv_def tx_calm_def rx_side_def rx_accepts_def)
  have e: "HAL_IS_BIT_SET (CR3 p) USART_CR3_DMAR" "HAL_IS_BIT_SET (S_CR h) DMA_SxCR_EN"
    using True h(1) by (simp_all add: rx_accepts_def get_rx_def)
  then have "\<exists>a n. stream_active a n (dma_item (ucast (RxXferSize p)) h)"
    using h(3) dma_item_active(1) [of _ _ h "ucast (RxXferSize p)"] unfolding stream_active_def by blast
  then have "rx_side (hw_rx_byte b p)"
    using True h(1,2) e by (auto simp: rx_side_def hw_rx_byte_def get_rx_def)
  then have "tx_calm (hw_rx_byte b p)"
    using inv True by (simp add: tx_inv_def tx_calm_def hw_rx_byte_def)
  moreover have "tx_part (hw_rx_byte b p) = tx_part (p\<lparr>mem := ?m\<rparr>)"
    using True by (simp add: tx_part_def hw_rx_byte_def)
  ultimately show ?thesis
    using m inv True by (intro tx_inv_part [OF m]) (simp_all add: tx_inv_def hw_rx_byte_def)
next
  case False
  have c: "tx_calm (hw_rx_byte b p)"
    using inv False r by (simp add: tx_inv_def tx_calm_def rx_side_def hw_rx_byte_def flag_simps)
  have "tx_part (hw_rx_byte b p) = tx_part p"
    using False r by (simp add: tx_part_def hw_rx_byte_def)
  then show ?thesis
    using inv False r
    by (intro tx_inv_part [OF inv _ c]) (simp_all add: tx_inv_def hw_rx_byte_def flag_simps)
qed

lemma tx_irq_idle:
  assumes "hdmatx p = Some h" "tx_stream_idle h"
  shows "tx_dma_irq usart_user p = p\<lparr>hdmatx := Some (ht_part (ISR h) h)\<rparr>"
  using assms by (intro tx_irq_no_TC) (auto simp: tx_stream_idle_def)

lemma tx_inv_dma_irq:
  assumes "tx_inv a bytes log0 idle p"
  shows "tx_inv a bytes log0 idle (tx_dma_irq usart_user p)"
    "tx_sending a bytes log0 p \<Longrightarrow> tx_NDTR p = 0 \<Longrightarrow> tx_flushing bytes log0 (tx_dma_irq usart_user p)"
proof -
  have c: "tx_calm p" "read_bytes (mem p) a (length bytes) = bytes" "idle \<or> \<not> HAL_IS_BIT_SET (SR p) USART_SR_IDLE"
    using assms by (simp_all add: tx_inv_def)
  show fl: "tx_flushing bytes log0 (tx_dma_irq usart_user p)"
    if s: "tx_sending a bytes log0 p" and z: "tx_NDTR p = 0"
  proof -
    obtain h where h: "hdmatx p = Some h" "tx_stream_active a (TxXferSize p) h"
      "tx_log p = log0 @ map ucast (take (length bytes - unat (S_NDTR h)) bytes)"
      using s unfolding tx_sending_def by blast
    have z: "S_NDTR h = 0"
      using z h(1) by (simp add: tx_NDTR_def get_tx_def)
    show ?thesis
      unfolding tx_irq_TC [OF h(1,2) z]
      using s h(2,3) z tc_part_tx_idle by (simp add: tx_phase_defs flag_simps)
  qed
  have idle_keeps: "tx_inv a bytes log0 idle (tx_dma_irq usart_user p)"
    if h: "hdmatx p = Some h" "tx_stream_idle h" for h
    using assms h ht_part_tx_keeps(2) [of h "ISR h"] unfolding tx_irq_idle [OF h]
    by (auto simp: tx_inv_def tx_phase_defs tx_calm_def rx_side_def tx_stream_active_def tx_stream_idle_def)
  consider (sending) "tx_sending a bytes log0 p" | (idle) h where "hdmatx p = Some h" "tx_stream_idle h"
    using assms unfolding tx_inv_def tx_phase_defs by blast
  then show "tx_inv a bytes log0 idle (tx_dma_irq usart_user p)"
  proof cases
    case idle
    then show ?thesis
      by (rule idle_keeps)
  next
    case sending
    then obtain h where h: "hdmatx p = Some h" "tx_stream_active a (TxXferSize p) h"
      unfolding tx_sending_def by blast
    show ?thesis
    proof (cases "S_NDTR h = 0")
      case True
      then have "tx_calm (tx_dma_irq usart_user p)" "mem (tx_dma_irq usart_user p) = mem p"
        "SR (tx_dma_irq usart_user p) = SR p"
        unfolding tx_irq_TC [OF h True] using c(1) by (simp_all add: tx_calm_def rx_side_def flag_simps)
      moreover have "tx_flushing bytes log0 (tx_dma_irq usart_user p)"
        using fl sending True h(1) by (simp add: tx_NDTR_def get_tx_def)
      ultimately show ?thesis
        using c(2,3) by (simp add: tx_inv_def)
    next
      case False
      have "tx_dma_irq usart_user p = p\<lparr>hdmatx := Some (ht_part (ISR h) h)\<rparr>"
        using h False by (intro tx_irq_no_TC) (auto simp: tx_stream_active_def)
      then show ?thesis
        using c sending h ht_part_tx_keeps(1) [OF h(2), of "ISR h"] ht_part_keeps(3) [of "ISR h" h]
        by (simp add: tx_inv_def tx_sending_def tx_calm_def rx_side_def)
    qed
  qed
qed

section \<open>Reception beside a transmission\<close>

text \<open>\<open>restart_rx\<close> refuses and changes nothing, or starts the stream of the receiver.\<close>

lemma restart_rx_calm:
  assumes "tx_calm p"
  shows "tx_calm (restart_rx k p)" "tx_part (restart_rx k p) = tx_part p"
    "HAL_IS_BIT_SET (SR (restart_rx k p)) USART_SR_IDLE \<Longrightarrow> HAL_IS_BIT_SET (SR p) USART_SR_IDLE"
proof -
  let ?a = "DMA_buff p + ucast k"
  consider (same) "restart_rx k p = p"
    | (on) h where "hdmarx p = Some h" "stream_idle h" "DMA_Receive_Size p \<noteq> 0" "restart_rx k p = rx_restarted ?a h p"
  proof (cases "RxState p = HAL_UART_STATE_READY \<and> DMA_Receive_Size p \<noteq> 0 \<and> ?a \<noteq> 0")
    case True
    moreover from this obtain h where h: "hdmarx p = Some h" "stream_idle h"
      using assms by (auto simp: tx_calm_def rx_side_def)
    ultimately show ?thesis
      using on [OF h] restart_rx_ok [of p h k] assms by (simp add: tx_calm_def)
  next
    case False
    then have "restart_rx k p = p"
      by (auto simp: restart_rx_def HAL_UART_Receive_DMA_def)
    then show ?thesis
      by (rule same)
  qed
  then have "tx_calm (restart_rx k p) \<and> tx_part (restart_rx k p) = tx_part p \<and>
    (HAL_IS_BIT_SET (SR (restart_rx k p)) USART_SR_IDLE \<longrightarrow> HAL_IS_BIT_SET (SR p) USART_SR_IDLE)"
  proof cases
    case same
    then show ?thesis
      using assms by simp
  next
    case on
    have "stream_active ?a (DMA_Receive_Size p) (rx_start (Instance p) ?a (DMA_Receive_Size p) h)"
      using on(2,3) by (intro rx_start_active) (auto simp: stream_idle_def)
    then have "rx_side (rx_restarted ?a h p)"
      by (auto simp: rx_side_def rx_restarted_def flag_simps)
    then have "tx_calm (rx_restarted ?a h p)"
      using assms by (simp add: tx_calm_def rx_restarted_def flag_simps)
    moreover have "tx_part (rx_restarted ?a h p) = tx_part p"
      by (simp add: tx_part_def rx_restarted_def flag_simps)
    moreover have "\<not> HAL_IS_BIT_SET (SR (rx_restarted ?a h p)) USART_SR_IDLE"
      by (simp add: rx_restarted_def flag_simps)
    ultimately show ?thesis
      unfolding on(4) by blast
  qed
  then show "tx_calm (restart_rx k p)" "tx_part (restart_rx k p) = tx_part p"
    "HAL_IS_BIT_SET (SR (restart_rx k p)) USART_SR_IDLE \<Longrightarrow> HAL_IS_BIT_SET (SR p) USART_SR_IDLE"
    by blast+
qed

lemma restart_rx_inv:
  assumes "tx_inv a bytes log0 idle p"
  shows "tx_inv a bytes log0 idle (restart_rx k p)"
  using tx_inv_part [OF assms restart_rx_calm(2,1)] restart_rx_calm(3) [of p k] assms
  by (auto simp: tx_inv_def)

text \<open>The interrupt of the receiver's stream.\<close>

lemma rx_complete_calm:
  assumes "tx_calm p" "stream_idle k"
  shows "tx_calm (rx_complete k p)" "tx_part (rx_complete k p) = tx_part p" "SR (rx_complete k p) = SR p"
  using assms by (simp_all add: tx_calm_def rx_side_def tx_part_def rx_complete_def flag_simps)

lemma usart_RxCpltCallback_inv:
  assumes "tx_inv a bytes log0 idle p"
  shows "tx_inv a bytes log0 idle (usart_RxCpltCallback p)"
proof (cases "port_of (Instance p) = None")
  case True
  then show ?thesis
    using assms by (simp add: usart_RxCpltCallback_def)
next
  case False
  have e: "usart_RxCpltCallback p = restart_rx 0 (p\<lparr>DMA_Receive_Count := 0, DMA_buff := buff p,
      buff := DMA_buff p, receive_count := DMA_Receive_Count p + DMA_Receive_Size p, DMA_Receive_Size := 50,
      USART_State := st_full (USART_State p)\<rparr>)"
    using False by (cases p) (auto simp: usart_RxCpltCallback_def swap_buffers_def st_full_def Let_def)
  show ?thesis
    unfolding e using assms
    by (intro restart_rx_inv) (simp add: tx_inv_def tx_phase_defs tx_calm_def rx_side_def)
qed

lemma tx_inv_rx_dma_irq:
  assumes inv: "tx_inv a bytes log0 idle p"
  shows "tx_inv a bytes log0 idle (rx_dma_irq usart_user p)"
proof -
  have c: "tx_calm p" "idle \<or> \<not> HAL_IS_BIT_SET (SR p) USART_SR_IDLE"
    using inv by (simp_all add: tx_inv_def)
  obtain h where h: "hdmarx p = Some h" and
    hr: "HAL_IS_BIT_SET (CR3 p) USART_CR3_DMAR \<and> RxState p = HAL_UART_STATE_BUSY_RX \<and> (\<exists>a n. stream_active a n h) \<or>
      \<not> HAL_IS_BIT_SET (CR3 p) USART_CR3_DMAR \<and> RxState p = HAL_UART_STATE_READY \<and> stream_idle h"
    using c(1) by (auto simp: tx_calm_def rx_side_def)
  have hs: "stream_setup h" "XferHalfCpltCallback h = Some UART_DMARxHalfCplt"
    using hr by (auto simp: stream_active_def stream_idle_def)
  show ?thesis
  proof (cases "HAL_IS_BIT_SET (ISR h) (stream_mask h DMA_FLAG_TCIF0_4)")
    case False
    let ?q = "p\<lparr>hdmarx := Some (ht_part (ISR h) h)\<rparr>"
    have "rx_side ?q"
      using hr ht_part_keeps(1) [of _ _ h "ISR h"] ht_part_keeps(2) [of h "ISR h"] unfolding rx_side_def by auto
    then have "tx_calm ?q"
      using c(1) by (simp add: tx_calm_def)
    then show ?thesis
      unfolding rx_irq_no_TC [OF h hs False] using c(2)
      by (intro tx_inv_part [OF inv]) (simp_all add: tx_part_def)
  next
    case True
    then obtain b n where act: "stream_active b n h"
      using hr by (auto simp: stream_idle_def)
    then have z: "S_NDTR h = 0"
      using True by (simp add: stream_active_def)
    let ?k = "tc_part (ISR h) h"
    note k = rx_complete_calm [OF c(1) tc_part_idle(1) [OF act], of "ISR h"]
    have q: "tx_inv a bytes log0 idle (usart_RxCpltCallback (rx_complete ?k p))"
      by (rule usart_RxCpltCallback_inv, rule tx_inv_part [OF inv k(2,1)]) (use c(2) k(3) in simp)
    then have "DErrorCode (get_rx (usart_RxCpltCallback (rx_complete ?k p))) = HAL_DMA_ERROR_NONE"
      by (auto simp: tx_inv_def tx_calm_def rx_side_def stream_active_def stream_idle_def stream_setup_def get_rx_def)
    then show ?thesis
      using rx_irq_TC [OF h act z] q by simp
  qed
qed

section \<open>The interrupt of the UART\<close>

lemma calm_HAL_irq:
  assumes "tx_calm p"
  shows "HAL_UART_IRQHandler usart_user p =
    (if HAL_IS_BIT_SET (SR p) USART_SR_TC \<and> HAL_IS_BIT_SET (CR1 p) USART_CR1_TCIE
     then p\<lparr>CR1 := CLEAR_BIT (CR1 p) USART_CR1_TCIE, gState := HAL_UART_STATE_READY\<rparr> else p)"
  using assms by (simp add: tx_calm_def HAL_UART_IRQHandler_def UART_EndTransmit_IT_def and_zero_is_set Let_def)

lemma tx_inv_HAL_irq:
  assumes "tx_inv a bytes log0 idle p"
  shows "tx_inv a bytes log0 idle (HAL_UART_IRQHandler usart_user p)"
    "tx_flushing bytes log0 p \<Longrightarrow> HAL_IS_BIT_SET (SR p) USART_SR_TC \<Longrightarrow>
      tx_done bytes log0 (HAL_UART_IRQHandler usart_user p)"
    "SR (HAL_UART_IRQHandler usart_user p) = SR p"
proof -
  have c: "tx_calm p"
    using assms by (simp add: tx_inv_def)
  show "tx_inv a bytes log0 idle (HAL_UART_IRQHandler usart_user p)"
    using assms unfolding calm_HAL_irq [OF c]
    by (auto simp: tx_inv_def tx_phase_defs tx_calm_def rx_side_def flag_simps)
  show "tx_done bytes log0 (HAL_UART_IRQHandler usart_user p)"
    if "tx_flushing bytes log0 p" "HAL_IS_BIT_SET (SR p) USART_SR_TC"
    using that unfolding calm_HAL_irq [OF c] by (auto simp: tx_phase_defs flag_simps)
  show "SR (HAL_UART_IRQHandler usart_user p) = SR p"
    unfolding calm_HAL_irq [OF c] by simp
qed

lemma abort_tx_idle:
  assumes "tx_stream_active a n h" "stream_stops env"
  shows "tx_stream_idle (snd (HAL_DMA_Abort env h))"
  using assms
  by (simp add: tx_stream_idle_def tx_stream_active_def tx_setup_def HAL_DMA_Abort_def dma_disable_its_def
      HAL_DMA_DISABLE_def write_IFCR_def stream_mask_def flag_simps Let_def)

text \<open>The transmitter's part of \<open>HAL_UART_DMAStop\<close>: a transmission that runs is cut off.\<close>

lemma stop_tx_inv:
  assumes inv: "tx_inv a bytes log0 True p" and env: "stream_stops env"
  shows "tx_inv a bytes log0 True (stop_tx env p)" "RxState (stop_tx env p) = RxState p"
    "hdmarx (stop_tx env p) = hdmarx p"
    "HAL_IS_BIT_SET (CR3 (stop_tx env p)) USART_CR3_DMAR = HAL_IS_BIT_SET (CR3 p) USART_CR3_DMAR"
    "tx_done bytes log0 p \<Longrightarrow> tx_done bytes log0 (stop_tx env p)"
proof -
  have "tx_inv a bytes log0 True (stop_tx env p) \<and> RxState (stop_tx env p) = RxState p \<and>
    hdmarx (stop_tx env p) = hdmarx p \<and>
    HAL_IS_BIT_SET (CR3 (stop_tx env p)) USART_CR3_DMAR = HAL_IS_BIT_SET (CR3 p) USART_CR3_DMAR \<and>
    (tx_done bytes log0 p \<longrightarrow> tx_done bytes log0 (stop_tx env p))"
  proof (cases "gState p = HAL_UART_STATE_BUSY_TX \<and> HAL_IS_BIT_SET (CR3 p) USART_CR3_DMAT")
    case False
    then have "stop_tx env p = p"
      by (auto simp: stop_tx_def)
    then show ?thesis
      using inv by simp
  next
    case True
    then have s: "tx_sending a bytes log0 p"
      using inv by (auto simp: tx_inv_def tx_phase_defs)
    then obtain h where h: "hdmatx p = Some h" "tx_stream_active a (TxXferSize p) h"
      "tx_log p = log0 @ map ucast (take (length bytes - unat (S_NDTR h)) bytes)"
      unfolding tx_sending_def by blast
    let ?q = "p\<lparr>CR3 := CLEAR_BIT (CR3 p) USART_CR3_DMAT, hdmatx := Some (snd (HAL_DMA_Abort env h)),
      CR1 := CLEAR_BIT (CR1 p) (USART_CR1_TXEIE OR USART_CR1_TCIE), gState := HAL_UART_STATE_READY\<rparr>"
    have e: "stop_tx env p = ?q"
      using True h(1) by (simp add: stop_tx_def abort_tx_def upd_tx_def UART_EndTxTransfer_def uart_reg_defs)
    have "\<exists>k \<le> length bytes. tx_log p = log0 @ map ucast (take k bytes)"
      using h(3) by (intro exI [of _ "length bytes - unat (S_NDTR h)"]) simp
    then have "tx_cut bytes log0 ?q"
      using abort_tx_idle [OF h(2) env] by (simp add: tx_cut_def flag_simps)
    moreover have "tx_calm ?q"
      using inv by (simp add: tx_inv_def tx_calm_def rx_side_def flag_simps)
    ultimately show ?thesis
      unfolding e using inv True by (simp add: tx_inv_def tx_done_def flag_simps)
  qed
  then show "tx_inv a bytes log0 True (stop_tx env p)" "RxState (stop_tx env p) = RxState p"
    "hdmarx (stop_tx env p) = hdmarx p"
    "HAL_IS_BIT_SET (CR3 (stop_tx env p)) USART_CR3_DMAR = HAL_IS_BIT_SET (CR3 p) USART_CR3_DMAR"
    "tx_done bytes log0 p \<Longrightarrow> tx_done bytes log0 (stop_tx env p)"
    by blast+
qed

lemma DMAStop_inv:
  assumes inv: "tx_inv a bytes log0 True p" and env: "stream_stops env"
  shows "tx_inv a bytes log0 True (snd (HAL_UART_DMAStop env p))"
    "tx_done bytes log0 p \<Longrightarrow> tx_done bytes log0 (snd (HAL_UART_DMAStop env p))"
proof -
  note st = stop_tx_inv [OF inv env]
  let ?s = "stop_tx env p"
  have "tx_inv a bytes log0 True (snd (HAL_UART_DMAStop env p)) \<and>
    (tx_done bytes log0 p \<longrightarrow> tx_done bytes log0 (snd (HAL_UART_DMAStop env p)))"
  proof (cases "RxState p = HAL_UART_STATE_BUSY_RX \<and> HAL_IS_BIT_SET (CR3 p) USART_CR3_DMAR")
    case False
    then show ?thesis
      using HAL_UART_DMAStop_no_rx [of p env] st(1,5) by auto
  next
    case True
    then obtain h b n where h: "hdmarx p = Some h" "stream_active b n h"
      using inv by (auto simp: tx_inv_def tx_calm_def rx_side_def)
    let ?q = "?s\<lparr>CR3 := CLEAR_BIT (CLEAR_BIT (CR3 ?s) USART_CR3_DMAR) USART_CR3_EIE,
     hdmarx := Some (snd (HAL_DMA_Abort env h)),
     CR1 := CLEAR_BIT (CR1 ?s) (USART_CR1_RXNEIE OR USART_CR1_PEIE),
     RxState := HAL_UART_STATE_READY\<rparr>"
    have e: "snd (HAL_UART_DMAStop env p) = ?q"
      using HAL_UART_DMAStop_rx [of p h env] True h(1) by simp
    have "rx_side ?q"
      using abort_active_idle(1) [OF h(2) env] by (simp add: rx_side_def flag_simps)
    then have "tx_calm ?q"
      using st(1) by (simp add: tx_inv_def tx_calm_def flag_simps)
    then have "tx_inv a bytes log0 True ?q"
      by (intro tx_inv_part [OF st(1)]) (simp_all add: tx_part_def flag_simps)
    then show ?thesis
      unfolding e using st(5) by (simp add: tx_done_def flag_simps)
  qed
  then show "tx_inv a bytes log0 True (snd (HAL_UART_DMAStop env p))"
    "tx_done bytes log0 p \<Longrightarrow> tx_done bytes log0 (snd (HAL_UART_DMAStop env p))"
    by blast+
qed

lemma idle_swap_inv:
  "tx_inv a bytes log0 True p \<Longrightarrow> tx_inv a bytes log0 True (snd (idle_swap p))"
  "tx_done bytes log0 (snd (idle_swap p)) = tx_done bytes log0 p"
  by (simp_all add: idle_swap_def swap_buffers_def tx_inv_def tx_phase_defs tx_calm_def rx_side_def Let_def)

lemma restart_rx_done: "tx_calm p \<Longrightarrow> tx_done bytes log0 p \<Longrightarrow> tx_done bytes log0 (restart_rx k p)"
  using restart_rx_calm(2) [of p k] by (simp add: tx_done_def tx_part_def)

lemma tx_inv_usart_irq:
  assumes inv: "tx_inv a bytes log0 idle p" and env: "stream_stops env"
  shows "tx_inv a bytes log0 idle (usart_IRQHandler env p)"
    "tx_flushing bytes log0 p \<Longrightarrow> HAL_IS_BIT_SET (SR p) USART_SR_TC \<Longrightarrow> tx_done bytes log0 (usart_IRQHandler env p)"
proof -
  let ?p = "HAL_UART_IRQHandler usart_user p"
  note i = tx_inv_HAL_irq [OF inv]
  have "tx_inv a bytes log0 idle (usart_IRQHandler env p) \<and>
    (tx_done bytes log0 ?p \<longrightarrow> tx_done bytes log0 (usart_IRQHandler env p))"
  proof (cases "HAL_IS_BIT_SET (SR ?p) USART_SR_IDLE")
    case False
    then show ?thesis
      using i(1) by (simp add: usart_IRQHandler_def)
  next
    case True
    then have idle: "idle"
      using inv i(3) by (simp add: tx_inv_def)
    define j where "j = (HAL_UART_CLEAR_PEFLAG ?p)\<lparr>DMA_Receive_Count :=
        DMA_Receive_Count ?p + ucast (ucast (DMA_Receive_Size ?p) - rx_NDTR ?p)\<rparr>"
    have j: "tx_inv a bytes log0 True j" "tx_done bytes log0 j = tx_done bytes log0 ?p"
      using i(1) idle by (simp_all add: j_def uart_reg_defs tx_inv_def tx_phase_defs tx_calm_def rx_side_def flag_simps)
    note d = DMAStop_inv [OF j(1) env]
    let ?s = "idle_swap (snd (HAL_UART_DMAStop env j))"
    have s: "tx_inv a bytes log0 True (snd ?s)"
      by (rule idle_swap_inv(1) [OF d(1)])
    then have "tx_done bytes log0 j \<longrightarrow> tx_done bytes log0 (restart_rx (fst ?s) (snd ?s))"
      using d(2) idle_swap_inv(2) restart_rx_done [of "snd ?s" bytes log0 "fst ?s"] by (auto simp: tx_inv_def)
    moreover have "usart_IRQHandler env p = restart_rx (fst ?s) (snd ?s)"
      using True by (simp add: usart_IRQHandler_def j_def uart_reg_defs rx_NDTR_def get_rx_def case_prod_beta Let_def)
    ultimately show ?thesis
      using restart_rx_inv [OF s, of "fst ?s"] j(2) idle by simp
  qed
  then show "tx_inv a bytes log0 idle (usart_IRQHandler env p)"
    "tx_flushing bytes log0 p \<Longrightarrow> HAL_IS_BIT_SET (SR p) USART_SR_TC \<Longrightarrow> tx_done bytes log0 (usart_IRQHandler env p)"
    using i(2) by blast+
qed

section \<open>Every step keeps the invariant\<close>

lemma tx_inv_weaken: "tx_inv a bytes log0 idle p \<Longrightarrow> tx_inv a bytes log0 True p"
  by (auto simp: tx_inv_def)

lemma tx_inv_step:
  assumes "tx_step env (tx_source a (length bytes)) e p q" "stream_stops env" "tx_inv a bytes log0 idle p"
  shows "tx_inv a bytes log0 (idle \<or> e = RxIdle) q"
  using assms(1)
proof cases
  case rx_idle
  then show ?thesis
    using tx_inv_flags(3) [OF assms(3)] by simp
qed (simp_all add: tx_inv_item [OF assms(3)] tx_inv_flags [OF assms(3)] tx_inv_dma_irq [OF assms(3)]
    tx_inv_usart_irq [OF assms(3,2)] tx_inv_rx_byte [OF assms(3)] tx_inv_rx_dma_irq [OF assms(3)]
    tx_inv_mem [OF assms(3)])

lemma tx_inv_run:
  assumes "tx_run env (tx_source a (length bytes)) p es q" "stream_stops env" "tx_inv a bytes log0 idle p"
  shows "tx_inv a bytes log0 (idle \<or> RxIdle \<in> set es) q"
  using assms(1)
proof induction
  case start
  then show ?case
    using assms(3) by simp
next
  case (step es q e r)
  have "(idle \<or> RxIdle \<in> set (es @ [e])) = ((idle \<or> RxIdle \<in> set es) \<or> e = RxIdle)"
    by auto
  then show ?case
    using tx_inv_step [OF step.hyps(2) assms(2) step.IH] by (simp only:)
qed

section \<open>From the start to the end\<close>

text \<open>A port that can send.\<close>

definition tx_ready :: "'f STUsart \<Rightarrow> bool" where
  "tx_ready p \<longleftrightarrow> tx_calm p \<and> gState p = HAL_UART_STATE_READY \<and>
     \<not> HAL_IS_BIT_SET (CR3 p) USART_CR3_DMAT \<and> \<not> HAL_IS_BIT_SET (CR1 p) USART_CR1_TCIE \<and>
     (\<exists>h. hdmatx p = Some h \<and> tx_setup h \<and> DState h = HAL_DMA_STATE_READY \<and> DLock h = HAL_UNLOCKED)"

text \<open>No idle line has come in a run, and none was waiting for its interrupt when it began.\<close>

definition no_idle_line :: "'f STUsart \<Rightarrow> tx_event list \<Rightarrow> bool" where
  "no_idle_line p es \<longleftrightarrow> \<not> HAL_IS_BIT_SET (SR p) USART_SR_IDLE \<and> RxIdle \<notin> set es"

lemma tx_inv_ready: "tx_inv a bytes log0 idle p \<Longrightarrow> gState p = HAL_UART_STATE_READY \<Longrightarrow>
    tx_ready p \<and> (\<not> idle \<longrightarrow> tx_log p = log0 @ map ucast bytes)"
  by (auto simp: tx_inv_def tx_phase_defs tx_ready_def tx_stream_idle_def)

lemma tx_done_ready: "tx_inv a bytes log0 idle p \<Longrightarrow> tx_done bytes log0 p \<Longrightarrow>
    tx_ready p \<and> tx_log p = log0 @ map ucast bytes"
  by (auto simp: tx_inv_def tx_done_def tx_ready_def tx_stream_idle_def)

lemma com_send_str_sending:
  assumes r: "tx_ready (hw 0 p)" and a: "str \<noteq> 0" "len \<noteq> 0"
  shows "\<exists>q. com_send_str env hw (Suc fuel) p str len = Some (HAL_OK, q) \<and>
    tx_inv str (read_bytes (mem (hw 0 p)) str (unat len)) (tx_log (hw 0 p))
      (HAL_IS_BIT_SET (SR (hw 0 p)) USART_SR_IDLE) q"
proof -
  let ?p = "hw 0 p"
  obtain h where h: "hdmatx ?p = Some h" "tx_setup h" "DState h = HAL_DMA_STATE_READY" "DLock h = HAL_UNLOCKED"
    using r unfolding tx_ready_def by blast
  have c: "gState ?p = HAL_UART_STATE_READY" "Lock ?p = HAL_UNLOCKED" "tx_calm ?p"
    "HAL_UART_GetState ?p \<noteq> HAL_UART_STATE_BUSY_TX"
    using r by (auto simp: tx_ready_def tx_calm_def rx_side_def HAL_UART_GetState_def)
  then have e: "com_send_str env hw (Suc fuel) p str len = Some (HAL_UART_Transmit_DMA ?p str len)"
    by (simp add: com_send_str_def Let_def)
  note t = HAL_UART_Transmit_DMA_ok [OF c(1) a c(2) h(1)]
  let ?q = "snd (HAL_UART_Transmit_DMA ?p str len)"
  let ?bytes = "read_bytes (mem ?p) str (unat len)"
  have n: "unat (ucast len :: u32) = length ?bytes"
    by simp
  have q: "hdmatx ?q = Some (tx_start (Instance ?p) str len h)" "TxXferSize ?q = len"
    "gState ?q = HAL_UART_STATE_BUSY_TX" "CR3 ?q = SET_BIT (CR3 ?p) USART_CR3_DMAT" "CR1 ?q = CR1 ?p"
    "tx_log ?q = tx_log ?p" "mem ?q = mem ?p" "Lock ?q = HAL_UNLOCKED" "SR ?q = CLEAR_BIT (SR ?p) USART_SR_TC"
    "RxState ?q = RxState ?p" "hdmarx ?q = hdmarx ?p"
    unfolding t by simp_all
  have "tx_sending str ?bytes (tx_log ?p) ?q"
    unfolding tx_sending_def q
    using tx_start_active [where a = str and inst = "Instance ?p", OF h(2,3,4) a(2)] r
    by (simp add: tx_ready_def flag_simps n)
  moreover have "tx_calm ?q" "HAL_IS_BIT_SET (SR ?q) USART_SR_IDLE = HAL_IS_BIT_SET (SR ?p) USART_SR_IDLE"
    using c(3) unfolding tx_calm_def rx_side_def q by (simp_all add: flag_simps)
  ultimately show ?thesis
    unfolding e by (simp add: t tx_inv_def)
qed

lemma tx_run_append: "tx_run env src q fs r \<Longrightarrow> tx_run env src p es q \<Longrightarrow> tx_run env src p (es @ fs) r"
proof (induction rule: tx_run.induct)
  case start
  then show ?case by simp
next
  case (step fs q' f r)
  have "tx_run env src p ((es @ fs) @ [f]) r"
    by (rule tx_run.step [OF step.IH [OF step.prems] step.hyps(2)])
  then show ?case
    by simp
qed

text \<open>The transmitter can go on without a further idle line.\<close>

definition tx_leads :: "hw_env \<Rightarrow> u32 set \<Rightarrow> 'f STUsart \<Rightarrow> 'f STUsart \<Rightarrow> bool" where
  "tx_leads env src p q \<longleftrightarrow> (\<exists>es. RxIdle \<notin> set es \<and> tx_run env src p es q)"

lemma tx_leads_refl: "tx_leads env src p p"
  unfolding tx_leads_def by (intro exI [of _ "[]"]) (simp add: tx_run.start)

lemma tx_leads_step: "tx_leads env src p q \<Longrightarrow> tx_step env src e q r \<Longrightarrow> e \<noteq> RxIdle \<Longrightarrow> tx_leads env src p r"
  unfolding tx_leads_def by (metis Un_iff empty_iff insert_iff list.set set_append tx_run.step)

lemma tx_leads_trans: "tx_leads env src p q \<Longrightarrow> tx_leads env src q r \<Longrightarrow> tx_leads env src p r"
  unfolding tx_leads_def by (metis Un_iff set_append tx_run_append)

text \<open>The shift register is free at some time.\<close>

lemma tx_leads_TXE:
  assumes "tx_inv a bytes log0 idle p"
  shows "\<exists>q. tx_leads env src p q \<and> tx_inv a bytes log0 idle q \<and> HAL_IS_BIT_SET (SR q) USART_SR_TXE \<and>
    tx_part q = tx_part p"
proof (cases "HAL_IS_BIT_SET (SR p) USART_SR_TXE")
  case True
  then show ?thesis
    using assms tx_leads_refl by blast
next
  case False
  then show ?thesis
    using tx_leads_step [OF tx_leads_refl tx_step.shift [OF False]] tx_inv_flags(1) [OF assms]
    by (intro exI [of _ "hw_tx_shift p"]) (simp add: hw_tx_shift_def tx_part_def flag_simps)
qed

lemma tx_part_phases:
  "tx_part q = tx_part p \<Longrightarrow> tx_sending a bytes log0 q = tx_sending a bytes log0 p"
  "tx_part q = tx_part p \<Longrightarrow> tx_flushing bytes log0 q = tx_flushing bytes log0 p"
  "tx_part q = tx_part p \<Longrightarrow> tx_NDTR q = tx_NDTR p"
  by (simp_all add: tx_part_def tx_phase_defs tx_NDTR_def get_tx_def)

lemma tx_flushing_ends:
  assumes "tx_inv a bytes log0 idle p" "tx_flushing bytes log0 p" "stream_stops env"
  shows "\<exists>r. tx_leads env src p r \<and> tx_inv a bytes log0 idle r \<and> tx_done bytes log0 r"
proof -
  obtain q where q: "tx_leads env src p q" "tx_inv a bytes log0 idle q" "HAL_IS_BIT_SET (SR q) USART_SR_TXE"
    "tx_flushing bytes log0 q"
    using tx_leads_TXE [OF assms(1), of env src] tx_part_phases(2) assms(2) by blast
  have "\<not> tx_dma_on q"
    using q(4) by (simp add: tx_flushing_def tx_dma_on_def)
  then have s: "tx_leads env src p (hw_tx_drained q)"
    using q(1,3) by (auto intro: tx_leads_step tx_step.drained)
  have d: "tx_inv a bytes log0 idle (hw_tx_drained q)" "tx_flushing bytes log0 (hw_tx_drained q)"
    "HAL_IS_BIT_SET (SR (hw_tx_drained q)) USART_SR_TC"
    using q tx_inv_flags(2) [OF q(2)] by (simp_all add: tx_flushing_def hw_tx_drained_def flag_simps)
  show ?thesis
    using tx_leads_step [OF s tx_step.usart_irq] tx_inv_usart_irq [OF d(1) assms(3)] d(2,3) by blast
qed

lemma tx_sending_ends:
  "tx_inv a bytes log0 idle p \<Longrightarrow> tx_sending a bytes log0 p \<Longrightarrow> unat (tx_NDTR p) = n \<Longrightarrow> stream_stops env \<Longrightarrow>
   \<exists>r. tx_leads env src p r \<and> tx_inv a bytes log0 idle r \<and> tx_done bytes log0 r"
proof (induction n arbitrary: p)
  case 0
  then have "tx_NDTR p = 0"
    by (simp add: unat_eq_zero)
  then obtain r where "tx_leads env src (tx_dma_irq usart_user p) r" "tx_inv a bytes log0 idle r" "tx_done bytes log0 r"
    using 0 tx_inv_dma_irq tx_flushing_ends by blast
  then show ?case
    using tx_leads_trans [OF tx_leads_step [OF tx_leads_refl tx_step.dma_irq]] by blast
next
  case (Suc n)
  obtain q where q: "tx_leads env src p q" "tx_inv a bytes log0 idle q" "HAL_IS_BIT_SET (SR q) USART_SR_TXE"
    "tx_sending a bytes log0 q" "tx_NDTR q = tx_NDTR p"
    using tx_leads_TXE [OF Suc.prems(1), of env src] tx_part_phases Suc.prems(2) by blast
  have "tx_NDTR q \<noteq> 0"
    using Suc.prems(3) q(5) by auto
  then have on: "tx_dma_on q"
    using q(4) unfolding tx_sending_def
    by (auto simp: tx_dma_on_def tx_NDTR_def get_tx_def tx_stream_active_def)
  have "unat (tx_NDTR (hw_tx_item q)) = n"
    using tx_inv_item(3,4) [OF q(2) on] q(5) Suc.prems(3) by (simp add: unat_minus_one)
  then obtain r where r: "tx_leads env src (hw_tx_item q) r" "tx_inv a bytes log0 idle r" "tx_done bytes log0 r"
    using Suc.IH tx_inv_item(1,2) [OF q(2) on] Suc.prems(4) by blast
  have "tx_leads env src p (hw_tx_item q)"
    using tx_leads_step [OF q(1) tx_step.item [OF on q(3)]] by simp
  then show ?case
    using r tx_leads_trans by blast
qed

text \<open>From every state that the invariant allows, the transmitter becomes free, with everything sent unless it was
  cut off before.\<close>

lemma tx_inv_ends:
  assumes "tx_inv a bytes log0 idle p" "stream_stops env"
  shows "\<exists>r. tx_leads env src p r \<and> tx_ready r \<and> (\<not> idle \<longrightarrow> tx_log r = log0 @ map ucast bytes)"
proof -
  consider (ready) "gState p = HAL_UART_STATE_READY"
    | (ends) r where "tx_leads env src p r" "tx_inv a bytes log0 idle r" "tx_done bytes log0 r"
    using assms tx_sending_ends [OF assms(1)] tx_flushing_ends [OF assms(1)]
    by (auto simp: tx_inv_def tx_done_def tx_cut_def) blast+
  then show ?thesis
  proof cases
    case ready
    then show ?thesis
      using tx_inv_ready [OF assms(1)] tx_leads_refl by blast
  next
    case ends
    then show ?thesis
      using tx_done_ready by blast
  qed
qed

lemma tx_inv_prefix:
  assumes "tx_inv a bytes log0 idle p"
  shows "\<exists>k \<le> length bytes. tx_log p = log0 @ map ucast (take k bytes) \<and>
    (gState p = HAL_UART_STATE_READY \<longrightarrow> tx_ready p \<and> (\<not> idle \<longrightarrow> k = length bytes))"
proof (cases "gState p = HAL_UART_STATE_READY")
  case True
  note r = tx_inv_ready [OF assms True]
  show ?thesis
  proof (cases idle)
    case False
    then show ?thesis
      using r by (intro exI [of _ "length bytes"]) simp
  next
    case idle: True
    then obtain k where "k \<le> length bytes" "tx_log p = log0 @ map ucast (take k bytes)"
      using assms True by (auto simp: tx_inv_def tx_phase_defs intro: that [of "length bytes"])
    then show ?thesis
      using r idle by blast
  qed
next
  case False
  then consider (sending) "tx_sending a bytes log0 p" | (flushing) "tx_flushing bytes log0 p"
    using assms by (auto simp: tx_inv_def tx_done_def tx_cut_def)
  then show ?thesis
  proof cases
    case sending
    then show ?thesis
      using False unfolding tx_sending_def by (meson diff_le_self)
  next
    case flushing
    then show ?thesis
      using False by (intro exI [of _ "length bytes"]) (simp add: tx_flushing_def)
  qed
qed

lemma transmission_inv:
  assumes "tx_ready (hw 0 p)" "str \<noteq> 0" "len \<noteq> 0" "stream_stops env"
    and "com_send_str env hw (Suc fuel) p str len = Some (st, q0)"
    and "tx_run env (tx_source str (unat len)) q0 es q"
  shows "tx_inv str (read_bytes (mem (hw 0 p)) str (unat len)) (tx_log (hw 0 p)) (\<not> no_idle_line (hw 0 p) es) q"
proof -
  let ?bytes = "read_bytes (mem (hw 0 p)) str (unat len)"
  let ?i = "HAL_IS_BIT_SET (SR (hw 0 p)) USART_SR_IDLE"
  have "tx_inv str ?bytes (tx_log (hw 0 p)) ?i q0"
    using com_send_str_sending [of hw p str len env fuel, OF assms(1-3)] assms(5) by auto
  then have "tx_inv str ?bytes (tx_log (hw 0 p)) (?i \<or> RxIdle \<in> set es) q"
    using tx_inv_run [where a = str and bytes = ?bytes, OF _ assms(4)] assms(6) by simp
  moreover have "(\<not> no_idle_line (hw 0 p) es) = (?i \<or> RxIdle \<in> set es)"
    by (simp add: no_idle_line_def)
  ultimately show ?thesis
    by (simp only:)
qed

text \<open>
  C10. A transmission started by \<open>com_send_str\<close> on a port that can send is correct at every moment: in
  every state that the transmitter's hardware, the interrupts of the UART and of its two DMA streams, received bytes,
  idle lines and changes of other memory can lead to, in any order, as long as the source is left alone and the line has no error, what
  was written to the data register is a prefix of the bytes asked for; and when the transmitter is ready again, it can take the
  next transmission, and all of the bytes were written, unless an idle line of the receiver has come in between.
\<close>

theorem transmission_prefix:
  assumes "tx_ready (hw 0 p)" "str \<noteq> 0" "len \<noteq> 0" "stream_stops env"
    and "com_send_str env hw (Suc fuel) p str len = Some (st, q0)"
    and "tx_run env (tx_source str (unat len)) q0 es q"
  shows "\<exists>k \<le> unat len. tx_log q = tx_log (hw 0 p) @ map ucast (take k (read_bytes (mem (hw 0 p)) str (unat len))) \<and>
    (gState q = HAL_UART_STATE_READY \<longrightarrow> tx_ready q \<and> (no_idle_line (hw 0 p) es \<longrightarrow> k = unat len))"
  using tx_inv_prefix [OF transmission_inv [OF assms]] by simp

text \<open>
  C11. A transmission started by \<open>com_send_str\<close> on a port that can send never gets stuck: from every
  state reached, whatever came before, idle lines included, hardware and interrupts alone can lead on to a state in which the port can
  send again; and if no idle line has come so far, to one in which all bytes were written as well.
\<close>

theorem transmission_completes:
  assumes "tx_ready (hw 0 p)" "str \<noteq> 0" "len \<noteq> 0" "stream_stops env"
    and "com_send_str env hw (Suc fuel) p str len = Some (st, q0)"
    and "tx_run env (tx_source str (unat len)) q0 es q"
  shows "\<exists>fs r. tx_run env (tx_source str (unat len)) q fs r \<and> RxIdle \<notin> set fs \<and> tx_ready r \<and>
    (no_idle_line (hw 0 p) es \<longrightarrow>
      tx_log r = tx_log (hw 0 p) @ map ucast (read_bytes (mem (hw 0 p)) str (unat len)))"
  using tx_inv_ends [OF transmission_inv [OF assms] assms(4), of "tx_source str (unat len)"]
  unfolding tx_leads_def by auto

section \<open>A port after \<open>com_init\<close> can send\<close>

lemma com_init_tx_ready:
  assumes "com_zero p" "port_of (Instance p) = Some k" "Parity (Init p) \<in> {0, 0x400, 0x600}"
  shows "tx_ready (com_init env rcc p)"
proof -
  obtain ht hr where e: "com_init env rcc p = restart_rx 0 (com_q rcc ht hr p)"
    and h: "tx_setup ht" "DState ht = HAL_DMA_STATE_READY" "DLock ht = HAL_UNLOCKED"
    using com_init_eq [OF assms(1,2), of env rcc] by blast
  let ?q = "com_q rcc ht hr p"
  have r: "com_init env rcc p = rx_restarted (buff2 p) hr ?q"
    using restart_rx_ok [of ?q hr 0] assms(1) unfolding e by (simp add: com_q_def com_zero_def regions_ok_def)
  have q: "SR ?q = 0xC0" "CR3 ?q = 0" "quiet_tx (com_init env rcc p)" "Lock (com_init env rcc p) = HAL_UNLOCKED"
    "hdmatx ?q = Some ht"
    using assms(1) com_init_ready(1) [OF assms, of env rcc]
    by (simp_all add: com_q_def com_zero_def port_ready_def port_inv_def)
  have "\<not> HAL_IS_BIT_SET (CLEAR_BIT (SR ?q) SR_rx_flags) (USART_SR_PE OR USART_SR_FE OR USART_SR_ORE OR USART_SR_NE)"
    "\<not> HAL_IS_BIT_SET (SET_BIT (SET_BIT (CR3 ?q) USART_CR3_EIE) USART_CR3_DMAR) USART_CR3_DMAT"
    by (simp_all add: q(2) flag_simps)
  moreover have "rx_side (com_init env rcc p)"
    by (intro rx_live_side port_ready_live com_init_ready(1) [OF assms])
  ultimately show ?thesis
    using q(3-5) h unfolding r by (auto simp: tx_ready_def tx_calm_def quiet_tx_def rx_restarted_def)
qed

lemma com_init_no_idle:
  assumes "com_zero p" "port_of (Instance p) = Some k" "Parity (Init p) \<in> {0, 0x400, 0x600}"
  shows "\<not> HAL_IS_BIT_SET (SR (com_init env rcc p)) USART_SR_IDLE"
proof -
  obtain ht hr where "com_init env rcc p = restart_rx 0 (com_q rcc ht hr p)"
    using com_init_eq [OF assms(1,2), of env rcc] by blast
  then have "com_init env rcc p = rx_restarted (buff2 p) hr (com_q rcc ht hr p)"
    using restart_rx_ok [of "com_q rcc ht hr p" hr 0] assms(1)
    by (simp add: com_q_def com_zero_def regions_ok_def)
  then show ?thesis
    by (simp add: rx_restarted_def flag_simps)
qed

text \<open>A started port with two bytes to send.\<close>

definition port_to_send :: "nat STUsart" where
  "port_to_send = port_started\<lparr>mem := (\<lambda>_. 0)(0x20000100 := 79, 0x20000101 := 75), tx_log := []\<rparr>"

lemma port_to_send_ready: "tx_ready port_to_send"
  using com_init_tx_ready [OF port_example_zero, of env_example rcc_example]
  by (simp add: port_to_send_def port_started_def tx_ready_def tx_calm_def rx_side_def)

lemma port_to_send_bytes: "read_bytes (mem port_to_send) 0x20000100 (unat (2 :: u16)) = [79, 75]"
  unfolding read_two by (simp add: port_to_send_def)

lemma port_to_send_started:
  "\<exists>q. com_send_str env_example (\<lambda>_ p. p) (Suc 0) port_to_send 0x20000100 2 = Some (HAL_OK, q)"
  using com_send_str_sending [where hw = "\<lambda>_ p. p" and p = port_to_send and str = "0x20000100" and len = 2
      and env = env_example and fuel = 0] port_to_send_ready by auto

lemma port_to_send_no_idle: "no_idle_line port_to_send []"
  using com_init_no_idle [OF port_example_zero, of env_example rcc_example]
  by (simp add: no_idle_line_def port_to_send_def port_started_def)

theorem transmission_prefix_witness:
  "\<exists>q0. com_send_str env_example (\<lambda>_ p. p) (Suc 0) port_to_send 0x20000100 2 = Some (HAL_OK, q0) \<and>
     (\<exists>k \<le> 2. tx_log q0 = map ucast (take k [79, 75 :: u8]))"
proof -
  obtain q where q: "com_send_str env_example (\<lambda>_ p. p) (Suc 0) port_to_send 0x20000100 2 = Some (HAL_OK, q)"
    using port_to_send_started by blast
  have "tx_log port_to_send = []"
    by (simp add: port_to_send_def)
  then show ?thesis
    using transmission_prefix [where hw = "\<lambda>_ p. p" and p = port_to_send, OF port_to_send_ready _ _ env_example_stops
        q tx_run.start] q port_to_send_bytes by auto
qed

theorem transmission_completes_witness:
  "\<exists>q0 fs r. com_send_str env_example (\<lambda>_ p. p) (Suc 0) port_to_send 0x20000100 2 = Some (HAL_OK, q0) \<and>
     tx_run env_example (tx_source 0x20000100 2) q0 fs r \<and> tx_ready r \<and> tx_log r = [79, 75]"
proof -
  obtain q where q: "com_send_str env_example (\<lambda>_ p. p) (Suc 0) port_to_send 0x20000100 2 = Some (HAL_OK, q)"
    using port_to_send_started by blast
  have "tx_log port_to_send = []"
    by (simp add: port_to_send_def)
  then show ?thesis
    using transmission_completes [where hw = "\<lambda>_ p. p" and p = port_to_send, OF port_to_send_ready _ _ env_example_stops
        q tx_run.start] q port_to_send_bytes port_to_send_no_idle by auto
qed

end
