(* ===== verification/MainApp.thy ===== *)
theory MainApp
  imports UsartTx
begin

text \<open>
  The application, USER/main.c and the polling part of LWIP/lwip_app/lwip_comm/lwip_comm.c: the
  six ports together, their start, the interrupt handlers that serve them, the user functions,
  which forward what a port received through port 1, and the round of the main loop that serves the
  ports.
\<close>

section \<open>The six ports\<close>

datatype call_back =
    usart1_call_back | usart2_call_back | usart3_call_back
  | usart4_call_back | usart5_call_back | usart6_call_back

type_synonym ports = "usart_port \<Rightarrow> call_back STUsart"

definition usart_port_init :: "hw_env \<Rightarrow> rcc_freq \<Rightarrow> u32 \<Rightarrow> call_back \<Rightarrow> call_back STUsart
    \<Rightarrow> call_back STUsart" where
  "usart_port_init env rcc inst cb p =
     (let p = p\<lparr>Instance := inst\<rparr>;
          p = p\<lparr>Init := (Init p)\<lparr>BaudRate := 115200\<rparr>\<rparr>;
          p = p\<lparr>Init := (Init p)\<lparr>Parity := UART_PARITY_NONE\<rparr>\<rparr>;
          p = p\<lparr>func := Some cb\<rparr>
      in com_init env rcc p)"

definition usart_init :: "hw_env \<Rightarrow> rcc_freq \<Rightarrow> ports \<Rightarrow> ports" where
  "usart_init env rcc ps =
     (let ps = ps(usart1 := usart_port_init env rcc USART1 usart1_call_back (ps usart1));
          ps = ps(usart2 := usart_port_init env rcc USART2 usart2_call_back (ps usart2));
          ps = ps(usart3 := usart_port_init env rcc USART3 usart3_call_back (ps usart3));
          ps = ps(usart4 := usart_port_init env rcc UART4 usart1_call_back (ps usart4));
          ps = ps(usart5 := usart_port_init env rcc UART5 usart2_call_back (ps usart5))
      in ps(usart6 := usart_port_init env rcc USART6 usart3_call_back (ps usart6)))"

section \<open>User functions\<close>

text \<open>
  All six have the same body: \<open>com_send_str(&usart1, str, len)\<close>, its status ignored, and the result 0.
  \<open>hw\<close> is what the hardware does to port 1 while its state is polled.
\<close>

definition run_call_back :: "hw_env \<Rightarrow> (nat \<Rightarrow> call_back STUsart \<Rightarrow> call_back STUsart) \<Rightarrow> nat
    \<Rightarrow> call_back \<Rightarrow> u32 \<Rightarrow> u16 \<Rightarrow> u32 \<Rightarrow> u16 \<Rightarrow> ports \<Rightarrow> (u32 \<times> ports) option" where
  "run_call_back env hw fuel cb str len store count ps =
     (case com_send_str env hw fuel (ps usart1) str len of
        None \<Rightarrow> None
      | Some (_, p) \<Rightarrow> Some (0, ps(usart1 := p)))"

text \<open>\<open>receive_str_manage\<close> on port \<open>k\<close> of the six, whose user function works on all of them.\<close>

definition manage_port :: "hw_env \<Rightarrow> (nat \<Rightarrow> call_back STUsart \<Rightarrow> call_back STUsart) \<Rightarrow> nat
    \<Rightarrow> usart_port \<Rightarrow> u32 \<Rightarrow> u8 \<Rightarrow> ports \<Rightarrow> (u8 \<times> ports) option" where
  "manage_port env hw fuel k store count ps =
     (let ps = ps(k := rsm_swap env (ps k))
      in if receive_count (ps k) \<noteq> 0 then
           (let ps = ps(k := rsm_enter (ps k))
            in case func (ps k) of
                 None \<Rightarrow> Some (0, ps(k := (ps k)\<lparr>fault := True\<rparr>))
               | Some f \<Rightarrow>
                   (case run_call_back env hw fuel f (buff (ps k)) (receive_count (ps k)) store
                           (ucast count) ps of
                      None \<Rightarrow> None
                    | Some (ret, ps) \<Rightarrow> Some (ucast ret, ps(k := rsm_exit (ps k)))))
         else Some (0, ps))"

text \<open>The calls in \<open>lwip_periodic_handle\<close>, in their order.\<close>

fun manage_ports :: "hw_env \<Rightarrow> (nat \<Rightarrow> call_back STUsart \<Rightarrow> call_back STUsart) \<Rightarrow> nat
    \<Rightarrow> usart_port list \<Rightarrow> ports \<Rightarrow> ports option" where
  "manage_ports env hw fuel [] ps = Some ps"
| "manage_ports env hw fuel (k # ks) ps =
     (case manage_port env hw fuel k 0 0 ps of
        None \<Rightarrow> None
      | Some (_, ps) \<Rightarrow> manage_ports env hw fuel ks ps)"

definition lwip_periodic_ports :: "hw_env \<Rightarrow> (nat \<Rightarrow> call_back STUsart \<Rightarrow> call_back STUsart) \<Rightarrow> nat
    \<Rightarrow> ports \<Rightarrow> ports option" where
  "lwip_periodic_ports env hw fuel ps =
     manage_ports env hw fuel [usart2, usart1, usart3, usart4, usart6, usart5] ps"

section \<open>Interrupts\<close>

text \<open>The handlers of the file, each on the port its name and body refer to.\<close>

definition USART1_IRQHandler :: "hw_env \<Rightarrow> ports \<Rightarrow> ports" where
  "USART1_IRQHandler env ps = ps(usart1 := usart_IRQHandler env (ps usart1))"

definition USART2_IRQHandler :: "hw_env \<Rightarrow> ports \<Rightarrow> ports" where
  "USART2_IRQHandler env ps = ps(usart2 := usart_IRQHandler env (ps usart2))"

definition USART3_IRQHandler :: "hw_env \<Rightarrow> ports \<Rightarrow> ports" where
  "USART3_IRQHandler env ps = ps(usart3 := usart_IRQHandler env (ps usart3))"

definition UART4_IRQHandler :: "hw_env \<Rightarrow> ports \<Rightarrow> ports" where
  "UART4_IRQHandler env ps = ps(usart4 := usart_IRQHandler env (ps usart4))"

definition UART5_IRQHandler :: "hw_env \<Rightarrow> ports \<Rightarrow> ports" where
  "UART5_IRQHandler env ps = ps(usart5 := usart_IRQHandler env (ps usart5))"

definition USART6_IRQHandler :: "hw_env \<Rightarrow> ports \<Rightarrow> ports" where
  "USART6_IRQHandler env ps = ps(usart6 := usart_IRQHandler env (ps usart6))"

definition DMA1_Stream3_IRQHandler :: "ports \<Rightarrow> ports" where
  "DMA1_Stream3_IRQHandler ps = ps(usart3 := tx_dma_irq usart_user (ps usart3))"

definition DMA1_Stream1_IRQHandler :: "ports \<Rightarrow> ports" where
  "DMA1_Stream1_IRQHandler ps = ps(usart3 := rx_dma_irq usart_user (ps usart3))"

definition DMA2_Stream7_IRQHandler :: "ports \<Rightarrow> ports" where
  "DMA2_Stream7_IRQHandler ps = ps(usart1 := tx_dma_irq usart_user (ps usart1))"

definition DMA2_Stream5_IRQHandler :: "ports \<Rightarrow> ports" where
  "DMA2_Stream5_IRQHandler ps = ps(usart1 := rx_dma_irq usart_user (ps usart1))"

definition DMA1_Stream5_IRQHandler :: "ports \<Rightarrow> ports" where
  "DMA1_Stream5_IRQHandler ps = ps(usart2 := rx_dma_irq usart_user (ps usart2))"

definition DMA1_Stream6_IRQHandler :: "ports \<Rightarrow> ports" where
  "DMA1_Stream6_IRQHandler ps = ps(usart2 := tx_dma_irq usart_user (ps usart2))"

definition DMA1_Stream2_IRQHandler :: "ports \<Rightarrow> ports" where
  "DMA1_Stream2_IRQHandler ps = ps(usart4 := rx_dma_irq usart_user (ps usart4))"

definition DMA1_Stream4_IRQHandler :: "ports \<Rightarrow> ports" where
  "DMA1_Stream4_IRQHandler ps = ps(usart4 := tx_dma_irq usart_user (ps usart4))"

definition DMA1_Stream0_IRQHandler :: "ports \<Rightarrow> ports" where
  "DMA1_Stream0_IRQHandler ps = ps(usart5 := rx_dma_irq usart_user (ps usart5))"

definition DMA1_Stream7_IRQHandler :: "ports \<Rightarrow> ports" where
  "DMA1_Stream7_IRQHandler ps = ps(usart5 := tx_dma_irq usart_user (ps usart5))"

definition DMA2_Stream1_IRQHandler :: "ports \<Rightarrow> ports" where
  "DMA2_Stream1_IRQHandler ps = ps(usart6 := rx_dma_irq usart_user (ps usart6))"

definition DMA2_Stream6_IRQHandler :: "ports \<Rightarrow> ports" where
  "DMA2_Stream6_IRQHandler ps = ps(usart6 := tx_dma_irq usart_user (ps usart6))"

text \<open>The vector table, as far as it concerns the ports.\<close>

fun port_irq :: "hw_env \<Rightarrow> IRQn \<Rightarrow> ports \<Rightarrow> ports" where
  "port_irq env (USART_IRQn usart1) ps = USART1_IRQHandler env ps"
| "port_irq env (USART_IRQn usart2) ps = USART2_IRQHandler env ps"
| "port_irq env (USART_IRQn usart3) ps = USART3_IRQHandler env ps"
| "port_irq env (USART_IRQn usart4) ps = UART4_IRQHandler env ps"
| "port_irq env (USART_IRQn usart5) ps = UART5_IRQHandler env ps"
| "port_irq env (USART_IRQn usart6) ps = USART6_IRQHandler env ps"
| "port_irq env (DMA_Stream_IRQn c n) ps =
     (if (c, n) = (DMA1, 3) then DMA1_Stream3_IRQHandler ps
      else if (c, n) = (DMA1, 1) then DMA1_Stream1_IRQHandler ps
      else if (c, n) = (DMA2, 7) then DMA2_Stream7_IRQHandler ps
      else if (c, n) = (DMA2, 5) then DMA2_Stream5_IRQHandler ps
      else if (c, n) = (DMA1, 5) then DMA1_Stream5_IRQHandler ps
      else if (c, n) = (DMA1, 6) then DMA1_Stream6_IRQHandler ps
      else if (c, n) = (DMA1, 2) then DMA1_Stream2_IRQHandler ps
      else if (c, n) = (DMA1, 4) then DMA1_Stream4_IRQHandler ps
      else if (c, n) = (DMA1, 0) then DMA1_Stream0_IRQHandler ps
      else if (c, n) = (DMA1, 7) then DMA1_Stream7_IRQHandler ps
      else if (c, n) = (DMA2, 1) then DMA2_Stream1_IRQHandler ps
      else if (c, n) = (DMA2, 6) then DMA2_Stream6_IRQHandler ps
      else ps)"

lemmas irq_handler_defs = USART1_IRQHandler_def
  USART2_IRQHandler_def
  USART3_IRQHandler_def
  UART4_IRQHandler_def
  UART5_IRQHandler_def
  USART6_IRQHandler_def
  DMA1_Stream3_IRQHandler_def
  DMA1_Stream1_IRQHandler_def
  DMA2_Stream7_IRQHandler_def
  DMA2_Stream5_IRQHandler_def
  DMA1_Stream5_IRQHandler_def
  DMA1_Stream6_IRQHandler_def
  DMA1_Stream2_IRQHandler_def
  DMA1_Stream4_IRQHandler_def
  DMA1_Stream0_IRQHandler_def
  DMA1_Stream7_IRQHandler_def
  DMA2_Stream1_IRQHandler_def
  DMA2_Stream6_IRQHandler_def

lemma port_irq_route:
  "port_irq env n ps =
     (case irq_route n of
        None \<Rightarrow> ps
      | Some (k, USARTx_IRQHandler) \<Rightarrow> ps(k := usart_IRQHandler env (ps k))
      | Some (k, DMA_TX_IRQHandler) \<Rightarrow> ps(k := tx_dma_irq usart_user (ps k))
      | Some (k, DMA_RX_IRQHandler) \<Rightarrow> ps(k := rx_dma_irq usart_user (ps k)))"
proof (cases n)
  case (USART_IRQn k)
  then show ?thesis
    by (cases k) (simp_all add: irq_handler_defs)
next
  case (DMA_Stream_IRQn c m)
  then show ?thesis
    by (simp add: irq_handler_defs)
qed

section \<open>Start\<close>

lemma restart_rx_regs: "BRR (restart_rx k p) = BRR p" "Instance (restart_rx k p) = Instance p"
  by (simp_all add: restart_rx_def HAL_UART_Receive_DMA_def upd_rx_def uart_reg_defs Let_def
      split: option.split)

lemma com_init_BRR:
  assumes "com_zero p" "port_of (Instance p) = Some k"
  shows "BRR (com_init env rcc p) = brr_for rcc (Instance p) (BaudRate (Init p))"
    "Instance (com_init env rcc p) = Instance p"
proof -
  obtain ht hr where "com_init env rcc p = restart_rx 0 (com_q rcc ht hr p)"
    using com_init_eq [OF assms, of env rcc] by blast
  then show "BRR (com_init env rcc p) = brr_for rcc (Instance p) (BaudRate (Init p))"
    "Instance (com_init env rcc p) = Instance p"
    by (simp_all add: restart_rx_regs com_q_def)
qed

lemma usart_port_init_ready:
  assumes "com_zero p" "port_of inst = Some k"
  shows "port_ready (usart_port_init env rcc inst cb p)"
    "func (usart_port_init env rcc inst cb p) = Some cb"
    "BRR (usart_port_init env rcc inst cb p) = brr_for rcc inst 115200"
    "Instance (usart_port_init env rcc inst cb p) = inst"
    "(buff (usart_port_init env rcc inst cb p), DMA_buff (usart_port_init env rcc inst cb p)) = (buff1 p, buff2 p)"
    "rx_NDTR (usart_port_init env rcc inst cb p) = 50"
proof -
  let ?p = "p\<lparr>Instance := inst, Init := (Init p)\<lparr>BaudRate := 115200, Parity := 0\<rparr>, func := Some cb\<rparr>"
  have e: "usart_port_init env rcc inst cb p = com_init env rcc ?p"
    by (simp add: usart_port_init_def)
  have z: "com_zero ?p" "port_of (Instance ?p) = Some k" "Parity (Init ?p) \<in> {0, 0x400, 0x600}"
    using assms by (simp_all add: com_zero_def)
  show "port_ready (usart_port_init env rcc inst cb p)"
    "(buff (usart_port_init env rcc inst cb p), DMA_buff (usart_port_init env rcc inst cb p)) = (buff1 p, buff2 p)"
    "rx_NDTR (usart_port_init env rcc inst cb p) = 50"
    unfolding e using com_init_ready [OF z] by simp_all
  show "func (usart_port_init env rcc inst cb p) = Some cb"
    unfolding e using com_init_func [OF z(1,2)] by simp
  show "BRR (usart_port_init env rcc inst cb p) = brr_for rcc inst 115200"
    "Instance (usart_port_init env rcc inst cb p) = inst"
    unfolding e using com_init_BRR [OF z(1,2)] by simp_all
qed

lemma usart_init_port:
  "usart_init env rcc ps k =
     usart_port_init env rcc (USART_Instance k)
       (case k of usart1 \<Rightarrow> usart1_call_back | usart2 \<Rightarrow> usart2_call_back | usart3 \<Rightarrow> usart3_call_back
          | usart4 \<Rightarrow> usart1_call_back | usart5 \<Rightarrow> usart2_call_back | usart6 \<Rightarrow> usart3_call_back) (ps k)"
  by (cases k) (simp_all add: usart_init_def Let_def)

text \<open>A port whose transmitter can take a transfer by DMA.\<close>

definition tx_free :: "'f STUsart \<Rightarrow> bool" where
  "tx_free p \<longleftrightarrow> gState p = HAL_UART_STATE_READY \<and> Lock p = HAL_UNLOCKED \<and>
     RxState p \<in> {HAL_UART_STATE_READY, HAL_UART_STATE_BUSY_RX} \<and>
     (\<exists>h. hdmatx p = Some h \<and> dma_lock_ok h \<and> DState h = HAL_DMA_STATE_READY \<and>
        Direction (DInit h) = DMA_MEMORY_TO_PERIPH)"

lemma usart_port_init_tx_free:
  assumes "com_zero p" "port_of inst = Some k"
  shows "tx_free (usart_port_init env rcc inst cb p)"
proof -
  let ?p = "p\<lparr>Instance := inst, Init := (Init p)\<lparr>BaudRate := 115200, Parity := 0\<rparr>, func := Some cb\<rparr>"
  have e: "usart_port_init env rcc inst cb p = com_init env rcc ?p"
    by (simp add: usart_port_init_def)
  have z: "com_zero ?p" "port_of (Instance ?p) = Some k"
    using assms by (simp_all add: com_zero_def)
  note r = usart_port_init_ready(1) [OF assms, of env rcc cb]
  then have "port_inv (usart_port_init env rcc inst cb p)" "rx_live (usart_port_init env rcc inst cb p)"
    using port_ready_live by (auto simp: port_ready_def)
  then show ?thesis
    using com_init_tx [OF z, of env rcc] unfolding e tx_free_def port_inv_def rx_live_def by auto
qed

lemma usart_port_init_tx_ready:
  assumes "com_zero p" "port_of inst = Some k"
  shows "tx_ready (usart_port_init env rcc inst cb p)"
proof -
  let ?p = "p\<lparr>Instance := inst, Init := (Init p)\<lparr>BaudRate := 115200, Parity := 0\<rparr>, func := Some cb\<rparr>"
  have "usart_port_init env rcc inst cb p = com_init env rcc ?p"
    by (simp add: usart_port_init_def)
  then show ?thesis
    using com_init_tx_ready [of ?p k env rcc] assms by (simp add: com_zero_def)
qed

lemma usart_init_state:
  assumes "com_zero (ps k)"
  shows "let p = usart_init env rcc ps k
         in port_ready p \<and> tx_free p \<and> Instance p = USART_Instance k \<and> func p \<noteq> None \<and>
            BRR p = UART_BRR_SAMPLING16
              (if k \<in> {usart1, usart6} then PCLK2Freq rcc else PCLK1Freq rcc) 115200 \<and>
            buff p = buff1 (ps k) \<and> DMA_buff p = buff2 (ps k) \<and> rx_NDTR p = 50"
proof -
  obtain cb where i: "usart_init env rcc ps k = usart_port_init env rcc (USART_Instance k) cb (ps k)"
    using usart_init_port by blast
  have b: "brr_for rcc (USART_Instance k) 115200 = UART_BRR_SAMPLING16
      (if k \<in> {usart1, usart6} then PCLK2Freq rcc else PCLK1Freq rcc) 115200"
    by (cases k) (simp_all add: brr_for_def)
  show ?thesis
    using usart_port_init_ready [OF assms port_of_Instance, of env rcc k cb]
      usart_port_init_tx_free [OF assms port_of_Instance, of env rcc k cb]
    unfolding i Let_def by (simp add: b)
qed

text \<open>
  After \<open>usart_init\<close> all six ports are ready: each has its own UART, the divider for
  115200 baud from the clock of its bus, a user function, its two buffers in place, and a reception by DMA of 50
  bytes running; and a free transmitter.
\<close>

theorem usart_init_ready:
  assumes "com_zero (ps k)"
  shows "let p = usart_init env rcc ps k
         in port_ready p \<and> tx_free p \<and> Instance p = USART_Instance k \<and> func p \<noteq> None \<and>
            BRR p = UART_BRR_SAMPLING16
              (if k \<in> {usart1, usart6} then PCLK2Freq rcc else PCLK1Freq rcc) 115200 \<and>
            buff p = buff1 (ps k) \<and> DMA_buff p = buff2 (ps k) \<and> rx_NDTR p = 50"
  by (rule usart_init_state [of ps k, OF assms])

section \<open>Forwarding\<close>

lemma com_send_str_free:
  assumes "tx_free (hw 0 p)" "str \<noteq> 0" "len \<noteq> 0"
  shows "\<exists>q h'. com_send_str env hw (Suc fuel) p str len = Some (HAL_OK, q) \<and> hdmatx q = Some h' \<and>
    dma_running (DR_addr (Instance (hw 0 p))) str (ucast len) h' \<and>
    gState q = HAL_UART_STATE_BUSY_TX \<and> RxState q = RxState (hw 0 p)"
  using assms com_send_str_start [of hw p _ str len env fuel] by (auto simp: tx_free_def)

text \<open>The reception side of the port is left alone.\<close>

lemma com_send_str_free_rx:
  assumes "tx_free (hw 0 p)" "str \<noteq> 0" "len \<noteq> 0" "com_send_str env hw (Suc fuel) p str len = Some (st, q)"
  shows "USART_State q = USART_State (hw 0 p)" "receive_count q = receive_count (hw 0 p)"
proof -
  obtain h where t: "gState (hw 0 p) = HAL_UART_STATE_READY" "Lock (hw 0 p) = HAL_UNLOCKED" "hdmatx (hw 0 p) = Some h"
    "RxState (hw 0 p) \<in> {HAL_UART_STATE_READY, HAL_UART_STATE_BUSY_RX}"
    using assms(1) by (auto simp: tx_free_def)
  then have "HAL_UART_GetState (hw 0 p) \<noteq> HAL_UART_STATE_BUSY_TX"
    by (auto simp: HAL_UART_GetState_def)
  then have "com_send_str env hw (Suc fuel) p str len = Some (HAL_UART_Transmit_DMA (hw 0 p) str len)"
    by (simp add: com_send_str_def Let_def)
  then show "USART_State q = USART_State (hw 0 p)" "receive_count q = receive_count (hw 0 p)"
    using assms(4) HAL_UART_Transmit_DMA_ok [OF t(1) assms(2,3) t(2,3)] by auto
qed

text \<open>The main loop serves a port other than port 1 that holds a message.\<close>

lemma manage_port_message:
  assumes p: "port_inv (ps k)" "USART_State (ps k) = 0" "user_pending (ps k) = msg" "msg \<noteq> []"
    "dma_pending (ps k) = []" "func (ps k) = Some f" and k: "k \<noteq> usart1"
    and send: "com_send_str env hw fuel (ps usart1) (buff (ps k)) (receive_count (ps k)) = Some (st, q)"
  shows "\<exists>p'. manage_port env hw fuel k store count ps = Some (0, ps(usart1 := q, k := p')) \<and>
    port_ready p' \<and> func p' = Some f \<and> buff p' = buff (ps k) \<and> mem p' = mem (ps k) \<and>
    unat (receive_count (ps k)) = length msg \<and> read_bytes (mem p') (buff p') (length msg) = msg"
proof -
  let ?p = "ps k"
  let ?q = "rsm_exit (rsm_enter ?p)"
  have rc: "receive_count ?p \<noteq> 0" "user_pending ?p = read_bytes (mem ?p) (buff ?p) (unat (receive_count ?p))"
    using user_pending_count [of ?p] p(3,4) by simp_all
  have s: "rsm_swap env ?p = ?p"
    using p(2) by (intro rsm_swap_skip) (simp add: st_values)
  have np: "\<not> state_has ?p ST_PROCESSING"
    using p(2) by (simp add: st_values)
  note en = rsm_enter_inv [OF p(1) rc(1) np]
  note ex = rsm_exit_inv [OF en(1,5)]
  have e: "func (rsm_enter ?p) = Some f" "buff (rsm_enter ?p) = buff ?p"
    "receive_count (rsm_enter ?p) = receive_count ?p" "func ?q = Some f" "mem ?q = mem ?p" "buff ?q = buff ?p"
    using p(6) by (simp_all add: rsm_enter_def rsm_exit_def Let_def)
  have "manage_port env hw fuel k store count ps = Some (0, ps(usart1 := q, k := ?q))"
    using rc(1) e k s send by (simp add: manage_port_def run_call_back_def Let_def)
  moreover have "port_ready ?q"
    using ex en p(2,5) length_dma_pending [of ?q]
    by (simp add: port_ready_def rsm_exit_def rsm_enter_def st_values Let_def)
  moreover have "length msg = unat (receive_count ?p)"
    using rc(2) p(3) by (metis length_read_bytes)
  ultimately show ?thesis
    using e rc(2) p(3) by (intro exI [of _ ?q]) simp
qed

lemma port_inv_buff: "port_inv p \<Longrightarrow> buff p \<noteq> 0"
  by (auto simp: port_inv_def buffers_ok_def regions_ok_def)

lemma manage_port_forwards:
  assumes p: "port_ready (ps k)" "func (ps k) \<noteq> None" "k \<noteq> usart1" "stream_stops env"
    "msg \<noteq> []" "length msg < 50" and tx: "tx_free (hw 0 (ps usart1))"
    and ps1: "ps1 k = receive_message env msg (ps k)" "ps1 usart1 = ps usart1"
  shows "\<exists>q p' h'. manage_port env hw (Suc fuel) k store count ps1 = Some (0, ps1(usart1 := q, k := p')) \<and>
    port_ready p' \<and> read_bytes (mem p') (buff p') (length msg) = msg \<and> hdmatx q = Some h' \<and>
    dma_running (DR_addr (Instance (hw 0 (ps usart1)))) (buff p') (of_nat (length msg)) h' \<and>
    gState q = HAL_UART_STATE_BUSY_TX \<and> RxState q = RxState (hw 0 (ps usart1)) \<and>
    USART_State q = USART_State (hw 0 (ps usart1)) \<and> receive_count q = receive_count (hw 0 (ps usart1)) \<and>
    mem p' = mem (ps1 k) \<and> buff p' \<noteq> 0 \<and>
    com_send_str env hw (Suc fuel) (ps usart1) (buff p') (of_nat (length msg)) = Some (HAL_OK, q)"
proof -
  obtain f where f: "func (ps k) = Some f"
    using p(2) by blast
  have r: "port_inv (ps1 k)" "USART_State (ps1 k) = 0" "user_pending (ps1 k) = msg"
    "dma_pending (ps1 k) = []" "func (ps1 k) = Some f"
    using receive_message_pending [OF p(1,4), of msg] receive_message_func [OF p(1), of msg env] p(6) f
    by (simp_all add: ps1)
  have rc: "receive_count (ps1 k) \<noteq> 0"
    using user_pending_count [of "ps1 k"] r(3) p(5) by simp
  obtain q h' where q: "com_send_str env hw (Suc fuel) (ps1 usart1) (buff (ps1 k)) (receive_count (ps1 k)) =
      Some (HAL_OK, q)" "hdmatx q = Some h'" "gState q = HAL_UART_STATE_BUSY_TX"
      "RxState q = RxState (hw 0 (ps usart1))"
      "dma_running (DR_addr (Instance (hw 0 (ps usart1)))) (buff (ps1 k)) (ucast (receive_count (ps1 k))) h'"
    using com_send_str_free [of hw "ps1 usart1" "buff (ps1 k)" "receive_count (ps1 k)" env fuel]
      port_inv_buff [OF r(1)] rc tx ps1(2) by auto
  have q2: "USART_State q = USART_State (hw 0 (ps usart1))" "receive_count q = receive_count (hw 0 (ps usart1))"
    using com_send_str_free_rx [OF _ port_inv_buff [OF r(1)] rc q(1)] tx ps1(2) by simp_all
  obtain p' where p': "manage_port env hw (Suc fuel) k store count ps1 = Some (0, ps1(usart1 := q, k := p'))"
    "port_ready p'" "buff p' = buff (ps1 k)" "unat (receive_count (ps1 k)) = length msg"
    "read_bytes (mem p') (buff p') (length msg) = msg" "mem p' = mem (ps1 k)"
    using manage_port_message [OF r(1-3) p(5) r(4,5) p(3) q(1), of store count] by blast
  have "receive_count (ps1 k) = of_nat (length msg)"
    unfolding p'(4) [symmetric] by simp
  then have send: "com_send_str env hw (Suc fuel) (ps usart1) (buff p') (of_nat (length msg)) = Some (HAL_OK, q)"
    using q(1) ps1(2) p'(3) by simp
  have "ucast (receive_count (ps1 k)) = (of_nat (length msg) :: u32)"
    unfolding ucast16_32_nat p'(4) ..
  then show ?thesis
    using p'(1,2,3,5,6) q q2 send port_inv_buff [OF r(1)]
    by (intro exI [of _ q] exI [of _ p'] exI [of _ h']) simp
qed

text \<open>A port with nothing in its user buffer and nothing to exchange is passed over.\<close>

definition rx_idle :: "'f STUsart \<Rightarrow> bool" where
  "rx_idle p \<longleftrightarrow> USART_State p = ST_PROCESSED \<and> receive_count p = 0"

lemma port_ready_idle: "port_ready p \<Longrightarrow> rx_idle p"
  by (simp add: port_ready_def rx_idle_def port_inv_def state_ok_def st_values)

lemma manage_port_idle: "rx_idle (ps k) \<Longrightarrow> manage_port env hw fuel k store count ps = Some (0, ps)"
  by (subgoal_tac "rsm_swap env (ps k) = ps k")
    (simp_all add: manage_port_def rx_idle_def rsm_swap_skip st_values)

lemma manage_ports_idle: "\<forall>k \<in> set ks. rx_idle (ps k) \<Longrightarrow> manage_ports env hw fuel ks ps = Some ps"
  by (induction ks) (simp_all add: manage_port_idle)

lemma manage_ports_append:
  "manage_ports env hw fuel (ks @ ls) ps =
     (case manage_ports env hw fuel ks ps of None \<Rightarrow> None | Some ps \<Rightarrow> manage_ports env hw fuel ls ps)"
  by (induction ks arbitrary: ps) (simp_all split: option.split)

text \<open>The whole round of the main loop when one port holds a message.\<close>

lemma manage_ports_forward:
  assumes p: "\<And>l. port_ready (ps l)" "func (ps k) \<noteq> None" "k \<noteq> usart1" "stream_stops env" "msg \<noteq> []" "length msg < 50"
    and tx: "tx_free (hw 0 (ps usart1))" "rx_idle (hw 0 (ps usart1))" and ks: "distinct (as @ k # bs)"
  shows "\<exists>q p' h'. manage_ports env hw (Suc fuel) (as @ k # bs) (ps(k := receive_message env msg (ps k))) =
      Some (ps(usart1 := q, k := p')) \<and>
    port_ready p' \<and> read_bytes (mem p') (buff p') (length msg) = msg \<and> hdmatx q = Some h' \<and>
    dma_running (DR_addr (Instance (hw 0 (ps usart1)))) (buff p') (of_nat (length msg)) h' \<and>
    gState q = HAL_UART_STATE_BUSY_TX \<and> mem p' = mem (receive_message env msg (ps k)) \<and> buff p' \<noteq> 0 \<and>
    com_send_str env hw (Suc fuel) (ps usart1) (buff p') (of_nat (length msg)) = Some (HAL_OK, q)"
proof -
  let ?ps1 = "ps(k := receive_message env msg (ps k))"
  have "?ps1 k = receive_message env msg (ps k)" "?ps1 usart1 = ps usart1"
    using p(3) by auto
  from manage_port_forwards [where hw = hw and store = 0 and count = 0 and fuel = fuel,
      OF p(1) p(2-6) tx(1) this] obtain q p' h where
    m: "manage_port env hw (Suc fuel) k 0 0 ?ps1 = Some (0, ?ps1(usart1 := q, k := p'))"
    and r: "port_ready p'" "read_bytes (mem p') (buff p') (length msg) = msg" "hdmatx q = Some h"
    "dma_running (DR_addr (Instance (hw 0 (ps usart1)))) (buff p') (of_nat (length msg)) h"
    "gState q = HAL_UART_STATE_BUSY_TX" "USART_State q = USART_State (hw 0 (ps usart1))"
    "receive_count q = receive_count (hw 0 (ps usart1))" "mem p' = mem (?ps1 k)" "buff p' \<noteq> 0"
    "com_send_str env hw (Suc fuel) (ps usart1) (buff p') (of_nat (length msg)) = Some (HAL_OK, q)"
    by blast
  have e: "?ps1(usart1 := q, k := p') = ps(usart1 := q, k := p')"
    using p(3) by (simp add: fun_upd_twist)
  have "\<forall>l \<in> set as. rx_idle (?ps1 l)"
    using ks p(1) port_ready_idle by auto
  moreover have "rx_idle q"
    using tx(2) r(6,7) by (simp add: rx_idle_def)
  then have "\<forall>l \<in> set bs. rx_idle ((ps(usart1 := q, k := p')) l)"
    using ks p(1) port_ready_idle by auto
  ultimately have "manage_ports env hw (Suc fuel) (as @ k # bs) ?ps1 = Some (ps(usart1 := q, k := p'))"
    using m e by (simp add: manage_ports_append manage_ports_idle)
  moreover have "mem p' = mem (receive_message env msg (ps k))"
    using r(8) by simp
  ultimately show ?thesis
    using r by blast
qed

lemma manage_port_drops:
  assumes p: "port_ready (ps k)" "func (ps k) \<noteq> None" "k \<noteq> usart1" "stream_stops env"
    "msg \<noteq> []" "length msg < 50"
    and tx: "gState (hw 0 (ps1 usart1)) = HAL_UART_STATE_BUSY_TX" "RxState (hw 0 (ps1 usart1)) = HAL_UART_STATE_BUSY_RX"
    and ps1: "ps1 k = receive_message env msg (ps k)"
  shows "\<exists>p'. manage_port env hw (Suc fuel) k store count ps1 = Some (0, ps1(usart1 := hw 0 (ps1 usart1), k := p')) \<and>
    port_ready p'"
proof -
  obtain f where f: "func (ps k) = Some f"
    using p(2) by blast
  have r: "port_inv (ps1 k)" "USART_State (ps1 k) = 0" "user_pending (ps1 k) = msg"
    "dma_pending (ps1 k) = []" "func (ps1 k) = Some f"
    using receive_message_pending [OF p(1,4), of msg] receive_message_func [OF p(1), of msg env] p(6) f
    by (simp_all add: ps1)
  have "com_send_str env hw (Suc fuel) (ps1 usart1) (buff (ps1 k)) (receive_count (ps1 k)) =
      Some (HAL_BUSY, hw 0 (ps1 usart1))"
    using tx by (simp add: com_send_str_def HAL_UART_GetState_def HAL_UART_Transmit_DMA_def Let_def)
  from manage_port_message [OF r(1-3) p(5) r(4,5) p(3) this] show ?thesis
    by blast
qed

text \<open>
  A message is forwarded: a message of 1 to 49 bytes that arrives at a port other than port 1,
  which is between two messages, is on its way out of port 1 after the next
  \<open>receive_str_manage\<close> of that port: the TX stream of port 1 runs over exactly the bytes of the message,
  in the buffer that holds them, the port is ready for its next message, and no other port
  is touched.
\<close>

theorem message_forwarded:
  assumes "port_ready (ps k)" "func (ps k) \<noteq> None" "k \<noteq> usart1" "stream_stops env"
    and "msg \<noteq> []" "length msg < 50" "tx_free (hw 0 (ps usart1))"
  shows "\<exists>ps' h. manage_port env hw (Suc fuel) k store count (ps(k := receive_message env msg (ps k))) =
      Some (0, ps') \<and>
    port_ready (ps' k) \<and> (\<forall>l. l \<notin> {k, usart1} \<longrightarrow> ps' l = ps l) \<and>
    gState (ps' usart1) = HAL_UART_STATE_BUSY_TX \<and> hdmatx (ps' usart1) = Some h \<and>
    dma_running (DR_addr (Instance (hw 0 (ps usart1)))) (buff (ps' k)) (of_nat (length msg)) h \<and>
    read_bytes (mem (ps' k)) (buff (ps' k)) (length msg) = msg"
proof -
  let ?ps1 = "ps(k := receive_message env msg (ps k))"
  have "?ps1 k = receive_message env msg (ps k)" "?ps1 usart1 = ps usart1"
    using assms(3) by auto
  from manage_port_forwards [where hw = hw and store = store and count = count and fuel = fuel, OF assms this] obtain q p' h where
    "manage_port env hw (Suc fuel) k store count ?ps1 = Some (0, ?ps1(usart1 := q, k := p'))"
    "port_ready p'" "read_bytes (mem p') (buff p') (length msg) = msg" "hdmatx q = Some h"
    "dma_running (DR_addr (Instance (hw 0 (ps usart1)))) (buff p') (of_nat (length msg)) h"
    "gState q = HAL_UART_STATE_BUSY_TX"
    by blast
  then show ?thesis
    using assms(3) by (intro exI [of _ "?ps1(usart1 := q, k := p')"] exI [of _ h]) simp
qed

text \<open>
  C30. Of two messages that wait at two ports when the main loop serves them one after the other, only the
  first is forwarded: the user function of the second is refused with \<open>HAL_BUSY\<close>, because port 1 is
  sending the first, ignores that, and \<open>receive_str_manage\<close> marks the message as processed; it
  is in no buffer afterwards.
\<close>

theorem simultaneous_message_lost:
  assumes "port_ready (ps k)" "func (ps k) \<noteq> None" "port_ready (ps l)" "func (ps l) \<noteq> None"
    and "port_ready (ps usart1)" "tx_free (ps usart1)" "distinct [k, l, usart1]" "stream_stops env"
    and "m1 \<noteq> []" "length m1 < 50" "m2 \<noteq> []" "length m2 < 50"
  shows "\<exists>ps' h. manage_ports env (\<lambda>_ p. p) (Suc fuel) [k, l]
      (ps(k := receive_message env m1 (ps k), l := receive_message env m2 (ps l))) = Some ps' \<and>
    port_ready (ps' k) \<and> port_ready (ps' l) \<and> hdmatx (ps' usart1) = Some h \<and>
    dma_running (DR_addr (Instance (ps usart1))) (buff (ps' k)) (of_nat (length m1)) h \<and>
    read_bytes (mem (ps' k)) (buff (ps' k)) (length m1) = m1 \<and>
    user_pending (ps' l) = [] \<and> dma_pending (ps' l) = []"
proof -
  let ?ps1 = "ps(k := receive_message env m1 (ps k), l := receive_message env m2 (ps l))"
  have d: "k \<noteq> usart1" "l \<noteq> usart1" "k \<noteq> l"
    using assms(7) by auto
  have "?ps1 k = receive_message env m1 (ps k)" "?ps1 usart1 = ps usart1"
    using d by auto
  from manage_port_forwards [where hw = "\<lambda>_ p. p" and store = 0 and count = 0 and fuel = fuel,
      OF assms(1,2) d(1) assms(8-10,6) this]
  obtain q p' h where f: "manage_port env (\<lambda>_ p. p) (Suc fuel) k 0 0 ?ps1 = Some (0, ?ps1(usart1 := q, k := p'))"
    "port_ready p'" "read_bytes (mem p') (buff p') (length m1) = m1" "hdmatx q = Some h"
    "dma_running (DR_addr (Instance (ps usart1))) (buff p') (of_nat (length m1)) h"
    "gState q = HAL_UART_STATE_BUSY_TX" "RxState q = RxState (ps usart1)"
    by blast
  have rx: "RxState q = HAL_UART_STATE_BUSY_RX"
    using f(7) port_ready_live [OF assms(5)] by (auto simp: rx_live_def)
  let ?ps2 = "?ps1(usart1 := q, k := p')"
  have "?ps2 l = receive_message env m2 (ps l)" "?ps2 usart1 = q"
    using d by auto
  with manage_port_drops [where ps = ps and k = l and msg = m2 and hw = "\<lambda>_ p. p" and store = 0
        and count = 0 and fuel = fuel and ?ps1.0 = ?ps2, OF assms(3,4) d(2) assms(8,11,12)] f(6) rx
  obtain p2 where g: "manage_port env (\<lambda>_ p. p) (Suc fuel) l 0 0 ?ps2 = Some (0, ?ps2(usart1 := q, l := p2))"
    "port_ready p2"
    by auto
  have n: "user_pending p2 = []" "dma_pending p2 = []"
    using g(2) by (simp_all add: port_ready_def user_pending_def dma_pending_def st_has_def)
  show ?thesis
    using f g n d by (intro exI [of _ "?ps2(usart1 := q, l := p2)"] exI [of _ h]) simp
qed

text \<open>The six ports before \<open>usart_init\<close>: zeroed structs with their two buffers.\<close>

fun port_base :: "usart_port \<Rightarrow> u32" where
  "port_base usart1 = 0x20000000"
| "port_base usart2 = 0x20000100"
| "port_base usart3 = 0x20000200"
| "port_base usart4 = 0x20000300"
| "port_base usart5 = 0x20000400"
| "port_base usart6 = 0x20000500"

definition ports_zero :: ports where
  "ports_zero k = \<lparr>Instance = 0, SR = 0xC0, DR = 0, BRR = 0, CR1 = 0, CR2 = 0, CR3 = 0,
     tx_log = [], mem = (\<lambda>_. 0), fault = False,
     Init = \<lparr>BaudRate = 0, WordLength = 0, StopBits = 0, Parity = 0, Mode = 0, HwFlowCtl = 0,
       OverSampling = 0\<rparr>,
     pTxBuffPtr = 0, TxXferSize = 0, TxXferCount = 0, pRxBuffPtr = 0, RxXferSize = 0,
     RxXferCount = 0, hdmatx = None, hdmarx = None, Lock = HAL_UNLOCKED, gState = 0, RxState = 0,
     ErrorCode = 0, receive_count = 0, buff = 0, func = None, buff1 = port_base k + 0x10, DMA_buff = 0,
     buff2 = port_base k + 0x44, DMA_Receive_Count = 0, DMA_Receive_Size = 0, USART_State = 0\<rparr>"

definition ports_started :: ports where
  "ports_started = usart_init env_example rcc_example ports_zero"

lemma ports_zero_zero: "com_zero (ports_zero k)"
  by (cases k) (simp_all add: com_zero_def ports_zero_def regions_ok_def)

theorem usart_init_ready_witness:
  "port_ready (ports_started usart4) \<and> BRR (ports_started usart4) = 364"
  using usart_init_ready [where ps = ports_zero and k = usart4 and env = env_example and rcc = rcc_example,
      OF ports_zero_zero]
  by (simp add: ports_started_def rcc_example_def UART_BRR_SAMPLING16_def UART_DIVFRAQ_SAMPLING16_def
      UART_DIVMANT_SAMPLING16_def UART_DIV_SAMPLING16_def Let_def)

lemma ports_started_ready: "port_ready (ports_started k)" "func (ports_started k) \<noteq> None" "tx_free (ports_started k)"
    "tx_ready (ports_started k)"
proof -
  have cz: "com_zero (ports_zero k)"
    by (rule ports_zero_zero)
  show "func (ports_started k) \<noteq> None" "port_ready (ports_started k)" "tx_free (ports_started k)"
    unfolding ports_started_def usart_init_port
    using usart_port_init_ready [OF cz port_of_Instance] usart_port_init_tx_free [OF cz port_of_Instance]
    by simp_all
  show "tx_ready (ports_started k)"
    unfolding ports_started_def usart_init_port by (rule usart_port_init_tx_ready [OF cz port_of_Instance])
qed

theorem message_forwarded_witness:
  "\<exists>ps h. manage_port env_example (\<lambda>_ p. p) 1 usart2 0 0
      (ports_started(usart2 := receive_message env_example [72, 105] (ports_started usart2))) = Some (0, ps) \<and>
     hdmatx (ps usart1) = Some h \<and> S_NDTR h = 2"
  using message_forwarded [where ps = ports_started and k = usart2 and msg = "[72, 105]"
      and hw = "\<lambda>_ p. p" and fuel = 0 and store = 0 and count = 0,
      OF ports_started_ready(1,2) _ env_example_stops _ _ ports_started_ready(3)]
  by (auto simp: dma_running_def)

theorem simultaneous_message_lost_witness:
  "\<exists>ps h. manage_ports env_example (\<lambda>_ p. p) 1 [usart2, usart3]
      (ports_started(usart2 := receive_message env_example [72] (ports_started usart2),
         usart3 := receive_message env_example [105] (ports_started usart3))) = Some ps \<and>
     hdmatx (ps usart1) = Some h \<and> S_NDTR h = 1 \<and> user_pending (ps usart3) = [] \<and> dma_pending (ps usart3) = []"
proof -
  let ?p = ports_started
  note r = ports_started_ready
  from simultaneous_message_lost [where ps = ?p and k = usart2 and l = usart3 and ?m1.0 = "[72]"
      and ?m2.0 = "[105]" and fuel = 0, OF r(1,2) r(1,2) r(1) r(3) _ env_example_stops]
  show ?thesis
    by (fastforce simp: dma_running_def)
qed

end
