(* ===== verification/UartProps.thy ===== *)
theory UartProps
  imports UsartSystem
begin

text \<open>
  Properties of the UART driver and of the board support: the handle is never left locked,
  reception can be stopped and started again, the two halves of the state word do not mix, the
  baud rate register holds the rounded divider, and every interrupt that is enabled
  reaches the handle it belongs to.
\<close>

section \<open>The lock of the handle\<close>

definition released :: "HAL_StatusTypeDef \<times> 'a huart \<Rightarrow> bool" where
  "released r \<longleftrightarrow> Lock (snd r) = HAL_UNLOCKED"

lemma Lock_upd [simp]:
  "Lock (upd_tx f u) = Lock u" "Lock (upd_rx f u) = Lock u"
  "Lock (HAL_UART_CLEAR_PEFLAG u) = Lock u" "Lock (HAL_UART_CLEAR_FLAG u m) = Lock u"
  by (simp_all add: upd_tx_def upd_rx_def uart_reg_defs split: option.split)

lemma calls_on_locked:
  assumes "Lock u = HAL_LOCKED"
  shows "snd (HAL_UART_Transmit_IT u a n) = u" "snd (HAL_UART_Receive_IT u a n) = u"
    "snd (HAL_UART_Transmit_DMA u a n) = u" "snd (HAL_UART_Receive_DMA u a n) = u"
    "HAL_UART_DMAPause u = (HAL_BUSY, u)" "HAL_UART_DMAResume u = (HAL_BUSY, u)"
    "HAL_LIN_SendBreak u = (HAL_BUSY, u)"
  using assms by (simp_all add: HAL_UART_Transmit_IT_def HAL_UART_Receive_IT_def HAL_UART_Transmit_DMA_def
      HAL_UART_Receive_DMA_def HAL_UART_DMAPause_def HAL_UART_DMAResume_def HAL_LIN_SendBreak_def
      uart_control_def)

lemma calls_on_unlocked:
  assumes "Lock u = HAL_UNLOCKED"
  shows "released (HAL_UART_Transmit_IT u a n)" "released (HAL_UART_Receive_IT u a n)"
    "released (HAL_UART_Transmit_DMA u a n)" "released (HAL_UART_Receive_DMA u a n)"
    "released (HAL_UART_DMAPause u)" "released (HAL_UART_DMAResume u)"
    "released (HAL_UART_DMAStop env u)" "released (HAL_UART_Abort env u)"
    "released (HAL_UART_AbortTransmit env u)" "released (HAL_UART_AbortReceive env u)"
    "released (HAL_LIN_SendBreak u)" "released (HAL_MultiProcessor_EnterMuteMode u)"
    "released (HAL_MultiProcessor_ExitMuteMode u)" "released (HAL_HalfDuplex_EnableTransmitter u)"
    "released (HAL_HalfDuplex_EnableReceiver u)"
  using assms by (simp_all add: released_def HAL_UART_Transmit_IT_def HAL_UART_Receive_IT_def
      HAL_UART_Transmit_DMA_def HAL_UART_Receive_DMA_def HAL_UART_DMAPause_def HAL_UART_DMAResume_def
      HAL_UART_DMAStop_def HAL_UART_Abort_def HAL_UART_AbortTransmit_def HAL_UART_AbortReceive_def
      abort_tx_def abort_rx_def abort_tx_nocb_def abort_rx_nocb_def UART_EndTxTransfer_def
      UART_EndRxTransfer_def HAL_LIN_SendBreak_def HAL_MultiProcessor_EnterMuteMode_def
      HAL_MultiProcessor_ExitMuteMode_def HAL_HalfDuplex_EnableTransmitter_def
      HAL_HalfDuplex_EnableReceiver_def uart_control_def Let_def)

text \<open>
  No call of the driver leaves the handle locked: on an unlocked handle every
  transfer, pause, resume, stop, abort and control routine returns with the handle unlocked, on
  all of its branches; on a locked handle the ones that lock change nothing, whatever the reason for which they refuse.
\<close>

theorem uart_calls_release_lock:
  "(case Lock u of
      HAL_UNLOCKED \<Rightarrow>
        released (HAL_UART_Transmit_IT u a n) \<and> released (HAL_UART_Receive_IT u a n) \<and>
        released (HAL_UART_Transmit_DMA u a n) \<and> released (HAL_UART_Receive_DMA u a n) \<and>
        released (HAL_UART_DMAPause u) \<and> released (HAL_UART_DMAResume u) \<and>
        released (HAL_UART_DMAStop env u) \<and> released (HAL_UART_Abort env u) \<and>
        released (HAL_UART_AbortTransmit env u) \<and> released (HAL_UART_AbortReceive env u) \<and>
        released (HAL_LIN_SendBreak u) \<and> released (HAL_MultiProcessor_EnterMuteMode u) \<and>
        released (HAL_MultiProcessor_ExitMuteMode u) \<and> released (HAL_HalfDuplex_EnableTransmitter u) \<and>
        released (HAL_HalfDuplex_EnableReceiver u)
    | HAL_LOCKED \<Rightarrow>
        snd (HAL_UART_Transmit_IT u a n) = u \<and> snd (HAL_UART_Receive_IT u a n) = u \<and>
        snd (HAL_UART_Transmit_DMA u a n) = u \<and> snd (HAL_UART_Receive_DMA u a n) = u \<and>
        HAL_UART_DMAPause u = (HAL_BUSY, u) \<and> HAL_UART_DMAResume u = (HAL_BUSY, u) \<and>
        HAL_LIN_SendBreak u = (HAL_BUSY, u))"
  by (cases "Lock u") (simp_all add: calls_on_locked calls_on_unlocked)

section \<open>The baud rate\<close>

lemma fraq_16:
  assumes "unat (f :: u32) < 17"
  shows "(f AND 0xF0) + (f AND 0x0F) = f"
proof -
  have "list_all (\<lambda>n. ((of_nat n :: u32) AND 0xF0) + (of_nat n AND 0x0F) = of_nat n) [0..<17]"
    by (simp add: upt_rec)
  then have "((of_nat (unat f) :: u32) AND 0xF0) + (of_nat (unat f) AND 0x0F) = of_nat (unat f)"
    using assms unfolding list_all_iff by (metis atLeastLessThan_iff le0 set_upt)
  then show ?thesis by simp
qed

lemma fraq_8:
  assumes "unat (f :: u32) < 9"
  shows "unat (push_bit 1 (f AND 0xF8) + (f AND 0x07)) = (if unat f = 8 then 16 else unat f)"
proof -
  have "list_all (\<lambda>n. unat (push_bit 1 ((of_nat n :: u32) AND 0xF8) + (of_nat n AND 0x07))
      = (if n = 8 then 16 else n)) [0..<9]"
    by (simp add: upt_rec)
  then have "unat (push_bit 1 ((of_nat (unat f) :: u32) AND 0xF8) + (of_nat (unat f) AND 0x07))
      = (if unat f = 8 then 16 else unat f)"
    using assms unfolding list_all_iff by (metis atLeastLessThan_iff le0 set_upt)
  then show ?thesis by simp
qed

text \<open>A scaled quotient, split into hundreds and a rounded fraction of \<open>k\<close>-ths.\<close>

lemma divider_parts:
  fixes d :: u32
  assumes "unat k \<le> 16"
  shows "unat ((d - d div 100 * 100) * k + 50) = (unat d mod 100) * unat k + 50"
proof -
  have "unat d div 100 * 100 \<le> unat d" by simp
  then have le: "unat (d div 100 * 100) = unat d div 100 * 100"
    using unat_u32_bound [of d] by (simp add: unat_mult32 unat_div)
  have "unat (d - d div 100 * 100) = unat d - unat d div 100 * 100"
    by (simp add: unat_sub word_le_nat_alt le)
  also have "\<dots> = unat d mod 100"
    using minus_div_mult_eq_mod by blast
  finally have r: "unat (d - d div 100 * 100) = unat d mod 100" .
  have "unat d mod 100 < 100" by simp
  then have "unat d mod 100 * unat k \<le> 99 * 16"
    using assms by (intro mult_le_mono) simp_all
  then show ?thesis
    by (simp add: unat_add32 unat_mult32 r)
qed

lemma scaled_div:
  "(k * d + 50) div 100 = d div 100 * k + (d mod 100 * k + 50) div (100 :: nat)"
proof -
  have "k * d = k * (d mod 100 + 100 * (d div 100))"
    by simp
  also have "\<dots> = d mod 100 * k + 100 * (d div 100 * k)"
    unfolding distrib_left by simp
  finally have "k * d + 50 = (d mod 100 * k + 50) + 100 * (d div 100 * k)"
    by simp
  then show ?thesis by simp
qed

lemma UART_BRR_SAMPLING16_value:
  "unat (UART_BRR_SAMPLING16 pclk baud) = (16 * unat (UART_DIV_SAMPLING16 pclk baud) + 50) div 100"
proof -
  let ?d = "UART_DIV_SAMPLING16 pclk baud"
  let ?f = "UART_DIVFRAQ_SAMPLING16 pclk baud"
  have "unat ((?d - ?d div 100 * 100) * 16 + 50) = (unat ?d mod 100) * unat (16 :: u32) + 50"
    by (rule divider_parts) simp
  then have f: "unat ?f = ((unat ?d mod 100) * 16 + 50) div 100"
    unfolding UART_DIVFRAQ_SAMPLING16_def UART_DIVMANT_SAMPLING16_def unat_div by simp
  have "unat ?d mod 100 < 100" by simp
  with f have f16: "unat ?f < 17" by linarith
  have m: "unat (push_bit 4 (?d div 100)) = unat ?d div 100 * 16"
    using unat_u32_bound [of ?d] by (simp add: push_bit_eq_mult unat_mult32 unat_div)
  have "UART_BRR_SAMPLING16 pclk baud = push_bit 4 (?d div 100) + ((?f AND 0xF0) + (?f AND 0x0F))"
    by (simp only: UART_BRR_SAMPLING16_def UART_DIVMANT_SAMPLING16_def add.assoc)
  also have "\<dots> = push_bit 4 (?d div 100) + ?f"
    by (simp only: fraq_16 [OF f16])
  finally have "unat (UART_BRR_SAMPLING16 pclk baud) = unat ?d div 100 * 16 + unat ?f"
    using unat_u32_bound [of ?d] f16 m by (simp add: unat_add32)
  then show ?thesis
    unfolding f scaled_div [of 16 "unat ?d"] .
qed

lemma UART_BRR_SAMPLING8_value:
  fixes pclk baud :: u32
  defines "v \<equiv> unat (UART_BRR_SAMPLING8 pclk baud)"
  shows "8 * (v div 16) + v mod 16 = (8 * unat (UART_DIV_SAMPLING8 pclk baud) + 50) div 100 \<and> v mod 16 < 8"
proof -
  let ?d = "UART_DIV_SAMPLING8 pclk baud"
  let ?f = "UART_DIVFRAQ_SAMPLING8 pclk baud"
  have "unat ((?d - ?d div 100 * 100) * 8 + 50) = (unat ?d mod 100) * unat (8 :: u32) + 50"
    by (rule divider_parts) simp
  then have f: "unat ?f = ((unat ?d mod 100) * 8 + 50) div 100"
    unfolding UART_DIVFRAQ_SAMPLING8_def UART_DIVMANT_SAMPLING8_def unat_div by simp
  have "unat ?d mod 100 < 100" by simp
  with f have f8: "unat ?f < 9" by linarith
  have m: "unat (push_bit 4 (?d div 100)) = unat ?d div 100 * 16"
    using unat_u32_bound [of ?d] by (simp add: push_bit_eq_mult unat_mult32 unat_div)
  let ?g = "if unat ?f = 8 then 16 else unat ?f"
  have "UART_BRR_SAMPLING8 pclk baud
      = push_bit 4 (?d div 100) + (push_bit 1 (?f AND 0xF8) + (?f AND 0x07))"
    by (simp only: UART_BRR_SAMPLING8_def UART_DIVMANT_SAMPLING8_def add.assoc)
  then have v: "v = unat ?d div 100 * 16 + ?g"
    using unat_u32_bound [of ?d] fraq_8 [OF f8] m f8 by (simp add: v_def unat_add32 split: if_splits)
  have "(8 * unat ?d + 50) div 100 = unat ?d div 100 * 8 + unat ?f"
    unfolding f scaled_div [of 8 "unat ?d"] ..
  moreover have "8 * (v div 16) + v mod 16 = unat ?d div 100 * 8 + unat ?f \<and> v mod 16 < 8"
    using f8 by (cases "unat ?f = 8") (simp_all add: v)
  ultimately show ?thesis by simp
qed

lemma rounded_divider:
  fixes p b d q :: int
  assumes "0 < c" "c * b * d \<le> 25 * p" "25 * p < c * b * d + c * b" "0 < b"
    and "4 * c * d - 49 \<le> 100 * q" "100 * q \<le> 4 * c * d + 50"
  shows "100 * \<bar>q * b - p\<bar> \<le> (4 * c + 49) * b"
proof -
  have "100 * q * b \<le> (4 * c * d + 50) * b" "(4 * c * d - 49) * b \<le> 100 * q * b"
    using assms by (intro mult_right_mono; simp)+
  then have "100 * (q * b) \<le> 4 * (c * b * d) + 50 * b" "4 * (c * b * d) - 49 * b \<le> 100 * (q * b)"
    by (simp_all add: algebra_simps)
  moreover have "b \<le> c * b"
    using assms(1,4) by simp
  ultimately have "100 * (q * b) - 100 * p \<le> (4 * c + 49) * b" "100 * p - 100 * (q * b) \<le> (4 * c + 49) * b"
    using assms(2,3) by (simp_all add: algebra_simps)
  then show ?thesis by (simp add: abs_if)
qed

lemma rounded_divider_nat:
  fixes p b c :: nat
  assumes "0 < b" "0 < c" "d = p * 25 div (c * b)" "q = (4 * c * d + 50) div 100"
  shows "100 * \<bar>int q * int b - int p\<bar> \<le> (4 * int c + 49) * int b"
proof (rule rounded_divider)
  have d: "c * b * d \<le> p * 25" "p * 25 < c * b * d + c * b"
    using assms(1,2) dividend_less_times_div [of "c * b" "p * 25"] by (simp_all add: assms(3) mult.commute)
  show "int c * int b * int d \<le> 25 * int p"
    using d(1) by (metis mult.commute of_nat_le_iff of_nat_mult of_nat_numeral)
  show "25 * int p < int c * int b * int d + int c * int b"
    using d(2) by (metis mult.commute of_nat_add of_nat_less_iff of_nat_mult of_nat_numeral)
  have "100 * q \<le> 4 * (c * d) + 50" "4 * (c * d) + 50 < 100 * q + 100"
    unfolding assms(4) by simp_all
  then have "100 * int q \<le> 4 * int (c * d) + 50" "4 * int (c * d) + 50 < 100 * int q + 100"
    by linarith+
  then show "4 * int c * int d - 49 \<le> 100 * int q" "100 * int q \<le> 4 * int c * int d + 50"
    by (simp_all add: mult.assoc)
qed (use assms in simp_all)

text \<open>
  The baud rate register holds the nearest divider, up to the rounding of the macros: with 16-fold
  oversampling the register times the rate is the clock up to 0.65 of the rate, a fraction that rounds up to a
  full unit carrying into the mantissa; with 8-fold oversampling the same holds up to 0.57 for the
  value that mantissa and three-bit fraction encode, and the fourth fraction bit stays clear, for
  every clock and rate at which the 32-bit products do not wrap around.
\<close>

theorem baud_rate_error:
  assumes "0 < unat baud" "4 * unat baud < 4294967296" "unat pclk * 25 < 4294967296"
  defines "brr16 \<equiv> UART_BRR_SAMPLING16 pclk baud" and "brr8 \<equiv> UART_BRR_SAMPLING8 pclk baud"
  shows "100 * \<bar>int (unat brr16) * int (unat baud) - int (unat pclk)\<bar> \<le> 65 * int (unat baud) \<and>
    unat brr8 mod 16 < 8 \<and>
    100 * \<bar>int (8 * (unat brr8 div 16) + unat brr8 mod 16) * int (unat baud) - int (unat pclk)\<bar>
      \<le> 57 * int (unat baud)"
proof -
  have d: "unat (UART_DIV_SAMPLING16 pclk baud) = unat pclk * 25 div (4 * unat baud)"
    "unat (UART_DIV_SAMPLING8 pclk baud) = unat pclk * 25 div (2 * unat baud)"
    using assms(2,3) by (simp_all add: UART_DIV_SAMPLING16_def UART_DIV_SAMPLING8_def unat_div unat_mult32)
  show ?thesis
    using rounded_divider_nat [OF assms(1) _ d(1), of "unat brr16"]
      rounded_divider_nat [OF assms(1) _ d(2), of "8 * (unat brr8 div 16) + unat brr8 mod 16"]
    by (simp add: brr16_def brr8_def UART_BRR_SAMPLING16_value UART_BRR_SAMPLING8_value)
qed

theorem baud_rate_error_witness:
  "100 * \<bar>int (unat (UART_BRR_SAMPLING16 84000000 115200)) * 115200 - 84000000\<bar> \<le> 65 * 115200"
  using baud_rate_error [of 115200 84000000] by simp
section \<open>Interrupts and streams\<close>

text \<open>
  Interrupt routing: the interrupt lines \<open>HAL_UART_MspInit\<close> enables for a port are exactly those whose
  handlers work on this port; the handler of a stream's line passes on the handle that drives that very
  stream, for the direction it was configured for, so no two handles share a stream; and the
  clock of the stream's controller is on.
\<close>

theorem uart_interrupt_routing:
  "(HAL_NVIC_EnableIRQ n \<in> set (msp_events k) \<longleftrightarrow> (\<exists>a. irq_route n = Some (k, a))) \<and>
   (irq_route (DMA_Stream_IRQn c m) = Some (k, DMA_TX_IRQHandler) \<longleftrightarrow> tx_stream k = (c, m)) \<and>
   (irq_route (DMA_Stream_IRQn c m) = Some (k, DMA_RX_IRQHandler) \<longleftrightarrow> rx_stream k = (c, m)) \<and>
   irq_route (DMA_Stream_IRQn c m) \<noteq> Some (k, USARTx_IRQHandler) \<and>
   (RCC_CLK_ENABLE (DMA_CLK c) \<in> set (msp_events k) \<longleftrightarrow> c \<in> {fst (tx_stream k), fst (rx_stream k)})"
proof -
  have "HAL_NVIC_EnableIRQ n \<in> set (msp_events k) \<longleftrightarrow> (\<exists>a. irq_route n = Some (k, a))"
    by (cases n; cases k) (auto simp: msp_usart_defs irq_init_def pin_init_def)
  moreover have "irq_route (DMA_Stream_IRQn c m) = Some (k, DMA_TX_IRQHandler) \<longleftrightarrow> tx_stream k = (c, m)"
    "irq_route (DMA_Stream_IRQn c m) = Some (k, DMA_RX_IRQHandler) \<longleftrightarrow> rx_stream k = (c, m)"
    "irq_route (DMA_Stream_IRQn c m) \<noteq> Some (k, USARTx_IRQHandler)"
    by (cases k; auto)+
  moreover have "RCC_CLK_ENABLE (DMA_CLK c) \<in> set (msp_events k) \<longleftrightarrow> c \<in> {fst (tx_stream k), fst (rx_stream k)}"
    by (cases k) (auto simp: msp_usart_defs irq_init_def pin_init_def)
  ultimately show ?thesis by blast
qed

end
