(* ===== verification/HalPoll.thy ===== *)
theory HalPoll
  imports HalUart
begin

text \<open>
  The blocking routines of the two drivers, which poll: \<open>HAL_UART_Transmit\<close> and
  \<open>HAL_UART_Receive\<close> with their wait for a flag, and \<open>HAL_DMA_PollForTransfer\<close>. What the hardware and
  the interrupts do before the \<open>i\<close>-th poll is \<open>hw i\<close>, the tick read after it \<open>tick_at env i\<close>; a wait may take at most
  \<open>fuel\<close> polls, \<open>None\<close> being a loop that is still running.
\<close>

abbreviation HAL_MAX_DELAY :: u32 where "HAL_MAX_DELAY \<equiv> 0xFFFFFFFF"

section \<open>Waiting for a flag\<close>

text \<open>The state in which a wait that timed out leaves the handle.\<close>

definition wait_timed_out :: "'a huart \<Rightarrow> 'a huart" where
  "wait_timed_out u =
     (let u = clear_CR1 (USART_CR1_RXNEIE OR USART_CR1_PEIE OR USART_CR1_TXEIE) u;
          u = clear_CR3 USART_CR3_EIE u;
          u = u\<lparr>gState := HAL_UART_STATE_READY\<rparr>;
          u = u\<lparr>RxState := HAL_UART_STATE_READY\<rparr>
      in u\<lparr>Lock := HAL_UNLOCKED\<rparr>)"

definition time_is_up :: "hw_env \<Rightarrow> u32 \<Rightarrow> nat \<Rightarrow> bool" where
  "time_is_up env Timeout i \<longleftrightarrow>
     Timeout \<noteq> HAL_MAX_DELAY \<and> (Timeout = 0 \<or> tick_at env i - tickstart env > Timeout)"

fun UART_WaitOnFlagUntilTimeout :: "hw_env \<Rightarrow> (nat \<Rightarrow> 'a huart \<Rightarrow> 'a huart) \<Rightarrow> u32 \<Rightarrow> bool \<Rightarrow> u32
    \<Rightarrow> nat \<Rightarrow> nat \<Rightarrow> 'a huart \<Rightarrow> (HAL_StatusTypeDef \<times> nat \<times> 'a huart) option" where
  "UART_WaitOnFlagUntilTimeout env hw Flag Status Timeout 0 i u = None"
| "UART_WaitOnFlagUntilTimeout env hw Flag Status Timeout (Suc fuel) i u =
     (let u = hw i u
      in if HAL_UART_GET_FLAG u Flag = Status then
           (if time_is_up env Timeout i then Some (HAL_TIMEOUT, Suc i, wait_timed_out u)
            else UART_WaitOnFlagUntilTimeout env hw Flag Status Timeout fuel (Suc i) u)
         else Some (HAL_OK, Suc i, u))"

section \<open>\<open>HAL_UART_Transmit\<close>\<close>

fun transmit_loop :: "hw_env \<Rightarrow> (nat \<Rightarrow> 'a huart \<Rightarrow> 'a huart) \<Rightarrow> u32 \<Rightarrow> nat \<Rightarrow> nat \<Rightarrow> nat \<Rightarrow> u32
    \<Rightarrow> 'a huart \<Rightarrow> (HAL_StatusTypeDef \<times> nat \<times> 'a huart) option" where
  "transmit_loop env hw Timeout fuel 0 i pData u = None"
| "transmit_loop env hw Timeout fuel (Suc n) i pData u =
     (if TxXferCount u > 0 then
        (let u = u\<lparr>TxXferCount := TxXferCount u - 1\<rparr>;
             nine = (WordLength (Init u) = UART_WORDLENGTH_9B)
         in case UART_WaitOnFlagUntilTimeout env hw USART_SR_TXE False Timeout fuel i u of
              None \<Rightarrow> None
            | Some (st, i, u) \<Rightarrow>
                if st \<noteq> HAL_OK then Some (HAL_TIMEOUT, i, u)
                else if nine then
                  (let u = write_DR (ucast (read_u16 (mem u) pData AND 0x1FF)) u;
                       pData = (if Parity (Init u) = UART_PARITY_NONE then pData + 2 else pData + 1)
                   in transmit_loop env hw Timeout fuel n i pData u)
                else transmit_loop env hw Timeout fuel n i (pData + 1) (write_DR (ucast (mem u pData AND 0xFF)) u))
      else Some (HAL_OK, i, u))"

definition HAL_UART_Transmit :: "hw_env \<Rightarrow> (nat \<Rightarrow> 'a huart \<Rightarrow> 'a huart) \<Rightarrow> nat \<Rightarrow> 'a huart \<Rightarrow> u32 \<Rightarrow> u16
    \<Rightarrow> u32 \<Rightarrow> (HAL_StatusTypeDef \<times> 'a huart) option" where
  "HAL_UART_Transmit env hw fuel u pData Size Timeout =
     (if gState u = HAL_UART_STATE_READY then
        (if pData = 0 \<or> Size = 0 then Some (HAL_ERROR, u)
         else if Lock u = HAL_LOCKED then Some (HAL_BUSY, u)
         else
           (let u = u\<lparr>Lock := HAL_LOCKED\<rparr>;
                u = u\<lparr>ErrorCode := HAL_UART_ERROR_NONE\<rparr>;
                u = u\<lparr>gState := HAL_UART_STATE_BUSY_TX\<rparr>;
                u = u\<lparr>TxXferSize := Size\<rparr>;
                u = u\<lparr>TxXferCount := Size\<rparr>
            in case transmit_loop env hw Timeout fuel fuel 0 pData u of
                 None \<Rightarrow> None
               | Some (st, i, u) \<Rightarrow>
                   if st \<noteq> HAL_OK then Some (HAL_TIMEOUT, u)
                   else
                     (case UART_WaitOnFlagUntilTimeout env hw USART_SR_TC False Timeout fuel i u of
                        None \<Rightarrow> None
                      | Some (st, i, u) \<Rightarrow>
                          if st \<noteq> HAL_OK then Some (HAL_TIMEOUT, u)
                          else
                            (let u = u\<lparr>gState := HAL_UART_STATE_READY\<rparr>
                             in Some (HAL_OK, u\<lparr>Lock := HAL_UNLOCKED\<rparr>)))))
      else Some (HAL_BUSY, u))"

section \<open>\<open>HAL_UART_Receive\<close>\<close>

fun receive_loop :: "hw_env \<Rightarrow> (nat \<Rightarrow> 'a huart \<Rightarrow> 'a huart) \<Rightarrow> u32 \<Rightarrow> nat \<Rightarrow> nat \<Rightarrow> nat \<Rightarrow> u32
    \<Rightarrow> 'a huart \<Rightarrow> (HAL_StatusTypeDef \<times> nat \<times> 'a huart) option" where
  "receive_loop env hw Timeout fuel 0 i pData u = None"
| "receive_loop env hw Timeout fuel (Suc n) i pData u =
     (if RxXferCount u > 0 then
        (let u = u\<lparr>RxXferCount := RxXferCount u - 1\<rparr>;
             nine = (WordLength (Init u) = UART_WORDLENGTH_9B)
         in case UART_WaitOnFlagUntilTimeout env hw USART_SR_RXNE False Timeout fuel i u of
              None \<Rightarrow> None
            | Some (st, i, u) \<Rightarrow>
                if st \<noteq> HAL_OK then Some (HAL_TIMEOUT, i, u)
                else
                  (let none = (Parity (Init u) = UART_PARITY_NONE);
                       (dr, u) = read_DR u
                   in if nine then
                        (if none then
                           receive_loop env hw Timeout fuel n i (pData + 2)
                             (u\<lparr>mem := write_u16 (ucast (dr AND 0x1FF)) pData (mem u)\<rparr>)
                         else
                           receive_loop env hw Timeout fuel n i (pData + 1)
                             (u\<lparr>mem := write_u16 (ucast (dr AND 0xFF)) pData (mem u)\<rparr>))
                      else
                        receive_loop env hw Timeout fuel n i (pData + 1)
                          (u\<lparr>mem := (mem u)(pData := ucast (dr AND (if none then 0xFF else 0x7F)))\<rparr>)))
      else Some (HAL_OK, i, u))"

definition HAL_UART_Receive :: "hw_env \<Rightarrow> (nat \<Rightarrow> 'a huart \<Rightarrow> 'a huart) \<Rightarrow> nat \<Rightarrow> 'a huart \<Rightarrow> u32 \<Rightarrow> u16
    \<Rightarrow> u32 \<Rightarrow> (HAL_StatusTypeDef \<times> 'a huart) option" where
  "HAL_UART_Receive env hw fuel u pData Size Timeout =
     (if RxState u = HAL_UART_STATE_READY then
        (if pData = 0 \<or> Size = 0 then Some (HAL_ERROR, u)
         else if Lock u = HAL_LOCKED then Some (HAL_BUSY, u)
         else
           (let u = u\<lparr>Lock := HAL_LOCKED\<rparr>;
                u = u\<lparr>ErrorCode := HAL_UART_ERROR_NONE\<rparr>;
                u = u\<lparr>RxState := HAL_UART_STATE_BUSY_RX\<rparr>;
                u = u\<lparr>RxXferSize := Size\<rparr>;
                u = u\<lparr>RxXferCount := Size\<rparr>
            in case receive_loop env hw Timeout fuel fuel 0 pData u of
                 None \<Rightarrow> None
               | Some (st, i, u) \<Rightarrow>
                   if st \<noteq> HAL_OK then Some (HAL_TIMEOUT, u)
                   else
                     (let u = u\<lparr>RxState := HAL_UART_STATE_READY\<rparr>
                      in Some (HAL_OK, u\<lparr>Lock := HAL_UNLOCKED\<rparr>))))
      else Some (HAL_BUSY, u))"

section \<open>\<open>HAL_DMA_PollForTransfer\<close>\<close>

datatype HAL_DMA_LevelCompleteTypeDef = HAL_DMA_FULL_TRANSFER | HAL_DMA_HALF_TRANSFER

abbreviation HAL_DMA_ERROR_NOT_SUPPORTED :: u32 where "HAL_DMA_ERROR_NOT_SUPPORTED \<equiv> 0x100"

text \<open>An error flag of the status read: its code is added, and the flag is cleared.\<close>

definition poll_error :: "u32 \<Rightarrow> u32 \<Rightarrow> u32 \<Rightarrow> 'cb DMA_HandleTypeDef \<Rightarrow> 'cb DMA_HandleTypeDef" where
  "poll_error tmpisr flag code h =
     (if tmpisr AND stream_mask h flag \<noteq> 0 then
        write_IFCR (stream_mask h flag) (h\<lparr>DErrorCode := DErrorCode h OR code\<rparr>)
      else h)"

text \<open>The loop, \<open>tmpisr\<close> being the status read last.\<close>

fun poll_loop :: "hw_env \<Rightarrow> (nat \<Rightarrow> 'cb DMA_HandleTypeDef \<Rightarrow> 'cb DMA_HandleTypeDef) \<Rightarrow> u32 \<Rightarrow> u32 \<Rightarrow> nat
    \<Rightarrow> nat \<Rightarrow> u32 \<Rightarrow> 'cb DMA_HandleTypeDef \<Rightarrow> (bool \<times> 'cb DMA_HandleTypeDef) option" where
  "poll_loop env hw mask_cpltlevel Timeout 0 i tmpisr h = None"
| "poll_loop env hw mask_cpltlevel Timeout (Suc fuel) i tmpisr h =
     (if tmpisr AND mask_cpltlevel = 0 \<and> DErrorCode h AND HAL_DMA_ERROR_TE = 0 then
        (if time_is_up env Timeout i then
           Some (False, h\<lparr>DErrorCode := HAL_DMA_ERROR_TIMEOUT, DLock := HAL_UNLOCKED,
                          DState := HAL_DMA_STATE_READY\<rparr>)
         else
           (let h = hw i h;
                tmpisr = ISR h;
                h = poll_error tmpisr DMA_FLAG_TEIF0_4 HAL_DMA_ERROR_TE h;
                h = poll_error tmpisr DMA_FLAG_FEIF0_4 HAL_DMA_ERROR_FE h;
                h = poll_error tmpisr DMA_FLAG_DMEIF0_4 HAL_DMA_ERROR_DME h
            in poll_loop env hw mask_cpltlevel Timeout fuel (Suc i) tmpisr h))
      else Some (True, h))"

definition HAL_DMA_PollForTransfer :: "hw_env \<Rightarrow> hw_env
    \<Rightarrow> (nat \<Rightarrow> 'cb DMA_HandleTypeDef \<Rightarrow> 'cb DMA_HandleTypeDef) \<Rightarrow> nat \<Rightarrow> 'cb DMA_HandleTypeDef
    \<Rightarrow> HAL_DMA_LevelCompleteTypeDef \<Rightarrow> u32 \<Rightarrow> (HAL_StatusTypeDef \<times> 'cb DMA_HandleTypeDef) option" where
  "HAL_DMA_PollForTransfer env abort_env hw fuel h CompleteLevel Timeout =
     (if HAL_DMA_STATE_BUSY \<noteq> DState h then
        Some (HAL_ERROR, h\<lparr>DErrorCode := HAL_DMA_ERROR_NO_XFER, DLock := HAL_UNLOCKED\<rparr>)
      else if S_CR h AND DMA_SxCR_CIRC \<noteq> 0 then
        Some (HAL_ERROR, h\<lparr>DErrorCode := HAL_DMA_ERROR_NOT_SUPPORTED\<rparr>)
      else
        (let mask_cpltlevel =
               (if CompleteLevel = HAL_DMA_FULL_TRANSFER then stream_mask h DMA_FLAG_TCIF0_4
                else stream_mask h DMA_FLAG_HTIF0_4)
         in case poll_loop env hw mask_cpltlevel Timeout fuel 0 (ISR h) h of
              None \<Rightarrow> None
            | Some (False, h) \<Rightarrow> Some (HAL_TIMEOUT, h)
            | Some (True, h) \<Rightarrow>
                if DErrorCode h \<noteq> HAL_DMA_ERROR_NONE \<and> DErrorCode h AND HAL_DMA_ERROR_TE \<noteq> 0 then
                  (let h = snd (HAL_DMA_Abort abort_env h);
                       h = write_IFCR (stream_mask h (DMA_FLAG_HTIF0_4 OR DMA_FLAG_TCIF0_4)) h;
                       h = h\<lparr>DLock := HAL_UNLOCKED\<rparr>
                   in Some (HAL_ERROR, h\<lparr>DState := HAL_DMA_STATE_READY\<rparr>))
                else if CompleteLevel = HAL_DMA_FULL_TRANSFER then
                  (let h = write_IFCR (stream_mask h (DMA_FLAG_HTIF0_4 OR DMA_FLAG_TCIF0_4)) h;
                       h = h\<lparr>DLock := HAL_UNLOCKED\<rparr>
                   in Some (HAL_OK, h\<lparr>DState := HAL_DMA_STATE_READY\<rparr>))
                else Some (HAL_OK, write_IFCR (stream_mask h DMA_FLAG_HTIF0_4) h)))"


section \<open>Waits\<close>

text \<open>The state after \<open>n\<close> turns of the hardware, the first of them with number \<open>i\<close>.\<close>

fun hw_run :: "(nat \<Rightarrow> 's \<Rightarrow> 's) \<Rightarrow> nat \<Rightarrow> nat \<Rightarrow> 's \<Rightarrow> 's" where
  "hw_run hw i 0 s = s"
| "hw_run hw i (Suc n) s = hw_run hw (Suc i) n (hw i s)"

lemma wait_flag_returns:
  assumes "\<forall>j \<ge> N. time_is_up env Timeout j" "N < fuel + i" "0 < fuel"
  shows "UART_WaitOnFlagUntilTimeout env hw flag st Timeout fuel i u \<noteq> None"
  using assms(2,3)
proof (induction fuel arbitrary: i u)
  case 0
  then show ?case by simp
next
  case (Suc fuel)
  show ?case
  proof (cases "time_is_up env Timeout i")
    case True
    then show ?thesis by (simp add: Let_def)
  next
    case False
    then have "i < N"
      using assms(1) by (meson not_le)
    then show ?thesis
      using Suc.IH [of "Suc i" "hw i u"] Suc.prems by (auto simp: Let_def)
  qed
qed

lemma wait_flag_result:
  "UART_WaitOnFlagUntilTimeout env hw flag st Timeout fuel i u = Some (r, k, q) \<Longrightarrow>
   i < k \<and> (\<exists>n. n < fuel \<and> (r = HAL_OK \<and> q = hw_run hw i (Suc n) u \<and> HAL_UART_GET_FLAG q flag \<noteq> st \<or>
     r = HAL_TIMEOUT \<and> q = wait_timed_out (hw_run hw i (Suc n) u)))"
proof (induction fuel arbitrary: i u)
  case 0
  then show ?case by simp
next
  case (Suc fuel)
  show ?case
  proof (cases "HAL_UART_GET_FLAG (hw i u) flag = st \<and> \<not> time_is_up env Timeout i")
    case True
    then have "UART_WaitOnFlagUntilTimeout env hw flag st Timeout fuel (Suc i) (hw i u) = Some (r, k, q)"
      using Suc.prems by (simp add: Let_def)
    from Suc.IH [OF this] show ?thesis
      by (metis Suc_lessD Suc_less_eq hw_run.simps(2))
  next
    case False
    then show ?thesis
      using Suc.prems by (intro conjI exI [of _ 0]) (auto simp: Let_def split: if_splits)
  qed
qed

lemma wait_flag_ok:
  assumes "\<exists>j < fuel. HAL_UART_GET_FLAG (hw_run hw i (Suc j) u) flag \<noteq> st"
  shows "\<exists>k n. UART_WaitOnFlagUntilTimeout env hw flag st HAL_MAX_DELAY fuel i u = Some (HAL_OK, k, hw_run hw i (Suc n) u)
    \<and> HAL_UART_GET_FLAG (hw_run hw i (Suc n) u) flag \<noteq> st"
  using assms
proof (induction fuel arbitrary: i u)
  case 0
  then show ?case by simp
next
  case (Suc fuel)
  show ?case
  proof (cases "HAL_UART_GET_FLAG (hw i u) flag = st")
    case True
    then obtain j where "j < fuel" "HAL_UART_GET_FLAG (hw_run hw (Suc i) (Suc j) (hw i u)) flag \<noteq> st"
      using Suc.prems by (metis Suc_less_eq hw_run.simps less_Suc_eq_0_disj)
    then obtain k n where "UART_WaitOnFlagUntilTimeout env hw flag st HAL_MAX_DELAY fuel (Suc i) (hw i u)
        = Some (HAL_OK, k, hw_run hw (Suc i) (Suc n) (hw i u))"
      "HAL_UART_GET_FLAG (hw_run hw (Suc i) (Suc n) (hw i u)) flag \<noteq> st"
      using Suc.IH [of "Suc i" "hw i u"] by blast
    then show ?thesis
      using True by (intro exI [of _ k] exI [of _ "Suc n"]) (simp add: Let_def time_is_up_def)
  next
    case False
    then show ?thesis
      by (intro exI [of _ "Suc i"] exI [of _ 0]) (simp add: Let_def)
  qed
qed

text \<open>A property of the state that no turn of the hardware changes.\<close>

lemma hw_run_keeps: "(\<And>i s. f (hw i s) = f s) \<Longrightarrow> f (hw_run hw i n s) = f s"
  by (induction n arbitrary: i s) simp_all

end
