(* ===== verification/HalPollProps.thy ===== *)
theory HalPollProps
  imports HalPoll UsartProps
begin

text \<open>
  What holds of the blocking routines: they return in bounded time, transmission writes and reception
  stores exactly the bytes asked for, and what a poll of a DMA transfer leaves behind.
\<close>

section \<open>Blocking transmission\<close>

lemma wait_timed_out_fields [simp]:
  "TxXferCount (wait_timed_out u) = TxXferCount u" "tx_log (wait_timed_out u) = tx_log u"
  "mem (wait_timed_out u) = mem u" "Lock (wait_timed_out u) = HAL_UNLOCKED"
  "gState (wait_timed_out u) = HAL_UART_STATE_READY" "RxState (wait_timed_out u) = HAL_UART_STATE_READY"
  by (simp_all add: wait_timed_out_def Let_def)

lemma write_DR_handle [simp]:
  "mem (write_DR v u) = mem u" "tx_log (write_DR v u) = tx_log u @ [v]" "Init (write_DR v u) = Init u"
  "TxXferCount (write_DR v u) = TxXferCount u"
  by (simp_all add: write_DR_def)

lemma transmit_loop_returns:
  assumes up: "\<forall>j \<ge> N. time_is_up env Timeout j" "N < fuel"
    and hw: "\<forall>i u. TxXferCount (hw i u) = TxXferCount u"
  shows "unat (TxXferCount u) < n \<Longrightarrow> \<exists>st i' q. transmit_loop env hw Timeout fuel n i a u = Some (st, i', q) \<and>
    (st = HAL_OK \<or> st = HAL_TIMEOUT \<and> (\<exists>r. q = wait_timed_out r))"
proof (induction n arbitrary: i a u)
  case 0
  then show ?case by simp
next
  case (Suc n)
  show ?case
  proof (cases "TxXferCount u > 0")
    case False
    then show ?thesis by simp
  next
    case True
    let ?u = "u\<lparr>TxXferCount := TxXferCount u - 1\<rparr>"
    obtain st k q where w: "UART_WaitOnFlagUntilTimeout env hw USART_SR_TXE False Timeout fuel i ?u = Some (st, k, q)"
      using wait_flag_returns [OF up(1), of fuel i hw USART_SR_TXE False ?u] up(2) by fastforce
    note r = wait_flag_result [OF w]
    show ?thesis
    proof (cases "st = HAL_OK")
      case False
      then show ?thesis
        using r w True by (auto simp: Let_def)
    next
      case ok: True
      then obtain m where "q = hw_run hw i (Suc m) ?u"
        using r by auto
      then have "TxXferCount q = TxXferCount u - 1"
        using hw_run_keeps [of TxXferCount hw i "Suc m" ?u] hw by simp
      then have "unat (TxXferCount q) < n"
        using Suc.prems u16_count_down [OF True] by auto
      then show ?thesis
        using w True ok Suc.IH by (simp add: Let_def)
    qed
  qed
qed

text \<open>
  C23. \<open>HAL_UART_Transmit\<close> returns, for every behaviour of the hardware: if the time limit stays passed from
  some poll on, a number of rounds beyond it and beyond the number of bytes is enough. It returns \<open>HAL_OK\<close>
  or \<open>HAL_TIMEOUT\<close> with the handle unlocked and ready to send. After a time-out the receiver is marked ready
  too, even if a reception was running.
\<close>

theorem transmit_returns:
  assumes "\<forall>j \<ge> N. time_is_up env Timeout j" "N < fuel" "unat Size < fuel"
    and "\<forall>i u. TxXferCount (hw i u) = TxXferCount u"
    and "gState u = HAL_UART_STATE_READY" "Lock u = HAL_UNLOCKED" "pData \<noteq> 0" "Size \<noteq> 0"
  shows "\<exists>st q. HAL_UART_Transmit env hw fuel u pData Size Timeout = Some (st, q) \<and>
    st \<in> {HAL_OK, HAL_TIMEOUT} \<and> gState q = HAL_UART_STATE_READY \<and> Lock q = HAL_UNLOCKED \<and>
    (st = HAL_TIMEOUT \<longrightarrow> RxState q = HAL_UART_STATE_READY)"
proof -
  let ?u = "u\<lparr>Lock := HAL_LOCKED, ErrorCode := HAL_UART_ERROR_NONE, gState := HAL_UART_STATE_BUSY_TX,
    TxXferSize := Size, TxXferCount := Size\<rparr>"
  obtain st i q where l: "transmit_loop env hw Timeout fuel fuel 0 pData ?u = Some (st, i, q)"
    "st = HAL_OK \<or> st = HAL_TIMEOUT \<and> (\<exists>r. q = wait_timed_out r)"
    using transmit_loop_returns [OF assms(1,2,4), of ?u fuel 0 pData] assms(3) by auto
  show ?thesis
  proof (cases "st = HAL_OK")
    case False
    then show ?thesis
      using l assms(5-8) by (auto simp: HAL_UART_Transmit_def Let_def)
  next
    case True
    obtain st' k r where w: "UART_WaitOnFlagUntilTimeout env hw USART_SR_TC False Timeout fuel i q = Some (st', k, r)"
      using wait_flag_returns [OF assms(1), of fuel i hw USART_SR_TC False q] assms(2) by fastforce
    show ?thesis
      using wait_flag_result [OF w] l True w assms(5-8) by (auto simp: HAL_UART_Transmit_def Let_def)
  qed
qed

text \<open>A transmitter that empties the data register and then the shift register within \<open>d\<close> of the hardware's
  turns, whenever the driver waits, and leaves alone what the driver keeps.\<close>

definition tx_hw :: "nat \<Rightarrow> (nat \<Rightarrow> 'a huart \<Rightarrow> 'a huart) \<Rightarrow> bool" where
  "tx_hw d hw \<longleftrightarrow> (\<forall>i u. \<exists>j < d. HAL_UART_GET_FLAG (hw_run hw i (Suc j) u) USART_SR_TXE) \<and>
     (\<forall>i u. \<exists>j < d. HAL_UART_GET_FLAG (hw_run hw i (Suc j) u) USART_SR_TC) \<and>
     (\<forall>i u. mem (hw i u) = mem u \<and> tx_log (hw i u) = tx_log u \<and> Init (hw i u) = Init u \<and>
        TxXferCount (hw i u) = TxXferCount u)"

lemma tx_hw_waits:
  assumes "tx_hw d hw" "d \<le> fuel" "flag \<in> {USART_SR_TXE, USART_SR_TC}"
  shows "\<exists>k q. UART_WaitOnFlagUntilTimeout env hw flag False HAL_MAX_DELAY fuel i u = Some (HAL_OK, k, q) \<and>
    mem q = mem u \<and> tx_log q = tx_log u \<and> Init q = Init u \<and> TxXferCount q = TxXferCount u"
proof -
  have "\<exists>j < fuel. HAL_UART_GET_FLAG (hw_run hw i (Suc j) u) flag \<noteq> False"
    using assms unfolding tx_hw_def by (metis (no_types, lifting) empty_iff insert_iff order_less_le_trans)
  from wait_flag_ok [OF this, of env] show ?thesis
    using hw_run_keeps [of mem hw] hw_run_keeps [of tx_log hw] hw_run_keeps [of Init hw]
      hw_run_keeps [of TxXferCount hw] assms(1) unfolding tx_hw_def by metis
qed

lemma transmit_loop_sends:
  assumes t: "tx_hw d hw" "d \<le> fuel"
  shows "WordLength (Init u) \<noteq> UART_WORDLENGTH_9B \<Longrightarrow> unat (TxXferCount u) < n \<Longrightarrow>
    \<exists>i' q. transmit_loop env hw HAL_MAX_DELAY fuel n i a u = Some (HAL_OK, i', q) \<and> mem q = mem u \<and>
      tx_log q = tx_log u @ map ucast (read_bytes (mem u) a (unat (TxXferCount u)))"
proof (induction n arbitrary: i a u)
  case 0
  then show ?case by simp
next
  case (Suc n)
  show ?case
  proof (cases "TxXferCount u > 0")
    case False
    then show ?thesis by (simp add: word_gt_0)
  next
    case True
    let ?u = "u\<lparr>TxXferCount := TxXferCount u - 1\<rparr>"
    obtain m where m: "unat (TxXferCount u) = Suc m" "unat (TxXferCount u - 1) = m"
      using u16_count_down [OF True] by blast
    obtain k q where w: "UART_WaitOnFlagUntilTimeout env hw USART_SR_TXE False HAL_MAX_DELAY fuel i ?u = Some (HAL_OK, k, q)"
      "mem q = mem u" "tx_log q = tx_log u" "Init q = Init u" "TxXferCount q = TxXferCount u - 1"
      using tx_hw_waits [OF t, of USART_SR_TXE env i ?u] by auto
    let ?q = "write_DR (ucast (mem q a)) q"
    obtain i' r where "transmit_loop env hw HAL_MAX_DELAY fuel n k (a + 1) ?q = Some (HAL_OK, i', r)" "mem r = mem u"
      "tx_log r = tx_log u @ [ucast (mem u a)] @ map ucast (read_bytes (mem u) (a + 1) m)"
      using Suc.IH [of ?q k "a + 1"] Suc.prems w m by auto
    moreover have "mem q a AND 0xFF = mem q a"
      by (rule and_0xFF_u8)
    ultimately show ?thesis
      using w True m Suc.prems(1) by (simp add: Let_def)
  qed
qed

text \<open>
  With no time limit, \<open>HAL_UART_Transmit\<close> on a handle that is ready writes the \<open>Size\<close> bytes at \<open>pData\<close> to
  the data register in order and returns \<open>HAL_OK\<close>, for every transmitter that becomes empty within
  \<open>d\<close> polls.
\<close>

theorem transmit_sends:
  assumes "tx_hw d hw" "d \<le> fuel" "unat Size < fuel" "WordLength (Init u) \<noteq> UART_WORDLENGTH_9B"
    and "gState u = HAL_UART_STATE_READY" "Lock u = HAL_UNLOCKED" "pData \<noteq> 0" "Size \<noteq> 0"
  shows "\<exists>q. HAL_UART_Transmit env hw fuel u pData Size HAL_MAX_DELAY = Some (HAL_OK, q) \<and>
    tx_log q = tx_log u @ map ucast (read_bytes (mem u) pData (unat Size)) \<and>
    gState q = HAL_UART_STATE_READY \<and> Lock q = HAL_UNLOCKED"
proof -
  let ?u = "u\<lparr>Lock := HAL_LOCKED, ErrorCode := HAL_UART_ERROR_NONE, gState := HAL_UART_STATE_BUSY_TX,
    TxXferSize := Size, TxXferCount := Size\<rparr>"
  obtain i q where l: "transmit_loop env hw HAL_MAX_DELAY fuel fuel 0 pData ?u = Some (HAL_OK, i, q)"
    "tx_log q = tx_log u @ map ucast (read_bytes (mem u) pData (unat Size))"
    using transmit_loop_sends [OF assms(1,2), of ?u fuel env 0 pData] assms(3,4) by auto
  obtain k r where "UART_WaitOnFlagUntilTimeout env hw USART_SR_TC False HAL_MAX_DELAY fuel i q = Some (HAL_OK, k, r)"
    "tx_log r = tx_log q"
    using tx_hw_waits [OF assms(1,2), of USART_SR_TC env i q] by auto
  then show ?thesis
    using l assms(5-8) by (simp add: HAL_UART_Transmit_def Let_def)
qed

section \<open>Blocking reception\<close>

text \<open>A sender whose \<open>n\<close>-th character is \<open>msg ! n\<close>: within \<open>d\<close> turns the next one, counted by what the driver has
  taken, is in the data register. It may wait for the driver, so no character is overrun.\<close>

definition rx_hw :: "nat \<Rightarrow> u32 list \<Rightarrow> (nat \<Rightarrow> 'a huart \<Rightarrow> 'a huart) \<Rightarrow> bool" where
  "rx_hw d msg hw \<longleftrightarrow> (\<forall>i u. \<exists>j < d. HAL_UART_GET_FLAG (hw_run hw i (Suc j) u) USART_SR_RXNE) \<and>
     (\<forall>i u. HAL_UART_GET_FLAG (hw i u) USART_SR_RXNE \<longrightarrow>
        DR (hw i u) = msg ! (length msg - 1 - unat (RxXferCount u))) \<and>
     (\<forall>i u. mem (hw i u) = mem u \<and> Init (hw i u) = Init u \<and> RxXferCount (hw i u) = RxXferCount u)"

lemma hw_run_Suc: "hw_run hw i (Suc n) u = hw (i + n) (hw_run hw i n u)"
  by (induction n arbitrary: i u) simp_all

lemma rx_hw_waits:
  assumes "rx_hw d msg hw" "d \<le> fuel"
  shows "\<exists>k q. UART_WaitOnFlagUntilTimeout env hw USART_SR_RXNE False HAL_MAX_DELAY fuel i u = Some (HAL_OK, k, q) \<and>
    mem q = mem u \<and> Init q = Init u \<and> RxXferCount q = RxXferCount u \<and>
    DR q = msg ! (length msg - 1 - unat (RxXferCount u))"
proof -
  have keeps: "mem (hw_run hw j n u) = mem u" "Init (hw_run hw j n u) = Init u"
    "RxXferCount (hw_run hw j n u) = RxXferCount u" for j n
    using hw_run_keeps [of mem hw] hw_run_keeps [of Init hw] hw_run_keeps [of RxXferCount hw] assms(1)
    unfolding rx_hw_def by blast+
  have "\<exists>j < fuel. HAL_UART_GET_FLAG (hw_run hw i (Suc j) u) USART_SR_RXNE \<noteq> False"
    using assms unfolding rx_hw_def by (metis order_less_le_trans)
  from wait_flag_ok [OF this, of env] obtain k n where
    w: "UART_WaitOnFlagUntilTimeout env hw USART_SR_RXNE False HAL_MAX_DELAY fuel i u =
      Some (HAL_OK, k, hw_run hw i (Suc n) u)" "HAL_UART_GET_FLAG (hw_run hw i (Suc n) u) USART_SR_RXNE"
    by auto
  then have "DR (hw_run hw i (Suc n) u) = msg ! (length msg - 1 - unat (RxXferCount u))"
    using assms(1) keeps(3) [of i n] unfolding rx_hw_def hw_run_Suc by metis
  then show ?thesis
    using w keeps by blast
qed

lemma read_DR_handle [simp]:
  "mem (snd (read_DR u)) = mem u" "Init (snd (read_DR u)) = Init u"
  "RxXferCount (snd (read_DR u)) = RxXferCount u" "fst (read_DR u) = DR u"
  by (simp_all add: read_DR_def)

lemma receive_loop_stores:
  assumes t: "rx_hw d msg hw" "d \<le> fuel"
  shows "WordLength (Init u) \<noteq> UART_WORDLENGTH_9B \<Longrightarrow> Parity (Init u) = UART_PARITY_NONE \<Longrightarrow>
    unat (RxXferCount u) < n \<Longrightarrow> unat (RxXferCount u) \<le> length msg \<Longrightarrow>
    \<exists>i' q. receive_loop env hw HAL_MAX_DELAY fuel n i a u = Some (HAL_OK, i', q) \<and>
      read_bytes (mem q) a (unat (RxXferCount u)) = map ucast (drop (length msg - unat (RxXferCount u)) msg) \<and>
      (\<forall>x. (\<forall>k < unat (RxXferCount u). x \<noteq> a + of_nat k) \<longrightarrow> mem q x = mem u x)"
proof (induction n arbitrary: i a u)
  case 0
  then show ?case by simp
next
  case (Suc n)
  show ?case
  proof (cases "RxXferCount u > 0")
    case False
    then show ?thesis by (simp add: word_gt_0)
  next
    case True
    let ?u = "u\<lparr>RxXferCount := RxXferCount u - 1\<rparr>"
    obtain m where m: "unat (RxXferCount u) = Suc m" "unat (RxXferCount u - 1) = m"
      using u16_count_down [OF True] by blast
    obtain k q where w: "UART_WaitOnFlagUntilTimeout env hw USART_SR_RXNE False HAL_MAX_DELAY fuel i ?u = Some (HAL_OK, k, q)"
      "mem q = mem u" "Init q = Init u" "RxXferCount q = RxXferCount u - 1" "DR q = msg ! (length msg - 1 - m)"
      using rx_hw_waits [OF t, of env i ?u] m(2) by auto
    define b :: u8 where "b = ucast (msg ! (length msg - 1 - m))"
    define r where "r = (snd (read_DR q))\<lparr>mem := (mem u)(a := b)\<rparr>"
    have r: "mem r = (mem u)(a := b)" "Init r = Init u" "RxXferCount r = RxXferCount u - 1"
      using w by (simp_all add: r_def)
    obtain i' s where s: "receive_loop env hw HAL_MAX_DELAY fuel n k (a + 1) r = Some (HAL_OK, i', s)"
      "read_bytes (mem s) (a + 1) m = map ucast (drop (length msg - m) msg)"
      "\<forall>x. (\<forall>k < m. x \<noteq> a + 1 + of_nat k) \<longrightarrow> mem s x = mem r x"
      using Suc.IH [of r k "a + 1"] Suc.prems r m by auto
    have bound: "m < 4294967295"
      using m unat_u16_bound [of "RxXferCount u"] by simp
    have "a \<noteq> a + 1 + of_nat k" if "k < m" for k
    proof
      assume "a = a + 1 + of_nat k"
      then have "(of_nat (Suc k) :: u32) = 0"
        by (simp add: add.assoc)
      then show False
        using that bound of_nat_u32_nonzero [of "Suc k"] by auto
    qed
    then have a: "mem s a = b"
      using s(3) r(1) by auto
    have "ucast (msg ! (length msg - 1 - m) AND 0xFF) = b"
      unfolding b_def by (simp add: ucast_and_0xFF)
    then have step: "receive_loop env hw HAL_MAX_DELAY fuel (Suc n) i a u = Some (HAL_OK, i', s)"
      using w(1,2,3,5) s(1) True Suc.prems(1,2) by (simp add: Let_def case_prod_beta r_def)
    have "drop (length msg - Suc m) msg = msg ! (length msg - 1 - m) # drop (length msg - m) msg"
      using Suc.prems(4) m(1) by (metis Cons_nth_drop_Suc Suc_diff_Suc Suc_le_lessD diff_Suc_eq_diff_pred
          diff_less less_le_trans zero_less_Suc)
    moreover have "mem s x = mem u x" if "\<forall>k < Suc m. x \<noteq> a + of_nat k" for x
    proof -
      have "x \<noteq> a"
        using that by force
      moreover have "\<forall>k < m. x \<noteq> a + 1 + of_nat k"
        using that by (metis Suc_less_eq add.assoc of_nat_Suc)
      ultimately show ?thesis
        using s(3) r(1) by simp
    qed
    ultimately show ?thesis
      using step s(2) a m(1) b_def by auto
  qed
qed

text \<open>
  With no time limit, \<open>HAL_UART_Receive\<close> for as many characters as the sender has stores them at
  \<open>pData\<close> in order, writes nowhere else, and returns \<open>HAL_OK\<close> with the handle unlocked and ready.
\<close>

theorem receive_stores:
  assumes "rx_hw d msg hw" "d \<le> fuel" "length msg = unat Size" "unat Size < fuel"
    and "WordLength (Init u) \<noteq> UART_WORDLENGTH_9B" "Parity (Init u) = UART_PARITY_NONE"
    and "RxState u = HAL_UART_STATE_READY" "Lock u = HAL_UNLOCKED" "pData \<noteq> 0" "Size \<noteq> 0"
  shows "\<exists>q. HAL_UART_Receive env hw fuel u pData Size HAL_MAX_DELAY = Some (HAL_OK, q) \<and>
    read_bytes (mem q) pData (unat Size) = map ucast msg \<and>
    (\<forall>x. (\<forall>k < unat Size. x \<noteq> pData + of_nat k) \<longrightarrow> mem q x = mem u x) \<and>
    RxState q = HAL_UART_STATE_READY \<and> Lock q = HAL_UNLOCKED"
proof -
  let ?u = "u\<lparr>Lock := HAL_LOCKED, ErrorCode := HAL_UART_ERROR_NONE, RxState := HAL_UART_STATE_BUSY_RX,
    RxXferSize := Size, RxXferCount := Size\<rparr>"
  obtain i q where "receive_loop env hw HAL_MAX_DELAY fuel fuel 0 pData ?u = Some (HAL_OK, i, q)"
    "read_bytes (mem q) pData (unat Size) = map ucast msg"
    "\<forall>x. (\<forall>k < unat Size. x \<noteq> pData + of_nat k) \<longrightarrow> mem q x = mem u x"
    using receive_loop_stores [OF assms(1,2), of ?u fuel env 0 pData] assms(3-6) by auto
  then show ?thesis
    using assms(7-10) by (simp add: HAL_UART_Receive_def Let_def)
qed

section \<open>Polling a DMA transfer\<close>

lemma poll_loop_returns:
  "time_is_up env Timeout N \<Longrightarrow> N < fuel + i \<Longrightarrow> i \<le> N \<Longrightarrow> poll_loop env hw lvl Timeout fuel i isr h \<noteq> None"
proof (induction fuel arbitrary: i isr h)
  case 0
  then show ?case by simp
next
  case (Suc fuel)
  then show ?case
    by (cases "i = N") (auto simp: Let_def)
qed


lemma poll_loop_exits:
  "poll_loop env hw lvl Timeout fuel i isr h = Some (b, q) \<Longrightarrow>
   (\<not>  b \<longrightarrow> (\<exists>r. q = r\<lparr>DErrorCode := HAL_DMA_ERROR_TIMEOUT, DLock := HAL_UNLOCKED,
      DState := HAL_DMA_STATE_READY\<rparr>)) \<and>
   (b \<longrightarrow> DErrorCode q AND HAL_DMA_ERROR_TE \<noteq> 0 \<or> isr AND lvl \<noteq> 0 \<or>
      (\<exists>j g. ISR (hw j g) AND lvl \<noteq> 0))"
proof (induction fuel arbitrary: i isr h)
  case 0
  then show ?case by simp
next
  case (Suc fuel)
  show ?case
  proof (cases "isr AND lvl = 0 \<and> DErrorCode h AND HAL_DMA_ERROR_TE = 0 \<and> \<not> time_is_up env Timeout i")
    case True
    let ?h = "hw i h"
    have "poll_loop env hw lvl Timeout fuel (Suc i) (ISR ?h)
        (poll_error (ISR ?h) DMA_FLAG_DMEIF0_4 HAL_DMA_ERROR_DME (poll_error (ISR ?h) DMA_FLAG_FEIF0_4
          HAL_DMA_ERROR_FE (poll_error (ISR ?h) DMA_FLAG_TEIF0_4 HAL_DMA_ERROR_TE ?h))) = Some (b, q)"
      using Suc.prems True by (simp add: Let_def)
    from Suc.IH [OF this] show ?thesis by blast
  next
    case False
    then show ?thesis
      using Suc.prems by (auto split: if_splits)
  qed
qed

text \<open>
  \<open>HAL_DMA_PollForTransfer\<close> on a running transfer returns, for every behaviour of the stream, within one
  more round than the poll at which the time limit is passed. Unless it returns \<open>HAL_OK\<close> for the half transfer,
  it leaves the handle unlocked and ready.
\<close>

theorem dma_poll_returns:
  assumes "time_is_up env Timeout N" "N < fuel" "DState h = HAL_DMA_STATE_BUSY"
    and "\<not> HAL_IS_BIT_SET (S_CR h) DMA_SxCR_CIRC"
  shows "\<exists>st q. HAL_DMA_PollForTransfer env env' hw fuel h lvl Timeout = Some (st, q) \<and>
    (st = HAL_OK \<and> (lvl = HAL_DMA_FULL_TRANSFER \<longrightarrow> DLock q = HAL_UNLOCKED \<and> DState q = HAL_DMA_STATE_READY) \<or>
     st \<in> {HAL_ERROR, HAL_TIMEOUT} \<and> DLock q = HAL_UNLOCKED \<and> DState q = HAL_DMA_STATE_READY)"
proof -
  define m where "m = (if lvl = HAL_DMA_FULL_TRANSFER then stream_mask h DMA_FLAG_TCIF0_4 else stream_mask h DMA_FLAG_HTIF0_4)"
  obtain b q where l: "poll_loop env hw m Timeout fuel 0 (ISR h) h = Some (b, q)"
    using poll_loop_returns [OF assms(1), of fuel 0 hw m "ISR h" h] assms(2) by fastforce
  show ?thesis
    using assms(3,4) l poll_loop_exits [OF l]
    by (cases b) (auto simp: HAL_DMA_PollForTransfer_def HAL_IS_BIT_SET_def Let_def write_IFCR_def m_def)
qed


text \<open>While no flag of the stream comes up, an iteration changes nothing but what the hardware changes.\<close>

lemma poll_loop_quiet:
  assumes "\<forall>i g. ISR (hw i g) = ISR g \<and> S_CR (hw i g) = S_CR g \<and> StreamIndex (hw i g) = StreamIndex g \<and>
      DErrorCode (hw i g) = DErrorCode g"
    and "time_is_up env Timeout N"
  shows "N < fuel + i \<Longrightarrow> i \<le> N \<Longrightarrow> ISR h AND stream_mask h 0x80003F = 0 \<Longrightarrow> DErrorCode h = 0 \<Longrightarrow>
    lvl \<in> {stream_mask h DMA_FLAG_TCIF0_4, stream_mask h DMA_FLAG_HTIF0_4} \<Longrightarrow>
    \<exists>r. poll_loop env hw lvl Timeout fuel i (ISR h) h = Some (False, r\<lparr>DErrorCode := HAL_DMA_ERROR_TIMEOUT,
      DLock := HAL_UNLOCKED, DState := HAL_DMA_STATE_READY\<rparr>) \<and> S_CR r = S_CR h"
proof (induction fuel arbitrary: i h)
  case 0
  then show ?case by simp
next
  case (Suc fuel)
  have z: "ISR h AND stream_mask h m = 0" if "m AND 0x80003F = m" for m
    using Suc.prems(3) that and_push_bit_sub unfolding stream_mask_def by blast
  have lvl: "ISR h AND lvl = 0"
    using Suc.prems(5) z by auto
  show ?case
  proof (cases "time_is_up env Timeout i")
    case True
    then show ?thesis
      using lvl Suc.prems(4) by (intro exI [of _ h]) simp
  next
    case False
    let ?h = "hw i h"
    have h: "ISR ?h = ISR h" "S_CR ?h = S_CR h" "stream_mask ?h = stream_mask h" "DErrorCode ?h = DErrorCode h"
      using assms(1) by (simp_all add: stream_mask_def fun_eq_iff)
    have e: "poll_error (ISR h) DMA_FLAG_TEIF0_4 c ?h = ?h" "poll_error (ISR h) DMA_FLAG_FEIF0_4 c ?h = ?h"
      "poll_error (ISR h) DMA_FLAG_DMEIF0_4 c ?h = ?h" for c
      by (simp_all add: poll_error_def h(3) z)
    have "i < N"
      using False assms(2) Suc.prems(2) by (metis le_neq_implies_less)
    then have "Suc i \<le> N" "N < fuel + Suc i"
      using Suc.prems(1) by simp_all
    then obtain r where "poll_loop env hw lvl Timeout fuel (Suc i) (ISR ?h) ?h = Some (False,
        r\<lparr>DErrorCode := HAL_DMA_ERROR_TIMEOUT, DLock := HAL_UNLOCKED, DState := HAL_DMA_STATE_READY\<rparr>)"
      "S_CR r = S_CR h"
      using Suc.IH [of "Suc i" ?h] Suc.prems(3,4,5) unfolding h by blast
    moreover have "poll_loop env hw lvl Timeout (Suc fuel) i (ISR h) h =
        poll_loop env hw lvl Timeout fuel (Suc i) (ISR ?h) ?h"
      using False lvl Suc.prems(4) by (simp add: Let_def e h(1))
    ultimately show ?thesis
      by metis
  qed
qed

text \<open>
  C38. A \<open>HAL_DMA_PollForTransfer\<close> that times out marks the handle ready while the stream is still
  enabled: the next \<open>HAL_DMA_Start\<close> is accepted although the stream still runs the old transfer, and
  \<open>HAL_DMA_Abort\<close> refuses to stop it.
\<close>

theorem dma_poll_timeout_leaves_stream_on:
  assumes "\<forall>i g. ISR (hw i g) = ISR g \<and> S_CR (hw i g) = S_CR g \<and> StreamIndex (hw i g) = StreamIndex g \<and>
      DErrorCode (hw i g) = DErrorCode g"
    and "ISR h AND stream_mask h 0x80003F = 0" "DErrorCode h = HAL_DMA_ERROR_NONE"
    and "time_is_up env Timeout N" "N < fuel" "DState h = HAL_DMA_STATE_BUSY"
    and "\<not> HAL_IS_BIT_SET (S_CR h) DMA_SxCR_CIRC" "HAL_IS_BIT_SET (S_CR h) DMA_SxCR_EN"
  shows "\<exists>q. HAL_DMA_PollForTransfer env env' hw fuel h lvl Timeout = Some (HAL_TIMEOUT, q) \<and>
    HAL_IS_BIT_SET (S_CR q) DMA_SxCR_EN \<and> fst (HAL_DMA_Start q src dst len) = HAL_OK \<and>
    HAL_DMA_Abort env' q = (HAL_ERROR, q\<lparr>DErrorCode := HAL_DMA_ERROR_NO_XFER\<rparr>)"
proof -
  let ?m = "if lvl = HAL_DMA_FULL_TRANSFER then stream_mask h DMA_FLAG_TCIF0_4 else stream_mask h DMA_FLAG_HTIF0_4"
  obtain r where "poll_loop env hw ?m Timeout fuel 0 (ISR h) h = Some (False, r\<lparr>DErrorCode := HAL_DMA_ERROR_TIMEOUT,
      DLock := HAL_UNLOCKED, DState := HAL_DMA_STATE_READY\<rparr>)" "S_CR r = S_CR h"
    using poll_loop_quiet [OF assms(1,4), of fuel 0 h ?m] assms(2,3,5) by fastforce
  then show ?thesis
    using assms(6-8) by (auto simp: HAL_DMA_PollForTransfer_def HAL_IS_BIT_SET_def Let_def HAL_DMA_Start_def
        HAL_DMA_Abort_def)
qed


section \<open>Examples\<close>

definition env_late :: hw_env where
  "env_late = \<lparr>tickstart = 0, tick_at = (\<lambda>i. if i < 11 then 0 else 11), stop_polls = 0\<rparr>"

lemma env_late_up: "\<forall>j \<ge> 11. time_is_up env_late 10 j"
  by (simp add: time_is_up_def env_late_def)

definition uart_idle :: "nat STUsart" where
  "uart_idle = port_example\<lparr>gState := HAL_UART_STATE_READY, RxState := HAL_UART_STATE_READY, tx_log := [],
     mem := (\<lambda>_. 0)(0x20000100 := 79, 0x20000101 := 75)\<rparr>"

lemma uart_idle_fields: "gState uart_idle = HAL_UART_STATE_READY" "RxState uart_idle = HAL_UART_STATE_READY"
  "Lock uart_idle = HAL_UNLOCKED" "WordLength (Init uart_idle) \<noteq> UART_WORDLENGTH_9B"
  "Parity (Init uart_idle) = UART_PARITY_NONE" "tx_log uart_idle = []"
  "mem uart_idle 0x20000100 = 79" "mem uart_idle 0x20000101 = 75"
  by (simp_all add: uart_idle_def port_example_def)

theorem transmit_returns_witness:
  "\<exists>st q. HAL_UART_Transmit env_late (\<lambda>_ u. u) 12 uart_idle 0x20000100 2 10 = Some (st, q) \<and>
     st \<in> {HAL_OK, HAL_TIMEOUT} \<and> gState q = HAL_UART_STATE_READY \<and> Lock q = HAL_UNLOCKED"
  using transmit_returns [OF env_late_up, of 12 2 "\<lambda>_ u. u" uart_idle "0x20000100"] uart_idle_fields
  by auto

definition hw_ready :: "nat \<Rightarrow> nat STUsart \<Rightarrow> nat STUsart" where
  "hw_ready i u = u\<lparr>SR := USART_SR_TXE OR USART_SR_TC OR USART_SR_RXNE,
     DR := [79, 75] ! (1 - unat (RxXferCount u))\<rparr>"

lemma hw_ready_tx: "tx_hw 1 hw_ready"
  by (simp add: tx_hw_def hw_ready_def HAL_UART_GET_FLAG_def)

lemma hw_ready_rx: "rx_hw 1 [79, 75] hw_ready"
  by (simp add: rx_hw_def hw_ready_def HAL_UART_GET_FLAG_def)

theorem transmit_sends_witness:
  "\<exists>q. HAL_UART_Transmit env_late hw_ready 3 uart_idle 0x20000100 2 HAL_MAX_DELAY = Some (HAL_OK, q) \<and>
     tx_log q = [79, 75]"
proof -
  have "read_bytes (mem uart_idle) 0x20000100 (unat (2 :: u16)) = [79, 75]"
    unfolding read_two by (simp add: uart_idle_fields)
  then show ?thesis
    using transmit_sends [OF hw_ready_tx, of 3 2 uart_idle "0x20000100" env_late] uart_idle_fields by auto
qed

theorem receive_stores_witness:
  "\<exists>q. HAL_UART_Receive env_late hw_ready 3 uart_idle 0x20000200 2 HAL_MAX_DELAY = Some (HAL_OK, q) \<and>
     read_bytes (mem q) 0x20000200 2 = [79, 75]"
  using receive_stores [OF hw_ready_rx, of 3 2 uart_idle "0x20000200" env_late] uart_idle_fields by auto

definition dma_busy :: "nat DMA_HandleTypeDef" where
  "dma_busy = dma_example\<lparr>DState := HAL_DMA_STATE_BUSY, S_CR := DMA_SxCR_EN\<rparr>"

theorem dma_poll_returns_witness:
  "\<exists>st q. HAL_DMA_PollForTransfer env_late env_example (\<lambda>_ h. h) 12 dma_busy HAL_DMA_FULL_TRANSFER 10 = Some (st, q) \<and>
     DLock q = HAL_UNLOCKED \<and> DState q = HAL_DMA_STATE_READY"
  using dma_poll_returns [of env_late 10 11 12 dma_busy] env_late_up
  by (fastforce simp: dma_busy_def HAL_IS_BIT_SET_def)

theorem dma_poll_timeout_leaves_stream_on_witness:
  "\<exists>q. HAL_DMA_PollForTransfer env_late env_example (\<lambda>_ h. h) 12 dma_busy HAL_DMA_FULL_TRANSFER 10 =
     Some (HAL_TIMEOUT, q) \<and> HAL_IS_BIT_SET (S_CR q) DMA_SxCR_EN \<and> fst (HAL_DMA_Start q 1 2 3) = HAL_OK"
proof -
  have "ISR dma_busy AND stream_mask dma_busy 0x80003F = 0" "DErrorCode dma_busy = 0"
    "DState dma_busy = HAL_DMA_STATE_BUSY" "\<not> HAL_IS_BIT_SET (S_CR dma_busy) DMA_SxCR_CIRC"
    "HAL_IS_BIT_SET (S_CR dma_busy) DMA_SxCR_EN"
    by (simp_all add: dma_busy_def dma_example_def HAL_IS_BIT_SET_def)
  then obtain q where "HAL_DMA_PollForTransfer env_late env_example (\<lambda>_ h. h) 12 dma_busy HAL_DMA_FULL_TRANSFER 10 =
      Some (HAL_TIMEOUT, q)" "HAL_IS_BIT_SET (S_CR q) DMA_SxCR_EN" "fst (HAL_DMA_Start q 1 2 3) = HAL_OK"
    using dma_poll_timeout_leaves_stream_on [of "\<lambda>_ h. h" dma_busy env_late 10 11 12 env_example
        HAL_DMA_FULL_TRANSFER 1 2 3] env_late_up by auto
  then show ?thesis
    by blast
qed

section \<open>Reachable handles\<close>

text \<open>What goes on while the driver polls: interrupts, with callbacks \<open>call\<close>, and changes the hardware makes to the
  registers.\<close>

inductive dma_background :: "('cb \<Rightarrow> 'cb DMA_HandleTypeDef \<Rightarrow> 'cb DMA_HandleTypeDef)
    \<Rightarrow> 'cb DMA_HandleTypeDef \<Rightarrow> 'cb DMA_HandleTypeDef \<Rightarrow> bool" for call where
  back_IRQ: "dma_background call h (HAL_DMA_IRQHandler (\<lambda>h. h) (\<lambda>f h. f h) call h)"
| back_hw: "dma_background call h (h\<lparr>ISR := isr, S_NDTR := ndtr, S_CR := cr\<rparr>)"

text \<open>
  What can happen to a handle once it was initialised: any call of the driver with any
  arguments, the interrupts and changes of the hardware, and the client's changes to the configuration and the
  callback pointers.
\<close>

inductive dma_step :: "('cb \<Rightarrow> 'cb DMA_HandleTypeDef \<Rightarrow> 'cb DMA_HandleTypeDef)
    \<Rightarrow> 'cb DMA_HandleTypeDef \<Rightarrow> 'cb DMA_HandleTypeDef \<Rightarrow> bool" for call where
  step_Init: "HAL_DMA_Init env (Some h) = Some (st, Some h') \<Longrightarrow> dma_step call h h'"
| step_DeInit: "HAL_DMA_DeInit (Some h) = Some (st, Some h') \<Longrightarrow> dma_step call h h'"
| step_Start: "dma_step call h (snd (HAL_DMA_Start h s d n))"
| step_Start_IT: "dma_step call h (snd (HAL_DMA_Start_IT h s d n))"
| step_Abort: "dma_step call h (snd (HAL_DMA_Abort env h))"
| step_Abort_IT: "dma_step call h (snd (HAL_DMA_Abort_IT h))"
| step_Poll: "\<forall>i g. (dma_background call)\<^sup>*\<^sup>* g (hw i g) \<Longrightarrow>
    HAL_DMA_PollForTransfer env env' hw fuel h lvl Timeout = Some (st, h') \<Longrightarrow> dma_step call h h'"
| step_Register: "dma_step call h (snd (HAL_DMA_RegisterCallback h i cb))"
| step_UnRegister: "dma_step call h (snd (HAL_DMA_UnRegisterCallback h i))"
| step_background: "dma_background call h h' \<Longrightarrow> dma_step call h h'"
| step_client: "dma_step call h (h\<lparr>DInit := init, XferCpltCallback := c1,
    XferHalfCpltCallback := c2, XferErrorCallback := c3, XferAbortCallback := c4\<rparr>)"

inductive dma_reachable :: "('cb \<Rightarrow> 'cb DMA_HandleTypeDef \<Rightarrow> 'cb DMA_HandleTypeDef)
    \<Rightarrow> 'cb DMA_HandleTypeDef \<Rightarrow> bool" for call where
  reach_init: "HAL_DMA_Init env (Some h0) = Some (st, Some h) \<Longrightarrow> dma_reachable call h"
| reach_step: "dma_reachable call h \<Longrightarrow> dma_step call h h' \<Longrightarrow> dma_reachable call h'"

lemma dma_background_lock_ok:
  assumes c: "\<And>f h. dma_lock_ok h \<Longrightarrow> dma_lock_ok (call f h)"
  shows "(dma_background call)\<^sup>*\<^sup>* g h \<Longrightarrow> dma_lock_ok g \<Longrightarrow> dma_lock_ok h"
proof (induction rule: rtranclp_induct)
  case base
  then show ?case by simp
next
  case (step h h')
  have h: "dma_lock_ok h"
    using step.IH step.prems by blast
  from step.hyps(2) show ?case
  proof cases
    case back_IRQ
    then show ?thesis
      using HAL_DMA_IRQHandler_lock_ok [of call h] c h by blast
  next
    case back_hw
    then show ?thesis
      using h by (simp add: dma_lock_ok_def)
  qed
qed

lemma poll_error_lock_ok: "dma_lock_ok (poll_error isr flag code h) = dma_lock_ok h"
  by (simp add: poll_error_def dma_lock_ok_def write_IFCR_def)

lemma poll_loop_lock_ok:
  assumes "\<forall>i g. dma_lock_ok g \<longrightarrow> dma_lock_ok (hw i g)"
  shows "poll_loop env hw lvl Timeout fuel i isr h = Some (b, q) \<Longrightarrow> dma_lock_ok h \<Longrightarrow> dma_lock_ok q"
proof (induction fuel arbitrary: i isr h)
  case 0
  then show ?case by simp
next
  case (Suc fuel)
  let ?r = "h\<lparr>DErrorCode := HAL_DMA_ERROR_TIMEOUT, DLock := HAL_UNLOCKED, DState := HAL_DMA_STATE_READY\<rparr>"
  let ?h = "poll_error (ISR (hw i h)) DMA_FLAG_DMEIF0_4 HAL_DMA_ERROR_DME (poll_error (ISR (hw i h))
    DMA_FLAG_FEIF0_4 HAL_DMA_ERROR_FE (poll_error (ISR (hw i h)) DMA_FLAG_TEIF0_4 HAL_DMA_ERROR_TE (hw i h)))"
  consider "q = h" | "q = ?r" | "poll_loop env hw lvl Timeout fuel (Suc i) (ISR (hw i h)) ?h = Some (b, q)"
    using Suc.prems(1) by (auto simp: Let_def split: if_splits)
  then show ?case
  proof cases
    case 3
    then show ?thesis
      using Suc.IH [OF 3] assms Suc.prems(2) by (simp add: poll_error_lock_ok)
  qed (use Suc.prems(2) in \<open>simp_all add: dma_lock_ok_def\<close>)
qed

lemma HAL_DMA_PollForTransfer_lock_ok:
  assumes hw: "\<forall>i g. dma_lock_ok g \<longrightarrow> dma_lock_ok (hw i g)" and h: "dma_lock_ok h"
    and p: "HAL_DMA_PollForTransfer env env' hw fuel h lvl Timeout = Some (st, q)"
  shows "dma_lock_ok q"
proof (cases "HAL_DMA_STATE_BUSY \<noteq> DState h \<or> S_CR h AND DMA_SxCR_CIRC \<noteq> 0")
  case True
  then show ?thesis
    using h p by (auto simp: HAL_DMA_PollForTransfer_def dma_lock_ok_def split: if_splits)
next
  case False
  define m where "m = (if lvl = HAL_DMA_FULL_TRANSFER then stream_mask h DMA_FLAG_TCIF0_4 else stream_mask h DMA_FLAG_HTIF0_4)"
  obtain b r where l: "poll_loop env hw m Timeout fuel 0 (ISR h) h = Some (b, r)"
    using False p by (cases "poll_loop env hw m Timeout fuel 0 (ISR h) h")
      (auto simp: HAL_DMA_PollForTransfer_def m_def Let_def)
  have e: "same_lock r q \<or> DLock q = HAL_UNLOCKED \<and> DState q = HAL_DMA_STATE_READY"
    using False p l by (cases b)
      (auto simp: HAL_DMA_PollForTransfer_def m_def same_lock_def write_IFCR_def Let_def split: if_splits)
  have "dma_lock_ok r"
    by (rule poll_loop_lock_ok [OF hw l h])
  then show ?thesis
    using e by (auto simp: dma_lock_ok_def same_lock_def)
qed

lemma dma_step_lock_ok:
  assumes "dma_step call h h'" "dma_lock_ok h"
    and c: "\<And>f h. dma_lock_ok h \<Longrightarrow> dma_lock_ok (call f h)"
  shows "dma_lock_ok h'"
  using assms(1)
proof (cases rule: dma_step.cases)
  case step_background
  then show ?thesis
    using dma_background_lock_ok [where call = call, OF c] assms(2) by blast
next
  case (step_Poll hw env env' fuel lvl Timeout st)
  then show ?thesis
    using HAL_DMA_PollForTransfer_lock_ok [OF _ assms(2)] dma_background_lock_ok [where call = call, OF c] by blast
qed (use assms(2) in \<open>auto intro: HAL_DMA_Init_lock_ok HAL_DMA_DeInit_lock_ok HAL_DMA_Start_lock_ok
    HAL_DMA_Start_IT_lock_ok HAL_DMA_Abort_lock_ok HAL_DMA_Abort_IT_lock_ok
    HAL_DMA_RegisterCallback_lock_ok HAL_DMA_UnRegisterCallback_lock_ok
    same_lock_ok [THEN iffD2] simp: same_lock_def\<close>)

lemma dma_reachable_lock_ok:
  assumes "dma_reachable call h" "\<And>f h. dma_lock_ok h \<Longrightarrow> dma_lock_ok (call f h)"
  shows "dma_lock_ok h"
  using assms(1)
  by induction (auto intro: HAL_DMA_Init_lock_ok dma_step_lock_ok assms(2))

text \<open>
  C16. A DMA handle is never locked out: after any sequence of driver calls, polls,
  interrupts, hardware changes and client changes, a handle in state \<open>BUSY\<close> is locked, and a handle that is locked is in
  state \<open>BUSY\<close> or \<open>ABORT\<close>, so that it is unlocked in every other state; \<open>HAL_DMA_Start_IT\<close> on a handle in state
  \<open>READY\<close> succeeds, locks it and starts the transfer asked for, and in every other state it is refused without
  touching anything.
\<close>

theorem dma_never_locked_out:
  assumes "dma_reachable call h" "\<forall>f h. dma_lock_ok h \<longrightarrow> dma_lock_ok (call f h)"
  shows "(DState h = HAL_DMA_STATE_BUSY \<longrightarrow> DLock h = HAL_LOCKED) \<and>
    (DLock h = HAL_LOCKED \<longrightarrow> DState h \<in> {HAL_DMA_STATE_BUSY, HAL_DMA_STATE_ABORT}) \<and>
    (DState h = HAL_DMA_STATE_READY \<longrightarrow>
       fst (HAL_DMA_Start_IT h src dst n) = HAL_OK \<and>
       DState (snd (HAL_DMA_Start_IT h src dst n)) = HAL_DMA_STATE_BUSY \<and>
       DLock (snd (HAL_DMA_Start_IT h src dst n)) = HAL_LOCKED \<and>
       HAL_IS_BIT_SET (S_CR (snd (HAL_DMA_Start_IT h src dst n))) DMA_SxCR_EN \<and>
       S_NDTR (snd (HAL_DMA_Start_IT h src dst n)) = n) \<and>
    (DState h \<noteq> HAL_DMA_STATE_READY \<longrightarrow> HAL_DMA_Start_IT h src dst n = (HAL_BUSY, h))"
proof -
  have ok: "dma_lock_ok h"
    using dma_reachable_lock_ok assms by blast
  have same: "h\<lparr>DLock := HAL_UNLOCKED\<rparr> = h" if "DLock h = HAL_UNLOCKED"
    using that by (cases h) simp
  show ?thesis
    using ok same by (cases "DLock h")
      (auto simp: dma_lock_ok_def HAL_DMA_Start_IT_def HAL_DMA_ENABLE_def DMA_SetConfig_def
        write_IFCR_def flag_simps Let_def)
qed

theorem dma_never_locked_out_witness:
  "\<exists>h. dma_reachable (\<lambda>_ h. snd (HAL_DMA_Start_IT h 0 0 1)) (h :: nat DMA_HandleTypeDef) \<and>
    fst (HAL_DMA_Start_IT h 0x40011004 0x20000000 50) = HAL_OK"
proof -
  obtain h :: "nat DMA_HandleTypeDef" where
    h: "HAL_DMA_Init env_example (Some dma_example) = Some (HAL_OK, Some h)"
      "DState h = HAL_DMA_STATE_READY"
    using dma_example_init by blast
  have r: "dma_reachable (\<lambda>_ h. snd (HAL_DMA_Start_IT h 0 0 1)) h"
    by (rule reach_init [OF h(1)])
  show ?thesis
    using dma_never_locked_out [OF r] HAL_DMA_Start_IT_lock_ok h(2) r by blast
qed

end
