(* ===== verification/UartIt.thy ===== *)
theory UartIt
  imports HalPollProps
begin

text \<open>
  Transfers by interrupt: \<open>HAL_UART_Transmit_IT\<close> and \<open>HAL_UART_Receive_IT\<close> with the interrupts that carry
  them out, one character each.
\<close>

section \<open>The interrupts\<close>

text \<open>The data register has become empty; the last character has left; a character has arrived.\<close>

definition hw_TXE_irq :: "'a huart uart_user \<Rightarrow> 'a huart \<Rightarrow> 'a huart" where
  "hw_TXE_irq user u = HAL_UART_IRQHandler user (u\<lparr>SR := SET_BIT (SR u) USART_SR_TXE\<rparr>)"

definition hw_TC_irq :: "'a huart uart_user \<Rightarrow> 'a huart \<Rightarrow> 'a huart" where
  "hw_TC_irq user u = HAL_UART_IRQHandler user (u\<lparr>SR := SET_BIT (SR u) USART_SR_TC\<rparr>)"

definition hw_RXNE_irq :: "'a huart uart_user \<Rightarrow> u32 \<Rightarrow> 'a huart \<Rightarrow> 'a huart" where
  "hw_RXNE_irq user c u = HAL_UART_IRQHandler user (u\<lparr>DR := c, SR := SET_BIT (SR u) USART_SR_RXNE\<rparr>)"

text \<open>No line error and no character that was not taken.\<close>

abbreviation SR_errors :: u32 where
  "SR_errors \<equiv> USART_SR_PE OR USART_SR_FE OR USART_SR_ORE OR USART_SR_NE"

definition line_ok :: "'a huart \<Rightarrow> bool" where
  "line_ok u \<longleftrightarrow> \<not> HAL_IS_BIT_SET (SR u) SR_errors \<and> \<not> HAL_IS_BIT_SET (SR u) USART_SR_RXNE"

lemma no_flags: "\<not> HAL_IS_BIT_SET r m \<longleftrightarrow> r AND m = 0"
  by (simp add: HAL_IS_BIT_SET_def)

section \<open>Transmission\<close>

text \<open>The first \<open>k\<close> of the bytes at \<open>a\<close> have been written.\<close>

definition it_sending :: "u32 \<Rightarrow> u8 list \<Rightarrow> u32 list \<Rightarrow> nat \<Rightarrow> 'a huart \<Rightarrow> bool" where
  "it_sending a bytes log0 k u \<longleftrightarrow> gState u = HAL_UART_STATE_BUSY_TX \<and> Lock u = HAL_UNLOCKED \<and>
     line_ok u \<and> WordLength (Init u) \<noteq> UART_WORDLENGTH_9B \<and>
     read_bytes (mem u) a (length bytes) = bytes \<and> k \<le> length bytes \<and>
     unat (TxXferCount u) = length bytes - k \<and> pTxBuffPtr u = a + of_nat k \<and>
     HAL_IS_BIT_SET (CR1 u) USART_CR1_TXEIE = (k < length bytes) \<and>
     HAL_IS_BIT_SET (CR1 u) USART_CR1_TCIE = (k = length bytes) \<and>
     tx_log u = log0 @ map ucast (take k bytes)"

lemma it_sending_TXE:
  assumes s: "it_sending a bytes log0 k u" and k: "k < length bytes"
  shows "it_sending a bytes log0 (Suc k) (hw_TXE_irq user u)"
proof -
  have l: "line_ok u" "HAL_IS_BIT_SET (CR1 u) USART_CR1_TXEIE"
    using s k by (simp_all add: it_sending_def)
  let ?u = "u\<lparr>SR := SET_BIT (SR u) USART_SR_TXE\<rparr>"
  have "SR ?u AND SR_errors = 0" "\<not> HAL_IS_BIT_SET (SR ?u) USART_SR_RXNE" "HAL_IS_BIT_SET (SR ?u) USART_SR_TXE"
    using l(1) unfolding no_flags [symmetric] by (simp_all add: line_ok_def flag_simps)
  then have i: "hw_TXE_irq user u = snd (UART_Transmit_IT ?u)"
    using l(2) by (simp add: hw_TXE_irq_def HAL_UART_IRQHandler_def Let_def)
  have b: "mem u (pTxBuffPtr u) = bytes ! k"
    using s k read_bytes_nth [of k "length bytes" "mem u" a] by (simp add: it_sending_def)
  obtain m where m: "unat (TxXferCount u) = Suc m" "unat (TxXferCount u - 1) = m"
  proof -
    have "unat (TxXferCount u) \<noteq> 0"
      using s k by (simp add: it_sending_def)
    then have "0 < TxXferCount u"
      by (metis unat_0 word_gt_0)
    then show ?thesis
      using u16_count_down that by blast
  qed
  have mk: "m = length bytes - Suc k"
  proof -
    have "Suc m = length bytes - k"
      using m(1) s by (simp add: it_sending_def)
    then show ?thesis
      by linarith
  qed
  have "TxXferCount u - 1 = 0 \<longleftrightarrow> m = 0"
    using m(2) by (metis unat_eq_zero)
  then have z: "TxXferCount u - 1 = 0 \<longleftrightarrow> Suc k = length bytes"
    using mk k by linarith
  have t: "take (Suc k) bytes = take k bytes @ [bytes ! k]"
    using k by (simp add: take_Suc_conv_app_nth)
  show ?thesis
    unfolding i using s k b m(2) mk z t l
    by (auto simp: it_sending_def UART_Transmit_IT_def write_DR_def line_ok_def flag_simps and_0xFF_u8 Let_def)
qed

lemma it_sending_TC:
  assumes s: "it_sending a bytes log0 (length bytes) u"
  shows "hw_TC_irq user u = HAL_UART_TxCpltCallback user (u\<lparr>SR := SET_BIT (SR u) USART_SR_TC,
    CR1 := CLEAR_BIT (CR1 u) USART_CR1_TCIE, gState := HAL_UART_STATE_READY\<rparr>)"
proof -
  have l: "line_ok u" "\<not> HAL_IS_BIT_SET (CR1 u) USART_CR1_TXEIE" "HAL_IS_BIT_SET (CR1 u) USART_CR1_TCIE"
    using s by (simp_all add: it_sending_def)
  let ?u = "u\<lparr>SR := SET_BIT (SR u) USART_SR_TC\<rparr>"
  have "SR ?u AND SR_errors = 0" "\<not> HAL_IS_BIT_SET (SR ?u) USART_SR_RXNE" "HAL_IS_BIT_SET (SR ?u) USART_SR_TC"
    using l(1) unfolding no_flags [symmetric] by (simp_all add: line_ok_def flag_simps)
  then show ?thesis
    using l(2,3) by (simp add: hw_TC_irq_def HAL_UART_IRQHandler_def UART_EndTransmit_IT_def Let_def)
qed

lemma it_sending_start:
  assumes "gState u = HAL_UART_STATE_READY" "Lock u = HAL_UNLOCKED" "pData \<noteq> 0" "Size \<noteq> 0"
    and "line_ok u" "WordLength (Init u) \<noteq> UART_WORDLENGTH_9B" "\<not> HAL_IS_BIT_SET (CR1 u) USART_CR1_TCIE"
  shows "\<exists>q. HAL_UART_Transmit_IT u pData Size = (HAL_OK, q) \<and>
    it_sending pData (read_bytes (mem u) pData (unat Size)) (tx_log u) 0 q"
  using assms
  by (simp add: HAL_UART_Transmit_IT_def it_sending_def line_ok_def unat_gt_0 flag_simps Let_def)

lemma it_sending_steps:
  assumes "it_sending a bytes log0 0 u"
  shows "k \<le> length bytes \<Longrightarrow> it_sending a bytes log0 k ((hw_TXE_irq user ^^ k) u)"
  using assms by (induction k) (simp_all add: it_sending_TXE)

text \<open>
  \<open>HAL_UART_Transmit_IT\<close> sends by interrupt: each of the \<open>Size\<close> interrupts for an empty data register
  writes the next byte, and the one after the last character makes the handle ready, turns the
  interrupts of the transmitter off and calls the completion callback.
\<close>

theorem transmit_it_sends:
  assumes "gState u = HAL_UART_STATE_READY" "Lock u = HAL_UNLOCKED" "pData \<noteq> 0" "Size \<noteq> 0"
    and "line_ok u" "WordLength (Init u) \<noteq> UART_WORDLENGTH_9B" "\<not> HAL_IS_BIT_SET (CR1 u) USART_CR1_TCIE"
  shows "\<exists>q r. HAL_UART_Transmit_IT u pData Size = (HAL_OK, q) \<and>
    (\<forall>k \<le> unat Size. tx_log ((hw_TXE_irq user ^^ k) q) = tx_log u @ map ucast (read_bytes (mem u) pData k) \<and>
       gState ((hw_TXE_irq user ^^ k) q) = HAL_UART_STATE_BUSY_TX) \<and>
    hw_TC_irq user ((hw_TXE_irq user ^^ unat Size) q) = HAL_UART_TxCpltCallback user r \<and>
    tx_log r = tx_log u @ map ucast (read_bytes (mem u) pData (unat Size)) \<and>
    gState r = HAL_UART_STATE_READY \<and> \<not> HAL_IS_BIT_SET (CR1 r) USART_CR1_TXEIE \<and>
    \<not> HAL_IS_BIT_SET (CR1 r) USART_CR1_TCIE"
proof -
  let ?bytes = "read_bytes (mem u) pData (unat Size)"
  obtain q where q: "HAL_UART_Transmit_IT u pData Size = (HAL_OK, q)" "it_sending pData ?bytes (tx_log u) 0 q"
    using it_sending_start [OF assms] by blast
  have t: "take k ?bytes = read_bytes (mem u) pData k" if "k \<le> unat Size" for k
    using read_bytes_append [of "mem u" pData k "unat Size - k"] that by simp
  have s: "it_sending pData ?bytes (tx_log u) k ((hw_TXE_irq user ^^ k) q)" if "k \<le> unat Size" for k
    using it_sending_steps [OF q(2), of k user] that by simp
  let ?r = "(hw_TXE_irq user ^^ unat Size) q"
  have e: "it_sending pData ?bytes (tx_log u) (length ?bytes) ?r"
    using s [of "unat Size"] by simp
  have "\<not> HAL_IS_BIT_SET (CLEAR_BIT (CR1 ?r) USART_CR1_TCIE) USART_CR1_TXEIE"
    "\<not> HAL_IS_BIT_SET (CLEAR_BIT (CR1 ?r) USART_CR1_TCIE) USART_CR1_TCIE"
    using e by (simp_all add: it_sending_def flag_simps)
  then show ?thesis
    using q(1) s t it_sending_TC [OF e, of user] e
    by (intro exI [of _ q] exI conjI) (auto simp: it_sending_def)
qed

section \<open>Reception\<close>

definition it_receiving :: "u32 \<Rightarrow> u32 list \<Rightarrow> memory \<Rightarrow> nat \<Rightarrow> 'a huart \<Rightarrow> bool" where
  "it_receiving a msg m0 k u \<longleftrightarrow> RxState u = HAL_UART_STATE_BUSY_RX \<and> line_ok u \<and>
     WordLength (Init u) \<noteq> UART_WORDLENGTH_9B \<and> Parity (Init u) = UART_PARITY_NONE \<and>
     unat (RxXferCount u) = length msg - k \<and> pRxBuffPtr u = a + of_nat k \<and>
     HAL_IS_BIT_SET (CR1 u) USART_CR1_RXNEIE \<and>
     read_bytes (mem u) a k = map ucast (take k msg) \<and>
     (\<forall>x. (\<forall>i < k. x \<noteq> a + of_nat i) \<longrightarrow> mem u x = m0 x)"

lemma offsets_differ: "i < k \<Longrightarrow> k < 65536 \<Longrightarrow> a + of_nat k \<noteq> (a :: u32) + of_nat i"
proof
  assume i: "i < k" "k < 65536" "a + of_nat k = a + of_nat i"
  then have "(of_nat k :: u32) - of_nat i = 0"
    by simp
  then have "(of_nat (k - i) :: u32) = 0"
    using i(1) by (simp add: of_nat_diff)
  moreover have "(of_nat (k - i) :: u32) \<noteq> 0"
    by (rule of_nat_u32_nonzero) (use i(1,2) in linarith)+
  ultimately show False
    by blast
qed

lemma read_bytes_store_next:
  assumes "k < 65536"
  shows "read_bytes (m(a + of_nat k := b)) a (Suc k) = read_bytes m a k @ [b]"
  using assms offsets_differ [of _ k a] by (simp add: read_bytes_snoc read_bytes_upd_other del: read_bytes.simps)

lemma it_receiving_char:
  assumes r: "it_receiving a msg m0 k u" and k: "k < length msg" and n: "length msg < 65536"
  shows "\<exists>w. (if Suc k = length msg
      then hw_RXNE_irq user (msg ! k) u = HAL_UART_RxCpltCallback user w \<and>
        RxState w = HAL_UART_STATE_READY \<and> \<not> HAL_IS_BIT_SET (CR1 w) USART_CR1_RXNEIE
      else hw_RXNE_irq user (msg ! k) u = w \<and> it_receiving a msg m0 (Suc k) w) \<and>
    read_bytes (mem w) a (Suc k) = map ucast (take (Suc k) msg) \<and>
    (\<forall>x. (\<forall>i < Suc k. x \<noteq> a + of_nat i) \<longrightarrow> mem w x = m0 x)"
proof -
  let ?u = "u\<lparr>DR := msg ! k, SR := SET_BIT (SR u) USART_SR_RXNE\<rparr>"
  let ?w = "?u\<lparr>SR := CLEAR_BIT (SR ?u) SR_rx_flags, mem := (mem u)(a + of_nat k := ucast (msg ! k)),
    pRxBuffPtr := a + of_nat k + 1, RxXferCount := RxXferCount u - 1\<rparr>"
  let ?e = "?w\<lparr>CR1 := CLEAR_BIT (CR1 u) (USART_CR1_RXNEIE OR USART_CR1_PEIE), CR3 := CLEAR_BIT (CR3 u) USART_CR3_EIE,
    RxState := HAL_UART_STATE_READY\<rparr>"
  have l: "line_ok u" "HAL_IS_BIT_SET (CR1 u) USART_CR1_RXNEIE" "RxState u = HAL_UART_STATE_BUSY_RX"
    "pRxBuffPtr u = a + of_nat k" "WordLength (Init u) \<noteq> UART_WORDLENGTH_9B" "Parity (Init u) = UART_PARITY_NONE"
    using r by (simp_all add: it_receiving_def)
  have "SR ?u AND SR_errors = 0" "HAL_IS_BIT_SET (SR ?u) USART_SR_RXNE"
    using l(1) unfolding no_flags [symmetric] by (simp_all add: line_ok_def flag_simps)
  then have i: "hw_RXNE_irq user (msg ! k) u = snd (UART_Receive_IT user ?u)"
    using l(2) by (simp add: hw_RXNE_irq_def HAL_UART_IRQHandler_def Let_def)
  have rec: "snd (UART_Receive_IT user ?u) =
      (if RxXferCount u - 1 = 0 then HAL_UART_RxCpltCallback user ?e else ?w)"
    using l(3-6) by (simp add: UART_Receive_IT_def read_DR_def ucast_and_0xFF Let_def)
  obtain m where m: "unat (RxXferCount u) = Suc m" "unat (RxXferCount u - 1) = m"
  proof -
    have "unat (RxXferCount u) \<noteq> 0"
      using r k by (simp add: it_receiving_def)
    then have "0 < RxXferCount u"
      by (metis unat_0 word_gt_0)
    then show ?thesis
      using u16_count_down that by blast
  qed
  have mk: "m = length msg - Suc k"
  proof -
    have "Suc m = length msg - k"
      using m(1) r by (simp add: it_receiving_def)
    then show ?thesis
      by linarith
  qed
  have "RxXferCount u - 1 = 0 \<longleftrightarrow> m = 0"
    using m(2) by (metis unat_eq_zero)
  then have z: "RxXferCount u - 1 = 0 \<longleftrightarrow> Suc k = length msg"
    using mk k by linarith
  have t: "map ucast (take (Suc k) msg) = map ucast (take k msg) @ [ucast (msg ! k) :: u8]"
    using k by (simp add: take_Suc_conv_app_nth)
  have b: "read_bytes (mem ?w) a (Suc k) = map ucast (take (Suc k) msg)"
    using r k n t read_bytes_store_next [of k "mem u" a "ucast (msg ! k)"] by (simp add: it_receiving_def del: read_bytes.simps)
  have o: "\<forall>x. (\<forall>i < Suc k. x \<noteq> a + of_nat i) \<longrightarrow> mem ?w x = m0 x"
    using r by (auto simp: it_receiving_def)
  show ?thesis
  proof (cases "Suc k = length msg")
    case True
    then show ?thesis
      using i rec z b o by (intro exI [of _ ?e]) (simp add: flag_simps del: read_bytes.simps)
  next
    case False
    then have "it_receiving a msg m0 (Suc k) ?w"
      using l m mk b o by (simp add: it_receiving_def line_ok_def flag_simps add.assoc del: read_bytes.simps)
    then show ?thesis
      using False i rec z b o by (intro exI [of _ ?w]) (simp del: read_bytes.simps)
  qed
qed

lemma it_receiving_start:
  assumes "RxState u = HAL_UART_STATE_READY" "Lock u = HAL_UNLOCKED" "pData \<noteq> 0" "Size \<noteq> 0" "line_ok u"
    and "WordLength (Init u) \<noteq> UART_WORDLENGTH_9B" "Parity (Init u) = UART_PARITY_NONE" "length msg = unat Size"
  shows "\<exists>q. HAL_UART_Receive_IT u pData Size = (HAL_OK, q) \<and> it_receiving pData msg (mem u) 0 q"
  using assms by (simp add: HAL_UART_Receive_IT_def it_receiving_def line_ok_def flag_simps Let_def)

lemma it_receiving_steps:
  assumes "it_receiving a msg m0 0 u" "length msg < 65536"
  shows "k < length msg \<Longrightarrow> it_receiving a msg m0 k (foldl (\<lambda>u c. hw_RXNE_irq user c u) u (take k msg))"
proof (induction k)
  case 0
  then show ?case
    using assms(1) by simp
next
  case (Suc k)
  then show ?case
    using it_receiving_char [OF Suc.IH _ assms(2), of user] by (simp add: take_Suc_conv_app_nth)
qed

text \<open>
  \<open>HAL_UART_Receive_IT\<close> receives by interrupt: the \<open>Size\<close> characters are stored at \<open>pData\<close> in
  order and nothing else is written; the reception stays busy until the last of them, which makes the handle
  ready, turns the interrupt off and calls the completion callback.
\<close>

theorem receive_it_stores:
  assumes "RxState u = HAL_UART_STATE_READY" "Lock u = HAL_UNLOCKED" "pData \<noteq> 0" "Size \<noteq> 0" "line_ok u"
    and "WordLength (Init u) \<noteq> UART_WORDLENGTH_9B" "Parity (Init u) = UART_PARITY_NONE" "length msg = unat Size"
  shows "\<exists>q r. HAL_UART_Receive_IT u pData Size = (HAL_OK, q) \<and>
    (\<forall>k < unat Size. RxState (foldl (\<lambda>u c. hw_RXNE_irq user c u) q (take k msg)) = HAL_UART_STATE_BUSY_RX) \<and>
    foldl (\<lambda>u c. hw_RXNE_irq user c u) q msg = HAL_UART_RxCpltCallback user r \<and>
    read_bytes (mem r) pData (unat Size) = map ucast msg \<and>
    (\<forall>x. (\<forall>i < unat Size. x \<noteq> pData + of_nat i) \<longrightarrow> mem r x = mem u x) \<and>
    RxState r = HAL_UART_STATE_READY \<and> \<not> HAL_IS_BIT_SET (CR1 r) USART_CR1_RXNEIE"
proof -
  obtain q where q: "HAL_UART_Receive_IT u pData Size = (HAL_OK, q)" "it_receiving pData msg (mem u) 0 q"
    using it_receiving_start [OF assms] by blast
  have n: "length msg < 65536"
    using assms(8) unat_u16_bound [of Size] by simp
  note s = it_receiving_steps [OF q(2) n, of _ user]
  obtain k where k: "length msg = Suc k"
    using assms(4,8) by (metis not0_implies_Suc unat_eq_zero)
  have msg: "msg = take k msg @ [msg ! k]"
    using k by (metis lessI take_Suc_conv_app_nth take_all_iff order_refl)
  let ?f = "\<lambda>u c. hw_RXNE_irq user c u"
  obtain w where w: "hw_RXNE_irq user (msg ! k) (foldl ?f q (take k msg)) = HAL_UART_RxCpltCallback user w"
    "RxState w = HAL_UART_STATE_READY" "\<not> HAL_IS_BIT_SET (CR1 w) USART_CR1_RXNEIE"
    "read_bytes (mem w) pData (Suc k) = map ucast (take (Suc k) msg)"
    "\<forall>x. (\<forall>i < Suc k. x \<noteq> pData + of_nat i) \<longrightarrow> mem w x = mem u x"
    using it_receiving_char [OF s [of k] _ n, of user] k by auto
  have "foldl ?f q msg = HAL_UART_RxCpltCallback user w"
    using w(1) by (subst msg) simp
  moreover have "RxState (foldl ?f q (take j msg)) = HAL_UART_STATE_BUSY_RX" if "j < unat Size" for j
    using s [of j] that assms(8) by (simp add: it_receiving_def)
  ultimately show ?thesis
    using q(1) w(2-5) k assms(8) by (intro exI [of _ q] exI [of _ w]) (simp del: read_bytes.simps)
qed

section \<open>Examples\<close>

definition uart_calm :: "nat STUsart" where
  "uart_calm = uart_idle\<lparr>SR := 0, CR1 := 0\<rparr>"

lemma uart_calm_fields: "gState uart_calm = HAL_UART_STATE_READY" "RxState uart_calm = HAL_UART_STATE_READY"
  "Lock uart_calm = HAL_UNLOCKED" "WordLength (Init uart_calm) \<noteq> UART_WORDLENGTH_9B"
  "Parity (Init uart_calm) = UART_PARITY_NONE" "tx_log uart_calm = []" "line_ok uart_calm"
  "mem uart_calm 0x20000100 = 79" "mem uart_calm 0x20000101 = 75" "\<not> HAL_IS_BIT_SET (CR1 uart_calm) USART_CR1_TCIE"
  using uart_idle_fields by (simp_all add: uart_calm_def line_ok_def flag_simps)

theorem transmit_it_sends_witness:
  "\<exists>q r. HAL_UART_Transmit_IT uart_calm 0x20000100 2 = (HAL_OK, q) \<and>
     hw_TC_irq weak_callbacks ((hw_TXE_irq weak_callbacks ^^ 2) q) = r \<and> tx_log r = [79, 75]"
proof -
  have "read_bytes (mem uart_calm) 0x20000100 (unat (2 :: u16)) = [79, 75]"
    unfolding read_two by (simp add: uart_calm_fields)
  then show ?thesis
    using transmit_it_sends [of uart_calm "0x20000100" 2 weak_callbacks] uart_calm_fields
    by (auto simp: weak_callbacks_def)
qed

theorem receive_it_stores_witness:
  "\<exists>q r. HAL_UART_Receive_IT uart_calm 0x20000200 2 = (HAL_OK, q) \<and>
     hw_RXNE_irq weak_callbacks 75 (hw_RXNE_irq weak_callbacks 79 q) = r \<and>
     read_bytes (mem r) 0x20000200 2 = [79, 75]"
  using receive_it_stores [of uart_calm "0x20000200" 2 "[79, 75]" weak_callbacks] uart_calm_fields
  by (auto simp: weak_callbacks_def)

end
