(* ===== verification/Malloc.thy ===== *)
theory Malloc
  imports Prelude
begin

text \<open>
  The memory manager, MALLOC/malloc.c and malloc.h: three pools of 64-byte blocks, each with a
  table of one word per block, which holds 0 for a free block and, for every block of an allocation, the
  number of blocks of this allocation.
\<close>

section \<open>State\<close>

text \<open>
  \<open>struct _m_mallco_dev\<close>: the pools are given by their addresses, the tables by their
  contents; \<open>mdata\<close> is the memory the pools lie in. The function pointers \<open>init\<close> and \<open>perused\<close>
  are \<open>my_mem_init\<close> and \<open>my_mem_perused\<close> from the start on.
\<close>

record m_mallco_dev =
  membase :: "u32 list"
  memmap :: "u32 list list"
  memrdy :: "u8 list"
  mdata :: memory

definition memtblsize :: "u32 list" where
  "memtblsize = [64 * 1024 div 64, 1 * 1024 div 64, 1 * 1024 div 64]"

definition memblksize :: "u32 list" where
  "memblksize = [64, 64, 64]"

definition memsize :: "u32 list" where
  "memsize = [64 * 1024, 1 * 1024, 1 * 1024]"

abbreviation SRAMBANK :: nat where "SRAMBANK \<equiv> 3"

section \<open>Operations\<close>

fun memcpy_bytes :: "u32 \<Rightarrow> u32 \<Rightarrow> nat \<Rightarrow> memory \<Rightarrow> memory" where
  "memcpy_bytes des src 0 m = m"
| "memcpy_bytes des src (Suc n) m = memcpy_bytes (des + 1) (src + 1) n (m(des := m src))"

definition mymemcpy :: "u32 \<Rightarrow> u32 \<Rightarrow> u32 \<Rightarrow> memory \<Rightarrow> memory" where
  "mymemcpy des src n m = memcpy_bytes des src (unat n) m"

fun memset_bytes :: "u32 \<Rightarrow> u8 \<Rightarrow> nat \<Rightarrow> memory \<Rightarrow> memory" where
  "memset_bytes s c 0 m = m"
| "memset_bytes s c (Suc n) m = memset_bytes (s + 1) c n (m(s := c))"

definition mymemset :: "u32 \<Rightarrow> u8 \<Rightarrow> u32 \<Rightarrow> memory \<Rightarrow> memory" where
  "mymemset s c count m = memset_bytes s c (unat count) m"

text \<open>All bytes of the table are set to 0, so all its words are 0.\<close>

definition my_mem_init :: "nat \<Rightarrow> m_mallco_dev \<Rightarrow> m_mallco_dev" where
  "my_mem_init memx d =
     (let d = d\<lparr>memmap := (memmap d)[memx := replicate (unat (memtblsize ! memx)) 0]\<rparr>
      in d\<lparr>memrdy := (memrdy d)[memx := 1]\<rparr>)"

fun count_used :: "u32 list \<Rightarrow> u32 \<Rightarrow> u32" where
  "count_used [] used = used"
| "count_used (e # es) used = count_used es (if e \<noteq> 0 then used + 1 else used)"

definition my_mem_perused :: "nat \<Rightarrow> m_mallco_dev \<Rightarrow> u16" where
  "my_mem_perused memx d =
     ucast ((count_used (memmap d ! memx) 0 * 1000) div (memtblsize ! memx))"

text \<open>The search, from the last block down: \<open>cmemb\<close> counts the free blocks seen in a row.\<close>

fun find_blocks :: "u32 list \<Rightarrow> u32 \<Rightarrow> u32 \<Rightarrow> nat \<Rightarrow> nat option" where
  "find_blocks t nmemb cmemb 0 = None"
| "find_blocks t nmemb cmemb (Suc offset) =
     (let cmemb = (if t ! offset = 0 then cmemb + 1 else 0)
      in if cmemb = nmemb then Some offset else find_blocks t nmemb cmemb offset)"

text \<open>Writing a value to \<open>n\<close> entries: \<open>None\<close> is an access outside the table.\<close>

fun set_blocks :: "u32 \<Rightarrow> nat \<Rightarrow> nat \<Rightarrow> u32 list \<Rightarrow> u32 list option" where
  "set_blocks v start 0 t = Some t"
| "set_blocks v start (Suc n) t =
     (if start < length t then set_blocks v (Suc start) n (t[start := v]) else None)"

definition blocks_for :: "nat \<Rightarrow> u32 \<Rightarrow> u32" where
  "blocks_for memx sz =
     (let nmemb = sz div (memblksize ! memx)
      in if sz mod (memblksize ! memx) \<noteq> 0 then nmemb + 1 else nmemb)"

definition my_mem_malloc :: "nat \<Rightarrow> u32 \<Rightarrow> m_mallco_dev \<Rightarrow> (u32 \<times> m_mallco_dev) option" where
  "my_mem_malloc memx sz d =
     (let d = (if memrdy d ! memx = 0 then my_mem_init memx d else d)
      in if sz = 0 then Some (0xFFFFFFFF, d)
         else
           (let nmemb = blocks_for memx sz
            in case find_blocks (memmap d ! memx) nmemb 0 (unat (memtblsize ! memx)) of
                 None \<Rightarrow> Some (0xFFFFFFFF, d)
               | Some offset \<Rightarrow>
                   (case set_blocks nmemb offset (unat nmemb) (memmap d ! memx) of
                      None \<Rightarrow> None
                    | Some t \<Rightarrow> Some (of_nat offset * memblksize ! memx,
                        d\<lparr>memmap := (memmap d)[memx := t]\<rparr>))))"

text \<open>\<open>nmemb\<close> and the loop counter are signed here.\<close>

definition my_mem_free :: "nat \<Rightarrow> u32 \<Rightarrow> m_mallco_dev \<Rightarrow> (u8 \<times> m_mallco_dev) option" where
  "my_mem_free memx offset d =
     (if memrdy d ! memx = 0 then Some (1, my_mem_init memx d)
      else if offset < memsize ! memx then
        (let index = unat (offset div (memblksize ! memx));
             nmemb = sint (memmap d ! memx ! index)
         in case set_blocks 0 index (nat nmemb) (memmap d ! memx) of
              None \<Rightarrow> None
            | Some t \<Rightarrow> Some (0, d\<lparr>memmap := (memmap d)[memx := t]\<rparr>))
      else Some (2, d))"

definition myfree :: "nat \<Rightarrow> u32 \<Rightarrow> m_mallco_dev \<Rightarrow> m_mallco_dev option" where
  "myfree memx ptr d =
     (if ptr = 0 then Some d
      else (let offset = ptr - membase d ! memx
            in case my_mem_free memx offset d of None \<Rightarrow> None | Some (_, d) \<Rightarrow> Some d))"

definition mymalloc :: "nat \<Rightarrow> u32 \<Rightarrow> m_mallco_dev \<Rightarrow> (u32 \<times> m_mallco_dev) option" where
  "mymalloc memx sz d =
     (case my_mem_malloc memx sz d of
        None \<Rightarrow> None
      | Some (offset, d) \<Rightarrow>
          if offset = 0xFFFFFFFF then Some (0, d) else Some (membase d ! memx + offset, d))"

definition myrealloc :: "nat \<Rightarrow> u32 \<Rightarrow> u32 \<Rightarrow> m_mallco_dev \<Rightarrow> (u32 \<times> m_mallco_dev) option" where
  "myrealloc memx ptr sz d =
     (case my_mem_malloc memx sz d of
        None \<Rightarrow> None
      | Some (offset, d) \<Rightarrow>
          if offset = 0xFFFFFFFF then Some (0, d)
          else
            (let d = d\<lparr>mdata := mymemcpy (membase d ! memx + offset) ptr sz (mdata d)\<rparr>
             in case myfree memx ptr d of
                  None \<Rightarrow> None
                | Some d \<Rightarrow> Some (membase d ! memx + offset, d)))"

section \<open>The search\<close>

definition zero_run :: "u32 list \<Rightarrow> nat \<Rightarrow> nat \<Rightarrow> bool" where
  "zero_run t off n \<longleftrightarrow> off + n \<le> length t \<and> (\<forall>i < n. t ! (off + i) = 0)"

definition is_run_at :: "u32 list \<Rightarrow> nat \<Rightarrow> nat \<Rightarrow> bool" where
  "is_run_at t k c \<longleftrightarrow> zero_run t k c \<and> (k + c = length t \<or> t ! (k + c) \<noteq> 0)"

lemma is_run_at_down:
  assumes "is_run_at t (Suc k) c"
  shows "is_run_at t k (if t ! k = 0 then Suc c else 0)"
proof -
  have "t ! (k + i) = 0" if "t ! k = 0" "i < Suc c" for i
    using assms that by (cases i) (auto simp: is_run_at_def zero_run_def)
  then show ?thesis
    using assms by (auto simp: is_run_at_def zero_run_def)
qed

lemma is_run_at_max: "is_run_at t k c \<Longrightarrow> c < n \<Longrightarrow> \<not> zero_run t k n"
  by (auto simp: is_run_at_def zero_run_def)

lemma find_blocks_spec:
  assumes "is_run_at t k (unat c)" "unat c < unat n" "length t < 4294967295"
    and "\<forall>off \<ge> k. \<not> zero_run t off (unat n)"
  shows "case find_blocks t n c k of
      None \<Rightarrow> \<forall>off. \<not> zero_run t off (unat n)
    | Some off \<Rightarrow> zero_run t off (unat n) \<and> (\<forall>off' > off. \<not> zero_run t off' (unat n))"
  using assms
proof (induction k arbitrary: c)
  case 0
  then show ?case by simp
next
  case (Suc k)
  let ?c = "if t ! k = 0 then c + 1 else 0"
  have "unat c \<le> length t"
    using Suc.prems(1) by (auto simp: is_run_at_def zero_run_def)
  then have c1: "unat (c + 1) = Suc (unat c)"
    using Suc.prems(3) by (simp add: unat_add32)
  have r: "is_run_at t k (unat ?c)"
    using is_run_at_down [OF Suc.prems(1)] by (simp add: c1 split: if_splits)
  show ?case
  proof (cases "?c = n")
    case True
    have "zero_run t k (unat n)"
      using r unfolding True by (simp add: is_run_at_def)
    moreover have "find_blocks t n c (Suc k) = Some k"
      unfolding find_blocks.simps Let_def if_P [OF True] ..
    ultimately show ?thesis
      using Suc.prems(4) by (simp add: Suc_le_eq)
  next
    case False
    then have "unat ?c \<noteq> unat n"
      by (simp only: word_unat_eq_iff not_False_eq_True)
    then have lt: "unat ?c < unat n"
      using Suc.prems(2) c1 by (auto split: if_splits)
    have "\<not> zero_run t off (unat n)" if "k \<le> off" for off
      using that Suc.prems(4) is_run_at_max [OF r lt] by (cases "k = off") auto
    then have "\<forall>off \<ge> k. \<not> zero_run t off (unat n)" by blast
    from Suc.IH [OF r lt Suc.prems(3) this] show ?thesis
      unfolding find_blocks.simps Let_def if_not_P [OF False] .
  qed
qed

lemma find_blocks_top:
  assumes "n \<noteq> 0" "length t < 4294967295"
  shows "case find_blocks t n 0 (length t) of
      None \<Rightarrow> \<forall>off. \<not> zero_run t off (unat n)
    | Some off \<Rightarrow> zero_run t off (unat n) \<and> (\<forall>off' > off. \<not> zero_run t off' (unat n))"
proof (rule find_blocks_spec [OF _ _ assms(2)])
  have n: "0 < unat n"
    using assms(1) by (simp add: unat_gt_0)
  then show "unat (0 :: u32) < unat n" by simp
  show "is_run_at t (length t) (unat (0 :: u32))"
    by (simp add: is_run_at_def zero_run_def)
  show "\<forall>off \<ge> length t. \<not> zero_run t off (unat n)"
    using n by (auto simp: zero_run_def)
qed


lemma set_blocks_eq:
  "start + n \<le> length t \<Longrightarrow> set_blocks v start n t =
     Some (map (\<lambda>j. if start \<le> j \<and> j < start + n then v else t ! j) [0..<length t])"
proof (induction n arbitrary: start t)
  case 0
  have "map (\<lambda>j. if start \<le> j \<and> j < start + 0 then v else t ! j) [0..<length t] = t"
    by (rule nth_equalityI) auto
  then show ?case by simp
next
  case (Suc n)
  have "set_blocks v start (Suc n) t = set_blocks v (Suc start) n (t[start := v])"
    using Suc.prems by simp
  also have "\<dots> = Some (map (\<lambda>j. if Suc start \<le> j \<and> j < Suc start + n then v else t[start := v] ! j)
      [0..<length t])"
    using Suc.IH [of "Suc start" "t[start := v]"] Suc.prems by simp
  also have "\<dots> = Some (map (\<lambda>j. if start \<le> j \<and> j < start + Suc n then v else t ! j) [0..<length t])"
    by (auto simp: nth_list_update)
  finally show ?case .
qed

section \<open>Tables and allocations\<close>

text \<open>The table \<open>t\<close> represents a set of allocations, each a first block and a number of blocks.\<close>

definition table_repr :: "(nat \<times> nat) set \<Rightarrow> u32 list \<Rightarrow> bool" where
  "table_repr B t \<longleftrightarrow>
     (\<forall>b n. (b, n) \<in> B \<longrightarrow> 0 < n \<and> b + n \<le> length t \<and> (\<forall>i < n. t ! (b + i) = of_nat n)) \<and>
     (\<forall>b n b2 n2. (b, n) \<in> B \<longrightarrow> (b2, n2) \<in> B \<longrightarrow> (b, n) \<noteq> (b2, n2) \<longrightarrow>
        b + n \<le> b2 \<or> b2 + n2 \<le> b) \<and>
     (\<forall>j < length t. t ! j \<noteq> 0 \<longrightarrow> (\<exists>b n. (b, n) \<in> B \<and> b \<le> j \<and> j < b + n))"

lemma table_reprD:
  assumes "table_repr B t" "(b, n) \<in> B"
  shows "0 < n" "b + n \<le> length t" "\<And>i. i < n \<Longrightarrow> t ! (b + i) = of_nat n"
    "\<And>b2 n2. (b2, n2) \<in> B \<Longrightarrow> (b, n) \<noteq> (b2, n2) \<Longrightarrow> b + n \<le> b2 \<or> b2 + n2 \<le> b"
  using assms unfolding table_repr_def by fast+

lemma table_repr_used:
  "table_repr B t \<Longrightarrow> j < length t \<Longrightarrow> t ! j \<noteq> 0 \<Longrightarrow> \<exists>b n. (b, n) \<in> B \<and> b \<le> j \<and> j < b + n"
  unfolding table_repr_def by fast

lemma table_reprI:
  assumes "\<And>b n. (b, n) \<in> B \<Longrightarrow> 0 < n \<and> b + n \<le> length t"
    and "\<And>b n i. (b, n) \<in> B \<Longrightarrow> i < n \<Longrightarrow> t ! (b + i) = of_nat n"
    and "\<And>b n b2 n2. (b, n) \<in> B \<Longrightarrow> (b2, n2) \<in> B \<Longrightarrow> (b, n) \<noteq> (b2, n2) \<Longrightarrow>
      b + n \<le> b2 \<or> b2 + n2 \<le> b"
    and "\<And>j. j < length t \<Longrightarrow> t ! j \<noteq> 0 \<Longrightarrow> \<exists>b n. (b, n) \<in> B \<and> b \<le> j \<and> j < b + n"
  shows "table_repr B t"
  unfolding table_repr_def using assms by meson

lemma table_repr_entry:
  assumes r: "table_repr B t" "length t < 2147483648" and b: "(b, n) \<in> B" "b \<le> j" "j < b + n"
  shows "t ! j = of_nat n" "t ! j \<noteq> 0" "unat (t ! j) = n" "sint (t ! j) = int n"
proof -
  show e: "t ! j = of_nat n"
    using table_reprD(3) [OF r(1) b(1), of "j - b"] b by simp
  have "n < 2147483648"
    using table_reprD(2) [OF r(1) b(1)] r(2) by simp
  then have u: "unat (of_nat n :: u32) = n" "sint (of_nat n :: u32) = int n"
    by (simp_all add: unsigned_of_nat take_bit_nat_eq_self signed_of_nat signed_take_bit_int_eq_self)
  show "unat (t ! j) = n" "sint (t ! j) = int n"
    unfolding e by (rule u)+
  then show "t ! j \<noteq> 0"
    using table_reprD(1) [OF r(1) b(1)] by auto
qed

lemma table_repr_alloc:
  assumes r: "table_repr B t" "length t < 2147483648" and z: "zero_run t b n" "0 < n"
  defines "t' \<equiv> map (\<lambda>j. if b \<le> j \<and> j < b + n then of_nat n else t ! j) [0..<length t]"
  shows "table_repr (insert (b, n) B) t'"
    and "\<And>b2 n2. (b2, n2) \<in> B \<Longrightarrow> b + n \<le> b2 \<or> b2 + n2 \<le> b"
proof -
  have zr: "b + n \<le> length t" "\<And>i. i < n \<Longrightarrow> t ! (b + i) = 0"
    using z(1) by (auto simp: zero_run_def)
  show apart: "b + n \<le> b2 \<or> b2 + n2 \<le> b" if m: "(b2, n2) \<in> B" for b2 n2
  proof (rule ccontr)
    assume "\<not> ?thesis"
    then have j: "max b b2 < b + n" "max b b2 < b2 + n2"
      using table_reprD(1) [OF r(1) m] z(2) by auto
    have "max b b2 - b < n"
      using j(1) by linarith
    then have "t ! (b + (max b b2 - b)) = 0"
      by (rule zr(2))
    moreover have "t ! max b b2 \<noteq> 0"
      by (rule table_repr_entry(2) [OF r m]) (use j in simp_all)
    ultimately show False by simp
  qed
  have old: "t' ! (b2 + i) = of_nat n2" if "(b2, n2) \<in> B" "i < n2" for b2 n2 i
    using apart [OF that(1)] table_reprD [OF r(1) that(1)] that(2) by (auto simp: t'_def)
  have new: "t' ! (b + i) = of_nat n" if "i < n" for i
    using zr(1) that by (simp add: t'_def)
  have len: "length t' = length t"
    by (simp add: t'_def)
  show "table_repr (insert (b, n) B) t'"
  proof (rule table_reprI)
    fix b1 n1 assume m: "(b1, n1) \<in> insert (b, n) B"
    then show "0 < n1 \<and> b1 + n1 \<le> length t'"
      using zr(1) z(2) table_reprD(1,2) [OF r(1)] by (auto simp: len)
    show "t' ! (b1 + i) = of_nat n1" if "i < n1" for i
      using m old new that by auto
    show "b1 + n1 \<le> b2 \<or> b2 + n2 \<le> b1" if "(b2, n2) \<in> insert (b, n) B" "(b1, n1) \<noteq> (b2, n2)" for b2 n2
      using m that apart table_reprD(4) [OF r(1)] by (metis insert_iff prod.inject)
  next
    fix j assume "j < length t'" "t' ! j \<noteq> 0"
    then show "\<exists>b1 n1. (b1, n1) \<in> insert (b, n) B \<and> b1 \<le> j \<and> j < b1 + n1"
      using table_repr_used [OF r(1), of j] by (cases "b \<le> j \<and> j < b + n") (auto simp: t'_def)
  qed
qed

lemma table_repr_release:
  assumes r: "table_repr B t" "length t < 2147483648" and m: "(b, n) \<in> B"
  defines "t' \<equiv> map (\<lambda>j. if b \<le> j \<and> j < b + n then 0 else t ! j) [0..<length t]"
  shows "table_repr (B - {(b, n)}) t'"
proof -
  have old: "t' ! (b2 + i) = of_nat n2" if "(b2, n2) \<in> B" "(b2, n2) \<noteq> (b, n)" "i < n2" for b2 n2 i
  proof -
    have "b2 + i < length t" "\<not> (b \<le> b2 + i \<and> b2 + i < b + n)"
      using table_reprD(4) [OF r(1) that(1) m that(2)] table_reprD(2) [OF r(1) that(1)] that(3)
      by linarith+
    then show ?thesis
      using table_reprD(3) [OF r(1) that(1,3)] by (auto simp: t'_def)
  qed
  have used: "\<exists>o1 n1. (o1, n1) \<in> B - {(b, n)} \<and> o1 \<le> j \<and> j < o1 + n1" if "j < length t'" "t' ! j \<noteq> 0" for j
  proof -
    have j: "\<not> (b \<le> j \<and> j < b + n)" "j < length t" "t ! j \<noteq> 0"
      using that by (auto simp: t'_def split: if_splits)
    then obtain o1 n1 where "(o1, n1) \<in> B" "o1 \<le> j" "j < o1 + n1"
      using table_repr_used [OF r(1)] by blast
    then show ?thesis
      using j(1) by (intro exI [of _ o1] exI [of _ n1]) auto
  qed
  have len: "length t' = length t"
    by (simp add: t'_def)
  show "table_repr (B - {(b, n)}) t'"
  proof (rule table_reprI)
    fix b1 n1 assume m: "(b1, n1) \<in> B - {(b, n)}"
    then show "0 < n1 \<and> b1 + n1 \<le> length t'"
      using table_reprD(1,2) [OF r(1)] by (auto simp: len)
    show "t' ! (b1 + i) = of_nat n1" if "i < n1" for i
      using m old that by auto
    show "b1 + n1 \<le> b2 \<or> b2 + n2 \<le> b1" if "(b2, n2) \<in> B - {(b, n)}" "(b1, n1) \<noteq> (b2, n2)" for b2 n2
      using m that table_reprD(4) [OF r(1), of b1 n1 b2 n2] by blast
  qed (rule used)
qed


section \<open>Pools\<close>

lemma bank_cases: "memx < SRAMBANK \<Longrightarrow> (memx = 0 \<Longrightarrow> P) \<Longrightarrow> (memx = 1 \<Longrightarrow> P) \<Longrightarrow> (memx = 2 \<Longrightarrow> P) \<Longrightarrow> P"
  by linarith

lemma bank_constants:
  assumes "memx < SRAMBANK"
  shows "memblksize ! memx = 64" "unat (memsize ! memx) = 64 * unat (memtblsize ! memx)"
    "0 < unat (memtblsize ! memx)" "unat (memtblsize ! memx) \<le> 1024"
  using assms by (rule bank_cases; simp add: memblksize_def memsize_def memtblsize_def)+

definition blocks_of :: "u32 \<Rightarrow> nat" where
  "blocks_of sz = (unat sz + 63) div 64"

lemma ceil_64: "(x + 63) div 64 = (if x mod 64 = 0 then x div 64 else x div 64 + 1)" for x :: nat
proof -
  have "x + 63 = (x mod 64 + 63) + x div 64 * 64"
    by simp
  then have "(x + 63) div 64 = (x mod 64 + 63) div 64 + x div 64"
    by (metis add.commute div_mult_self1 zero_neq_numeral)
  moreover have "(x mod 64 + 63) div 64 = (if x mod 64 = 0 then 0 else 1)"
  proof (cases "x mod 64")
    case (Suc k)
    then have "k < 64" "x mod 64 + 63 = k + 64"
      using mod_less_divisor [of 64 x] by simp_all
    then show ?thesis
      using Suc by simp
  qed simp
  ultimately show ?thesis
    by simp
qed

lemma blocks_for_value: "memx < SRAMBANK \<Longrightarrow> unat (blocks_for memx sz) = blocks_of sz"
proof -
  assume m: "memx < SRAMBANK"
  have q: "unat (sz div 64) = unat sz div 64" "unat (sz mod 64) = unat sz mod 64"
    by (simp_all add: unat_div unat_mod)
  have "unat (sz div 64 + 1) = unat sz div 64 + 1"
    using unat_u32_bound [of sz] by (simp add: unat_add32 q)
  moreover have "(sz mod 64 = 0) = (unat sz mod 64 = 0)"
    using q(2) by (simp add: word_unat_eq_iff)
  ultimately show ?thesis
    unfolding blocks_for_def blocks_of_def Let_def bank_constants(1) [OF m] ceil_64 using q(1)
    by (cases "unat sz mod 64 = 0") simp_all
qed

lemma blocks_of_bounds: "sz \<noteq> 0 \<Longrightarrow> 0 < blocks_of sz" "unat sz \<le> 64 * blocks_of sz"
  by (simp_all add: blocks_of_def word_unat_eq_iff; presburger)+

text \<open>An allocation of \<open>sz\<close> bytes at the offset \<open>off\<close>, in blocks.\<close>

definition block_span :: "u32 \<times> u32 \<Rightarrow> nat \<times> nat" where
  "block_span = (\<lambda>(off, sz). (unat off div 64, blocks_of sz))"

definition bank_ok :: "nat \<Rightarrow> m_mallco_dev \<Rightarrow> bool" where
  "bank_ok memx d \<longleftrightarrow> memx < SRAMBANK \<and> length (memmap d) = SRAMBANK \<and> length (memrdy d) = SRAMBANK \<and>
     length (memmap d ! memx) = unat (memtblsize ! memx)"

text \<open>The pool \<open>memx\<close> holds the allocations \<open>A\<close>, offsets and sizes in bytes.\<close>

definition bank_repr :: "nat \<Rightarrow> (u32 \<times> u32) set \<Rightarrow> m_mallco_dev \<Rightarrow> bool" where
  "bank_repr memx A d \<longleftrightarrow> bank_ok memx d \<and> (memrdy d ! memx = 0 \<longrightarrow> A = {}) \<and>
     (\<forall>off sz. (off, sz) \<in> A \<longrightarrow> sz \<noteq> 0 \<and> unat off mod 64 = 0) \<and> inj_on fst A \<and>
     table_repr (block_span ` A) (memmap d ! memx)"

lemma bank_reprD:
  assumes "bank_repr memx A d"
  shows "memx < SRAMBANK" "memx < length (memmap d)" "memx < length (memrdy d)"
    "length (memmap d ! memx) = unat (memtblsize ! memx)" "length (memmap d ! memx) < 2147483648"
    "table_repr (block_span ` A) (memmap d ! memx)" "inj_on fst A"
    "\<And>off sz. (off, sz) \<in> A \<Longrightarrow> sz \<noteq> 0 \<and> unat off mod 64 = 0"
    "\<And>off sz. (off, sz) \<in> A \<Longrightarrow> memrdy d ! memx \<noteq> 0"
  using assms bank_constants(4) [of memx] by (auto simp: bank_repr_def bank_ok_def)

lemma bank_repr_same: "bank_repr memx A d \<Longrightarrow> (off, s1) \<in> A \<Longrightarrow> (off, s2) \<in> A \<Longrightarrow> s1 = s2"
  using inj_onD [OF bank_reprD(7), of memx A d "(off, s1)" "(off, s2)"] by simp

lemma bank_repr_span:
  assumes r: "bank_repr memx A d" and m: "(off, sz) \<in> A"
  shows "(unat off div 64, blocks_of sz) \<in> block_span ` A" "unat off = 64 * (unat off div 64)"
    "unat off div 64 + blocks_of sz \<le> unat (memtblsize ! memx)"
proof -
  show b: "(unat off div 64, blocks_of sz) \<in> block_span ` A"
    using m by (force simp: block_span_def)
  show "unat off div 64 + blocks_of sz \<le> unat (memtblsize ! memx)"
    using table_reprD(2) [OF bank_reprD(6) [OF r] b] bank_reprD(4) [OF r] by simp
  show "unat off = 64 * (unat off div 64)"
    using bank_reprD(8) [OF r m] div_mult_mod_eq [of "unat off" 64] by simp
qed

lemma bank_repr_init:
  assumes "bank_ok memx d"
  shows "bank_repr memx {} (my_mem_init memx d)" "memrdy (my_mem_init memx d) ! memx \<noteq> 0"
  using assms by (simp_all add: bank_repr_def bank_ok_def my_mem_init_def table_repr_def Let_def)

lemma bank_init_fields:
  "membase (my_mem_init memx d) = membase d" "mdata (my_mem_init memx d) = mdata d"
  by (simp_all add: my_mem_init_def Let_def)

lemma bank_repr_ready:
  assumes "bank_repr memx A d"
  defines "d1 \<equiv> if memrdy d ! memx = 0 then my_mem_init memx d else d"
  shows "bank_repr memx A d1" "memrdy d1 ! memx \<noteq> 0" "membase d1 = membase d" "mdata d1 = mdata d"
  using assms(1) bank_repr_init [of memx d] by (auto simp: d1_def bank_repr_def bank_init_fields)

definition table_free :: "nat \<Rightarrow> m_mallco_dev \<Rightarrow> u32 \<Rightarrow> nat \<Rightarrow> bool" where
  "table_free memx d sz b = zero_run (memmap d ! memx) b (blocks_of sz)"

lemma my_mem_malloc_spec:
  assumes r: "bank_repr memx A d"
  obtains (refused) d1 where "my_mem_malloc memx sz d = Some (0xFFFFFFFF, d1)" "bank_repr memx A d1"
      "sz = 0 \<or> (\<forall>b. \<not> table_free memx d1 sz b)" "membase d1 = membase d" "mdata d1 = mdata d"
      "memrdy d1 ! memx \<noteq> 0"
      "(memrdy d ! memx \<noteq> 0 \<longrightarrow> d1 = d) \<and> (memrdy d ! memx = 0 \<longrightarrow> d1 = my_mem_init memx d)"
  | (got) b d1 t' where "table_free memx d1 sz b" "\<forall>b' > b. \<not> table_free memx d1 sz b'"
      "t' = map (\<lambda>j. if b \<le> j \<and> j < b + blocks_of sz then of_nat (blocks_of sz) else memmap d1 ! memx ! j)
         [0..<length (memmap d1 ! memx)]"
      "my_mem_malloc memx sz d = Some (of_nat b * 64, d1\<lparr>memmap := (memmap d1)[memx := t']\<rparr>)"
      "sz \<noteq> 0" "bank_repr memx A d1" "membase d1 = membase d" "mdata d1 = mdata d"
      "memrdy d1 ! memx \<noteq> 0"
      "(memrdy d ! memx \<noteq> 0 \<longrightarrow> d1 = d) \<and> (memrdy d ! memx = 0 \<longrightarrow> d1 = my_mem_init memx d)"
      "unat (of_nat b * 64 :: u32) = 64 * b"
proof -
  define d1 where "d1 = (if memrdy d ! memx = 0 then my_mem_init memx d else d)"
  note d1 = bank_repr_ready [OF r, folded d1_def]
  have same: "(memrdy d ! memx \<noteq> 0 \<longrightarrow> d1 = d) \<and> (memrdy d ! memx = 0 \<longrightarrow> d1 = my_mem_init memx d)"
    by (simp add: d1_def)
  note m = bank_reprD [OF d1(1)]
  let ?t = "memmap d1 ! memx" and ?n = "blocks_for memx sz"
  have n: "unat ?n = blocks_of sz"
    by (rule blocks_for_value [OF m(1)])
  show thesis
  proof (cases "sz = 0")
    case True
    then show ?thesis
      using refused [of d1] d1 same by (simp add: my_mem_malloc_def d1_def Let_def)
  next
    case False
    then have n0: "?n \<noteq> 0"
      using blocks_of_bounds(1) n by force
    have f: "case find_blocks ?t ?n 0 (unat (memtblsize ! memx)) of
        None \<Rightarrow> \<forall>off. \<not> table_free memx d1 sz off
      | Some off \<Rightarrow> table_free memx d1 sz off \<and> (\<forall>off' > off. \<not> table_free memx d1 sz off')"
      using find_blocks_top [OF n0, of ?t] m(4,5) unfolding n table_free_def by simp
    show ?thesis
    proof (cases "find_blocks ?t ?n 0 (unat (memtblsize ! memx))")
      case None
      then show ?thesis
        using refused [of d1] d1 same f False by (simp add: my_mem_malloc_def Let_def flip: d1_def)
    next
      case (Some b)
      then have z: "table_free memx d1 sz b" "\<forall>b' > b. \<not> table_free memx d1 sz b'"
        using f by simp_all
      then have b: "b + blocks_of sz \<le> length ?t"
        by (simp add: table_free_def zero_run_def)
      then have "b \<le> 1024"
        using m(4) bank_constants(4) [OF m(1)] by simp
      then have u: "unat (of_nat b * 64 :: u32) = 64 * b"
        by (simp add: unat_mult32 unsigned_of_nat take_bit_nat_eq_self)
      have v: "?n = of_nat (blocks_of sz)"
        by (simp flip: n)
      then have "unat (of_nat (blocks_of sz) :: u32) = blocks_of sz"
        using n by simp
      then show ?thesis
        using got [OF z refl _ False d1(1,3,4,2) same u] Some False b
        by (simp add: my_mem_malloc_def Let_def set_blocks_eq bank_constants(1) [OF m(1)] v flip: d1_def)
    qed
  qed
qed


lemma bank_ok_update:
  "bank_ok memx d \<Longrightarrow> length t = length (memmap d ! memx) \<Longrightarrow> bank_ok memx (d\<lparr>memmap := (memmap d)[memx := t]\<rparr>)"
  by (simp add: bank_ok_def)

lemma my_mem_malloc_repr:
  assumes r: "bank_repr memx A d" and a: "my_mem_malloc memx sz d = Some (off, d')"
  shows "off = 0xFFFFFFFF \<Longrightarrow> bank_repr memx A d'"
    and "off \<noteq> 0xFFFFFFFF \<Longrightarrow> bank_repr memx (insert (off, sz) A) d'"
    and "off \<noteq> 0xFFFFFFFF \<Longrightarrow> off \<notin> fst ` A"
proof -
  have "(off = 0xFFFFFFFF \<longrightarrow> bank_repr memx A d') \<and>
    (off \<noteq> 0xFFFFFFFF \<longrightarrow> off \<notin> fst ` A \<and> bank_repr memx (insert (off, sz) A) d')"
    using r
  proof (cases rule: my_mem_malloc_spec [of memx A d sz])
    case (refused d1)
    then show ?thesis
      using a by simp
  next
    case (got b d1 t')
    let ?t = "memmap d1 ! memx" and ?n = "blocks_of sz"
    note m = bank_reprD [OF got(6)]
    have o: "off = of_nat b * 64" "d' = d1\<lparr>memmap := (memmap d1)[memx := t']\<rparr>" "unat off = 64 * b"
      using got(4,11) a by simp_all
    have z: "zero_run ?t b ?n" "0 < ?n"
      using got(1) blocks_of_bounds(1) [OF got(5)] by (simp_all add: table_free_def)
    have "b < 1024"
      using z m(4) bank_constants(4) [OF m(1)] by (simp add: zero_run_def)
    then have ne: "off \<noteq> 0xFFFFFFFF"
      using o(3) by auto
    have new: "off \<notin> fst ` A"
    proof
      assume "off \<in> fst ` A"
      then obtain s where s: "(off, s) \<in> A" by auto
      note p = bank_repr_span [OF got(6) s]
      have "0 < blocks_of s"
        by (rule blocks_of_bounds(1)) (use m(8) [OF s] in simp)
      then show False
        using table_repr_alloc(2) [OF m(6,5) z p(1)] z(2) o(3) by auto
    qed
    have "table_repr (insert (b, ?n) (block_span ` A)) t'"
      unfolding got(3) by (rule table_repr_alloc(1) [OF m(6,5) z])
    moreover have "block_span (off, sz) = (b, ?n)"
      using o(3) by (simp add: block_span_def)
    moreover have "bank_ok memx d'"
      unfolding o(2) using got(6) by (intro bank_ok_update) (simp_all add: bank_repr_def got(3))
    moreover have "memmap d' ! memx = t'" "memrdy d' = memrdy d1"
      using m(2) by (simp_all add: o(2))
    ultimately have "bank_repr memx (insert (off, sz) A) d'"
      using got(5,6,9) m(7,8) new o(3) by (auto simp: bank_repr_def)
    then show ?thesis
      using ne new by simp
  qed
  then show "off = 0xFFFFFFFF \<Longrightarrow> bank_repr memx A d'"
    "off \<noteq> 0xFFFFFFFF \<Longrightarrow> bank_repr memx (insert (off, sz) A) d'"
    "off \<noteq> 0xFFFFFFFF \<Longrightarrow> off \<notin> fst ` A"
    by simp_all
qed

text \<open>Freeing what is allocated: the table is cleared over exactly the blocks of the allocation.\<close>

lemma my_mem_free_spec:
  assumes r: "bank_repr memx A d" and m: "(off, sz) \<in> A"
  defines "b \<equiv> unat off div 64"
  defines "t' \<equiv> map (\<lambda>j. if b \<le> j \<and> j < b + blocks_of sz then 0 else memmap d ! memx ! j)
      [0..<length (memmap d ! memx)]"
  shows "my_mem_free memx off d = Some (0, d\<lparr>memmap := (memmap d)[memx := t']\<rparr>)"
proof -
  note k = bank_constants [OF bank_reprD(1) [OF r]] and p = bank_repr_span [OF r m]
  note rd = bank_reprD [OF r]
  have n: "0 < blocks_of sz"
    by (rule blocks_of_bounds(1)) (use rd(8) [OF m] in simp)
  have e: "sint (memmap d ! memx ! b) = int (blocks_of sz)"
    by (rule table_repr_entry(4) [OF rd(6,5) p(1)]) (use n in \<open>simp_all add: b_def\<close>)
  have "unat off < unat (memsize ! memx)"
    using p(2,3) n unfolding k(2) by linarith
  then have lt: "off < memsize ! memx"
    by (simp add: word_less_nat_alt)
  have i: "unat (off div (memblksize ! memx)) = b"
    by (simp add: k(1) unat_div b_def)
  have l: "b + blocks_of sz \<le> length (memmap d ! memx)"
    using p(3) rd(4) by (simp add: b_def)
  show ?thesis
    using rd(9) [OF m] lt set_blocks_eq [OF l, of 0]
    by (simp add: my_mem_free_def i e Let_def t'_def)
qed

lemma image_remove:
  assumes "\<And>y. y \<in> A \<Longrightarrow> y \<noteq> x \<Longrightarrow> f y \<noteq> f x"
  shows "f ` (A - {x}) = f ` A - {f x}"
proof (intro set_eqI iffI)
  fix z assume "z \<in> f ` (A - {x})"
  then show "z \<in> f ` A - {f x}"
    using assms by auto
next
  fix z assume "z \<in> f ` A - {f x}"
  then show "z \<in> f ` (A - {x})"
    by auto
qed

lemma my_mem_free_repr:
  assumes r: "bank_repr memx A d" and m: "(off, sz) \<in> A" and f: "my_mem_free memx off d = Some (st, d')"
  shows "st = 0" "bank_repr memx (A - {(off, sz)}) d'"
proof -
  let ?b = "unat off div 64" and ?n = "blocks_of sz"
  note rd = bank_reprD [OF r]
  define t' where "t' = map (\<lambda>j. if ?b \<le> j \<and> j < ?b + ?n then 0 else memmap d ! memx ! j)
      [0..<length (memmap d ! memx)]"
  have e: "st = 0" "d' = d\<lparr>memmap := (memmap d)[memx := t']\<rparr>"
    using my_mem_free_spec [OF r m, folded t'_def] f by simp_all
  have "table_repr (block_span ` A - {(?b, ?n)}) t'"
    unfolding t'_def by (rule table_repr_release [OF rd(6,5) bank_repr_span(1) [OF r m]])
  moreover have "block_span ` (A - {(off, sz)}) = block_span ` A - {(?b, ?n)}"
  proof -
    have "block_span x \<noteq> (?b, ?n)" if "x \<in> A" "x \<noteq> (off, sz)" for x
    proof -
      obtain o2 s2 where x: "x = (o2, s2)" by (cases x)
      have "unat o2 = 64 * (unat o2 div 64)" "unat off = 64 * ?b"
        using bank_repr_span(2) [OF r] that(1) m x by blast+
      moreover have "o2 \<noteq> off"
        using bank_repr_same [OF r] that m x by blast
      ultimately show ?thesis
        by (auto simp: block_span_def x word_unat_eq_iff)
    qed
    moreover have "block_span (off, sz) = (?b, ?n)"
      by (simp add: block_span_def)
    ultimately show ?thesis
      using image_remove [of A "(off, sz)" block_span] by simp
  qed
  moreover have "bank_ok memx d'"
    unfolding e(2) using r by (intro bank_ok_update) (simp_all add: bank_repr_def t'_def)
  moreover have "memmap d' ! memx = t'" "memrdy d' = memrdy d"
    using rd(2) by (simp_all add: e(2))
  ultimately show "bank_repr memx (A - {(off, sz)}) d'"
    using rd(7,8) rd(9) [OF m] by (auto simp: bank_repr_def inj_on_diff)
  show "st = 0" by (rule e(1))
qed

lemma my_mem_malloc_returns: "bank_repr memx A d \<Longrightarrow> my_mem_malloc memx sz d \<noteq> None"
  by (cases rule: my_mem_malloc_spec [of memx A d sz]) simp_all

lemma my_mem_free_returns: "bank_repr memx A d \<Longrightarrow> (off, sz) \<in> A \<Longrightarrow> my_mem_free memx off d \<noteq> None"
  using my_mem_free_spec by simp

lemma bank_repr_inside:
  assumes r: "bank_repr memx A d" and m: "(off, sz) \<in> A"
  shows "0 < unat sz" "unat off + unat sz \<le> unat (memsize ! memx)"
proof -
  show "0 < unat sz"
    using bank_reprD(8) [OF r m] by (simp add: unat_gt_0)
  show "unat off + unat sz \<le> unat (memsize ! memx)"
    using bank_repr_span(2,3) [OF r m] blocks_of_bounds(2) [of sz] bank_constants(2) [OF bank_reprD(1) [OF r]]
    by linarith
qed

lemma bank_repr_apart:
  assumes r: "bank_repr memx A d" and m: "(off, sz) \<in> A" "(off2, sz2) \<in> A" "(off, sz) \<noteq> (off2, sz2)"
  shows "unat off + unat sz \<le> unat off2 \<or> unat off2 + unat sz2 \<le> unat off"
proof -
  let ?b = "unat off div 64" and ?b2 = "unat off2 div 64"
  note p = bank_repr_span [OF r m(1)] and p2 = bank_repr_span [OF r m(2)]
  have "off \<noteq> off2"
    using bank_repr_same [OF r] m by blast
  then have "unat off \<noteq> unat off2"
    by (simp add: word_unat_eq_iff)
  then have "(?b, blocks_of sz) \<noteq> (?b2, blocks_of sz2)"
    using p(2) p2(2) by (metis prod.inject)
  from table_reprD(4) [OF bank_reprD(6) [OF r] p(1) p2(1) this] show ?thesis
    using p(2) p2(2) blocks_of_bounds(2) [of sz] blocks_of_bounds(2) [of sz2] by linarith
qed


text \<open>A window of blocks is free iff no allocation has a block in it.\<close>

lemma table_free_iff:
  assumes r: "bank_repr memx A d" and sz: "sz \<noteq> 0"
  shows "table_free memx d sz b \<longleftrightarrow> 64 * (b + blocks_of sz) \<le> unat (memsize ! memx) \<and>
    \<not> (\<exists>(off, s) \<in> A. unat off div 64 < b + blocks_of sz \<and> b < unat off div 64 + blocks_of s)"
proof -
  let ?t = "memmap d ! memx" and ?n = "blocks_of sz"
  note rd = bank_reprD [OF r]
  have len: "64 * (b + ?n) \<le> unat (memsize ! memx) \<longleftrightarrow> b + ?n \<le> length ?t"
    unfolding rd(4) bank_constants(2) [OF rd(1)] nat_mult_le_cancel_disj by simp
  have zero: "(\<forall>i < ?n. ?t ! (b + i) = 0) \<longleftrightarrow>
      \<not> (\<exists>(off, s) \<in> A. unat off div 64 < b + ?n \<and> b < unat off div 64 + blocks_of s)"
    if l: "b + ?n \<le> length ?t"
  proof
    assume z: "\<forall>i < ?n. ?t ! (b + i) = 0"
    show "\<not> (\<exists>(off, s) \<in> A. unat off div 64 < b + ?n \<and> b < unat off div 64 + blocks_of s)"
    proof clarify
      fix off s assume m: "(off, s) \<in> A" and o: "unat off div 64 < b + ?n" "b < unat off div 64 + blocks_of s"
      let ?j = "max b (unat off div 64)"
      have p: "0 < ?n" "0 < blocks_of s"
        using blocks_of_bounds(1) sz rd(8) [OF m] by auto
      then have "?j - b < ?n" "b + (?j - b) = ?j"
        using o by linarith+
      then have "?t ! ?j = 0"
        using z by metis
      moreover have "?t ! ?j \<noteq> 0"
        by (rule table_repr_entry(2) [OF rd(6,5) bank_repr_span(1) [OF r m]]) (use o p in simp_all)
      ultimately show False by simp
    qed
  next
    assume n: "\<not> (\<exists>(off, s) \<in> A. unat off div 64 < b + ?n \<and> b < unat off div 64 + blocks_of s)"
    show "\<forall>i < ?n. ?t ! (b + i) = 0"
    proof (intro allI impI, rule ccontr)
      fix i assume i: "i < ?n" "?t ! (b + i) \<noteq> 0"
      then have "b + i < length ?t" using l by simp
      then obtain b2 n2 where "(b2, n2) \<in> block_span ` A" "b2 \<le> b + i" "b + i < b2 + n2"
        using table_repr_used [OF rd(6) _ i(2)] by blast
      then obtain off s where "(off, s) \<in> A" "unat off div 64 \<le> b + i" "b + i < unat off div 64 + blocks_of s"
        by (auto simp: block_span_def)
      moreover from this have "unat off div 64 < b + ?n" "b < unat off div 64 + blocks_of s"
        using i(1) by linarith+
      ultimately show False
        using n by blast
    qed
  qed
  show ?thesis
    unfolding table_free_def zero_run_def len using zero by blast
qed

lemma malloc_refused_iff:
  assumes r: "bank_repr memx A d"
  shows "(\<exists>d'. my_mem_malloc memx sz d = Some (0xFFFFFFFF, d')) \<longleftrightarrow>
    sz = 0 \<or> (\<forall>b. 64 * (b + blocks_of sz) \<le> unat (memsize ! memx) \<longrightarrow>
       (\<exists>(off, s) \<in> A. unat off div 64 < b + blocks_of sz \<and> b < unat off div 64 + blocks_of s))"
  using r
proof (cases rule: my_mem_malloc_spec [of memx A d sz])
  case (refused d1)
  then show ?thesis
    using table_free_iff [OF refused(2)] by blast
next
  case (got b d1 t')
  have "b < 1024"
    using got(1) blocks_of_bounds(1) [OF got(5)] bank_reprD(4) [OF got(6)] bank_constants(4) [OF bank_reprD(1) [OF r]]
    by (simp add: table_free_def zero_run_def)
  then have "of_nat b * 64 \<noteq> (0xFFFFFFFF :: u32)"
    using got(11) by auto
  then show ?thesis
    using got(1,4,5) table_free_iff [OF got(6,5), of b] by auto
qed

lemma malloc_offset_ne:
  assumes "bank_repr memx A d" "table_free memx d sz b" "sz \<noteq> 0"
  shows "(of_nat b * 64 :: u32) \<noteq> 0xFFFFFFFF"
proof -
  have "b < 1024"
    using assms(2) blocks_of_bounds(1) [OF assms(3)] bank_reprD(4) [OF assms(1)]
      bank_constants(4) [OF bank_reprD(1) [OF assms(1)]]
    by (simp add: table_free_def zero_run_def)
  then have "unat (of_nat b * 64 :: u32) = 64 * b"
    by (simp add: unat_mult32 unsigned_of_nat take_bit_nat_eq_self)
  then show ?thesis
    using \<open>b < 1024\<close> by auto
qed

section \<open>The contract of an allocator\<close>

text \<open>
  The runs of a client: it allocates, and releases what it holds. \<open>A\<close> is what it holds, offsets and
  sizes in bytes.
\<close>

inductive heap_reach :: "(u32 \<Rightarrow> 'd \<Rightarrow> (u32 \<times> 'd) option) \<Rightarrow> (u32 \<Rightarrow> 'd \<Rightarrow> (u8 \<times> 'd) option)
    \<Rightarrow> 'd \<Rightarrow> 'd \<Rightarrow> (u32 \<times> u32) set \<Rightarrow> bool" for alloc release d0 where
  start: "heap_reach alloc release d0 d0 {}"
| got: "heap_reach alloc release d0 d A \<Longrightarrow> alloc sz d = Some (off, d') \<Longrightarrow> off \<noteq> 0xFFFFFFFF \<Longrightarrow>
     heap_reach alloc release d0 d' (insert (off, sz) A)"
| refused: "heap_reach alloc release d0 d A \<Longrightarrow> alloc sz d = Some (0xFFFFFFFF, d') \<Longrightarrow>
     heap_reach alloc release d0 d' A"
| freed: "heap_reach alloc release d0 d A \<Longrightarrow> (off, sz) \<in> A \<Longrightarrow> release off d = Some (st, d') \<Longrightarrow>
     heap_reach alloc release d0 d' (A - {(off, sz)})"

locale allocator =
  fixes repr :: "(u32 \<times> u32) set \<Rightarrow> 'd \<Rightarrow> bool"
    and alloc :: "u32 \<Rightarrow> 'd \<Rightarrow> (u32 \<times> 'd) option"
    and release :: "u32 \<Rightarrow> 'd \<Rightarrow> (u8 \<times> 'd) option"
    and pool :: nat
  assumes inside: "repr A d \<Longrightarrow> (off, sz) \<in> A \<Longrightarrow> 0 < unat sz \<and> unat off + unat sz \<le> pool"
    and apart: "repr A d \<Longrightarrow> (off, sz) \<in> A \<Longrightarrow> (off2, sz2) \<in> A \<Longrightarrow> (off, sz) \<noteq> (off2, sz2) \<Longrightarrow>
      unat off + unat sz \<le> unat off2 \<or> unat off2 + unat sz2 \<le> unat off"
    and alloc_returns: "repr A d \<Longrightarrow> alloc sz d \<noteq> None"
    and alloc_got: "repr A d \<Longrightarrow> alloc sz d = Some (off, d') \<Longrightarrow> off \<noteq> 0xFFFFFFFF \<Longrightarrow>
      repr (insert (off, sz) A) d'"
    and alloc_refused: "repr A d \<Longrightarrow> alloc sz d = Some (0xFFFFFFFF, d') \<Longrightarrow> repr A d'"
    and release_returns: "repr A d \<Longrightarrow> (off, sz) \<in> A \<Longrightarrow> release off d \<noteq> None"
    and release_repr: "repr A d \<Longrightarrow> (off, sz) \<in> A \<Longrightarrow> release off d = Some (st, d') \<Longrightarrow>
      st = 0 \<and> repr (A - {(off, sz)}) d'"
begin

lemma reach_repr: "heap_reach alloc release d0 d A \<Longrightarrow> repr {} d0 \<Longrightarrow> repr A d"
  by (induction rule: heap_reach.induct) (auto dest: alloc_got alloc_refused release_repr)

text \<open>What a client holds is in the pool and pairwise apart; no call of it gets stuck.\<close>

lemma reach_safe:
  assumes "heap_reach alloc release d0 d A" "repr {} d0"
  shows "(off, sz) \<in> A \<Longrightarrow> unat off + unat sz \<le> pool"
    and "(off, sz) \<in> A \<Longrightarrow> (off2, sz2) \<in> A \<Longrightarrow> (off, sz) \<noteq> (off2, sz2) \<Longrightarrow>
      unat off + unat sz \<le> unat off2 \<or> unat off2 + unat sz2 \<le> unat off"
    and "alloc sz d \<noteq> None" "(off, sz) \<in> A \<Longrightarrow> release off d \<noteq> None"
  using inside apart alloc_returns release_returns reach_repr [OF assms] by blast+

end

lemma bank_allocator:
  assumes "pool = unat (memsize ! memx)"
  shows "allocator (bank_repr memx) (my_mem_malloc memx) (my_mem_free memx) pool"
  unfolding assms
proof (unfold_locales, goal_cases)
  case (1 A d off sz)
  then show ?case
    using bank_repr_inside by blast
next
  case (2 A d off sz off2 sz2)
  then show ?case
    by (rule bank_repr_apart)
next
  case (3 A d sz)
  then show ?case
    by (rule my_mem_malloc_returns)
next
  case (4 A d sz off d')
  then show ?case
    by (rule my_mem_malloc_repr(2))
next
  case (5 A d sz d')
  then show ?case
    using my_mem_malloc_repr(1) by blast
next
  case (6 A d off sz)
  then show ?case
    by (rule my_mem_free_returns)
next
  case (7 A d off sz st d')
  then show ?case
    using my_mem_free_repr by blast
qed

interpretation sram_in: allocator "bank_repr 0" "my_mem_malloc 0" "my_mem_free 0" 65536
  by (rule bank_allocator) (simp add: memsize_def)

interpretation sram_ex: allocator "bank_repr 1" "my_mem_malloc 1" "my_mem_free 1" 1024
  by (rule bank_allocator) (simp add: memsize_def)

interpretation sram_ccm: allocator "bank_repr 2" "my_mem_malloc 2" "my_mem_free 2" 1024
  by (rule bank_allocator) (simp add: memsize_def)

text \<open>The controller before any call, the pools at the addresses \<open>bases\<close>.\<close>

definition mallco_dev :: "u32 list \<Rightarrow> memory \<Rightarrow> m_mallco_dev" where
  "mallco_dev bases m = \<lparr>membase = bases,
     memmap = map (\<lambda>n. replicate (unat n) 0) memtblsize, memrdy = [0, 0, 0], mdata = m\<rparr>"

lemma length_memtblsize: "length memtblsize = SRAMBANK"
  by (simp add: memtblsize_def)

lemma mallco_dev_repr: "memx < SRAMBANK \<Longrightarrow> bank_repr memx {} (mallco_dev bases m)"
  by (simp add: bank_repr_def bank_ok_def mallco_dev_def table_repr_def length_memtblsize)

section \<open>Copying and usage\<close>

lemma memcpy_other:
  "(\<forall>j < n. a \<noteq> des + of_nat j) \<Longrightarrow> memcpy_bytes des src n m a = m a"
proof (induction n arbitrary: des src m)
  case (Suc n)
  have "a \<noteq> des"
    using Suc.prems by force
  moreover have "a \<noteq> des + 1 + of_nat j" if "j < n" for j
    using Suc.prems that by (metis Suc_less_eq add.assoc of_nat_Suc)
  ultimately show ?case
    using Suc.IH [of "des + 1"] by simp
qed simp

text \<open>The copy goes forward, so the part of the source that is apart from the destination arrives.\<close>

lemma memcpy_bytes_copies:
  assumes "\<forall>i < k. \<forall>j < n. src + of_nat i \<noteq> des + (of_nat j :: u32)" "i < k" "i < n" "n < 4294967296"
  shows "memcpy_bytes des src n m (des + of_nat i) = m (src + of_nat i)"
  using assms
proof (induction n arbitrary: des src m i k)
  case (Suc n)
  show ?case
  proof (cases i)
    case 0
    have "des \<noteq> des + 1 + of_nat j" if "j < n" for j
    proof
      assume "des = des + 1 + of_nat j"
      then have "(of_nat (Suc j) :: u32) = 0"
        by (simp add: add.assoc)
      moreover have "unat (of_nat (Suc j) :: u32) = Suc j"
        using that Suc.prems(4) take_bit_nat_eq_self [of "Suc j" 32] by (simp only: unsigned_of_nat) simp
      ultimately show False
        by simp
    qed
    then show ?thesis
      using memcpy_other [of n des "des + 1"] 0 by simp
  next
    case (Suc i')
    have "\<forall>i < k - 1. \<forall>j < n. (src + 1) + of_nat i \<noteq> (des + 1) + of_nat j"
    proof (intro allI impI)
      fix a b assume "a < k - 1" "b < n"
      then have "src + of_nat (Suc a) \<noteq> des + of_nat (Suc b)"
        using Suc.prems(1) by (metis Suc_less_eq less_diff_conv Suc_eq_plus1)
      then show "(src + 1) + of_nat a \<noteq> (des + 1) + of_nat b"
        by (simp add: add.assoc)
    qed
    moreover have "i' < k - 1" "i' < n" "n < 4294967296"
      using Suc Suc.prems by simp_all
    ultimately have "memcpy_bytes (des + 1) (src + 1) n (m(des := m src)) ((des + 1) + of_nat i')
        = (m(des := m src)) ((src + 1) + of_nat i')"
      by (rule Suc.IH)
    moreover have "src + of_nat i \<noteq> des"
      using Suc.prems(1,2) by force
    ultimately show ?thesis
      using Suc by (simp add: add.assoc)
  qed
qed simp

lemma count_used_length: "count_used t u = u + of_nat (length (filter (\<lambda>e. e \<noteq> 0) t))"
  by (induction t arbitrary: u) (simp_all add: add.assoc)

lemma used_blocks:
  assumes r: "bank_repr memx A d"
  shows "length (filter (\<lambda>e. e \<noteq> 0) (memmap d ! memx)) = (\<Sum>x \<in> A. blocks_of (snd x))"
proof -
  let ?t = "memmap d ! memx" and ?S = "\<lambda>x. {fst (block_span x) ..< fst (block_span x) + snd (block_span x)}"
  note rd = bank_reprD [OF r]
  have sp: "block_span x \<in> block_span ` A" if "x \<in> A" for x
    using that by blast
  have "{j. j < length ?t \<and> ?t ! j \<noteq> 0} = (\<Union>x \<in> A. ?S x)"
  proof (intro set_eqI iffI)
    fix j assume "j \<in> {j. j < length ?t \<and> ?t ! j \<noteq> 0}"
    then obtain b n where "(b, n) \<in> block_span ` A" "b \<le> j" "j < b + n"
      using table_repr_used [OF rd(6)] by blast
    then show "j \<in> (\<Union>x \<in> A. ?S x)"
      by (metis (no_types, lifting) UN_I atLeastLessThan_iff fst_conv imageE snd_conv)
  next
    fix j assume "j \<in> (\<Union>x \<in> A. ?S x)"
    then obtain x where x: "x \<in> A" "fst (block_span x) \<le> j" "j < fst (block_span x) + snd (block_span x)"
      by auto
    have m: "(fst (block_span x), snd (block_span x)) \<in> block_span ` A"
      using sp [OF x(1)] by simp
    show "j \<in> {j. j < length ?t \<and> ?t ! j \<noteq> 0}"
      using table_repr_entry(2) [OF rd(6,5) m x(2,3)] table_reprD(2) [OF rd(6) m] x(3) by simp
  qed
  then have "length (filter (\<lambda>e. e \<noteq> 0) ?t) = card (\<Union>x \<in> A. ?S x)"
    by (simp add: length_filter_conv_card)
  also have "\<dots> = (\<Sum>x \<in> A. card (?S x))"
  proof (rule card_UN_disjoint)
    show "\<forall>x \<in> A. \<forall>y \<in> A. x \<noteq> y \<longrightarrow> ?S x \<inter> ?S y = {}"
    proof (intro ballI impI)
      fix x y assume xy: "x \<in> A" "y \<in> A" "x \<noteq> y"
      obtain o1 s1 o2 s2 where e: "x = (o1, s1)" "y = (o2, s2)" by (metis surj_pair)
      have "o1 \<noteq> o2"
        using bank_repr_same [OF r] xy e by blast
      then have "unat o1 div 64 \<noteq> unat o2 div 64"
        using bank_repr_span(2) [OF r] xy(1,2) unfolding e by (metis word_unat_eq_iff)
      then have "(unat o1 div 64, blocks_of s1) \<noteq> (unat o2 div 64, blocks_of s2)"
        by simp
      from table_reprD(4) [OF rd(6) bank_repr_span(1) bank_repr_span(1) this] r xy(1,2)
      have "unat o1 div 64 + blocks_of s1 \<le> unat o2 div 64 \<or> unat o2 div 64 + blocks_of s2 \<le> unat o1 div 64"
        unfolding e by blast
      then show "?S x \<inter> ?S y = {}"
        by (auto simp: e block_span_def)
    qed
  qed simp_all
  also have "\<dots> = (\<Sum>x \<in> A. blocks_of (snd x))"
    by (simp add: block_span_def case_prod_beta)
  finally show ?thesis .
qed



lemma free_after_malloc:
  assumes r: "bank_repr memx A d" and a: "my_mem_malloc memx sz d = Some (off, d')" "off \<noteq> 0xFFFFFFFF"
  shows "my_mem_free memx off d' = Some (0, if memrdy d ! memx = 0 then my_mem_init memx d else d)"
  using r
proof (cases rule: my_mem_malloc_spec [of memx A d sz])
  case (refused d1)
  then show ?thesis
    using a by simp
next
  case (got b d1 t')
  let ?t = "memmap d1 ! memx" and ?n = "blocks_of sz"
  have o: "off = of_nat b * 64" "d' = d1\<lparr>memmap := (memmap d1)[memx := t']\<rparr>" "unat off div 64 = b"
    using got(4,11) a by simp_all
  have l: "memx < length (memmap d1)"
    by (rule bank_reprD(2) [OF got(6)])
  have restored: "map (\<lambda>j. if b \<le> j \<and> j < b + ?n then 0 else t' ! j) [0..<length t'] = ?t"
  proof (rule nth_equalityI)
    show "length (map (\<lambda>j. if b \<le> j \<and> j < b + ?n then 0 else t' ! j) [0..<length t']) = length ?t"
      by (simp add: got(3))
  next
    fix j assume "j < length (map (\<lambda>j. if b \<le> j \<and> j < b + ?n then 0 else t' ! j) [0..<length t'])"
    then have j: "j < length ?t"
      by (simp add: got(3))
    have "?t ! j = 0" if "b \<le> j" "j < b + ?n"
      using got(1) that unfolding table_free_def zero_run_def
      by (metis add_diff_inverse_nat add_less_cancel_left not_less)
    then show "map (\<lambda>j. if b \<le> j \<and> j < b + ?n then 0 else t' ! j) [0..<length t'] ! j = ?t ! j"
      using j by (simp add: got(3))
  qed
  have t': "memmap d' ! memx = t'"
    using l by (simp add: o(2))
  have "my_mem_free memx off d' = Some (0, d'\<lparr>memmap := (memmap d')[memx := ?t]\<rparr>)"
    using my_mem_free_spec [OF my_mem_malloc_repr(2) [OF r a] insertI1] restored unfolding t' o(3) by simp
  also have "d'\<lparr>memmap := (memmap d')[memx := ?t]\<rparr> = d1"
    using l by (cases d1) (simp add: o(2))
  finally show ?thesis
    using got(10) by simp
qed

lemma my_mem_malloc_frame:
  assumes "my_mem_malloc memx sz d = Some (off, d')"
  shows "membase d' = membase d" "mdata d' = mdata d"
  using assms by (auto simp: my_mem_malloc_def bank_init_fields Let_def split: if_splits option.splits)

lemma my_mem_free_frame:
  assumes "my_mem_free memx off d = Some (st, d')"
  shows "membase d' = membase d" "mdata d' = mdata d"
  using assms by (auto simp: my_mem_free_def bank_init_fields Let_def split: if_splits option.splits)

lemma heap_reach_base:
  "heap_reach (my_mem_malloc memx) (my_mem_free memx) (mallco_dev bases m) d A \<Longrightarrow> membase d = bases"
  by (induction rule: heap_reach.induct)
    (auto simp: mallco_dev_def my_mem_malloc_frame my_mem_free_frame)

text \<open>The memory does not matter to the tables.\<close>

lemma my_mem_free_mdata:
  "my_mem_free memx off (d\<lparr>mdata := v\<rparr>) =
     (case my_mem_free memx off d of None \<Rightarrow> None | Some (st, d') \<Rightarrow> Some (st, d'\<lparr>mdata := v\<rparr>))"
  by (cases d) (simp add: my_mem_free_def my_mem_init_def Let_def split: option.split)

lemma bank_repr_mdata: "bank_repr memx A (d\<lparr>mdata := v\<rparr>) = bank_repr memx A d"
  by (simp add: bank_repr_def bank_ok_def)

lemma myrealloc_repr:
  assumes r: "bank_repr memx A d" and m: "(off, s) \<in> A"
    and base: "membase d ! memx \<noteq> 0" "unat (membase d ! memx) + unat (memsize ! memx) \<le> 4294967296"
  shows "\<exists>p d'. myrealloc memx (membase d ! memx + off) sz d = Some (p, d') \<and>
    (if p = 0 then d' = d
     else (\<exists>off2. p = membase d ! memx + off2 \<and> bank_repr memx (insert (off2, sz) A - {(off, s)}) d' \<and>
       (\<forall>i < min (unat s) (unat sz).
          mdata d' (p + of_nat i) = mdata d (membase d ! memx + off + of_nat i))))"
proof -
  let ?base = "membase d ! memx"
  obtain off2 d1 where a: "my_mem_malloc memx sz d = Some (off2, d1)"
    using my_mem_malloc_returns [OF r, of sz] by auto
  show ?thesis
  proof (cases "off2 = 0xFFFFFFFF")
    case True
    have "d1 = d"
      using r
    proof (cases rule: my_mem_malloc_spec [of memx A d sz])
      case (refused d2)
      then show ?thesis
        using a bank_reprD(9) [OF r m] by simp
    next
      case (got b d2 t')
      then show ?thesis
        using a True malloc_offset_ne [OF got(6,1,5)] by simp
    qed
    then show ?thesis
      using a True by (simp add: myrealloc_def)
  next
    case False
    note a2 = my_mem_malloc_repr(2,3) [OF r a False] and fr = my_mem_malloc_frame [OF a]
    have m2: "(off, s) \<in> insert (off2, sz) A" "off \<noteq> off2"
      using m a2(2) by (auto intro: rev_image_eqI)
    have ap: "unat off2 + unat sz \<le> unat off \<or> unat off + unat s \<le> unat off2"
      using bank_repr_apart [OF a2(1) _ m2(1), of off2 sz] m2(2) by auto
    have i2: "unat off2 + unat sz \<le> unat (memsize ! memx)" "unat off + unat s \<le> unat (memsize ! memx)"
      "0 < unat sz" "0 < unat s"
      using bank_repr_inside [OF a2(1)] m2(1) by blast+
    have addr: "unat (?base + x + of_nat i) = unat ?base + unat x + i" if "unat x + i < unat (memsize ! memx)" for x i
      using that base(2) take_bit_nat_eq_self [of i 32]
      by (simp add: unat_add32 unsigned_of_nat)
    let ?v = "mymemcpy (?base + off2) (?base + off) sz (mdata d)"
    obtain d2 where d2: "my_mem_free memx off d1 = Some (0, d2)"
      using my_mem_free_returns [OF a2(1) m2(1)] my_mem_free_repr(1) [OF a2(1) m2(1)] by fastforce
    have ptr: "?base + off \<noteq> 0" "?base + off2 \<noteq> 0"
      using addr [of off 0] addr [of off2 0] i2 base(1) by (auto simp: word_unat_eq_iff)
    have res: "myrealloc memx (?base + off) sz d = Some (?base + off2, d2\<lparr>mdata := ?v\<rparr>)"
      using a False fr d2 ptr my_mem_free_frame(1) [OF d2]
      by (simp add: myrealloc_def myfree_def my_mem_free_mdata Let_def)
    have "?v (?base + off2 + of_nat i) = mdata d (?base + off + of_nat i)" if "i < min (unat s) (unat sz)" for i
      unfolding mymemcpy_def
    proof (rule memcpy_bytes_copies [where k = "unat s"])
      show "\<forall>i < unat s. \<forall>j < unat sz. ?base + off + of_nat i \<noteq> ?base + off2 + of_nat j"
      proof (intro allI impI)
        fix i j assume "i < unat s" "j < unat sz"
        then have "unat (?base + off + of_nat i) \<noteq> unat (?base + off2 + of_nat j)"
          using addr [of off i] addr [of off2 j] i2 ap by linarith
        then show "?base + off + of_nat i \<noteq> ?base + off2 + of_nat j"
          by metis
      qed
    qed (use that unat_u32_bound [of sz] in simp_all)
    moreover have "bank_repr memx (insert (off2, sz) A - {(off, s)}) (d2\<lparr>mdata := ?v\<rparr>)"
      using my_mem_free_repr(2) [OF a2(1) m2(1) d2] by (simp add: bank_repr_mdata)
    ultimately show ?thesis
      using res ptr(2) by auto
  qed
qed


section \<open>Properties\<close>

text \<open>
  C19. Allocations never overlap: whatever a client allocates and releases in a pool, what it
  holds at any moment lies inside the pool, and no two of its allocations share a byte; every call returns
  without touching memory outside the table.
\<close>

theorem heap_blocks_disjoint:
  assumes "memx < SRAMBANK"
    and "heap_reach (my_mem_malloc memx) (my_mem_free memx) (mallco_dev bases m) d A"
  shows "(\<forall>(off, sz) \<in> A. unat off + unat sz \<le> unat (memsize ! memx) \<and> my_mem_free memx off d \<noteq> None) \<and>
    (\<forall>(off, sz) \<in> A. \<forall>(off2, sz2) \<in> A. (off, sz) \<noteq> (off2, sz2) \<longrightarrow>
       unat off + unat sz \<le> unat off2 \<or> unat off2 + unat sz2 \<le> unat off) \<and>
    (\<forall>sz. my_mem_malloc memx sz d \<noteq> None)"
proof -
  note s = allocator.reach_safe [OF bank_allocator [OF refl] assms(2) mallco_dev_repr [OF assms(1)]]
  show ?thesis
    using s(1,4) s(2) s(3) by (intro conjI ballI allI; clarify) blast+
qed

text \<open>
  An allocation is refused only when it has to be: \<open>my_mem_malloc\<close> returns \<open>0xFFFFFFFF\<close> exactly if the
  size is 0 or there is no place for it, that is, every run of as many blocks as it needs meets a block of
  an allocation held.
\<close>

theorem malloc_refuses_iff_full:
  assumes "memx < SRAMBANK"
    and "heap_reach (my_mem_malloc memx) (my_mem_free memx) (mallco_dev bases m) d A"
  shows "(\<exists>d'. my_mem_malloc memx sz d = Some (0xFFFFFFFF, d')) \<longleftrightarrow>
    sz = 0 \<or> (\<forall>b. 64 * (b + blocks_of sz) \<le> unat (memsize ! memx) \<longrightarrow>
       (\<exists>(off, s) \<in> A. unat off div 64 < b + blocks_of sz \<and> b < unat off div 64 + blocks_of s))"
proof -
  have r: "bank_repr memx A d"
    by (rule allocator.reach_repr [OF bank_allocator [OF refl] assms(2) mallco_dev_repr [OF assms(1)]])
  show ?thesis
    by (rule malloc_refused_iff [OF r])
qed

text \<open>
  C21. Releasing undoes allocating: if \<open>mymalloc\<close> returns a pointer, \<open>myfree\<close> of this pointer puts
  the controller back to the state before the call, up to the initialisation of the pool that the first
  call performs.
\<close>

theorem malloc_free_roundtrip:
  assumes "memx < SRAMBANK"
    and "heap_reach (my_mem_malloc memx) (my_mem_free memx) (mallco_dev bases m) d A"
    and "mymalloc memx sz d = Some (p, d')" "p \<noteq> 0"
  shows "myfree memx p d' = Some (if memrdy d ! memx = 0 then my_mem_init memx d else d)"
proof -
  have r: "bank_repr memx A d"
    by (rule allocator.reach_repr [OF bank_allocator [OF refl] assms(2) mallco_dev_repr [OF assms(1)]])
  obtain off where off: "my_mem_malloc memx sz d = Some (off, d')" "off \<noteq> 0xFFFFFFFF"
      "p = membase d' ! memx + off"
    using assms(3,4) by (auto simp: mymalloc_def split: option.splits if_splits)
  then have "my_mem_free memx off d' = Some (0, if memrdy d ! memx = 0 then my_mem_init memx d else d)"
    by (intro free_after_malloc [OF r])
  then show ?thesis
    using assms(4) off(3) by (simp add: myfree_def Let_def)
qed

text \<open>
  \<open>my_mem_perused\<close> is the usage of the pool in tenths of a percent: the blocks of the allocations held, times
  1000, by the blocks of the pool, rounded down; never more than 1000.
\<close>

theorem mem_perused_value:
  assumes "memx < SRAMBANK"
    and "heap_reach (my_mem_malloc memx) (my_mem_free memx) (mallco_dev bases m) d A"
  shows "unat (my_mem_perused memx d) =
      (\<Sum>x \<in> A. blocks_of (snd x)) * 1000 div unat (memtblsize ! memx) \<and>
    unat (my_mem_perused memx d) \<le> 1000"
proof -
  have r: "bank_repr memx A d"
    by (rule allocator.reach_repr [OF bank_allocator [OF refl] assms(2) mallco_dev_repr [OF assms(1)]])
  let ?n = "unat (memtblsize ! memx)"
  define u where "u = (\<Sum>x \<in> A. blocks_of (snd x))"
  note ub = used_blocks [OF r, folded u_def]
  have c: "count_used (memmap d ! memx) 0 = of_nat u"
    by (simp add: count_used_length ub)
  have u: "u \<le> ?n"
    using ub length_filter_le [of "\<lambda>e. e \<noteq> 0" "memmap d ! memx"] bank_reprD(4) [OF r] by simp
  note k = bank_constants [OF assms(1)]
  have "unat (of_nat u :: u32) = u"
    using u k(4) take_bit_nat_eq_self [of u 32] by (simp add: unsigned_of_nat)
  then have "unat (of_nat u * 1000 :: u32) = u * 1000"
    using u k(4) by (simp add: unat_mult32)
  then have d: "unat ((of_nat u * 1000 :: u32) div (memtblsize ! memx)) = u * 1000 div ?n"
    by (simp add: unat_div)
  have "u * 1000 div ?n \<le> ?n * 1000 div ?n"
    using u by (intro div_le_mono mult_le_mono1)
  then have le: "u * 1000 div ?n \<le> 1000"
    using k(3) by simp
  then have "unat (my_mem_perused memx d) = u * 1000 div ?n"
    unfolding my_mem_perused_def c using d by (subst unat_ucast32_16) simp_all
  then show ?thesis
    using le by (simp flip: u_def)
qed

text \<open>
  \<open>myrealloc\<close> moves an allocation: if it does not refuse (then nothing changes), the
  new allocation takes the place of the old one among those held, is apart from the others, and its first bytes, as many as both sizes
  have, are those of the old one.
\<close>

theorem myrealloc_moves:
  assumes "memx < SRAMBANK"
    and "heap_reach (my_mem_malloc memx) (my_mem_free memx) (mallco_dev bases m) d A"
    and "(off, s) \<in> A" "bases ! memx \<noteq> 0" "unat (bases ! memx) + unat (memsize ! memx) \<le> 4294967296"
  shows "\<exists>p d'. myrealloc memx (bases ! memx + off) sz d = Some (p, d') \<and>
    (if p = 0 then d' = d
     else (\<exists>off2. p = bases ! memx + off2 \<and> bank_repr memx (insert (off2, sz) A - {(off, s)}) d' \<and>
       (\<forall>i < min (unat s) (unat sz). mdata d' (p + of_nat i) = mdata d (bases ! memx + off + of_nat i))))"
proof -
  have r: "bank_repr memx A d"
    by (rule allocator.reach_repr [OF bank_allocator [OF refl] assms(2) mallco_dev_repr [OF assms(1)]])
  have b: "membase d = bases"
    using assms(2) by (rule heap_reach_base)
  show ?thesis
    by (rule myrealloc_repr [OF r assms(3), unfolded b, OF assms(4,5)])
qed

section \<open>A concrete run\<close>

lemma heap_example:
  "\<exists>d off. heap_reach (my_mem_malloc 2) (my_mem_free 2) (mallco_dev [0x20000000, 0xC01F4000, 0x10000000] (\<lambda>_. 0)) d
     {(off, 100)}"
proof -
  let ?d0 = "mallco_dev [0x20000000, 0xC01F4000, 0x10000000] (\<lambda>_. 0)"
  have r: "bank_repr 2 {} ?d0"
    by (rule mallco_dev_repr) simp
  have "\<exists>b. 64 * (b + blocks_of 100) \<le> unat (memsize ! 2)"
    by (rule exI [of _ 0]) (simp add: blocks_of_def memsize_def)
  then have "\<not> (\<exists>d'. my_mem_malloc 2 100 ?d0 = Some (0xFFFFFFFF, d'))"
    unfolding malloc_refused_iff [OF r] by simp
  moreover obtain off d' where "my_mem_malloc 2 100 ?d0 = Some (off, d')"
    using my_mem_malloc_returns [OF r, of 100] by auto
  ultimately have "heap_reach (my_mem_malloc 2) (my_mem_free 2) ?d0 d' (insert (off, 100) {})"
    by (intro heap_reach.got [OF heap_reach.start]) auto
  then show ?thesis by blast
qed

theorem heap_blocks_disjoint_witness:
  "\<exists>d off. heap_reach (my_mem_malloc 2) (my_mem_free 2)
       (mallco_dev [0x20000000, 0xC01F4000, 0x10000000] (\<lambda>_. 0)) d {(off, 100)} \<and> unat off + 100 \<le> 1024"
proof -
  obtain d off where h: "heap_reach (my_mem_malloc 2) (my_mem_free 2)
      (mallco_dev [0x20000000, 0xC01F4000, 0x10000000] (\<lambda>_. 0)) d {(off, 100)}"
    using heap_example by blast
  show ?thesis
    using heap_blocks_disjoint [OF _ h] h by (auto simp: memsize_def)
qed

theorem malloc_refuses_iff_full_witness:
  "\<exists>d. heap_reach (my_mem_malloc 2) (my_mem_free 2)
       (mallco_dev [0x20000000, 0xC01F4000, 0x10000000] (\<lambda>_. 0)) d {} \<and>
     (\<exists>d'. my_mem_malloc 2 0x1000 d = Some (0xFFFFFFFF, d'))"
  using malloc_refuses_iff_full [where memx = 2 and sz = "0x1000", OF _ heap_reach.start]
  by (intro exI [of _ "mallco_dev [0x20000000, 0xC01F4000, 0x10000000] (\<lambda>_. 0)"])
    (simp add: memsize_def blocks_of_def heap_reach.start)

theorem malloc_free_roundtrip_witness:
  "\<exists>d p d'. mymalloc 2 10 d = Some (p, d') \<and> p \<noteq> 0 \<and> memrdy d ! 2 \<noteq> 0 \<and> myfree 2 p d' = Some d"
proof -
  obtain d off where h: "heap_reach (my_mem_malloc 2) (my_mem_free 2)
      (mallco_dev [0x20000000, 0xC01F4000, 0x10000000] (\<lambda>_. 0)) d {(off, 100)}"
    using heap_example by blast
  have r: "bank_repr 2 {(off, 100)} d"
    by (rule sram_ccm.reach_repr [OF h mallco_dev_repr]) simp
  have b: "membase d = [0x20000000, 0xC01F4000, 0x10000000]"
    using h by (rule heap_reach_base)
  note in2 = bank_repr_span(2,3) [OF r, of off 100]
  have room: "64 * ((if unat off div 64 < 2 then 4 else 0) + blocks_of 10) \<le> unat (memsize ! 2)"
    by (simp add: memsize_def blocks_of_def)
  have "\<not> (\<exists>d'. my_mem_malloc 2 10 d = Some (0xFFFFFFFF, d'))"
    unfolding malloc_refused_iff [OF r] using room
    by (auto simp: blocks_of_def memsize_def split: if_splits intro!: exI [of _ "if unat off div 64 < 2 then 4 else 0"])
  moreover obtain o2 d' where a: "my_mem_malloc 2 10 d = Some (o2, d')"
    using my_mem_malloc_returns [OF r, of 10] by auto
  ultimately have ne: "o2 \<noteq> 0xFFFFFFFF" by auto
  have b': "membase d' = membase d"
    by (rule my_mem_malloc_frame(1) [OF a])
  have o2: "unat o2 + 10 \<le> 1024"
    using bank_repr_inside(2) [OF my_mem_malloc_repr(2) [OF r a ne], of o2 10] by (simp add: memsize_def)
  have p: "mymalloc 2 10 d = Some (0x10000000 + o2, d')"
    using a ne b b' by (simp add: mymalloc_def)
  have "unat (0x10000000 + o2) = 0x10000000 + unat o2"
    using o2 by (simp add: unat_add32)
  then have "0x10000000 + o2 \<noteq> 0"
    by force
  then show ?thesis
    using malloc_free_roundtrip [OF _ h p] p bank_reprD(9) [OF r, of off 100] by auto
qed

theorem mem_perused_value_witness:
  "\<exists>d off. heap_reach (my_mem_malloc 2) (my_mem_free 2)
       (mallco_dev [0x20000000, 0xC01F4000, 0x10000000] (\<lambda>_. 0)) d {(off, 100)} \<and>
     unat (my_mem_perused 2 d) = 125"
proof -
  obtain d off where h: "heap_reach (my_mem_malloc 2) (my_mem_free 2)
      (mallco_dev [0x20000000, 0xC01F4000, 0x10000000] (\<lambda>_. 0)) d {(off, 100)}"
    using heap_example by blast
  show ?thesis
    using mem_perused_value [OF _ h] h by (auto simp: memtblsize_def blocks_of_def)
qed

theorem myrealloc_moves_witness:
  "\<exists>d off p d'. heap_reach (my_mem_malloc 2) (my_mem_free 2)
       (mallco_dev [0x20000000, 0xC01F4000, 0x10000000] (\<lambda>_. 0)) d {(off, 100)} \<and>
     myrealloc 2 (0x10000000 + off) 200 d = Some (p, d')"
proof -
  obtain d off where h: "heap_reach (my_mem_malloc 2) (my_mem_free 2)
      (mallco_dev [0x20000000, 0xC01F4000, 0x10000000] (\<lambda>_. 0)) d {(off, 100)}"
    using heap_example by blast
  then show ?thesis
    using myrealloc_moves [OF _ h, of off 100 200] by (auto simp: memsize_def)
qed

end
