(* ===== verification/HalTim.thy ===== *)
theory HalTim
  imports Prelude
begin

text \<open>
  The time base part of stm32f4xx_hal_tim.c: the functions behind the system tick (USER/main.c,
  HARDWARE/TIMER/timer.c) and the scan timer of the shell.

  A handle is a global variable, so a pointer to one is its name, \<open>tim_var\<close>. The registers are separate
  from the handles, by the address of the timer, because the code also accesses them directly. Both
  are part of the state \<open>tim_state\<close>, which the state of a client extends.
\<close>

section \<open>Registers\<close>

record TIM_TypeDef =
  T_CR1 :: u32
  T_DIER :: u32
  T_SR :: u32
  T_CCMR1 :: u32
  T_CCMR2 :: u32
  T_CCER :: u32
  T_CNT :: u32
  T_PSC :: u32
  T_ARR :: u32
  T_RCR :: u32
  T_clocks :: u32
  T_PSC_active :: u32

text \<open>The last two are no registers: the clocks since the counter last changed, and the prescaler in effect,
  which an update event loads from \<open>T_PSC\<close>.\<close>

abbreviation TIM1 :: u32 where "TIM1 \<equiv> 0x40010000"
abbreviation TIM2 :: u32 where "TIM2 \<equiv> 0x40000000"
abbreviation TIM3 :: u32 where "TIM3 \<equiv> 0x40000400"
abbreviation TIM4 :: u32 where "TIM4 \<equiv> 0x40000800"
abbreviation TIM5 :: u32 where "TIM5 \<equiv> 0x40000C00"
abbreviation TIM6 :: u32 where "TIM6 \<equiv> 0x40001000"
abbreviation TIM7 :: u32 where "TIM7 \<equiv> 0x40001400"
abbreviation TIM8 :: u32 where "TIM8 \<equiv> 0x40010400"
abbreviation TIM9 :: u32 where "TIM9 \<equiv> 0x40014000"
abbreviation TIM10 :: u32 where "TIM10 \<equiv> 0x40014400"
abbreviation TIM11 :: u32 where "TIM11 \<equiv> 0x40014800"
abbreviation TIM12 :: u32 where "TIM12 \<equiv> 0x40001800"
abbreviation TIM13 :: u32 where "TIM13 \<equiv> 0x40001C00"
abbreviation TIM14 :: u32 where "TIM14 \<equiv> 0x40002000"

abbreviation TIM_CR1_CEN :: u32 where "TIM_CR1_CEN \<equiv> 0x1"
abbreviation TIM_CR1_UDIS :: u32 where "TIM_CR1_UDIS \<equiv> 0x2"
abbreviation TIM_CR1_URS :: u32 where "TIM_CR1_URS \<equiv> 0x4"
abbreviation TIM_CR1_DIR :: u32 where "TIM_CR1_DIR \<equiv> 0x10"
abbreviation TIM_CR1_CMS :: u32 where "TIM_CR1_CMS \<equiv> 0x60"
abbreviation TIM_CR1_CKD :: u32 where "TIM_CR1_CKD \<equiv> 0x300"
abbreviation TIM_CCER_CCxE_MASK :: u32 where "TIM_CCER_CCxE_MASK \<equiv> 0x1111"
abbreviation TIM_CCER_CCxNE_MASK :: u32 where "TIM_CCER_CCxNE_MASK \<equiv> 0x444"

text \<open>The interrupt enable bits of \<open>DIER\<close> and the flags of \<open>SR\<close> have the same positions.\<close>

abbreviation TIM_IT_UPDATE :: u32 where "TIM_IT_UPDATE \<equiv> 0x1"
abbreviation TIM_IT_CC1 :: u32 where "TIM_IT_CC1 \<equiv> 0x2"
abbreviation TIM_IT_CC2 :: u32 where "TIM_IT_CC2 \<equiv> 0x4"
abbreviation TIM_IT_CC3 :: u32 where "TIM_IT_CC3 \<equiv> 0x8"
abbreviation TIM_IT_CC4 :: u32 where "TIM_IT_CC4 \<equiv> 0x10"
abbreviation TIM_IT_COM :: u32 where "TIM_IT_COM \<equiv> 0x20"
abbreviation TIM_IT_TRIGGER :: u32 where "TIM_IT_TRIGGER \<equiv> 0x40"
abbreviation TIM_IT_BREAK :: u32 where "TIM_IT_BREAK \<equiv> 0x80"

definition IS_TIM_CC1_INSTANCE :: "u32 \<Rightarrow> bool" where
  "IS_TIM_CC1_INSTANCE i \<longleftrightarrow>
     i \<in> set [TIM1, TIM2, TIM3, TIM4, TIM5, TIM8, TIM9, TIM10, TIM11, TIM12, TIM13, TIM14]"

definition IS_TIM_CC3_INSTANCE :: "u32 \<Rightarrow> bool" where
  "IS_TIM_CC3_INSTANCE i \<longleftrightarrow> i \<in> set [TIM1, TIM2, TIM3, TIM4, TIM5, TIM8]"

definition IS_TIM_ADVANCED_INSTANCE :: "u32 \<Rightarrow> bool" where
  "IS_TIM_ADVANCED_INSTANCE i \<longleftrightarrow> i \<in> set [TIM1, TIM8]"

section \<open>Handles\<close>

datatype HAL_TIM_StateTypeDef =
  HAL_TIM_STATE_RESET | HAL_TIM_STATE_READY | HAL_TIM_STATE_BUSY | HAL_TIM_STATE_TIMEOUT | HAL_TIM_STATE_ERROR

datatype HAL_TIM_ActiveChannel =
  HAL_TIM_ACTIVE_CHANNEL_1 | HAL_TIM_ACTIVE_CHANNEL_2 | HAL_TIM_ACTIVE_CHANNEL_3 | HAL_TIM_ACTIVE_CHANNEL_4
  | HAL_TIM_ACTIVE_CHANNEL_CLEARED

record TIM_Base_InitTypeDef =
  Prescaler :: u32
  CounterMode :: u32
  Period :: u32
  ClockDivision :: u32
  RepetitionCounter :: u32

record TIM_HandleTypeDef =
  TInstance :: u32
  TInit :: TIM_Base_InitTypeDef
  TChannel :: HAL_TIM_ActiveChannel
  TLock :: HAL_LockTypeDef
  TState :: HAL_TIM_StateTypeDef

datatype tim_var = TIM3_Handler | TIM4_Handler | TIM6_Handler | TIM7_Handler

record tim_state =
  tim_regs :: "u32 \<Rightarrow> TIM_TypeDef"
  htims :: "tim_var \<Rightarrow> TIM_HandleTypeDef"

definition upd_htim :: "tim_var \<Rightarrow> (TIM_HandleTypeDef \<Rightarrow> TIM_HandleTypeDef) \<Rightarrow> 'a tim_state_scheme
    \<Rightarrow> 'a tim_state_scheme" where
  "upd_htim htim f s = s\<lparr>htims := (htims s)(htim := f (htims s htim))\<rparr>"

definition upd_tim :: "u32 \<Rightarrow> (TIM_TypeDef \<Rightarrow> TIM_TypeDef) \<Rightarrow> 'a tim_state_scheme \<Rightarrow> 'a tim_state_scheme" where
  "upd_tim i f s = s\<lparr>tim_regs := (tim_regs s)(i := f (tim_regs s i))\<rparr>"

text \<open>The registers behind a handle.\<close>

definition htim_regs :: "tim_var \<Rightarrow> 'a tim_state_scheme \<Rightarrow> TIM_TypeDef" where
  "htim_regs htim s = tim_regs s (TInstance (htims s htim))"

definition upd_htim_regs :: "tim_var \<Rightarrow> (TIM_TypeDef \<Rightarrow> TIM_TypeDef) \<Rightarrow> 'a tim_state_scheme
    \<Rightarrow> 'a tim_state_scheme" where
  "upd_htim_regs htim f s = upd_tim (TInstance (htims s htim)) f s"

section \<open>The macros\<close>

definition HAL_TIM_ENABLE :: "TIM_TypeDef \<Rightarrow> TIM_TypeDef" where
  "HAL_TIM_ENABLE r = r\<lparr>T_CR1 := T_CR1 r OR TIM_CR1_CEN\<rparr>"

definition HAL_TIM_DISABLE :: "TIM_TypeDef \<Rightarrow> TIM_TypeDef" where
  "HAL_TIM_DISABLE r =
     (if T_CCER r AND TIM_CCER_CCxE_MASK = 0 then
        (if T_CCER r AND TIM_CCER_CCxNE_MASK = 0 then r\<lparr>T_CR1 := T_CR1 r AND NOT TIM_CR1_CEN\<rparr> else r)
      else r)"

definition HAL_TIM_ENABLE_IT :: "u32 \<Rightarrow> TIM_TypeDef \<Rightarrow> TIM_TypeDef" where
  "HAL_TIM_ENABLE_IT it r = r\<lparr>T_DIER := T_DIER r OR it\<rparr>"

definition HAL_TIM_DISABLE_IT :: "u32 \<Rightarrow> TIM_TypeDef \<Rightarrow> TIM_TypeDef" where
  "HAL_TIM_DISABLE_IT it r = r\<lparr>T_DIER := T_DIER r AND NOT it\<rparr>"

definition HAL_TIM_GET_FLAG :: "TIM_TypeDef \<Rightarrow> u32 \<Rightarrow> bool" where
  "HAL_TIM_GET_FLAG r flag \<longleftrightarrow> T_SR r AND flag = flag"

definition HAL_TIM_GET_IT_SOURCE :: "TIM_TypeDef \<Rightarrow> u32 \<Rightarrow> bool" where
  "HAL_TIM_GET_IT_SOURCE r it \<longleftrightarrow> T_DIER r AND it = it"

text \<open>A bit of \<open>SR\<close> is cleared by writing 0; writing 1 leaves it.\<close>

definition write_T_SR :: "u32 \<Rightarrow> TIM_TypeDef \<Rightarrow> TIM_TypeDef" where
  "write_T_SR v r = r\<lparr>T_SR := T_SR r AND v\<rparr>"

definition HAL_TIM_CLEAR_IT :: "u32 \<Rightarrow> TIM_TypeDef \<Rightarrow> TIM_TypeDef" where
  "HAL_TIM_CLEAR_IT it r = write_T_SR (NOT it) r"

definition HAL_TIM_SET_AUTORELOAD :: "tim_var \<Rightarrow> u32 \<Rightarrow> 'a tim_state_scheme \<Rightarrow> 'a tim_state_scheme" where
  "HAL_TIM_SET_AUTORELOAD htim v s =
     upd_htim htim (\<lambda>h. h\<lparr>TInit := (TInit h)\<lparr>Period := v\<rparr>\<rparr>) (upd_htim_regs htim (\<lambda>r. r\<lparr>T_ARR := v\<rparr>) s)"

text \<open>Writing \<open>UG\<close>: the counter restarts, the prescaler is loaded, and the update flag is set unless
  the control register says otherwise.\<close>

definition update_event :: "TIM_TypeDef \<Rightarrow> TIM_TypeDef" where
  "update_event r =
     (let r = r\<lparr>T_CNT := 0, T_clocks := 0\<rparr>
      in if T_CR1 r AND TIM_CR1_UDIS \<noteq> 0 then r
         else (let r = r\<lparr>T_PSC_active := T_PSC r\<rparr>
               in if T_CR1 r AND TIM_CR1_URS \<noteq> 0 then r else r\<lparr>T_SR := T_SR r OR TIM_IT_UPDATE\<rparr>))"

section \<open>Initialisation\<close>

definition TIM_Base_SetConfig :: "u32 \<Rightarrow> TIM_Base_InitTypeDef \<Rightarrow> TIM_TypeDef \<Rightarrow> TIM_TypeDef" where
  "TIM_Base_SetConfig i Structure r =
     (let tmpcr1 = T_CR1 r;
          tmpcr1 = (if IS_TIM_CC3_INSTANCE i
                    then (tmpcr1 AND NOT (TIM_CR1_DIR OR TIM_CR1_CMS)) OR CounterMode Structure else tmpcr1);
          tmpcr1 = (if IS_TIM_CC1_INSTANCE i
                    then (tmpcr1 AND NOT TIM_CR1_CKD) OR ClockDivision Structure else tmpcr1);
          r = r\<lparr>T_CR1 := tmpcr1\<rparr>;
          r = r\<lparr>T_ARR := Period Structure\<rparr>;
          r = r\<lparr>T_PSC := Prescaler Structure\<rparr>;
          r = (if IS_TIM_ADVANCED_INSTANCE i then r\<lparr>T_RCR := RepetitionCounter Structure\<rparr> else r)
      in update_event r)"

text \<open>\<open>msp\<close> is the board's \<open>HAL_TIM_Base_MspInit\<close>.\<close>

definition HAL_TIM_Base_Init :: "(tim_var \<Rightarrow> 'a tim_state_scheme \<Rightarrow> 'a tim_state_scheme) \<Rightarrow> tim_var
    \<Rightarrow> 'a tim_state_scheme \<Rightarrow> HAL_StatusTypeDef \<times> 'a tim_state_scheme" where
  "HAL_TIM_Base_Init msp htim s =
     (let s = (if TState (htims s htim) = HAL_TIM_STATE_RESET
               then msp htim (upd_htim htim (\<lambda>h. h\<lparr>TLock := HAL_UNLOCKED\<rparr>) s) else s);
          s = upd_htim htim (\<lambda>h. h\<lparr>TState := HAL_TIM_STATE_BUSY\<rparr>) s;
          s = upd_htim_regs htim (TIM_Base_SetConfig (TInstance (htims s htim)) (TInit (htims s htim))) s;
          s = upd_htim htim (\<lambda>h. h\<lparr>TState := HAL_TIM_STATE_READY\<rparr>) s
      in (HAL_OK, s))"

definition HAL_TIM_Base_DeInit :: "(tim_var \<Rightarrow> 'a tim_state_scheme \<Rightarrow> 'a tim_state_scheme) \<Rightarrow> tim_var
    \<Rightarrow> 'a tim_state_scheme \<Rightarrow> HAL_StatusTypeDef \<times> 'a tim_state_scheme" where
  "HAL_TIM_Base_DeInit msp_deinit htim s =
     (let s = upd_htim htim (\<lambda>h. h\<lparr>TState := HAL_TIM_STATE_BUSY\<rparr>) s;
          s = upd_htim_regs htim HAL_TIM_DISABLE s;
          s = msp_deinit htim s;
          s = upd_htim htim (\<lambda>h. h\<lparr>TState := HAL_TIM_STATE_RESET\<rparr>) s;
          s = upd_htim htim (\<lambda>h. h\<lparr>TLock := HAL_UNLOCKED\<rparr>) s
      in (HAL_OK, s))"

section \<open>Start and stop\<close>

definition HAL_TIM_Base_Start :: "tim_var \<Rightarrow> 'a tim_state_scheme \<Rightarrow> HAL_StatusTypeDef \<times> 'a tim_state_scheme" where
  "HAL_TIM_Base_Start htim s =
     (let s = upd_htim htim (\<lambda>h. h\<lparr>TState := HAL_TIM_STATE_BUSY\<rparr>) s;
          s = upd_htim_regs htim HAL_TIM_ENABLE s;
          s = upd_htim htim (\<lambda>h. h\<lparr>TState := HAL_TIM_STATE_READY\<rparr>) s
      in (HAL_OK, s))"

definition HAL_TIM_Base_Stop :: "tim_var \<Rightarrow> 'a tim_state_scheme \<Rightarrow> HAL_StatusTypeDef \<times> 'a tim_state_scheme" where
  "HAL_TIM_Base_Stop htim s =
     (let s = upd_htim htim (\<lambda>h. h\<lparr>TState := HAL_TIM_STATE_BUSY\<rparr>) s;
          s = upd_htim_regs htim HAL_TIM_DISABLE s;
          s = upd_htim htim (\<lambda>h. h\<lparr>TState := HAL_TIM_STATE_READY\<rparr>) s
      in (HAL_OK, s))"

definition HAL_TIM_Base_Start_IT :: "tim_var \<Rightarrow> 'a tim_state_scheme \<Rightarrow> HAL_StatusTypeDef \<times> 'a tim_state_scheme" where
  "HAL_TIM_Base_Start_IT htim s =
     (let s = upd_htim_regs htim (HAL_TIM_ENABLE_IT TIM_IT_UPDATE) s;
          s = upd_htim_regs htim HAL_TIM_ENABLE s
      in (HAL_OK, s))"

definition HAL_TIM_Base_Stop_IT :: "tim_var \<Rightarrow> 'a tim_state_scheme \<Rightarrow> HAL_StatusTypeDef \<times> 'a tim_state_scheme" where
  "HAL_TIM_Base_Stop_IT htim s =
     (let s = upd_htim_regs htim (HAL_TIM_DISABLE_IT TIM_IT_UPDATE) s;
          s = upd_htim_regs htim HAL_TIM_DISABLE s
      in (HAL_OK, s))"

definition HAL_TIM_Base_GetState :: "tim_var \<Rightarrow> 'a tim_state_scheme \<Rightarrow> HAL_TIM_StateTypeDef" where
  "HAL_TIM_Base_GetState htim s = TState (htims s htim)"

section \<open>The interrupt handler\<close>

text \<open>The callbacks, which the application may define.\<close>

record 's tim_user =
  tu_IC_Capture :: "tim_var \<Rightarrow> 's \<Rightarrow> 's"
  tu_OC_DelayElapsed :: "tim_var \<Rightarrow> 's \<Rightarrow> 's"
  tu_PWM_PulseFinished :: "tim_var \<Rightarrow> 's \<Rightarrow> 's"
  tu_PeriodElapsed :: "tim_var \<Rightarrow> 's \<Rightarrow> 's"
  tu_Break :: "tim_var \<Rightarrow> 's \<Rightarrow> 's"
  tu_Trigger :: "tim_var \<Rightarrow> 's \<Rightarrow> 's"
  tu_Commutation :: "tim_var \<Rightarrow> 's \<Rightarrow> 's"

text \<open>Their weak definitions do nothing.\<close>

definition weak_tim_user :: "'s tim_user" where
  "weak_tim_user = \<lparr>tu_IC_Capture = (\<lambda>_ s. s), tu_OC_DelayElapsed = (\<lambda>_ s. s), tu_PWM_PulseFinished = (\<lambda>_ s. s),
     tu_PeriodElapsed = (\<lambda>_ s. s), tu_Break = (\<lambda>_ s. s), tu_Trigger = (\<lambda>_ s. s), tu_Commutation = (\<lambda>_ s. s)\<rparr>"

definition tim_flag_on :: "tim_var \<Rightarrow> u32 \<Rightarrow> 'a tim_state_scheme \<Rightarrow> bool" where
  "tim_flag_on htim it s \<longleftrightarrow> HAL_TIM_GET_FLAG (htim_regs htim s) it \<and> HAL_TIM_GET_IT_SOURCE (htim_regs htim s) it"

text \<open>One capture/compare channel: its flag, its number, and the selection bits that are 0 for an output.\<close>

definition tim_irq_cc :: "'a tim_state_scheme tim_user \<Rightarrow> u32 \<Rightarrow> HAL_TIM_ActiveChannel \<Rightarrow> (TIM_TypeDef \<Rightarrow> u32)
    \<Rightarrow> u32 \<Rightarrow> tim_var \<Rightarrow> 'a tim_state_scheme \<Rightarrow> 'a tim_state_scheme" where
  "tim_irq_cc user it ch ccmr sel htim s =
     (if tim_flag_on htim it s then
        (let s = upd_htim_regs htim (HAL_TIM_CLEAR_IT it) s;
             s = upd_htim htim (\<lambda>h. h\<lparr>TChannel := ch\<rparr>) s;
             s = (if ccmr (htim_regs htim s) AND sel \<noteq> 0 then tu_IC_Capture user htim s
                  else tu_PWM_PulseFinished user htim (tu_OC_DelayElapsed user htim s))
         in upd_htim htim (\<lambda>h. h\<lparr>TChannel := HAL_TIM_ACTIVE_CHANNEL_CLEARED\<rparr>) s)
      else s)"

definition tim_irq_event :: "u32 \<Rightarrow> (tim_var \<Rightarrow> 'a tim_state_scheme \<Rightarrow> 'a tim_state_scheme) \<Rightarrow> tim_var
    \<Rightarrow> 'a tim_state_scheme \<Rightarrow> 'a tim_state_scheme" where
  "tim_irq_event it cb htim s =
     (if tim_flag_on htim it s then cb htim (upd_htim_regs htim (HAL_TIM_CLEAR_IT it) s) else s)"

definition HAL_TIM_IRQHandler :: "'a tim_state_scheme tim_user \<Rightarrow> tim_var \<Rightarrow> 'a tim_state_scheme
    \<Rightarrow> 'a tim_state_scheme" where
  "HAL_TIM_IRQHandler user htim s =
     (let s = tim_irq_cc user TIM_IT_CC1 HAL_TIM_ACTIVE_CHANNEL_1 T_CCMR1 0x3 htim s;
          s = tim_irq_cc user TIM_IT_CC2 HAL_TIM_ACTIVE_CHANNEL_2 T_CCMR1 0x300 htim s;
          s = tim_irq_cc user TIM_IT_CC3 HAL_TIM_ACTIVE_CHANNEL_3 T_CCMR2 0x3 htim s;
          s = tim_irq_cc user TIM_IT_CC4 HAL_TIM_ACTIVE_CHANNEL_4 T_CCMR2 0x300 htim s;
          s = tim_irq_event TIM_IT_UPDATE (tu_PeriodElapsed user) htim s;
          s = tim_irq_event TIM_IT_BREAK (tu_Break user) htim s;
          s = tim_irq_event TIM_IT_TRIGGER (tu_Trigger user) htim s
      in tim_irq_event TIM_IT_COM (tu_Commutation user) htim s)"

section \<open>The counter\<close>

text \<open>One clock of a timer that counts upwards.\<close>

definition tim_clock :: "TIM_TypeDef \<Rightarrow> TIM_TypeDef" where
  "tim_clock r =
     (if T_CR1 r AND TIM_CR1_CEN = 0 then r
      else if T_clocks r < T_PSC_active r then r\<lparr>T_clocks := T_clocks r + 1\<rparr>
      else if T_CNT r \<noteq> T_ARR r then r\<lparr>T_clocks := 0, T_CNT := T_CNT r + 1\<rparr>
      else (let r = r\<lparr>T_clocks := 0, T_CNT := 0\<rparr>
            in if T_CR1 r AND TIM_CR1_UDIS \<noteq> 0 then r
               else r\<lparr>T_PSC_active := T_PSC r, T_SR := T_SR r OR TIM_IT_UPDATE\<rparr>))"

section \<open>Access\<close>

lemma htim_regs_upd [simp]: "htim_regs h (upd_htim_regs h f s) = f (htim_regs h s)"
  by (simp add: htim_regs_def upd_htim_regs_def upd_tim_def)

lemma htims_upd_htim_regs [simp]: "htims (upd_htim_regs h f s) = htims s"
  by (simp add: upd_htim_regs_def upd_tim_def)

lemma upd_htim_regs_comp: "upd_htim_regs h f (upd_htim_regs h g s) = upd_htim_regs h (f \<circ> g) s"
  by (simp add: upd_htim_regs_def upd_tim_def)

lemma tim_irq_event_off [simp]: "\<not> tim_flag_on h it s \<Longrightarrow> tim_irq_event it cb h s = s"
  by (simp add: tim_irq_event_def)

lemma tim_irq_cc_off [simp]: "\<not> tim_flag_on h it s \<Longrightarrow> tim_irq_cc user it ch ccmr sel h s = s"
  by (simp add: tim_irq_cc_def)

text \<open>A timer of which only the update interrupt is enabled.\<close>

definition update_only :: "TIM_TypeDef \<Rightarrow> bool" where
  "update_only r \<longleftrightarrow> T_DIER r = TIM_IT_UPDATE"

lemma flag_on_update_only:
  "update_only (htim_regs h s) \<Longrightarrow> it \<in> {2, 4, 8, 0x10, 0x20, 0x40, 0x80} \<Longrightarrow> \<not> tim_flag_on h it s"
  by (auto simp: tim_flag_on_def HAL_TIM_GET_IT_SOURCE_def update_only_def)

text \<open>The callback may change the rest of the state, but neither the timers nor their handles.\<close>

definition keeps_timers :: "(tim_var \<Rightarrow> 'a tim_state_scheme \<Rightarrow> 'a tim_state_scheme) \<Rightarrow> bool" where
  "keeps_timers cb \<longleftrightarrow> (\<forall>h s. tim_regs (cb h s) = tim_regs s \<and> htims (cb h s) = htims s)"

lemma keeps_htim_regs: "keeps_timers cb \<Longrightarrow> htim_regs h (cb k s) = htim_regs h s"
  by (simp add: keeps_timers_def htim_regs_def)

lemma tim_irq_update:
  assumes "update_only (htim_regs h s)" "keeps_timers (tu_PeriodElapsed user)"
  shows "HAL_TIM_IRQHandler user h s =
    (if HAL_TIM_GET_FLAG (htim_regs h s) TIM_IT_UPDATE
     then tu_PeriodElapsed user h (upd_htim_regs h (HAL_TIM_CLEAR_IT TIM_IT_UPDATE) s) else s)"
proof -
  let ?s = "tim_irq_event TIM_IT_UPDATE (tu_PeriodElapsed user) h s"
  have u: "update_only (htim_regs h ?s)"
    using assms(1) by (simp add: tim_irq_event_def keeps_htim_regs [OF assms(2)] update_only_def HAL_TIM_CLEAR_IT_def
        write_T_SR_def)
  have e: "?s = (if HAL_TIM_GET_FLAG (htim_regs h s) TIM_IT_UPDATE
     then tu_PeriodElapsed user h (upd_htim_regs h (HAL_TIM_CLEAR_IT TIM_IT_UPDATE) s) else s)"
    using assms(1) by (simp add: tim_irq_event_def tim_flag_on_def HAL_TIM_GET_IT_SOURCE_def update_only_def)
  show ?thesis
    unfolding HAL_TIM_IRQHandler_def
    by (simp add: flag_on_update_only [OF assms(1)] flag_on_update_only [OF u] e [symmetric])
qed

end
