(* ===== verification/Timer.thy ===== *)
theory Timer
  imports HalTim
begin

text \<open>
  HARDWARE/TIMER/timer.c: the timers of the application. Timer 6 advances the tick of the HAL (\<open>uwTick\<close> of
  stm32f4xx_hal.c) and the clock of lwIP, timer 7 measures run times.
\<close>

section \<open>State\<close>

record timer_state = tim_state +
  uwTick :: u32
  lwip_localtime :: u32
  tick_time_us :: u32
  tim_clock_on :: "u32 \<Rightarrow> bool"
  tim_nvic :: "u32 \<Rightarrow> (nat \<times> nat) option"

text \<open>The last two are what \<open>HAL_TIM_Base_MspInit\<close> sets outside the timers: the clock of a timer, and the priority
  of its interrupt once it is enabled.\<close>

definition HAL_IncTick :: "timer_state \<Rightarrow> timer_state" where
  "HAL_IncTick s = s\<lparr>uwTick := uwTick s + 1\<rparr>"

definition HAL_GetTick :: "timer_state \<Rightarrow> u32" where
  "HAL_GetTick s = uwTick s"

definition sys_now :: "timer_state \<Rightarrow> u32" where
  "sys_now s = lwip_localtime s"

section \<open>Initialisation\<close>

definition msp_tim :: "u32 \<Rightarrow> nat \<times> nat \<Rightarrow> timer_state \<Rightarrow> timer_state" where
  "msp_tim i prio s = s\<lparr>tim_clock_on := (tim_clock_on s)(i := True), tim_nvic := (tim_nvic s)(i := Some prio)\<rparr>"

definition HAL_TIM_Base_MspInit :: "tim_var \<Rightarrow> timer_state \<Rightarrow> timer_state" where
  "HAL_TIM_Base_MspInit htim s =
     (let i = TInstance (htims s htim)
      in if i = TIM3 then msp_tim TIM3 (1, 3) s
         else if i = TIM6 then msp_tim TIM6 (2, 1) s
         else if i = TIM7 then msp_tim TIM7 (2, 1) s
         else s)"

text \<open>\<open>None\<close>: for any other number the pointer to the handle is not initialised.\<close>

fun tim_handle :: "u8 \<Rightarrow> (tim_var \<times> u32) option" where
  "tim_handle num =
     (if num = 3 then Some (TIM3_Handler, TIM3)
      else if num = 6 then Some (TIM6_Handler, TIM6)
      else if num = 7 then Some (TIM7_Handler, TIM7)
      else None)"

definition TIM_Init :: "u8 \<Rightarrow> u16 \<Rightarrow> u16 \<Rightarrow> timer_state \<Rightarrow> timer_state option" where
  "TIM_Init num arr psc s =
     (case tim_handle num of
        None \<Rightarrow> None
      | Some (htim, i) \<Rightarrow>
          (let s = upd_htim htim (\<lambda>h. h\<lparr>TInstance := i\<rparr>) s;
               s = upd_htim htim (\<lambda>h. h\<lparr>TInit := (TInit h)\<lparr>Prescaler := ucast psc\<rparr>\<rparr>) s;
               s = upd_htim htim (\<lambda>h. h\<lparr>TInit := (TInit h)\<lparr>Period := ucast arr\<rparr>\<rparr>) s;
               s = upd_htim htim (\<lambda>h. h\<lparr>TInit := (TInit h)\<lparr>ClockDivision := 0\<rparr>\<rparr>) s;
               s = upd_htim htim (\<lambda>h. h\<lparr>TInit := (TInit h)\<lparr>CounterMode := 0\<rparr>\<rparr>) s
           in Some (snd (HAL_TIM_Base_Init HAL_TIM_Base_MspInit htim s))))"

section \<open>Start and stop\<close>

text \<open>\<open>TIMn->CNT = 0\<close>\<close>

definition reset_CNT :: "u32 \<Rightarrow> timer_state \<Rightarrow> timer_state" where
  "reset_CNT i s = upd_tim i (\<lambda>r. r\<lparr>T_CNT := 0\<rparr>) s"

definition TIM_Base_Start :: "u8 \<Rightarrow> timer_state \<Rightarrow> timer_state" where
  "TIM_Base_Start num s =
     (if num = 3 then snd (HAL_TIM_Base_Start_IT TIM3_Handler (reset_CNT TIM3 s))
      else if num = 6 then snd (HAL_TIM_Base_Start_IT TIM6_Handler (reset_CNT TIM6 s))
      else if num = 7 then snd (HAL_TIM_Base_Start_IT TIM7_Handler (reset_CNT TIM6 s))
      else s)"

definition TIM_Base_Stop :: "u8 \<Rightarrow> timer_state \<Rightarrow> timer_state" where
  "TIM_Base_Stop num s =
     (if num = 3 then snd (HAL_TIM_Base_Stop_IT TIM3_Handler s)
      else if num = 6 then snd (HAL_TIM_Base_Stop_IT TIM6_Handler s)
      else if num = 7 then snd (HAL_TIM_Base_Stop_IT TIM7_Handler s)
      else s)"

definition Start_Tick :: "timer_state \<Rightarrow> timer_state" where
  "Start_Tick s =
     (if TInstance (htims s TIM7_Handler) \<noteq> TIM7 then s
      else TIM_Base_Start 7 (s\<lparr>tick_time_us := 0\<rparr>))"

definition Stop_Tick :: "timer_state \<Rightarrow> u32 \<times> timer_state" where
  "Stop_Tick s =
     (if TInstance (htims s TIM7_Handler) \<noteq> TIM7 then (0, s)
      else (let s = TIM_Base_Stop 7 s in (tick_time_us s + T_CNT (tim_regs s TIM7), s)))"

section \<open>Interrupts\<close>

definition HAL_TIM_PeriodElapsedCallback :: "tim_var \<Rightarrow> timer_state \<Rightarrow> timer_state" where
  "HAL_TIM_PeriodElapsedCallback htim s =
     (let i = TInstance (htims s htim)
      in if i = TIM3 then s
         else if i = TIM6 then (HAL_IncTick s)\<lparr>lwip_localtime := lwip_localtime s + 1\<rparr>
         else if i = TIM7 then s\<lparr>tick_time_us := tick_time_us s + 1000\<rparr>
         else s)"

definition timer_user :: "timer_state tim_user" where
  "timer_user = weak_tim_user\<lparr>tu_PeriodElapsed := HAL_TIM_PeriodElapsedCallback\<rparr>"

definition TIM3_IRQHandler :: "timer_state \<Rightarrow> timer_state" where
  "TIM3_IRQHandler s = HAL_TIM_IRQHandler timer_user TIM3_Handler s"

definition TIM6_DAC_IRQHandler :: "timer_state \<Rightarrow> timer_state" where
  "TIM6_DAC_IRQHandler s = HAL_TIM_IRQHandler timer_user TIM6_Handler s"

definition TIM7_IRQHandler :: "timer_state \<Rightarrow> timer_state" where
  "TIM7_IRQHandler s = HAL_TIM_IRQHandler timer_user TIM7_Handler s"

text \<open>The calls of \<open>main\<close> (USER/main.c).\<close>

definition main_timers :: "timer_state \<Rightarrow> timer_state option" where
  "main_timers s =
     (case TIM_Init 6 1000 84 s of
        None \<Rightarrow> None
      | Some s \<Rightarrow> (case TIM_Init 7 1000 84 s of None \<Rightarrow> None | Some s \<Rightarrow> Some (TIM_Base_Start 6 s)))"

section \<open>The system tick\<close>

text \<open>\<open>n\<close> clocks of timer 6, with its interrupt served before the first and after each.\<close>

fun tick_run :: "nat \<Rightarrow> timer_state \<Rightarrow> timer_state" where
  "tick_run 0 s = TIM6_DAC_IRQHandler s"
| "tick_run (Suc n) s = TIM6_DAC_IRQHandler (upd_tim TIM6 tim_clock (tick_run n s))"

text \<open>After reset the registers are 0 and the handles, which are global, as well.\<close>

definition tim_reset :: "TIM_TypeDef \<Rightarrow> bool" where
  "tim_reset r \<longleftrightarrow> T_CR1 r = 0 \<and> T_DIER r = 0 \<and> T_SR r = 0"

text \<open>Timer 6 counts milliseconds: \<open>k\<close> interrupts so far, the counter at \<open>q\<close>, \<open>c\<close> clocks since its last step.\<close>

definition ticking :: "timer_state \<Rightarrow> nat \<Rightarrow> nat \<Rightarrow> nat \<Rightarrow> timer_state \<Rightarrow> bool" where
  "ticking s0 k q c s \<longleftrightarrow>
     TInstance (htims s TIM6_Handler) = TIM6 \<and> T_CR1 (tim_regs s TIM6) = TIM_CR1_CEN \<and>
     T_DIER (tim_regs s TIM6) = TIM_IT_UPDATE \<and> T_SR (tim_regs s TIM6) = 0 \<and>
     T_PSC (tim_regs s TIM6) = 84 \<and> T_PSC_active (tim_regs s TIM6) = 84 \<and> T_ARR (tim_regs s TIM6) = 1000 \<and>
     T_clocks (tim_regs s TIM6) = of_nat c \<and> T_CNT (tim_regs s TIM6) = of_nat q \<and> c < 85 \<and> q < 1001 \<and>
     uwTick s = uwTick s0 + of_nat k \<and> lwip_localtime s = lwip_localtime s0 + of_nat k"

lemma timer_user_keeps: "keeps_timers (tu_PeriodElapsed timer_user)"
  by (simp add: keeps_timers_def timer_user_def HAL_TIM_PeriodElapsedCallback_def HAL_IncTick_def Let_def)

lemma TIM6_irq:
  assumes "TInstance (htims s TIM6_Handler) = TIM6" "T_DIER (tim_regs s TIM6) = TIM_IT_UPDATE"
  shows "TIM6_DAC_IRQHandler s =
    (if T_SR (tim_regs s TIM6) AND TIM_IT_UPDATE = TIM_IT_UPDATE
     then (upd_tim TIM6 (HAL_TIM_CLEAR_IT TIM_IT_UPDATE) s)\<lparr>uwTick := uwTick s + 1, lwip_localtime := lwip_localtime s + 1\<rparr>
     else s)"
proof -
  have r: "htim_regs TIM6_Handler s = tim_regs s TIM6"
    by (simp add: htim_regs_def assms(1))
  have u: "update_only (htim_regs TIM6_Handler s)"
    by (simp add: r update_only_def assms(2))
  show ?thesis
    unfolding TIM6_DAC_IRQHandler_def tim_irq_update [OF u timer_user_keeps] HAL_TIM_GET_FLAG_def r
    by (simp add: timer_user_def HAL_TIM_PeriodElapsedCallback_def HAL_IncTick_def upd_htim_regs_def upd_tim_def
        assms(1))
qed

lemma ticking_clock:
  assumes t: "ticking s0 k q c s"
  shows "\<exists>k' q' c'. ticking s0 k' q' c' (TIM6_DAC_IRQHandler (upd_tim TIM6 tim_clock s)) \<and>
    85 * (1001 * k' + q') + c' = Suc (85 * (1001 * k + q) + c)"
proof -
  let ?r = "tim_regs s TIM6" and ?s = "upd_tim TIM6 tim_clock s"
  have b: "unat (of_nat c :: u32) = c" "unat (of_nat q :: u32) = q"
    using t by (simp_all add: ticking_def unat_of_nat)
  have i: "TIM6_DAC_IRQHandler ?s = (if T_SR (tim_clock ?r) AND TIM_IT_UPDATE = TIM_IT_UPDATE
     then (upd_tim TIM6 (HAL_TIM_CLEAR_IT TIM_IT_UPDATE) ?s)\<lparr>uwTick := uwTick s + 1, lwip_localtime := lwip_localtime s + 1\<rparr>
     else ?s)"
    using t by (subst TIM6_irq) (auto simp: ticking_def upd_tim_def tim_clock_def Let_def)
  consider (psc) "c < 84" | (cnt) "c = 84" "q < 1000" | (over) "c = 84" "q = 1000"
    using t by (fastforce simp: ticking_def)
  then show ?thesis
  proof cases
    case psc
    then have "(of_nat c :: u32) < 84"
      by (simp add: word_less_nat_alt b(1))
    then have "ticking s0 k q (Suc c) (TIM6_DAC_IRQHandler ?s)"
      unfolding i using t psc by (simp add: ticking_def upd_tim_def tim_clock_def add.commute)
    then show ?thesis by fastforce
  next
    case cnt
    then have "(of_nat q :: u32) \<noteq> 1000"
      using b(2) by auto
    then have "ticking s0 k (Suc q) 0 (TIM6_DAC_IRQHandler ?s)"
      unfolding i using t cnt by (simp add: ticking_def upd_tim_def tim_clock_def add.commute)
    then show ?thesis using cnt by fastforce
  next
    case over
    then have "ticking s0 (Suc k) 0 0 (TIM6_DAC_IRQHandler ?s)"
      unfolding i using t over
      by (simp add: ticking_def upd_tim_def tim_clock_def HAL_TIM_CLEAR_IT_def write_T_SR_def Let_def)
    then show ?thesis using over by fastforce
  qed
qed

text \<open>Initialising a timer leaves the other timers and their handles alone.\<close>

lemma HAL_TIM_Base_Init_other:
  assumes "h \<noteq> htim" "TInstance (htims s htim) = i" "i \<noteq> j"
  shows "htims (snd (HAL_TIM_Base_Init HAL_TIM_Base_MspInit htim s)) h = htims s h"
    "tim_regs (snd (HAL_TIM_Base_Init HAL_TIM_Base_MspInit htim s)) j = tim_regs s j"
    "uwTick (snd (HAL_TIM_Base_Init HAL_TIM_Base_MspInit htim s)) = uwTick s"
    "lwip_localtime (snd (HAL_TIM_Base_Init HAL_TIM_Base_MspInit htim s)) = lwip_localtime s"
proof -
  have m: "htims (HAL_TIM_Base_MspInit htim s) = htims s \<and> tim_regs (HAL_TIM_Base_MspInit htim s) = tim_regs s \<and>
      uwTick (HAL_TIM_Base_MspInit htim s) = uwTick s \<and> lwip_localtime (HAL_TIM_Base_MspInit htim s) = lwip_localtime s" for s
    by (simp add: HAL_TIM_Base_MspInit_def msp_tim_def Let_def)
  note d = HAL_TIM_Base_Init_def Let_def upd_htim_def upd_htim_regs_def upd_tim_def
  show "htims (snd (HAL_TIM_Base_Init HAL_TIM_Base_MspInit htim s)) h = htims s h"
    "tim_regs (snd (HAL_TIM_Base_Init HAL_TIM_Base_MspInit htim s)) j = tim_regs s j"
    "uwTick (snd (HAL_TIM_Base_Init HAL_TIM_Base_MspInit htim s)) = uwTick s"
    "lwip_localtime (snd (HAL_TIM_Base_Init HAL_TIM_Base_MspInit htim s)) = lwip_localtime s"
    using assms by (simp_all add: d m)
qed

lemma TIM_Init_other:
  assumes "tim_handle num = Some (htim, i)" "h \<noteq> htim" "i \<noteq> j"
  shows "\<exists>s'. TIM_Init num arr psc s = Some s' \<and> htims s' h = htims s h \<and> tim_regs s' j = tim_regs s j \<and>
    uwTick s' = uwTick s \<and> lwip_localtime s' = lwip_localtime s"
  unfolding TIM_Init_def assms(1) Let_def using assms(2,3)
  by (simp add: HAL_TIM_Base_Init_other [of h htim _ i j] upd_htim_def del: tim_handle.simps)

lemma main_timers_tick:
  assumes "TState (htims s TIM6_Handler) = HAL_TIM_STATE_RESET" "tim_reset (tim_regs s TIM6)"
  shows "\<exists>s'. main_timers s = Some s' \<and> ticking s 1 0 0 (TIM6_DAC_IRQHandler s')"
proof -
  obtain s1 where s1: "TIM_Init 6 1000 84 s = Some s1" "TInstance (htims s1 TIM6_Handler) = TIM6"
    "tim_regs s1 TIM6 = TIM_Base_SetConfig TIM6 ((TInit (htims s TIM6_Handler))
       \<lparr>Prescaler := 84, Period := 1000, ClockDivision := 0, CounterMode := 0\<rparr>) (tim_regs s TIM6)"
    "uwTick s1 = uwTick s" "lwip_localtime s1 = lwip_localtime s"
    using assms(1) by (simp add: TIM_Init_def HAL_TIM_Base_Init_def Let_def upd_htim_def upd_htim_regs_def upd_tim_def
        HAL_TIM_Base_MspInit_def msp_tim_def)
  obtain s2 where s2: "TIM_Init 7 1000 84 s1 = Some s2" "htims s2 TIM6_Handler = htims s1 TIM6_Handler"
    "tim_regs s2 TIM6 = tim_regs s1 TIM6" "uwTick s2 = uwTick s1" "lwip_localtime s2 = lwip_localtime s1"
    using TIM_Init_other [of 7 TIM7_Handler TIM7 TIM6_Handler TIM6 1000 84 s1] by auto
  let ?s = "TIM_Base_Start 6 s2"
  have r: "tim_regs ?s TIM6 = HAL_TIM_ENABLE (HAL_TIM_ENABLE_IT TIM_IT_UPDATE ((tim_regs s1 TIM6)\<lparr>T_CNT := 0\<rparr>))"
    "htims ?s TIM6_Handler = htims s1 TIM6_Handler" "uwTick ?s = uwTick s" "lwip_localtime ?s = lwip_localtime s"
    using s1(2,4,5) s2(2-5) by (simp_all add: TIM_Base_Start_def HAL_TIM_Base_Start_IT_def reset_CNT_def
        upd_htim_regs_def upd_tim_def)
  have v: "tim_regs ?s TIM6 = (tim_regs s TIM6)\<lparr>T_CR1 := 1, T_DIER := 1, T_SR := 1, T_CNT := 0, T_PSC := 84, T_ARR := 1000,
      T_clocks := 0, T_PSC_active := 84\<rparr>"
    unfolding r(1) s1(3) using assms(2)
    by (simp add: TIM_Base_SetConfig_def IS_TIM_CC1_INSTANCE_def IS_TIM_CC3_INSTANCE_def IS_TIM_ADVANCED_INSTANCE_def
        update_event_def HAL_TIM_ENABLE_def HAL_TIM_ENABLE_IT_def tim_reset_def)
  have i: "TIM6_DAC_IRQHandler ?s =
      (upd_tim TIM6 (HAL_TIM_CLEAR_IT TIM_IT_UPDATE) ?s)\<lparr>uwTick := uwTick s + 1, lwip_localtime := lwip_localtime s + 1\<rparr>"
    by (subst TIM6_irq) (simp_all add: r(2-4) v s1(2))
  have "ticking s 1 0 0 (TIM6_DAC_IRQHandler ?s)"
    unfolding i ticking_def by (simp add: upd_tim_def v r(2) s1(2) HAL_TIM_CLEAR_IT_def write_T_SR_def)
  then show ?thesis
    using s1(1) s2(1) by (simp add: main_timers_def)
qed

text \<open>
  C13. The system tick: after the calls of \<open>main\<close>, \<open>n\<close> clocks of timer 6 advance the tick of the HAL and the clock
  of lwIP by one at the start and then by one every 85085 clocks (85 times 1001: prescaler and period are
  both one more than the values given). At the timer's clock of 84 MHz a millisecond is 84000
  clocks.
\<close>

theorem system_tick:
  assumes "TState (htims s TIM6_Handler) = HAL_TIM_STATE_RESET" "tim_reset (tim_regs s TIM6)"
  shows "\<exists>s'. main_timers s = Some s' \<and>
    uwTick (tick_run n s') = uwTick s + of_nat (1 + n div 85085) \<and>
    lwip_localtime (tick_run n s') = lwip_localtime s + of_nat (1 + n div 85085)"
proof -
  obtain s' where s': "main_timers s = Some s'" "ticking s 1 0 0 (TIM6_DAC_IRQHandler s')"
    using main_timers_tick [OF assms] by blast
  have "\<exists>k q c. ticking s k q c (tick_run n s') \<and> 85 * (1001 * k + q) + c = 85085 + n"
  proof (induction n)
    case 0
    then show ?case
      using s'(2) by force
  next
    case (Suc n)
    then show ?case
      using ticking_clock by (metis add_Suc_right tick_run.simps(2))
  qed
  then obtain k q c where t: "ticking s k q c (tick_run n s')" "85 * (1001 * k + q) + c = 85085 + n"
    by blast
  then have "q < 1001" "c < 85"
    by (simp_all add: ticking_def)
  then have "k = (85085 + n) div 85085"
    unfolding t(2) [symmetric] by (intro sym [OF div_nat_eqI]) simp_all
  then have "k = 1 + n div 85085"
    by simp
  then show ?thesis
    using s'(1) t(1) by (simp add: ticking_def)
qed

definition timers_example :: timer_state where
  "timers_example = \<lparr>
     tim_regs = (\<lambda>_. \<lparr>T_CR1 = 0, T_DIER = 0, T_SR = 0, T_CCMR1 = 0, T_CCMR2 = 0, T_CCER = 0, T_CNT = 0, T_PSC = 0,
       T_ARR = 0xFFFF, T_RCR = 0, T_clocks = 0, T_PSC_active = 0\<rparr>),
     htims = (\<lambda>_. \<lparr>TInstance = 0,
       TInit = \<lparr>Prescaler = 0, CounterMode = 0, Period = 0, ClockDivision = 0, RepetitionCounter = 0\<rparr>,
       TChannel = HAL_TIM_ACTIVE_CHANNEL_CLEARED, TLock = HAL_UNLOCKED, TState = HAL_TIM_STATE_RESET\<rparr>),
     uwTick = 5, lwip_localtime = 0, tick_time_us = 0, tim_clock_on = (\<lambda>_. False), tim_nvic = (\<lambda>_. None)\<rparr>"

text \<open>A second of the timer's clock of 84 MHz: 988 instead of 1000 milliseconds.\<close>

theorem system_tick_witness:
  "\<exists>s'. main_timers timers_example = Some s' \<and> uwTick (tick_run 84000000 s') = 993 \<and>
     lwip_localtime (tick_run 84000000 s') = 988"
  using system_tick [of timers_example 84000000] by (simp add: timers_example_def tim_reset_def)

section \<open>The run time measurement\<close>

text \<open>
  \<open>Start_Tick\<close> is to start timer 7 from 0, but \<open>TIM_Base_Start\<close> resets the counter of timer 6: the system
  tick loses the time since its last interrupt, and the measurement starts from what timer 7
  was stopped at.
\<close>

lemma start_tick_resets_system_tick:
  assumes "ticking s0 k q c s" "TInstance (htims s TIM7_Handler) = TIM7"
  shows "ticking s0 k 0 c (Start_Tick s) \<and> T_CNT (tim_regs (Start_Tick s) TIM7) = T_CNT (tim_regs s TIM7)"
  using assms
  by (simp add: Start_Tick_def TIM_Base_Start_def HAL_TIM_Base_Start_IT_def reset_CNT_def upd_htim_regs_def
      upd_tim_def ticking_def HAL_TIM_ENABLE_def HAL_TIM_ENABLE_IT_def)

end
