(* ===== verification/Lwip.thy ===== *)
theory Lwip
  imports MainApp Malloc Timer "HOL-Library.Monad_Syntax"
begin

text \<open>
  The network support of the application, LWIP/lwip_app/lwip_comm/lwip_comm.c, with the memory of the Ethernet
  driver from HARDWARE/LAN8720/lan8720.c: the start of the network, the DHCP state machine, and
  the periodic handler of the main loop, which also serves the serial ports.

  The lwIP stack itself is third-party code the application calls: it
  is a record of functions on the network interface, \<open>lwip_core\<close>, which the properties leave arbitrary. What
  the Ethernet driver does is the subject of \<open>HalEth\<close> and \<open>EthNet\<close>; here only its memory and the result of its start appear.
\<close>

section \<open>State\<close>

text \<open>\<open>struct netif\<close> as far as this code uses it (\<open>nif_tries\<close> is \<open>dhcp->tries\<close>, \<open>None\<close> for a null pointer \<open>dhcp\<close>), and the rest of
  the stack.\<close>

record 'w netif =
  nif_ip :: u32
  nif_netmask :: u32
  nif_gw :: u32
  nif_tries :: "u8 option"
  nif_stack :: 'w

record 'w lwip_core =
  lwip_init :: "'w netif \<Rightarrow> 'w netif"
  netif_add :: "u32 \<Rightarrow> u32 \<Rightarrow> u32 \<Rightarrow> 'w netif \<Rightarrow> bool \<times> 'w netif"
  netif_set_default :: "'w netif \<Rightarrow> 'w netif"
  netif_set_up :: "'w netif \<Rightarrow> 'w netif"
  dhcp_start :: "'w netif \<Rightarrow> 'w netif"
  dhcp_fine_tmr :: "'w netif \<Rightarrow> 'w netif"
  dhcp_coarse_tmr :: "'w netif \<Rightarrow> 'w netif"
  sys_check_timeouts :: "'w netif \<Rightarrow> 'w netif"

text \<open>\<open>__lwip_dev\<close>\<close>

record lwip_dev =
  lw_mac :: "u8 list"
  lw_remoteip :: "u8 list"
  lw_ip :: "u8 list"
  lw_netmask :: "u8 list"
  lw_gateway :: "u8 list"
  dhcpstatus :: u8

text \<open>What is printed.\<close>

datatype lwip_msg =
    Msg_searching
  | Msg_mac "u8 list"
  | Msg_dhcp_ip "u8 list"
  | Msg_dhcp_netmask "u8 list"
  | Msg_dhcp_gateway "u8 list"
  | Msg_dhcp_timeout
  | Msg_static_ip "u8 list"
  | Msg_static_netmask "u8 list"
  | Msg_static_gateway "u8 list"

text \<open>The pointers to the memory of the network, each a global variable.\<close>

datatype net_var = V_DMARxDscrTab | V_DMATxDscrTab | V_Rx_Buff | V_Tx_Buff | V_memp_memory | V_ram_heap

record 'w lwip_state =
  lw_heap :: m_mallco_dev
  lw_ptr :: "net_var \<Rightarrow> u32"
  lw_dev :: lwip_dev
  lw_netif :: "'w netif"
  DHCPfineTimer :: u32
  DHCPcoarseTimer :: u32
  lw_ports :: ports
  lw_out :: "lwip_msg list"

section \<open>Memory\<close>

abbreviation SRAMIN :: nat where "SRAMIN \<equiv> 0"

definition alloc_var :: "net_var \<Rightarrow> u32 \<Rightarrow> 'w lwip_state \<Rightarrow> 'w lwip_state option" where
  "alloc_var v sz s =
     (case mymalloc SRAMIN sz (lw_heap s) of
        None \<Rightarrow> None
      | Some (p, d) \<Rightarrow> Some (s\<lparr>lw_heap := d, lw_ptr := (lw_ptr s)(v := p)\<rparr>))"

definition free_var :: "net_var \<Rightarrow> 'w lwip_state \<Rightarrow> 'w lwip_state option" where
  "free_var v s =
     (case myfree SRAMIN (lw_ptr s v) (lw_heap s) of None \<Rightarrow> None | Some d \<Rightarrow> Some (s\<lparr>lw_heap := d\<rparr>))"

text \<open>4 descriptors of 32 bytes and 4 buffers of 1524 bytes for either direction.\<close>

definition ETH_DESC_SIZE :: u32 where "ETH_DESC_SIZE = 4 * 32"

definition ETH_BUFS_SIZE :: u32 where "ETH_BUFS_SIZE = 1524 * 4"

definition ETH_Mem_Free :: "'w lwip_state \<Rightarrow> 'w lwip_state option" where
  "ETH_Mem_Free s = do {
     s \<leftarrow> free_var V_DMARxDscrTab s;
     s \<leftarrow> free_var V_DMATxDscrTab s;
     s \<leftarrow> free_var V_Rx_Buff s;
     free_var V_Tx_Buff s
   }"

text \<open>The test after the allocations looks at the addresses of the pointer variables, \<open>addr\<close>, not at
  their values.\<close>

definition ETH_Mem_Malloc :: "(net_var \<Rightarrow> u32) \<Rightarrow> 'w lwip_state \<Rightarrow> (u8 \<times> 'w lwip_state) option" where
  "ETH_Mem_Malloc addr s = do {
     s \<leftarrow> alloc_var V_DMARxDscrTab ETH_DESC_SIZE s;
     s \<leftarrow> alloc_var V_DMATxDscrTab ETH_DESC_SIZE s;
     s \<leftarrow> alloc_var V_Rx_Buff ETH_BUFS_SIZE s;
     s \<leftarrow> alloc_var V_Tx_Buff ETH_BUFS_SIZE s;
     if addr V_DMARxDscrTab = 0 \<or> addr V_DMATxDscrTab = 0 \<or> addr V_Rx_Buff = 0 \<or> addr V_Tx_Buff = 0
     then do { s \<leftarrow> ETH_Mem_Free s; Some (1, s) }
     else Some (0, s)
   }"

definition lwip_comm_mem_free :: "'w lwip_state \<Rightarrow> 'w lwip_state option" where
  "lwip_comm_mem_free s = do { s \<leftarrow> free_var V_memp_memory s; free_var V_ram_heap s }"

definition LWIP_MEM_ALIGN_SIZE :: "u32 \<Rightarrow> u32" where
  "LWIP_MEM_ALIGN_SIZE sz = (sz + 4 - 1) AND NOT (4 - 1)"

abbreviation MEM_SIZE :: u32 where "MEM_SIZE \<equiv> 16000"

definition ramheapsize :: u32 where
  "ramheapsize = LWIP_MEM_ALIGN_SIZE MEM_SIZE + 2 * LWIP_MEM_ALIGN_SIZE (4 * 3) + 4"

text \<open>\<open>mempsize\<close> is the result of \<open>memp_get_memorysize\<close>.\<close>

definition lwip_comm_mem_malloc :: "(net_var \<Rightarrow> u32) \<Rightarrow> u32 \<Rightarrow> 'w lwip_state \<Rightarrow> (u8 \<times> 'w lwip_state) option" where
  "lwip_comm_mem_malloc addr mempsize s = do {
     s \<leftarrow> alloc_var V_memp_memory mempsize s;
     s \<leftarrow> alloc_var V_ram_heap ramheapsize s;
     if addr V_memp_memory = 0 \<or> addr V_ram_heap = 0
     then do { s \<leftarrow> lwip_comm_mem_free s; Some (1, s) }
     else Some (0, s)
   }"

section \<open>Start\<close>

text \<open>\<open>uid\<close> is the first word of the chip's identification.\<close>

definition lwip_comm_default_ip_set :: "u32 \<Rightarrow> lwip_dev \<Rightarrow> lwip_dev" where
  "lwip_comm_default_ip_set uid l =
     l\<lparr>lw_remoteip := [192, 168, 1, 104],
       lw_mac := [2, 0, 0, ucast (drop_bit 16 uid AND 0xFF), ucast (drop_bit 8 uid AND 0xFFF), ucast (uid AND 0xFF)],
       lw_ip := [192, 168, 1, 30],
       lw_netmask := [255, 255, 255, 0],
       lw_gateway := [192, 168, 1, 1],
       dhcpstatus := 0\<rparr>"

text \<open>The loop around \<open>LAN8720_Init\<close>, whose \<open>n\<close>-th call returns \<open>phy n\<close>: whether it ended with success, and the number
  of calls so far.\<close>

function phy_loop :: "(nat \<Rightarrow> u8) \<Rightarrow> nat \<Rightarrow> u8 \<Rightarrow> bool \<times> nat" where
  "phy_loop phy n retry =
     (if phy n = 0 then (True, Suc n)
      else if 5 < retry + 1 then (False, Suc n)
      else phy_loop phy (Suc n) (retry + 1))"
  by pat_completeness auto

termination
proof (relation "measure (\<lambda>(_, _, retry). unat (5 - retry))")
  show "wf (measure (\<lambda>(_, _, retry). unat (5 - retry)))" by simp
next
  fix phy :: "nat \<Rightarrow> u8" and n :: nat and retry :: u8
  assume "\<not> 5 < retry + 1"
  then have "5 - retry \<noteq> 0"
    by auto
  then have "0 < unat (5 - retry)" "unat (5 - retry - 1) = unat (5 - retry) - 1"
    by (simp only: unat_gt_0 not_False_eq_True, intro unat_minus_one)
  then have "unat (5 - retry - 1) < unat (5 - retry)"
    by (simp only: diff_less zero_less_one)
  moreover have "5 - (retry + 1) = 5 - retry - 1"
    by (simp only: diff_diff_add)
  ultimately show "((phy, Suc n, retry + 1), phy, n, retry) \<in> measure (\<lambda>(_, _, retry). unat (5 - retry))"
    by (simp only: in_measure prod.case)
qed

declare phy_loop.simps [simp del]

text \<open>The result also has the number of calls of \<open>LAN8720_Init\<close> so far.\<close>

definition lwip_comm_init :: "(net_var \<Rightarrow> u32) \<Rightarrow> u32 \<Rightarrow> u32 \<Rightarrow> (nat \<Rightarrow> u8) \<Rightarrow> 'w lwip_core \<Rightarrow> nat \<Rightarrow> 'w lwip_state
    \<Rightarrow> (u8 \<times> nat \<times> 'w lwip_state) option" where
  "lwip_comm_init addr mempsize uid phy core n s = do {
     (e, s) \<leftarrow> ETH_Mem_Malloc addr s;
     if e \<noteq> 0 then Some (1, n, s)
     else do {
       (e, s) \<leftarrow> lwip_comm_mem_malloc addr mempsize s;
       if e \<noteq> 0 then Some (2, n, s)
       else
         (let s = s\<lparr>lw_dev := lwip_comm_default_ip_set uid (lw_dev s)\<rparr>
          in case phy_loop phy n 0 of
               (False, n) \<Rightarrow> Some (3, n, s)
             | (True, n) \<Rightarrow>
                 (let nif = lwip_init core (lw_netif s);
                      (added, nif) = netif_add core 0 0 0 nif;
                      s = s\<lparr>lw_dev := (lw_dev s)\<lparr>dhcpstatus := 0\<rparr>\<rparr>;
                      nif = dhcp_start core nif
                  in if \<not> added then Some (4, n, s\<lparr>lw_netif := nif\<rparr>)
                     else Some (0, n, s\<lparr>lw_netif := netif_set_up core (netif_set_default core nif)\<rparr>)))
     }
   }"

text \<open>The loop in \<open>main\<close>: \<open>lwip_comm_init\<close> is called until it returns 0, at most \<open>fuel\<close> times (\<open>None\<close>: still not).\<close>

fun main_lwip_init :: "nat \<Rightarrow> (net_var \<Rightarrow> u32) \<Rightarrow> u32 \<Rightarrow> u32 \<Rightarrow> (nat \<Rightarrow> u8) \<Rightarrow> 'w lwip_core \<Rightarrow> nat \<Rightarrow> 'w lwip_state
    \<Rightarrow> 'w lwip_state option" where
  "main_lwip_init 0 addr mempsize uid phy core n s = None"
| "main_lwip_init (Suc fuel) addr mempsize uid phy core n s = do {
     (e, n, s) \<leftarrow> lwip_comm_init addr mempsize uid phy core n s;
     if e = 0 then Some s else main_lwip_init fuel addr mempsize uid phy core n s
   }"

section \<open>DHCP\<close>

definition IP4_ADDR :: "u8 list \<Rightarrow> u32" where
  "IP4_ADDR a = (push_bit 24 (ucast (a ! 3)) OR push_bit 16 (ucast (a ! 2)) OR push_bit 8 (ucast (a ! 1))) OR ucast (a ! 0)"

abbreviation LWIP_MAX_DHCP_TRIES :: u8 where "LWIP_MAX_DHCP_TRIES \<equiv> 4"

text \<open>The address the server gave is copied from the interface.\<close>

definition dhcp_take :: "'w lwip_state \<Rightarrow> 'w lwip_state" where
  "dhcp_take s =
     (let ip = nif_ip (lw_netif s);
          netmask = nif_netmask (lw_netif s);
          gw = nif_gw (lw_netif s);
          s = s\<lparr>lw_dev := (lw_dev s)\<lparr>dhcpstatus := 2\<rparr>\<rparr>;
          s = s\<lparr>lw_out := lw_out s @ [Msg_mac (lw_mac (lw_dev s))]\<rparr>;
          s = s\<lparr>lw_dev := (lw_dev s)\<lparr>lw_ip := u32_bytes ip\<rparr>\<rparr>;
          s = s\<lparr>lw_out := lw_out s @ [Msg_dhcp_ip (lw_ip (lw_dev s))]\<rparr>;
          s = s\<lparr>lw_dev := (lw_dev s)\<lparr>lw_netmask := u32_bytes netmask\<rparr>\<rparr>;
          s = s\<lparr>lw_out := lw_out s @ [Msg_dhcp_netmask (lw_netmask (lw_dev s))]\<rparr>;
          s = s\<lparr>lw_dev := (lw_dev s)\<lparr>lw_gateway := u32_bytes gw\<rparr>\<rparr>
      in s\<lparr>lw_out := lw_out s @ [Msg_dhcp_gateway (lw_gateway (lw_dev s))]\<rparr>)"

text \<open>No server: the default address is set in the interface.\<close>

definition dhcp_give_up :: "'w lwip_state \<Rightarrow> 'w lwip_state" where
  "dhcp_give_up s =
     (let s = s\<lparr>lw_dev := (lw_dev s)\<lparr>dhcpstatus := 0xFF\<rparr>\<rparr>;
          s = s\<lparr>lw_netif := (lw_netif s)\<lparr>nif_ip := IP4_ADDR (lw_ip (lw_dev s))\<rparr>\<rparr>;
          s = s\<lparr>lw_netif := (lw_netif s)\<lparr>nif_netmask := IP4_ADDR (lw_netmask (lw_dev s))\<rparr>\<rparr>;
          s = s\<lparr>lw_netif := (lw_netif s)\<lparr>nif_gw := IP4_ADDR (lw_gateway (lw_dev s))\<rparr>\<rparr>
      in s\<lparr>lw_out := lw_out s @ [Msg_dhcp_timeout, Msg_mac (lw_mac (lw_dev s)), Msg_static_ip (lw_ip (lw_dev s)),
             Msg_static_netmask (lw_netmask (lw_dev s)), Msg_static_gateway (lw_gateway (lw_dev s))]\<rparr>)"

definition lwip_dhcp_process_handle :: "'w lwip_core \<Rightarrow> 'w lwip_state \<Rightarrow> 'w lwip_state option" where
  "lwip_dhcp_process_handle core s =
     (if dhcpstatus (lw_dev s) = 0 then
        (let s = s\<lparr>lw_netif := dhcp_start core (lw_netif s)\<rparr>;
             s = s\<lparr>lw_dev := (lw_dev s)\<lparr>dhcpstatus := 1\<rparr>\<rparr>
         in Some (s\<lparr>lw_out := lw_out s @ [Msg_searching]\<rparr>))
      else if dhcpstatus (lw_dev s) = 1 then
        (if nif_ip (lw_netif s) \<noteq> 0 then Some (dhcp_take s)
         else (case nif_tries (lw_netif s) of
                 None \<Rightarrow> None
               | Some tries \<Rightarrow> if LWIP_MAX_DHCP_TRIES < tries then Some (dhcp_give_up s) else Some s))
      else Some s)"

section \<open>The periodic handler\<close>

abbreviation DHCP_FINE_TIMER_MSECS :: u32 where "DHCP_FINE_TIMER_MSECS \<equiv> 500"
abbreviation DHCP_COARSE_TIMER_MSECS :: u32 where "DHCP_COARSE_TIMER_MSECS \<equiv> 60 * 1000"

text \<open>\<open>now\<close> is \<open>lwip_localtime\<close>; \<open>env\<close>, \<open>hw\<close> and \<open>fuel\<close> are for the serial ports.\<close>

definition dhcp_service :: "'w lwip_core \<Rightarrow> 'w lwip_state \<Rightarrow> 'w lwip_state option" where
  "dhcp_service core s =
     (if dhcpstatus (lw_dev s) \<noteq> 2 \<and> dhcpstatus (lw_dev s) \<noteq> 0xFF then lwip_dhcp_process_handle core s else Some s)"

definition periodic_fine :: "hw_env \<Rightarrow> (nat \<Rightarrow> call_back STUsart \<Rightarrow> call_back STUsart) \<Rightarrow> nat \<Rightarrow> 'w lwip_core \<Rightarrow> u32
    \<Rightarrow> 'w lwip_state \<Rightarrow> 'w lwip_state option" where
  "periodic_fine env hw fuel core now s =
     (if DHCP_FINE_TIMER_MSECS \<le> now - DHCPfineTimer s then do {
        let s = s\<lparr>DHCPfineTimer := now\<rparr>;
        let s = s\<lparr>lw_netif := dhcp_fine_tmr core (lw_netif s)\<rparr>;
        s \<leftarrow> dhcp_service core s;
        ps \<leftarrow> lwip_periodic_ports env hw fuel (lw_ports s);
        Some (s\<lparr>lw_ports := ps\<rparr>)
      }
      else Some s)"

definition periodic_coarse :: "'w lwip_core \<Rightarrow> u32 \<Rightarrow> 'w lwip_state \<Rightarrow> 'w lwip_state" where
  "periodic_coarse core now s =
     (if DHCP_COARSE_TIMER_MSECS \<le> now - DHCPcoarseTimer s
      then s\<lparr>DHCPcoarseTimer := now, lw_netif := dhcp_coarse_tmr core (lw_netif s)\<rparr> else s)"

definition lwip_periodic_handle :: "hw_env \<Rightarrow> (nat \<Rightarrow> call_back STUsart \<Rightarrow> call_back STUsart) \<Rightarrow> nat \<Rightarrow> 'w lwip_core \<Rightarrow> u32
    \<Rightarrow> 'w lwip_state \<Rightarrow> 'w lwip_state option" where
  "lwip_periodic_handle env hw fuel core now s = do {
     let s = s\<lparr>lw_netif := sys_check_timeouts core (lw_netif s)\<rparr>;
     s \<leftarrow> periodic_fine env hw fuel core now s;
     Some (periodic_coarse core now s)
   }"

section \<open>Allocating from a fresh pool\<close>

text \<open>The search goes from the end of the pool down, so after allocations only, the free blocks are the first \<open>n\<close>.\<close>

definition top_free :: "nat \<Rightarrow> m_mallco_dev \<Rightarrow> bool" where
  "top_free n d \<longleftrightarrow> memrdy d ! SRAMIN \<noteq> 0 \<and> memmap d \<noteq> [] \<and>
     (\<exists>used. memmap d ! SRAMIN = replicate n 0 @ used \<and> 0 \<notin> set used \<and> n + length used = 1024)"

lemma top_free_init: "top_free 1024 (my_mem_init SRAMIN (mallco_dev bases m))"
  by (simp add: top_free_def my_mem_init_def mallco_dev_def memtblsize_def Let_def)

lemma zero_run_top:
  assumes "0 \<notin> set used" "0 < b"
  shows "zero_run (replicate n 0 @ used) off b \<longleftrightarrow> off + b \<le> n"
proof
  assume z: "zero_run (replicate n 0 @ used) off b"
  show "off + b \<le> n"
  proof (rule ccontr)
    assume "\<not> off + b \<le> n"
    moreover from z have "off + (b - 1) < n + length used"
      using assms(2) by (auto simp: zero_run_def)
    moreover have "b - 1 < b"
      using assms(2) by simp
    with z have "(replicate n 0 @ used) ! (off + (b - 1)) = 0"
      unfolding zero_run_def by blast
    ultimately have "used ! (off + (b - 1) - n) = 0" "off + (b - 1) - n < length used"
      using assms(2) by (auto simp: nth_append split: if_splits)
    then show False
      using assms(1) by (metis nth_mem)
  qed
qed (simp add: zero_run_def nth_append)

lemma map_top:
  "b \<le> n \<Longrightarrow> map (\<lambda>j. if n - b \<le> j \<and> j < n - b + b then v else (replicate n 0 @ used) ! j)
     [0..<length (replicate n 0 @ used)] = replicate (n - b) 0 @ replicate b v @ used"
  by (rule nth_equalityI) (auto simp: nth_append)

lemma mymalloc_top:
  assumes t: "top_free n d" and sz: "sz \<noteq> 0"
  defines "b \<equiv> blocks_of sz"
  shows "\<exists>d'. mymalloc SRAMIN sz d = Some (if b \<le> n then membase d ! SRAMIN + 64 * of_nat (n - b) else 0, d') \<and>
    top_free (if b \<le> n then n - b else n) d' \<and> membase d' = membase d"
proof -
  obtain used where u: "memmap d ! SRAMIN = replicate n 0 @ used" "0 \<notin> set used" "n + length used = 1024"
    and r: "memrdy d ! SRAMIN \<noteq> 0" "memmap d \<noteq> []"
    using t by (auto simp: top_free_def)
  have b: "unat (blocks_for SRAMIN sz) = b" "0 < b"
    using blocks_for_value [of SRAMIN sz] blocks_of_bounds(1) [OF sz] by (simp_all add: b_def)
  then have bn: "blocks_for SRAMIN sz \<noteq> 0"
    by auto
  let ?t = "replicate n 0 @ used"
  have l: "length ?t = 1024" "unat (memtblsize ! SRAMIN) = 1024" "memblksize ! SRAMIN = 64"
    using u(3) by (simp_all add: memtblsize_def memblksize_def)
  have f: "find_blocks ?t (blocks_for SRAMIN sz) 0 1024 = (if b \<le> n then Some (n - b) else None)"
    using find_blocks_top [OF bn, of ?t] unfolding l b(1)
    by (auto simp: zero_run_top [OF u(2) b(2)] l(1) split: option.splits)
      (metis add.commute add_le_cancel_left le_add_diff_inverse le_eq_less_or_eq linorder_not_less)+
  show ?thesis
  proof (cases "b \<le> n")
    case False
    then show ?thesis
      using f sz r(1) t by (simp add: mymalloc_def my_mem_malloc_def u(1) l)
  next
    case True
    let ?t' = "replicate (n - b) 0 @ replicate b (blocks_for SRAMIN sz) @ used"
    have "set_blocks (blocks_for SRAMIN sz) (n - b) b ?t = Some ?t'"
      using True u(3) by (subst set_blocks_eq) (simp, simp only: map_top [OF True])
    then have m: "my_mem_malloc SRAMIN sz d = Some (of_nat (n - b) * 64, d\<lparr>memmap := (memmap d)[SRAMIN := ?t']\<rparr>)"
      using f True sz r(1) by (simp add: my_mem_malloc_def u(1) l b(1) Let_def)
    have "n - b < 1024"
      using u(3) b(2) True by simp
    then have "unat (of_nat (n - b) * 64 :: u32) = (n - b) * 64"
      by (simp add: unat_word_ariths unat_of_nat)
    then have "unat (of_nat (n - b) * 64 :: u32) \<noteq> unat (0xFFFFFFFF :: u32)"
      using \<open>n - b < 1024\<close> by simp
    then have "of_nat (n - b) * 64 \<noteq> (0xFFFFFFFF :: u32)"
      by metis
    then have "mymalloc SRAMIN sz d = Some (membase d ! SRAMIN + 64 * of_nat (n - b), d\<lparr>memmap := (memmap d)[SRAMIN := ?t']\<rparr>)"
      by (simp add: mymalloc_def m mult.commute)
    moreover have "top_free (n - b) (d\<lparr>memmap := (memmap d)[SRAMIN := ?t']\<rparr>)"
      using r u(2,3) True bn by (auto simp: top_free_def intro!: exI [of _ "replicate b (blocks_for SRAMIN sz) @ used"])
    ultimately show ?thesis
      using True by simp
  qed
qed

section \<open>The memory of the network\<close>

text \<open>What one allocation leaves of \<open>n\<close> free blocks.\<close>

definition take_blocks :: "u32 \<Rightarrow> nat \<Rightarrow> nat" where
  "take_blocks sz n = (if blocks_of sz \<le> n then n - blocks_of sz else n)"

definition top_ptr :: "u32 \<Rightarrow> u32 \<Rightarrow> nat \<Rightarrow> u32" where
  "top_ptr base sz n = (if blocks_of sz \<le> n then base + 64 * of_nat (n - blocks_of sz) else 0)"

lemma alloc_var_top:
  assumes "top_free n (lw_heap s)" "sz \<noteq> 0"
  shows "\<exists>d. alloc_var v sz s = Some (s\<lparr>lw_heap := d, lw_ptr := (lw_ptr s)(v := top_ptr (membase (lw_heap s) ! SRAMIN) sz n)\<rparr>) \<and>
    top_free (take_blocks sz n) d \<and> membase d = membase (lw_heap s)"
  using mymalloc_top [OF assms] by (auto simp: alloc_var_def top_ptr_def take_blocks_def)

definition eth_take :: "nat \<Rightarrow> nat" where
  "eth_take n = take_blocks ETH_BUFS_SIZE (take_blocks ETH_BUFS_SIZE (take_blocks ETH_DESC_SIZE (take_blocks ETH_DESC_SIZE n)))"

lemma sizes_nonzero: "ETH_DESC_SIZE \<noteq> 0" "ETH_BUFS_SIZE \<noteq> 0"
  by (simp_all add: ETH_DESC_SIZE_def ETH_BUFS_SIZE_def)

lemma ETH_Mem_Malloc_top:
  assumes t: "top_free n (lw_heap s)" and a: "\<And>v. addr v \<noteq> 0"
  defines "base \<equiv> membase (lw_heap s) ! SRAMIN"
  shows "\<exists>d. ETH_Mem_Malloc addr s = Some (0, s\<lparr>lw_heap := d, lw_ptr := (lw_ptr s)
      (V_DMARxDscrTab := top_ptr base ETH_DESC_SIZE n,
       V_DMATxDscrTab := top_ptr base ETH_DESC_SIZE (take_blocks ETH_DESC_SIZE n),
       V_Rx_Buff := top_ptr base ETH_BUFS_SIZE (take_blocks ETH_DESC_SIZE (take_blocks ETH_DESC_SIZE n)),
       V_Tx_Buff := top_ptr base ETH_BUFS_SIZE
         (take_blocks ETH_BUFS_SIZE (take_blocks ETH_DESC_SIZE (take_blocks ETH_DESC_SIZE n))))\<rparr>) \<and>
    top_free (eth_take n) d \<and> membase d = membase (lw_heap s)"
proof -
  obtain d1 where d1: "alloc_var V_DMARxDscrTab ETH_DESC_SIZE s = Some (s\<lparr>lw_heap := d1, lw_ptr := (lw_ptr s)
      (V_DMARxDscrTab := top_ptr base ETH_DESC_SIZE n)\<rparr>)" (is "_ = Some ?s1")
    "top_free (take_blocks ETH_DESC_SIZE n) d1" "membase d1 = membase (lw_heap s)"
    using alloc_var_top [OF t sizes_nonzero(1)] by (auto simp: base_def)
  obtain d2 where d2: "alloc_var V_DMATxDscrTab ETH_DESC_SIZE ?s1 = Some (?s1\<lparr>lw_heap := d2, lw_ptr := (lw_ptr ?s1)
      (V_DMATxDscrTab := top_ptr base ETH_DESC_SIZE (take_blocks ETH_DESC_SIZE n))\<rparr>)" (is "_ = Some ?s2")
    "top_free (take_blocks ETH_DESC_SIZE (take_blocks ETH_DESC_SIZE n)) d2" "membase d2 = membase (lw_heap s)"
    using alloc_var_top [of _ ?s1 ETH_DESC_SIZE] d1(2,3) sizes_nonzero by (fastforce simp: base_def)
  obtain d3 where d3: "alloc_var V_Rx_Buff ETH_BUFS_SIZE ?s2 = Some (?s2\<lparr>lw_heap := d3, lw_ptr := (lw_ptr ?s2)
      (V_Rx_Buff := top_ptr base ETH_BUFS_SIZE (take_blocks ETH_DESC_SIZE (take_blocks ETH_DESC_SIZE n)))\<rparr>)" (is "_ = Some ?s3")
    "top_free (take_blocks ETH_BUFS_SIZE (take_blocks ETH_DESC_SIZE (take_blocks ETH_DESC_SIZE n))) d3"
    "membase d3 = membase (lw_heap s)"
    using alloc_var_top [of _ ?s2 ETH_BUFS_SIZE] d2(2,3) sizes_nonzero by (fastforce simp: base_def)
  obtain d4 where d4: "alloc_var V_Tx_Buff ETH_BUFS_SIZE ?s3 = Some (?s3\<lparr>lw_heap := d4, lw_ptr := (lw_ptr ?s3)
      (V_Tx_Buff := top_ptr base ETH_BUFS_SIZE
        (take_blocks ETH_BUFS_SIZE (take_blocks ETH_DESC_SIZE (take_blocks ETH_DESC_SIZE n))))\<rparr>)"
    "top_free (eth_take n) d4" "membase d4 = membase (lw_heap s)"
    using alloc_var_top [of _ ?s3 ETH_BUFS_SIZE] d3(2,3) sizes_nonzero by (fastforce simp: base_def eth_take_def)
  show ?thesis
    unfolding ETH_Mem_Malloc_def d1(1) bind.bind_lunit d2(1) d3(1) d4(1)
    using d4(2,3) a by (intro exI [of _ d4]) simp
qed

lemma ramheapsize_value: "ramheapsize = 16028"
  by (simp add: ramheapsize_def LWIP_MEM_ALIGN_SIZE_def)

lemma lwip_comm_mem_malloc_top:
  assumes t: "top_free n (lw_heap s)" and a: "\<And>v. addr v \<noteq> 0" and m: "mempsize \<noteq> 0"
  defines "base \<equiv> membase (lw_heap s) ! SRAMIN"
  shows "\<exists>d. lwip_comm_mem_malloc addr mempsize s = Some (0, s\<lparr>lw_heap := d, lw_ptr := (lw_ptr s)
      (V_memp_memory := top_ptr base mempsize n,
       V_ram_heap := top_ptr base ramheapsize (take_blocks mempsize n))\<rparr>) \<and>
    top_free (take_blocks ramheapsize (take_blocks mempsize n)) d \<and> membase d = membase (lw_heap s)"
proof -
  obtain d1 where d1: "alloc_var V_memp_memory mempsize s = Some (s\<lparr>lw_heap := d1, lw_ptr := (lw_ptr s)
      (V_memp_memory := top_ptr base mempsize n)\<rparr>)" (is "_ = Some ?s1")
    "top_free (take_blocks mempsize n) d1" "membase d1 = membase (lw_heap s)"
    using alloc_var_top [OF t m] by (auto simp: base_def)
  obtain d2 where d2: "alloc_var V_ram_heap ramheapsize ?s1 = Some (?s1\<lparr>lw_heap := d2, lw_ptr := (lw_ptr ?s1)
      (V_ram_heap := top_ptr base ramheapsize (take_blocks mempsize n))\<rparr>)"
    "top_free (take_blocks ramheapsize (take_blocks mempsize n)) d2" "membase d2 = membase (lw_heap s)"
    using alloc_var_top [of _ ?s1 ramheapsize] d1(2,3) by (fastforce simp: base_def ramheapsize_value)
  show ?thesis
    unfolding lwip_comm_mem_malloc_def d1(1) bind.bind_lunit d2(1)
    using d2(2,3) a by (intro exI [of _ d2]) simp
qed

lemma block_numbers:
  "blocks_of ETH_DESC_SIZE = 2" "blocks_of ETH_BUFS_SIZE = 96" "blocks_of ramheapsize = 251"
  by (simp_all add: blocks_of_def ramheapsize_value ETH_DESC_SIZE_def ETH_BUFS_SIZE_def)

lemma phy_loop_fails:
  assumes "\<forall>i < 6. phy (n + i) \<noteq> 0"
  shows "phy_loop phy n 0 = (False, n + 6)"
proof -
  have "phy n \<noteq> 0" "phy (Suc n) \<noteq> 0" "phy (Suc (Suc n)) \<noteq> 0" "phy (Suc (Suc (Suc n))) \<noteq> 0"
    "phy (Suc (Suc (Suc (Suc n)))) \<noteq> 0" "phy (Suc (Suc (Suc (Suc (Suc n))))) \<noteq> 0"
    using assms [rule_format, of 0] assms [rule_format, of 1] assms [rule_format, of 2] assms [rule_format, of 3]
      assms [rule_format, of 4] assms [rule_format, of 5] by (simp_all add: eval_nat_numeral)
  then show ?thesis
    by (simp add: phy_loop.simps)
qed

lemma phy_loop_ok: "phy n = 0 \<Longrightarrow> phy_loop phy n 0 = (True, Suc n)"
  by (simp add: phy_loop.simps)

text \<open>The allocations of one call of \<open>lwip_comm_init\<close> on a pool with \<open>n\<close> free blocks.\<close>

definition net_take :: "u32 \<Rightarrow> nat \<Rightarrow> nat" where
  "net_take mempsize n = take_blocks ramheapsize (take_blocks mempsize (eth_take n))"

definition net_ptrs :: "u32 \<Rightarrow> u32 \<Rightarrow> nat \<Rightarrow> net_var \<Rightarrow> u32" where
  "net_ptrs base mempsize n = (\<lambda>v. case v of
       V_DMARxDscrTab \<Rightarrow> top_ptr base ETH_DESC_SIZE n
     | V_DMATxDscrTab \<Rightarrow> top_ptr base ETH_DESC_SIZE (take_blocks ETH_DESC_SIZE n)
     | V_Rx_Buff \<Rightarrow> top_ptr base ETH_BUFS_SIZE (take_blocks ETH_DESC_SIZE (take_blocks ETH_DESC_SIZE n))
     | V_Tx_Buff \<Rightarrow> top_ptr base ETH_BUFS_SIZE
         (take_blocks ETH_BUFS_SIZE (take_blocks ETH_DESC_SIZE (take_blocks ETH_DESC_SIZE n)))
     | V_memp_memory \<Rightarrow> top_ptr base mempsize (eth_take n)
     | V_ram_heap \<Rightarrow> top_ptr base ramheapsize (take_blocks mempsize (eth_take n)))"

lemma lwip_comm_init_top:
  assumes t: "top_free n (lw_heap s)" and a: "\<And>v. addr v \<noteq> 0" and m: "mempsize \<noteq> 0"
  shows "\<exists>d. top_free (net_take mempsize n) d \<and> membase d = membase (lw_heap s) \<and>
    lwip_comm_init addr mempsize uid phy core k s =
      (let s = s\<lparr>lw_heap := d, lw_ptr := net_ptrs (membase (lw_heap s) ! SRAMIN) mempsize n,
                 lw_dev := lwip_comm_default_ip_set uid (lw_dev s)\<rparr>
       in case phy_loop phy k 0 of
            (False, k) \<Rightarrow> Some (3, k, s)
          | (True, k) \<Rightarrow>
              (let (added, nif) = netif_add core 0 0 0 (lwip_init core (lw_netif s));
                   nif = dhcp_start core nif
               in if \<not> added then Some (4, k, s\<lparr>lw_netif := nif\<rparr>)
                  else Some (0, k, s\<lparr>lw_netif := netif_set_up core (netif_set_default core nif)\<rparr>)))"
proof -
  let ?base = "membase (lw_heap s) ! SRAMIN"
  obtain s1 where s1: "ETH_Mem_Malloc addr s = Some (0, s1)" "top_free (eth_take n) (lw_heap s1)"
      "membase (lw_heap s1) = membase (lw_heap s)"
      "s1 = s\<lparr>lw_heap := lw_heap s1, lw_ptr := (\<lambda>v. if v \<in> {V_memp_memory, V_ram_heap} then lw_ptr s v
         else net_ptrs ?base mempsize n v)\<rparr>"
    using ETH_Mem_Malloc_top [where addr = addr, OF t a]
    by (fastforce simp: net_ptrs_def fun_eq_iff split: net_var.splits)
  obtain d where d: "lwip_comm_mem_malloc addr mempsize s1 = Some (0, s1\<lparr>lw_heap := d,
      lw_ptr := net_ptrs ?base mempsize n\<rparr>)"
    "top_free (net_take mempsize n) d" "membase d = membase (lw_heap s)"
  proof -
    have p: "(lw_ptr s1)(V_memp_memory := top_ptr ?base mempsize (eth_take n),
        V_ram_heap := top_ptr ?base ramheapsize (take_blocks mempsize (eth_take n))) = net_ptrs ?base mempsize n"
      by (subst s1(4)) (auto simp: net_ptrs_def fun_eq_iff split: net_var.splits)
    show ?thesis
      using that lwip_comm_mem_malloc_top [where addr = addr, OF s1(2) a m] s1(3) p by (auto simp: net_take_def)
  qed
  have e: "s1\<lparr>lw_heap := d, lw_ptr := net_ptrs ?base mempsize n\<rparr> = s\<lparr>lw_heap := d, lw_ptr := net_ptrs ?base mempsize n\<rparr>"
    by (subst s1(4)) simp
  have l: "(lwip_comm_default_ip_set uid l)\<lparr>dhcpstatus := 0\<rparr> = lwip_comm_default_ip_set uid l" for l
    by (simp add: lwip_comm_default_ip_set_def)
  obtain b k' where b: "phy_loop phy k 0 = (b, k')"
    by force
  obtain added nif where nif: "netif_add core 0 0 0 (lwip_init core (lw_netif s)) = (added, nif)"
    by force
  show ?thesis
    using d(2,3) unfolding lwip_comm_init_def s1(1) bind.bind_lunit prod.case d(1) e b
    by (intro exI [of _ d], cases b; cases added) (simp_all add: Let_def l nif)
qed

text \<open>The pool has 1024 blocks; all but the lwIP pools takes 447.\<close>

lemma take_blocks_le: "take_blocks sz n \<le> n"
  by (simp add: take_blocks_def)

lemma eth_take_le: "eth_take n \<le> n"
  unfolding eth_take_def by (meson take_blocks_le le_trans)

lemma eth_take_full: "196 \<le> n \<Longrightarrow> eth_take n = n - 196"
  by (simp add: eth_take_def take_blocks_def block_numbers)

lemma second_heap_refused:
  assumes "65 < blocks_of mempsize" "blocks_of mempsize \<le> 577"
  shows "take_blocks mempsize (eth_take (net_take mempsize 1024)) < 251"
proof -
  have "take_blocks mempsize 828 = 828 - blocks_of mempsize"
    using assms(2) by (simp add: take_blocks_def)
  then have n: "net_take mempsize 1024 = 577 - blocks_of mempsize" (is "_ = ?n")
    using assms(2) by (simp add: net_take_def eth_take_full take_blocks_def block_numbers)
  show ?thesis
  proof (cases "196 \<le> ?n")
    case True
    then show ?thesis
      unfolding n eth_take_full [OF True] take_blocks_def using assms(1) by auto
  next
    case False
    then have "eth_take ?n < 196"
      using eth_take_le [of ?n] by simp
    then show ?thesis
      unfolding n using take_blocks_le [of mempsize "eth_take ?n"] by simp
  qed
qed

text \<open>
  C34. The memory of the network is not given back, and its lack not noticed: when the Ethernet transceiver fails to
  answer in the first call of \<open>lwip_comm_init\<close> (no cable), the call returns 3 with all its memory
  still allocated; the second call, now with an answer, gets no memory for the heap of lwIP, but returns 0, and the application
  runs with the heap at address 0. This holds for every size of the lwIP pools from 65 to 577 blocks;
  the packet buffers alone are 20 times 512 bytes, more than 160 blocks.
\<close>

theorem network_retry_without_heap:
  assumes "lw_heap s = my_mem_init SRAMIN (mallco_dev bases m)" "\<And>v. addr v \<noteq> 0"
    and "65 < blocks_of mempsize" "blocks_of mempsize \<le> 577"
    and "\<forall>n < 6. phy n \<noteq> 0" "phy 6 = 0" "\<And>nif. fst (netif_add core 0 0 0 nif)"
  shows "(\<exists>s1. lwip_comm_init addr mempsize uid phy core 0 s = Some (3, 6, s1) \<and> (\<forall>v. lw_ptr s1 v = net_ptrs (bases ! SRAMIN) mempsize 1024 v)) \<and>
    (\<exists>s2. main_lwip_init 2 addr mempsize uid phy core 0 s = Some s2 \<and> lw_ptr s2 V_ram_heap = 0)"
proof -
  have t: "top_free 1024 (lw_heap s)"
    unfolding assms(1) by (rule top_free_init)
  have b: "membase (lw_heap s) ! SRAMIN = bases ! SRAMIN"
    by (simp add: assms(1) bank_init_fields mallco_dev_def)
  have m: "mempsize \<noteq> 0"
    using assms(3) by (auto simp: blocks_of_def)
  have f: "phy_loop phy 0 0 = (False, 6)"
    using phy_loop_fails [of phy 0] assms(5) by simp
  obtain d0 where d0: "top_free (net_take mempsize 1024) d0" "membase d0 = membase (lw_heap s)"
    "lwip_comm_init addr mempsize uid phy core 0 s =
      Some (3, 6, s\<lparr>lw_heap := d0, lw_ptr := net_ptrs (bases ! SRAMIN) mempsize 1024,
                    lw_dev := lwip_comm_default_ip_set uid (lw_dev s)\<rparr>)"
    using lwip_comm_init_top [where addr = addr and phy = phy and k = 0 and uid = uid and core = core, OF t assms(2) m]
    unfolding f b by (auto simp: Let_def)
  define s1 where "s1 = s\<lparr>lw_heap := d0, lw_ptr := net_ptrs (bases ! SRAMIN) mempsize 1024,
                    lw_dev := lwip_comm_default_ip_set uid (lw_dev s)\<rparr>"
  have s1: "lwip_comm_init addr mempsize uid phy core 0 s = Some (3, 6, s1)"
    "lw_ptr s1 = net_ptrs (bases ! SRAMIN) mempsize 1024" "top_free (net_take mempsize 1024) (lw_heap s1)"
    using d0 by (simp_all add: s1_def)
  have z: "net_ptrs base mempsize (net_take mempsize 1024) V_ram_heap = 0" for base
    using second_heap_refused [OF assms(3,4)] by (simp add: net_ptrs_def top_ptr_def block_numbers)
  obtain nif where nif: "netif_add core 0 0 0 (lwip_init core (lw_netif s1)) = (True, nif)"
    using assms(7) [of "lwip_init core (lw_netif s1)"] by (metis prod.collapse)
  have p: "phy_loop phy 6 0 = (True, 7)"
    using phy_loop_ok [of phy 6] assms(6) by simp
  obtain d where d: "lwip_comm_init addr mempsize uid phy core 6 s1 =
      (let s = s1\<lparr>lw_heap := d, lw_ptr := net_ptrs (membase (lw_heap s1) ! SRAMIN) mempsize (net_take mempsize 1024),
                  lw_dev := lwip_comm_default_ip_set uid (lw_dev s1)\<rparr>;
           nif = dhcp_start core nif
       in Some (0, 7, s\<lparr>lw_netif := netif_set_up core (netif_set_default core nif)\<rparr>))"
    using lwip_comm_init_top [where addr = addr and phy = phy and k = 6 and uid = uid and core = core, OF s1(3) assms(2) m]
    unfolding p by (auto simp: Let_def nif)
  have "\<exists>s2. lwip_comm_init addr mempsize uid phy core 6 s1 = Some (0, 7, s2) \<and> lw_ptr s2 V_ram_heap = 0"
    unfolding d Let_def by (simp add: z)
  then obtain s2 where s2: "lwip_comm_init addr mempsize uid phy core 6 s1 = Some (0, 7, s2)" "lw_ptr s2 V_ram_heap = 0"
    by blast
  have "main_lwip_init (Suc (Suc 0)) addr mempsize uid phy core 0 s = Some s2"
    by (simp add: s1(1) s2(1))
  then show ?thesis
    unfolding numeral_2_eq_2 using s1(1,2) s2(2) by auto
qed

definition net_core_example :: "unit lwip_core" where
  "net_core_example = \<lparr>lwip_init = (\<lambda>n. n), netif_add = (\<lambda>ip m g n. (True, n\<lparr>nif_ip := ip, nif_netmask := m, nif_gw := g\<rparr>)),
     netif_set_default = (\<lambda>n. n), netif_set_up = (\<lambda>n. n), dhcp_start = (\<lambda>n. n\<lparr>nif_tries := Some 0\<rparr>),
     dhcp_fine_tmr = (\<lambda>n. n\<lparr>nif_tries := map_option (\<lambda>t. t + 1) (nif_tries n)\<rparr>), dhcp_coarse_tmr = (\<lambda>n. n),
     sys_check_timeouts = (\<lambda>n. n)\<rparr>"

definition net_example :: "unit lwip_state" where
  "net_example = \<lparr>lw_heap = my_mem_init SRAMIN (mallco_dev [0x20000000, 0xC01F4000, 0x10000000] (\<lambda>_. 0)),
     lw_ptr = (\<lambda>_. 0), lw_dev = \<lparr>lw_mac = [], lw_remoteip = [], lw_ip = [], lw_netmask = [], lw_gateway = [], dhcpstatus = 0\<rparr>,
     lw_netif = \<lparr>nif_ip = 0, nif_netmask = 0, nif_gw = 0, nif_tries = None, nif_stack = ()\<rparr>,
     DHCPfineTimer = 0, DHCPcoarseTimer = 0, lw_ports = ports_started, lw_out = []\<rparr>"

text \<open>With 15000 bytes for the pools of lwIP.\<close>

theorem network_retry_without_heap_witness:
  "\<exists>s2. main_lwip_init 2 (\<lambda>_. 0x20000100) 15000 0 (\<lambda>n. if n < 6 then 1 else 0) net_core_example 0 net_example = Some s2 \<and>
     lw_ptr s2 V_ram_heap = 0"
  using network_retry_without_heap [where s = net_example and addr = "\<lambda>_. 0x20000100" and mempsize = 15000 and uid = 0
      and phy = "\<lambda>n. if n < 6 then 1 else 0" and core = net_core_example and bases = "[0x20000000, 0xC01F4000, 0x10000000]"
      and m = "\<lambda>_. 0"]
  by (simp add: net_example_def net_core_example_def blocks_of_def)

section \<open>The DHCP state machine\<close>

text \<open>
  The main loop with everything that happens around it: the network changes the interface (a packet arrives, a timer of
  the stack runs out), the serial ports change, and the main loop calls \<open>lwip_periodic_handle\<close> at some time.
\<close>

inductive net_step :: "'w lwip_core \<Rightarrow> 'w lwip_state \<Rightarrow> 'w lwip_state \<Rightarrow> bool" for core where
  net: "net_step core s (s\<lparr>lw_netif := nif\<rparr>)"
| ports: "net_step core s (s\<lparr>lw_ports := ps\<rparr>)"
| periodic: "lwip_periodic_handle env hw fuel core now s = Some s' \<Longrightarrow> net_step core s s'"

inductive_cases net_stepE: "net_step core s s'"

definition default_address :: "lwip_dev \<Rightarrow> bool" where
  "default_address l \<longleftrightarrow> lw_ip l = [192, 168, 1, 30] \<and> lw_netmask l = [255, 255, 255, 0] \<and> lw_gateway l = [192, 168, 1, 1]"

text \<open>What one call of the handler can do to the state machine, \<open>nif\<close> being the interface it looks at: in state 0 the
  search has not begun, in state 1 it is on, 2 and 255 are final.\<close>

inductive dhcp_move :: "'w netif \<Rightarrow> lwip_dev \<Rightarrow> lwip_dev \<Rightarrow> bool" for nif where
  stay: "dhcp_move nif l l"
| search: "dhcpstatus l = 0 \<Longrightarrow> dhcp_move nif l (l\<lparr>dhcpstatus := 1\<rparr>)"
| take: "dhcpstatus l = 1 \<Longrightarrow> nif_ip nif \<noteq> 0 \<Longrightarrow>
    dhcp_move nif l (l\<lparr>dhcpstatus := 2, lw_ip := u32_bytes (nif_ip nif), lw_netmask := u32_bytes (nif_netmask nif),
      lw_gateway := u32_bytes (nif_gw nif)\<rparr>)"
| give_up: "dhcpstatus l = 1 \<Longrightarrow> nif_ip nif = 0 \<Longrightarrow> nif_tries nif = Some t \<Longrightarrow> 4 < t \<Longrightarrow>
    dhcp_move nif l (l\<lparr>dhcpstatus := 0xFF\<rparr>)"

lemma process_handle_move:
  assumes "lwip_dhcp_process_handle core s = Some s'"
  shows "dhcp_move (lw_netif s) (lw_dev s) (lw_dev s')"
proof -
  consider (start) "dhcpstatus (lw_dev s) = 0" | (got) "dhcpstatus (lw_dev s) = 1" "nif_ip (lw_netif s) \<noteq> 0"
    | (wait) "dhcpstatus (lw_dev s) = 1" "nif_ip (lw_netif s) = 0" | (final) "dhcpstatus (lw_dev s) \<notin> {0, 1}"
    by auto
  then show ?thesis
  proof cases
    case start
    then show ?thesis
      using assms by (auto simp: lwip_dhcp_process_handle_def intro: dhcp_move.search)
  next
    case got
    then have "s' = dhcp_take s"
      using assms by (simp add: lwip_dhcp_process_handle_def)
    then have "lw_dev s' = (lw_dev s)\<lparr>dhcpstatus := 2, lw_ip := u32_bytes (nif_ip (lw_netif s)),
        lw_netmask := u32_bytes (nif_netmask (lw_netif s)), lw_gateway := u32_bytes (nif_gw (lw_netif s))\<rparr>"
      by (simp add: dhcp_take_def Let_def)
    then show ?thesis
      using got by (simp add: dhcp_move.take)
  next
    case wait
    then obtain t where t: "nif_tries (lw_netif s) = Some t" "s' = (if 4 < t then dhcp_give_up s else s)"
      using assms by (auto simp: lwip_dhcp_process_handle_def split: option.splits if_splits)
    then have "lw_dev s' = (if 4 < t then (lw_dev s)\<lparr>dhcpstatus := 0xFF\<rparr> else lw_dev s)"
      by (auto simp: dhcp_give_up_def Let_def)
    then show ?thesis
      using wait t(1) by (auto intro: dhcp_move.stay dhcp_move.give_up)
  next
    case final
    then show ?thesis
      using assms by (simp add: lwip_dhcp_process_handle_def dhcp_move.stay)
  qed
qed

text \<open>The interface as a call of the periodic handler finds it when it looks for an address.\<close>

definition served_netif :: "'w lwip_core \<Rightarrow> 'w lwip_state \<Rightarrow> 'w netif" where
  "served_netif core s = dhcp_fine_tmr core (sys_check_timeouts core (lw_netif s))"

lemma dhcp_service_move: "dhcp_service core s = Some s' \<Longrightarrow> dhcp_move (lw_netif s) (lw_dev s) (lw_dev s')"
  by (auto simp: dhcp_service_def intro: process_handle_move dhcp_move.stay split: if_splits)

lemma periodic_fine_move:
  "periodic_fine env hw fuel core now s = Some s' \<Longrightarrow> dhcp_move (dhcp_fine_tmr core (lw_netif s)) (lw_dev s) (lw_dev s')"
  by (auto simp: periodic_fine_def Let_def intro: dhcp_move.stay dest!: dhcp_service_move split: if_splits bind_splits)

lemma periodic_move:
  "lwip_periodic_handle env hw fuel core now s = Some s' \<Longrightarrow> dhcp_move (served_netif core s) (lw_dev s) (lw_dev s')"
  using periodic_fine_move [of env hw fuel core now "s\<lparr>lw_netif := sys_check_timeouts core (lw_netif s)\<rparr>"]
  by (auto simp: lwip_periodic_handle_def periodic_coarse_def served_netif_def split: bind_splits)

lemma net_step_move: "net_step core s s' \<Longrightarrow> dhcp_move (served_netif core s) (lw_dev s) (lw_dev s')"
  by (erule net_stepE) (auto intro: dhcp_move.stay periodic_move)

lemma dhcp_move_final: "dhcp_move nif l l' \<Longrightarrow> dhcpstatus l \<in> {2, 0xFF} \<Longrightarrow> l' = l"
  by (induction rule: dhcp_move.induct) auto

text \<open>What the status says, in a state reached from \<open>s0\<close>: \<open>sA\<close> is the state in which the search ended.\<close>

definition search_ended :: "'w lwip_core \<Rightarrow> 'w lwip_state \<Rightarrow> 'w lwip_state \<Rightarrow> 'w lwip_state \<Rightarrow> bool" where
  "search_ended core s0 sA s \<longleftrightarrow> (net_step core)\<^sup>*\<^sup>* s0 sA \<and> (net_step core)\<^sup>*\<^sup>* sA s \<and> dhcpstatus (lw_dev sA) = 1"

definition dhcp_inv :: "'w lwip_core \<Rightarrow> 'w lwip_state \<Rightarrow> 'w lwip_state \<Rightarrow> bool" where
  "dhcp_inv core s0 s \<longleftrightarrow>
     dhcpstatus (lw_dev s) \<in> {0, 1} \<and> default_address (lw_dev s) \<or>
     dhcpstatus (lw_dev s) = 0xFF \<and> default_address (lw_dev s) \<and>
       (\<exists>sA t. search_ended core s0 sA s \<and> nif_ip (served_netif core sA) = 0 \<and>
          nif_tries (served_netif core sA) = Some t \<and> 4 < t) \<or>
     dhcpstatus (lw_dev s) = 2 \<and>
       (\<exists>sA. search_ended core s0 sA s \<and> nif_ip (served_netif core sA) \<noteq> 0 \<and>
          lw_ip (lw_dev s) = u32_bytes (nif_ip (served_netif core sA)) \<and>
          lw_netmask (lw_dev s) = u32_bytes (nif_netmask (served_netif core sA)) \<and>
          lw_gateway (lw_dev s) = u32_bytes (nif_gw (served_netif core sA)))"

lemma search_ended_step:
  "search_ended core s0 sA s \<Longrightarrow> net_step core s s' \<Longrightarrow> search_ended core s0 sA s'"
  unfolding search_ended_def by (meson rtranclp.rtrancl_into_rtrancl)

lemma dhcp_inv_step:
  assumes "dhcp_inv core s0 s" "net_step core s s'" "(net_step core)\<^sup>*\<^sup>* s0 s"
  shows "dhcp_inv core s0 s'"
  using net_step_move [OF assms(2)]
proof cases
  case stay
  then show ?thesis
    using assms(1) search_ended_step [OF _ assms(2)] unfolding dhcp_inv_def by metis
next
  case search
  then show ?thesis
    using assms(1) by (auto simp: dhcp_inv_def default_address_def)
next
  case take
  then have "search_ended core s0 s s'"
    using assms(2,3) by (auto simp: search_ended_def)
  then show ?thesis
    using take by (auto simp: dhcp_inv_def)
next
  case (give_up t)
  then have "search_ended core s0 s s'"
    using assms(2,3) by (auto simp: search_ended_def)
  then show ?thesis
    using give_up assms(1) by (auto simp: dhcp_inv_def default_address_def)
qed

lemma lwip_comm_init_inv:
  assumes "lwip_comm_init addr mempsize uid phy core n s = Some (0, n', s')"
  shows "dhcp_inv core s' s'" "dhcpstatus (lw_dev s') = 0"
proof -
  have "default_address (lw_dev s') \<and> dhcpstatus (lw_dev s') = 0"
    using assms
    by (auto simp: lwip_comm_init_def Let_def default_address_def lwip_comm_default_ip_set_def
        split: bind_splits if_splits prod.splits bool.splits)
  then show "dhcp_inv core s' s'" "dhcpstatus (lw_dev s') = 0"
    by (simp_all add: dhcp_inv_def)
qed

lemma net_steps_inv: "(net_step core)\<^sup>*\<^sup>* s s' \<Longrightarrow> dhcp_inv core s s \<Longrightarrow> dhcp_inv core s s'"
  by (induction rule: rtranclp_induct) (auto intro: dhcp_inv_step)

lemma net_steps_final:
  "(net_step core)\<^sup>*\<^sup>* s s' \<Longrightarrow> dhcpstatus (lw_dev s) \<in> {2, 0xFF} \<Longrightarrow> lw_dev s' = lw_dev s"
  by (induction rule: rtranclp_induct) (use dhcp_move_final net_step_move in fastforce)+

text \<open>
  C15. The DHCP state machine: in every state reached after \<open>lwip_comm_init\<close>, whatever the network does and
  whenever the main loop calls the handler, the status is 0, 1, 2 or 255. With 2, address, network mask and gateway kept are
  exactly those of the network interface, byte by byte from the lowest, at the call of the handler that ended the search, which found an
  address other than 0; with 255, the call that ended the search found no address after more than four tries, and with 0, 1 and 255
  the addresses are the default ones. From status 2 or 255 on nothing of this changes any more, so that \<open>main\<close> leaves its
  waiting loop for good.
\<close>

theorem dhcp_state_machine:
  assumes "lwip_comm_init addr mempsize uid phy core n s = Some (0, n', s0)" "(net_step core)\<^sup>*\<^sup>* s0 s1"
  shows "(dhcpstatus (lw_dev s1) \<in> {0, 1} \<and> default_address (lw_dev s1) \<or>
      dhcpstatus (lw_dev s1) = 0xFF \<and> default_address (lw_dev s1) \<and>
        (\<exists>sA t. search_ended core s0 sA s1 \<and> nif_ip (served_netif core sA) = 0 \<and>
          nif_tries (served_netif core sA) = Some t \<and> 4 < t) \<or>
      dhcpstatus (lw_dev s1) = 2 \<and>
        (\<exists>sA. search_ended core s0 sA s1 \<and> nif_ip (served_netif core sA) \<noteq> 0 \<and>
          lw_ip (lw_dev s1) = u32_bytes (nif_ip (served_netif core sA)) \<and>
          lw_netmask (lw_dev s1) = u32_bytes (nif_netmask (served_netif core sA)) \<and>
          lw_gateway (lw_dev s1) = u32_bytes (nif_gw (served_netif core sA)))) \<and>
    (dhcpstatus (lw_dev s1) \<in> {2, 0xFF} \<longrightarrow> (\<forall>s2. (net_step core)\<^sup>*\<^sup>* s1 s2 \<longrightarrow> lw_dev s2 = lw_dev s1))"
  using net_steps_inv [OF assms(2) lwip_comm_init_inv(1) [OF assms(1)]] net_steps_final [of core s1]
  unfolding dhcp_inv_def by blast

section \<open>Serving the ports\<close>

lemma dhcp_service_ports:
  assumes "nif_tries (lw_netif s) \<noteq> None"
  shows "\<exists>s'. dhcp_service core s = Some s' \<and> lw_ports s' = lw_ports s \<and> DHCPfineTimer s' = DHCPfineTimer s"
  using assms
  by (auto simp: dhcp_service_def lwip_dhcp_process_handle_def dhcp_take_def dhcp_give_up_def Let_def)

text \<open>Memory is one: what the receiver of port \<open>k\<close> has stored, every port sees.\<close>

definition one_memory :: "usart_port \<Rightarrow> ports \<Rightarrow> ports" where
  "one_memory k ps = (\<lambda>l. (ps l)\<lparr>mem := mem (ps k)\<rparr>)"

lemma port_ready_mem: "port_ready (p\<lparr>mem := m\<rparr>) = port_ready p"
  by (simp add: port_ready_def port_inv_def quiet_tx_def buffers_ok_def rx_live_def rx_stalled_def state_ok_def
      dma_fill_def rx_NDTR_def get_rx_def)

lemma tx_ready_free: "tx_ready p \<Longrightarrow> tx_free p"
  by (auto simp: tx_ready_def tx_calm_def rx_side_def tx_free_def tx_setup_def dma_lock_ok_def)

text \<open>What becomes of a transmission, from \<open>com_send_str\<close> on: of the message \<open>msg\<close>, at the address \<open>a\<close>, at every time a prefix has been written
  to the data register behind \<open>log0\<close>; without an idle line on that port all of it when the port is free again, and that is reached.\<close>

definition sends_message :: "hw_env \<Rightarrow> u32 \<Rightarrow> u8 list \<Rightarrow> u32 list \<Rightarrow> bool \<Rightarrow> 'f STUsart \<Rightarrow> bool" where
  "sends_message env a msg log0 calm p \<longleftrightarrow>
     (\<forall>es q. tx_run env (tx_source a (length msg)) p es q \<longrightarrow>
        (\<exists>j \<le> length msg. tx_log q = log0 @ map ucast (take j msg)) \<and>
        (calm \<and> RxIdle \<notin> set es \<longrightarrow>
          (gState q = HAL_UART_STATE_READY \<longrightarrow> tx_log q = log0 @ map ucast msg) \<and>
          (\<exists>fs r. tx_run env (tx_source a (length msg)) q fs r \<and> RxIdle \<notin> set fs \<and> tx_ready r \<and>
             tx_log r = log0 @ map ucast msg)))"

lemma com_send_str_sends_message:
  assumes "tx_ready (hw 0 p)" "a \<noteq> 0" "msg \<noteq> []" "length msg < 50" "stream_stops env"
    and send: "com_send_str env hw (Suc fuel) p a (of_nat (length msg)) = Some (st, q0)"
    and m: "read_bytes (mem (hw 0 p)) a (length msg) = msg"
  shows "sends_message env a msg (tx_log (hw 0 p)) (\<not> HAL_IS_BIT_SET (SR (hw 0 p)) USART_SR_IDLE) q0"
  unfolding sends_message_def
proof (intro allI impI)
  fix es q assume run: "tx_run env (tx_source a (length msg)) q0 es q"
  have u: "unat (of_nat (length msg) :: u16) = length msg"
    using assms(4) by (simp add: unat_of_nat)
  then have n: "(of_nat (length msg) :: u16) \<noteq> 0"
    using assms(3) by (metis length_0_conv unat_0)
  let ?i = "\<not> no_idle_line (hw 0 p) es"
  have inv: "tx_inv a msg (tx_log (hw 0 p)) ?i q"
    using transmission_inv [OF assms(1,2) n assms(5) send, of es q] run m by (simp add: u)
  show "(\<exists>j \<le> length msg. tx_log q = tx_log (hw 0 p) @ map ucast (take j msg)) \<and>
    (\<not> HAL_IS_BIT_SET (SR (hw 0 p)) USART_SR_IDLE \<and> RxIdle \<notin> set es \<longrightarrow>
      (gState q = HAL_UART_STATE_READY \<longrightarrow> tx_log q = tx_log (hw 0 p) @ map ucast msg) \<and>
      (\<exists>fs r. tx_run env (tx_source a (length msg)) q fs r \<and> RxIdle \<notin> set fs \<and> tx_ready r \<and>
         tx_log r = tx_log (hw 0 p) @ map ucast msg))"
    using tx_inv_prefix [OF inv] tx_inv_ready [OF inv] tx_inv_ends [OF inv assms(5), of "tx_source a (length msg)"]
    unfolding no_idle_line_def tx_leads_def by blast
qed

text \<open>
  C5. A message is forwarded in time, when nothing else is going on: let a message of 1 to 49 bytes wait at a port other than port 1, the other
  ports be between messages and port 1's transmitter be free. The first \<open>lwip_periodic_handle\<close> at least 500 ms after the last one that
  served the ports, with the clock's wrap-around, hands it to port 1: from then on port 1 writes the bytes of the message, from the
  buffer of the other port, to its data register, at every time a prefix of it, as long as that buffer is not
  written; and unless an idle line comes on port 1 itself it writes all of it before it is free, and gets there.
  The port the message came from is ready for the next one, and the other ports are untouched. Earlier calls leave
  the ports alone.
\<close>

theorem message_forwarded_in_time:
  assumes "\<And>l. port_ready (ps l)" "func (ps k) \<noteq> None" "k \<noteq> usart1" "stream_stops env" "msg \<noteq> []" "length msg < 50"
    and "lw_ports s = one_memory k (ps(k := receive_message env msg (ps k)))"
    and "tx_ready (hw 0 (lw_ports s usart1))" "port_ready (hw 0 (lw_ports s usart1))"
    and "mem (hw 0 (lw_ports s usart1)) = mem (lw_ports s usart1)"
    and "nif_tries (dhcp_fine_tmr core (sys_check_timeouts core (lw_netif s))) \<noteq> None"
  shows "if 500 \<le> now - DHCPfineTimer s
    then \<exists>s'. lwip_periodic_handle env hw (Suc fuel) core now s = Some s' \<and> DHCPfineTimer s' = now \<and>
      port_ready (lw_ports s' k) \<and> (\<forall>l. l \<notin> {k, usart1} \<longrightarrow> lw_ports s' l = lw_ports s l) \<and>
      gState (lw_ports s' usart1) = HAL_UART_STATE_BUSY_TX \<and>
      sends_message env (buff (lw_ports s' k)) msg (tx_log (hw 0 (lw_ports s usart1)))
        (\<not> HAL_IS_BIT_SET (SR (hw 0 (lw_ports s usart1))) USART_SR_IDLE) (lw_ports s' usart1)
    else \<exists>s'. lwip_periodic_handle env hw (Suc fuel) core now s = Some s' \<and> lw_ports s' = lw_ports s \<and>
      DHCPfineTimer s' = DHCPfineTimer s"
proof (cases "500 \<le> now - DHCPfineTimer s")
  case False
  then show ?thesis
    by (simp add: lwip_periodic_handle_def periodic_fine_def periodic_coarse_def Let_def)
next
  case True
  let ?s = "s\<lparr>DHCPfineTimer := now, lw_netif := dhcp_fine_tmr core (sys_check_timeouts core (lw_netif s))\<rparr>"
  obtain s1 where s1: "dhcp_service core ?s = Some s1" "lw_ports s1 = lw_ports s" "DHCPfineTimer s1 = now"
    using dhcp_service_ports [of ?s core] assms(11) by auto
  let ?m = "mem (receive_message env msg (ps k))"
  define qs where "qs = (\<lambda>l. (ps l)\<lparr>mem := ?m\<rparr>)(k := ps k)"
  have qs: "lw_ports s = qs(k := receive_message env msg (qs k))"
    unfolding assms(7) one_memory_def qs_def by (intro ext) simp
  have ready: "port_ready (qs l)" "func (qs k) \<noteq> None" "qs usart1 = lw_ports s usart1" for l
    using assms(1,2,3) by (simp_all add: qs_def qs port_ready_mem)
  have "\<exists>as bs. [usart2, usart1, usart3, usart4, usart6, usart5] = as @ k # bs"
    using split_list [of k "[usart2, usart1, usart3, usart4, usart6, usart5]"] by (cases k) auto
  then obtain as bs where l: "[usart2, usart1, usart3, usart4, usart6, usart5] = as @ k # bs"
    by blast
  have "distinct (as @ k # bs)"
    unfolding l [symmetric] by simp
  moreover have "tx_free (hw 0 (qs usart1))" "rx_idle (hw 0 (qs usart1))"
    unfolding ready(3) using tx_ready_free [OF assms(8)] port_ready_idle [OF assms(9)] .
  ultimately obtain q p' where m: "lwip_periodic_ports env hw (Suc fuel) (lw_ports s1) = Some (qs(usart1 := q, k := p'))"
    and r: "port_ready p'" "read_bytes (mem p') (buff p') (length msg) = msg" "gState q = HAL_UART_STATE_BUSY_TX"
    "mem p' = mem (receive_message env msg (qs k))" "buff p' \<noteq> 0"
    "com_send_str env hw (Suc fuel) (lw_ports s usart1) (buff p') (of_nat (length msg)) = Some (HAL_OK, q)"
    using manage_ports_forward [where hw = hw and fuel = fuel and env = env and msg = msg and ps = qs,
        OF ready(1,2) assms(3-6)]
    unfolding lwip_periodic_ports_def l s1(2) qs [symmetric] ready(3) by blast
  have "read_bytes (mem (hw 0 (lw_ports s usart1))) (buff p') (length msg) = msg"
    using r(2,4) assms(3) unfolding assms(10) by (simp add: qs qs_def)
  from com_send_str_sends_message [OF assms(8) r(5) assms(5,6,4) r(6) this]
  have sends: "sends_message env (buff p') msg (tx_log (hw 0 (lw_ports s usart1)))
    (\<not> HAL_IS_BIT_SET (SR (hw 0 (lw_ports s usart1))) USART_SR_IDLE) q" .
  have e: "lwip_periodic_handle env hw (Suc fuel) core now s =
      Some (periodic_coarse core now (s1\<lparr>lw_ports := qs(usart1 := q, k := p')\<rparr>))"
    using True by (simp add: lwip_periodic_handle_def periodic_fine_def s1(1) m)
  have c: "lw_ports (periodic_coarse core now t) = lw_ports t" "DHCPfineTimer (periodic_coarse core now t) = DHCPfineTimer t" for t
    by (simp_all add: periodic_coarse_def)
  have "\<forall>l. l \<notin> {k, usart1} \<longrightarrow> (qs(usart1 := q, k := p')) l = lw_ports s l"
    by (simp add: qs)
  then show ?thesis
    using True r(1,3) sends s1(3) assms(3) unfolding e by (auto simp: c)
qed

section \<open>Examples\<close>

lemma ports_started_idle: "lwip_periodic_ports env hw fuel ports_started = Some ports_started"
  unfolding lwip_periodic_ports_def by (rule manage_ports_idle) (blast intro: ports_started_ready(1) port_ready_idle)

text \<open>The search begins 500 ms after the start, the server answers with 192.168.0.7, and the next call takes the address.\<close>

theorem dhcp_state_machine_witness:
  "\<exists>s0 s1. lwip_comm_init (\<lambda>_. 0x20000100) 15000 0 (\<lambda>_. 0) net_core_example 0 net_example = Some (0, 1, s0) \<and>
     (net_step net_core_example)\<^sup>*\<^sup>* s0 s1 \<and> dhcpstatus (lw_dev s1) = 2 \<and> lw_ip (lw_dev s1) = [192, 168, 0, 7] \<and>
     lw_netmask (lw_dev s1) = [255, 255, 255, 0] \<and> lw_gateway (lw_dev s1) = [192, 168, 0, 1] \<and>
     (\<forall>s2. (net_step net_core_example)\<^sup>*\<^sup>* s1 s2 \<longrightarrow> lw_dev s2 = lw_dev s1)"
proof -
  let ?c = net_core_example
  have t: "top_free 1024 (lw_heap net_example)"
    by (simp add: net_example_def top_free_init)
  have p: "phy_loop (\<lambda>_. 0) 0 0 = (True, 1)"
    by (simp add: phy_loop_ok)
  obtain s0 where i: "lwip_comm_init (\<lambda>_. 0x20000100) 15000 0 (\<lambda>_. 0) ?c 0 net_example = Some (0, 1, s0)"
    and s0: "lw_ports s0 = ports_started" "DHCPfineTimer s0 = 0" "dhcpstatus (lw_dev s0) = 0"
    using lwip_comm_init_top [where addr = "\<lambda>_. 0x20000100" and phy = "\<lambda>_. 0" and k = 0 and uid = 0 and core = ?c
        and mempsize = 15000, OF t]
    unfolding p by (auto simp: net_core_example_def net_example_def lwip_comm_default_ip_set_def)
  obtain s1 where s1: "lwip_periodic_handle env_example (\<lambda>_ p. p) 1 ?c 500 s0 = Some s1"
    "lw_ports s1 = ports_started" "DHCPfineTimer s1 = 500" "dhcpstatus (lw_dev s1) = 1"
    using s0 by (simp add: lwip_periodic_handle_def periodic_fine_def periodic_coarse_def dhcp_service_def
        lwip_dhcp_process_handle_def ports_started_idle Let_def)
  let ?s1 = "s1\<lparr>lw_netif := \<lparr>nif_ip = 0x0700A8C0, nif_netmask = 0x00FFFFFF, nif_gw = 0x0100A8C0,
      nif_tries = Some 1, nif_stack = ()\<rparr>\<rparr>"
  obtain s2 where s2: "lwip_periodic_handle env_example (\<lambda>_ p. p) 1 ?c 1000 ?s1 = Some s2"
    "dhcpstatus (lw_dev s2) = 2" "lw_ip (lw_dev s2) = [192, 168, 0, 7]" "lw_netmask (lw_dev s2) = [255, 255, 255, 0]"
    "lw_gateway (lw_dev s2) = [192, 168, 0, 1]"
    using s1 by (simp add: lwip_periodic_handle_def periodic_fine_def periodic_coarse_def dhcp_service_def
        lwip_dhcp_process_handle_def dhcp_take_def net_core_example_def ports_started_idle u32_bytes_def Let_def)
  have "net_step ?c s0 s1" "net_step ?c s1 ?s1" "net_step ?c ?s1 s2"
    by (rule net_step.periodic [OF s1(1)], rule net_step.net, rule net_step.periodic [OF s2(1)])
  then have r: "(net_step ?c)\<^sup>*\<^sup>* s0 s2"
    by (meson rtranclp.rtrancl_into_rtrancl rtranclp.rtrancl_refl)
  have "dhcpstatus (lw_dev s2) \<in> {2, 0xFF}"
    using s2(2) by simp
  then have "\<forall>s3. (net_step ?c)\<^sup>*\<^sup>* s2 s3 \<longrightarrow> lw_dev s3 = lw_dev s2"
    using dhcp_state_machine [OF i r] by (elim conjE mp)
  then show ?thesis
    using i r s2(2-5) by (intro exI conjI)
qed

text \<open>Port 2 has received the two bytes of \<open>Hi\<close>, 500 ms after the start.\<close>

definition net_message :: "unit lwip_state" where
  "net_message = net_example\<lparr>
     lw_ports := one_memory usart2 (ports_started(usart2 := receive_message env_example [72, 105] (ports_started usart2))),
     lw_netif := (lw_netif net_example)\<lparr>nif_tries := Some 0\<rparr>\<rparr>"

lemma net_message_ready: "port_ready (lw_ports net_message usart1)" "tx_ready (lw_ports net_message usart1)"
  using ports_started_ready(1,4) [of usart1]
  by (simp_all add: net_message_def one_memory_def port_ready_mem tx_ready_def tx_calm_def rx_side_def)

theorem message_forwarded_in_time_witness:
  "\<exists>s. lwip_periodic_handle env_example (\<lambda>_ p. p) 1 net_core_example 500 net_message = Some s \<and>
     port_ready (lw_ports s usart2) \<and>
     sends_message env_example (buff (lw_ports s usart2)) [72, 105] (tx_log (lw_ports net_message usart1))
       (\<not> HAL_IS_BIT_SET (SR (lw_ports net_message usart1)) USART_SR_IDLE) (lw_ports s usart1)"
  using message_forwarded_in_time [where ps = ports_started and k = usart2 and msg = "[72, 105]" and fuel = 0
      and hw = "\<lambda>_ p. p" and now = 500 and core = net_core_example and s = net_message,
      OF ports_started_ready(1,2) _ env_example_stops _ _ _ net_message_ready(2,1)]
  by (auto simp: net_message_def net_core_example_def net_example_def)

end
