(* ===== verification/UsmartStr.thy ===== *)
theory UsmartStr
  imports Prelude "HOL-Library.Monad_Syntax"
begin

text \<open>
  The text functions of the debugging shell, USMART/usmart_str.c: they split a command line into a
  function name and its parameters, and convert the parameters.

  A pointer to text is the list of the bytes from it to the end of the array it points into; an increment
  is the tail. The outermost \<open>option\<close> is \<open>None\<close> when the code reads or writes beyond the end of an array. Text
  that is written through a pointer is returned as the list of the bytes written.
\<close>

section \<open>Constants (usmart.h) and characters\<close>

abbreviation MAX_PARM :: nat where "MAX_PARM \<equiv> 10"
abbreviation PARM_LEN :: nat where "PARM_LEN \<equiv> 200"
abbreviation USMART_OK :: u8 where "USMART_OK \<equiv> 0"
abbreviation USMART_FUNCERR :: u8 where "USMART_FUNCERR \<equiv> 1"
abbreviation USMART_PARMERR :: u8 where "USMART_PARMERR \<equiv> 2"
abbreviation USMART_PARMOVER :: u8 where "USMART_PARMOVER \<equiv> 3"
abbreviation USMART_NOFUNCFIND :: u8 where "USMART_NOFUNCFIND \<equiv> 4"

abbreviation ch_nul :: u8 where "ch_nul \<equiv> 0"
abbreviation ch_space :: u8 where "ch_space \<equiv> 32"
abbreviation ch_quote :: u8 where "ch_quote \<equiv> 34"
abbreviation ch_open :: u8 where "ch_open \<equiv> 40"
abbreviation ch_close :: u8 where "ch_close \<equiv> 41"
abbreviation ch_star :: u8 where "ch_star \<equiv> 42"
abbreviation ch_comma :: u8 where "ch_comma \<equiv> 44"
abbreviation ch_0 :: u8 where "ch_0 \<equiv> 48"
abbreviation ch_9 :: u8 where "ch_9 \<equiv> 57"
abbreviation ch_A :: u8 where "ch_A \<equiv> 65"
abbreviation ch_F :: u8 where "ch_F \<equiv> 70"
abbreviation ch_X :: u8 where "ch_X \<equiv> 88"
abbreviation ch_backslash :: u8 where "ch_backslash \<equiv> 92"
abbreviation ch_a :: u8 where "ch_a \<equiv> 97"
abbreviation ch_f :: u8 where "ch_f \<equiv> 102"
abbreviation ch_x :: u8 where "ch_x \<equiv> 120"

text \<open>The text \<open>"void"\<close> with its terminator.\<close>

abbreviation str_void :: "u8 list" where "str_void \<equiv> [118, 111, 105, 100, 0]"

section \<open>Strings\<close>

fun usmart_strcmp :: "u8 list \<Rightarrow> u8 list \<Rightarrow> u8 option" where
  "usmart_strcmp (c # str1) (d # str2) =
     (if c \<noteq> d then Some 1 else if c = ch_nul then Some 0 else usmart_strcmp str1 str2)"
| "usmart_strcmp _ _ = None"

text \<open>The array \<open>str2\<close> points into, from there on, after the copy.\<close>

fun usmart_strcopy :: "u8 list \<Rightarrow> u8 list \<Rightarrow> u8 list option" where
  "usmart_strcopy (c # str1) (d # str2) =
     (if c = ch_nul then Some (c # str2)
      else do { rest \<leftarrow> usmart_strcopy str1 str2; Some (c # rest) })"
| "usmart_strcopy _ _ = None"

fun strlen_loop :: "u8 list \<Rightarrow> u8 \<Rightarrow> u8 option" where
  "strlen_loop [] len = None"
| "strlen_loop (c # str) len = (if c = ch_nul then Some len else strlen_loop str (len + 1))"

definition usmart_strlen :: "u8 list \<Rightarrow> u8 option" where
  "usmart_strlen str = strlen_loop str 0"

section \<open>Numbers\<close>

fun pow_loop :: "u8 \<Rightarrow> nat \<Rightarrow> u32 \<Rightarrow> u32" where
  "pow_loop m 0 result = result"
| "pow_loop m (Suc n) result = pow_loop m n (result * ucast m)"

definition usmart_pow :: "u8 \<Rightarrow> u8 \<Rightarrow> u32" where
  "usmart_pow m n = pow_loop m (unat n) 1"

text \<open>The first loop of \<open>usmart_str2num\<close>: \<open>bnum\<close> and \<open>hexdec\<close>, or \<open>None\<close> inside for the return of 1.\<close>

fun scan_number :: "u8 list \<Rightarrow> u8 \<Rightarrow> u8 \<Rightarrow> (u8 \<times> u8) option option" where
  "scan_number [] bnum hexdec = None"
| "scan_number (c # p) bnum hexdec =
     (if c \<le> ch_9 \<and> ch_0 \<le> c \<or> c \<le> ch_F \<and> ch_A \<le> c \<or> c = ch_X \<and> bnum = 1 then
        scan_number p (bnum + 1) (if ch_A \<le> c then 16 else hexdec)
      else if c = ch_nul then Some (Some (bnum, hexdec))
      else Some None)"

text \<open>The second loop.\<close>

fun add_digits :: "u8 list \<Rightarrow> u8 \<Rightarrow> u8 \<Rightarrow> u32 \<Rightarrow> u32 option" where
  "add_digits [] hexdec bnum res = None"
| "add_digits (c # p) hexdec bnum res =
     (let bnum = (if bnum \<noteq> 0 then bnum - 1 else bnum);
          t = (if c \<le> ch_9 \<and> ch_0 \<le> c then ucast c - 48 else ucast c - 65 + 10);
          res = res + t * usmart_pow hexdec bnum
      in case p of
           [] \<Rightarrow> None
         | d # _ \<Rightarrow> if d = ch_nul then Some res else add_digits p hexdec bnum res)"

text \<open>The result code and \<open>*res\<close>.\<close>

definition usmart_str2num :: "u8 list \<Rightarrow> (u8 \<times> u32) option" where
  "usmart_str2num str = do {
     r \<leftarrow> scan_number str 0 10;
     case r of
       None \<Rightarrow> Some (1, 0)
     | Some (bnum, hexdec) \<Rightarrow>
         if hexdec = 16 then
           (if bnum < 3 then Some (2, 0)
            else (case str of
                    c # d # p \<Rightarrow>
                      if c = ch_0 \<and> d = ch_X
                      then do { res \<leftarrow> add_digits p hexdec (bnum - 2) 0; Some (0, res) }
                      else Some (3, 0)
                  | _ \<Rightarrow> None))
         else if bnum = 0 then Some (4, 0)
         else do { res \<leftarrow> add_digits str hexdec bnum 0; Some (0, res) }
   }"

section \<open>Command names\<close>

text \<open>The result code, the bytes written to \<open>cmdname\<close>, and \<open>*nlen\<close>.\<close>

fun cmdname_loop :: "u8 \<Rightarrow> u8 list \<Rightarrow> u8 list \<Rightarrow> u8 \<Rightarrow> (u8 \<times> u8 list \<times> u8) option" where
  "cmdname_loop maxlen [] cmdname nlen = None"
| "cmdname_loop maxlen (c # str) cmdname nlen =
     (if c \<noteq> ch_space \<and> c \<noteq> ch_nul then
        (let cmdname = cmdname @ [c]; nlen = nlen + 1
         in if maxlen \<le> nlen then Some (1, cmdname, nlen) else cmdname_loop maxlen str cmdname nlen)
      else Some (0, cmdname @ [ch_nul], nlen))"

definition usmart_get_cmdname :: "u8 list \<Rightarrow> u8 \<Rightarrow> (u8 \<times> u8 list \<times> u8) option" where
  "usmart_get_cmdname str maxlen = cmdname_loop maxlen str [] 0"

text \<open>The pointer, not the byte, is compared with \<open>'\0'\<close>, so only a byte that is no space ends the loop.\<close>

fun skip_spaces :: "u8 list \<Rightarrow> u8 option" where
  "skip_spaces [] = None"
| "skip_spaces (c # str) = (if c = ch_space then skip_spaces str else Some c)"

definition usmart_search_nextc :: "u8 list \<Rightarrow> u8 option" where
  "usmart_search_nextc str = (case str of [] \<Rightarrow> None | _ # str \<Rightarrow> skip_spaces str)"

section \<open>Function names\<close>

text \<open>The first loop: the first characters of the return type, and \<open>pcnt\<close>.\<close>

fun fname_type :: "u8 list \<Rightarrow> u8 list \<Rightarrow> u8 \<Rightarrow> (u8 list \<times> u8) option" where
  "fname_type [] fpname pcnt = None"
| "fname_type (c # strtemp) fpname pcnt =
     (if c = ch_nul then Some (fpname, pcnt)
      else if c \<noteq> ch_space \<and> pcnt AND 0x7F < 5 then
        (let pcnt = (if pcnt = 0 then pcnt OR 0x80 else pcnt)
         in if pcnt AND 0x7F = 4 \<and> c \<noteq> ch_star then Some (fpname, pcnt)
            else fname_type strtemp (fpname @ [c]) (pcnt + 1))
      else if pcnt = 0x85 then Some (fpname, pcnt)
      else fname_type strtemp fpname pcnt)"

text \<open>The second loop: \<open>offset\<close>.\<close>

fun fname_offset :: "u8 list \<Rightarrow> u8 \<Rightarrow> u8 \<Rightarrow> u8 option" where
  "fname_offset [] res offset = None"
| "fname_offset (c # strtemp) res offset =
     (if c \<noteq> ch_open \<and> c \<noteq> ch_nul then
        (let res = res + 1
         in case strtemp of
              [] \<Rightarrow> None
            | d # _ \<Rightarrow>
                if d = ch_space \<or> d = ch_star then
                  do { nchar \<leftarrow> usmart_search_nextc strtemp;
                       fname_offset strtemp res (if nchar \<noteq> ch_open \<and> nchar \<noteq> ch_star then res else offset) }
                else fname_offset strtemp res offset)
      else Some offset)"

text \<open>The third loop. \<open>nchar\<close> is True inside a quoted string.\<close>

record fname_state =
  fs_res :: u8
  fs_fover :: u8
  fs_nchar :: bool
  fs_fname :: "u8 list"
  fs_pcnt :: u8
  fs_fplcnt :: u8
  fs_fpname :: "u8 list"
  fs_temp :: u8
  fs_parmnum :: u8

text \<open>The brackets: the flag is True for \<open>break\<close>.\<close>

definition fname_bracket :: "u8 \<Rightarrow> fname_state \<Rightarrow> bool \<times> fname_state" where
  "fname_bracket c f =
     (if c = ch_open \<and> \<not> fs_nchar f then (False, f\<lparr>fs_fover := fs_fover f + 1\<rparr>)
      else if c = ch_close \<and> \<not> fs_nchar f then
        (let f = (if fs_fover f \<noteq> 0 then f\<lparr>fs_fover := fs_fover f - 1\<rparr> else f\<lparr>fs_res := USMART_FUNCERR\<rparr>)
         in (fs_fover f = 0, f))
      else if c = ch_quote then (False, f\<lparr>fs_nchar := \<not> fs_nchar f\<rparr>)
      else (False, f))"

text \<open>The character in the name or in the parameters; a name is written without any limit.\<close>

definition fname_char :: "u8 \<Rightarrow> fname_state \<Rightarrow> fname_state" where
  "fname_char c f =
     (if fs_fover f = 0 then (if c \<noteq> ch_space then f\<lparr>fs_fname := fs_fname f @ [c]\<rparr> else f)
      else
        (let f = (if c = ch_comma then f\<lparr>fs_temp := 1, fs_pcnt := fs_pcnt f + 1\<rparr>
                  else if c \<noteq> ch_space \<and> c \<noteq> ch_open then
                    (let f = (if fs_pcnt f = 0 \<and> fs_fplcnt f < 5
                              then f\<lparr>fs_fpname := fs_fpname f @ [c], fs_fplcnt := fs_fplcnt f + 1\<rparr> else f)
                     in f\<lparr>fs_temp := fs_temp f + 1\<rparr>)
                  else f)
         in if fs_fover f = 1 \<and> fs_temp f = 2
            then f\<lparr>fs_temp := fs_temp f + 1, fs_parmnum := fs_parmnum f + 1\<rparr> else f))"

fun fname_loop :: "u8 list \<Rightarrow> fname_state \<Rightarrow> fname_state option" where
  "fname_loop [] f = None"
| "fname_loop (c # strtemp) f =
     (if c = ch_nul then Some (f\<lparr>fs_res := USMART_FUNCERR\<rparr>)
      else (case fname_bracket c f of
              (True, f) \<Rightarrow> Some f
            | (False, f) \<Rightarrow> fname_loop strtemp (fname_char c f)))"

text \<open>The result code, the bytes written to \<open>fname\<close>, \<open>*pnum\<close>, and \<open>*rval\<close> after the call; \<open>cap\<close> is the
  size of the array \<open>fname\<close>.\<close>

definition usmart_get_fname :: "nat \<Rightarrow> u8 list \<Rightarrow> u8 \<Rightarrow> (u8 \<times> u8 list \<times> u8 \<times> u8) option" where
  "usmart_get_fname cap str rval = do {
     (fpname, pcnt) \<leftarrow> fname_type str [] 0;
     rval \<leftarrow> (if pcnt \<noteq> 0
              then do { e \<leftarrow> usmart_strcmp (fpname @ [ch_nul]) str_void; Some (if e = 0 then 0 else 1) }
              else Some rval);
     offset \<leftarrow> fname_offset str 0 0;
     f \<leftarrow> fname_loop (if offset \<noteq> 0 then drop (unat offset + 1) str else str)
           \<lparr>fs_res = 0, fs_fover = 0, fs_nchar = False, fs_fname = [], fs_pcnt = 0, fs_fplcnt = 0,
            fs_fpname = [], fs_temp = 1, fs_parmnum = 0\<rparr>;
     parmnum \<leftarrow> (if fs_parmnum f = 1
                 then do { e \<leftarrow> usmart_strcmp (fs_fpname f @ [ch_nul]) str_void; Some (if e = 0 then 0 else 1) }
                 else Some (fs_parmnum f));
     if length (fs_fname f) < cap then Some (fs_res f, fs_fname f @ [ch_nul], parmnum, rval) else None
   }"

section \<open>Parameters\<close>

text \<open>\<open>ptype\<close>: 0 a number, 1 a string, 0xFF neither.\<close>

definition aparm_digit :: "u8 \<Rightarrow> bool" where
  "aparm_digit c \<longleftrightarrow> ch_0 \<le> c \<and> c \<le> ch_9 \<or> ch_a \<le> c \<and> c \<le> ch_f \<or> ch_A \<le> c \<and> c \<le> ch_F \<or> c = ch_X \<or> c = ch_x"

text \<open>The offset of the next parameter, the bytes written to \<open>fparm\<close>, and \<open>*ptype\<close>. \<open>type\<close> is 0 or 1 in the loop.\<close>

fun aparm_loop :: "u8 list \<Rightarrow> u8 \<Rightarrow> bool \<Rightarrow> u8 \<Rightarrow> bool \<Rightarrow> u8 list \<Rightarrow> (u8 \<times> u8 list \<times> u8) option" where
  "aparm_loop [] i enout type inside fparm = None"
| "aparm_loop (c # str) i enout type inside fparm =
     (let enout = (enout \<or> c = ch_comma \<and> \<not> inside)
      in if (c = ch_close \<or> c = ch_nul) \<and> \<not> inside then Some (i, fparm @ [ch_nul], type)
         else if type = 0 then
           (if aparm_digit c then
              (if enout then Some (i, fparm @ [ch_nul], type)
               else aparm_loop str (i + 1) enout type inside (fparm @ [if ch_a \<le> c then c - 0x20 else c]))
            else if c = ch_quote then
              (if enout then Some (i, fparm @ [ch_nul], type)
               else aparm_loop str (i + 1) enout 1 True fparm)
            else if c \<noteq> ch_space \<and> c \<noteq> ch_comma then Some (i, fparm @ [ch_nul], 0xFF)
            else aparm_loop str (i + 1) enout type inside fparm)
         else
           (let inside = (if c = ch_quote then False else inside)
            in if enout then Some (i, fparm @ [ch_nul], type)
               else if inside then
                 (if c = ch_backslash then
                    (case str of
                       [] \<Rightarrow> None
                     | d # str \<Rightarrow> aparm_loop str (i + 1 + 1) enout type inside (fparm @ [d]))
                  else aparm_loop str (i + 1) enout type inside (fparm @ [c]))
               else aparm_loop str (i + 1) enout type inside fparm))"

definition usmart_get_aparm :: "nat \<Rightarrow> u8 list \<Rightarrow> (u8 \<times> u8 list \<times> u8) option" where
  "usmart_get_aparm cap str = do {
     (i, fparm, ptype) \<leftarrow> aparm_loop str 0 False 0 False [];
     if length fparm \<le> cap then Some (i, fparm, ptype) else None
   }"

text \<open>\<open>_m_usmart_dev\<close>, less its four function pointers; \<open>funs\<close> is the table of the functions that can be called,
  the entry point and the text of the declaration of each.\<close>

record m_usmart_dev =
  funs :: "(u32 \<times> u8 list) list"
  fnum :: u8
  pnum :: u8
  func_id :: u8
  sptype :: u8
  parmtype :: u16
  plentbl :: "u8 list"
  parm :: "u8 list"
  runtimeflag :: u8
  runtime :: u32

fun parmpos_loop :: "u8 list \<Rightarrow> nat \<Rightarrow> u8 \<Rightarrow> u8 option" where
  "parmpos_loop tbl 0 temp = Some temp"
| "parmpos_loop [] (Suc n) temp = None"
| "parmpos_loop (l # tbl) (Suc n) temp = parmpos_loop tbl n (temp + l)"

definition usmart_get_parmpos :: "m_usmart_dev \<Rightarrow> u8 \<Rightarrow> u8 option" where
  "usmart_get_parmpos dev num = parmpos_loop (plentbl dev) (unat num) 0"

text \<open>Writes into the two arrays.\<close>

definition store_list :: "nat \<Rightarrow> u8 list \<Rightarrow> u8 list \<Rightarrow> u8 list option" where
  "store_list pos new xs =
     (if pos + length new \<le> length xs then Some (take pos xs @ new @ drop (pos + length new) xs) else None)"

text \<open>The two cases of the \<open>switch\<close> that store a parameter.\<close>

definition fparam_number :: "u8 \<Rightarrow> u32 \<Rightarrow> m_usmart_dev \<Rightarrow> m_usmart_dev option" where
  "fparam_number n res dev = do {
     pos \<leftarrow> usmart_get_parmpos dev n;
     pm \<leftarrow> store_list (unat pos) (u32_bytes res) (parm dev);
     tbl \<leftarrow> store_list (unat n) [4] (plentbl dev);
     Some (dev\<lparr>parm := pm, parmtype := parmtype dev AND NOT (push_bit (unat n) 1), plentbl := tbl\<rparr>)
   }"

definition fparam_string :: "u8 \<Rightarrow> u8 list \<Rightarrow> m_usmart_dev \<Rightarrow> m_usmart_dev option" where
  "fparam_string n tstr dev = do {
     l \<leftarrow> usmart_strlen tstr;
     pos \<leftarrow> usmart_get_parmpos dev n;
     pm \<leftarrow> usmart_strcopy tstr (drop (unat pos) (parm dev));
     tbl \<leftarrow> store_list (unat n) [l + 1] (plentbl dev);
     Some (dev\<lparr>parm := take (unat pos) (parm dev) @ pm,
               parmtype := parmtype dev OR push_bit (unat n) 1, plentbl := tbl\<rparr>)
   }"

text \<open>The loop over the parameters. It goes on from the offset \<open>i\<close>; \<open>fuel\<close> bounds the rounds (an offset
  of 0 would make it run for ever). \<open>None\<close> is an access behind an array, or a loop still running: the property
  \<open>parameter_limit\<close> tells the two apart by quantifying over the fuel. The number of parameters is
  compared with \<open>MAX_PARM\<close> only after the eleventh length was stored, which the table of the program has no room for; the test is
  live on a longer table.\<close>

fun fparam_loop :: "nat \<Rightarrow> u8 list \<Rightarrow> u8 \<Rightarrow> m_usmart_dev \<Rightarrow> (u8 \<times> u8 \<times> m_usmart_dev) option" where
  "fparam_loop 0 str n dev = None"
| "fparam_loop (Suc fuel) str n dev = do {
     (i, tstr, type) \<leftarrow> usmart_get_aparm (PARM_LEN + 1) str;
     let str = drop (unat i) str;
     let next = (\<lambda>n dev. (case str of
           [] \<Rightarrow> None
         | c # _ \<Rightarrow> if c = ch_close \<or> c = ch_nul then Some (USMART_OK, n, dev) else fparam_loop fuel str n dev));
     if type = 0 then
       (if tstr ! 0 \<noteq> ch_nul then do {
          (e, res) \<leftarrow> usmart_str2num tstr;
          if e \<noteq> 0 then Some (USMART_PARMERR, n, dev)
          else do {
            dev \<leftarrow> fparam_number n res dev;
            if unat (n + 1) > MAX_PARM then Some (USMART_PARMOVER, n + 1, dev) else next (n + 1) dev
          }
        }
        else next n dev)
     else if type = 1 then do {
       dev \<leftarrow> fparam_string n tstr dev;
       if unat (n + 1) > MAX_PARM then Some (USMART_PARMOVER, n + 1, dev) else next (n + 1) dev
     }
     else Some (USMART_PARMERR, n, dev)
   }"

fun skip_to_open :: "u8 list \<Rightarrow> u8 list option option" where
  "skip_to_open [] = None"
| "skip_to_open (c # str) =
     (if c \<noteq> ch_open then
        (case str of [] \<Rightarrow> None | d # _ \<Rightarrow> if d = ch_nul then Some None else skip_to_open str)
      else Some (Some str))"

text \<open>The result code, \<open>*parn\<close> where it is written, and the manager.\<close>

definition usmart_get_fparam :: "nat \<Rightarrow> u8 list \<Rightarrow> m_usmart_dev \<Rightarrow> (u8 \<times> u8 option \<times> m_usmart_dev) option" where
  "usmart_get_fparam fuel str dev = do {
     let dev = dev\<lparr>plentbl := replicate MAX_PARM 0\<rparr>;
     r \<leftarrow> skip_to_open str;
     case r of
       None \<Rightarrow> Some (USMART_FUNCERR, None, dev)
     | Some str \<Rightarrow> do {
         (e, n, dev) \<leftarrow> fparam_loop fuel str 0 dev;
         Some (e, if e = USMART_OK then Some n else None, dev)
       }
   }"

end
