(* ===== verification/UsmartStrProps.thy ===== *)
theory UsmartStrProps
  imports UsmartStr
begin

text \<open>
  What holds of the text functions: the conversion of numbers, the round trip of a parameter list and its limit of ten
  parameters, and a string without an end.
\<close>

section \<open>Numbers\<close>

definition is_dec :: "u8 \<Rightarrow> bool" where
  "is_dec c \<longleftrightarrow> ch_0 \<le> c \<and> c \<le> ch_9"

definition is_hex :: "u8 \<Rightarrow> bool" where
  "is_hex c \<longleftrightarrow> is_dec c \<or> ch_A \<le> c \<and> c \<le> ch_F"

definition digit_val :: "u8 \<Rightarrow> nat" where
  "digit_val c = (if is_dec c then unat c - 48 else unat c - 55)"

definition number_value :: "nat \<Rightarrow> u8 list \<Rightarrow> nat" where
  "number_value b cs = foldl (\<lambda>v c. v * b + digit_val c) 0 cs"

text \<open>The numbers of the shell: decimal digits, or \<open>0X\<close> and hexadecimal digits with upper-case letters.\<close>

definition dec_number :: "u8 list \<Rightarrow> bool" where
  "dec_number s \<longleftrightarrow> s \<noteq> [] \<and> list_all is_dec s"

definition hex_number :: "u8 list \<Rightarrow> bool" where
  "hex_number s \<longleftrightarrow> (\<exists>h. s = ch_0 # ch_X # h \<and> h \<noteq> [] \<and> list_all is_hex h)"

lemma number_value_foldl:
  "foldl (\<lambda>v c. v * b + digit_val c) a cs = a * b ^ length cs + number_value b cs"
proof (induction cs arbitrary: a)
  case Nil
  then show ?case by (simp add: number_value_def)
next
  case (Cons c cs)
  show ?case
    using Cons [of "a * b + digit_val c"] Cons [of "digit_val c"]
    by (simp add: number_value_def algebra_simps)
qed

lemma number_value_simps [simp]:
  "number_value b [] = 0"
  "number_value b (c # cs) = digit_val c * b ^ length cs + number_value b cs"
  using number_value_foldl [of b "digit_val c" cs] by (simp_all add: number_value_def)

lemma number_value_snoc: "number_value b (cs @ [c]) = number_value b cs * b + digit_val c"
  by (simp add: number_value_def)

lemma pow_loop_value: "pow_loop m n r = r * of_nat (unat m ^ n)"
proof (induction n arbitrary: r)
  case 0
  then show ?case by simp
next
  case (Suc n)
  have "(ucast m :: u32) = of_nat (unat m)"
    by (simp add: word_eq_iff_unsigned)
  then show ?case
    using Suc by (simp add: mult.assoc)
qed

lemma usmart_pow_value: "usmart_pow m n = of_nat (unat m ^ unat n)"
  by (simp only: usmart_pow_def pow_loop_value mult_1)

lemma ucast8_32_nat: "(ucast (c :: u8) :: u32) = of_nat (unat c)"
  by (simp add: word_eq_iff_unsigned)

lemma digit_word:
  assumes "is_hex c"
  shows "(if c \<le> ch_9 \<and> ch_0 \<le> c then ucast c - 48 else ucast c - 65 + 10 :: u32) = of_nat (digit_val c)"
proof (cases "is_dec c")
  case True
  then have "48 \<le> unat c"
    by (simp add: is_dec_def word_le_nat_alt)
  then have "(of_nat (unat c - 48) :: u32) = of_nat (unat c) - of_nat 48"
    by (rule of_nat_diff)
  then have "(of_nat (digit_val c) :: u32) = ucast c - 48"
    using True by (simp add: digit_val_def)
  then show ?thesis
    using True by (simp add: is_dec_def)
next
  case False
  then have "65 \<le> unat c"
    using assms by (simp add: is_hex_def word_le_nat_alt)
  then have "(of_nat (unat c - 55) :: u32) = of_nat (unat c) - of_nat 55"
    by (intro of_nat_diff) simp
  then have "(of_nat (digit_val c) :: u32) = ucast c - 55"
    using False by (simp add: digit_val_def)
  moreover have "\<not> (c \<le> ch_9 \<and> ch_0 \<le> c)"
    using False by (auto simp: is_dec_def)
  ultimately show ?thesis
    by (simp only: if_False) simp
qed

lemma is_hex_nonzero: "is_hex c \<Longrightarrow> c \<noteq> 0"
  by (auto simp: is_hex_def is_dec_def)

lemma u8_of_nat_Suc: "Suc n < 256 \<Longrightarrow> (of_nat (Suc n) :: u8) \<noteq> 0 \<and> of_nat (Suc n) - 1 = (of_nat n :: u8) \<and>
    unat (of_nat n :: u8) = n"
proof -
  assume n: "Suc n < 256"
  have "unat (of_nat (Suc n) :: u8) = Suc n" "unat (of_nat n :: u8) = n"
    using n by (simp_all only: unat_of_nat) simp_all
  then show ?thesis
    by (metis add_diff_cancel_left' of_nat_Suc unat_0 nat.distinct(1))
qed

lemma add_digits_value:
  assumes "list_all is_hex cs" "cs \<noteq> []" "length cs < 256"
  shows "add_digits (cs @ ch_nul # rest) b (of_nat (length cs)) res =
    Some (res + of_nat (number_value (unat b) cs))"
  using assms
proof (induction cs arbitrary: res)
  case Nil
  then show ?case by simp
next
  case (Cons c cs)
  have n: "(of_nat (Suc (length cs)) :: u8) \<noteq> 0" "of_nat (Suc (length cs)) - 1 = (of_nat (length cs) :: u8)"
    "unat (of_nat (length cs) :: u8) = length cs"
    using u8_of_nat_Suc [of "length cs"] Cons.prems(3) by simp_all
  let ?res = "res + of_nat (digit_val c) * of_nat (unat b ^ length cs)"
  have h: "is_hex c"
    using Cons.prems(1) by simp
  have step: "add_digits (c # cs @ ch_nul # rest) b (of_nat (Suc (length cs))) res =
      (case cs @ ch_nul # rest of
         [] \<Rightarrow> None
       | d # _ \<Rightarrow> if d = ch_nul then Some ?res else add_digits (cs @ ch_nul # rest) b (of_nat (length cs)) ?res)"
    unfolding add_digits.simps digit_word [OF h] usmart_pow_value n(2,3) if_P [OF n(1)] Let_def by (rule refl)
  show ?case
  proof (cases cs)
    case Nil
    then show ?thesis
      using step by simp
  next
    case (Cons d ds)
    have p: "list_all is_hex cs" "cs \<noteq> []" "length cs < 256"
      using Cons.prems Cons by simp_all
    have "is_hex d"
      using p(1) Cons by simp
    then have d: "d \<noteq> ch_nul"
      using is_hex_nonzero by blast
    have "add_digits (cs @ ch_nul # rest) b (of_nat (length cs)) ?res = Some (?res + of_nat (number_value (unat b) cs))"
      using p by (rule Cons.IH)
    moreover have "?res + of_nat (number_value (unat b) cs) = res + of_nat (number_value (unat b) (c # cs))"
      by (simp add: add.assoc)
    ultimately have "add_digits (cs @ ch_nul # rest) b (of_nat (length cs)) ?res =
        Some (res + of_nat (number_value (unat b) (c # cs)))"
      by (simp only:)
    then have "add_digits (c # cs @ ch_nul # rest) b (of_nat (Suc (length cs))) res =
        Some (res + of_nat (number_value (unat b) (c # cs)))"
      using step unfolding Cons append_Cons list.case if_not_P [OF d] by (simp only:)
    then show ?thesis
      by (simp only: append_Cons length_Cons)
  qed
qed

text \<open>After the first two characters the scan accepts hexadecimal digits only.\<close>

lemma scan_number_tail:
  assumes "2 \<le> unat bnum" "unat bnum + length s < 256" "0 \<notin> set s"
  shows "scan_number (s @ ch_nul # rest) bnum hexdec =
    (if list_all is_hex s then Some (Some (bnum + of_nat (length s), if list_all is_dec s then hexdec else 16))
     else Some None)"
  using assms
proof (induction s arbitrary: bnum hexdec)
  case Nil
  then show ?case by simp
next
  case (Cons c s)
  have b: "unat (bnum + 1) = unat bnum + 1" "bnum \<noteq> 1"
    using Cons.prems(1,2) by (auto simp: unat_word_ariths)
  have A: "ch_A \<le> c \<longleftrightarrow> \<not> is_dec c" if "is_hex c"
    using that by (auto simp: is_hex_def is_dec_def word_le_nat_alt)
  have h: "(c \<le> ch_9 \<and> ch_0 \<le> c \<or> c \<le> ch_F \<and> ch_A \<le> c \<or> c = ch_X \<and> bnum = 1) = is_hex c"
    using b(2) by (auto simp: is_hex_def is_dec_def)
  have c: "c \<noteq> ch_nul"
    using Cons.prems(3) by auto
  have step: "scan_number ((c # s) @ ch_nul # rest) bnum hexdec =
      (if is_hex c then scan_number (s @ ch_nul # rest) (bnum + 1) (if is_dec c then hexdec else 16) else Some None)"
    using c A by (simp only: append_Cons scan_number.simps h) simp
  have IH: "scan_number (s @ ch_nul # rest) (bnum + 1) x =
    (if list_all is_hex s then Some (Some (bnum + 1 + of_nat (length s), if list_all is_dec s then x else 16))
     else Some None)" for x
    using Cons.prems b(1) by (intro Cons.IH) simp_all
  show ?case
    unfolding step IH by (simp add: add.assoc)
qed

lemma is_dec_hex: "is_dec c \<Longrightarrow> is_hex c"
  by (simp add: is_hex_def)

lemma list_all_dec_hex: "list_all is_dec s \<Longrightarrow> list_all is_hex s"
  by (auto simp: list_all_iff is_dec_hex)

lemma list_all_hex_nonzero: "list_all is_hex s \<Longrightarrow> 0 \<notin> set s"
  by (auto simp: list_all_iff dest: is_hex_nonzero)

lemma ch_A_hex: "is_hex c \<Longrightarrow> ch_A \<le> c \<longleftrightarrow> \<not> is_dec c"
  by (auto simp: is_hex_def is_dec_def word_le_nat_alt)

lemma not_hex_X: "\<not> is_hex ch_X" "is_dec ch_0" "\<not> is_dec ch_X"
  by (simp_all add: is_hex_def is_dec_def)

lemma scan_number_char:
  "c \<noteq> ch_nul \<Longrightarrow> scan_number (c # p) bnum hexdec =
     (if is_hex c \<or> c = ch_X \<and> bnum = 1 then scan_number p (bnum + 1) (if is_hex c \<and> is_dec c then hexdec else 16)
      else Some None)"
  using ch_A_hex [of c] by (auto simp: is_hex_def is_dec_def)

text \<open>The scan of a whole text: the digits it accepts, and the base.\<close>

lemma scan_number_short:
  "scan_number (ch_nul # rest) 0 10 = Some (Some (0, 10))"
  "c \<noteq> ch_nul \<Longrightarrow> scan_number (c # ch_nul # rest) 0 10 =
     (if is_hex c then Some (Some (1, if is_dec c then 10 else 16)) else Some None)"
  by (simp_all add: scan_number_char del: scan_number.simps(2)) (simp_all add: is_dec_def)

lemma scan_number_long:
  assumes "0 \<notin> set (c # d # t)" "length t < 254"
  shows "scan_number (c # d # t @ ch_nul # rest) 0 10 =
    (if is_hex c \<and> (is_hex d \<or> d = ch_X) \<and> list_all is_hex t
     then Some (Some (of_nat (length t + 2), if list_all is_dec (c # d # t) then 10 else 16)) else Some None)"
proof -
  have t: "scan_number (t @ ch_nul # rest) 2 x =
    (if list_all is_hex t then Some (Some (2 + of_nat (length t), if list_all is_dec t then x else 16)) else Some None)" for x
    using assms by (intro scan_number_tail) simp_all
  have "is_dec d \<Longrightarrow> is_hex d" "d = ch_X \<Longrightarrow> \<not> is_dec d"
    using not_hex_X is_dec_hex by auto
  then show ?thesis
    using assms(1) by (auto simp: scan_number_char t add.commute simp del: scan_number.simps(2))
qed

lemma hex_number_iff: "hex_number (c # d # t) \<longleftrightarrow> c = ch_0 \<and> d = ch_X \<and> t \<noteq> [] \<and> list_all is_hex t"
  "\<not> hex_number []" "\<not> hex_number [c]"
  by (auto simp: hex_number_def)

lemma u8_count:
  assumes "n < 254"
  shows "(of_nat (n + 2) :: u8) \<noteq> 0" "(of_nat (n + 2) :: u8) < 3 \<longleftrightarrow> n = 0" "of_nat (n + 2) - 2 = (of_nat n :: u8)"
proof -
  have u: "unat (of_nat (n + 2) :: u8) = n + 2"
    using assms by (simp only: unat_of_nat) simp
  then show "(of_nat (n + 2) :: u8) \<noteq> 0"
    by (metis add_is_0 unat_0 zero_neq_numeral)
  have "(of_nat (n + 2) :: u8) < 3 \<longleftrightarrow> n + 2 < 3"
    unfolding word_less_nat_alt u by simp
  then show "(of_nat (n + 2) :: u8) < 3 \<longleftrightarrow> n = 0"
    by linarith
  show "of_nat (n + 2) - 2 = (of_nat n :: u8)"
    by simp
qed

lemma str2num_dec:
  assumes "dec_number s" "length s < 256" "scan_number (s @ ch_nul # rest) 0 10 = Some (Some (of_nat (length s), 10))"
    and "(of_nat (length s) :: u8) \<noteq> 0"
  shows "usmart_str2num (s @ ch_nul # rest) = Some (0, of_nat (number_value 10 s))"
proof -
  have "add_digits (s @ ch_nul # rest) 10 (of_nat (length s)) 0 = Some (of_nat (number_value 10 s))"
    using add_digits_value [of s rest 10 0] assms(1,2) list_all_dec_hex by (simp add: dec_number_def)
  then show ?thesis
    using assms(4) by (simp add: usmart_str2num_def assms(3))
qed

lemma str2num_long:
  assumes z: "0 \<notin> set (c # d # t)" and l: "length t < 254"
  shows "usmart_str2num (c # d # t @ ch_nul # rest) =
    (if list_all is_dec (c # d # t) then Some (0, of_nat (number_value 10 (c # d # t)))
     else if hex_number (c # d # t) then Some (0, of_nat (number_value 16 t))
     else if is_hex c \<and> (is_hex d \<or> d = ch_X) \<and> list_all is_hex t then Some (if t = [] then 2 else 3, 0)
     else Some (1, 0))"
proof -
  note sc = scan_number_long [OF z l, of rest]
  note u = u8_count [OF l]
  consider (dec) "list_all is_dec (c # d # t)"
    | (bad) "\<not> list_all is_dec (c # d # t)" "\<not> (is_hex c \<and> (is_hex d \<or> d = ch_X) \<and> list_all is_hex t)"
    | (hex) "\<not> list_all is_dec (c # d # t)" "is_hex c \<and> (is_hex d \<or> d = ch_X) \<and> list_all is_hex t"
    by blast
  then show ?thesis
  proof cases
    case dec
    then have "is_hex c \<and> (is_hex d \<or> d = ch_X) \<and> list_all is_hex t"
      using is_dec_hex list_all_dec_hex by auto
    then have "scan_number ((c # d # t) @ ch_nul # rest) 0 10 = Some (Some (of_nat (length (c # d # t)), 10))"
      using sc dec by simp
    then show ?thesis
      using str2num_dec [of "c # d # t" rest] dec u(1) l by (simp add: dec_number_def)
  next
    case bad
    moreover have "\<not> hex_number (c # d # t)"
      using bad is_dec_hex [OF not_hex_X(2)] by (auto simp: hex_number_iff)
    moreover have "usmart_str2num (c # d # t @ ch_nul # rest) = Some (1, 0)"
      using sc bad(2) by (simp add: usmart_str2num_def)
    ultimately show ?thesis
      by auto
  next
    case hex
    have s: "scan_number (c # d # t @ ch_nul # rest) 0 10 = Some (Some (of_nat (length t + 2), 16))"
      using sc hex by simp
    show ?thesis
    proof (cases "c = ch_0 \<and> d = ch_X \<and> t \<noteq> []")
      case True
      then have "add_digits (t @ ch_nul # rest) 16 (of_nat (length t)) 0 = Some (of_nat (number_value 16 t))"
        using add_digits_value [of t rest 16 0] hex(2) l by simp
      moreover have "\<not> (of_nat (length t + 2) :: u8) < 3"
        using u(2) True by simp
      ultimately have "usmart_str2num (c # d # t @ ch_nul # rest) = Some (0, of_nat (number_value 16 t))"
        using True unfolding usmart_str2num_def s bind.simps option.case prod.case u(3) by simp
      then show ?thesis
        using True hex not_hex_X(3) by (simp add: hex_number_iff)
    next
      case False
      then have "\<not> hex_number (c # d # t)"
        by (auto simp: hex_number_iff)
      moreover have "usmart_str2num (c # d # t @ ch_nul # rest) = Some (if t = [] then 2 else 3, 0)"
        using False u(2) unfolding usmart_str2num_def s by auto
      ultimately show ?thesis
        using hex by auto
    qed
  qed
qed

text \<open>
  C27. \<open>usmart_str2num\<close> accepts exactly the numbers of the shell, decimal digits or \<open>0X\<close> with upper-case
  hexadecimal digits, of up to 255 characters; the result is the value of the number, modulo the 32 bits of
  the result. Everything else gives an error code.
\<close>

theorem str2num_value:
  assumes "length s < 256" "0 \<notin> set s"
  shows "\<exists>code res. usmart_str2num (s @ ch_nul # rest) = Some (code, res) \<and>
    (code = 0 \<longleftrightarrow> dec_number s \<or> hex_number s) \<and>
    (dec_number s \<longrightarrow> res = of_nat (number_value 10 s)) \<and>
    (hex_number s \<longrightarrow> res = of_nat (number_value 16 (drop 2 s)))"
proof -
  consider "s = []" | c where "s = [c]" | c d t where "s = c # d # t"
    by (metis list.exhaust)
  then show ?thesis
  proof cases
    case 1
    then show ?thesis
      by (simp add: usmart_str2num_def dec_number_def hex_number_iff)
  next
    case 2
    then have c: "c \<noteq> ch_nul"
      using assms(2) by auto
    show ?thesis
    proof (cases "is_dec c")
      case True
      then show ?thesis
        using 2 str2num_dec [of s rest] scan_number_short(2) [OF c, of rest] is_dec_hex
        by (simp add: dec_number_def hex_number_iff)
    next
      case False
      then show ?thesis
        using 2 scan_number_short(2) [OF c, of rest]
        by (simp add: usmart_str2num_def dec_number_def hex_number_iff)
    qed
  next
    case 3
    then have z: "0 \<notin> set (c # d # t)" "length t < 254"
      using assms by auto
    have x: "\<not> (list_all is_dec (c # d # t) \<and> hex_number (c # d # t))"
      using is_dec_hex not_hex_X by (auto simp: hex_number_iff)
    show ?thesis
      using str2num_long [OF z, of rest] x 3
      by (cases "list_all is_dec (c # d # t)"; cases "hex_number (c # d # t)") (auto simp: dec_number_def)
  qed
qed

section \<open>Printing\<close>

text \<open>The decimal digits of a number, and a parameter list.\<close>

fun dec_text :: "nat \<Rightarrow> u8 list" where
  "dec_text n = (if n < 10 then [of_nat (48 + n)] else dec_text (n div 10) @ [of_nat (48 + n mod 10)])"

declare dec_text.simps [simp del]

fun args_text :: "u32 list \<Rightarrow> u8 list" where
  "args_text [] = []"
| "args_text [v] = dec_text (unat v)"
| "args_text (v # vs) = dec_text (unat v) @ ch_comma # args_text vs"

lemma digit_char: "k < 10 \<Longrightarrow> is_dec (of_nat (48 + k)) \<and> digit_val (of_nat (48 + k)) = k"
proof -
  assume k: "k < 10"
  have u: "unat (of_nat (48 + k) :: u8) = 48 + k"
    using k by (simp only: unat_of_nat) simp
  then have "is_dec (of_nat (48 + k))"
    using k unfolding is_dec_def word_le_nat_alt u by simp
  then show ?thesis
    using u by (simp only: digit_val_def if_True) simp
qed

lemma dec_text_digits: "list_all is_dec (dec_text n) \<and> dec_text n \<noteq> [] \<and> number_value 10 (dec_text n) = n"
proof (induction n rule: dec_text.induct)
  case (1 n)
  show ?case
  proof (cases "n < 10")
    case True
    then show ?thesis
      using digit_char [OF True] by (subst (1 2 3) dec_text.simps) (simp del: of_nat_add)
  next
    case False
    then have "n mod 10 < 10" "n div 10 * 10 + n mod 10 = n"
      by simp_all
    then show ?thesis
      using 1 [OF False] digit_char [of "n mod 10"] False
      by (subst (1 2 3) dec_text.simps) (simp add: number_value_snoc del: of_nat_add)
  qed
qed

lemma length_dec_text: "n < 10 ^ Suc k \<Longrightarrow> length (dec_text n) \<le> Suc k"
proof (induction k arbitrary: n)
  case 0
  then show ?case
    by (subst dec_text.simps) simp
next
  case (Suc k)
  then have "length (dec_text (n div 10)) \<le> Suc k"
    by (intro Suc.IH) (simp add: less_mult_imp_div_less)
  then show ?case
    by (subst dec_text.simps) simp
qed

lemma dec_text_u32: "dec_number (dec_text (unat (v :: u32)))" "length (dec_text (unat v)) \<le> 10"
  "of_nat (number_value 10 (dec_text (unat v))) = v"
proof -
  show "dec_number (dec_text (unat v))"
    using dec_text_digits by (simp add: dec_number_def)
  have "unat v < 10 ^ Suc 9"
    using unat_u32_bound [of v] by simp
  then show "length (dec_text (unat v)) \<le> 10"
    using length_dec_text [of "unat v" 9] by simp
  show "of_nat (number_value 10 (dec_text (unat v))) = v"
    using dec_text_digits by simp
qed

section \<open>Parameters\<close>

lemma aparm_dec:
  assumes "is_dec c"
  shows "aparm_loop (c # str) i False 0 False acc = aparm_loop str (i + 1) False 0 False (acc @ [c])"
    "aparm_loop (c # str) i True 0 False acc = Some (i, acc @ [ch_nul], 0)"
proof -
  have c: "aparm_digit c" "c \<noteq> ch_comma" "c \<noteq> ch_close" "c \<noteq> ch_nul" "\<not> ch_a \<le> c"
    using assms by (auto simp: aparm_digit_def is_dec_def word_le_nat_alt)
  show "aparm_loop (c # str) i False 0 False acc = aparm_loop str (i + 1) False 0 False (acc @ [c])"
    "aparm_loop (c # str) i True 0 False acc = Some (i, acc @ [ch_nul], 0)"
    using c by simp_all
qed

lemma aparm_digits:
  "list_all is_dec ds \<Longrightarrow> aparm_loop (ds @ str) i False 0 False acc =
     aparm_loop str (i + of_nat (length ds)) False 0 False (acc @ ds)"
proof (induction ds arbitrary: i acc)
  case Nil
  then show ?case by simp
next
  case (Cons d ds)
  then show ?case
    by (simp add: aparm_dec add.assoc del: aparm_loop.simps)
qed

lemma aparm_last:
  assumes "list_all is_dec ds"
  shows "aparm_loop (ds @ ch_close # str) 0 False 0 False [] = Some (of_nat (length ds), ds @ [ch_nul], 0)"
  using aparm_digits [OF assms, of "ch_close # str" 0 "[]"] by simp

lemma aparm_next:
  assumes "list_all is_dec ds" "is_dec d"
  shows "aparm_loop (ds @ ch_comma # d # str) 0 False 0 False [] = Some (of_nat (length ds) + 1, ds @ [ch_nul], 0)"
  using aparm_digits [OF assms(1), of "ch_comma # d # str" 0 "[]"] aparm_dec(2) [OF assms(2)]
  by (simp add: aparm_digit_def)

lemma parmpos_four:
  "n \<le> k \<Longrightarrow> parmpos_loop (replicate k 4 @ tbl) n t = Some (t + of_nat (4 * n))"
proof (induction n arbitrary: k t)
  case 0
  then show ?case by simp
next
  case (Suc n)
  then obtain j where "k = Suc j" "n \<le> j"
    by (cases k) auto
  then show ?case
    using Suc.IH [of j "t + 4"] by (simp add: add.assoc)
qed

text \<open>The manager after some numbers, with a table of \<open>k\<close> lengths; the program's has ten.\<close>

definition stored_in :: "nat \<Rightarrow> u32 list \<Rightarrow> m_usmart_dev \<Rightarrow> bool" where
  "stored_in k vs dev \<longleftrightarrow> plentbl dev = replicate (length vs) 4 @ replicate (k - length vs) 0 \<and>
     length (parm dev) = 200 \<and> take (4 * length vs) (parm dev) = concat (map u32_bytes vs) \<and>
     (\<forall>i < length vs. \<not> bit (parmtype dev) i)"

abbreviation stored :: "u32 list \<Rightarrow> m_usmart_dev \<Rightarrow> bool" where
  "stored \<equiv> stored_in 10"

text \<open>The table of functions and the settings.\<close>

definition same_table :: "m_usmart_dev \<Rightarrow> m_usmart_dev \<Rightarrow> bool" where
  "same_table d d' \<longleftrightarrow> funs d = funs d' \<and> fnum d = fnum d' \<and> sptype d = sptype d' \<and> func_id d = func_id d' \<and>
     runtimeflag d = runtimeflag d'"

lemma length_concat_bytes [simp]: "length (concat (map u32_bytes vs)) = 4 * length vs"
  by (induction vs) simp_all

lemma fparam_number_stored:
  assumes s: "stored_in k vs dev" and n: "length vs < k" "k \<le> 11"
  shows "\<exists>dev'. fparam_number (of_nat (length vs)) v dev = Some dev' \<and> stored_in k (vs @ [v]) dev' \<and>
    same_table dev' dev"
proof -
  let ?n = "length vs"
  have u: "unat (of_nat ?n :: u8) = ?n" "unat (of_nat (4 * ?n) :: u8) = 4 * ?n"
    using n by (simp_all only: unat_of_nat) simp_all
  have l: "length (parm dev) = 200" "length (plentbl dev) = k"
    using s n by (simp_all add: stored_in_def)
  have pos: "usmart_get_parmpos dev (of_nat ?n) = Some (of_nat (4 * ?n))"
    using s parmpos_four [of ?n ?n "replicate (k - ?n) 0" 0] by (simp only: usmart_get_parmpos_def stored_in_def u) simp
  let ?pm = "take (4 * ?n) (parm dev) @ u32_bytes v @ drop (4 * ?n + 4) (parm dev)"
  let ?tbl = "take ?n (plentbl dev) @ [4] @ drop (?n + 1) (plentbl dev)"
  let ?d = "dev\<lparr>parm := ?pm, parmtype := parmtype dev AND NOT (push_bit ?n 1), plentbl := ?tbl\<rparr>"
  have e: "fparam_number (of_nat ?n) v dev = Some ?d"
    unfolding fparam_number_def pos bind.bind_lunit u store_list_def using l n by simp
  have "take ?n (plentbl dev) = replicate ?n 4" "drop (?n + 1) (plentbl dev) = replicate (k - Suc ?n) 0"
    using s n by (simp_all add: stored_in_def)
  then have "?tbl = replicate (Suc ?n) 4 @ replicate (k - Suc ?n) 0"
    by (simp only:) (simp add: replicate_append_same [symmetric])
  moreover have "take (4 * Suc ?n) ?pm = concat (map u32_bytes (vs @ [v]))"
    using s l n by (simp add: stored_in_def)
  moreover have "\<forall>i < Suc ?n. \<not> bit (parmtype ?d) i"
    using s by (auto simp: stored_in_def bit_simps less_Suc_eq)
  ultimately have "stored_in k (vs @ [v]) ?d"
    using l n by (simp add: stored_in_def)
  then show ?thesis
    using e by (intro exI [of _ ?d]) (simp add: same_table_def)
qed

lemma str2num_decimal:
  assumes "dec_number s" "length s < 256"
  shows "usmart_str2num (s @ ch_nul # rest) = Some (0, of_nat (number_value 10 s))"
proof -
  have z: "0 \<notin> set s" "list_all is_dec s" "s \<noteq> []"
    using assms(1) list_all_dec_hex list_all_hex_nonzero by (auto simp: dec_number_def)
  then consider c where "s = [c]" | c d t where "s = c # d # t"
    by (metis list.exhaust)
  then show ?thesis
  proof cases
    case 1
    then have "scan_number (s @ ch_nul # rest) 0 10 = Some (Some (of_nat (length s), 10))"
      using z scan_number_short(2) [of c rest] is_dec_hex by simp
    then show ?thesis
      using str2num_dec [OF assms, of rest] 1 by simp
  next
    case 2
    then show ?thesis
      using str2num_long [of c d t rest] z(1,2) assms(2) by simp
  qed
qed

lemma bind_Some_pair: "Some (a, b, c) \<bind> (\<lambda>(x, y, z). f x y z) = f a b c"
  by simp

lemma fparam_loop_number:
  assumes a: "aparm_loop str 0 False 0 False [] = Some (i, ds @ [ch_nul], 0)"
    and d: "dec_number ds" "length ds \<le> 10" and s: "stored_in k ws dev" "length ws < 10" "k = 10 \<or> k = 11"
  shows "\<exists>dev'. stored_in k (ws @ [of_nat (number_value 10 ds)]) dev' \<and> same_table dev' dev \<and>
    fparam_loop (Suc fuel) str (of_nat (length ws)) dev =
      (case drop (unat i) str of
         [] \<Rightarrow> None
       | c # _ \<Rightarrow> if c = ch_close \<or> c = ch_nul then Some (USMART_OK, of_nat (length ws) + 1, dev')
                 else fparam_loop fuel (drop (unat i) str) (of_nat (length ws) + 1) dev')"
proof -
  let ?v = "of_nat (number_value 10 ds) :: u32"
  let ?n = "of_nat (length ws) :: u8"
  obtain dev' where e: "fparam_number ?n ?v dev = Some dev'" "stored_in k (ws @ [?v]) dev'" "same_table dev' dev"
    using fparam_number_stored [OF s(1)] s(2,3) by fastforce
  have g: "usmart_get_aparm (PARM_LEN + 1) str = Some (i, ds @ [ch_nul], 0)"
    using a d(2) by (simp add: usmart_get_aparm_def)
  have t: "(ds @ [ch_nul]) ! 0 \<noteq> ch_nul"
    using d(1) is_hex_nonzero is_dec_hex by (cases ds) (auto simp: dec_number_def)
  have n: "usmart_str2num (ds @ [ch_nul]) = Some (0, ?v)"
    using str2num_decimal [OF d(1), of "[]"] d(2) by simp
  have "unat (of_nat (Suc (length ws)) :: u8) = Suc (length ws)"
    using s(2) by (simp only: unat_of_nat) simp
  then have u: "(MAX_PARM < unat (?n + 1)) = False"
    using s(2) by (simp add: add.commute)
  have "fparam_loop (Suc fuel) str ?n dev =
      (case drop (unat i) str of
         [] \<Rightarrow> None
       | c # _ \<Rightarrow> if c = ch_close \<or> c = ch_nul then Some (USMART_OK, of_nat (length ws) + 1, dev')
                 else fparam_loop fuel (drop (unat i) str) (of_nat (length ws) + 1) dev')"
    unfolding fparam_loop.simps g bind_Some_pair Let_def
    using t n e(1) by (simp add: u)
  then show ?thesis
    using e by blast
qed

text \<open>An eleventh number: the length does not fit into the table of ten, with one more entry the parameters are too many.\<close>

lemma fparam_loop_eleventh:
  assumes a: "aparm_loop str 0 False 0 False [] = Some (i, ds @ [ch_nul], 0)"
    and d: "dec_number ds" "length ds \<le> 10" and s: "stored_in k ws dev" "length ws = 10"
  shows "k = 10 \<Longrightarrow> fparam_loop (Suc fuel) str 10 dev = None"
    and "k = 11 \<Longrightarrow> \<exists>dev'. fparam_loop (Suc fuel) str 10 dev = Some (USMART_PARMOVER, 11, dev')"
proof -
  let ?v = "of_nat (number_value 10 ds) :: u32"
  have g: "usmart_get_aparm (PARM_LEN + 1) str = Some (i, ds @ [ch_nul], 0)"
    using a d(2) by (simp add: usmart_get_aparm_def)
  have t: "(ds @ [ch_nul]) ! 0 \<noteq> ch_nul"
    using d(1) is_hex_nonzero is_dec_hex by (cases ds) (auto simp: dec_number_def)
  have n: "usmart_str2num (ds @ [ch_nul]) = Some (0, ?v)"
    using str2num_decimal [OF d(1), of "[]"] d(2) by simp
  show "fparam_loop (Suc fuel) str 10 dev = None" if k: "k = 10"
  proof -
    have "length (plentbl dev) = 10"
      using s k by (simp add: stored_in_def)
    then have "fparam_number 10 ?v dev = None"
      by (simp add: fparam_number_def store_list_def split: bind_splits)
    then show ?thesis
      unfolding fparam_loop.simps g bind_Some_pair Let_def using t n by simp
  qed
  show "\<exists>dev'. fparam_loop (Suc fuel) str 10 dev = Some (USMART_PARMOVER, 11, dev')" if k: "k = 11"
  proof -
    obtain dev' where "fparam_number 10 ?v dev = Some dev'"
      using fparam_number_stored [OF s(1), of ?v] s(2) k by auto
    then show ?thesis
      unfolding fparam_loop.simps g bind_Some_pair Let_def using t n by simp
  qed
qed

lemma args_text_head: "vs \<noteq> [] \<Longrightarrow> \<exists>d t. args_text vs = d # t \<and> is_dec d"
proof (cases vs rule: args_text.cases)
  case (2 v)
  then show ?thesis
    using dec_text_digits [of "unat v"] by (cases "dec_text (unat v)") auto
next
  case (3 v w vs)
  then show ?thesis
    using dec_text_digits [of "unat v"] by (cases "dec_text (unat v)") auto
qed auto

text \<open>The text of a number: its digits, up to the bracket or the next number.\<close>

lemma dec_text_aparm:
  "\<exists>i. aparm_loop (dec_text (unat (v :: u32)) @ ch_close # rest) 0 False 0 False [] = Some (i, dec_text (unat v) @ [ch_nul], 0) \<and>
     drop (unat i) (dec_text (unat v) @ ch_close # rest) = ch_close # rest"
proof -
  let ?ds = "dec_text (unat v)"
  have ds: "length ?ds \<le> 10" "list_all is_dec ?ds"
    using dec_text_u32 [of v] by (simp_all add: dec_number_def)
  have "unat (of_nat (length ?ds) :: u8) = length ?ds"
    using ds(1) by (simp only: unat_of_nat) simp
  then show ?thesis
    using aparm_last [OF ds(2), of rest] by simp
qed

lemma dec_text_aparm_next:
  assumes "is_dec d"
  shows "\<exists>i. aparm_loop (dec_text (unat (v :: u32)) @ ch_comma # d # t) 0 False 0 False [] = Some (i, dec_text (unat v) @ [ch_nul], 0) \<and>
     drop (unat i) (dec_text (unat v) @ ch_comma # d # t) = d # t"
proof -
  let ?ds = "dec_text (unat v)"
  have ds: "length ?ds \<le> 10" "list_all is_dec ?ds"
    using dec_text_u32 [of v] by (simp_all add: dec_number_def)
  have "unat (of_nat (Suc (length ?ds)) :: u8) = Suc (length ?ds)"
    using ds(1) by (simp only: unat_of_nat) simp
  then have "unat (of_nat (length ?ds) + 1 :: u8) = Suc (length ?ds)"
    by (simp add: add.commute)
  then show ?thesis
    using aparm_next [OF ds(2) assms, of t] by simp
qed

text \<open>The loop takes a number that another follows, and goes on with the rest of the text.\<close>

lemma fparam_loop_next:
  assumes "stored_in k ws dev" "length ws < 10" "k = 10 \<or> k = 11"
  shows "\<exists>dev1. stored_in k (ws @ [v]) dev1 \<and> same_table dev1 dev \<and>
    fparam_loop (Suc fuel) (args_text (v # v' # vs) @ ch_close # rest) (of_nat (length ws)) dev =
      fparam_loop fuel (args_text (v' # vs) @ ch_close # rest) (of_nat (length (ws @ [v]))) dev1"
proof -
  let ?ds = "dec_text (unat v)"
  obtain d t where t: "args_text (v' # vs) = d # t" "is_dec d"
    using args_text_head by blast
  have dc: "d \<noteq> ch_close" "d \<noteq> ch_nul"
    using t(2) by (auto simp: is_dec_def word_le_nat_alt)
  have n1: "(of_nat (length ws) + 1 :: u8) = of_nat (length (ws @ [v]))"
    by (simp add: add.commute)
  obtain i where i: "aparm_loop (?ds @ ch_comma # d # (t @ ch_close # rest)) 0 False 0 False [] = Some (i, ?ds @ [ch_nul], 0)"
    "drop (unat i) (?ds @ ch_comma # d # (t @ ch_close # rest)) = d # (t @ ch_close # rest)"
    using dec_text_aparm_next [OF t(2)] by blast
  have eq: "args_text (v # v' # vs) @ ch_close # rest = ?ds @ ch_comma # d # (t @ ch_close # rest)"
    "args_text (v' # vs) @ ch_close # rest = d # (t @ ch_close # rest)"
    using t(1) by simp_all
  show ?thesis
    using fparam_loop_number [OF i(1) dec_text_u32(1,2) assms, of fuel] dc
    unfolding eq i(2) n1 list.case dec_text_u32(3) by auto
qed

lemma fparam_loop_args:
  "stored_in k ws dev \<Longrightarrow> k = 10 \<or> k = 11 \<Longrightarrow> length ws + length vs \<le> 10 \<Longrightarrow> vs \<noteq> [] \<Longrightarrow> length vs \<le> fuel \<Longrightarrow>
   \<exists>dev'. fparam_loop fuel (args_text vs @ ch_close # rest) (of_nat (length ws)) dev =
       Some (USMART_OK, of_nat (length ws + length vs), dev') \<and> stored_in k (ws @ vs) dev' \<and>
     same_table dev' dev"
proof (induction vs arbitrary: ws dev fuel rule: args_text.induct)
  case 1
  then show ?case by simp
next
  case (2 v)
  obtain m where m: "fuel = Suc m"
    using "2.prems" by (cases fuel) auto
  obtain i where i: "aparm_loop (dec_text (unat v) @ ch_close # rest) 0 False 0 False [] = Some (i, dec_text (unat v) @ [ch_nul], 0)"
    "drop (unat i) (dec_text (unat v) @ ch_close # rest) = ch_close # rest"
    using dec_text_aparm by blast
  have w: "length ws < 10"
    using "2.prems" by simp
  show ?case
    using fparam_loop_number [OF i(1) dec_text_u32(1,2) "2.prems"(1) w "2.prems"(2), of m] m i(2)
    by (simp only: dec_text_u32(3) args_text.simps) auto
next
  case (3 v v' vs)
  obtain m where m: "fuel = Suc m"
    using "3.prems" by (cases fuel) auto
  have w: "length ws < 10"
    using "3.prems" by simp
  obtain dev1 where dev1: "stored_in k (ws @ [v]) dev1" "same_table dev1 dev"
    "fparam_loop (Suc m) (args_text (v # v' # vs) @ ch_close # rest) (of_nat (length ws)) dev =
      fparam_loop m (args_text (v' # vs) @ ch_close # rest) (of_nat (length (ws @ [v]))) dev1"
    using fparam_loop_next [OF "3.prems"(1) w "3.prems"(2)] by blast
  have "length (ws @ [v]) + length (v' # vs) \<le> 10" "length (v' # vs) \<le> m"
    using "3.prems" m by simp_all
  from "3.IH" [OF dev1(1) "3.prems"(2) this(1) _ this(2)] show ?case
    unfolding m dev1(3) using dev1(2) by (simp add: same_table_def del: fparam_loop.simps args_text.simps)
qed

lemma fparam_loop_over:
  "stored_in k ws dev \<Longrightarrow> k = 10 \<or> k = 11 \<Longrightarrow> length ws \<le> 10 \<Longrightarrow> 10 < length ws + length vs \<Longrightarrow> vs \<noteq> [] \<Longrightarrow>
   (k = 10 \<longrightarrow> fparam_loop fuel (args_text vs @ ch_close # rest) (of_nat (length ws)) dev = None) \<and>
   (k = 11 \<and> 10 < length ws + fuel \<longrightarrow>
      (\<exists>dev'. fparam_loop fuel (args_text vs @ ch_close # rest) (of_nat (length ws)) dev = Some (USMART_PARMOVER, 11, dev')))"
proof (induction vs arbitrary: ws dev fuel rule: args_text.induct)
  case 1
  then show ?case by simp
next
  case (2 v)
  obtain i where i: "aparm_loop (dec_text (unat v) @ ch_close # rest) 0 False 0 False [] = Some (i, dec_text (unat v) @ [ch_nul], 0)"
    using dec_text_aparm by blast
  have w: "length ws = 10"
    using "2.prems" by simp
  show ?case
    using fparam_loop_eleventh [OF i dec_text_u32(1,2) "2.prems"(1) w] w
    by (cases fuel) (simp_all only: args_text.simps, auto)
next
  case (3 v v' vs)
  show ?case
  proof (cases fuel)
    case 0
    then show ?thesis
      using "3.prems" by simp
  next
    case (Suc m)
    show ?thesis
    proof (cases "length ws = 10")
      case True
      obtain d t where t: "args_text (v' # vs) = d # t" "is_dec d"
        using args_text_head by blast
      have eq: "args_text (v # v' # vs) @ ch_close # rest = dec_text (unat v) @ ch_comma # d # (t @ ch_close # rest)"
        using t(1) by simp
      obtain i where i: "aparm_loop (dec_text (unat v) @ ch_comma # d # (t @ ch_close # rest)) 0 False 0 False [] =
          Some (i, dec_text (unat v) @ [ch_nul], 0)"
        using dec_text_aparm_next [OF t(2)] by blast
      show ?thesis
        using fparam_loop_eleventh [OF i dec_text_u32(1,2) "3.prems"(1) True, of m] True Suc eq
        by (simp del: fparam_loop.simps args_text.simps)
    next
      case False
      then have w: "length ws < 10"
        using "3.prems" by simp
      obtain dev1 where dev1: "stored_in k (ws @ [v]) dev1"
        "fparam_loop (Suc m) (args_text (v # v' # vs) @ ch_close # rest) (of_nat (length ws)) dev =
          fparam_loop m (args_text (v' # vs) @ ch_close # rest) (of_nat (length (ws @ [v]))) dev1"
        using fparam_loop_next [OF "3.prems"(1) w "3.prems"(2)] by blast
      have "length (ws @ [v]) \<le> 10" "10 < length (ws @ [v]) + length (v' # vs)"
        using "3.prems" w by simp_all
      from "3.IH" [OF dev1(1) "3.prems"(2) this, of m] show ?thesis
        unfolding Suc dev1(2) by (simp del: fparam_loop.simps args_text.simps)
    qed
  qed
qed

lemma skip_to_open_text:
  "0 \<notin> set name \<Longrightarrow> ch_open \<notin> set name \<Longrightarrow> skip_to_open (name @ ch_open # str) = Some (Some str)"
proof (induction name)
  case Nil
  then show ?case by simp
next
  case (Cons c name)
  then have "c \<noteq> ch_open" "skip_to_open (name @ ch_open # str) = Some (Some str)"
    by auto
  moreover obtain d t where "name @ ch_open # str = d # t" "d \<noteq> ch_nul"
    using Cons.prems(1) by (cases name) auto
  ultimately show ?case
    by simp
qed

text \<open>A call with number parameters is stored parameter by parameter.\<close>

lemma get_fparam_numbers:
  assumes "length vs \<le> 10" "length (parm dev) = 200" "length vs < fuel" "0 \<notin> set name" "ch_open \<notin> set name"
  shows "\<exists>dev'. usmart_get_fparam fuel (name @ ch_open # args_text vs @ ch_close # rest) dev =
      Some (USMART_OK, Some (of_nat (length vs)), dev') \<and> stored vs dev' \<and>
    same_table dev' dev"
proof -
  let ?dev = "dev\<lparr>plentbl := replicate MAX_PARM 0\<rparr>"
  have s: "stored [] ?dev"
    using assms(2) by (simp add: stored_in_def)
  obtain m where m: "fuel = Suc m"
    using assms(3) by (cases fuel) auto
  have "\<exists>dev'. fparam_loop fuel (args_text vs @ ch_close # rest) 0 ?dev =
      Some (USMART_OK, of_nat (length vs), dev') \<and> stored vs dev' \<and>
    same_table dev' dev"
  proof (cases "vs = []")
    case True
    then show ?thesis
      using s m by (intro exI [of _ ?dev]) (simp add: usmart_get_aparm_def same_table_def)
  next
    case False
    then show ?thesis
      using fparam_loop_args [OF s _ _ False, of fuel rest] assms(1,3) by (simp add: same_table_def)
  qed
  then show ?thesis
    unfolding usmart_get_fparam_def skip_to_open_text [OF assms(4,5)] by (auto simp: Let_def)
qed

text \<open>
  C26. The limit of ten parameters, of any name, any number of 32-bit numbers written in decimal between the brackets, and any text behind
  them. Up to ten numbers \<open>usmart_get_fparam\<close> reads back as they were printed: it reports their number and leaves the four bytes of each in the
  parameter array, one after the other, with a length of 4 and the type of a number for each. With more than ten it stores the length of the
  eleventh in \<open>plentbl[10]\<close>, beyond the table, before it compares the number of parameters with \<open>MAX_PARM\<close> (usmart_str.c:391-394):
  \<open>None\<close>, whatever the fuel. The overrun is the only reason: with one more entry in the table the same loop reports
  \<open>USMART_PARMOVER\<close> after the eleventh number, as soon as the fuel allows eleven rounds.
\<close>

theorem parameter_limit:
  assumes "length (parm dev) = 200" "0 \<notin> set name" "ch_open \<notin> set name"
  shows "(length vs \<le> 10 \<and> length vs < fuel \<longrightarrow>
      (\<exists>dev'. usmart_get_fparam fuel (name @ ch_open # args_text vs @ ch_close # rest) dev =
          Some (USMART_OK, Some (of_nat (length vs)), dev') \<and>
        take (4 * length vs) (parm dev') = concat (map u32_bytes vs) \<and>
        take (length vs) (plentbl dev') = replicate (length vs) 4 \<and>
        (\<forall>i < length vs. \<not> bit (parmtype dev') i))) \<and>
    (10 < length vs \<longrightarrow>
      usmart_get_fparam fuel (name @ ch_open # args_text vs @ ch_close # rest) dev = None \<and>
      (10 < fuel \<longrightarrow> (\<exists>dev'. fparam_loop fuel (args_text vs @ ch_close # rest) 0 (dev\<lparr>plentbl := replicate 11 0\<rparr>) =
        Some (USMART_PARMOVER, 11, dev'))))"
proof (intro conjI impI)
  assume v: "length vs \<le> 10 \<and> length vs < fuel"
  obtain dev' where "usmart_get_fparam fuel (name @ ch_open # args_text vs @ ch_close # rest) dev =
      Some (USMART_OK, Some (of_nat (length vs)), dev')" "stored vs dev'"
    using get_fparam_numbers [OF _ assms(1) _ assms(2,3)] v by blast
  then show "\<exists>dev'. usmart_get_fparam fuel (name @ ch_open # args_text vs @ ch_close # rest) dev =
      Some (USMART_OK, Some (of_nat (length vs)), dev') \<and>
    take (4 * length vs) (parm dev') = concat (map u32_bytes vs) \<and>
    take (length vs) (plentbl dev') = replicate (length vs) 4 \<and>
    (\<forall>i < length vs. \<not> bit (parmtype dev') i)"
    by (auto simp: stored_in_def)
next
  assume v: "10 < length vs"
  have "stored_in 10 [] (dev\<lparr>plentbl := replicate MAX_PARM 0\<rparr>)"
    using assms(1) by (simp add: stored_in_def)
  from fparam_loop_over [OF this, of vs fuel rest] v
  show "usmart_get_fparam fuel (name @ ch_open # args_text vs @ ch_close # rest) dev = None"
    unfolding usmart_get_fparam_def skip_to_open_text [OF assms(2,3)] by (cases vs) (auto simp: Let_def)
next
  assume v: "10 < length vs" "10 < fuel"
  have "stored_in 11 [] (dev\<lparr>plentbl := replicate 11 0\<rparr>)"
    using assms(1) by (simp add: stored_in_def)
  from fparam_loop_over [OF this, of vs fuel rest] v
  show "\<exists>dev'. fparam_loop fuel (args_text vs @ ch_close # rest) 0 (dev\<lparr>plentbl := replicate 11 0\<rparr>) =
      Some (USMART_PARMOVER, 11, dev')"
    by (cases vs) auto
qed

section \<open>Unterminated strings\<close>

lemma aparm_inside:
  "ch_quote \<notin> set str \<Longrightarrow> aparm_loop str i False 1 True fparm = None"
proof (induction "length str" arbitrary: str i fparm rule: less_induct)
  case less
  show ?case
  proof (cases str)
    case Nil
    then show ?thesis by simp
  next
    case (Cons c t)
    then have c: "c \<noteq> ch_quote" "ch_quote \<notin> set t"
      using less.prems by auto
    show ?thesis
    proof (cases "c = ch_backslash")
      case False
      then show ?thesis
        using c less.hyps [of t] Cons by simp
    next
      case True
      show ?thesis
      proof (cases t)
        case Nil
        then show ?thesis
          using True c Cons by simp
      next
        case (Cons d t')
        then show ?thesis
          using True c less.hyps [of t'] \<open>str = c # t\<close> by simp
      qed
    qed
  qed
qed

text \<open>
  C39. A string parameter without its closing quote is read beyond the end of the command line: the
  terminating zero does not end a string, so \<open>usmart_get_aparm\<close> goes on behind the array that holds the line.
\<close>

theorem unterminated_string_overruns:
  assumes "ch_quote \<notin> set str"
  shows "usmart_get_aparm (PARM_LEN + 1) (ch_quote # str @ [ch_nul]) = None"
proof -
  have "ch_quote \<notin> set (str @ [ch_nul])"
    using assms by simp
  from aparm_inside [OF this, of 1 "[]"] show ?thesis
    by (simp add: usmart_get_aparm_def aparm_digit_def)
qed

section \<open>Examples\<close>

theorem str2num_value_witness:
  "\<exists>res. usmart_str2num ([48, 88, 70, 70] @ ch_nul # []) = Some (0, res) \<and> res = 255"
proof -
  have "hex_number [48, 88, 70, 70]" "number_value 16 [70, 70] = 255"
    by (simp_all add: hex_number_def is_hex_def is_dec_def digit_val_def)
  then show ?thesis
    using str2num_value [of "[48, 88, 70, 70]" "[]"] by auto
qed

definition shell_zero :: m_usmart_dev where
  "shell_zero = \<lparr>funs = [], fnum = 0, pnum = 0, func_id = 0, sptype = 1, parmtype = 0,
     plentbl = replicate 10 0, parm = replicate 200 0,
     runtimeflag = 0, runtime = 0\<rparr>"

theorem parameter_limit_witness:
  "(\<exists>dev'. usmart_get_fparam 3 ([102] @ ch_open # args_text [7, 9] @ ch_close # [0]) shell_zero =
     Some (USMART_OK, Some 2, dev') \<and> take 8 (parm dev') = [7, 0, 0, 0, 9, 0, 0, 0]) \<and>
   usmart_get_fparam 20 ([102] @ ch_open # args_text [1, 2, 3, 4, 5, 6, 7, 8, 9, 10, 11] @ ch_close # [0]) shell_zero = None"
proof -
  have p: "length (parm shell_zero) = 200" "concat (map u32_bytes [7, 9]) = [7, 0, 0, 0, 9, 0, 0, 0]"
    by (simp_all add: shell_zero_def u32_bytes_def)
  have n: "0 \<notin> set [102 :: u8]" "ch_open \<notin> set [102]"
    by simp_all
  have "\<exists>dev'. usmart_get_fparam 3 ([102] @ ch_open # args_text [7, 9] @ ch_close # [0]) shell_zero =
     Some (USMART_OK, Some 2, dev') \<and> take 8 (parm dev') = [7, 0, 0, 0, 9, 0, 0, 0]"
    using parameter_limit [OF p(1) n, of "[7, 9]" 3 "[0]"] p(2) by fastforce
  moreover have "usmart_get_fparam 20 ([102] @ ch_open # args_text [1, 2, 3, 4, 5, 6, 7, 8, 9, 10, 11] @ ch_close # [0]) shell_zero = None"
    using parameter_limit [OF p(1) n, of "[1, 2, 3, 4, 5, 6, 7, 8, 9, 10, 11]" 20 "[0]"]
    by (simp del: args_text.simps append.simps)
  ultimately show ?thesis ..
qed

theorem unterminated_string_overruns_witness:
  "usmart_get_aparm (PARM_LEN + 1) [34, 97, 98, 41, 0] = None"
  using unterminated_string_overruns [of "[97, 98, 41]"] by simp

end
