(* ===== verification/Usmart.thy ===== *)
theory Usmart
  imports UsmartStrProps
begin

text \<open>
  The debugging shell, USMART/usmart.c: the recognition of a command, \<open>usmart_cmd_rec\<close>, and that a call with
  numbers is recognised with the right function and parameters.
\<close>

abbreviation MAX_FNAME_LEN :: nat where "MAX_FNAME_LEN \<equiv> 30"

section \<open>\<open>usmart_cmd_rec\<close>\<close>

text \<open>The loop over the table: \<open>n\<close> entries from \<open>i\<close> on. The first component is an early return.\<close>

fun cmd_find :: "nat \<Rightarrow> u8 \<Rightarrow> u8 list \<Rightarrow> u8 \<Rightarrow> u8 \<Rightarrow> m_usmart_dev
    \<Rightarrow> (u8 option \<times> u8 \<times> m_usmart_dev) option" where
  "cmd_find 0 i rfname rpnum rval dev = Some (None, i, dev)"
| "cmd_find (Suc n) i rfname rpnum rval dev = do {
     decl \<leftarrow> (if unat i < length (funs dev) then Some (snd (funs dev ! unat i)) else None);
     (sta, sfname, spnum, rval) \<leftarrow> usmart_get_fname MAX_FNAME_LEN decl rval;
     if sta \<noteq> 0 then Some (Some sta, i, dev)
     else do {
       e \<leftarrow> usmart_strcmp sfname rfname;
       if e = 0 then
         (if spnum > rpnum then Some (Some USMART_PARMERR, i, dev)
          else Some (None, i, dev\<lparr>func_id := i\<rparr>))
       else cmd_find n (i + 1) rfname rpnum rval dev
     }
   }"

text \<open>\<open>rval\<close> is the local variable of that name, which is not initialised.\<close>

definition usmart_cmd_rec :: "nat \<Rightarrow> u8 list \<Rightarrow> u8 \<Rightarrow> m_usmart_dev \<Rightarrow> (u8 \<times> m_usmart_dev) option" where
  "usmart_cmd_rec fuel str rval dev = do {
     (sta, rfname, rpnum, rval) \<leftarrow> usmart_get_fname MAX_FNAME_LEN str rval;
     if sta \<noteq> 0 then Some (sta, dev)
     else do {
       (ret, i, dev) \<leftarrow> cmd_find (unat (fnum dev)) 0 rfname rpnum rval dev;
       case ret of
         Some sta \<Rightarrow> Some (sta, dev)
       | None \<Rightarrow>
           if i = fnum dev then Some (USMART_NOFUNCFIND, dev)
           else do {
             (sta, parn, dev) \<leftarrow> usmart_get_fparam fuel str dev;
             if sta \<noteq> 0 then Some (sta, dev)
             else (case parn of None \<Rightarrow> None | Some i \<Rightarrow> Some (USMART_OK, dev\<lparr>pnum := i\<rparr>))
           }
     }
   }"

section \<open>The name of a call\<close>

definition name_char :: "u8 \<Rightarrow> bool" where
  "name_char c \<longleftrightarrow> c \<notin> {ch_nul, ch_space, ch_quote, ch_open, ch_close, ch_star}"

lemma strcmp_terminated: "usmart_strcmp (a @ [ch_nul]) (b @ [ch_nul]) \<noteq> None"
proof (induction a arbitrary: b)
  case Nil
  then show ?case by (cases b) auto
next
  case (Cons c a)
  then show ?case by (cases b) auto
qed

lemma strcmp_value:
  "0 \<notin> set a \<Longrightarrow> 0 \<notin> set b \<Longrightarrow> usmart_strcmp (a @ [ch_nul]) (b @ [ch_nul]) = Some (if a = b then 0 else 1)"
proof (induction a arbitrary: b)
  case Nil
  then show ?case by (cases b) auto
next
  case (Cons c a)
  then show ?case by (cases b) auto
qed

lemma fname_type_ends: "0 \<in> set s \<Longrightarrow> fname_type s fpname pcnt \<noteq> None"
proof (induction s arbitrary: fpname pcnt)
  case Nil
  then show ?case by simp
next
  case (Cons c s)
  then show ?case
    by (cases "c = 0") (simp_all add: Let_def)
qed

lemma fname_offset_name:
  assumes "list_all name_char name"
  shows "fname_offset (name @ ch_open # str) res offset = Some offset"
  using assms
proof (induction name arbitrary: res)
  case Nil
  then show ?case by simp
next
  case (Cons c name)
  obtain d t where d: "name @ ch_open # str = d # t" "d \<noteq> ch_space" "d \<noteq> ch_star"
    using Cons.prems by (cases name) (auto simp: name_char_def)
  have c: "c \<noteq> ch_open" "c \<noteq> ch_nul"
    using Cons.prems by (simp_all add: name_char_def)
  have "fname_offset (d # t) (res + 1) offset = Some offset"
    using Cons.IH [of "res + 1"] Cons.prems d(1) by simp
  then show ?case
    using c d by (simp add: d(1) Let_def del: fname_offset.simps) (simp add: Let_def)
qed

lemma fname_loop_name:
  "list_all name_char name \<Longrightarrow> fs_fover f = 0 \<Longrightarrow> \<not> fs_nchar f \<Longrightarrow>
   fname_loop (name @ str) f = fname_loop str (f\<lparr>fs_fname := fs_fname f @ name\<rparr>)"
proof (induction name arbitrary: f)
  case Nil
  then show ?case by simp
next
  case (Cons c name)
  then have "c \<noteq> ch_nul" "fname_bracket c f = (False, f)" "fname_char c f = f\<lparr>fs_fname := fs_fname f @ [c]\<rparr>"
    by (auto simp: name_char_def fname_bracket_def fname_char_def)
  then show ?case
    using Cons by simp
qed

section \<open>The parameters of a call\<close>

text \<open>Between the brackets, outside a string.\<close>

definition in_args :: "fname_state \<Rightarrow> bool" where
  "in_args f \<longleftrightarrow> fs_fover f = 1 \<and> \<not> fs_nchar f \<and> fs_res f = 0 \<and> list_all is_dec (fs_fpname f)"

lemma dec_char: "is_dec c \<Longrightarrow> c \<notin> {ch_nul, ch_space, ch_quote, ch_open, ch_close, ch_star, ch_comma}"
  by (auto simp: is_dec_def word_le_nat_alt)

lemma fname_loop_digit:
  assumes "in_args f" "is_dec c" "fs_temp f \<noteq> 0"
  shows "\<exists>f'. fname_loop (c # str) f = fname_loop str f' \<and> in_args f' \<and> fs_fname f' = fs_fname f \<and>
    fs_temp f' = (if fs_temp f = 1 then 3 else fs_temp f + 1) \<and>
    fs_parmnum f' = (if fs_temp f = 1 then fs_parmnum f + 1 else fs_parmnum f)"
proof -
  have c: "c \<notin> {ch_nul, ch_space, ch_quote, ch_open, ch_close, ch_star, ch_comma}"
    using dec_char [OF assms(2)] .
  then have "fname_bracket c f = (False, f)"
    by (simp add: fname_bracket_def)
  moreover have "fs_temp f + 1 = 2 \<longleftrightarrow> fs_temp f = 1"
    by (metis add_diff_cancel_right' one_add_one)
  ultimately show ?thesis
    using c assms by (intro exI [of _ "fname_char c f"]) (auto simp: fname_char_def in_args_def Let_def)
qed

lemma fname_loop_digits:
  "list_all is_dec ds \<Longrightarrow> in_args f \<Longrightarrow> 3 \<le> unat (fs_temp f) \<Longrightarrow> unat (fs_temp f) + length ds < 256 \<Longrightarrow>
   \<exists>f'. fname_loop (ds @ str) f = fname_loop str f' \<and> in_args f' \<and> fs_fname f' = fs_fname f \<and>
     fs_parmnum f' = fs_parmnum f"
proof (induction ds arbitrary: f)
  case Nil
  then show ?case by auto
next
  case (Cons c ds)
  have t: "fs_temp f \<noteq> 0" "fs_temp f \<noteq> 1" "unat (fs_temp f + 1) = unat (fs_temp f) + 1"
    using Cons.prems(3,4) by (auto simp: unat_word_ariths)
  obtain f1 where f1: "fname_loop (c # ds @ str) f = fname_loop (ds @ str) f1" "in_args f1"
    "fs_fname f1 = fs_fname f" "fs_temp f1 = fs_temp f + 1" "fs_parmnum f1 = fs_parmnum f"
    using fname_loop_digit [OF Cons.prems(2) _ t(1), of c "ds @ str"] Cons.prems(1) t(2) by auto
  obtain f2 where "fname_loop (ds @ str) f1 = fname_loop str f2" "in_args f2" "fs_fname f2 = fs_fname f1"
    "fs_parmnum f2 = fs_parmnum f1"
    using Cons.IH [OF _ f1(2)] Cons.prems f1(4) t(3) by auto
  then show ?case
    using f1 by auto
qed

lemma fname_loop_number:
  assumes f: "in_args f" "fs_temp f = 1"
  shows "\<exists>f'. fname_loop (dec_text (unat (v :: u32)) @ str) f = fname_loop str f' \<and> in_args f' \<and>
    fs_fname f' = fs_fname f \<and> fs_parmnum f' = fs_parmnum f + 1"
proof -
  obtain d ds where ds: "dec_text (unat v) = d # ds" "is_dec d" "list_all is_dec ds" "length ds < 10"
    using dec_text_u32(1,2) [of v] by (cases "dec_text (unat v)") (auto simp: dec_number_def)
  obtain f1 where f1: "fname_loop (d # ds @ str) f = fname_loop (ds @ str) f1" "in_args f1"
    "fs_fname f1 = fs_fname f" "fs_temp f1 = 3" "fs_parmnum f1 = fs_parmnum f + 1"
    using fname_loop_digit [OF f(1) ds(2), of "ds @ str"] f(2) by auto
  obtain f2 where "fname_loop (ds @ str) f1 = fname_loop str f2" "in_args f2" "fs_fname f2 = fs_fname f1"
    "fs_parmnum f2 = fs_parmnum f1"
    using fname_loop_digits [OF ds(3) f1(2), of str] f1(4) ds(4) by auto
  then show ?thesis
    using f1 ds(1) by auto
qed

lemma fname_loop_comma:
  assumes "in_args f"
  shows "\<exists>f'. fname_loop (ch_comma # str) f = fname_loop str f' \<and> in_args f' \<and> fs_temp f' = 1 \<and>
    fs_fname f' = fs_fname f \<and> fs_parmnum f' = fs_parmnum f"
  using assms
  by (intro exI [of _ "fname_char ch_comma f"]) (simp add: fname_bracket_def fname_char_def in_args_def Let_def)

lemma fname_loop_close:
  assumes "in_args f"
  shows "\<exists>f'. fname_loop (ch_close # str) f = Some f' \<and> fs_res f' = 0 \<and> fs_fname f' = fs_fname f \<and>
    fs_parmnum f' = fs_parmnum f \<and> list_all is_dec (fs_fpname f')"
  using assms by (simp add: fname_bracket_def in_args_def Let_def)

lemma fname_loop_args:
  "in_args f \<Longrightarrow> fs_temp f = 1 \<Longrightarrow>
   \<exists>f'. fname_loop (args_text vs @ ch_close # str) f = Some f' \<and> fs_res f' = 0 \<and> fs_fname f' = fs_fname f \<and>
     fs_parmnum f' = fs_parmnum f + of_nat (length vs) \<and> list_all is_dec (fs_fpname f')"
proof (induction vs arbitrary: f rule: args_text.induct)
  case 1
  then show ?case
    using fname_loop_close by simp
next
  case (2 v)
  obtain f1 where f1: "fname_loop (dec_text (unat v) @ ch_close # str) f = fname_loop (ch_close # str) f1" "in_args f1"
    "fs_fname f1 = fs_fname f" "fs_parmnum f1 = fs_parmnum f + 1"
    using fname_loop_number [OF "2.prems"] by blast
  then show ?case
    using fname_loop_close [OF f1(2), of str] by auto
next
  case (3 v v' vs)
  let ?t = "args_text (v' # vs) @ ch_close # str"
  obtain f1 where f1: "fname_loop (dec_text (unat v) @ ch_comma # ?t) f = fname_loop (ch_comma # ?t) f1" "in_args f1"
    "fs_fname f1 = fs_fname f" "fs_parmnum f1 = fs_parmnum f + 1"
    using fname_loop_number [OF "3.prems"] by blast
  obtain f2 where f2: "fname_loop (ch_comma # ?t) f1 = fname_loop ?t f2" "in_args f2" "fs_temp f2 = 1"
    "fs_fname f2 = fs_fname f1" "fs_parmnum f2 = fs_parmnum f1"
    using fname_loop_comma [OF f1(2)] by blast
  obtain f3 where "fname_loop ?t f2 = Some f3" "fs_res f3 = 0" "fs_fname f3 = fs_fname f2"
    "fs_parmnum f3 = fs_parmnum f2 + of_nat (length (v' # vs))" "list_all is_dec (fs_fpname f3)"
    using "3.IH" [OF f2(2,3)] by blast
  then show ?case
    using f1 f2 by (intro exI [of _ f3]) (simp add: add.assoc del: fname_loop.simps)
qed

lemma get_fname_call:
  assumes n: "list_all name_char name" "length name < cap" and k: "length vs \<le> 10"
  shows "\<exists>r. usmart_get_fname cap (name @ ch_open # args_text vs @ ch_close # ch_nul # rest) rval =
    Some (0, name @ [ch_nul], of_nat (length vs), r)"
proof -
  let ?args = "args_text vs @ ch_close # ch_nul # rest"
  let ?str = "name @ ch_open # ?args"
  let ?f = "\<lparr>fs_res = 0, fs_fover = 0, fs_nchar = False, fs_fname = [], fs_pcnt = 0, fs_fplcnt = 0,
            fs_fpname = [], fs_temp = 1, fs_parmnum = 0\<rparr>"
  let ?g = "?f\<lparr>fs_fname := name, fs_fover := 1\<rparr>"
  obtain fpname pcnt where t: "fname_type ?str [] 0 = Some (fpname, pcnt)"
    using fname_type_ends [of ?str "[]" 0] by auto
  obtain e where e: "usmart_strcmp (fpname @ [ch_nul]) str_void = Some e"
    using strcmp_terminated [of fpname "[118, 111, 105, 100]"] by auto
  have "fname_loop ?str ?f = fname_loop (ch_open # ?args) (?f\<lparr>fs_fname := name\<rparr>)"
    using fname_loop_name [OF n(1), of ?f "ch_open # ?args"] by simp
  also have "\<dots> = fname_loop ?args ?g"
    by (simp add: fname_bracket_def fname_char_def)
  finally have l: "fname_loop ?str ?f = fname_loop ?args ?g" .
  obtain f where f: "fname_loop ?args ?g = Some f" "fs_res f = 0" "fs_fname f = name"
    "fs_parmnum f = of_nat (length vs)" "list_all is_dec (fs_fpname f)"
    using fname_loop_args [of ?g vs "ch_nul # rest"] by (auto simp: in_args_def)
  have nv: "fs_fpname f \<noteq> [118, 111, 105, 100]"
    using f(5) by (auto simp: is_dec_def)
  have z: "0 \<notin> set (fs_fpname f)"
    using f(5) list_all_dec_hex list_all_hex_nonzero by blast
  have v: "usmart_strcmp (fs_fpname f @ [ch_nul]) str_void = Some 1"
    using strcmp_value [OF z, of "[118, 111, 105, 100]"] nv by simp
  show ?thesis
    unfolding usmart_get_fname_def t fname_offset_name [OF n(1)]
    using e l f v n(2) by (simp del: fname_loop.simps)
qed

section \<open>Recognition\<close>

text \<open>A table whose \<open>i\<close>-th declaration reads as the name \<open>names i\<close> with \<open>np i\<close> parameters.\<close>

definition table_ok :: "m_usmart_dev \<Rightarrow> (nat \<Rightarrow> u8 list) \<Rightarrow> (nat \<Rightarrow> u8) \<Rightarrow> bool" where
  "table_ok dev names np \<longleftrightarrow> unat (fnum dev) = length (funs dev) \<and>
     (\<forall>i < length (funs dev). 0 \<notin> set (names i) \<and>
        (\<forall>r. \<exists>r'. usmart_get_fname MAX_FNAME_LEN (snd (funs dev ! i)) r = Some (0, names i @ [ch_nul], np i, r')))"

lemma cmd_find_entry:
  assumes t: "table_ok dev names np" and j: "j < length (funs dev)" "\<forall>i < j. names i \<noteq> names j" "np j \<le> rpnum"
  shows "i \<le> j \<Longrightarrow> n = length (funs dev) - i \<Longrightarrow>
    cmd_find n (of_nat i) (names j @ [ch_nul]) rpnum rval dev =
      Some (None, of_nat j, dev\<lparr>func_id := of_nat j\<rparr>)"
proof (induction n arbitrary: i rval)
  case 0
  then show ?case
    using j(1) by simp
next
  case (Suc n)
  have l: "length (funs dev) < 256"
    using t unat_u8_bound [of "fnum dev"] by (simp add: table_ok_def)
  then have i: "unat (of_nat i :: u8) = i" "i < length (funs dev)"
    using Suc.prems(1) j(1) by (simp_all only: unat_of_nat) simp_all
  obtain r where g: "usmart_get_fname MAX_FNAME_LEN (snd (funs dev ! i)) rval = Some (0, names i @ [ch_nul], np i, r)"
    using t i(2) unfolding table_ok_def by blast
  have "0 \<notin> set (names i)" "0 \<notin> set (names j)"
    using t i(2) j(1) by (simp_all add: table_ok_def)
  then have c: "usmart_strcmp (names i @ [ch_nul]) (names j @ [ch_nul]) = Some (if names i = names j then 0 else 1)"
    by (rule strcmp_value)
  show ?case
  proof (cases "i = j")
    case True
    then show ?thesis
      using g c i j(3) by simp
  next
    case False
    then have "i < j"
      using Suc.prems(1) by simp
    then have "cmd_find n (of_nat (Suc i)) (names j @ [ch_nul]) rpnum r dev =
        Some (None, of_nat j, dev\<lparr>func_id := of_nat j\<rparr>)"
      using Suc.prems(2) by (intro Suc.IH) simp_all
    then show ?thesis
      using g c i j(2) \<open>i < j\<close> by (simp add: add.commute)
  qed
qed

lemma cmd_rec_call:
  assumes "table_ok dev names np" "j < length (funs dev)" "\<forall>i < j. names i \<noteq> names j"
    and "list_all name_char (names j)" "length (names j) < MAX_FNAME_LEN"
    and "unat (np j) \<le> length vs" "length vs \<le> 10" "length (parm dev) = 200" "length vs < fuel"
  shows "\<exists>dev'. usmart_cmd_rec fuel (names j @ ch_open # args_text vs @ ch_close # ch_nul # rest) rval dev =
      Some (USMART_OK, dev') \<and>
    func_id dev' = of_nat j \<and> pnum dev' = of_nat (length vs) \<and> stored vs dev' \<and>
    funs dev' = funs dev \<and> fnum dev' = fnum dev \<and> sptype dev' = sptype dev \<and> runtimeflag dev' = runtimeflag dev"
proof -
  let ?str = "names j @ ch_open # args_text vs @ ch_close # ch_nul # rest"
  let ?dev = "dev\<lparr>func_id := of_nat j\<rparr>"
  obtain r where r: "usmart_get_fname MAX_FNAME_LEN ?str rval = Some (0, names j @ [ch_nul], of_nat (length vs), r)"
    using get_fname_call [OF assms(4,5,7)] by blast
  have l: "length (funs dev) < 256" "unat (fnum dev) = length (funs dev)"
    using assms(1) unat_u8_bound [of "fnum dev"] by (simp_all add: table_ok_def)
  have u: "unat (of_nat (length vs) :: u8) = length vs" "unat (of_nat j :: u8) = j"
    using assms(2,7) l(1) by (simp_all only: unat_of_nat) simp_all
  have "np j \<le> of_nat (length vs)"
    unfolding word_le_nat_alt u(1) by (rule assms(6))
  then have f: "cmd_find (unat (fnum dev)) 0 (names j @ [ch_nul]) (of_nat (length vs)) r dev = Some (None, of_nat j, ?dev)"
    using cmd_find_entry [OF assms(1-3), of "of_nat (length vs)" 0 "unat (fnum dev)" r] l(2) by simp
  have ne: "(of_nat j :: u8) \<noteq> fnum ?dev"
    using u(2) l(2) assms(2) by auto
  have "0 \<notin> set (names j)" "ch_open \<notin> set (names j)" "length (parm ?dev) = 200"
    using assms(4,8) by (auto simp: list_all_iff name_char_def)
  then obtain dev' where d: "usmart_get_fparam fuel ?str ?dev = Some (USMART_OK, Some (of_nat (length vs)), dev')"
    "stored vs dev'" "same_table dev' ?dev"
    using get_fparam_numbers [of vs ?dev fuel "names j" "ch_nul # rest"] assms(7,9) by auto
  have "usmart_cmd_rec fuel ?str rval dev = Some (USMART_OK, dev'\<lparr>pnum := of_nat (length vs)\<rparr>)"
    unfolding usmart_cmd_rec_def r bind.bind_lunit prod.case using f ne d(1) by simp
  then show ?thesis
    using d(2,3) u by (intro exI [of _ "dev'\<lparr>pnum := of_nat (length vs)\<rparr>"]) (simp add: stored_in_def same_table_def)
qed

text \<open>
  A call is recognised: a command line that calls the \<open>j\<close>-th function of the table with at most ten numbers, and
  at least as many as it is declared with, sets the function's number, the number of parameters and
  their values, and returns \<open>USMART_OK\<close>; nothing else of the table or the settings changes.
\<close>

theorem command_recognised:
  assumes "table_ok dev names np" "j < length (funs dev)" "\<forall>i < j. names i \<noteq> names j"
    and "list_all name_char (names j)" "length (names j) < MAX_FNAME_LEN"
    and "unat (np j) \<le> length vs" "length vs \<le> 10" "length (parm dev) = 200" "length vs < fuel"
  shows "\<exists>dev'. usmart_cmd_rec fuel (names j @ ch_open # args_text vs @ ch_close # ch_nul # rest) rval dev =
      Some (USMART_OK, dev') \<and>
    unat (func_id dev') = j \<and> unat (pnum dev') = length vs \<and>
    take (4 * length vs) (parm dev') = concat (map u32_bytes vs) \<and>
    funs dev' = funs dev \<and> fnum dev' = fnum dev \<and> sptype dev' = sptype dev"
proof -
  have l: "length (funs dev) < 256"
    using assms(1) unat_u8_bound [of "fnum dev"] by (simp add: table_ok_def)
  have u: "unat (of_nat (length vs) :: u8) = length vs" "unat (of_nat j :: u8) = j"
    using assms(2,7) l by (simp_all only: unat_of_nat) simp_all
  show ?thesis
    using cmd_rec_call [OF assms, of rest rval] u by (auto simp: stored_in_def)
qed

section \<open>Examples\<close>

text \<open>\<open>"void f(u8 a)"\<close> and \<open>"u32 gh(void)"\<close>.\<close>

definition shell_example :: m_usmart_dev where
  "shell_example = \<lparr>
     funs = [(0x8000101, [118, 111, 105, 100, 32, 102, 40, 117, 56, 32, 97, 41, 0]),
             (0x8000201, [117, 51, 50, 32, 103, 104, 40, 118, 111, 105, 100, 41, 0])],
     fnum = 2, pnum = 0, func_id = 0, sptype = 1, parmtype = 0, plentbl = replicate 10 0, parm = replicate 200 0,
     runtimeflag = 0, runtime = 0\<rparr>"

text \<open>The loop of \<open>usmart_get_fname\<close>, character by character.\<close>

abbreviation fname_at :: "u8 \<Rightarrow> u8 list \<Rightarrow> u8 \<Rightarrow> u8 list \<Rightarrow> u8 \<Rightarrow> u8 \<Rightarrow> fname_state" where
  "fname_at fover fname fplcnt fpname temp parmnum \<equiv> \<lparr>fs_res = 0, fs_fover = fover, fs_nchar = False, fs_fname = fname,
     fs_pcnt = 0, fs_fplcnt = fplcnt, fs_fpname = fpname, fs_temp = temp, fs_parmnum = parmnum\<rparr>"

lemma fname_loop_chars:
  "c \<notin> {0, 32, 34, 40, 41} \<Longrightarrow> fname_loop (c # s) (fname_at 0 nm fl fp t pn) = fname_loop s (fname_at 0 (nm @ [c]) fl fp t pn)"
  "t \<noteq> 2 \<Longrightarrow> fname_loop (40 # s) (fname_at 0 nm fl fp t pn) = fname_loop s (fname_at 1 nm fl fp t pn)"
  "c \<notin> {0, 32, 34, 40, 41, 44} \<Longrightarrow> fl < 5 \<Longrightarrow> t = 1 \<Longrightarrow>
   fname_loop (c # s) (fname_at 1 nm fl fp t pn) = fname_loop s (fname_at 1 nm (fl + 1) (fp @ [c]) 3 (pn + 1))"
  "c \<notin> {0, 32, 34, 40, 41, 44} \<Longrightarrow> fl < 5 \<Longrightarrow> t + 1 \<noteq> 2 \<Longrightarrow>
   fname_loop (c # s) (fname_at 1 nm fl fp t pn) = fname_loop s (fname_at 1 nm (fl + 1) (fp @ [c]) (t + 1) pn)"
  "t \<noteq> 2 \<Longrightarrow> fname_loop (32 # s) (fname_at 1 nm fl fp t pn) = fname_loop s (fname_at 1 nm fl fp t pn)"
  "fname_loop (41 # s) (fname_at 1 nm fl fp t pn) = Some (fname_at 0 nm fl fp t pn)"
  by (simp_all add: fname_bracket_def fname_char_def)

lemma decl_f: "usmart_get_fname 30 [118, 111, 105, 100, 32, 102, 40, 117, 56, 32, 97, 41, 0] r = Some (0, [102, 0], 1, 0)"
proof -
  have l: "fname_loop [102, 40, 117, 56, 32, 97, 41, 0] (fname_at 0 [] 0 [] 1 0) = Some (fname_at 0 [102] 3 [117, 56, 97] 5 1)"
    by (simp add: fname_loop_chars del: fname_loop.simps)
  have o: "fname_offset [118, 111, 105, 100, 32, 102, 40, 117, 56, 32, 97, 41, 0] 0 0 = Some 4"
    by (simp add: usmart_search_nextc_def)
  have t: "fname_type [118, 111, 105, 100, 32, 102, 40, 117, 56, 32, 97, 41, 0] [] 0 = Some ([118, 111, 105, 100], 0x84)"
    by simp
  show ?thesis
    unfolding usmart_get_fname_def t o by (simp add: l del: fname_loop.simps)
qed

lemma decl_gh: "usmart_get_fname 30 [117, 51, 50, 32, 103, 104, 40, 118, 111, 105, 100, 41, 0] r = Some (0, [103, 104, 0], 0, 1)"
proof -
  have l: "fname_loop [103, 104, 40, 118, 111, 105, 100, 41, 0] (fname_at 0 [] 0 [] 1 0) =
      Some (fname_at 0 [103, 104] 4 [118, 111, 105, 100] 6 1)"
    by (simp add: fname_loop_chars del: fname_loop.simps)
  have o: "fname_offset [117, 51, 50, 32, 103, 104, 40, 118, 111, 105, 100, 41, 0] 0 0 = Some 3"
    by (simp add: usmart_search_nextc_def)
  have t: "fname_type [117, 51, 50, 32, 103, 104, 40, 118, 111, 105, 100, 41, 0] [] 0 = Some ([117, 51, 50, 103], 0x84)"
    by simp
  show ?thesis
    unfolding usmart_get_fname_def t o by (simp add: l del: fname_loop.simps)
qed

lemma shell_example_table:
  "table_ok shell_example (\<lambda>i. if i = 0 then [102] else [103, 104]) (\<lambda>i. if i = 0 then 1 else 0)"
  by (simp add: table_ok_def shell_example_def less_Suc_eq decl_f decl_gh)

theorem command_recognised_witness:
  "\<exists>dev'. usmart_cmd_rec 3 ([103, 104] @ ch_open # args_text [7, 9] @ ch_close # ch_nul # []) 0 shell_example =
      Some (USMART_OK, dev') \<and> unat (func_id dev') = 1 \<and> unat (pnum dev') = 2 \<and>
      take 8 (parm dev') = [7, 0, 0, 0, 9, 0, 0, 0]"
proof -
  have p: "length (parm shell_example) = 200" "length (funs shell_example) = 2"
    by (simp_all add: shell_example_def)
  have n: "list_all name_char [103, 104]" "concat (map u32_bytes [7, 9]) = [7, 0, 0, 0, 9, 0, 0, 0]"
    by (simp_all add: name_char_def u32_bytes_def)
  show ?thesis
    using command_recognised [OF shell_example_table, of 1 "[7, 9]" 3 "[]" 0] p n by fastforce
qed

end
