(* ===== verification/UsmartExe.thy ===== *)
theory UsmartExe
  imports Usmart HalTim Malloc
begin

text \<open>
  The rest of the shell, USMART/usmart.c: the execution of a recognised command, the system commands, the scan of the
  receive buffer, and the timer. What is printed is a list of items.
\<close>

section \<open>State\<close>

text \<open>Messages that are fixed texts are named; \<open>Hex08\<close> is the format \<open>%08X\<close>.\<close>

datatype shell_msg =
    Msg_help | Msg_list | Msg_ids | Msg_hex_on | Msg_dec_on | Msg_runtime_on | Msg_runtime_off
  | Msg_funcerr | Msg_parmerr | Msg_parmover | Msg_nofuncfind

datatype shell_out =
    Newline
  | Lit string
  | Msg shell_msg
  | Str "u8 list"
  | Hex u32
  | Hex08 u32
  | Dec u32

text \<open>\<open>USART_RX_STA\<close> and \<open>USART_RX_BUF\<close> belong to the serial layer the shell is used with; \<open>tim4_clock_on\<close> and
  \<open>tim4_nvic\<close> are the clock of timer 4 and the priority of its interrupt once it is enabled.\<close>

record 'w shell = tim_state +
  sh_dev :: m_usmart_dev
  sh_out :: "shell_out list"
  USART_RX_STA :: u16
  USART_RX_BUF :: "u8 list"
  tim4_clock_on :: bool
  tim4_nvic :: "(nat \<times> nat) option"
  sh_world :: 'w

text \<open>
  What an execution depends on outside the shell: \<open>sx_call\<close> calls the function at an address with arguments (\<open>None\<close> when it
  accesses memory it must not), on the state \<open>sh_world\<close>; \<open>sx_time\<close> is what timer 4 does meanwhile; \<open>sx_parm\<close> is the address of
  \<open>usmart_dev.parm\<close>; the others are the values of local variables that are not initialised. The state \<open>sh_world\<close> does not contain the
  manager and the receive buffer: a call that writes these through their addresses (\<open>write_addr\<close> with such an argument) is not covered.
\<close>

record 'w shell_env =
  sx_call :: "u32 \<Rightarrow> u32 list \<Rightarrow> 'w \<Rightarrow> (u32 \<times> 'w) option"
  sx_time :: "TIM_TypeDef \<Rightarrow> TIM_TypeDef"
  sx_parm :: u32
  sx_temp :: "u32 list"
  sx_rval :: u8
  sx_res :: u32

abbreviation SP_TYPE_DEC :: u8 where "SP_TYPE_DEC \<equiv> 0"
abbreviation SP_TYPE_HEX :: u8 where "SP_TYPE_HEX \<equiv> 1"

definition upd_dev :: "(m_usmart_dev \<Rightarrow> m_usmart_dev) \<Rightarrow> 'w shell \<Rightarrow> 'w shell" where
  "upd_dev f s = s\<lparr>sh_dev := f (sh_dev s)\<rparr>"

definition print :: "shell_out list \<Rightarrow> 'w shell \<Rightarrow> 'w shell" where
  "print xs s = s\<lparr>sh_out := sh_out s @ xs\<rparr>"

text \<open>The characters of a string up to its terminator.\<close>

fun cstr :: "u8 list \<Rightarrow> u8 list option" where
  "cstr [] = None"
| "cstr (c # str) = (if c = ch_nul then Some [] else do { t \<leftarrow> cstr str; Some (c # t) })"

section \<open>The run time\<close>

definition usmart_reset_runtime :: "'w shell \<Rightarrow> 'w shell" where
  "usmart_reset_runtime s =
     (let s = upd_htim_regs TIM4_Handler (HAL_TIM_CLEAR_IT TIM_IT_UPDATE) s;
          s = HAL_TIM_SET_AUTORELOAD TIM4_Handler 0xFFFF s;
          s = upd_htim_regs TIM4_Handler (\<lambda>r. r\<lparr>T_CNT := 0\<rparr>) s
      in upd_dev (\<lambda>d. d\<lparr>runtime := 0\<rparr>) s)"

definition usmart_get_runtime :: "'w shell \<Rightarrow> u32 \<times> 'w shell" where
  "usmart_get_runtime s =
     (let s = (if HAL_TIM_GET_FLAG (htim_regs TIM4_Handler s) TIM_IT_UPDATE
               then upd_dev (\<lambda>d. d\<lparr>runtime := runtime d + 0xFFFF\<rparr>) s else s);
          s = upd_dev (\<lambda>d. d\<lparr>runtime := runtime d + T_CNT (htim_regs TIM4_Handler s)\<rparr>) s
      in (runtime (sh_dev s), s))"

section \<open>Execution\<close>

text \<open>The word at \<open>parm + pos\<close>.\<close>

definition parm_u32 :: "m_usmart_dev \<Rightarrow> u8 \<Rightarrow> u32 option" where
  "parm_u32 dev pos =
     (if unat pos + 4 \<le> length (parm dev)
      then Some (word_rcat (rev (take 4 (drop (unat pos) (parm dev))))) else None)"

text \<open>The loop over the parameters: \<open>n\<close> rounds from \<open>i\<close> on; the array \<open>temp\<close> and what is printed.\<close>

fun exe_parms :: "nat \<Rightarrow> u8 \<Rightarrow> u8 \<Rightarrow> u32 \<Rightarrow> m_usmart_dev \<Rightarrow> u32 list \<Rightarrow> (u32 list \<times> shell_out list) option" where
  "exe_parms 0 i np parm_addr dev temp = Some (temp, [])"
| "exe_parms (Suc n) i np parm_addr dev temp = do {
     pos \<leftarrow> usmart_get_parmpos dev i;
     (v, txt) \<leftarrow>
       (if (ucast (parmtype dev) :: u32) AND push_bit (unat i) 1 \<noteq> 0 then do {
          t \<leftarrow> cstr (drop (unat pos) (parm dev));
          Some (parm_addr + ucast pos, [Lit [CHR 34], Str t, Lit [CHR 34]])
        }
        else do {
          v \<leftarrow> parm_u32 dev pos;
          Some (v, if sptype dev = SP_TYPE_DEC then [Dec v] else [Lit ''0X'', Hex v])
        });
     temp \<leftarrow> (if unat i < length temp then Some (temp[unat i := v]) else None);
     let comma = (if i \<noteq> np - 1 then [Lit '','' ] else []);
     (temp, rest) \<leftarrow> exe_parms n (i + 1) np parm_addr dev temp;
     Some (temp, txt @ comma @ rest)
   }"

text \<open>What is printed after the call.\<close>

definition exe_shown :: "u8 \<Rightarrow> u32 \<Rightarrow> 'w shell \<Rightarrow> 'w shell" where
  "exe_shown rval res s =
     (let s = (if rval = 1 then
                 print (if sptype (sh_dev s) = SP_TYPE_DEC then [Lit ''='', Dec res, Lit '';'', Newline]
                        else [Lit ''=0X'', Hex res, Lit '';'', Newline]) s
               else print [Lit '';'', Newline] s)
      in if runtimeflag (sh_dev s) \<noteq> 0
         then print [Lit ''Function Run Time:'', Dec (runtime (sh_dev s) div 10), Lit ''.'',
                     Dec (runtime (sh_dev s) mod 10), Lit ''ms'', Newline] s
         else s)"

definition usmart_exe :: "'w shell_env \<Rightarrow> 'w shell \<Rightarrow> 'w shell option" where
  "usmart_exe env s =
     (let dev = sh_dev s; i = func_id dev
      in if fnum dev \<le> i then Some s
         else do {
           (func, decl) \<leftarrow> (if unat i < length (funs dev) then Some (funs dev ! unat i) else None);
           (_, sfname, np, rval) \<leftarrow> usmart_get_fname MAX_FNAME_LEN decl (sx_rval env);
           name \<leftarrow> cstr sfname;
           (temp, out) \<leftarrow> exe_parms (unat np) 0 np (sx_parm env) dev (sx_temp env);
           let s = print ([Newline, Str name, Lit ''(''] @ out @ [Lit '')'']) s;
           let s = usmart_reset_runtime s;
           (res, w) \<leftarrow> (if pnum dev \<le> 10 then sx_call env func (take (unat (pnum dev)) temp) (sh_world s)
                        else Some (sx_res env, sh_world s));
           let s = upd_htim_regs TIM4_Handler (sx_time env) (s\<lparr>sh_world := w\<rparr>);
           let s = snd (usmart_get_runtime s);
           Some (exe_shown rval res s)
         })"

section \<open>System commands\<close>

definition text_bytes :: "string \<Rightarrow> u8 list" where
  "text_bytes t = map of_char t @ [ch_nul]"

definition sys_cmd_tab :: "u8 list list" where
  "sys_cmd_tab = map text_bytes [''?'', ''help'', ''list'', ''id'', ''hex'', ''dec'', ''runtime'']"

fun sys_cmd_find :: "u8 list \<Rightarrow> u8 list list \<Rightarrow> u8 \<Rightarrow> u8 option" where
  "sys_cmd_find sfname [] i = Some i"
| "sys_cmd_find sfname (t # ts) i = do {
     e \<leftarrow> usmart_strcmp sfname t;
     if e = 0 then Some i else sys_cmd_find sfname ts (i + 1)
   }"

text \<open>The loops of the commands \<open>list\<close> and \<open>id\<close>.\<close>

fun list_names :: "nat \<Rightarrow> nat \<Rightarrow> m_usmart_dev \<Rightarrow> shell_out list option" where
  "list_names 0 i dev = Some []"
| "list_names (Suc n) i dev = do {
     t \<leftarrow> (if i < length (funs dev) then cstr (snd (funs dev ! i)) else None);
     rest \<leftarrow> list_names n (Suc i) dev;
     Some (Str t # Newline # rest)
   }"

fun list_ids :: "nat \<Rightarrow> nat \<Rightarrow> u8 \<Rightarrow> m_usmart_dev \<Rightarrow> shell_out list option" where
  "list_ids 0 i rval dev = Some []"
| "list_ids (Suc n) i rval dev = do {
     (func, decl) \<leftarrow> (if i < length (funs dev) then Some (funs dev ! i) else None);
     (_, sfname, _, rval) \<leftarrow> usmart_get_fname MAX_FNAME_LEN decl rval;
     t \<leftarrow> cstr sfname;
     rest \<leftarrow> list_ids n (Suc i) rval dev;
     Some ([Str t, Lit '' id is:'', Newline, Lit ''0X'', Hex08 func, Newline] @ rest)
   }"

text \<open>
  The commands \<open>hex\<close>, \<open>dec\<close> and \<open>runtime\<close> read one parameter into the array of 30 bytes meant for a name: the inner
  value is \<open>None\<close> for a parameter that is no number or text (\<open>*ptype\<close> not 0), else the results of \<open>usmart_str2num\<close>.
\<close>

definition sys_cmd_parm :: "u8 list \<Rightarrow> (u8 \<times> u32) option option" where
  "sys_cmd_parm str = do {
     (_, sfname, ptype) \<leftarrow> usmart_get_aparm MAX_FNAME_LEN str;
     if ptype = 0 then do { r \<leftarrow> usmart_str2num sfname; Some (Some r) } else Some None
   }"

definition sys_cmd_base :: "u8 list \<Rightarrow> (u32 \<Rightarrow> shell_out list) \<Rightarrow> shell_msg \<Rightarrow> u8 \<Rightarrow> 'w shell \<Rightarrow> (u8 \<times> 'w shell) option" where
  "sys_cmd_base str show_num msg sp s = do {
     let s = print [Newline] s;
     p \<leftarrow> sys_cmd_parm str;
     Some (case p of
         None \<Rightarrow> (USMART_PARMERR, s)
       | Some (e, res) \<Rightarrow>
           if e = 0 then (0, print (show_num res @ [Newline]) s)
           else if e \<noteq> 4 then (USMART_PARMERR, s)
           else (0, print [Newline] (upd_dev (\<lambda>d. d\<lparr>sptype := sp\<rparr>) (print [Msg msg] s))))
   }"

definition sys_cmd_runtime :: "u8 list \<Rightarrow> 'w shell \<Rightarrow> (u8 \<times> 'w shell) option" where
  "sys_cmd_runtime str s = do {
     let s = print [Newline] s;
     p \<leftarrow> sys_cmd_parm str;
     Some (case p of
         None \<Rightarrow> (USMART_PARMERR, s)
       | Some (e, res) \<Rightarrow>
           if e = 0 then
             (let s = upd_dev (\<lambda>d. d\<lparr>runtimeflag := ucast res\<rparr>) s
              in (0, print [Msg (if runtimeflag (sh_dev s) \<noteq> 0 then Msg_runtime_on else Msg_runtime_off), Newline] s))
           else (USMART_PARMERR, s))
   }"

definition usmart_sys_cmd_exe :: "u8 \<Rightarrow> u8 list \<Rightarrow> 'w shell \<Rightarrow> (u8 \<times> 'w shell) option" where
  "usmart_sys_cmd_exe rval str s = do {
     (res, sfname, i) \<leftarrow> usmart_get_cmdname str (of_nat MAX_FNAME_LEN);
     if res \<noteq> 0 then Some (USMART_FUNCERR, s)
     else do {
       let str = drop (unat i) str;
       i \<leftarrow> sys_cmd_find sfname sys_cmd_tab 0;
       if i = 0 \<or> i = 1 then Some (0, print [Newline, Msg Msg_help] s)
       else if i = 2 then do {
         names \<leftarrow> list_names (unat (fnum (sh_dev s))) 0 (sh_dev s);
         Some (0, print ([Newline, Msg Msg_list] @ names @ [Newline]) s)
       }
       else if i = 3 then do {
         ids \<leftarrow> list_ids (unat (fnum (sh_dev s))) 0 rval (sh_dev s);
         Some (0, print ([Newline, Msg Msg_ids] @ ids @ [Newline]) s)
       }
       else if i = 4 then sys_cmd_base str (\<lambda>v. [Lit ''HEX:0X'', Hex v, Newline]) Msg_hex_on SP_TYPE_HEX s
       else if i = 5 then sys_cmd_base str (\<lambda>v. [Lit ''DEC:'', Dec v, Newline]) Msg_dec_on SP_TYPE_DEC s
       else if i = 6 then sys_cmd_runtime str s
       else Some (USMART_FUNCERR, s)
     }
   }"

section \<open>The scan\<close>

definition scan_error :: "u8 \<Rightarrow> 'w shell \<Rightarrow> 'w shell" where
  "scan_error sta s =
     (if sta = USMART_FUNCERR then print [Msg Msg_funcerr] s
      else if sta = USMART_PARMERR then print [Msg Msg_parmerr] s
      else if sta = USMART_PARMOVER then print [Msg Msg_parmover] s
      else if sta = USMART_NOFUNCFIND then print [Msg Msg_nofuncfind] s
      else s)"

text \<open>\<open>fuel\<close> bounds the parameters of the command.\<close>

definition usmart_scan :: "nat \<Rightarrow> 'w shell_env \<Rightarrow> 'w shell \<Rightarrow> 'w shell option" where
  "usmart_scan fuel env s =
     (if USART_RX_STA s AND 0x8000 \<noteq> 0 then do {
        let len = (ucast (USART_RX_STA s AND 0x3FFF) :: u8);
        s \<leftarrow> (if unat len < length (USART_RX_BUF s)
              then Some (s\<lparr>USART_RX_BUF := (USART_RX_BUF s)[unat len := ch_nul]\<rparr>) else None);
        (sta, dev) \<leftarrow> usmart_cmd_rec fuel (USART_RX_BUF s) (sx_rval env) (sh_dev s);
        let s = s\<lparr>sh_dev := dev\<rparr>;
        s \<leftarrow> (if sta = 0 then usmart_exe env s
              else do {
                (len, s) \<leftarrow> usmart_sys_cmd_exe (sx_rval env) (USART_RX_BUF s) s;
                let sta = (if len \<noteq> USMART_FUNCERR then len else sta);
                Some (if sta \<noteq> 0 then scan_error sta s else s)
              });
        Some (s\<lparr>USART_RX_STA := 0\<rparr>)
      }
      else Some s)"

section \<open>The timer\<close>

definition TIM4_IRQHandler :: "nat \<Rightarrow> 'w shell_env \<Rightarrow> 'w shell \<Rightarrow> 'w shell option" where
  "TIM4_IRQHandler fuel env s = do {
     s \<leftarrow> (if HAL_TIM_GET_IT_SOURCE (htim_regs TIM4_Handler s) TIM_IT_UPDATE then do {
             s \<leftarrow> usmart_scan fuel env s;
             let s = upd_htim_regs TIM4_Handler (\<lambda>r. r\<lparr>T_CNT := 0\<rparr>) s;
             Some (HAL_TIM_SET_AUTORELOAD TIM4_Handler 100 s)
           }
           else Some s);
     Some (upd_htim_regs TIM4_Handler (HAL_TIM_CLEAR_IT TIM_IT_UPDATE) s)
   }"

text \<open>\<open>HAL_TIM_Base_MspInit\<close> of the board does nothing for timer 4.\<close>

definition Timer4_Init :: "u16 \<Rightarrow> u16 \<Rightarrow> 'w shell \<Rightarrow> 'w shell" where
  "Timer4_Init arr psc s =
     (let s = s\<lparr>tim4_clock_on := True\<rparr>;
          s = s\<lparr>tim4_nvic := Some (0, 3)\<rparr>;
          s = upd_htim TIM4_Handler (\<lambda>h. h\<lparr>TInstance := TIM4\<rparr>) s;
          s = upd_htim TIM4_Handler (\<lambda>h. h\<lparr>TInit := (TInit h)\<lparr>Prescaler := ucast psc\<rparr>\<rparr>) s;
          s = upd_htim TIM4_Handler (\<lambda>h. h\<lparr>TInit := (TInit h)\<lparr>CounterMode := 0\<rparr>\<rparr>) s;
          s = upd_htim TIM4_Handler (\<lambda>h. h\<lparr>TInit := (TInit h)\<lparr>Period := ucast arr\<rparr>\<rparr>) s;
          s = upd_htim TIM4_Handler (\<lambda>h. h\<lparr>TInit := (TInit h)\<lparr>ClockDivision := 0\<rparr>\<rparr>) s;
          s = snd (HAL_TIM_Base_Init (\<lambda>_ s. s) TIM4_Handler s)
      in snd (HAL_TIM_Base_Start_IT TIM4_Handler s))"

definition usmart_init :: "u8 \<Rightarrow> 'w shell \<Rightarrow> 'w shell" where
  "usmart_init sysclk s =
     upd_dev (\<lambda>d. d\<lparr>sptype := 1\<rparr>) (Timer4_Init 1000 (ucast ((ucast sysclk :: u32) * 100 - 1)) s)"

section \<open>The table of usmart_config.c\<close>

text \<open>The functions of the table, on the memory of \<open>m_mallco_dev\<close>. A word is read and written byte by byte.\<close>

definition read_addr :: "u32 \<Rightarrow> memory \<Rightarrow> u32" where
  "read_addr addr m = word_rcat (rev (read_bytes m addr 4))"

definition write_addr :: "u32 \<Rightarrow> u32 \<Rightarrow> memory \<Rightarrow> memory" where
  "write_addr addr val m =
     m(addr := ucast val, addr + 1 := ucast (drop_bit 8 val), addr + 2 := ucast (drop_bit 16 val),
       addr + 3 := ucast (drop_bit 24 val))"

text \<open>The addresses of the four functions.\<close>

datatype shell_fn = F_read_addr | F_write_addr | F_mymalloc | F_myfree

definition usmart_nametab :: "(shell_fn \<Rightarrow> u32) \<Rightarrow> (u32 \<times> u8 list) list" where
  "usmart_nametab at =
     [(at F_read_addr, text_bytes ''u32 read_addr(u32 addr)''),
      (at F_write_addr, text_bytes ''void write_addr(u32 addr,u32 val)''),
      (at F_mymalloc, text_bytes ''void *mymalloc(u8 memx,u32 size)''),
      (at F_myfree, text_bytes ''void myfree(u8 memx,void *ptr)'')]"

definition usmart_dev :: "(shell_fn \<Rightarrow> u32) \<Rightarrow> m_usmart_dev" where
  "usmart_dev at = \<lparr>funs = usmart_nametab at, fnum = 4, pnum = 0, func_id = 0, sptype = 1, parmtype = 0,
     plentbl = replicate MAX_PARM 0, parm = replicate PARM_LEN 0, runtimeflag = 0, runtime = 0\<rparr>"

text \<open>A call through the table. A pool number from 3 on is an access outside the arrays of the controller; a function
  without result leaves some value \<open>r\<close> in the result register.\<close>

definition table_call :: "(shell_fn \<Rightarrow> u32) \<Rightarrow> u32 \<Rightarrow> u32 \<Rightarrow> u32 list \<Rightarrow> m_mallco_dev \<Rightarrow> (u32 \<times> m_mallco_dev) option" where
  "table_call at r func args d =
     (case args of
        a # as \<Rightarrow>
          if func = at F_read_addr then Some (read_addr a (mdata d), d)
          else (case as of
             b # _ \<Rightarrow>
               if func = at F_write_addr then Some (r, d\<lparr>mdata := write_addr a b (mdata d)\<rparr>)
               else if func = at F_mymalloc then
                 (if unat a < SRAMBANK then mymalloc (unat a) b d else None)
               else if func = at F_myfree then
                 (if unat a < SRAMBANK then map_option (Pair r) (myfree (unat a) b d) else None)
               else None
           | [] \<Rightarrow> None)
      | [] \<Rightarrow> None)"

section \<open>What the parts leave alone\<close>

lemma sh_upd_htim [simp]:
  "sh_dev (upd_htim h f s) = sh_dev s" "sh_out (upd_htim h f s) = sh_out s"
  "sh_world (upd_htim h f s) = sh_world s" "USART_RX_STA (upd_htim h f s) = USART_RX_STA s"
  "USART_RX_BUF (upd_htim h f s) = USART_RX_BUF s"
  by (simp_all add: upd_htim_def)

lemma sh_upd_htim_regs [simp]:
  "sh_dev (upd_htim_regs h g s) = sh_dev s" "sh_out (upd_htim_regs h g s) = sh_out s"
  "sh_world (upd_htim_regs h g s) = sh_world s" "USART_RX_STA (upd_htim_regs h g s) = USART_RX_STA s"
  "USART_RX_BUF (upd_htim_regs h g s) = USART_RX_BUF s"
  by (simp_all add: upd_htim_regs_def upd_tim_def)

lemma sh_print [simp]:
  "sh_dev (print xs s) = sh_dev s" "sh_out (print xs s) = sh_out s @ xs"
  "sh_world (print xs s) = sh_world s" "USART_RX_STA (print xs s) = USART_RX_STA s"
  "USART_RX_BUF (print xs s) = USART_RX_BUF s"
  by (simp_all add: print_def)

lemma sh_upd_dev [simp]:
  "sh_dev (upd_dev f s) = f (sh_dev s)" "sh_out (upd_dev f s) = sh_out s"
  "sh_world (upd_dev f s) = sh_world s" "USART_RX_STA (upd_dev f s) = USART_RX_STA s"
  "USART_RX_BUF (upd_dev f s) = USART_RX_BUF s"
  by (simp_all add: upd_dev_def)

lemma sh_runtime [simp]:
  "sh_out (usmart_reset_runtime s) = sh_out s" "sh_world (usmart_reset_runtime s) = sh_world s"
  "USART_RX_STA (usmart_reset_runtime s) = USART_RX_STA s" "sh_dev (usmart_reset_runtime s) = (sh_dev s)\<lparr>runtime := 0\<rparr>"
  by (simp_all add: usmart_reset_runtime_def Let_def HAL_TIM_SET_AUTORELOAD_def)

lemma sh_get_runtime [simp]:
  "sh_out (snd (usmart_get_runtime s)) = sh_out s" "sh_world (snd (usmart_get_runtime s)) = sh_world s"
  "USART_RX_STA (snd (usmart_get_runtime s)) = USART_RX_STA s"
  "sh_dev (snd (usmart_get_runtime s)) = (sh_dev s)\<lparr>runtime := fst (usmart_get_runtime s)\<rparr>"
  by (simp_all add: usmart_get_runtime_def Let_def)

lemma exe_shown_dev [simp]: "sh_dev (exe_shown rval res s) = sh_dev s"
  by (simp add: exe_shown_def Let_def)

end
