(* ===== verification/UsmartExeProps.thy ===== *)
theory UsmartExeProps
  imports UsmartExe
begin

text \<open>
  The debugging shell from the receive buffer to the call: a received call of a function of the table is executed, any other is
  refused; what the shell passes on when there are too many parameters; and the run time.
\<close>

section \<open>A recognised call is executed\<close>

text \<open>A table as in \<open>table_ok\<close>, whose declarations have the results \<open>rv\<close>.\<close>

definition table_rval :: "m_usmart_dev \<Rightarrow> (nat \<Rightarrow> u8 list) \<Rightarrow> (nat \<Rightarrow> u8) \<Rightarrow> (nat \<Rightarrow> u8) \<Rightarrow> bool" where
  "table_rval dev names np rv \<longleftrightarrow> unat (fnum dev) = length (funs dev) \<and>
     (\<forall>i < length (funs dev). 0 \<notin> set (names i) \<and>
        (\<forall>r. usmart_get_fname MAX_FNAME_LEN (snd (funs dev ! i)) r = Some (0, names i @ [ch_nul], np i, rv i)))"

lemma table_rval_ok: "table_rval dev names np rv \<Longrightarrow> table_ok dev names np"
  by (auto simp: table_rval_def table_ok_def)

text \<open>The parameters of a call as they are shown.\<close>

definition show_value :: "u8 \<Rightarrow> u32 \<Rightarrow> shell_out list" where
  "show_value sp v = (if sp = SP_TYPE_DEC then [Dec v] else [Lit ''0X'', Hex v])"

fun show_args :: "u8 \<Rightarrow> u32 list \<Rightarrow> shell_out list" where
  "show_args sp [] = []"
| "show_args sp [v] = show_value sp v"
| "show_args sp (v # vs) = show_value sp v @ [Lit '',''] @ show_args sp vs"

lemma cstr_text: "0 \<notin> set a \<Longrightarrow> cstr (a @ ch_nul # rest) = Some a"
  by (induction a) auto

lemma take_drop_bytes:
  "i < length vs \<Longrightarrow> take 4 (drop (4 * i) (concat (map u32_bytes vs))) = u32_bytes (vs ! i)"
proof (induction vs arbitrary: i)
  case Nil
  then show ?case by simp
next
  case (Cons v vs)
  then show ?case by (cases i) simp_all
qed

lemma stored_parm:
  assumes s: "stored vs dev" and i: "i < length vs" and n: "length vs \<le> 10"
  shows "usmart_get_parmpos dev (of_nat i) = Some (of_nat (4 * i))" "parm_u32 dev (of_nat (4 * i)) = Some (vs ! i)"
    "(ucast (parmtype dev) :: u32) AND push_bit i 1 = 0"
proof -
  have u: "unat (of_nat i :: u8) = i" "unat (of_nat (4 * i) :: u8) = 4 * i"
    using i n by (simp_all only: unat_of_nat) simp_all
  show "usmart_get_parmpos dev (of_nat i) = Some (of_nat (4 * i))"
    using s parmpos_four [of i "length vs" "replicate (10 - length vs) 0" 0] i
    by (simp only: usmart_get_parmpos_def stored_in_def u) simp
  have "take 4 (drop (4 * i) (parm dev)) = take 4 (drop (4 * i) (take (4 * length vs) (parm dev)))"
    using i by (simp add: drop_take min_def)
  also have "\<dots> = u32_bytes (vs ! i)"
    using s i by (simp add: stored_in_def take_drop_bytes)
  finally show "parm_u32 dev (of_nat (4 * i)) = Some (vs ! i)"
    using s i n u(2) by (simp only: parm_u32_def) (simp add: stored_in_def rcat_u32_bytes)
  have "\<not> bit (parmtype dev) i"
    using s i by (simp add: stored_in_def)
  then show "(ucast (parmtype dev) :: u32) AND push_bit i 1 = 0"
    by (intro bit_word_eqI) (auto simp: bit_simps)
qed

lemma exe_parms_numbers:
  assumes s: "stored vs dev" and n: "length vs \<le> 10"
  shows "i + m = k \<Longrightarrow> k \<le> length vs \<Longrightarrow> take i temp = take i vs \<Longrightarrow> length temp = 10 \<Longrightarrow>
    exe_parms m (of_nat i) (of_nat k) pa dev temp =
      Some (take k vs @ drop k temp, show_args (sptype dev) (take m (drop i vs)))"
proof (induction m arbitrary: i temp)
  case 0
  then show ?case
    by (metis add.right_neutral append_take_drop_id exe_parms.simps(1) show_args.simps(1) take0)
next
  case (Suc m)
  have i: "i < length vs" "i < k" "k \<le> 10"
    using Suc.prems n by simp_all
  have u: "unat (of_nat i :: u8) = i" "unat (of_nat k :: u8) = k"
    using i by (simp_all only: unat_of_nat) simp_all
  have c: "(of_nat i :: u8) \<noteq> of_nat k - 1 \<longleftrightarrow> m \<noteq> 0"
  proof -
    have "(of_nat i :: u8) = of_nat k - 1 \<longleftrightarrow> of_nat (Suc i) = (of_nat k :: u8)"
      by (auto simp: algebra_simps)
    also have "\<dots> \<longleftrightarrow> Suc i = k"
    proof -
      have "unat (of_nat (Suc i) :: u8) = Suc i"
        using i by (simp only: unat_of_nat) simp
      then show ?thesis
        using u(2) by metis
    qed
    finally show ?thesis
      using Suc.prems(1) by auto
  qed
  let ?t = "temp[i := vs ! i]"
  have "take (Suc i) ?t = take (Suc i) vs"
    using Suc.prems i by (simp add: take_Suc_conv_app_nth)
  then have ih: "exe_parms m (of_nat (Suc i)) (of_nat k) pa dev ?t =
      Some (take k vs @ drop k ?t, show_args (sptype dev) (take m (drop (Suc i) vs)))"
    using Suc.prems by (intro Suc.IH) simp_all
  have d: "drop k ?t = drop k temp"
    using i by simp
  have v: "take (Suc m) (drop i vs) = vs ! i # take m (drop (Suc i) vs)"
    using i by (simp add: Cons_nth_drop_Suc [symmetric])
  have w: "show_args sp (vs ! i # take m (drop (Suc i) vs)) =
      show_value sp (vs ! i) @ (if m \<noteq> 0 then [Lit '',''] else []) @ show_args sp (take m (drop (Suc i) vs))" for sp
    using Suc.prems i by (cases m; cases "drop (Suc i) vs") auto
  show ?case
    unfolding v w exe_parms.simps stored_parm [OF s i(1) n] bind.bind_lunit u
    using ih c d i Suc.prems(4) by (simp add: stored_parm [OF s i(1) n] show_value_def add.commute)
qed

text \<open>What an execution prints: the call, the result \<open>res\<close> of a function that has one, and the run time \<open>t\<close>.\<close>

definition call_out :: "m_usmart_dev \<Rightarrow> u8 list \<Rightarrow> u32 list \<Rightarrow> u8 \<Rightarrow> u32 \<Rightarrow> u32 \<Rightarrow> shell_out list" where
  "call_out dev name vs rval res t =
     [Newline, Str name, Lit ''(''] @ show_args (sptype dev) vs @ [Lit '')''] @
     (if rval = 1 then (if sptype dev = SP_TYPE_DEC then [Lit ''='', Dec res, Lit '';'', Newline]
                        else [Lit ''=0X'', Hex res, Lit '';'', Newline])
      else [Lit '';'', Newline]) @
     (if runtimeflag dev \<noteq> 0
      then [Lit ''Function Run Time:'', Dec (t div 10), Lit ''.'', Dec (t mod 10), Lit ''ms'', Newline] else [])"

lemma exe_call:
  assumes t: "table_rval dev names np rv" "j < length (funs dev)" and d: "sh_dev s = dev"
    and c: "stored vs dev" "func_id dev = of_nat j" "pnum dev = of_nat (length vs)"
    and k: "unat (np j) \<le> length vs" "length vs \<le> 10" and e: "length (sx_temp env) = 10"
    and r: "sx_call env (fst (funs dev ! j))
        (take (unat (np j)) vs @ take (length vs - unat (np j)) (drop (unat (np j)) (sx_temp env))) (sh_world s) = Some (res, w)"
  shows "\<exists>s' t. usmart_exe env s = Some s' \<and> sh_world s' = w \<and> USART_RX_STA s' = USART_RX_STA s \<and>
    sh_dev s' = dev\<lparr>runtime := t\<rparr> \<and>
    sh_out s' = sh_out s @ call_out dev (names j) (take (unat (np j)) vs) (rv j) res t"
proof -
  let ?k = "unat (np j)"
  let ?temp = "take ?k vs @ drop ?k (sx_temp env)"
  have l: "length (funs dev) < 256" "unat (fnum dev) = length (funs dev)"
    using t(1) unat_u8_bound [of "fnum dev"] by (simp_all add: table_rval_def)
  have u: "unat (of_nat (length vs) :: u8) = length vs" "unat (of_nat j :: u8) = j"
    using t(2) k(2) l(1) by (simp_all only: unat_of_nat) simp_all
  have f: "\<not> fnum dev \<le> of_nat j" "(of_nat (length vs) :: u8) \<le> 10"
    unfolding word_le_nat_alt u using l t(2) k(2) by simp_all
  obtain func decl where fd: "funs dev ! j = (func, decl)"
    by fastforce
  have n: "usmart_get_fname MAX_FNAME_LEN decl (sx_rval env) = Some (0, names j @ [ch_nul], np j, rv j)" "0 \<notin> set (names j)"
    using t fd unfolding table_rval_def by fastforce+
  have p: "exe_parms ?k 0 (np j) (sx_parm env) dev (sx_temp env) = Some (?temp, show_args (sptype dev) (take ?k vs))"
    using exe_parms_numbers [OF c(1) k(2), of 0 ?k ?k "sx_temp env" "sx_parm env"] k e by simp
  have call: "sx_call env func (take (length vs) ?temp) (sh_world s) = Some (res, w)"
  proof -
    have "take (length vs) ?temp = take ?k vs @ take (length vs - ?k) (drop ?k (sx_temp env))"
      using k by (auto simp: min_def)
    then show ?thesis
      using r fd by simp
  qed
  let ?s2 = "(usmart_reset_runtime (print ([Newline, Str (names j), Lit ''(''] @ show_args (sptype dev) (take ?k vs) @ [Lit '')'']) s))
    \<lparr>sh_world := w\<rparr>"
  obtain s4 t where s4: "s4 = snd (usmart_get_runtime (upd_htim_regs TIM4_Handler (sx_time env) ?s2))"
    "t = fst (usmart_get_runtime (upd_htim_regs TIM4_Handler (sx_time env) ?s2))"
    by blast
  have s4_fields: "sh_dev s4 = dev\<lparr>runtime := t\<rparr>" "sh_world s4 = w" "USART_RX_STA s4 = USART_RX_STA s"
    "sh_out s4 = sh_out s @ [Newline, Str (names j), Lit ''(''] @ show_args (sptype dev) (take ?k vs) @ [Lit '')'']"
    by (simp_all add: s4 d)
  have nm: "cstr (names j @ [ch_nul]) = Some (names j)"
    using cstr_text [OF n(2)] .
  have "usmart_exe env s = Some (exe_shown (rv j) res s4)"
    unfolding usmart_exe_def Let_def d c(2,3) u fd using t(2) f
    by (simp add: n(1) nm p call s4(1) del: take_append take_take)
  then show ?thesis
    by (intro exI [of _ "exe_shown (rv j) res s4"] exI [of _ t]) (simp add: s4_fields exe_shown_def call_out_def)
qed

definition call_line :: "u8 list \<Rightarrow> u32 list \<Rightarrow> u8 list" where
  "call_line name vs = name @ ch_open # args_text vs @ [ch_close]"

text \<open>The serial layer has received \<open>line\<close>.\<close>

definition line_received :: "u8 list \<Rightarrow> 'w shell \<Rightarrow> bool" where
  "line_received line s \<longleftrightarrow> USART_RX_STA s = 0x8000 OR of_nat (length line) \<and> length line < 256 \<and>
     length line < length (USART_RX_BUF s) \<and> take (length line) (USART_RX_BUF s) = line"

lemma line_received_len:
  assumes "line_received line s"
  shows "USART_RX_STA s AND 0x8000 \<noteq> 0" "unat (ucast (USART_RX_STA s AND 0x3FFF) :: u8) = length line"
    "(USART_RX_BUF s)[length line := ch_nul] = line @ ch_nul # drop (Suc (length line)) (USART_RX_BUF s)"
proof -
  have l: "length line < 256" "USART_RX_STA s = 0x8000 OR of_nat (length line)"
    using assms by (simp_all add: line_received_def)
  have "bit (USART_RX_STA s AND 0x8000) 15"
    using l(2) by (simp add: bit_simps)
  then show "USART_RX_STA s AND 0x8000 \<noteq> 0"
    by auto
  have "ucast (USART_RX_STA s AND 0x3FFF) = (of_nat (length line) :: u8)"
  proof (rule bit_word_eqI)
    fix n assume "n < LENGTH(8)"
    moreover have "bit (push_bit 15 1 :: u16) n \<longleftrightarrow> n = 15" "bit (mask 14 :: u16) n \<longleftrightarrow> n < 14"
      by (auto simp only: bit_push_bit_iff bit_1_iff bit_mask_iff) simp_all
    moreover have "push_bit 15 1 = (0x8000 :: u16)" "mask 14 = (0x3FFF :: u16)"
      by (simp_all add: mask_eq_exp_minus_1)
    ultimately show "bit (ucast (USART_RX_STA s AND 0x3FFF) :: u8) n = bit (of_nat (length line) :: u8) n"
      unfolding l(2) by (auto simp: bit_simps)
  qed
  then show "unat (ucast (USART_RX_STA s AND 0x3FFF) :: u8) = length line"
    using l(1) by (simp only: unat_of_nat) simp
  show "(USART_RX_BUF s)[length line := ch_nul] = line @ ch_nul # drop (Suc (length line)) (USART_RX_BUF s)"
    using assms by (simp add: line_received_def upd_conv_take_nth_drop)
qed

lemma scan_call:
  assumes dev: "sh_dev s = dev" "length (parm dev) = 200"
    and t: "table_rval dev names np rv" "j < length (funs dev)" "\<forall>i < j. names i \<noteq> names j"
    and n: "list_all name_char (names j)" "length (names j) < MAX_FNAME_LEN"
    and k: "unat (np j) \<le> length vs" "length vs \<le> 10" "length vs < fuel"
    and l: "line_received (call_line (names j) vs) s" and e: "length (sx_temp env) = 10"
    and r: "sx_call env (fst (funs dev ! j))
        (take (unat (np j)) vs @ take (length vs - unat (np j)) (drop (unat (np j)) (sx_temp env))) (sh_world s) = Some (res, w)"
  shows "\<exists>s' t. usmart_scan fuel env s = Some s' \<and> sh_world s' = w \<and> USART_RX_STA s' = 0 \<and>
    funs (sh_dev s') = funs dev \<and> fnum (sh_dev s') = fnum dev \<and>
    sh_out s' = sh_out s @ call_out dev (names j) (take (unat (np j)) vs) (rv j) res t"
proof -
  let ?line = "call_line (names j) vs"
  let ?rest = "drop (Suc (length ?line)) (USART_RX_BUF s)"
  let ?buf = "names j @ ch_open # args_text vs @ ch_close # ch_nul # ?rest"
  let ?s = "s\<lparr>USART_RX_BUF := ?buf\<rparr>"
  have b: "(USART_RX_BUF s)[length ?line := ch_nul] = ?buf"
    using line_received_len(3) [OF l] by (simp add: call_line_def)
  have lb: "length ?line < length (USART_RX_BUF s)"
    using l by (simp add: line_received_def)
  obtain dev' where d: "usmart_cmd_rec fuel ?buf (sx_rval env) dev = Some (USMART_OK, dev')"
    and d': "func_id dev' = of_nat j" "pnum dev' = of_nat (length vs)" "stored vs dev'" "funs dev' = funs dev"
    "fnum dev' = fnum dev" "sptype dev' = sptype dev" "runtimeflag dev' = runtimeflag dev"
    using cmd_rec_call [OF table_rval_ok [OF t(1)] t(2,3) n k(1,2) dev(2) k(3), of ?rest "sx_rval env"] by blast
  have t': "table_rval dev' names np rv"
    using t(1) d'(4,5) by (simp add: table_rval_def)
  obtain s' t where s': "usmart_exe env (?s\<lparr>sh_dev := dev'\<rparr>) = Some s'" "sh_world s' = w"
    "sh_dev s' = dev'\<lparr>runtime := t\<rparr>"
    "sh_out s' = sh_out s @ call_out dev' (names j) (take (unat (np j)) vs) (rv j) res t"
    using exe_call [OF t' _ _ d'(3,1,2) k(1,2) e, of "?s\<lparr>sh_dev := dev'\<rparr>" res w] t(2) r d'(4) by auto
  have "usmart_scan fuel env s = Some (s'\<lparr>USART_RX_STA := 0\<rparr>)"
    unfolding usmart_scan_def Let_def line_received_len(2) [OF l] b
    using line_received_len(1) [OF l] lb d dev(1) s'(1) by simp
  moreover have "call_out dev' = call_out dev"
    using d'(6,7) by (simp add: call_out_def fun_eq_iff)
  ultimately show ?thesis
    using s' d'(4,5) by (intro exI [of _ "s'\<lparr>USART_RX_STA := 0\<rparr>"] exI [of _ t]) simp
qed

section \<open>A call that is not recognised\<close>

lemma unat_of_fnum: "of_nat (unat (n :: u8)) = n"
  by simp

lemma cmd_find_none:
  assumes t: "table_rval dev names np rv" and z: "0 \<notin> set name"
    and a: "\<forall>j < length (funs dev). names j = name \<longrightarrow> rpnum < np j"
  shows "i \<le> length (funs dev) \<Longrightarrow> n = length (funs dev) - i \<Longrightarrow>
    \<exists>k. cmd_find n (of_nat i) (name @ [ch_nul]) rpnum rval dev =
      (if \<exists>j < length (funs dev). i \<le> j \<and> names j = name then Some (Some USMART_PARMERR, k, dev)
       else Some (None, fnum dev, dev))"
proof (induction n arbitrary: i rval)
  case 0
  then have "i = length (funs dev)"
    by simp
  moreover have "unat (fnum dev) = length (funs dev)"
    using t by (simp add: table_rval_def)
  then have "of_nat (length (funs dev)) = fnum dev"
    by (metis unat_of_fnum)
  ultimately show ?case
    by auto
next
  case (Suc n)
  have "unat (fnum dev) = length (funs dev)"
    using t by (simp add: table_rval_def)
  then have l: "length (funs dev) < 256"
    using unat_u8_bound [of "fnum dev"] by simp
  have i: "i < length (funs dev)"
    using Suc.prems by simp
  have u: "unat (of_nat i :: u8) = i"
    using i l by (simp only: unat_of_nat) simp
  have g: "usmart_get_fname MAX_FNAME_LEN (snd (funs dev ! i)) rval = Some (0, names i @ [ch_nul], np i, rv i)"
    "0 \<notin> set (names i)"
    using t i by (simp_all add: table_rval_def)
  have c: "usmart_strcmp (names i @ [ch_nul]) (name @ [ch_nul]) = Some (if names i = name then 0 else 1)"
    using strcmp_value [OF g(2) z] .
  show ?case
  proof (cases "names i = name")
    case True
    then show ?thesis
      using g c i u a by (intro exI [of _ "of_nat i"]) auto
  next
    case False
    have "Suc i \<le> length (funs dev)" "n = length (funs dev) - Suc i"
      using Suc.prems i by simp_all
    then obtain k where k: "cmd_find n (of_nat (Suc i)) (name @ [ch_nul]) rpnum (rv i) dev =
      (if \<exists>j < length (funs dev). Suc i \<le> j \<and> names j = name then Some (Some USMART_PARMERR, k, dev)
       else Some (None, fnum dev, dev))"
      using Suc.IH [of "Suc i" "rv i"] by blast
    have "(\<exists>j < length (funs dev). Suc i \<le> j \<and> names j = name) \<longleftrightarrow> (\<exists>j < length (funs dev). i \<le> j \<and> names j = name)"
      using False by (metis Suc_leD Suc_leI le_neq_implies_less)
    then show ?thesis
      using g c i u False k by (intro exI [of _ k]) (simp add: add.commute)
  qed
qed

lemma cmdname_plain:
  "ch_space \<notin> set str \<Longrightarrow> ch_nul \<notin> set str \<Longrightarrow>
   (\<exists>r. cmdname_loop maxlen (str @ ch_nul # rest) cmdname nlen = Some (1, r)) \<or>
   (\<exists>k. cmdname_loop maxlen (str @ ch_nul # rest) cmdname nlen = Some (0, cmdname @ str @ [ch_nul], k))"
proof (induction str arbitrary: cmdname nlen)
  case Nil
  then show ?case by simp
next
  case (Cons c str)
  then have "c \<noteq> ch_space" "c \<noteq> ch_nul"
    by auto
  then show ?case
    using Cons.IH [of "cmdname @ [c]" "nlen + 1"] Cons.prems by (simp add: Let_def)
qed

lemma sys_cmd_find_none:
  "0 \<notin> set str \<Longrightarrow> \<forall>t \<in> set ts. \<exists>a. t = a @ [ch_nul] \<and> 0 \<notin> set a \<and> a \<noteq> str \<Longrightarrow>
   sys_cmd_find (str @ [ch_nul]) ts i = Some (i + of_nat (length ts))"
proof (induction ts arbitrary: i)
  case Nil
  then show ?case by simp
next
  case (Cons t ts)
  obtain a where "t = a @ [ch_nul]" "0 \<notin> set a" "a \<noteq> str"
    using Cons.prems(2) by auto
  then show ?case
    using Cons strcmp_value [of str a] by (simp add: add.assoc)
qed

lemma sys_cmd_tab_texts:
  "\<forall>t \<in> set sys_cmd_tab. \<exists>a. t = a @ [ch_nul] \<and> 0 \<notin> set a \<and> ch_open \<notin> set a"
  by (simp add: sys_cmd_tab_def text_bytes_def)

text \<open>A line with a bracket and without spaces is no system command.\<close>

lemma sys_cmd_exe_call:
  assumes "ch_space \<notin> set line" "ch_nul \<notin> set line" "ch_open \<in> set line"
  shows "usmart_sys_cmd_exe rval (line @ ch_nul # rest) s = Some (USMART_FUNCERR, s)"
proof -
  have f: "sys_cmd_find (line @ [ch_nul]) sys_cmd_tab 0 = Some 7"
  proof -
    have "\<forall>t \<in> set sys_cmd_tab. \<exists>a. t = a @ [ch_nul] \<and> 0 \<notin> set a \<and> a \<noteq> line"
      using sys_cmd_tab_texts assms(3) by metis
    then have "sys_cmd_find (line @ [ch_nul]) sys_cmd_tab 0 = Some (0 + of_nat (length sys_cmd_tab))"
      using assms(2) by (intro sys_cmd_find_none)
    then show ?thesis
      by (simp add: sys_cmd_tab_def)
  qed
  consider r where "cmdname_loop (of_nat MAX_FNAME_LEN) (line @ ch_nul # rest) [] 0 = Some (1, r)"
    | k where "cmdname_loop (of_nat MAX_FNAME_LEN) (line @ ch_nul # rest) [] 0 = Some (0, line @ [ch_nul], k)"
    using cmdname_plain [OF assms(1,2), of "of_nat MAX_FNAME_LEN" rest "[]" 0] by auto
  then show ?thesis
  proof cases
    case 1
    then show ?thesis
      by (cases r) (simp add: usmart_sys_cmd_exe_def usmart_get_cmdname_def)
  next
    case 2
    then show ?thesis
      by (simp add: usmart_sys_cmd_exe_def usmart_get_cmdname_def f)
  qed
qed

lemma args_text_chars: "c \<in> set (args_text vs) \<Longrightarrow> is_dec c \<or> c = ch_comma"
proof (induction vs rule: args_text.induct)
  case 1
  then show ?case by simp
next
  case (2 v)
  then show ?case
    using dec_text_digits [of "unat v"] by (auto simp: list_all_iff)
next
  case (3 v v' vs)
  then show ?case
    using dec_text_digits [of "unat v"] by (auto simp: list_all_iff)
qed

lemma call_line_chars:
  assumes "list_all name_char name"
  shows "ch_space \<notin> set (call_line name vs)" "ch_nul \<notin> set (call_line name vs)" "ch_open \<in> set (call_line name vs)"
  using assms args_text_chars [of ch_space vs] args_text_chars [of ch_nul vs]
  by (auto simp: call_line_def name_char_def list_all_iff is_dec_def word_le_nat_alt)

lemma cmd_rec_reject:
  assumes t: "table_rval dev names np rv" and n: "list_all name_char name" "length name < MAX_FNAME_LEN"
    and k: "length vs \<le> 10" and a: "\<forall>j < length (funs dev). names j = name \<longrightarrow> length vs < unat (np j)"
  shows "usmart_cmd_rec fuel (call_line name vs @ ch_nul # rest) rval dev =
    Some (if \<exists>j < length (funs dev). names j = name then USMART_PARMERR else USMART_NOFUNCFIND, dev)"
proof -
  let ?str = "name @ ch_open # args_text vs @ ch_close # ch_nul # rest"
  obtain r where r: "usmart_get_fname MAX_FNAME_LEN ?str rval = Some (0, name @ [ch_nul], of_nat (length vs), r)"
    using get_fname_call [OF n k] by blast
  have u: "unat (of_nat (length vs) :: u8) = length vs"
    using k by (simp only: unat_of_nat) simp
  have l: "unat (fnum dev) = length (funs dev)"
    using t by (simp add: table_rval_def)
  have z: "0 \<notin> set name"
    using n(1) by (auto simp: list_all_iff name_char_def)
  have "\<forall>j < length (funs dev). names j = name \<longrightarrow> of_nat (length vs) < np j"
    unfolding word_less_nat_alt u using a .
  then obtain i where "cmd_find (length (funs dev)) 0 (name @ [ch_nul]) (of_nat (length vs)) r dev =
      (if \<exists>j < length (funs dev). names j = name then Some (Some USMART_PARMERR, i, dev)
       else Some (None, fnum dev, dev))"
    using cmd_find_none [OF t z, of "of_nat (length vs)" 0 "length (funs dev)" r] by auto
  then show ?thesis
    unfolding usmart_cmd_rec_def using r l by (simp add: call_line_def)
qed

lemma scan_reject:
  assumes "table_rval (sh_dev s) names np rv" "list_all name_char name" "length name < MAX_FNAME_LEN" "length vs \<le> 10"
    and "\<forall>j < length (funs (sh_dev s)). names j = name \<longrightarrow> length vs < unat (np j)"
    and l: "line_received (call_line name vs) s"
  shows "usmart_scan fuel env s = Some (s
    \<lparr>USART_RX_BUF := (USART_RX_BUF s)[length (call_line name vs) := ch_nul], USART_RX_STA := 0,
     sh_out := sh_out s @
       [Msg (if \<exists>j < length (funs (sh_dev s)). names j = name then Msg_parmerr else Msg_nofuncfind)]\<rparr>)"
proof -
  let ?line = "call_line name vs"
  let ?rest = "drop (Suc (length ?line)) (USART_RX_BUF s)"
  have b: "(USART_RX_BUF s)[length ?line := ch_nul] = ?line @ ch_nul # ?rest"
    using line_received_len(3) [OF l] .
  have lb: "length ?line < length (USART_RX_BUF s)"
    using l by (simp add: line_received_def)
  show ?thesis
    unfolding usmart_scan_def Let_def line_received_len(2) [OF l] b
    using line_received_len(1) [OF l] lb
      cmd_rec_reject [OF assms(1-5), of fuel ?rest "sx_rval env"]
      sys_cmd_exe_call [OF call_line_chars [OF assms(2)], where s = "s\<lparr>USART_RX_BUF := ?line @ ch_nul # ?rest\<rparr>"]
    by (simp add: scan_error_def print_def)
qed

section \<open>Properties\<close>

text \<open>
  C24. The shell executes a received call: when the serial layer has received a line that calls the \<open>j\<close>-th
  function of the table with as many numbers as it is declared with, at most ten, \<open>usmart_scan\<close> calls that function once
  with those numbers and no other, prints the call, the result of a function that has one, and the run time when that is
  on, and frees the receive buffer; the table is as before.
\<close>

theorem shell_runs_call:
  assumes "sh_dev s = dev" "length (parm dev) = 200"
    and "table_rval dev names np rv" "j < length (funs dev)" "\<forall>i < j. names i \<noteq> names j"
    and "list_all name_char (names j)" "length (names j) < MAX_FNAME_LEN"
    and "unat (np j) = length vs" "length vs \<le> 10" "length vs < fuel"
    and "line_received (call_line (names j) vs) s" "length (sx_temp env) = 10"
    and "sx_call env (fst (funs dev ! j)) vs (sh_world s) = Some (res, w)"
  shows "\<exists>s' t. usmart_scan fuel env s = Some s' \<and> sh_world s' = w \<and> USART_RX_STA s' = 0 \<and>
    funs (sh_dev s') = funs dev \<and> fnum (sh_dev s') = fnum dev \<and>
    sh_out s' = sh_out s @ call_out dev (names j) vs (rv j) res t"
proof -
  have "sx_call env (fst (funs dev ! j))
      (take (unat (np j)) vs @ take (length vs - unat (np j)) (drop (unat (np j)) (sx_temp env))) (sh_world s) = Some (res, w)"
    using assms(8,13) by simp
  from scan_call [OF assms(1-7) _ assms(9-12) this] show ?thesis
    using assms(8) by simp
qed

text \<open>
  C25. A call the shell must not execute is refused: for a line that calls a name the table does not have, or a
  function of the table with fewer numbers than it is declared with, \<open>usmart_scan\<close> calls nothing and prints that the
  function was not found, or that the parameters are wrong; it frees the receive buffer and leaves the manager, its table and its
  settings as they were.
\<close>

theorem shell_refuses_call:
  assumes "table_rval (sh_dev s) names np rv" "list_all name_char name" "length name < MAX_FNAME_LEN" "length vs \<le> 10"
    and "\<forall>j < length (funs (sh_dev s)). names j = name \<longrightarrow> length vs < unat (np j)"
    and "line_received (call_line name vs) s"
  shows "\<exists>s'. usmart_scan fuel env s = Some s' \<and> sh_world s' = sh_world s \<and> sh_dev s' = sh_dev s \<and>
    USART_RX_STA s' = 0 \<and>
    sh_out s' = sh_out s @
      [Msg (if \<exists>j < length (funs (sh_dev s)). names j = name then Msg_parmerr else Msg_nofuncfind)]"
  using scan_reject [OF assms, of fuel env] by simp

text \<open>
  Parameters beyond the declared ones are not passed on: a call with more numbers than the function is
  declared with is accepted, and shown with the declared ones only, but the function is called with as many arguments as there are
  numbers, those after the declared ones being what the stack held: \<open>temp\<close>, which is not initialised, is filled up to the
  declared number.
\<close>

theorem extra_parameters_lost:
  assumes "sh_dev s = dev" "length (parm dev) = 200"
    and "table_rval dev names np rv" "j < length (funs dev)" "\<forall>i < j. names i \<noteq> names j"
    and "list_all name_char (names j)" "length (names j) < MAX_FNAME_LEN"
    and "unat (np j) = k" "length vs = Suc k" "k < 10" "Suc k < fuel"
    and "line_received (call_line (names j) vs) s" "length (sx_temp env) = 10"
    and "sx_call env (fst (funs dev ! j)) (take k vs @ [sx_temp env ! k]) (sh_world s) = Some (res, w)"
  shows "\<exists>s' t. usmart_scan fuel env s = Some s' \<and> sh_world s' = w \<and>
    sh_out s' = sh_out s @ call_out dev (names j) (take k vs) (rv j) res t"
proof -
  have "take (length vs - k) (drop k (sx_temp env)) = [sx_temp env ! k]"
    using assms(9,10,13) by (simp add: take_Suc_conv_app_nth)
  then have r: "sx_call env (fst (funs dev ! j))
      (take (unat (np j)) vs @ take (length vs - unat (np j)) (drop (unat (np j)) (sx_temp env))) (sh_world s) = Some (res, w)"
    using assms(8,14) by simp
  have "unat (np j) \<le> length vs" "length vs \<le> 10" "length vs < fuel"
    using assms(8-11) by simp_all
  from scan_call [OF assms(1-7) this assms(12,13) r] show ?thesis
    using assms(8) by auto
qed

text \<open>The run time: the counter runs from 0 to 0xFFFF while the shell waits in the interrupt, and the flag is set when it starts
  again. After an overflow the value is one too small.\<close>

lemma runtime_value:
  assumes "e < 2 * 0x10000" "T_CNT (htim_regs TIM4_Handler s) = of_nat (e mod 0x10000)"
    and "HAL_TIM_GET_FLAG (htim_regs TIM4_Handler s) TIM_IT_UPDATE \<longleftrightarrow> 0x10000 \<le> e" "runtime (sh_dev s) = 0"
  shows "unat (fst (usmart_get_runtime s)) = (if e < 0x10000 then e else e - 1)"
proof -
  have r: "htim_regs TIM4_Handler (upd_dev f s) = htim_regs TIM4_Handler s" for f
    by (simp add: htim_regs_def upd_dev_def)
  show ?thesis
  proof (cases "e < 0x10000")
    case True
    then show ?thesis
      using assms r by (simp add: usmart_get_runtime_def Let_def unat_of_nat)
  next
    case False
    then have "e mod 0x10000 = e - 0x10000"
      using assms(1) by (simp add: mod_if)
    moreover have "(0xFFFF :: u32) + of_nat (e - 0x10000) = of_nat (e - 1)"
      using False by (simp add: of_nat_diff)
    ultimately have "fst (usmart_get_runtime s) = of_nat (e - 1)"
      using False assms r by (simp add: usmart_get_runtime_def Let_def)
    then show ?thesis
      using False assms(1) by (simp only: unat_of_nat) simp
  qed
qed

text \<open>Timer 4 starts with a period of 1000 and scans with one of 100 from its first interrupt on.\<close>

lemma scan_period:
  assumes "TIM4_IRQHandler fuel env s = Some s'" "HAL_TIM_GET_IT_SOURCE (htim_regs TIM4_Handler s) TIM_IT_UPDATE"
  shows "T_ARR (htim_regs TIM4_Handler s') = 100"
  using assms
  by (auto simp: TIM4_IRQHandler_def Let_def HAL_TIM_SET_AUTORELOAD_def htim_regs_def upd_htim_regs_def upd_tim_def
      upd_htim_def HAL_TIM_CLEAR_IT_def write_T_SR_def split: bind_splits)

section \<open>The table of the program\<close>

abbreviation fname_in :: "u8 \<Rightarrow> u8 list \<Rightarrow> u8 \<Rightarrow> u8 \<Rightarrow> u8 list \<Rightarrow> u8 \<Rightarrow> u8 \<Rightarrow> fname_state" where
  "fname_in fover fname pc fplcnt fpname temp parmnum \<equiv> \<lparr>fs_res = 0, fs_fover = fover, fs_nchar = False, fs_fname = fname,
     fs_pcnt = pc, fs_fplcnt = fplcnt, fs_fpname = fpname, fs_temp = temp, fs_parmnum = parmnum\<rparr>"

lemma fname_loop_in:
  "c \<notin> {0, 32, 34, 40, 41} \<Longrightarrow> fname_loop (c # s) (fname_in 0 nm pc fl fp t pn) = fname_loop s (fname_in 0 (nm @ [c]) pc fl fp t pn)"
  "t \<noteq> 2 \<Longrightarrow> fname_loop (40 # s) (fname_in 0 nm pc fl fp t pn) = fname_loop s (fname_in 1 nm pc fl fp t pn)"
  "fname_loop (44 # s) (fname_in 1 nm pc fl fp t pn) = fname_loop s (fname_in 1 nm (pc + 1) fl fp 1 pn)"
  "c \<notin> {0, 32, 34, 40, 41, 44} \<Longrightarrow>
   fname_loop (c # s) (fname_in 1 nm pc fl fp t pn) =
     fname_loop s (fname_in 1 nm pc (if pc = 0 \<and> fl < 5 then fl + 1 else fl) (if pc = 0 \<and> fl < 5 then fp @ [c] else fp)
       (if t + 1 = 2 then 3 else t + 1) (if t + 1 = 2 then pn + 1 else pn))"
  "t \<noteq> 2 \<Longrightarrow> fname_loop (32 # s) (fname_in 1 nm pc fl fp t pn) = fname_loop s (fname_in 1 nm pc fl fp t pn)"
  "fname_loop (41 # s) (fname_in 1 nm pc fl fp t pn) = Some (fname_in 0 nm pc fl fp t pn)"
  by (simp_all add: fname_bracket_def fname_char_def)

lemma decl_write_addr:
  "usmart_get_fname 30 (text_bytes ''void write_addr(u32 addr,u32 val)'') r = Some (0, text_bytes ''write_addr'', 2, 0)"
  apply (simp add: text_bytes_def usmart_get_fname_def usmart_search_nextc_def del: fname_loop.simps)
  apply (simp add: fname_loop_in  del: fname_loop.simps)
  done

lemma decl_read_addr:
  "usmart_get_fname 30 (text_bytes ''u32 read_addr(u32 addr)'') r = Some (0, text_bytes ''read_addr'', 1, 1)"
  by (simp add: text_bytes_def usmart_get_fname_def usmart_search_nextc_def fname_loop_in  del: fname_loop.simps)
lemma decl_myfree:
  "usmart_get_fname 30 (text_bytes ''void myfree(u8 memx,void *ptr)'') r = Some (0, text_bytes ''myfree'', 2, 0)"
  by (simp add: text_bytes_def usmart_get_fname_def usmart_search_nextc_def fname_loop_in  del: fname_loop.simps)
lemma decl_mymalloc:
  "usmart_get_fname 30 (text_bytes ''void *mymalloc(u8 memx,u32 size)'') r = Some (0, text_bytes ''mymalloc'', 2, 1)"
  by (simp add: text_bytes_def usmart_get_fname_def usmart_search_nextc_def fname_loop_in  del: fname_loop.simps)

definition table_names :: "nat \<Rightarrow> u8 list" where
  "table_names i = map of_char ([''read_addr'', ''write_addr'', ''mymalloc'', ''myfree''] ! i)"

lemma less_four: "i < (4 :: nat) \<Longrightarrow> i = 0 \<or> i = 1 \<or> i = 2 \<or> i = 3"
  by auto

lemma nametab_fname:
  assumes "i < 4"
  shows "usmart_get_fname MAX_FNAME_LEN (snd (usmart_nametab at ! i)) r =
    Some (0, table_names i @ [ch_nul], [1, 2, 2, 2] ! i, [1, 0, 1, 0] ! i)"
  using less_four [OF assms]
  by (elim disjE) (simp_all add: usmart_nametab_def table_names_def decl_read_addr decl_write_addr decl_mymalloc decl_myfree
      text_bytes_def [of "''read_addr''"] text_bytes_def [of "''write_addr''"]
      text_bytes_def [of "''mymalloc''"] text_bytes_def [of "''myfree''"])

lemma table_names_ok:
  assumes "i < 4"
  shows "list_all name_char (table_names i)" "length (table_names i) < 11"
  using less_four [OF assms] by (elim disjE; simp add: table_names_def name_char_def)+

lemma usmart_dev_table:
  "table_rval (usmart_dev at) table_names (\<lambda>i. [1, 2, 2, 2] ! i) (\<lambda>i. [1, 0, 1, 0] ! i)"
proof -
  have "0 \<notin> set (table_names i)" if "i < 4" for i
    using table_names_ok(1) [OF that] by (auto simp: list_all_iff name_char_def)
  moreover have "funs (usmart_dev at) = usmart_nametab at" "length (usmart_nametab at) = 4" "fnum (usmart_dev at) = 4"
    by (simp_all add: usmart_dev_def usmart_nametab_def)
  ultimately show ?thesis
    unfolding table_rval_def by (simp add: nametab_fname)
qed

lemma length_args_text: "length (args_text vs) \<le> 11 * length vs"
proof (induction vs rule: args_text.induct)
  case 1
  then show ?case by simp
next
  case (2 v)
  then show ?case
    using dec_text_u32(2) [of v] by simp
next
  case (3 v v' vs)
  then show ?case
    using dec_text_u32(2) [of v] by simp
qed

section \<open>Examples\<close>

definition example_at :: "shell_fn \<Rightarrow> u32" where
  "example_at f = (case f of F_read_addr \<Rightarrow> 0x8001001 | F_write_addr \<Rightarrow> 0x8001011 | F_mymalloc \<Rightarrow> 0x8002001 | F_myfree \<Rightarrow> 0x8002101)"

definition shell_env_example :: "m_mallco_dev shell_env" where
  "shell_env_example = \<lparr>sx_call = table_call example_at 0, sx_time = (\<lambda>r. r), sx_parm = 0x20000100,
     sx_temp = replicate 10 0xDEADBEEF, sx_rval = 0, sx_res = 0\<rparr>"

definition shell_heap :: m_mallco_dev where
  "shell_heap = mallco_dev [0x20000000, 0xC01F4000, 0x10000000] (\<lambda>_. 0)"

definition shell_with :: "u8 list \<Rightarrow> m_mallco_dev shell" where
  "shell_with line = \<lparr>
     tim_regs = (\<lambda>_. \<lparr>T_CR1 = 0, T_DIER = 0, T_SR = 0, T_CCMR1 = 0, T_CCMR2 = 0, T_CCER = 0, T_CNT = 0, T_PSC = 0,
       T_ARR = 0xFFFF, T_RCR = 0, T_clocks = 0, T_PSC_active = 0\<rparr>),
     htims = (\<lambda>_. \<lparr>TInstance = 0,
       TInit = \<lparr>Prescaler = 0, CounterMode = 0, Period = 0, ClockDivision = 0, RepetitionCounter = 0\<rparr>,
       TChannel = HAL_TIM_ACTIVE_CHANNEL_CLEARED, TLock = HAL_UNLOCKED, TState = HAL_TIM_STATE_RESET\<rparr>),
     sh_dev = usmart_dev example_at, sh_out = [], USART_RX_STA = 0x8000 OR of_nat (length line),
     USART_RX_BUF = line @ replicate 200 0, tim4_clock_on = True, tim4_nvic = Some (0, 3), sh_world = shell_heap\<rparr>"

lemma shell_with_line:
  assumes "i < 4" "length vs \<le> 3"
  shows "line_received (call_line (table_names i) vs) (shell_with (call_line (table_names i) vs))"
  using table_names_ok(2) [OF assms(1)] length_args_text [of vs] assms(2)
  by (simp add: line_received_def shell_with_def call_line_def)

lemma shell_with_fields:
  "sh_dev (shell_with line) = usmart_dev example_at" "sh_world (shell_with line) = shell_heap"
  "sh_out (shell_with line) = []"
  by (simp_all add: shell_with_def)

lemma usmart_dev_fields:
  "length (parm (usmart_dev at)) = 200" "length (funs (usmart_dev at)) = 4"
  "fst (funs (usmart_dev at) ! Suc 0) = at F_write_addr" "runtimeflag (usmart_dev at) = 0" "sptype (usmart_dev at) = 1"
  by (simp_all add: usmart_dev_def usmart_nametab_def)

text \<open>\<open>write_addr(536870912,77)\<close> writes 77 to 0x20000000.\<close>

theorem shell_runs_call_witness:
  "\<exists>s'. usmart_scan 3 shell_env_example (shell_with (call_line (map of_char ''write_addr'') [0x20000000, 77])) = Some s' \<and>
     mdata (sh_world s') 0x20000000 = 77 \<and>
     sh_out s' = [Newline, Str (map of_char ''write_addr''), Lit ''('', Lit ''0X'', Hex 0x20000000, Lit '','',
       Lit ''0X'', Hex 77, Lit '')'', Lit '';'', Newline]"
proof -
  let ?line = "call_line (table_names 1) [0x20000000, 77]"
  have n: "table_names 1 = map of_char ''write_addr''"
    by (simp add: table_names_def)
  have u: "\<forall>i < 1. table_names i \<noteq> table_names 1"
    by (simp add: table_names_def)
  have l: "length (table_names 1) < MAX_FNAME_LEN" "length (sx_temp shell_env_example) = 10"
    using table_names_ok(2) [of 1] by (simp_all add: shell_env_example_def)
  have c: "sx_call shell_env_example (fst (funs (usmart_dev example_at) ! 1)) [0x20000000, 77] (sh_world (shell_with ?line)) =
      Some (0, shell_heap\<lparr>mdata := write_addr 0x20000000 77 (mdata shell_heap)\<rparr>)"
    by (simp add: usmart_dev_fields shell_with_fields shell_env_example_def table_call_def example_at_def)
  obtain s' t where s': "usmart_scan 3 shell_env_example (shell_with ?line) = Some s'"
    "sh_world s' = shell_heap\<lparr>mdata := write_addr 0x20000000 77 (mdata shell_heap)\<rparr>"
    "sh_out s' = sh_out (shell_with ?line) @ call_out (usmart_dev example_at) (table_names 1) [0x20000000, 77] 0 0 t"
    using shell_runs_call [OF shell_with_fields(1) usmart_dev_fields(1) usmart_dev_table _ u table_names_ok(1) l(1)
        _ _ _ shell_with_line l(2) c, of 3] usmart_dev_fields(2) by auto
  have "mdata (sh_world s') 0x20000000 = 77"
    by (simp add: s'(2) write_addr_def)
  moreover have "sh_out s' = [Newline, Str (table_names 1), Lit ''('', Lit ''0X'', Hex 0x20000000, Lit '','',
       Lit ''0X'', Hex 77, Lit '')'', Lit '';'', Newline]"
    by (simp add: s'(3) shell_with_fields call_out_def usmart_dev_fields show_value_def)
  ultimately show ?thesis
    using s'(1) unfolding n by blast
qed

text \<open>\<open>mymalloc(1)\<close> is refused.\<close>

lemma one_parameter_example:
  "table_rval (sh_dev (shell_with line)) table_names (\<lambda>i. [1, 2, 2, 2] ! i) (\<lambda>i. [1, 0, 1, 0] ! i)"
  "\<forall>j < length (funs (sh_dev (shell_with line))). table_names j = table_names 2 \<longrightarrow>
     length [1 :: u32] < unat ([1, 2, 2, 2] ! j :: u8)"
  "\<exists>j < length (funs (sh_dev (shell_with line))). table_names j = table_names 2"
proof -
  show "table_rval (sh_dev (shell_with line)) table_names (\<lambda>i. [1, 2, 2, 2] ! i) (\<lambda>i. [1, 0, 1, 0] ! i)"
    by (simp add: shell_with_fields usmart_dev_table)
  have "table_names j = table_names 2 \<longrightarrow> length [1 :: u32] < unat ([1, 2, 2, 2] ! j :: u8)" if "j < 4" for j
    using less_four [OF that] by (elim disjE) (simp_all add: table_names_def)
  then show "\<forall>j < length (funs (sh_dev (shell_with line))). table_names j = table_names 2 \<longrightarrow>
      length [1 :: u32] < unat ([1, 2, 2, 2] ! j :: u8)"
    by (simp add: shell_with_fields usmart_dev_fields)
  show "\<exists>j < length (funs (sh_dev (shell_with line))). table_names j = table_names 2"
    by (intro exI [of _ 2]) (simp add: shell_with_fields usmart_dev_fields)
qed

lemma mymalloc_name: "table_names 2 = map of_char ''mymalloc''" "length (table_names 2) < MAX_FNAME_LEN"
  by (simp_all add: table_names_def)

theorem shell_refuses_call_witness:
  "\<exists>s'. usmart_scan 3 shell_env_example (shell_with (call_line (map of_char ''mymalloc'') [1])) = Some s' \<and>
     sh_world s' = shell_heap \<and> sh_out s' = [Msg Msg_parmerr]"
  using shell_refuses_call [OF one_parameter_example(1) table_names_ok(1) mymalloc_name(2) _ one_parameter_example(2)
      shell_with_line, of 3 shell_env_example] one_parameter_example(3)
  unfolding mymalloc_name(1) by (auto simp: shell_with_fields)

text \<open>\<open>write_addr(536870912,77,5)\<close> passes on a third argument that is not 5.\<close>

theorem extra_parameters_lost_witness:
  "\<exists>s'. usmart_scan 4 (shell_env_example\<lparr>sx_call := (\<lambda>func args d. Some (0, d\<lparr>membase := args\<rparr>))\<rparr>)
       (shell_with (call_line (map of_char ''write_addr'') [0x20000000, 77, 5])) = Some s' \<and>
     membase (sh_world s') = [0x20000000, 77, 0xDEADBEEF]"
proof -
  let ?line = "call_line (table_names 1) [0x20000000, 77, 5]"
  let ?env = "shell_env_example\<lparr>sx_call := (\<lambda>func args d. Some (0, d\<lparr>membase := args\<rparr>))\<rparr>"
  have n: "table_names 1 = map of_char ''write_addr''"
    by (simp add: table_names_def)
  have u: "\<forall>i < 1. table_names i \<noteq> table_names 1"
    by (simp add: table_names_def)
  have l: "length (table_names 1) < MAX_FNAME_LEN" "length (sx_temp ?env) = 10"
    using table_names_ok(2) [of 1] by (simp_all add: shell_env_example_def)
  have c: "sx_call ?env (fst (funs (usmart_dev example_at) ! 1)) (take 2 [0x20000000, 77, 5] @ [sx_temp ?env ! 2])
      (sh_world (shell_with ?line)) = Some (0, shell_heap\<lparr>membase := [0x20000000, 77, 0xDEADBEEF]\<rparr>)"
    by (simp add: shell_with_fields shell_env_example_def)
  obtain s' where "usmart_scan 4 ?env (shell_with ?line) = Some s'"
    "sh_world s' = shell_heap\<lparr>membase := [0x20000000, 77, 0xDEADBEEF]\<rparr>"
    using extra_parameters_lost [OF shell_with_fields(1) usmart_dev_fields(1) usmart_dev_table _ u table_names_ok(1) l(1)
        _ _ _ _ shell_with_line l(2) c, of 4] usmart_dev_fields(2) by auto
  then show ?thesis
    unfolding n by auto
qed

end
