(* ===== verification/UsmartShape.thy ===== *)
theory UsmartShape
  imports UsmartExeProps
begin

text \<open>
  The manager of the shell keeps its shape: as long as a line makes no function of the shell leave its arrays (\<open>Some\<close>), the arrays keep
  their sizes, the table its entries, and the numbers that index them their ranges. A called function is taken to leave the manager alone.
\<close>

definition dev_ok :: "m_usmart_dev \<Rightarrow> bool" where
  "dev_ok d \<longleftrightarrow> length (parm d) = PARM_LEN \<and> length (plentbl d) = MAX_PARM \<and> unat (pnum d) \<le> MAX_PARM \<and>
     unat (fnum d) = length (funs d) \<and> (func_id d < fnum d \<or> fnum d = 0)"

text \<open>The same manager but for the parameters and settings.\<close>

definition same_shape :: "m_usmart_dev \<Rightarrow> m_usmart_dev \<Rightarrow> bool" where
  "same_shape d d' \<longleftrightarrow> length (parm d) = length (parm d') \<and> length (plentbl d) = length (plentbl d') \<and> pnum d = pnum d' \<and>
     funs d = funs d' \<and> fnum d = fnum d' \<and> func_id d = func_id d'"

lemma same_shape_refl [simp]: "same_shape d d"
  by (simp add: same_shape_def)

lemma same_shape_trans [trans]: "same_shape d d' \<Longrightarrow> same_shape d' d'' \<Longrightarrow> same_shape d d''"
  by (simp add: same_shape_def)

lemma dev_ok_same: "same_shape d d' \<Longrightarrow> dev_ok d' \<Longrightarrow> dev_ok d"
  by (simp add: same_shape_def dev_ok_def)

lemma length_store_list: "store_list pos new xs = Some ys \<Longrightarrow> length ys = length xs"
  by (auto simp: store_list_def split: if_splits)

lemma length_strcopy: "usmart_strcopy s t = Some u \<Longrightarrow> length u = length t"
proof (induction s t arbitrary: u rule: usmart_strcopy.induct)
  case (1 c s d t)
  then show ?case
    by (auto split: if_splits bind_splits)
qed simp_all

lemma fparam_number_shape: "fparam_number n res dev = Some dev' \<Longrightarrow> same_shape dev' dev"
  by (auto simp: fparam_number_def same_shape_def length_store_list split: bind_splits)

lemma strcopy_bound: "usmart_strcopy s t = Some u \<Longrightarrow> t \<noteq> []"
  by (cases s; cases t) auto

lemma strcopy_tail:
  "usmart_strcopy s (drop p xs) = Some u \<Longrightarrow> min (length xs) p + length u = length xs"
  using length_strcopy [of s "drop p xs" u] strcopy_bound [of s "drop p xs" u] by auto

lemma fparam_string_shape: "fparam_string n tstr dev = Some dev' \<Longrightarrow> same_shape dev' dev"
  by (auto simp: fparam_string_def same_shape_def length_store_list split: bind_splits dest: strcopy_tail)

lemma unat_Suc_u8: "unat n \<le> 10 \<Longrightarrow> unat (n + 1 :: u8) = Suc (unat n)"
  by (simp add: unat_word_ariths)

text \<open>The rest of the loop after a parameter.\<close>

lemma fparam_loop_shape:
  "fparam_loop fuel str n dev = Some (e, n', dev') \<Longrightarrow> unat n \<le> 10 \<Longrightarrow>
   same_shape dev' dev \<and> (e = USMART_OK \<longrightarrow> unat n' \<le> 10)"
proof (induction fuel arbitrary: str n dev)
  case 0
  then show ?case by simp
next
  case (Suc fuel)
  obtain i tstr type where a: "usmart_get_aparm (PARM_LEN + 1) str = Some (i, tstr, type)"
    using Suc.prems(1) by (cases "usmart_get_aparm (PARM_LEN + 1) str") auto
  define nxt where "nxt = (\<lambda>n dev. (case drop (unat i) str of
           [] \<Rightarrow> None
         | c # _ \<Rightarrow> if c = ch_close \<or> c = ch_nul then Some (USMART_OK, n, dev) else fparam_loop fuel (drop (unat i) str) n dev))"
  have nx: "same_shape dev' d \<and> (e = USMART_OK \<longrightarrow> unat n' \<le> 10)"
    if "nxt m d = Some (e, n', dev')" "unat m \<le> 10" for m d
    using that Suc.IH [of "drop (unat i) str" m d] by (auto simp: nxt_def split: list.splits if_splits)
  have st: "same_shape dev' dev \<and> (e = USMART_OK \<longrightarrow> unat n' \<le> 10)"
    if "same_shape d dev"
      "(if unat (n + 1) > MAX_PARM then Some (USMART_PARMOVER, n + 1, d) else nxt (n + 1) d) = Some (e, n', dev')" for d
    using that nx [of "n + 1" d] same_shape_trans [of dev' d dev] by (auto split: if_splits)
  have eq: "(if type = 0 then
       (if tstr ! 0 \<noteq> ch_nul then do {
          (e, res) \<leftarrow> usmart_str2num tstr;
          if e \<noteq> 0 then Some (USMART_PARMERR, n, dev)
          else do {
            dev \<leftarrow> fparam_number n res dev;
            if unat (n + 1) > MAX_PARM then Some (USMART_PARMOVER, n + 1, dev) else nxt (n + 1) dev
          }
        }
        else nxt n dev)
     else if type = 1 then do {
       dev \<leftarrow> fparam_string n tstr dev;
       if unat (n + 1) > MAX_PARM then Some (USMART_PARMOVER, n + 1, dev) else nxt (n + 1) dev
     }
     else Some (USMART_PARMERR, n, dev)) = Some (e, n', dev')"
    using Suc.prems(1) by (simp only: fparam_loop.simps a bind.bind_lunit prod.case Let_def nxt_def)
  consider "type = 0" "tstr ! 0 = ch_nul" | "type = 0" "tstr ! 0 \<noteq> ch_nul" | "type = 1" | "type \<noteq> 0" "type \<noteq> 1"
    by blast
  then show ?case
  proof cases
    case 1
    then show ?thesis
      using eq nx [of n dev] Suc.prems(2) by simp
  next
    case 2
    then obtain e' res where "usmart_str2num tstr = Some (e', res)"
      using eq by (cases "usmart_str2num tstr") auto
    then show ?thesis
    proof (cases "e' = 0")
      case True
      then obtain d where d: "fparam_number n res dev = Some d"
        using eq 2 \<open>usmart_str2num tstr = Some (e', res)\<close> by (cases "fparam_number n res dev") auto
      then show ?thesis
        using eq 2 True \<open>usmart_str2num tstr = Some (e', res)\<close> st [OF fparam_number_shape [OF d]] by simp
    next
      case False
      then show ?thesis
        using eq 2 \<open>usmart_str2num tstr = Some (e', res)\<close> by simp
    qed
  next
    case 3
    then obtain d where d: "fparam_string n tstr dev = Some d"
      using eq by (cases "fparam_string n tstr dev") auto
    then show ?thesis
      using eq 3 st [OF fparam_string_shape [OF d]] by simp
  next
    case 4
    then show ?thesis
      using eq by simp
  qed
qed

lemma get_fparam_shape:
  assumes "usmart_get_fparam fuel str dev = Some (e, parn, dev')" "length (plentbl dev) = MAX_PARM"
  shows "same_shape dev' dev \<and> (\<forall>n. parn = Some n \<longrightarrow> unat n \<le> 10)"
proof -
  let ?dev = "dev\<lparr>plentbl := replicate MAX_PARM 0\<rparr>"
  have s: "same_shape ?dev dev"
    using assms(2) by (simp add: same_shape_def)
  obtain r where r: "skip_to_open str = Some r"
    using assms(1) by (cases "skip_to_open str") (auto simp: usmart_get_fparam_def)
  show ?thesis
  proof (cases r)
    case None
    then show ?thesis
      using assms(1) r s by (simp add: usmart_get_fparam_def)
  next
    case (Some str')
    then obtain n where "fparam_loop fuel str' 0 ?dev = Some (e, n, dev')" "parn = (if e = USMART_OK then Some n else None)"
      using assms(1) r by (auto simp: usmart_get_fparam_def Let_def split: bind_splits)
    then show ?thesis
      using fparam_loop_shape [of fuel str' 0 ?dev e n dev'] same_shape_trans [OF _ s] by auto
  qed
qed

lemma cmd_find_shape:
  "cmd_find n i rfname rpnum rval dev = Some (r, i', dev') \<Longrightarrow> unat i + n = unat (fnum dev) \<Longrightarrow>
   \<exists>f. dev' = dev\<lparr>func_id := f\<rparr> \<and> (f = func_id dev \<or> f < fnum dev)"
proof (induction n arbitrary: i rval)
  case 0
  then show ?case by (intro exI [of _ "func_id dev"]) simp
next
  case (Suc n)
  have i: "i < fnum dev" "unat (i + 1) = Suc (unat i)"
    using Suc.prems(2) unat_u8_bound [of "fnum dev"] by (simp_all add: word_less_nat_alt unat_word_ariths)
  have ih: "\<exists>f. dev' = dev\<lparr>func_id := f\<rparr> \<and> (f = func_id dev \<or> f < fnum dev)"
    if "cmd_find n (i + 1) rfname rpnum rv dev = Some (r, i', dev')" for rv
    using Suc.IH [OF that] Suc.prems(2) i(2) by simp
  have n: "\<exists>f. dev = dev\<lparr>func_id := f\<rparr> \<and> (f = func_id dev \<or> f < fnum dev)"
    by (intro exI [of _ "func_id dev"]) simp
  obtain decl sta sfname spnum rv where g: "unat i < length (funs dev)" "decl = snd (funs dev ! unat i)"
    "usmart_get_fname MAX_FNAME_LEN decl rval = Some (sta, sfname, spnum, rv)"
    using Suc.prems(1) by (auto split: if_splits bind_splits)
  show ?case
  proof (cases "sta = 0")
    case False
    then show ?thesis
      using Suc.prems(1) g n by simp
  next
    case True
    then obtain e where "usmart_strcmp sfname rfname = Some e"
      using Suc.prems(1) g by (cases "usmart_strcmp sfname rfname") auto
    then show ?thesis
      using Suc.prems(1) g True ih n i(1) by (auto split: if_splits)
  qed
qed

lemma cmd_rec_shape:
  assumes "usmart_cmd_rec fuel str rval dev = Some (sta, dev')" "dev_ok dev"
  shows "dev_ok dev' \<and> funs dev' = funs dev"
proof -
  obtain sta1 rfname rpnum rv where f: "usmart_get_fname MAX_FNAME_LEN str rval = Some (sta1, rfname, rpnum, rv)"
    using assms(1) by (cases "usmart_get_fname MAX_FNAME_LEN str rval") (auto simp: usmart_cmd_rec_def)
  show ?thesis
  proof (cases "sta1 = 0")
    case False
    then show ?thesis
      using assms f by (simp add: usmart_cmd_rec_def)
  next
    case True
    then obtain ret i d where c: "cmd_find (unat (fnum dev)) 0 rfname rpnum rv dev = Some (ret, i, d)"
      using assms(1) f by (cases "cmd_find (unat (fnum dev)) 0 rfname rpnum rv dev") (auto simp: usmart_cmd_rec_def)
    obtain g where g: "d = dev\<lparr>func_id := g\<rparr>" "g = func_id dev \<or> g < fnum dev"
      using cmd_find_shape [OF c] by auto
    have d: "dev_ok d" "funs d = funs dev" "length (plentbl d) = MAX_PARM"
      using g assms(2) by (auto simp: dev_ok_def)
    consider "dev' = d"
      | parn sta2 d2 where "usmart_get_fparam fuel str d = Some (sta2, parn, d2)"
          "dev' = d2 \<or> (\<exists>n. parn = Some n \<and> dev' = d2\<lparr>pnum := n\<rparr>)"
      using assms(1) f c True by (auto simp: usmart_cmd_rec_def split: option.splits if_splits bind_splits)
    then show ?thesis
    proof cases
      case 1
      then show ?thesis
        using d by simp
    next
      case 2
      have s: "same_shape d2 d" "\<forall>n. parn = Some n \<longrightarrow> unat n \<le> 10"
        using get_fparam_shape [OF 2(1) d(3)] by simp_all
      then have "dev_ok d2" "funs d2 = funs dev"
        using dev_ok_same [OF s(1) d(1)] d(2) by (simp_all add: same_shape_def)
      then show ?thesis
        using 2(2) s(2) by (auto simp: dev_ok_def)
    qed
  qed
qed

section \<open>Execution\<close>

lemma exe_shape:
  assumes "usmart_exe env s = Some s'"
  shows "same_shape (sh_dev s') (sh_dev s)"
proof (cases "fnum (sh_dev s) \<le> func_id (sh_dev s)")
  case True
  then show ?thesis
    using assms by (simp add: usmart_exe_def)
next
  case False
  obtain func decl where "funs (sh_dev s) ! unat (func_id (sh_dev s)) = (func, decl)"
    by fastforce
  then show ?thesis
    using assms False unfolding usmart_exe_def Let_def
    by (auto simp: same_shape_def split: if_splits bind_splits)
qed

lemma sys_cmd_base_shape:
  "sys_cmd_base str show_num msg sp s = Some (e, s') \<Longrightarrow> same_shape (sh_dev s') (sh_dev s)"
  by (auto simp: sys_cmd_base_def same_shape_def Let_def split: bind_splits option.splits if_splits)

lemma sys_cmd_runtime_shape: "sys_cmd_runtime str s = Some (e, s') \<Longrightarrow> same_shape (sh_dev s') (sh_dev s)"
  by (auto simp: sys_cmd_runtime_def same_shape_def Let_def split: bind_splits option.splits if_splits)

lemma sys_cmd_exe_shape:
  assumes "usmart_sys_cmd_exe rval str s = Some (e, s')"
  shows "same_shape (sh_dev s') (sh_dev s)"
proof -
  obtain res sfname i where c: "usmart_get_cmdname str (of_nat MAX_FNAME_LEN) = Some (res, sfname, i)"
    using assms by (cases "usmart_get_cmdname str (of_nat MAX_FNAME_LEN)") (auto simp: usmart_sys_cmd_exe_def)
  show ?thesis
  proof (cases "res = 0")
    case False
    then show ?thesis
      using assms c by (simp add: usmart_sys_cmd_exe_def)
  next
    case True
    then obtain k where k: "sys_cmd_find sfname sys_cmd_tab 0 = Some k"
      using assms c by (cases "sys_cmd_find sfname sys_cmd_tab 0") (auto simp: usmart_sys_cmd_exe_def)
    have "(if k = 0 \<or> k = 1 then Some (0, print [Newline, Msg Msg_help] s)
       else if k = 2 then do {
         names \<leftarrow> list_names (unat (fnum (sh_dev s))) 0 (sh_dev s);
         Some (0, print ([Newline, Msg Msg_list] @ names @ [Newline]) s)
       }
       else if k = 3 then do {
         ids \<leftarrow> list_ids (unat (fnum (sh_dev s))) 0 rval (sh_dev s);
         Some (0, print ([Newline, Msg Msg_ids] @ ids @ [Newline]) s)
       }
       else if k = 4 then sys_cmd_base (drop (unat i) str) (\<lambda>v. [Lit ''HEX:0X'', Hex v, Newline]) Msg_hex_on SP_TYPE_HEX s
       else if k = 5 then sys_cmd_base (drop (unat i) str) (\<lambda>v. [Lit ''DEC:'', Dec v, Newline]) Msg_dec_on SP_TYPE_DEC s
       else if k = 6 then sys_cmd_runtime (drop (unat i) str) s
       else Some (USMART_FUNCERR, s)) = Some (e, s')"
      using assms unfolding usmart_sys_cmd_exe_def c Let_def k bind.bind_lunit prod.case using True by simp
    then show ?thesis
      by (auto split: if_splits bind_splits dest: sys_cmd_base_shape sys_cmd_runtime_shape)
  qed
qed

lemma scan_error_dev: "sh_dev (scan_error sta s) = sh_dev s"
  by (simp add: scan_error_def)

lemma scan_shape:
  assumes "usmart_scan fuel env s = Some s'" "dev_ok (sh_dev s)"
  shows "dev_ok (sh_dev s') \<and> funs (sh_dev s') = funs (sh_dev s)"
proof (cases "USART_RX_STA s AND 0x8000 = 0")
  case True
  then show ?thesis
    using assms by (simp add: usmart_scan_def)
next
  case False
  obtain buf where b: "(if unat (ucast (USART_RX_STA s AND 0x3FFF) :: u8) < length (USART_RX_BUF s)
      then Some (s\<lparr>USART_RX_BUF := (USART_RX_BUF s)[unat (ucast (USART_RX_STA s AND 0x3FFF) :: u8) := ch_nul]\<rparr>) else None) =
      Some (s\<lparr>USART_RX_BUF := buf\<rparr>)"
    using assms(1) False by (auto simp: usmart_scan_def Let_def split: if_splits)
  obtain sta dev where r: "usmart_cmd_rec fuel buf (sx_rval env) (sh_dev s) = Some (sta, dev)"
    using assms(1) False b
    by (cases "usmart_cmd_rec fuel buf (sx_rval env) (sh_dev s)") (auto simp: usmart_scan_def Let_def split: if_splits)
  have d: "dev_ok dev" "funs dev = funs (sh_dev s)"
    using cmd_rec_shape [OF r assms(2)] by simp_all
  let ?s = "s\<lparr>USART_RX_BUF := buf, sh_dev := dev\<rparr>"
  obtain s1 where s1: "(if sta = 0 then usmart_exe env ?s
              else do {
                (len, s) \<leftarrow> usmart_sys_cmd_exe (sx_rval env) buf ?s;
                let sta = (if len \<noteq> USMART_FUNCERR then len else sta);
                Some (if sta \<noteq> 0 then scan_error sta s else s)
              }) = Some s1" "s' = s1\<lparr>USART_RX_STA := 0\<rparr>"
    using assms(1) False r unfolding usmart_scan_def Let_def b by (auto split: bind_splits if_splits)
  have "same_shape (sh_dev s1) dev"
  proof (cases "sta = 0")
    case True
    then show ?thesis
      using s1(1) exe_shape [of env ?s s1] by simp
  next
    case False
    then obtain len s2 where l: "usmart_sys_cmd_exe (sx_rval env) buf ?s = Some (len, s2)" "sh_dev s1 = sh_dev s2"
      using s1(1) by (auto simp: Let_def scan_error_dev split: bind_splits if_splits)
    show ?thesis
      using sys_cmd_exe_shape [OF l(1)] l(2) by simp
  qed
  then have "dev_ok (sh_dev s1)" "funs (sh_dev s1) = funs dev"
    using dev_ok_same d(1) by (blast, simp add: same_shape_def)
  then show ?thesis
    using d(2) s1(2) by simp
qed

text \<open>
  The manager keeps its shape: if \<open>usmart_scan\<close> gets through the line received within its arrays, then afterwards the
  arrays of the manager have their sizes, the number of parameters is at most ten, the number of the function is one of the
  table, and the table is the same.
\<close>

theorem shell_keeps_shape:
  assumes "usmart_scan fuel env s = Some s'" "dev_ok (sh_dev s)"
  shows "dev_ok (sh_dev s') \<and> funs (sh_dev s') = funs (sh_dev s) \<and> fnum (sh_dev s') = fnum (sh_dev s)"
proof -
  have "dev_ok (sh_dev s')" "funs (sh_dev s') = funs (sh_dev s)"
    using scan_shape [OF assms] by simp_all
  moreover from this assms(2) have "fnum (sh_dev s') = fnum (sh_dev s)"
    by (simp add: dev_ok_def word_unat_eq_iff)
  ultimately show ?thesis
    by simp
qed

theorem shell_keeps_shape_witness:
  "\<exists>s'. usmart_scan 3 shell_env_example (shell_with (call_line (map of_char ''mymalloc'') [1])) = Some s' \<and>
     length (parm (sh_dev s')) = 200"
proof -
  let ?s = "shell_with (call_line (table_names 2) [1])"
  obtain s' where s': "usmart_scan 3 shell_env_example ?s = Some s'"
    using scan_reject [OF one_parameter_example(1) table_names_ok(1) mymalloc_name(2) _ one_parameter_example(2)
      shell_with_line, of 3 shell_env_example] by auto
  have "dev_ok (sh_dev ?s)"
    by (simp add: dev_ok_def shell_with_fields usmart_dev_def usmart_nametab_def)
  then show ?thesis
    using shell_keeps_shape [OF s'] s' unfolding mymalloc_name(1) by (auto simp: dev_ok_def)
qed

end
