(* ===== verification/MallocRef.thy ===== *)
theory MallocRef
  imports Malloc
begin

text \<open>
  The allocator against a reference: \<open>my_mem_malloc\<close> is a last-fit allocator.
\<close>

section \<open>The last fit\<close>

text \<open>
  A reference for the allocator, without its counters: the last place in the table where the blocks
  that are needed are free, and the table with these blocks marked with their number.
\<close>

definition last_fit :: "u32 list \<Rightarrow> nat \<Rightarrow> nat option" where
  "last_fit t n = List.find (\<lambda>off. zero_run t off n) (rev [0..<Suc (length t)])"

definition mark_blocks :: "u32 list \<Rightarrow> nat \<Rightarrow> nat \<Rightarrow> u32 list" where
  "mark_blocks t off n = take off t @ replicate n (of_nat n) @ drop (off + n) t"

definition malloc_last_fit :: "nat \<Rightarrow> u32 \<Rightarrow> m_mallco_dev \<Rightarrow> u32 \<times> m_mallco_dev" where
  "malloc_last_fit memx sz d =
     (let n = (unat sz + 63) div 64; t = memmap d ! memx
      in if n = 0 then (0xFFFFFFFF, d)
         else (case last_fit t n of
                 None \<Rightarrow> (0xFFFFFFFF, d)
               | Some off \<Rightarrow> (of_nat (64 * off), d\<lparr>memmap := (memmap d)[memx := mark_blocks t off n]\<rparr>)))"

lemma find_rev_upto:
  "List.find P (rev [0..<Suc k]) = (if \<exists>x \<le> k. P x then Some (GREATEST x. x \<le> k \<and> P x) else None)"
proof (induction k)
  case 0
  have "(GREATEST x. x = 0 \<and> P x) = 0" if "P 0"
    using that by (intro Greatest_equality) auto
  then show ?case by auto
next
  case (Suc k)
  show ?case
  proof (cases "P (Suc k)")
    case True
    then have "(GREATEST x. x \<le> Suc k \<and> P x) = Suc k"
      by (intro Greatest_equality) auto
    then show ?thesis
      using True by auto
  next
    case False
    then have "x \<le> Suc k \<and> P x \<longleftrightarrow> x \<le> k \<and> P x" for x
      by (auto simp: le_Suc_eq)
    then show ?thesis
      using Suc.IH False by auto
  qed
qed

lemma find_blocks_last_fit:
  assumes "n \<noteq> 0" "length t < 4294967295"
  shows "find_blocks t n 0 (length t) = last_fit t (unat n)"
proof (cases "find_blocks t n 0 (length t)")
  case None
  then have "\<forall>off. \<not> zero_run t off (unat n)"
    using find_blocks_top [OF assms] by simp
  then show ?thesis
    using None by (simp add: last_fit_def find_rev_upto del: upt_Suc)
next
  case (Some off)
  then have z: "zero_run t off (unat n)" "\<forall>off' > off. \<not> zero_run t off' (unat n)"
    using find_blocks_top [OF assms] by simp_all
  then have "off \<le> length t"
    by (simp add: zero_run_def)
  moreover have "(GREATEST x. x \<le> length t \<and> zero_run t x (unat n)) = off"
    using z \<open>off \<le> length t\<close> by (intro Greatest_equality) (auto simp: not_less [symmetric])
  ultimately show ?thesis
    using Some z(1) by (auto simp: last_fit_def find_rev_upto simp del: upt_Suc)
qed

lemma marked_blocks:
  "off + n \<le> length t \<Longrightarrow> map (\<lambda>j. if off \<le> j \<and> j < off + n then of_nat n else t ! j) [0..<length t] = mark_blocks t off n"
  by (rule nth_equalityI) (auto simp: mark_blocks_def nth_append)

text \<open>
  C20. The allocator is a last-fit allocator: on a pool that is set up, \<open>my_mem_malloc\<close>, with its search from the top and its
  counter of free blocks, is the reference \<open>malloc_last_fit\<close>, result and table, for every content of the table.
\<close>

theorem malloc_is_last_fit:
  assumes "memx < SRAMBANK" "memrdy d ! memx \<noteq> 0" "length (memmap d ! memx) = unat (memtblsize ! memx)"
  shows "my_mem_malloc memx sz d = Some (malloc_last_fit memx sz d)"
proof (cases "sz = 0")
  case True
  then show ?thesis
    using assms(2) by (simp add: my_mem_malloc_def malloc_last_fit_def)
next
  case False
  let ?n = "blocks_for memx sz" and ?t = "memmap d ! memx"
  have n: "unat ?n = (unat sz + 63) div 64"
    using blocks_for_value [OF assms(1)] by (simp add: blocks_of_def)
  then have n0: "?n \<noteq> 0" "(unat sz + 63) div 64 \<noteq> 0"
    using blocks_of_bounds(1) [OF False] by (auto simp: blocks_of_def)
  have l: "length ?t < 4294967295"
    using assms(3) bank_constants(4) [OF assms(1)] by simp
  have f: "find_blocks ?t ?n 0 (unat (memtblsize ! memx)) = last_fit ?t ((unat sz + 63) div 64)"
    using find_blocks_last_fit [OF n0(1) l] assms(3) n by simp
  have wn: "of_nat (unat ?n) = ?n"
    by simp
  show ?thesis
  proof (cases "last_fit ?t ((unat sz + 63) div 64)")
    case None
    then show ?thesis
      using False assms(2) f n0 by (simp add: my_mem_malloc_def malloc_last_fit_def Let_def)
  next
    case (Some off)
    have "zero_run ?t off (unat ?n)"
      using find_blocks_top [OF n0(1) l] f assms(3) Some by simp
    then have "off + unat ?n \<le> length ?t"
      by (simp add: zero_run_def)
    then have "set_blocks ?n off (unat ?n) ?t = Some (mark_blocks ?t off (unat ?n))"
      using set_blocks_eq [of off "unat ?n" ?t ?n] marked_blocks [of off "unat ?n" ?t] unfolding wn by simp
    moreover have "of_nat off * memblksize ! memx = (of_nat (64 * off) :: u32)"
      by (simp add: bank_constants(1) [OF assms(1)])
    ultimately show ?thesis
      using False assms(2) f Some n0 n by (simp add: my_mem_malloc_def malloc_last_fit_def Let_def)
  qed
qed

text \<open>In the empty pool 2 of 16 blocks, 100 bytes are given at block 14.\<close>

theorem malloc_is_last_fit_witness:
  "\<exists>d'. my_mem_malloc 2 100 (my_mem_init 2 (mallco_dev [0x20000000, 0xC01F4000, 0x10000000] (\<lambda>_. 0))) = Some (896, d')"
proof -
  have "last_fit (replicate 16 0) 2 = Some 14"
    by (simp add: last_fit_def zero_run_def numeral_eq_Suc less_Suc_eq)
  then show ?thesis
    by (subst malloc_is_last_fit)
      (simp_all add: my_mem_init_def mallco_dev_def memtblsize_def malloc_last_fit_def Let_def)
qed

end
