(* ===== verification/HalEth.thy ===== *)
theory HalEth
  imports Prelude "HOL-Library.Monad_Syntax"
begin

text \<open>
  The Ethernet driver, stm32f4xx_hal_eth.c: the handle with the registers of the MAC and its DMA, the descriptors and buffers in memory,
  the lists of descriptors, transmission and reception of frames, the interrupt handler, the registers of the
  transceiver, configuration and start. \<open>None\<close> is a loop that is still running.
\<close>

section \<open>Constants\<close>

abbreviation ETH_RX_BUF_SIZE :: u32 where "ETH_RX_BUF_SIZE \<equiv> 1524"
abbreviation ETH_TX_BUF_SIZE :: u32 where "ETH_TX_BUF_SIZE \<equiv> 1524"
abbreviation ETH_RXBUFNB :: nat where "ETH_RXBUFNB \<equiv> 4"
abbreviation ETH_TXBUFNB :: nat where "ETH_TXBUFNB \<equiv> 4"

abbreviation ETH_DMATXDESC_OWN :: u32 where "ETH_DMATXDESC_OWN \<equiv> 0x80000000"
abbreviation ETH_DMATXDESC_LS :: u32 where "ETH_DMATXDESC_LS \<equiv> 0x20000000"
abbreviation ETH_DMATXDESC_FS :: u32 where "ETH_DMATXDESC_FS \<equiv> 0x10000000"
abbreviation ETH_DMATXDESC_TCH :: u32 where "ETH_DMATXDESC_TCH \<equiv> 0x00100000"
abbreviation ETH_DMATXDESC_TBS1 :: u32 where "ETH_DMATXDESC_TBS1 \<equiv> 0x1FFF"
abbreviation ETH_DMATXDESC_CHECKSUMTCPUDPICMPFULL :: u32 where "ETH_DMATXDESC_CHECKSUMTCPUDPICMPFULL \<equiv> 0x00C00000"
abbreviation ETH_DMARXDESC_OWN :: u32 where "ETH_DMARXDESC_OWN \<equiv> 0x80000000"
abbreviation ETH_DMARXDESC_FL :: u32 where "ETH_DMARXDESC_FL \<equiv> 0x3FFF0000"
abbreviation ETH_DMARXDESC_ES :: u32 where "ETH_DMARXDESC_ES \<equiv> 0x8000"
abbreviation ETH_DMARXDESC_FS :: u32 where "ETH_DMARXDESC_FS \<equiv> 0x200"
abbreviation ETH_DMARXDESC_LS :: u32 where "ETH_DMARXDESC_LS \<equiv> 0x100"
abbreviation ETH_DMARXDESC_DIC :: u32 where "ETH_DMARXDESC_DIC \<equiv> 0x80000000"
abbreviation ETH_DMARXDESC_RCH :: u32 where "ETH_DMARXDESC_RCH \<equiv> 0x4000"

abbreviation ETH_DMASR_TBUS :: u32 where "ETH_DMASR_TBUS \<equiv> 0x4"
abbreviation ETH_DMASR_TUS :: u32 where "ETH_DMASR_TUS \<equiv> 0x20"
abbreviation ETH_DMASR_RBUS :: u32 where "ETH_DMASR_RBUS \<equiv> 0x80"
abbreviation ETH_DMA_FLAG_R :: u32 where "ETH_DMA_FLAG_R \<equiv> 0x40"
abbreviation ETH_DMA_FLAG_T :: u32 where "ETH_DMA_FLAG_T \<equiv> 0x1"
abbreviation ETH_DMA_FLAG_AIS :: u32 where "ETH_DMA_FLAG_AIS \<equiv> 0x8000"
abbreviation ETH_DMA_IT_NIS :: u32 where "ETH_DMA_IT_NIS \<equiv> 0x10000"
abbreviation ETH_DMA_IT_R :: u32 where "ETH_DMA_IT_R \<equiv> 0x40"
abbreviation ETH_DMA_IT_T :: u32 where "ETH_DMA_IT_T \<equiv> 0x1"

abbreviation ETH_MACCR_TE :: u32 where "ETH_MACCR_TE \<equiv> 0x8"
abbreviation ETH_MACCR_RE :: u32 where "ETH_MACCR_RE \<equiv> 0x4"
abbreviation ETH_DMAOMR_ST :: u32 where "ETH_DMAOMR_ST \<equiv> 0x2000"
abbreviation ETH_DMAOMR_SR :: u32 where "ETH_DMAOMR_SR \<equiv> 0x2"
abbreviation ETH_DMAOMR_FTF :: u32 where "ETH_DMAOMR_FTF \<equiv> 0x00100000"
abbreviation ETH_DMABMR_SR :: u32 where "ETH_DMABMR_SR \<equiv> 0x1"
abbreviation ETH_DMABMR_USP :: u32 where "ETH_DMABMR_USP \<equiv> 0x00800000"
abbreviation ETH_MACMIIAR_PA :: u32 where "ETH_MACMIIAR_PA \<equiv> 0xF800"
abbreviation ETH_MACMIIAR_MR :: u32 where "ETH_MACMIIAR_MR \<equiv> 0x7C0"
abbreviation ETH_MACMIIAR_MW :: u32 where "ETH_MACMIIAR_MW \<equiv> 0x2"
abbreviation ETH_MACMIIAR_MB :: u32 where "ETH_MACMIIAR_MB \<equiv> 0x1"
abbreviation ETH_MACMIIAR_CR_MASK :: u32 where "ETH_MACMIIAR_CR_MASK \<equiv> 0xFFFFFFE3"
abbreviation ETH_MACCR_CLEAR_MASK :: u32 where "ETH_MACCR_CLEAR_MASK \<equiv> 0xFF20810F"
abbreviation ETH_MACFCR_CLEAR_MASK :: u32 where "ETH_MACFCR_CLEAR_MASK \<equiv> 0xFF41"
abbreviation ETH_DMAOMR_CLEAR_MASK :: u32 where "ETH_DMAOMR_CLEAR_MASK \<equiv> 0xF8DE3F23"
abbreviation SYSCFG_PMC_MII_RMII_SEL :: u32 where "SYSCFG_PMC_MII_RMII_SEL \<equiv> 0x00800000"

abbreviation ETH_AUTONEGOTIATION_DISABLE :: u32 where "ETH_AUTONEGOTIATION_DISABLE \<equiv> 0"
abbreviation ETH_SPEED_10M :: u32 where "ETH_SPEED_10M \<equiv> 0"
abbreviation ETH_SPEED_100M :: u32 where "ETH_SPEED_100M \<equiv> 0x4000"
abbreviation ETH_MODE_FULLDUPLEX :: u32 where "ETH_MODE_FULLDUPLEX \<equiv> 0x800"
abbreviation ETH_MODE_HALFDUPLEX :: u32 where "ETH_MODE_HALFDUPLEX \<equiv> 0"
abbreviation ETH_RXINTERRUPT_MODE :: u32 where "ETH_RXINTERRUPT_MODE \<equiv> 1"
abbreviation ETH_CHECKSUM_BY_HARDWARE :: u32 where "ETH_CHECKSUM_BY_HARDWARE \<equiv> 0"
abbreviation ETH_MAC_ADDRESS0 :: u32 where "ETH_MAC_ADDRESS0 \<equiv> 0"
abbreviation ETH_SUCCESS :: u32 where "ETH_SUCCESS \<equiv> 0"
abbreviation ETH_ERROR :: u32 where "ETH_ERROR \<equiv> 1"
abbreviation ETH_REG_WRITE_DELAY :: u32 where "ETH_REG_WRITE_DELAY \<equiv> 1"

abbreviation PHY_BCR :: u16 where "PHY_BCR \<equiv> 0"
abbreviation PHY_BSR :: u16 where "PHY_BSR \<equiv> 1"
abbreviation PHY_SR :: u16 where "PHY_SR \<equiv> 0x10"
abbreviation PHY_RESET :: u32 where "PHY_RESET \<equiv> 0x8000"
abbreviation PHY_AUTONEGOTIATION :: u32 where "PHY_AUTONEGOTIATION \<equiv> 0x1000"
abbreviation PHY_LINKED_STATUS :: u32 where "PHY_LINKED_STATUS \<equiv> 0x4"
abbreviation PHY_AUTONEGO_COMPLETE :: u32 where "PHY_AUTONEGO_COMPLETE \<equiv> 0x20"
abbreviation PHY_SPEED_STATUS :: u32 where "PHY_SPEED_STATUS \<equiv> 0x2"
abbreviation PHY_DUPLEX_STATUS :: u32 where "PHY_DUPLEX_STATUS \<equiv> 0x4"
abbreviation PHY_RESET_DELAY :: u32 where "PHY_RESET_DELAY \<equiv> 0xFF"
abbreviation PHY_CONFIG_DELAY :: u32 where "PHY_CONFIG_DELAY \<equiv> 0xFFF"
abbreviation PHY_READ_TO :: u32 where "PHY_READ_TO \<equiv> 0xFFFF"
abbreviation PHY_WRITE_TO :: u32 where "PHY_WRITE_TO \<equiv> 0xFFFF"
abbreviation ETH_TIMEOUT_SWRESET :: u32 where "ETH_TIMEOUT_SWRESET \<equiv> 500"
abbreviation ETH_TIMEOUT_LINKED_STATE :: u32 where "ETH_TIMEOUT_LINKED_STATE \<equiv> 5000"
abbreviation ETH_TIMEOUT_AUTONEGO_COMPLETED :: u32 where "ETH_TIMEOUT_AUTONEGO_COMPLETED \<equiv> 5000"

section \<open>Types\<close>

datatype HAL_ETH_StateTypeDef =
    HAL_ETH_STATE_RESET | HAL_ETH_STATE_READY | HAL_ETH_STATE_BUSY | HAL_ETH_STATE_BUSY_TX | HAL_ETH_STATE_BUSY_RX
  | HAL_ETH_STATE_BUSY_TX_RX | HAL_ETH_STATE_BUSY_WR | HAL_ETH_STATE_BUSY_RD | HAL_ETH_STATE_TIMEOUT | HAL_ETH_STATE_ERROR

record ETH_InitTypeDef =
  AutoNegotiation :: u32
  Speed :: u32
  DuplexMode :: u32
  PhyAddress :: u16
  MACAddr :: "u8 list"
  RxMode :: u32
  ChecksumMode :: u32
  MediaInterface :: u32

record ETH_MACInitTypeDef =
  Watchdog :: u32
  Jabber :: u32
  InterFrameGap :: u32
  CarrierSense :: u32
  ReceiveOwn :: u32
  LoopbackMode :: u32
  ChecksumOffload :: u32
  RetryTransmission :: u32
  AutomaticPadCRCStrip :: u32
  BackOffLimit :: u32
  DeferralCheck :: u32
  ReceiveAll :: u32
  SourceAddrFilter :: u32
  PassControlFrames :: u32
  BroadcastFramesReception :: u32
  DestinationAddrFilter :: u32
  PromiscuousMode :: u32
  MulticastFramesFilter :: u32
  UnicastFramesFilter :: u32
  HashTableHigh :: u32
  HashTableLow :: u32
  PauseTime :: u32
  ZeroQuantaPause :: u32
  PauseLowThreshold :: u32
  UnicastPauseFrameDetect :: u32
  ReceiveFlowControl :: u32
  TransmitFlowControl :: u32
  VLANTagComparison :: u32
  VLANTagIdentifier :: u32

record ETH_DMAInitTypeDef =
  DropTCPIPChecksumErrorFrame :: u32
  ReceiveStoreForward :: u32
  FlushReceivedFrame :: u32
  TransmitStoreForward :: u32
  TransmitThresholdControl :: u32
  ForwardErrorFrames :: u32
  ForwardUndersizedGoodFrames :: u32
  ReceiveThresholdControl :: u32
  SecondFrameOperate :: u32
  AddressAlignedBeats :: u32
  FixedBurst :: u32
  RxDMABurstLength :: u32
  TxDMABurstLength :: u32
  EnhancedDescriptorFormat :: u32
  DescriptorSkipLength :: u32
  DMAArbitration :: u32

record ETH_DMADescTypeDef =
  Status :: u32
  ControlBufferSize :: u32
  Buffer1Addr :: u32
  Buffer2NextDescAddr :: u32
  ExtendedStatus :: u32
  Reserved1 :: u32
  TimeStampLow :: u32
  TimeStampHigh :: u32

record ETH_DMARxFrameInfos =
  FSRxDesc :: u32
  LSRxDesc :: u32
  SegCount :: u32
  frame_length :: u32
  frame_buffer :: u32

text \<open>
  The registers of the MAC. \<open>MACAHR\<close> and \<open>MACALR\<close> are the address registers by their offset; \<open>PMC\<close> and
  \<open>syscfg_clock\<close> belong to the system configuration controller.
\<close>

record eth_mac =
  MACCR :: u32
  MACFFR :: u32
  MACHTHR :: u32
  MACHTLR :: u32
  MACMIIAR :: u32
  MACMIIDR :: u32
  MACFCR :: u32
  MACVLANTR :: u32
  MACAHR :: "u32 \<Rightarrow> u32"
  MACALR :: "u32 \<Rightarrow> u32"
  PMC :: u32
  syscfg_clock :: bool

text \<open>
  The handle \<open>ETH_HandleTypeDef\<close> with the registers behind \<open>Instance\<close>; pointers to descriptors are
  addresses. The fields from \<open>descs\<close> on are the memory outside the handle, the
  descriptors and the bytes of the buffers, and the state of the DMA itself: the descriptors it looks
  at next, whether it has been suspended for lack of one, the segments of a frame it has read, and the frames it has put on
  the wire. \<open>eth_polls\<close> counts the readings of the tick.
\<close>

record eth =
  emac :: eth_mac
  DMABMR :: u32
  DMARDLAR :: u32
  DMATDLAR :: u32
  DMASR :: u32
  DMAOMR :: u32
  DMAIER :: u32
  EInit :: ETH_InitTypeDef
  RxDesc :: u32
  TxDesc :: u32
  RxFrameInfos :: ETH_DMARxFrameInfos
  EState :: HAL_ETH_StateTypeDef
  ELock :: HAL_LockTypeDef
  descs :: "u32 \<Rightarrow> ETH_DMADescTypeDef"
  ebuf :: memory
  tx_at :: u32
  rx_at :: u32
  tx_suspended :: bool
  rx_suspended :: bool
  tx_part :: "u8 list"
  wire :: "u8 list list"
  eth_polls :: nat

section \<open>Registers with side effects\<close>

text \<open>A bit of \<open>DMASR\<close> is cleared by writing 1.\<close>

definition write_DMASR :: "u32 \<Rightarrow> 'a eth_scheme \<Rightarrow> 'a eth_scheme" where
  "write_DMASR v s = s\<lparr>DMASR := DMASR s AND NOT v\<rparr>"

text \<open>Writing any value to the poll demand registers makes a suspended DMA look at its descriptor again.\<close>

definition write_DMATPDR :: "'a eth_scheme \<Rightarrow> 'a eth_scheme" where
  "write_DMATPDR s = s\<lparr>tx_suspended := False\<rparr>"

definition write_DMARPDR :: "'a eth_scheme \<Rightarrow> 'a eth_scheme" where
  "write_DMARPDR s = s\<lparr>rx_suspended := False\<rparr>"

text \<open>The address of a list is where the stopped DMA begins when it is started.\<close>

definition write_DMATDLAR :: "u32 \<Rightarrow> 'a eth_scheme \<Rightarrow> 'a eth_scheme" where
  "write_DMATDLAR v s = s\<lparr>DMATDLAR := v, tx_at := v\<rparr>"

definition write_DMARDLAR :: "u32 \<Rightarrow> 'a eth_scheme \<Rightarrow> 'a eth_scheme" where
  "write_DMARDLAR v s = s\<lparr>DMARDLAR := v, rx_at := v\<rparr>"

text \<open>The bit that flushes the transmit FIFO clears itself.\<close>

definition write_DMAOMR :: "u32 \<Rightarrow> 'a eth_scheme \<Rightarrow> 'a eth_scheme" where
  "write_DMAOMR v s = s\<lparr>DMAOMR := v AND NOT ETH_DMAOMR_FTF\<rparr>"

definition HAL_ETH_DMA_ENABLE_IT :: "u32 \<Rightarrow> 'a eth_scheme \<Rightarrow> 'a eth_scheme" where
  "HAL_ETH_DMA_ENABLE_IT it s = s\<lparr>DMAIER := DMAIER s OR it\<rparr>"

definition HAL_ETH_DMA_CLEAR_IT :: "u32 \<Rightarrow> 'a eth_scheme \<Rightarrow> 'a eth_scheme" where
  "HAL_ETH_DMA_CLEAR_IT it s = write_DMASR it s"

definition HAL_ETH_DMA_GET_FLAG :: "u32 \<Rightarrow> 'a eth_scheme \<Rightarrow> bool" where
  "HAL_ETH_DMA_GET_FLAG flag s \<longleftrightarrow> DMASR s AND flag = flag"

definition upd_mac :: "(eth_mac \<Rightarrow> eth_mac) \<Rightarrow> 'a eth_scheme \<Rightarrow> 'a eth_scheme" where
  "upd_mac f s = s\<lparr>emac := f (emac s)\<rparr>"

definition upd_desc :: "u32 \<Rightarrow> (ETH_DMADescTypeDef \<Rightarrow> ETH_DMADescTypeDef) \<Rightarrow> 'a eth_scheme \<Rightarrow> 'a eth_scheme" where
  "upd_desc a f s = s\<lparr>descs := (descs s)(a := f (descs s a))\<rparr>"

definition upd_info :: "(ETH_DMARxFrameInfos \<Rightarrow> ETH_DMARxFrameInfos) \<Rightarrow> 'a eth_scheme \<Rightarrow> 'a eth_scheme" where
  "upd_info f s = s\<lparr>RxFrameInfos := f (RxFrameInfos s)\<rparr>"

section \<open>The lists of descriptors\<close>

text \<open>A descriptor has 32 bytes. \<open>n\<close> rounds from \<open>i\<close> on.\<close>

fun tx_desc_loop :: "nat \<Rightarrow> u32 \<Rightarrow> u32 \<Rightarrow> u32 \<Rightarrow> u32 \<Rightarrow> 'a eth_scheme \<Rightarrow> 'a eth_scheme" where
  "tx_desc_loop 0 i DMATxDescTab TxBuff TxBuffCount s = s"
| "tx_desc_loop (Suc n) i DMATxDescTab TxBuff TxBuffCount s =
     (let dmatxdesc = DMATxDescTab + 32 * i;
          s = upd_desc dmatxdesc (\<lambda>d. d\<lparr>Status := ETH_DMATXDESC_TCH\<rparr>) s;
          s = upd_desc dmatxdesc (\<lambda>d. d\<lparr>Buffer1Addr := TxBuff + i * ETH_TX_BUF_SIZE\<rparr>) s;
          s = (if ChecksumMode (EInit s) = ETH_CHECKSUM_BY_HARDWARE
               then upd_desc dmatxdesc (\<lambda>d. d\<lparr>Status := Status d OR ETH_DMATXDESC_CHECKSUMTCPUDPICMPFULL\<rparr>) s else s);
          s = upd_desc dmatxdesc (\<lambda>d. d\<lparr>Buffer2NextDescAddr :=
                if i < TxBuffCount - 1 then DMATxDescTab + 32 * (i + 1) else DMATxDescTab\<rparr>) s
      in tx_desc_loop n (i + 1) DMATxDescTab TxBuff TxBuffCount s)"

definition HAL_ETH_DMATxDescListInit :: "u32 \<Rightarrow> u32 \<Rightarrow> u32 \<Rightarrow> 'a eth_scheme \<Rightarrow> HAL_StatusTypeDef \<times> 'a eth_scheme" where
  "HAL_ETH_DMATxDescListInit DMATxDescTab TxBuff TxBuffCount s =
     (if ELock s = HAL_LOCKED then (HAL_BUSY, s)
      else
        (let s = s\<lparr>ELock := HAL_LOCKED\<rparr>;
             s = s\<lparr>EState := HAL_ETH_STATE_BUSY\<rparr>;
             s = s\<lparr>TxDesc := DMATxDescTab\<rparr>;
             s = tx_desc_loop (unat TxBuffCount) 0 DMATxDescTab TxBuff TxBuffCount s;
             s = write_DMATDLAR DMATxDescTab s;
             s = s\<lparr>EState := HAL_ETH_STATE_READY\<rparr>;
             s = s\<lparr>ELock := HAL_UNLOCKED\<rparr>
         in (HAL_OK, s)))"

fun rx_desc_loop :: "nat \<Rightarrow> u32 \<Rightarrow> u32 \<Rightarrow> u32 \<Rightarrow> u32 \<Rightarrow> 'a eth_scheme \<Rightarrow> 'a eth_scheme" where
  "rx_desc_loop 0 i DMARxDescTab RxBuff RxBuffCount s = s"
| "rx_desc_loop (Suc n) i DMARxDescTab RxBuff RxBuffCount s =
     (let DMARxDesc = DMARxDescTab + 32 * i;
          s = upd_desc DMARxDesc (\<lambda>d. d\<lparr>Status := ETH_DMARXDESC_OWN\<rparr>) s;
          s = upd_desc DMARxDesc (\<lambda>d. d\<lparr>ControlBufferSize := ETH_DMARXDESC_RCH OR ETH_RX_BUF_SIZE\<rparr>) s;
          s = upd_desc DMARxDesc (\<lambda>d. d\<lparr>Buffer1Addr := RxBuff + i * ETH_RX_BUF_SIZE\<rparr>) s;
          s = (if RxMode (EInit s) = ETH_RXINTERRUPT_MODE
               then upd_desc DMARxDesc (\<lambda>d. d\<lparr>ControlBufferSize := ControlBufferSize d AND NOT ETH_DMARXDESC_DIC\<rparr>) s else s);
          s = upd_desc DMARxDesc (\<lambda>d. d\<lparr>Buffer2NextDescAddr :=
                if i < RxBuffCount - 1 then DMARxDescTab + 32 * (i + 1) else DMARxDescTab\<rparr>) s
      in rx_desc_loop n (i + 1) DMARxDescTab RxBuff RxBuffCount s)"

definition HAL_ETH_DMARxDescListInit :: "u32 \<Rightarrow> u32 \<Rightarrow> u32 \<Rightarrow> 'a eth_scheme \<Rightarrow> HAL_StatusTypeDef \<times> 'a eth_scheme" where
  "HAL_ETH_DMARxDescListInit DMARxDescTab RxBuff RxBuffCount s =
     (if ELock s = HAL_LOCKED then (HAL_BUSY, s)
      else
        (let s = s\<lparr>ELock := HAL_LOCKED\<rparr>;
             s = s\<lparr>EState := HAL_ETH_STATE_BUSY\<rparr>;
             s = s\<lparr>RxDesc := DMARxDescTab\<rparr>;
             s = rx_desc_loop (unat RxBuffCount) 0 DMARxDescTab RxBuff RxBuffCount s;
             s = write_DMARDLAR DMARxDescTab s;
             s = s\<lparr>EState := HAL_ETH_STATE_READY\<rparr>;
             s = s\<lparr>ELock := HAL_UNLOCKED\<rparr>
         in (HAL_OK, s)))"

section \<open>Transmission\<close>

definition upd_TxDesc :: "(ETH_DMADescTypeDef \<Rightarrow> ETH_DMADescTypeDef) \<Rightarrow> 'a eth_scheme \<Rightarrow> 'a eth_scheme" where
  "upd_TxDesc f s = upd_desc (TxDesc s) f s"

text \<open>The loop over the segments of a frame that needs several buffers: \<open>n\<close> rounds from \<open>i\<close> on.\<close>

fun tx_segments :: "nat \<Rightarrow> u32 \<Rightarrow> u32 \<Rightarrow> u32 \<Rightarrow> 'a eth_scheme \<Rightarrow> 'a eth_scheme" where
  "tx_segments 0 i bufcount FrameLength s = s"
| "tx_segments (Suc n) i bufcount FrameLength s =
     (let s = upd_TxDesc (\<lambda>d. d\<lparr>Status := Status d AND NOT (ETH_DMATXDESC_FS OR ETH_DMATXDESC_LS)\<rparr>) s;
          s = (if i = 0 then upd_TxDesc (\<lambda>d. d\<lparr>Status := Status d OR ETH_DMATXDESC_FS\<rparr>) s else s);
          s = upd_TxDesc (\<lambda>d. d\<lparr>ControlBufferSize := ETH_TX_BUF_SIZE AND ETH_DMATXDESC_TBS1\<rparr>) s;
          s = (if i = bufcount - 1 then
                 (let s = upd_TxDesc (\<lambda>d. d\<lparr>Status := Status d OR ETH_DMATXDESC_LS\<rparr>) s;
                      size = FrameLength - (bufcount - 1) * ETH_TX_BUF_SIZE
                  in upd_TxDesc (\<lambda>d. d\<lparr>ControlBufferSize := size AND ETH_DMATXDESC_TBS1\<rparr>) s)
               else s);
          s = upd_TxDesc (\<lambda>d. d\<lparr>Status := Status d OR ETH_DMATXDESC_OWN\<rparr>) s;
          s = s\<lparr>TxDesc := Buffer2NextDescAddr (descs s (TxDesc s))\<rparr>
      in tx_segments n (i + 1) bufcount FrameLength s)"

definition tx_bufcount :: "u32 \<Rightarrow> u32" where
  "tx_bufcount FrameLength =
     (if FrameLength > ETH_TX_BUF_SIZE then
        (let bufcount = FrameLength div ETH_TX_BUF_SIZE
         in if FrameLength mod ETH_TX_BUF_SIZE \<noteq> 0 then bufcount + 1 else bufcount)
      else 1)"

definition HAL_ETH_TransmitFrame :: "u32 \<Rightarrow> 'a eth_scheme \<Rightarrow> HAL_StatusTypeDef \<times> 'a eth_scheme" where
  "HAL_ETH_TransmitFrame FrameLength s =
     (if ELock s = HAL_LOCKED then (HAL_BUSY, s)
      else
        (let s = s\<lparr>ELock := HAL_LOCKED\<rparr>;
             s = s\<lparr>EState := HAL_ETH_STATE_BUSY\<rparr>
         in if FrameLength = 0 then
              (let s = s\<lparr>EState := HAL_ETH_STATE_READY\<rparr>
               in (HAL_ERROR, s\<lparr>ELock := HAL_UNLOCKED\<rparr>))
            else if Status (descs s (TxDesc s)) AND ETH_DMATXDESC_OWN \<noteq> 0 then
              (let s = s\<lparr>EState := HAL_ETH_STATE_BUSY_TX\<rparr>
               in (HAL_ERROR, s\<lparr>ELock := HAL_UNLOCKED\<rparr>))
            else
              (let bufcount = tx_bufcount FrameLength;
                   s = (if bufcount = 1 then
                          (let s = upd_TxDesc (\<lambda>d. d\<lparr>Status := Status d OR (ETH_DMATXDESC_FS OR ETH_DMATXDESC_LS)\<rparr>) s;
                               s = upd_TxDesc (\<lambda>d. d\<lparr>ControlBufferSize := FrameLength AND ETH_DMATXDESC_TBS1\<rparr>) s;
                               s = upd_TxDesc (\<lambda>d. d\<lparr>Status := Status d OR ETH_DMATXDESC_OWN\<rparr>) s
                           in s\<lparr>TxDesc := Buffer2NextDescAddr (descs s (TxDesc s))\<rparr>)
                        else tx_segments (unat bufcount) 0 bufcount FrameLength s);
                   s = (if DMASR s AND ETH_DMASR_TBUS \<noteq> 0 then write_DMATPDR (write_DMASR ETH_DMASR_TBUS s) else s);
                   s = s\<lparr>EState := HAL_ETH_STATE_READY\<rparr>
               in (HAL_OK, s\<lparr>ELock := HAL_UNLOCKED\<rparr>))))"

section \<open>Reception\<close>

definition next_RxDesc :: "'a eth_scheme \<Rightarrow> 'a eth_scheme" where
  "next_RxDesc s = s\<lparr>RxDesc := Buffer2NextDescAddr (descs s (RxDesc s))\<rparr>"

text \<open>The frame length without the checksum of four bytes.\<close>

definition rx_frame_length :: "ETH_DMADescTypeDef \<Rightarrow> u32" where
  "rx_frame_length d = drop_bit 16 (Status d AND ETH_DMARXDESC_FL) - 4"

text \<open>The last segment of a frame.\<close>

definition rx_last_segment :: "'a eth_scheme \<Rightarrow> 'a eth_scheme" where
  "rx_last_segment s =
     (let s = upd_info (\<lambda>i. i\<lparr>SegCount := SegCount i + 1\<rparr>) s;
          s = (if SegCount (RxFrameInfos s) = 1 then upd_info (\<lambda>i. i\<lparr>FSRxDesc := RxDesc s\<rparr>) s else s);
          s = upd_info (\<lambda>i. i\<lparr>LSRxDesc := RxDesc s\<rparr>) s;
          s = upd_info (\<lambda>i. i\<lparr>frame_length := rx_frame_length (descs s (RxDesc s))\<rparr>) s;
          s = upd_info (\<lambda>i. i\<lparr>frame_buffer := Buffer1Addr (descs s (FSRxDesc i))\<rparr>) s;
          s = next_RxDesc s;
          s = s\<lparr>EState := HAL_ETH_STATE_READY\<rparr>
      in s\<lparr>ELock := HAL_UNLOCKED\<rparr>)"

definition HAL_ETH_GetReceivedFrame :: "'a eth_scheme \<Rightarrow> HAL_StatusTypeDef \<times> 'a eth_scheme" where
  "HAL_ETH_GetReceivedFrame s =
     (if ELock s = HAL_LOCKED then (HAL_BUSY, s)
      else
        (let s = s\<lparr>ELock := HAL_LOCKED\<rparr>;
             s = s\<lparr>EState := HAL_ETH_STATE_BUSY\<rparr>;
             d = descs s (RxDesc s)
         in if Status d AND ETH_DMARXDESC_OWN = 0 \<and> Status d AND ETH_DMARXDESC_LS \<noteq> 0 then (HAL_OK, rx_last_segment s)
            else
              (let s = (if Status d AND ETH_DMARXDESC_OWN = 0 then
                          (if Status d AND ETH_DMARXDESC_FS \<noteq> 0 then
                             (let s = upd_info (\<lambda>i. i\<lparr>FSRxDesc := RxDesc s\<rparr>) s;
                                  s = upd_info (\<lambda>i. i\<lparr>LSRxDesc := 0\<rparr>) s;
                                  s = upd_info (\<lambda>i. i\<lparr>SegCount := 1\<rparr>) s
                              in next_RxDesc s)
                           else next_RxDesc (upd_info (\<lambda>i. i\<lparr>SegCount := SegCount i + 1\<rparr>) s))
                        else s);
                   s = s\<lparr>EState := HAL_ETH_STATE_READY\<rparr>
               in (HAL_ERROR, s\<lparr>ELock := HAL_UNLOCKED\<rparr>))))"

text \<open>The scan of \<open>HAL_ETH_GetReceivedFrame_IT\<close>, at most \<open>n\<close> more descriptors: whether a frame is complete.\<close>

fun rx_scan :: "nat \<Rightarrow> 'a eth_scheme \<Rightarrow> bool \<times> 'a eth_scheme" where
  "rx_scan 0 s = (False, s)"
| "rx_scan (Suc n) s =
     (let d = descs s (RxDesc s)
      in if Status d AND ETH_DMARXDESC_OWN = 0 then
           (if Status d AND (ETH_DMARXDESC_FS OR ETH_DMARXDESC_LS) = ETH_DMARXDESC_FS then
              (let s = upd_info (\<lambda>i. i\<lparr>FSRxDesc := RxDesc s\<rparr>) s;
                   s = upd_info (\<lambda>i. i\<lparr>SegCount := 1\<rparr>) s
               in rx_scan n (next_RxDesc s))
            else if Status d AND (ETH_DMARXDESC_LS OR ETH_DMARXDESC_FS) = 0 then
              rx_scan n (next_RxDesc (upd_info (\<lambda>i. i\<lparr>SegCount := SegCount i + 1\<rparr>) s))
            else
              (let s = upd_info (\<lambda>i. i\<lparr>LSRxDesc := RxDesc s\<rparr>) s;
                   s = upd_info (\<lambda>i. i\<lparr>SegCount := SegCount i + 1\<rparr>) s;
                   s = (if SegCount (RxFrameInfos s) = 1 then upd_info (\<lambda>i. i\<lparr>FSRxDesc := RxDesc s\<rparr>) s else s);
                   s = upd_info (\<lambda>i. i\<lparr>frame_length := rx_frame_length (descs s (RxDesc s))\<rparr>) s;
                   s = upd_info (\<lambda>i. i\<lparr>frame_buffer := Buffer1Addr (descs s (FSRxDesc i))\<rparr>) s
               in (True, next_RxDesc s)))
         else (False, s))"

definition HAL_ETH_GetReceivedFrame_IT :: "'a eth_scheme \<Rightarrow> HAL_StatusTypeDef \<times> 'a eth_scheme" where
  "HAL_ETH_GetReceivedFrame_IT s =
     (if ELock s = HAL_LOCKED then (HAL_BUSY, s)
      else
        (let s = s\<lparr>ELock := HAL_LOCKED\<rparr>;
             s = s\<lparr>EState := HAL_ETH_STATE_BUSY\<rparr>
         in case rx_scan ETH_RXBUFNB s of
              (found, s) \<Rightarrow>
                (let s = s\<lparr>EState := HAL_ETH_STATE_READY\<rparr>
                 in (if found then HAL_OK else HAL_ERROR, s\<lparr>ELock := HAL_UNLOCKED\<rparr>))))"

section \<open>The interrupt handler\<close>

text \<open>The user's callbacks; the weak ones do nothing.\<close>

record 'a eth_user =
  HAL_ETH_TxCpltCallback :: "'a eth_scheme \<Rightarrow> 'a eth_scheme"
  HAL_ETH_RxCpltCallback :: "'a eth_scheme \<Rightarrow> 'a eth_scheme"
  HAL_ETH_ErrorCallback :: "'a eth_scheme \<Rightarrow> 'a eth_scheme"

definition weak_eth_callbacks :: "'a eth_user" where
  "weak_eth_callbacks = \<lparr>HAL_ETH_TxCpltCallback = (\<lambda>s. s), HAL_ETH_RxCpltCallback = (\<lambda>s. s), HAL_ETH_ErrorCallback = (\<lambda>s. s)\<rparr>"

definition HAL_ETH_IRQHandler :: "'a eth_user \<Rightarrow> 'a eth_scheme \<Rightarrow> 'a eth_scheme" where
  "HAL_ETH_IRQHandler user s =
     (let s = (if HAL_ETH_DMA_GET_FLAG ETH_DMA_FLAG_R s then
                 (let s = HAL_ETH_RxCpltCallback user s;
                      s = HAL_ETH_DMA_CLEAR_IT ETH_DMA_IT_R s;
                      s = s\<lparr>EState := HAL_ETH_STATE_READY\<rparr>
                  in s\<lparr>ELock := HAL_UNLOCKED\<rparr>)
               else if HAL_ETH_DMA_GET_FLAG ETH_DMA_FLAG_T s then
                 (let s = HAL_ETH_TxCpltCallback user s;
                      s = HAL_ETH_DMA_CLEAR_IT ETH_DMA_IT_T s;
                      s = s\<lparr>EState := HAL_ETH_STATE_READY\<rparr>
                  in s\<lparr>ELock := HAL_UNLOCKED\<rparr>)
               else s);
          s = HAL_ETH_DMA_CLEAR_IT ETH_DMA_IT_NIS s
      in if HAL_ETH_DMA_GET_FLAG ETH_DMA_FLAG_AIS s then
           (let s = HAL_ETH_ErrorCallback user s;
                s = HAL_ETH_DMA_CLEAR_IT ETH_DMA_FLAG_AIS s;
                s = s\<lparr>EState := HAL_ETH_STATE_READY\<rparr>
            in s\<lparr>ELock := HAL_UNLOCKED\<rparr>)
         else s)"

end
