(* ===== verification/HalEthInit.thy ===== *)
theory HalEthInit
  imports HalEth
begin

text \<open>
  The rest of stm32f4xx_hal_eth.c: the registers of the transceiver, the configuration of MAC and DMA, initialisation, start and stop.
\<close>

section \<open>Time\<close>

text \<open>
  Before the tick is read for the \<open>k\<close>-th time, hardware and interrupts do \<open>e_hw k\<close>; the value read is \<open>e_tick k\<close>.
\<close>

record 'a eth_env =
  e_hw :: "nat \<Rightarrow> 'a eth_scheme \<Rightarrow> 'a eth_scheme"
  e_tick :: "nat \<Rightarrow> u32"

definition read_tick :: "'a eth_env \<Rightarrow> 'a eth_scheme \<Rightarrow> u32 \<times> 'a eth_scheme" where
  "read_tick env s =
     (let k = eth_polls s; s = e_hw env k s
      in (e_tick env k, s\<lparr>eth_polls := Suc k\<rparr>))"

fun delay_loop :: "'a eth_env \<Rightarrow> nat \<Rightarrow> u32 \<Rightarrow> u32 \<Rightarrow> 'a eth_scheme \<Rightarrow> 'a eth_scheme option" where
  "delay_loop env 0 start wait s = None"
| "delay_loop env (Suc fuel) start wait s =
     (case read_tick env s of (now, s) \<Rightarrow>
        if now - start < wait then delay_loop env fuel start wait s else Some s)"

definition HAL_Delay :: "'a eth_env \<Rightarrow> nat \<Rightarrow> u32 \<Rightarrow> 'a eth_scheme \<Rightarrow> 'a eth_scheme option" where
  "HAL_Delay env fuel Delay s =
     (case read_tick env s of (start, s) \<Rightarrow>
        delay_loop env fuel start (if Delay < 0xFFFFFFFF then Delay + 1 else Delay) s)"

text \<open>A register is read, and after a delay written back.\<close>

definition settle :: "'a eth_env \<Rightarrow> nat \<Rightarrow> ('a eth_scheme \<Rightarrow> u32) \<Rightarrow> (u32 \<Rightarrow> 'a eth_scheme \<Rightarrow> 'a eth_scheme)
    \<Rightarrow> 'a eth_scheme \<Rightarrow> 'a eth_scheme option" where
  "settle env fuel get put s = do {
     let tmpreg1 = get s;
     s \<leftarrow> HAL_Delay env fuel ETH_REG_WRITE_DELAY s;
     Some (put tmpreg1 s)
   }"

section \<open>The registers of the transceiver\<close>

text \<open>The wait for the busy bit: whether it took too long.\<close>

fun phy_wait :: "'a eth_env \<Rightarrow> nat \<Rightarrow> u32 \<Rightarrow> u32 \<Rightarrow> u32 \<Rightarrow> 'a eth_scheme \<Rightarrow> (bool \<times> 'a eth_scheme) option" where
  "phy_wait env 0 start timeout tmpreg1 s = None"
| "phy_wait env (Suc fuel) start timeout tmpreg1 s =
     (if tmpreg1 AND ETH_MACMIIAR_MB = ETH_MACMIIAR_MB then
        (case read_tick env s of (now, s) \<Rightarrow>
           if now - start > timeout then Some (True, s)
           else phy_wait env fuel start timeout (MACMIIAR (emac s)) s)
      else Some (False, s))"

definition phy_address :: "u16 \<Rightarrow> 'a eth_scheme \<Rightarrow> u32" where
  "phy_address PHYReg s =
     (let tmpreg1 = MACMIIAR (emac s);
          tmpreg1 = tmpreg1 AND NOT ETH_MACMIIAR_CR_MASK;
          tmpreg1 = tmpreg1 OR (push_bit 11 (ucast (PhyAddress (EInit s))) AND ETH_MACMIIAR_PA)
      in tmpreg1 OR (push_bit 6 (ucast PHYReg) AND ETH_MACMIIAR_MR))"

text \<open>The status, and the value where one is written.\<close>

definition HAL_ETH_ReadPHYRegister :: "'a eth_env \<Rightarrow> nat \<Rightarrow> u16 \<Rightarrow> 'a eth_scheme
    \<Rightarrow> (HAL_StatusTypeDef \<times> u32 option \<times> 'a eth_scheme) option" where
  "HAL_ETH_ReadPHYRegister env fuel PHYReg s =
     (if EState s = HAL_ETH_STATE_BUSY_RD then Some (HAL_BUSY, None, s)
      else do {
        let s = s\<lparr>EState := HAL_ETH_STATE_BUSY_RD\<rparr>;
        let tmpreg1 = phy_address PHYReg s;
        let tmpreg1 = tmpreg1 AND NOT ETH_MACMIIAR_MW;
        let tmpreg1 = tmpreg1 OR ETH_MACMIIAR_MB;
        let s = upd_mac (\<lambda>e. e\<lparr>MACMIIAR := tmpreg1\<rparr>) s;
        let (start, s) = read_tick env s;
        (late, s) \<leftarrow> phy_wait env fuel start PHY_READ_TO tmpreg1 s;
        if late then
          (let s = s\<lparr>EState := HAL_ETH_STATE_READY\<rparr>
           in Some (HAL_TIMEOUT, None, s\<lparr>ELock := HAL_UNLOCKED\<rparr>))
        else
          Some (HAL_OK, Some (ucast (ucast (MACMIIDR (emac s)) :: u16)), s\<lparr>EState := HAL_ETH_STATE_READY\<rparr>)
      })"

definition HAL_ETH_WritePHYRegister :: "'a eth_env \<Rightarrow> nat \<Rightarrow> u16 \<Rightarrow> u32 \<Rightarrow> 'a eth_scheme
    \<Rightarrow> (HAL_StatusTypeDef \<times> 'a eth_scheme) option" where
  "HAL_ETH_WritePHYRegister env fuel PHYReg RegValue s =
     (if EState s = HAL_ETH_STATE_BUSY_WR then Some (HAL_BUSY, s)
      else do {
        let s = s\<lparr>EState := HAL_ETH_STATE_BUSY_WR\<rparr>;
        let tmpreg1 = phy_address PHYReg s;
        let tmpreg1 = tmpreg1 OR ETH_MACMIIAR_MW;
        let tmpreg1 = tmpreg1 OR ETH_MACMIIAR_MB;
        let s = upd_mac (\<lambda>e. e\<lparr>MACMIIDR := ucast (ucast RegValue :: u16)\<rparr>) s;
        let s = upd_mac (\<lambda>e. e\<lparr>MACMIIAR := tmpreg1\<rparr>) s;
        let (start, s) = read_tick env s;
        (late, s) \<leftarrow> phy_wait env fuel start PHY_WRITE_TO tmpreg1 s;
        if late then
          (let s = s\<lparr>EState := HAL_ETH_STATE_READY\<rparr>
           in Some (HAL_TIMEOUT, s\<lparr>ELock := HAL_UNLOCKED\<rparr>))
        else Some (HAL_OK, s\<lparr>EState := HAL_ETH_STATE_READY\<rparr>)
      })"

section \<open>Configuration\<close>

definition ETH_MACAddressConfig :: "u32 \<Rightarrow> u8 list \<Rightarrow> 'a eth_scheme \<Rightarrow> 'a eth_scheme" where
  "ETH_MACAddressConfig MacAddr Addr s =
     (let tmpreg1 = push_bit 8 (ucast (Addr ! 5)) OR ucast (Addr ! 4);
          s = upd_mac (\<lambda>e. e\<lparr>MACAHR := (MACAHR e)(MacAddr := tmpreg1)\<rparr>) s;
          tmpreg1 = push_bit 24 (ucast (Addr ! 3)) OR push_bit 16 (ucast (Addr ! 2)) OR push_bit 8 (ucast (Addr ! 1)) OR
            ucast (Addr ! 0)
      in upd_mac (\<lambda>e. e\<lparr>MACALR := (MACALR e)(MacAddr := tmpreg1)\<rparr>) s)"

text \<open>The values \<open>macinit\<close> and \<open>dmainit\<close> of \<open>ETH_MACDMAConfig\<close>.\<close>

definition macinit_default :: "ETH_InitTypeDef \<Rightarrow> ETH_MACInitTypeDef" where
  "macinit_default i =
  \<lparr>Watchdog = 0, Jabber = 0, InterFrameGap = 0, CarrierSense = 0, ReceiveOwn = 0, LoopbackMode = 0,
   ChecksumOffload = (if ChecksumMode i = ETH_CHECKSUM_BY_HARDWARE then 0x400 else 0), RetryTransmission = 0x200,
   AutomaticPadCRCStrip = 0, BackOffLimit = 0, DeferralCheck = 0, ReceiveAll = 0, SourceAddrFilter = 0,
   PassControlFrames = 0x40, BroadcastFramesReception = 0, DestinationAddrFilter = 0, PromiscuousMode = 0,
   MulticastFramesFilter = 0, UnicastFramesFilter = 0, HashTableHigh = 0, HashTableLow = 0, PauseTime = 0,
   ZeroQuantaPause = 0x80, PauseLowThreshold = 0, UnicastPauseFrameDetect = 0, ReceiveFlowControl = 0,
   TransmitFlowControl = 0, VLANTagComparison = 0, VLANTagIdentifier = 0\<rparr>"

definition dmainit_default :: ETH_DMAInitTypeDef where
  "dmainit_default =
  \<lparr>DropTCPIPChecksumErrorFrame = 0, ReceiveStoreForward = 0x2000000, FlushReceivedFrame = 0,
   TransmitStoreForward = 0x200000, TransmitThresholdControl = 0, ForwardErrorFrames = 0,
   ForwardUndersizedGoodFrames = 0, ReceiveThresholdControl = 0, SecondFrameOperate = 0x4,
   AddressAlignedBeats = 0x2000000, FixedBurst = 0x10000, RxDMABurstLength = 0x400000, TxDMABurstLength = 0x2000,
   EnhancedDescriptorFormat = 0x80, DescriptorSkipLength = 0, DMAArbitration = 0\<rparr>"

definition put_MACCR :: "u32 \<Rightarrow> 'a eth_scheme \<Rightarrow> 'a eth_scheme" where
  "put_MACCR v s = upd_mac (\<lambda>e. e\<lparr>MACCR := v\<rparr>) s"

definition put_MACFFR :: "u32 \<Rightarrow> 'a eth_scheme \<Rightarrow> 'a eth_scheme" where
  "put_MACFFR v s = upd_mac (\<lambda>e. e\<lparr>MACFFR := v\<rparr>) s"

definition put_MACFCR :: "u32 \<Rightarrow> 'a eth_scheme \<Rightarrow> 'a eth_scheme" where
  "put_MACFCR v s = upd_mac (\<lambda>e. e\<lparr>MACFCR := v\<rparr>) s"

definition put_MACVLANTR :: "u32 \<Rightarrow> 'a eth_scheme \<Rightarrow> 'a eth_scheme" where
  "put_MACVLANTR v s = upd_mac (\<lambda>e. e\<lparr>MACVLANTR := v\<rparr>) s"

definition put_DMABMR :: "u32 \<Rightarrow> 'a eth_scheme \<Rightarrow> 'a eth_scheme" where
  "put_DMABMR v s = s\<lparr>DMABMR := v\<rparr>"

definition ETH_MACDMAConfig :: "'a eth_env \<Rightarrow> nat \<Rightarrow> u32 \<Rightarrow> 'a eth_scheme \<Rightarrow> 'a eth_scheme option" where
  "ETH_MACDMAConfig env fuel err s = do {
     let s = (if err \<noteq> ETH_SUCCESS
              then s\<lparr>EInit := (EInit s)\<lparr>DuplexMode := ETH_MODE_FULLDUPLEX, Speed := ETH_SPEED_100M\<rparr>\<rparr> else s);
     let m = macinit_default (EInit s);
     let tmpreg1 = MACCR (emac s) AND ETH_MACCR_CLEAR_MASK;
     let tmpreg1 = tmpreg1 OR
       (Watchdog m OR Jabber m OR InterFrameGap m OR CarrierSense m OR Speed (EInit s) OR ReceiveOwn m OR LoopbackMode m OR
        DuplexMode (EInit s) OR ChecksumOffload m OR RetryTransmission m OR AutomaticPadCRCStrip m OR BackOffLimit m OR
        DeferralCheck m);
     s \<leftarrow> settle env fuel (\<lambda>s. MACCR (emac s)) put_MACCR (put_MACCR tmpreg1 s);
     let tmpreg1 = ReceiveAll m OR SourceAddrFilter m OR PassControlFrames m OR BroadcastFramesReception m OR
       DestinationAddrFilter m OR PromiscuousMode m OR MulticastFramesFilter m OR UnicastFramesFilter m;
     s \<leftarrow> settle env fuel (\<lambda>s. MACFFR (emac s)) put_MACFFR (put_MACFFR tmpreg1 s);
     let s = upd_mac (\<lambda>e. e\<lparr>MACHTHR := HashTableHigh m\<rparr>) s;
     let s = upd_mac (\<lambda>e. e\<lparr>MACHTLR := HashTableLow m\<rparr>) s;
     let tmpreg1 = MACFCR (emac s) AND ETH_MACFCR_CLEAR_MASK;
     let tmpreg1 = tmpreg1 OR
       (push_bit 16 (PauseTime m) OR ZeroQuantaPause m OR PauseLowThreshold m OR UnicastPauseFrameDetect m OR
        ReceiveFlowControl m OR TransmitFlowControl m);
     s \<leftarrow> settle env fuel (\<lambda>s. MACFCR (emac s)) put_MACFCR (put_MACFCR tmpreg1 s);
     s \<leftarrow> settle env fuel (\<lambda>s. MACVLANTR (emac s)) put_MACVLANTR (put_MACVLANTR (VLANTagComparison m OR VLANTagIdentifier m) s);
     let d = dmainit_default;
     let tmpreg1 = DMAOMR s AND ETH_DMAOMR_CLEAR_MASK;
     let tmpreg1 = tmpreg1 OR
       (DropTCPIPChecksumErrorFrame d OR ReceiveStoreForward d OR FlushReceivedFrame d OR TransmitStoreForward d OR
        TransmitThresholdControl d OR ForwardErrorFrames d OR ForwardUndersizedGoodFrames d OR ReceiveThresholdControl d OR
        SecondFrameOperate d);
     s \<leftarrow> settle env fuel DMAOMR write_DMAOMR (write_DMAOMR tmpreg1 s);
     let tmpreg1 = AddressAlignedBeats d OR FixedBurst d OR RxDMABurstLength d OR TxDMABurstLength d OR
       EnhancedDescriptorFormat d OR push_bit 2 (DescriptorSkipLength d) OR DMAArbitration d OR ETH_DMABMR_USP;
     s \<leftarrow> settle env fuel DMABMR put_DMABMR (put_DMABMR tmpreg1 s);
     let s = (if RxMode (EInit s) = ETH_RXINTERRUPT_MODE then HAL_ETH_DMA_ENABLE_IT (ETH_DMA_IT_NIS OR ETH_DMA_IT_R) s else s);
     Some (ETH_MACAddressConfig ETH_MAC_ADDRESS0 (MACAddr (EInit s)) s)
   }"

definition HAL_ETH_ConfigMAC :: "'a eth_env \<Rightarrow> nat \<Rightarrow> ETH_MACInitTypeDef option \<Rightarrow> 'a eth_scheme
    \<Rightarrow> (HAL_StatusTypeDef \<times> 'a eth_scheme) option" where
  "HAL_ETH_ConfigMAC env fuel macconf s =
     (if ELock s = HAL_LOCKED then Some (HAL_BUSY, s)
      else do {
        let s = s\<lparr>ELock := HAL_LOCKED\<rparr>;
        let s = s\<lparr>EState := HAL_ETH_STATE_BUSY\<rparr>;
        s \<leftarrow> (case macconf of
            Some m \<Rightarrow> do {
              let tmpreg1 = MACCR (emac s) AND ETH_MACCR_CLEAR_MASK;
              let tmpreg1 = tmpreg1 OR
                (Watchdog m OR Jabber m OR InterFrameGap m OR CarrierSense m OR Speed (EInit s) OR ReceiveOwn m OR
                 LoopbackMode m OR DuplexMode (EInit s) OR ChecksumOffload m OR RetryTransmission m OR
                 AutomaticPadCRCStrip m OR BackOffLimit m OR DeferralCheck m);
              s \<leftarrow> settle env fuel (\<lambda>s. MACCR (emac s)) put_MACCR (put_MACCR tmpreg1 s);
              let tmpreg1 = ReceiveAll m OR SourceAddrFilter m OR PassControlFrames m OR BroadcastFramesReception m OR
                DestinationAddrFilter m OR PromiscuousMode m OR MulticastFramesFilter m OR UnicastFramesFilter m;
              s \<leftarrow> settle env fuel (\<lambda>s. MACFFR (emac s)) put_MACFFR (put_MACFFR tmpreg1 s);
              let s = upd_mac (\<lambda>e. e\<lparr>MACHTHR := HashTableHigh m\<rparr>) s;
              let s = upd_mac (\<lambda>e. e\<lparr>MACHTLR := HashTableLow m\<rparr>) s;
              let tmpreg1 = MACFCR (emac s) AND ETH_MACFCR_CLEAR_MASK;
              let tmpreg1 = tmpreg1 OR
                (push_bit 16 (PauseTime m) OR ZeroQuantaPause m OR PauseLowThreshold m OR UnicastPauseFrameDetect m OR
                 ReceiveFlowControl m OR TransmitFlowControl m);
              s \<leftarrow> settle env fuel (\<lambda>s. MACFCR (emac s)) put_MACFCR (put_MACFCR tmpreg1 s);
              settle env fuel (\<lambda>s. MACVLANTR (emac s)) put_MACVLANTR (put_MACVLANTR (VLANTagComparison m OR VLANTagIdentifier m) s)
            }
          | None \<Rightarrow> do {
              let tmpreg1 = MACCR (emac s) AND NOT 0x00004800;
              let tmpreg1 = tmpreg1 OR (Speed (EInit s) OR DuplexMode (EInit s));
              settle env fuel (\<lambda>s. MACCR (emac s)) put_MACCR (put_MACCR tmpreg1 s)
            });
        let s = s\<lparr>EState := HAL_ETH_STATE_READY\<rparr>;
        Some (HAL_OK, s\<lparr>ELock := HAL_UNLOCKED\<rparr>)
      })"

definition HAL_ETH_ConfigDMA :: "'a eth_env \<Rightarrow> nat \<Rightarrow> ETH_DMAInitTypeDef \<Rightarrow> 'a eth_scheme
    \<Rightarrow> (HAL_StatusTypeDef \<times> 'a eth_scheme) option" where
  "HAL_ETH_ConfigDMA env fuel d s =
     (if ELock s = HAL_LOCKED then Some (HAL_BUSY, s)
      else do {
        let s = s\<lparr>ELock := HAL_LOCKED\<rparr>;
        let s = s\<lparr>EState := HAL_ETH_STATE_BUSY\<rparr>;
        let tmpreg1 = DMAOMR s AND ETH_DMAOMR_CLEAR_MASK;
        let tmpreg1 = tmpreg1 OR
          (DropTCPIPChecksumErrorFrame d OR ReceiveStoreForward d OR FlushReceivedFrame d OR TransmitStoreForward d OR
           TransmitThresholdControl d OR ForwardErrorFrames d OR ForwardUndersizedGoodFrames d OR
           ReceiveThresholdControl d OR SecondFrameOperate d);
        s \<leftarrow> settle env fuel DMAOMR write_DMAOMR (write_DMAOMR tmpreg1 s);
        let tmpreg1 = AddressAlignedBeats d OR FixedBurst d OR RxDMABurstLength d OR TxDMABurstLength d OR
          EnhancedDescriptorFormat d OR push_bit 2 (DescriptorSkipLength d) OR DMAArbitration d OR ETH_DMABMR_USP;
        s \<leftarrow> settle env fuel DMABMR put_DMABMR (put_DMABMR tmpreg1 s);
        let s = s\<lparr>EState := HAL_ETH_STATE_READY\<rparr>;
        Some (HAL_OK, s\<lparr>ELock := HAL_UNLOCKED\<rparr>)
      })"

section \<open>Start and stop\<close>

text \<open>\<open>ETH_Delay\<close> counts processor cycles and does nothing.\<close>

definition ETH_MACTransmissionEnable :: "'a eth_scheme \<Rightarrow> 'a eth_scheme" where
  "ETH_MACTransmissionEnable s =
     (let s = upd_mac (\<lambda>e. e\<lparr>MACCR := MACCR e OR ETH_MACCR_TE\<rparr>) s;
          tmpreg1 = MACCR (emac s)
      in upd_mac (\<lambda>e. e\<lparr>MACCR := tmpreg1\<rparr>) s)"

definition ETH_MACTransmissionDisable :: "'a eth_scheme \<Rightarrow> 'a eth_scheme" where
  "ETH_MACTransmissionDisable s =
     (let s = upd_mac (\<lambda>e. e\<lparr>MACCR := MACCR e AND NOT ETH_MACCR_TE\<rparr>) s;
          tmpreg1 = MACCR (emac s)
      in upd_mac (\<lambda>e. e\<lparr>MACCR := tmpreg1\<rparr>) s)"

definition ETH_MACReceptionEnable :: "'a eth_scheme \<Rightarrow> 'a eth_scheme" where
  "ETH_MACReceptionEnable s =
     (let s = upd_mac (\<lambda>e. e\<lparr>MACCR := MACCR e OR ETH_MACCR_RE\<rparr>) s;
          tmpreg1 = MACCR (emac s)
      in upd_mac (\<lambda>e. e\<lparr>MACCR := tmpreg1\<rparr>) s)"

definition ETH_MACReceptionDisable :: "'a eth_scheme \<Rightarrow> 'a eth_scheme" where
  "ETH_MACReceptionDisable s =
     (let s = upd_mac (\<lambda>e. e\<lparr>MACCR := MACCR e AND NOT ETH_MACCR_RE\<rparr>) s;
          tmpreg1 = MACCR (emac s)
      in upd_mac (\<lambda>e. e\<lparr>MACCR := tmpreg1\<rparr>) s)"

definition ETH_DMATransmissionEnable :: "'a eth_scheme \<Rightarrow> 'a eth_scheme" where
  "ETH_DMATransmissionEnable s = write_DMAOMR (DMAOMR s OR ETH_DMAOMR_ST) s"

definition ETH_DMATransmissionDisable :: "'a eth_scheme \<Rightarrow> 'a eth_scheme" where
  "ETH_DMATransmissionDisable s = write_DMAOMR (DMAOMR s AND NOT ETH_DMAOMR_ST) s"

definition ETH_DMAReceptionEnable :: "'a eth_scheme \<Rightarrow> 'a eth_scheme" where
  "ETH_DMAReceptionEnable s = write_DMAOMR (DMAOMR s OR ETH_DMAOMR_SR) s"

definition ETH_DMAReceptionDisable :: "'a eth_scheme \<Rightarrow> 'a eth_scheme" where
  "ETH_DMAReceptionDisable s = write_DMAOMR (DMAOMR s AND NOT ETH_DMAOMR_SR) s"

definition ETH_FlushTransmitFIFO :: "'a eth_scheme \<Rightarrow> 'a eth_scheme" where
  "ETH_FlushTransmitFIFO s =
     (let s = write_DMAOMR (DMAOMR s OR ETH_DMAOMR_FTF) s;
          tmpreg1 = DMAOMR s
      in write_DMAOMR tmpreg1 s)"

definition HAL_ETH_Start :: "'a eth_scheme \<Rightarrow> HAL_StatusTypeDef \<times> 'a eth_scheme" where
  "HAL_ETH_Start s =
     (if ELock s = HAL_LOCKED then (HAL_BUSY, s)
      else
        (let s = s\<lparr>ELock := HAL_LOCKED\<rparr>;
             s = s\<lparr>EState := HAL_ETH_STATE_BUSY\<rparr>;
             s = ETH_MACTransmissionEnable s;
             s = ETH_MACReceptionEnable s;
             s = ETH_FlushTransmitFIFO s;
             s = ETH_DMATransmissionEnable s;
             s = ETH_DMAReceptionEnable s;
             s = s\<lparr>EState := HAL_ETH_STATE_READY\<rparr>
         in (HAL_OK, s\<lparr>ELock := HAL_UNLOCKED\<rparr>)))"

definition HAL_ETH_Stop :: "'a eth_scheme \<Rightarrow> HAL_StatusTypeDef \<times> 'a eth_scheme" where
  "HAL_ETH_Stop s =
     (if ELock s = HAL_LOCKED then (HAL_BUSY, s)
      else
        (let s = s\<lparr>ELock := HAL_LOCKED\<rparr>;
             s = s\<lparr>EState := HAL_ETH_STATE_BUSY\<rparr>;
             s = ETH_DMATransmissionDisable s;
             s = ETH_DMAReceptionDisable s;
             s = ETH_MACReceptionDisable s;
             s = ETH_FlushTransmitFIFO s;
             s = ETH_MACTransmissionDisable s;
             s = s\<lparr>EState := HAL_ETH_STATE_READY\<rparr>
         in (HAL_OK, s\<lparr>ELock := HAL_UNLOCKED\<rparr>)))"

definition HAL_ETH_GetState :: "'a eth_scheme \<Rightarrow> HAL_ETH_StateTypeDef" where
  "HAL_ETH_GetState s = EState s"

section \<open>Initialisation\<close>

definition HAL_ETH_DeInit :: "('a eth_scheme \<Rightarrow> 'a eth_scheme) \<Rightarrow> 'a eth_scheme \<Rightarrow> HAL_StatusTypeDef \<times> 'a eth_scheme" where
  "HAL_ETH_DeInit msp_deinit s =
     (let s = s\<lparr>EState := HAL_ETH_STATE_BUSY\<rparr>;
          s = msp_deinit s;
          s = s\<lparr>EState := HAL_ETH_STATE_RESET\<rparr>
      in (HAL_OK, s\<lparr>ELock := HAL_UNLOCKED\<rparr>))"

text \<open>The wait for the end of the software reset: whether it took too long.\<close>

fun reset_wait :: "'a eth_env \<Rightarrow> nat \<Rightarrow> u32 \<Rightarrow> 'a eth_scheme \<Rightarrow> (bool \<times> 'a eth_scheme) option" where
  "reset_wait env 0 start s = None"
| "reset_wait env (Suc fuel) start s =
     (if DMABMR s AND ETH_DMABMR_SR \<noteq> 0 then
        (case read_tick env s of (now, s) \<Rightarrow>
           if now - start > ETH_TIMEOUT_SWRESET then Some (True, s) else reset_wait env fuel start s)
      else Some (False, s))"

text \<open>The clock range of the management interface.\<close>

definition mdc_range :: "u32 \<Rightarrow> u32" where
  "mdc_range hclk =
     (if 20000000 \<le> hclk \<and> hclk < 35000000 then 0x8
      else if 35000000 \<le> hclk \<and> hclk < 60000000 then 0xC
      else if 60000000 \<le> hclk \<and> hclk < 100000000 then 0
      else if 100000000 \<le> hclk \<and> hclk < 150000000 then 0x4
      else 0x10)"

text \<open>The wait for a bit of the basic status register: whether it took too long. A failed reading leaves \<open>phyreg\<close>.\<close>

fun phy_poll :: "'a eth_env \<Rightarrow> nat \<Rightarrow> nat \<Rightarrow> u32 \<Rightarrow> u32 \<Rightarrow> u32 \<Rightarrow> u32 \<Rightarrow> 'a eth_scheme \<Rightarrow> (bool \<times> u32 \<times> 'a eth_scheme) option" where
  "phy_poll env rfuel 0 start timeout msk phyreg s = None"
| "phy_poll env rfuel (Suc fuel) start timeout msk phyreg s = do {
     (_, v, s) \<leftarrow> HAL_ETH_ReadPHYRegister env rfuel PHY_BSR s;
     let phyreg = (case v of None \<Rightarrow> phyreg | Some v \<Rightarrow> v);
     let (now, s) = read_tick env s;
     if now - start > timeout then Some (True, phyreg, s)
     else if phyreg AND msk \<noteq> msk then phy_poll env rfuel fuel start timeout msk phyreg s
     else Some (False, phyreg, s)
   }"

text \<open>The ends with an error; the lock is released after a time-out only.\<close>

definition eth_init_failed :: "'a eth_env \<Rightarrow> nat \<Rightarrow> HAL_StatusTypeDef \<Rightarrow> 'a eth_scheme
    \<Rightarrow> (HAL_StatusTypeDef \<times> 'a eth_scheme) option" where
  "eth_init_failed env fuel st s = do {
     s \<leftarrow> ETH_MACDMAConfig env fuel ETH_ERROR s;
     let s = s\<lparr>EState := HAL_ETH_STATE_READY\<rparr>;
     Some (st, if st = HAL_TIMEOUT then s\<lparr>ELock := HAL_UNLOCKED\<rparr> else s)
   }"

text \<open>The speed and the duplex mode the transceiver has found.\<close>

definition phy_mode :: "u32 \<Rightarrow> ETH_InitTypeDef \<Rightarrow> ETH_InitTypeDef" where
  "phy_mode phyreg i =
     (let i = i\<lparr>DuplexMode := if phyreg AND PHY_DUPLEX_STATUS \<noteq> 0 then ETH_MODE_FULLDUPLEX else ETH_MODE_HALFDUPLEX\<rparr>
      in i\<lparr>Speed := if phyreg AND PHY_SPEED_STATUS = PHY_SPEED_STATUS then ETH_SPEED_10M else ETH_SPEED_100M\<rparr>)"

text \<open>The end of the initialisation.\<close>

definition eth_init_done :: "'a eth_env \<Rightarrow> nat \<Rightarrow> 'a eth_scheme \<Rightarrow> (HAL_StatusTypeDef \<times> 'a eth_scheme) option" where
  "eth_init_done env fuel s = do {
     s \<leftarrow> ETH_MACDMAConfig env fuel ETH_SUCCESS s;
     Some (HAL_OK, s\<lparr>EState := HAL_ETH_STATE_READY\<rparr>)
   }"

definition eth_autonegotiate :: "'a eth_env \<Rightarrow> nat \<Rightarrow> 'a eth_scheme \<Rightarrow> (HAL_StatusTypeDef \<times> 'a eth_scheme) option" where
  "eth_autonegotiate env fuel s = do {
     let (start, s) = read_tick env s;
     (late, phyreg, s) \<leftarrow> phy_poll env fuel fuel start ETH_TIMEOUT_LINKED_STATE PHY_LINKED_STATUS 0 s;
     if late then eth_init_failed env fuel HAL_TIMEOUT s
     else do {
       (st, s) \<leftarrow> HAL_ETH_WritePHYRegister env fuel PHY_BCR PHY_AUTONEGOTIATION s;
       if st \<noteq> HAL_OK then eth_init_failed env fuel HAL_ERROR s
       else do {
         let (start, s) = read_tick env s;
         (late, phyreg, s) \<leftarrow>
           phy_poll env fuel fuel start ETH_TIMEOUT_AUTONEGO_COMPLETED PHY_AUTONEGO_COMPLETE phyreg s;
         if late then eth_init_failed env fuel HAL_TIMEOUT s
         else do {
           (st, v, s) \<leftarrow> HAL_ETH_ReadPHYRegister env fuel PHY_SR s;
           if st \<noteq> HAL_OK then eth_init_failed env fuel HAL_ERROR s
           else (let phyreg = (case v of None \<Rightarrow> phyreg | Some v \<Rightarrow> v)
                 in eth_init_done env fuel (s\<lparr>EInit := phy_mode phyreg (EInit s)\<rparr>))
         }
       }
     }
   }"

definition eth_fixed_mode :: "'a eth_env \<Rightarrow> nat \<Rightarrow> 'a eth_scheme \<Rightarrow> (HAL_StatusTypeDef \<times> 'a eth_scheme) option" where
  "eth_fixed_mode env fuel s = do {
     (st, s) \<leftarrow> HAL_ETH_WritePHYRegister env fuel PHY_BCR
       (ucast ((ucast (drop_bit 3 (DuplexMode (EInit s))) :: u16) OR ucast (drop_bit 1 (Speed (EInit s))))) s;
     if st \<noteq> HAL_OK then eth_init_failed env fuel HAL_ERROR s
     else do {
       s \<leftarrow> HAL_Delay env fuel PHY_CONFIG_DELAY s;
       eth_init_done env fuel s
     }
   }"

definition HAL_ETH_Init :: "'a eth_env \<Rightarrow> nat \<Rightarrow> u32 \<Rightarrow> ('a eth_scheme \<Rightarrow> 'a eth_scheme) \<Rightarrow> 'a eth_scheme
    \<Rightarrow> (HAL_StatusTypeDef \<times> 'a eth_scheme) option" where
  "HAL_ETH_Init env fuel hclk msp s = do {
     let s = (if EState s = HAL_ETH_STATE_RESET then msp (s\<lparr>ELock := HAL_UNLOCKED\<rparr>) else s);
     let s = upd_mac (\<lambda>e. e\<lparr>syscfg_clock := True\<rparr>) s;
     let s = upd_mac (\<lambda>e. e\<lparr>PMC := PMC e AND NOT SYSCFG_PMC_MII_RMII_SEL\<rparr>) s;
     let s = upd_mac (\<lambda>e. e\<lparr>PMC := PMC e OR MediaInterface (EInit s)\<rparr>) s;
     let s = s\<lparr>DMABMR := DMABMR s OR ETH_DMABMR_SR\<rparr>;
     let (start, s) = read_tick env s;
     (late, s) \<leftarrow> reset_wait env fuel start s;
     if late then
       (let s = s\<lparr>EState := HAL_ETH_STATE_TIMEOUT\<rparr>
        in Some (HAL_TIMEOUT, s\<lparr>ELock := HAL_UNLOCKED\<rparr>))
     else do {
       let tmpreg1 = MACMIIAR (emac s) AND ETH_MACMIIAR_CR_MASK;
       let tmpreg1 = tmpreg1 OR mdc_range hclk;
       let s = upd_mac (\<lambda>e. e\<lparr>MACMIIAR := tmpreg1\<rparr>) s;
       (st, s) \<leftarrow> HAL_ETH_WritePHYRegister env fuel PHY_BCR PHY_RESET s;
       if st \<noteq> HAL_OK then eth_init_failed env fuel HAL_ERROR s
       else do {
         s \<leftarrow> HAL_Delay env fuel PHY_RESET_DELAY s;
         if AutoNegotiation (EInit s) \<noteq> ETH_AUTONEGOTIATION_DISABLE then eth_autonegotiate env fuel s
         else eth_fixed_mode env fuel s
       }
     }
   }"

end
