(* ===== verification/EthNet.thy ===== *)
theory EthNet
  imports HalEthInit
begin

text \<open>
  The network interface: netif/ethernetif.c between the lwIP stack and the Ethernet driver, HARDWARE/LAN8720/lan8720.c
  with the transceiver and the interrupt handler, and the steps of the DMA on the rings of descriptors. The lwIP stack is
  a parameter.
\<close>

section \<open>State\<close>

text \<open>
  The \<open>struct netif\<close> fields of this layer, and \<open>given\<close>: the frames passed to \<open>netif->input\<close> so
  far, an observation. What lwIP keeps is the rest of the record.
\<close>

record net = eth +
  hwaddr_len :: u8
  hwaddr :: "u8 list"
  mtu :: u16
  netif_flags :: u8
  netif_name :: string
  given :: "u8 list list"

type_synonym err_t = int

abbreviation ERR_OK :: err_t where "ERR_OK \<equiv> 0"
abbreviation ERR_MEM :: err_t where "ERR_MEM \<equiv> -1"
abbreviation ERR_USE :: err_t where "ERR_USE \<equiv> -8"

abbreviation ETHARP_HWADDR_LEN :: u8 where "ETHARP_HWADDR_LEN \<equiv> 6"
abbreviation NETIF_FLAG_BROADCAST :: u8 where "NETIF_FLAG_BROADCAST \<equiv> 0x02"
abbreviation NETIF_FLAG_LINK_UP :: u8 where "NETIF_FLAG_LINK_UP \<equiv> 0x10"
abbreviation NETIF_FLAG_ETHARP :: u8 where "NETIF_FLAG_ETHARP \<equiv> 0x20"

text \<open>A chain of pbufs is the list of their payloads, each of at most 65535 bytes.\<close>

type_synonym pbuf = "u8 list list"

text \<open>
  What lwIP provides: \<open>pbuf_alloc\<close> of a length, which works on lwIP's own memory and gives the lengths of a
  chain or none, and \<open>netif->input\<close>, which may send frames.
\<close>

record 'a lwip_fns =
  pbuf_alloc :: "u16 \<Rightarrow> 'a \<Rightarrow> u16 list option \<times> 'a"
  netif_input :: "pbuf \<Rightarrow> 'a net_scheme \<Rightarrow> err_t \<times> 'a net_scheme"
  pbuf_free :: "pbuf \<Rightarrow> 'a \<Rightarrow> 'a"

section \<open>Start\<close>

text \<open>\<open>mac\<close> is \<open>lwipdev.mac\<close>; the descriptors and buffers are at the addresses allocated.\<close>

definition low_level_init :: "u8 list \<Rightarrow> u32 \<Rightarrow> u32 \<Rightarrow> u32 \<Rightarrow> u32 \<Rightarrow> 'a net_scheme \<Rightarrow> err_t \<times> 'a net_scheme" where
  "low_level_init mac DMATxDscrTab Tx_Buff DMARxDscrTab Rx_Buff s =
     (let s = s\<lparr>hwaddr_len := ETHARP_HWADDR_LEN\<rparr>;
          s = s\<lparr>hwaddr := [mac ! 0, mac ! 1, mac ! 2, mac ! 3, mac ! 4, mac ! 5]\<rparr>;
          s = s\<lparr>mtu := 1500\<rparr>;
          s = s\<lparr>netif_flags := NETIF_FLAG_BROADCAST OR NETIF_FLAG_ETHARP OR NETIF_FLAG_LINK_UP\<rparr>;
          s = snd (HAL_ETH_DMATxDescListInit DMATxDscrTab Tx_Buff (of_nat ETH_TXBUFNB) s);
          s = snd (HAL_ETH_DMARxDescListInit DMARxDscrTab Rx_Buff (of_nat ETH_RXBUFNB) s);
          s = snd (HAL_ETH_Start s)
      in (ERR_OK, s))"

definition ethernetif_init :: "u8 list \<Rightarrow> u32 \<Rightarrow> u32 \<Rightarrow> u32 \<Rightarrow> u32 \<Rightarrow> 'a net_scheme \<Rightarrow> err_t \<times> 'a net_scheme" where
  "ethernetif_init mac DMATxDscrTab Tx_Buff DMARxDscrTab Rx_Buff s =
     (let s = s\<lparr>netif_name := ''en''\<rparr>;
          s = snd (low_level_init mac DMATxDscrTab Tx_Buff DMARxDscrTab Rx_Buff s)
      in (ERR_OK, s))"

section \<open>Output\<close>

text \<open>\<open>memcpy\<close> of bytes from outside the buffers.\<close>

fun write_bytes :: "memory \<Rightarrow> u32 \<Rightarrow> u8 list \<Rightarrow> memory" where
  "write_bytes m a [] = m"
| "write_bytes m a (b # bs) = write_bytes (m(a := b)) (a + 1) bs"

definition copy_to :: "u32 \<Rightarrow> u8 list \<Rightarrow> 'a eth_scheme \<Rightarrow> 'a eth_scheme" where
  "copy_to a bs s = s\<lparr>ebuf := write_bytes (ebuf s) a bs\<rparr>"

text \<open>
  The variables of the copying loops. \<open>bufferoffset\<close> is at most 1524 and \<open>byteslefttocopy\<close>, the length of the
  bytes of the pbuf still to copy, at most 65535, so that their sum does not wrap.
\<close>

record tx_pos =
  buffer :: u32
  DmaTxDesc :: u32
  framelength :: u32
  bufferoffset :: nat

definition tx_owned :: "u32 \<Rightarrow> 'a eth_scheme \<Rightarrow> bool" where
  "tx_owned d s \<longleftrightarrow> Status (descs s d) AND ETH_DMATXDESC_OWN \<noteq> 0"

text \<open>The inner loop, over the buffers that fill up: \<open>Inl\<close> if the next descriptor is not free.\<close>

function out_while :: "u8 list \<Rightarrow> tx_pos \<Rightarrow> 'a eth_scheme \<Rightarrow> 'a eth_scheme + (u8 list \<times> tx_pos \<times> 'a eth_scheme)" where
  "out_while bs t s =
     (if length bs + bufferoffset t > unat ETH_TX_BUF_SIZE then
        (let room = unat ETH_TX_BUF_SIZE - bufferoffset t;
             s = copy_to (buffer t + of_nat (bufferoffset t)) (take room bs) s;
             t = t\<lparr>DmaTxDesc := Buffer2NextDescAddr (descs s (DmaTxDesc t))\<rparr>
         in if tx_owned (DmaTxDesc t) s then Inl s
            else
              (let t = t\<lparr>buffer := Buffer1Addr (descs s (DmaTxDesc t))\<rparr>;
                   t = t\<lparr>framelength := framelength t + of_nat room\<rparr>;
                   t = t\<lparr>bufferoffset := 0\<rparr>
               in out_while (drop room bs) t s))
      else Inr (bs, t, s))"
  by pat_completeness auto

termination
  by (relation "measure (\<lambda>(bs, t, s). length bs + bufferoffset t)") auto

text \<open>The loop over the chain.\<close>

fun out_chain :: "pbuf \<Rightarrow> tx_pos \<Rightarrow> 'a eth_scheme \<Rightarrow> 'a eth_scheme + (tx_pos \<times> 'a eth_scheme)" where
  "out_chain [] t s = Inr (t, s)"
| "out_chain (q # qs) t s =
     (if tx_owned (DmaTxDesc t) s then Inl s
      else case out_while q t s of
          Inl s \<Rightarrow> Inl s
        | Inr (bs, t, s) \<Rightarrow>
            (let s = copy_to (buffer t + of_nat (bufferoffset t)) bs s;
                 t = t\<lparr>bufferoffset := bufferoffset t + length bs\<rparr>;
                 t = t\<lparr>framelength := framelength t + of_nat (length bs)\<rparr>
             in out_chain qs t s))"

text \<open>The code at the label \<open>error\<close>, which is run in any case.\<close>

definition tx_underflow :: "'a eth_scheme \<Rightarrow> 'a eth_scheme" where
  "tx_underflow s =
     (if DMASR s AND ETH_DMASR_TUS \<noteq> 0 then write_DMATPDR (write_DMASR ETH_DMASR_TUS s) else s)"

definition low_level_output :: "pbuf \<Rightarrow> 'a eth_scheme \<Rightarrow> err_t \<times> 'a eth_scheme" where
  "low_level_output p s =
     (case out_chain p \<lparr>buffer = Buffer1Addr (descs s (TxDesc s)), DmaTxDesc = TxDesc s, framelength = 0, bufferoffset = 0\<rparr> s of
        Inl s \<Rightarrow> (ERR_USE, tx_underflow s)
      | Inr (t, s) \<Rightarrow>
          (let s = snd (HAL_ETH_TransmitFrame (framelength t) s)
           in (ERR_OK, tx_underflow s)))"

section \<open>Input\<close>

record rx_pos =
  rbuffer :: u32
  dmarxdesc :: u32
  roffset :: nat

text \<open>The inner loop: the bytes copied to the payload and the number of bytes left.\<close>

function in_while :: "nat \<Rightarrow> rx_pos \<Rightarrow> u8 list \<Rightarrow> 'a eth_scheme \<Rightarrow> nat \<times> rx_pos \<times> u8 list" where
  "in_while byteslefttocopy r payload s =
     (if byteslefttocopy + roffset r > unat ETH_RX_BUF_SIZE then
        (let room = unat ETH_RX_BUF_SIZE - roffset r;
             payload = payload @ read_bytes (ebuf s) (rbuffer r + of_nat (roffset r)) room;
             r = r\<lparr>dmarxdesc := Buffer2NextDescAddr (descs s (dmarxdesc r))\<rparr>;
             r = r\<lparr>rbuffer := Buffer1Addr (descs s (dmarxdesc r))\<rparr>;
             r = r\<lparr>roffset := 0\<rparr>
         in in_while (byteslefttocopy - room) r payload s)
      else (byteslefttocopy, r, payload))"
  by pat_completeness auto

termination
  by (relation "measure (\<lambda>(n, r, p, s). n + roffset r)") auto

text \<open>The loop over the chain, whose pbufs have the lengths \<open>ns\<close>.\<close>

fun in_chain :: "u16 list \<Rightarrow> rx_pos \<Rightarrow> 'a eth_scheme \<Rightarrow> pbuf" where
  "in_chain [] r s = []"
| "in_chain (n # ns) r s =
     (case in_while (unat n) r [] s of
        (left, r, payload) \<Rightarrow>
          (let payload = payload @ read_bytes (ebuf s) (rbuffer r + of_nat (roffset r)) left;
               r = r\<lparr>roffset := roffset r + left\<rparr>
           in payload # in_chain ns r s))"

text \<open>The descriptors go back to the DMA: \<open>n\<close> of them from \<open>d\<close> on.\<close>

fun release :: "nat \<Rightarrow> u32 \<Rightarrow> 'a eth_scheme \<Rightarrow> 'a eth_scheme" where
  "release 0 d s = s"
| "release (Suc n) d s =
     (let s = upd_desc d (\<lambda>x. x\<lparr>Status := Status x OR ETH_DMARXDESC_OWN\<rparr>) s
      in release n (Buffer2NextDescAddr (descs s d)) s)"

definition low_level_input :: "'a lwip_fns \<Rightarrow> 'a net_scheme \<Rightarrow> pbuf option \<times> 'a net_scheme" where
  "low_level_input fns s =
     (case HAL_ETH_GetReceivedFrame s of (st, s) \<Rightarrow>
        if st \<noteq> HAL_OK then (None, s)
        else
          (let len = ucast (frame_length (RxFrameInfos s)) :: u16;
               (ns, lw) = (if len > 0 then pbuf_alloc fns len (net.more s) else (None, net.more s));
               s = s\<lparr>net.more := lw\<rparr>;
               p = (case ns of
                      None \<Rightarrow> None
                    | Some ns \<Rightarrow> Some (in_chain ns \<lparr>rbuffer = frame_buffer (RxFrameInfos s), dmarxdesc = FSRxDesc (RxFrameInfos s),
                        roffset = 0\<rparr> s));
               s = release (unat (SegCount (RxFrameInfos s))) (FSRxDesc (RxFrameInfos s)) s;
               s = upd_info (\<lambda>i. i\<lparr>SegCount := 0\<rparr>) s;
               s = (if DMASR s AND ETH_DMASR_RBUS \<noteq> 0 then write_DMARPDR (write_DMASR ETH_DMASR_RBUS s) else s)
           in (p, s)))"

definition ethernetif_input :: "'a lwip_fns \<Rightarrow> 'a net_scheme \<Rightarrow> err_t \<times> 'a net_scheme" where
  "ethernetif_input fns s =
     (case low_level_input fns s of
        (None, s) \<Rightarrow> (ERR_MEM, s)
      | (Some p, s) \<Rightarrow>
          (case netif_input fns p (s\<lparr>given := given s @ [concat p]\<rparr>) of (err, s) \<Rightarrow>
             (err, if err \<noteq> ERR_OK then s\<lparr>net.more := pbuf_free fns p (net.more s)\<rparr> else s)))"

text \<open>\<open>lwip_pkt_handle\<close> of lwip_comm.c\<close>

definition lwip_pkt_handle :: "'a lwip_fns \<Rightarrow> 'a net_scheme \<Rightarrow> 'a net_scheme" where
  "lwip_pkt_handle fns s = snd (ethernetif_input fns s)"

section \<open>The transceiver\<close>

abbreviation LAN8720_PHY_ADDRESS :: u16 where "LAN8720_PHY_ADDRESS \<equiv> 0"
abbreviation ETH_AUTONEGOTIATION_ENABLE :: u32 where "ETH_AUTONEGOTIATION_ENABLE \<equiv> 1"
abbreviation ETH_MEDIA_INTERFACE_RMII :: u32 where "ETH_MEDIA_INTERFACE_RMII \<equiv> SYSCFG_PMC_MII_RMII_SEL"

text \<open>
  \<open>hard_reset\<close> is the pulse of 50 ms on the reset pin, with the interrupts off; \<open>msp\<close> is \<open>HAL_ETH_MspInit\<close>. The result is 0 for
  success.
\<close>

definition LAN8720_Init :: "'a eth_env \<Rightarrow> nat \<Rightarrow> u32 \<Rightarrow> ('a eth_scheme \<Rightarrow> 'a eth_scheme) \<Rightarrow> ('a eth_scheme \<Rightarrow> 'a eth_scheme)
    \<Rightarrow> u8 list \<Rightarrow> 'a eth_scheme \<Rightarrow> (u8 \<times> 'a eth_scheme) option" where
  "LAN8720_Init env fuel hclk msp hard_reset mac s = do {
     let s = hard_reset s;
     let macaddress = [mac ! 0, mac ! 1, mac ! 2, mac ! 3, mac ! 4, mac ! 5];
     let s = s\<lparr>EInit := \<lparr>AutoNegotiation = ETH_AUTONEGOTIATION_ENABLE, Speed = ETH_SPEED_100M,
       DuplexMode = ETH_MODE_FULLDUPLEX, PhyAddress = LAN8720_PHY_ADDRESS, MACAddr = macaddress,
       RxMode = ETH_RXINTERRUPT_MODE, ChecksumMode = ETH_CHECKSUM_BY_HARDWARE,
       MediaInterface = ETH_MEDIA_INTERFACE_RMII\<rparr>\<rparr>;
     (st, s) \<leftarrow> HAL_ETH_Init env fuel hclk msp s;
     Some (if st = HAL_OK then 0 else 1, s)
   }"

text \<open>No value is given where the reading fails: the C code returns a variable that has none.\<close>

definition LAN8720_ReadPHY :: "'a eth_env \<Rightarrow> nat \<Rightarrow> u16 \<Rightarrow> 'a eth_scheme \<Rightarrow> (u32 option \<times> 'a eth_scheme) option" where
  "LAN8720_ReadPHY env fuel reg s = do {
     (_, regval, s) \<leftarrow> HAL_ETH_ReadPHYRegister env fuel reg s;
     Some (regval, s)
   }"

text \<open>The function calls the driver's reading, not its writing.\<close>

definition LAN8720_WritePHY :: "'a eth_env \<Rightarrow> nat \<Rightarrow> u16 \<Rightarrow> u16 \<Rightarrow> 'a eth_scheme \<Rightarrow> 'a eth_scheme option" where
  "LAN8720_WritePHY env fuel reg val s = do {
     (_, temp, s) \<leftarrow> HAL_ETH_ReadPHYRegister env fuel reg s;
     Some s
   }"

definition LAN8720_Get_Speed :: "'a eth_env \<Rightarrow> nat \<Rightarrow> 'a eth_scheme \<Rightarrow> (u8 option \<times> 'a eth_scheme) option" where
  "LAN8720_Get_Speed env fuel s = do {
     (v, s) \<leftarrow> LAN8720_ReadPHY env fuel 31 s;
     Some (map_option (\<lambda>v. ucast (drop_bit 2 (v AND 0x1C))) v, s)
   }"

section \<open>The interrupt\<close>

definition ETH_GetRxPktSize :: "u32 \<Rightarrow> 'a eth_scheme \<Rightarrow> u32" where
  "ETH_GetRxPktSize d s =
     (if Status (descs s d) AND ETH_DMARXDESC_OWN = 0 \<and> Status (descs s d) AND ETH_DMARXDESC_ES = 0 \<and>
         Status (descs s d) AND ETH_DMARXDESC_LS \<noteq> 0
      then drop_bit 16 (Status (descs s d) AND ETH_DMARXDESC_FL) else 0)"

text \<open>The loop of the interrupt handler; \<open>None\<close> if it is still running after \<open>fuel\<close> rounds.\<close>

fun irq_loop :: "'a lwip_fns \<Rightarrow> nat \<Rightarrow> 'a net_scheme \<Rightarrow> 'a net_scheme option" where
  "irq_loop fns 0 s = None"
| "irq_loop fns (Suc fuel) s =
     (if ETH_GetRxPktSize (RxDesc s) s \<noteq> 0 then irq_loop fns fuel (lwip_pkt_handle fns s) else Some s)"

definition ETH_IRQHandler :: "'a lwip_fns \<Rightarrow> nat \<Rightarrow> 'a net_scheme \<Rightarrow> 'a net_scheme option" where
  "ETH_IRQHandler fns fuel s =
     (case irq_loop fns fuel s of
        None \<Rightarrow> None
      | Some s \<Rightarrow>
          (let s = HAL_ETH_DMA_CLEAR_IT ETH_DMA_IT_NIS s;
               s = HAL_ETH_DMA_CLEAR_IT ETH_DMA_IT_R s
           in Some s))"

section \<open>The hardware\<close>

text \<open>
  The transmit DMA looks at its descriptor: the bytes of a frame go to the wire with its last segment, and
  the descriptor back to the processor; without a descriptor it is suspended until the next poll demand.
\<close>

definition eth_tx_dma :: "'a eth_scheme \<Rightarrow> 'a eth_scheme" where
  "eth_tx_dma s =
     (if tx_suspended s \<or> DMAOMR s AND ETH_DMAOMR_ST = 0 then s
      else if \<not> tx_owned (tx_at s) s then s\<lparr>DMASR := DMASR s OR ETH_DMASR_TBUS, tx_suspended := True\<rparr>
      else
        (let d = descs s (tx_at s);
             part = (if Status d AND ETH_DMATXDESC_FS \<noteq> 0 then [] else tx_part s) @
               read_bytes (ebuf s) (Buffer1Addr d) (unat (ControlBufferSize d AND ETH_DMATXDESC_TBS1));
             s = upd_desc (tx_at s) (\<lambda>x. x\<lparr>Status := Status x AND NOT ETH_DMATXDESC_OWN\<rparr>) s;
             s = (if Status d AND ETH_DMATXDESC_LS \<noteq> 0 then s\<lparr>wire := wire s @ [part], tx_part := []\<rparr> else s\<lparr>tx_part := part\<rparr>)
         in s\<lparr>tx_at := Buffer2NextDescAddr d\<rparr>))"

text \<open>
  A frame of 64 to 1522 bytes with its checksum arrives; others, and those with an error, the MAC drops
  (\<open>ForwardErrorFrames\<close>, \<open>ForwardUndersizedGoodFrames\<close> are off), so that a frame fits into one buffer. Without a descriptor the frame is lost
  and the DMA suspended.
\<close>

definition frame_ok :: "u8 list \<Rightarrow> bool" where
  "frame_ok f \<longleftrightarrow> 64 \<le> length f \<and> length f \<le> 1522"

definition eth_rx_dma :: "u8 list \<Rightarrow> 'a eth_scheme \<Rightarrow> 'a eth_scheme" where
  "eth_rx_dma f s =
     (if rx_suspended s \<or> DMAOMR s AND ETH_DMAOMR_SR = 0 \<or> \<not> frame_ok f then s
      else
        (let d = descs s (rx_at s)
         in if Status d AND ETH_DMARXDESC_OWN = 0 then s\<lparr>DMASR := DMASR s OR ETH_DMASR_RBUS, rx_suspended := True\<rparr>
            else
              (let s = s\<lparr>ebuf := write_bytes (ebuf s) (Buffer1Addr d) f\<rparr>;
                   s = upd_desc (rx_at s) (\<lambda>x. x\<lparr>Status := push_bit 16 (of_nat (length f)) OR ETH_DMARXDESC_FS OR ETH_DMARXDESC_LS\<rparr>) s;
                   s = s\<lparr>DMASR := DMASR s OR ETH_DMA_IT_R OR ETH_DMA_IT_NIS\<rparr>
               in s\<lparr>rx_at := Buffer2NextDescAddr d\<rparr>)))"

end
