(* ===== verification/EthRing.thy ===== *)
theory EthRing
  imports EthNet
begin

text \<open>
  The rings of descriptors: the layout of descriptors and buffers in memory, the state of either ring as a queue
  of frames, and what the steps of driver and hardware do to it.
\<close>

section \<open>Memory\<close>

lemma write_bytes_at:
  "length bs \<le> 4294967296 \<Longrightarrow>
   write_bytes m a bs x = (if unat (x - a) < length bs then bs ! unat (x - a) else m x)"
proof (induction m a bs rule: write_bytes.induct)
  case (1 m a)
  then show ?case by simp
next
  case (2 m a b bs)
  have ih: "write_bytes (m(a := b)) (a + 1) bs x =
      (if unat (x - (a + 1)) < length bs then bs ! unat (x - (a + 1)) else (m(a := b)) x)"
    using "2.prems" by (intro "2.IH") simp
  show ?case
  proof (cases "x = a")
    case True
    have "a - (a + 1) = - 1"
      by simp
    then have "unat (a - (a + 1)) = 4294967295"
      by (simp add: unsigned_minus_1_eq_mask mask_eq_exp_minus_1)
    then have "\<not> unat (x - (a + 1)) < length bs"
      using "2.prems" True by simp
    then have "write_bytes (m(a := b)) (a + 1) bs x = b"
      using True ih by simp
    with True show ?thesis
      by simp
  next
    case False
    then have n: "x - a \<noteq> 0"
      by simp
    have u: "unat (x - a) = Suc (unat (x - (a + 1)))"
      using n by (simp add: unat_minus_one [of "x - a"] diff_diff_eq [symmetric] unat_gt_0)
    show ?thesis
      using False by (simp add: u ih)
  qed
qed

lemma read_write_bytes:
  assumes "length bs \<le> 4294967295"
  shows "read_bytes (write_bytes m a bs) a (length bs) = bs"
proof (rule nth_equalityI)
  fix i
  assume "i < length (read_bytes (write_bytes m a bs) a (length bs))"
  then have i: "i < length bs"
    by simp
  then have "unat (of_nat i :: u32) = i"
    using assms by (intro unat_small) simp
  with i assms show "read_bytes (write_bytes m a bs) a (length bs) ! i = bs ! i"
    by (simp add: read_bytes_nth write_bytes_at)
qed simp

lemma read_write_apart:
  assumes "length bs \<le> 4294967295" and "\<forall>i < n. \<forall>j < length bs. c + of_nat i \<noteq> a + of_nat j"
  shows "read_bytes (write_bytes m a bs) c n = read_bytes m c n"
proof (rule nth_equalityI)
  fix i
  assume "i < length (read_bytes (write_bytes m a bs) c n)"
  then have i: "i < n"
    by simp
  have "\<not> unat (c + of_nat i - a) < length bs"
  proof
    assume l: "unat (c + of_nat i - a) < length bs"
    have "c + of_nat i = a + of_nat (unat (c + of_nat i - a))"
      by (simp add: algebra_simps)
    with assms(2) i l show False
      by blast
  qed
  with i assms(1) show "read_bytes (write_bytes m a bs) c n ! i = read_bytes m c n ! i"
    by (simp add: read_bytes_nth write_bytes_at)
qed simp

lemma write_bytes_append: "write_bytes m a (bs @ cs) = write_bytes (write_bytes m a bs) (a + of_nat (length bs)) cs"
  by (induction bs arbitrary: m a) (simp_all add: algebra_simps)

section \<open>Layout\<close>

definition ring_desc :: "u32 \<Rightarrow> nat \<Rightarrow> u32" where
  "ring_desc D i = D + 32 * of_nat (i mod 4)"

definition ring_buf :: "u32 \<Rightarrow> nat \<Rightarrow> u32" where
  "ring_buf B i = B + 1524 * of_nat (i mod 4)"

text \<open>Four descriptors at \<open>T\<close> and at \<open>R\<close>, four buffers at \<open>TB\<close> and at \<open>RB\<close>, apart from each other.\<close>

definition eth_layout :: "u32 \<Rightarrow> u32 \<Rightarrow> u32 \<Rightarrow> u32 \<Rightarrow> bool" where
  "eth_layout T TB R RB \<longleftrightarrow>
     unat T + 128 \<le> 2 ^ 32 \<and> unat R + 128 \<le> 2 ^ 32 \<and> unat TB + 6096 \<le> 2 ^ 32 \<and> unat RB + 6096 \<le> 2 ^ 32 \<and>
     (unat T + 128 \<le> unat R \<or> unat R + 128 \<le> unat T) \<and> (unat TB + 6096 \<le> unat RB \<or> unat RB + 6096 \<le> unat TB)"

lemma unat_ring_desc: "unat D + 128 \<le> 2 ^ 32 \<Longrightarrow> unat (ring_desc D i) = unat D + 32 * (i mod 4)"
proof -
  assume a: "unat D + 128 \<le> 2 ^ 32"
  have m: "i mod 4 < 4"
    by simp
  have e: "(32 :: u32) * of_nat (i mod 4) = of_nat (32 * (i mod 4))"
    by simp
  have "unat (of_nat (32 * (i mod 4)) :: u32) = 32 * (i mod 4)"
    using m by (intro unat_small) simp
  then show ?thesis
    unfolding ring_desc_def e using a m by (subst unat_add32) simp_all
qed

lemma unat_ring_buf: "unat B + 6096 \<le> 2 ^ 32 \<Longrightarrow> j < 1524 \<Longrightarrow> unat (ring_buf B i + of_nat j) = unat B + 1524 * (i mod 4) + j"
proof -
  assume a: "unat B + 6096 \<le> 2 ^ 32" and j: "j < 1524"
  have m: "i mod 4 < 4"
    by simp
  have e: "ring_buf B i + of_nat j = B + of_nat (1524 * (i mod 4) + j)"
    by (simp add: ring_buf_def)
  have "unat (of_nat (1524 * (i mod 4) + j) :: u32) = 1524 * (i mod 4) + j"
    using m j by (intro unat_small) simp
  then show ?thesis
    unfolding e using a m j by (subst unat_add32) simp_all
qed

lemma ring_desc_inj:
  assumes "unat D + 128 \<le> 2 ^ 32"
  shows "ring_desc D i = ring_desc D j \<longleftrightarrow> i mod 4 = j mod 4"
proof
  assume "ring_desc D i = ring_desc D j"
  then have "unat D + 32 * (i mod 4) = unat D + 32 * (j mod 4)"
    using unat_ring_desc [OF assms, of i] unat_ring_desc [OF assms, of j] by simp
  then show "i mod 4 = j mod 4"
    by simp
qed (simp add: ring_desc_def)

lemma ring_desc_apart:
  assumes "eth_layout T TB R RB"
  shows "ring_desc T i \<noteq> ring_desc R j"
proof
  assume e: "ring_desc T i = ring_desc R j"
  have "i mod 4 < 4" "j mod 4 < 4"
    by simp_all
  with e assms show False
    using unat_ring_desc [of T i] unat_ring_desc [of R j] by (auto simp: eth_layout_def)
qed

lemma ring_buf_apart:
  assumes "unat B + 6096 \<le> 2 ^ 32" and "i mod 4 \<noteq> j mod 4" and "x < 1524" and "y < 1524"
  shows "ring_buf B i + of_nat x \<noteq> ring_buf B j + of_nat y"
proof
  assume e: "ring_buf B i + of_nat x = ring_buf B j + of_nat y"
  have "1524 * (i mod 4) + x = 1524 * (j mod 4) + y"
    using unat_ring_buf [OF assms(1) assms(3), of i] unat_ring_buf [OF assms(1) assms(4), of j] e by simp
  then have "(1524 * (i mod 4) + x) div 1524 = (1524 * (j mod 4) + y) div 1524"
    by simp
  with assms show False
    by simp
qed

lemma ring_bufs_apart:
  assumes "eth_layout T TB R RB" and "x < 1524" and "y < 1524"
  shows "ring_buf TB i + of_nat x \<noteq> ring_buf RB j + of_nat y"
proof
  assume e: "ring_buf TB i + of_nat x = ring_buf RB j + of_nat y"
  have "i mod 4 < 4" "j mod 4 < 4"
    by simp_all
  moreover have "unat TB + 1524 * (i mod 4) + x = unat RB + 1524 * (j mod 4) + y"
    using unat_ring_buf [of TB x i] unat_ring_buf [of RB y j] assms e by (simp add: eth_layout_def)
  ultimately show False
    using assms by (auto simp: eth_layout_def)
qed

section \<open>Bits of the descriptors\<close>

lemma own_bit: "x AND 0x80000000 = (0 :: u32) \<longleftrightarrow> \<not> bit x 31"
  using and_exp_eq_0_iff_not_bit [of x 31] by simp

lemma es_bit: "x AND 0x8000 = (0 :: u32) \<longleftrightarrow> \<not> bit x 15"
  using and_exp_eq_0_iff_not_bit [of x 15] by simp

lemma ls_bit: "x AND 0x100 = (0 :: u32) \<longleftrightarrow> \<not> bit x 8"
  using and_exp_eq_0_iff_not_bit [of x 8] by simp

lemma tx_ls_bit: "x AND 0x20000000 = (0 :: u32) \<longleftrightarrow> \<not> bit x 29"
  using and_exp_eq_0_iff_not_bit [of x 29] by simp

lemma tx_fs_bit: "x AND 0x10000000 = (0 :: u32) \<longleftrightarrow> \<not> bit x 28"
  using and_exp_eq_0_iff_not_bit [of x 28] by simp

lemma bit2_bit: "x AND 0x4 = (0 :: u32) \<longleftrightarrow> \<not> bit x 2"
  using and_exp_eq_0_iff_not_bit [of x 2] by simp

lemma bit5_bit: "x AND 0x20 = (0 :: u32) \<longleftrightarrow> \<not> bit x 5"
  using and_exp_eq_0_iff_not_bit [of x 5] by simp

lemma bit7_bit: "x AND 0x80 = (0 :: u32) \<longleftrightarrow> \<not> bit x 7"
  using and_exp_eq_0_iff_not_bit [of x 7] by simp

lemma bit13_bit: "x AND 0x2000 = (0 :: u32) \<longleftrightarrow> \<not> bit x 13"
  using and_exp_eq_0_iff_not_bit [of x 13] by simp

lemma bit1_bit: "x AND 0x2 = (0 :: u32) \<longleftrightarrow> \<not> bit x 1"
  using and_exp_eq_0_iff_not_bit [of x 1] by simp

lemmas flag_bits = own_bit es_bit ls_bit tx_ls_bit tx_fs_bit bit2_bit bit5_bit bit7_bit bit13_bit bit1_bit

text \<open>The status the receive DMA writes for a frame of \<open>n\<close> bytes.\<close>

definition rx_status :: "nat \<Rightarrow> u32" where
  "rx_status n = push_bit 16 (of_nat n) OR ETH_DMARXDESC_FS OR ETH_DMARXDESC_LS"

lemma small_bit: "n < 2 ^ k \<Longrightarrow> \<not> bit (n :: nat) k"
  by (simp add: bit_iff_odd)

lemma rx_status_bits:
  "n < 16384 \<Longrightarrow> \<not> bit (rx_status n) 31" "n < 16384 \<Longrightarrow> \<not> bit (rx_status n) 15" "bit (rx_status n) 8"
  by (simp_all add: rx_status_def bit_simps small_bit)

lemma rx_status_length:
  assumes "n < 16384"
  shows "drop_bit 16 (rx_status n AND ETH_DMARXDESC_FL) = of_nat n"
proof (rule bit_word_eqI)
  fix k
  assume "k < LENGTH(32)"
  then have k: "k < 32"
    by simp
  have fl: "bit (ETH_DMARXDESC_FL) (16 + k) \<longleftrightarrow> k < 14"
  proof -
    have e: "ETH_DMARXDESC_FL = push_bit 16 (mask 14)"
      by (simp add: mask_eq_exp_minus_1)
    show ?thesis
      unfolding e using k by (auto simp: bit_push_bit_iff bit_mask_iff)
  qed
  have hi: "14 \<le> k \<Longrightarrow> \<not> bit n k"
  proof -
    assume "14 \<le> k"
    then have "(2 :: nat) ^ 14 \<le> 2 ^ k"
      by (intro power_increasing) simp_all
    with assms show ?thesis
      by (intro small_bit) simp
  qed
  have e: "ETH_DMARXDESC_FS OR ETH_DMARXDESC_LS = take_bit 16 0x300"
    by simp
  have "\<not> bit (ETH_DMARXDESC_FS OR ETH_DMARXDESC_LS) (16 + k)"
    unfolding e bit_take_bit_iff by simp
  moreover have "bit (0x3FFF :: u32) k \<longleftrightarrow> k < 14"
  proof -
    have e: "(0x3FFF :: u32) = mask 14"
      by (simp add: mask_eq_exp_minus_1)
    show ?thesis
      unfolding e by (auto simp: bit_mask_iff)
  qed
  ultimately show "bit (drop_bit 16 (rx_status n AND ETH_DMARXDESC_FL)) k = bit (of_nat n :: u32) k"
    using k fl hi by (auto simp: rx_status_def bit_simps)
qed

section \<open>Output of a frame that fits into one buffer\<close>

declare out_while.simps [simp del] in_while.simps [simp del]

lemma out_while_fits: "length bs + bufferoffset t \<le> 1524 \<Longrightarrow> out_while bs t s = Inr (bs, t, s)"
  by (subst out_while.simps) simp

lemma copy_to_append: "copy_to (a + of_nat (length bs)) cs (copy_to a bs s) = copy_to a (bs @ cs) s"
  by (simp add: copy_to_def write_bytes_append)

lemma tx_owned_copy [simp]: "tx_owned d (copy_to a bs s) = tx_owned d s"
  by (simp add: tx_owned_def copy_to_def)

lemma out_chain_fits:
  "\<not> tx_owned (DmaTxDesc t) s \<Longrightarrow> bufferoffset t + length (concat p) \<le> 1524 \<Longrightarrow>
   out_chain p t s = Inr (t\<lparr>framelength := framelength t + of_nat (length (concat p)),
     bufferoffset := bufferoffset t + length (concat p)\<rparr>,
     copy_to (buffer t + of_nat (bufferoffset t)) (concat p) s)"
proof (induction p arbitrary: t s)
  case Nil
  then show ?case
    by (simp add: copy_to_def)
next
  case (Cons q p)
  let ?t = "t\<lparr>bufferoffset := bufferoffset t + length q, framelength := framelength t + of_nat (length q)\<rparr>"
  let ?s = "copy_to (buffer t + of_nat (bufferoffset t)) q s"
  have w: "out_while q t s = Inr (q, t, s)"
    using Cons.prems by (intro out_while_fits) simp
  have "out_chain (q # p) t s = out_chain p ?t ?s"
    using Cons.prems by (simp add: w Let_def)
  also have "\<dots> = Inr (?t\<lparr>framelength := framelength ?t + of_nat (length (concat p)),
      bufferoffset := bufferoffset ?t + length (concat p)\<rparr>,
      copy_to (buffer ?t + of_nat (bufferoffset ?t)) (concat p) ?s)"
    using Cons.prems by (intro Cons.IH) simp_all
  also have "copy_to (buffer ?t + of_nat (bufferoffset ?t)) (concat p) ?s =
      copy_to (buffer t + of_nat (bufferoffset t)) (concat (q # p)) s"
    using copy_to_append [of "buffer t + of_nat (bufferoffset t)" q "concat p" s] by (simp add: algebra_simps)
  finally show ?case
    by (simp add: algebra_simps)
qed

lemma out_chain_owned: "tx_owned (DmaTxDesc t) s \<Longrightarrow> p \<noteq> [] \<Longrightarrow> out_chain p t s = Inl s"
  by (cases p) simp_all

definition tx_filled :: "nat \<Rightarrow> ETH_DMADescTypeDef \<Rightarrow> ETH_DMADescTypeDef" where
  "tx_filled n d = d\<lparr>ControlBufferSize := of_nat n AND ETH_DMATXDESC_TBS1,
     Status := Status d OR (ETH_DMATXDESC_FS OR ETH_DMATXDESC_LS) OR ETH_DMATXDESC_OWN\<rparr>"

definition tx_demand :: "'a eth_scheme \<Rightarrow> 'a eth_scheme" where
  "tx_demand s = (if DMASR s AND ETH_DMASR_TBUS \<noteq> 0 then write_DMATPDR (write_DMASR ETH_DMASR_TBUS s) else s)"

lemma transmit_fits:
  assumes "ELock s = HAL_UNLOCKED" "\<not> tx_owned (TxDesc s) s" "1 \<le> n" "n \<le> 1524"
  shows "HAL_ETH_TransmitFrame (of_nat n) s =
    (HAL_OK, (tx_demand (s\<lparr>EState := HAL_ETH_STATE_BUSY, descs := (descs s)(TxDesc s := tx_filled n (descs s (TxDesc s))),
       TxDesc := Buffer2NextDescAddr (descs s (TxDesc s))\<rparr>))\<lparr>EState := HAL_ETH_STATE_READY, ELock := HAL_UNLOCKED\<rparr>)"
proof -
  have u: "unat (of_nat n :: u32) = n"
    using assms by (intro unat_small) simp
  have z: "(of_nat n :: u32) \<noteq> 0"
    using assms u by auto
  have "\<not> ETH_TX_BUF_SIZE < of_nat n"
    using assms u by (simp add: word_less_nat_alt)
  then have b: "tx_bufcount (of_nat n) = 1"
    by (simp add: tx_bufcount_def)
  have o: "Status (descs s (TxDesc s)) AND ETH_DMATXDESC_OWN = 0"
    using assms(2) by (simp add: tx_owned_def)
  show ?thesis
    using assms(1) z o b
    apply (simp add: HAL_ETH_TransmitFrame_def Let_def upd_TxDesc_def upd_desc_def tx_demand_def write_DMATPDR_def write_DMASR_def
      tx_filled_def)
    apply (intro conjI impI eth.equality; simp add: or.assoc)
    done
qed

lemma output_fits:
  assumes "ELock s = HAL_UNLOCKED" "\<not> tx_owned (TxDesc s) s" "1 \<le> length (concat p)" "length (concat p) \<le> 1524"
  shows "low_level_output p s = (ERR_OK, tx_underflow ((tx_demand (s\<lparr>ebuf := write_bytes (ebuf s) (Buffer1Addr (descs s (TxDesc s))) (concat p),
      EState := HAL_ETH_STATE_BUSY,
      descs := (descs s)(TxDesc s := tx_filled (length (concat p)) (descs s (TxDesc s))),
      TxDesc := Buffer2NextDescAddr (descs s (TxDesc s))\<rparr>))\<lparr>EState := HAL_ETH_STATE_READY, ELock := HAL_UNLOCKED\<rparr>))"
proof -
  let ?t = "\<lparr>buffer = Buffer1Addr (descs s (TxDesc s)), DmaTxDesc = TxDesc s, framelength = 0, bufferoffset = 0\<rparr>"
  let ?s = "copy_to (Buffer1Addr (descs s (TxDesc s))) (concat p) s"
  have c: "out_chain p ?t s = Inr (?t\<lparr>framelength := of_nat (length (concat p)), bufferoffset := length (concat p)\<rparr>, ?s)"
    using out_chain_fits [of ?t s p] assms by simp
  have d: "HAL_ETH_TransmitFrame (of_nat (length (concat p))) ?s =
    (HAL_OK, (tx_demand (?s\<lparr>EState := HAL_ETH_STATE_BUSY, descs := (descs ?s)(TxDesc ?s := tx_filled (length (concat p)) (descs ?s (TxDesc ?s))),
       TxDesc := Buffer2NextDescAddr (descs ?s (TxDesc ?s))\<rparr>))\<lparr>EState := HAL_ETH_STATE_READY, ELock := HAL_UNLOCKED\<rparr>)"
    using assms by (intro transmit_fits) (simp_all add: copy_to_def tx_owned_def)
  show ?thesis
    unfolding low_level_output_def c
    by (simp add: d [unfolded copy_to_def] copy_to_def Let_def)
qed

lemma output_owned:
  "tx_owned (TxDesc s) s \<Longrightarrow> p \<noteq> [] \<Longrightarrow> low_level_output p s = (ERR_USE, tx_underflow s)"
  by (simp add: low_level_output_def out_chain_owned)

section \<open>The transmit ring as a queue\<close>

definition ring_links :: "u32 \<Rightarrow> u32 \<Rightarrow> 'a eth_scheme \<Rightarrow> bool" where
  "ring_links D B s \<longleftrightarrow>
     (\<forall>i < 4. Buffer2NextDescAddr (descs s (ring_desc D i)) = ring_desc D (Suc i) \<and> Buffer1Addr (descs s (ring_desc D i)) = ring_buf B i)"

text \<open>The descriptor \<open>i\<close> hands the frame \<open>f\<close> to the DMA.\<close>

definition tx_slot :: "u32 \<Rightarrow> u32 \<Rightarrow> 'a eth_scheme \<Rightarrow> nat \<Rightarrow> u8 list \<Rightarrow> bool" where
  "tx_slot T TB s i f \<longleftrightarrow>
     (let d = descs s (ring_desc T i)
      in bit (Status d) 31 \<and> bit (Status d) 29 \<and> bit (Status d) 28 \<and>
         unat (ControlBufferSize d AND ETH_DMATXDESC_TBS1) = length f \<and> 1 \<le> length f \<and> length f \<le> 1524 \<and>
         read_bytes (ebuf s) (ring_buf TB i) (length f) = f)"

text \<open>The frames \<open>q\<close>, at most four, wait from the descriptor \<open>k\<close> on, where the DMA is; a suspended DMA has none to send.\<close>

definition tx_ring :: "u32 \<Rightarrow> u32 \<Rightarrow> nat \<Rightarrow> u8 list list \<Rightarrow> 'a eth_scheme \<Rightarrow> bool" where
  "tx_ring T TB k q s \<longleftrightarrow>
     ring_links T TB s \<and> length q \<le> 4 \<and> tx_at s = ring_desc T k \<and> TxDesc s = ring_desc T (k + length q) \<and>
     (\<forall>j < length q. tx_slot T TB s (k + j) (q ! j)) \<and>
     (\<forall>j < 4. length q \<le> j \<longrightarrow> \<not> tx_owned (ring_desc T (k + j)) s) \<and>
     bit (DMAOMR s) 13 \<and> (tx_suspended s \<longrightarrow> q = [] \<and> bit (DMASR s) 2)"

text \<open>The transmit side is the same in two states.\<close>

definition tx_same :: "u32 \<Rightarrow> u32 \<Rightarrow> 'a eth_scheme \<Rightarrow> 'a eth_scheme \<Rightarrow> bool" where
  "tx_same T TB s s' \<longleftrightarrow>
     (\<forall>i. descs s' (ring_desc T i) = descs s (ring_desc T i)) \<and>
     (\<forall>i. \<forall>x < 1524. ebuf s' (ring_buf TB i + of_nat x) = ebuf s (ring_buf TB i + of_nat x)) \<and>
     TxDesc s' = TxDesc s \<and> tx_at s' = tx_at s \<and> tx_suspended s' = tx_suspended s \<and> wire s' = wire s \<and>
     bit (DMASR s') 2 = bit (DMASR s) 2 \<and> bit (DMAOMR s') 13 = bit (DMAOMR s) 13"

lemma ring_desc_mod [simp]: "ring_desc D (i mod 4) = ring_desc D i"
  by (simp add: ring_desc_def)

lemma ring_desc_Suc_mod [simp]: "ring_desc D (Suc (i mod 4)) = ring_desc D (Suc i)"
  by (simp add: ring_desc_def mod_Suc_eq)

lemma ring_buf_mod [simp]: "ring_buf B (i mod 4) = ring_buf B i"
  by (simp add: ring_buf_def)

lemma ring_linksD:
  assumes "ring_links D B s"
  shows "Buffer2NextDescAddr (descs s (ring_desc D i)) = ring_desc D (Suc i)"
    and "Buffer1Addr (descs s (ring_desc D i)) = ring_buf B i"
  using assms [unfolded ring_links_def, rule_format, of "i mod 4"] by simp_all

lemma ring_linksI:
  assumes "ring_links D B s"
    and "\<And>i. Buffer2NextDescAddr (descs s' (ring_desc D i)) = Buffer2NextDescAddr (descs s (ring_desc D i))"
    and "\<And>i. Buffer1Addr (descs s' (ring_desc D i)) = Buffer1Addr (descs s (ring_desc D i))"
  shows "ring_links D B s'"
  using ring_linksD [OF assms(1)] by (simp add: ring_links_def assms(2,3))

lemma tx_slot_cong:
  assumes "tx_slot T TB s i f" and "descs s' (ring_desc T i) = descs s (ring_desc T i)"
    and "\<And>x. x < 1524 \<Longrightarrow> ebuf s' (ring_buf TB i + of_nat x) = ebuf s (ring_buf TB i + of_nat x)"
  shows "tx_slot T TB s' i f"
proof -
  have n: "length f \<le> 1524"
    using assms(1) by (simp add: tx_slot_def Let_def)
  have "read_bytes (ebuf s') (ring_buf TB i) (length f) = read_bytes (ebuf s) (ring_buf TB i) (length f)"
    using n by (intro read_bytes_cong assms(3)) simp
  with assms(1,2) show ?thesis
    by (simp add: tx_slot_def Let_def)
qed

lemma tx_ringD:
  assumes "tx_ring T TB k q s"
  shows "ring_links T TB s" and "length q \<le> 4" and "tx_at s = ring_desc T k" and "TxDesc s = ring_desc T (k + length q)"
    and "\<And>j. j < length q \<Longrightarrow> tx_slot T TB s (k + j) (q ! j)"
    and "\<And>j. j < 4 \<Longrightarrow> length q \<le> j \<Longrightarrow> \<not> tx_owned (ring_desc T (k + j)) s"
    and "bit (DMAOMR s) 13" and "tx_suspended s \<Longrightarrow> q = []" and "tx_suspended s \<Longrightarrow> bit (DMASR s) 2"
  using assms by (simp_all add: tx_ring_def)

lemma tx_ring_same:
  assumes "tx_ring T TB k q s" and "tx_same T TB s s'"
  shows "tx_ring T TB k q s'"
proof -
  have d: "descs s' (ring_desc T i) = descs s (ring_desc T i)" for i
    using assms(2) unfolding tx_same_def by blast
  have b: "ebuf s' (ring_buf TB i + of_nat x) = ebuf s (ring_buf TB i + of_nat x)" if "x < 1524" for i x
    using assms(2) that unfolding tx_same_def by blast
  have l: "ring_links T TB s'"
    by (rule ring_linksI [OF tx_ringD(1) [OF assms(1)]]) (simp_all only: d)
  have sl: "tx_slot T TB s' (k + j) (q ! j)" if "j < length q" for j
    using tx_ringD(5) [OF assms(1) that] by (rule tx_slot_cong) (simp_all only: d b)
  have o: "tx_owned (ring_desc T i) s' = tx_owned (ring_desc T i) s" for i
    by (simp add: tx_owned_def d)
  have r: "TxDesc s' = TxDesc s" "tx_at s' = tx_at s" "tx_suspended s' = tx_suspended s"
    "bit (DMASR s') 2 = bit (DMASR s) 2" "bit (DMAOMR s') 13 = bit (DMAOMR s) 13"
    using assms(2) unfolding tx_same_def by blast+
  show ?thesis
    using assms(1) l sl unfolding tx_ring_def o r by simp
qed

lemma tx_same_refl [simp]: "tx_same T TB s s"
  by (simp add: tx_same_def)

lemma tx_same_trans: "tx_same T TB s s' \<Longrightarrow> tx_same T TB s' s'' \<Longrightarrow> tx_same T TB s s''"
  by (simp add: tx_same_def)

text \<open>The next descriptor of the processor is free exactly if fewer than four frames wait.\<close>

lemma tx_ring_next:
  assumes "tx_ring T TB k q s"
  shows "tx_owned (TxDesc s) s \<longleftrightarrow> length q = 4"
proof (cases "length q = 4")
  case True
  have e: "ring_desc T (k + 4) = ring_desc T (k + 0)"
    by (simp add: ring_desc_def)
  have "0 < length q"
    using True by simp
  then have "tx_slot T TB s (k + 0) (q ! 0)"
    using assms unfolding tx_ring_def by blast
  then show ?thesis
    using assms True e by (simp add: tx_ring_def tx_slot_def Let_def tx_owned_def flag_bits)
next
  case False
  then have "length q < 4"
    using assms by (simp add: tx_ring_def)
  then show ?thesis
    using assms False by (auto simp: tx_ring_def)
qed

lemma mod4_other: "j < 4 \<Longrightarrow> m < 4 \<Longrightarrow> (k + j) mod 4 = (k + m) mod 4 \<longleftrightarrow> j = (m :: nat)"
proof -
  assume a: "j < 4" "m < 4"
  have less: "k mod 4 < 4"
    by simp
  have lf: "n < 4 \<Longrightarrow> n = 0 \<or> n = 1 \<or> n = 2 \<or> n = 3" for n :: nat
    by linarith
  have "(k mod 4 + j) mod 4 = (k mod 4 + m) mod 4 \<longleftrightarrow> j = m"
    using lf [OF a(1)] lf [OF a(2)] lf [OF less] by (elim disjE) simp_all
  then show ?thesis
    by (simp only: mod_add_left_eq)
qed

lemma tx_demand_fields [simp]:
  "descs (tx_demand s) = descs s" "ebuf (tx_demand s) = ebuf s" "TxDesc (tx_demand s) = TxDesc s"
  "tx_at (tx_demand s) = tx_at s" "RxDesc (tx_demand s) = RxDesc s" "RxFrameInfos (tx_demand s) = RxFrameInfos s"
  "rx_at (tx_demand s) = rx_at s" "rx_suspended (tx_demand s) = rx_suspended s" "wire (tx_demand s) = wire s"
  "DMAOMR (tx_demand s) = DMAOMR s" "ELock (tx_demand s) = ELock s"
  "tx_suspended (tx_demand s) \<longleftrightarrow> tx_suspended s \<and> \<not> bit (DMASR s) 2"
  "bit (DMASR (tx_demand s)) 7 = bit (DMASR s) 7"
  by (auto simp: tx_demand_def write_DMATPDR_def write_DMASR_def flag_bits bit_simps)

lemma tx_underflow_fields [simp]:
  "descs (tx_underflow s) = descs s" "ebuf (tx_underflow s) = ebuf s" "TxDesc (tx_underflow s) = TxDesc s"
  "tx_at (tx_underflow s) = tx_at s" "RxDesc (tx_underflow s) = RxDesc s" "RxFrameInfos (tx_underflow s) = RxFrameInfos s"
  "rx_at (tx_underflow s) = rx_at s" "rx_suspended (tx_underflow s) = rx_suspended s" "wire (tx_underflow s) = wire s"
  "DMAOMR (tx_underflow s) = DMAOMR s" "ELock (tx_underflow s) = ELock s"
  "tx_suspended (tx_underflow s) \<longleftrightarrow> tx_suspended s \<and> \<not> bit (DMASR s) 5"
  "bit (DMASR (tx_underflow s)) 2 = bit (DMASR s) 2" "bit (DMASR (tx_underflow s)) 7 = bit (DMASR s) 7"
  by (auto simp: tx_underflow_def write_DMATPDR_def write_DMASR_def flag_bits bit_simps)

text \<open>What the output of a frame changes.\<close>

lemma output_effect:
  assumes "ELock s = HAL_UNLOCKED" "\<not> tx_owned (TxDesc s) s" "1 \<le> length (concat p)" "length (concat p) \<le> 1524"
  shows "fst (low_level_output p s) = ERR_OK"
    and "descs (snd (low_level_output p s)) = (descs s)(TxDesc s := tx_filled (length (concat p)) (descs s (TxDesc s)))"
    and "ebuf (snd (low_level_output p s)) = write_bytes (ebuf s) (Buffer1Addr (descs s (TxDesc s))) (concat p)"
    and "TxDesc (snd (low_level_output p s)) = Buffer2NextDescAddr (descs s (TxDesc s))"
    and "tx_at (snd (low_level_output p s)) = tx_at s"
    and "RxDesc (snd (low_level_output p s)) = RxDesc s"
    and "RxFrameInfos (snd (low_level_output p s)) = RxFrameInfos s"
    and "rx_at (snd (low_level_output p s)) = rx_at s"
    and "rx_suspended (snd (low_level_output p s)) = rx_suspended s"
    and "wire (snd (low_level_output p s)) = wire s"
    and "DMAOMR (snd (low_level_output p s)) = DMAOMR s"
    and "ELock (snd (low_level_output p s)) = HAL_UNLOCKED"
    and "tx_suspended (snd (low_level_output p s)) \<Longrightarrow> tx_suspended s \<and> \<not> bit (DMASR s) 2"
    and "bit (DMASR (snd (low_level_output p s))) 7 = bit (DMASR s) 7"
  by (simp_all add: output_fits [OF assms])

lemma tx_filled_fields [simp]:
  "Buffer2NextDescAddr (tx_filled n d) = Buffer2NextDescAddr d" "Buffer1Addr (tx_filled n d) = Buffer1Addr d"
  "bit (Status (tx_filled n d)) 31" "bit (Status (tx_filled n d)) 29" "bit (Status (tx_filled n d)) 28"
  by (simp_all add: tx_filled_def bit_simps)

lemma tx_filled_size:
  assumes "n \<le> 1524"
  shows "unat (ControlBufferSize (tx_filled n d) AND ETH_DMATXDESC_TBS1) = n"
proof -
  have e: "ETH_DMATXDESC_TBS1 = mask 13"
    by (simp add: mask_eq_exp_minus_1)
  have t: "take_bit 13 n = n"
    using assms by (intro take_bit_nat_eq_self) simp
  have u: "unat (of_nat n :: u32) = n"
    using assms by (intro unat_small) simp
  have "unat (of_nat n AND ETH_DMATXDESC_TBS1) = n"
    unfolding e by (simp flip: take_bit_eq_mask add: take_bit_of_nat t u)
  then show ?thesis
    by (simp add: tx_filled_def and.assoc)
qed

lemma tx_ring_send:
  assumes r: "tx_ring T TB k q s" and "unat T + 128 \<le> 2 ^ 32" "unat TB + 6096 \<le> 2 ^ 32" "ELock s = HAL_UNLOCKED"
    and p: "1 \<le> length (concat p)" "length (concat p) \<le> 1524" and l: "length q < 4"
  shows "fst (low_level_output p s) = ERR_OK \<and> tx_ring T TB k (q @ [concat p]) (snd (low_level_output p s))"
proof -
  note rd = tx_ringD [OF r]
  let ?i = "k + length q"
  define s' where "s' = snd (low_level_output p s)"
  have o: "\<not> tx_owned (TxDesc s) s"
    using tx_ring_next [OF r] l by simp
  note e = output_effect [OF assms(4) o p, folded s'_def]
  have link: "Buffer2NextDescAddr (descs s (TxDesc s)) = ring_desc T (Suc ?i)" "Buffer1Addr (descs s (TxDesc s)) = ring_buf TB ?i"
    using ring_linksD [OF rd(1), of ?i] by (simp_all add: rd(4))
  have other: "descs s' (ring_desc T (k + j)) = descs s (ring_desc T (k + j))" if "j < 4" "j \<noteq> length q" for j
    using that l by (simp add: e(2) rd(4) ring_desc_inj [OF assms(2)] mod4_other)
  have slot: "tx_slot T TB s' (k + j) (q ! j)" if j: "j < length q" for j
  proof (rule tx_slot_cong [OF rd(5) [OF j]])
    have jl: "(k + j) mod 4 \<noteq> ?i mod 4"
      using j l by (simp add: mod4_other)
    show "descs s' (ring_desc T (k + j)) = descs s (ring_desc T (k + j))"
      using other [of j] j l by simp
    fix x :: nat
    assume x: "x < 1524"
    have "read_bytes (write_bytes (ebuf s) (ring_buf TB ?i) (concat p)) (ring_buf TB (k + j) + of_nat x) 1 =
        read_bytes (ebuf s) (ring_buf TB (k + j) + of_nat x) 1"
      using p(2) ring_buf_apart [OF assms(3) jl x] by (intro read_write_apart) simp_all
    then show "ebuf s' (ring_buf TB (k + j) + of_nat x) = ebuf s (ring_buf TB (k + j) + of_nat x)"
      by (simp add: e(3) link)
  qed
  have new: "tx_slot T TB s' ?i (concat p)"
    using p read_write_bytes [of "concat p" "ebuf s" "ring_buf TB ?i"] tx_filled_size [OF p(2)]
    by (simp add: tx_slot_def Let_def e(2,3) rd(4) [symmetric] link)
  have slots: "tx_slot T TB s' (k + j) ((q @ [concat p]) ! j)" if "j < length (q @ [concat p])" for j
    using that slot new by (cases "j = length q") (simp_all add: nth_append)
  have free: "\<not> tx_owned (ring_desc T (k + j)) s'" if "j < 4" "length (q @ [concat p]) \<le> j" for j
    using rd(6) [of j] other [of j] that by (simp add: tx_owned_def)
  have links: "ring_links T TB s'"
    by (rule ring_linksI [OF rd(1)]) (simp_all add: e(2))
  have "\<not> tx_suspended s'"
    using e(13) rd(9) by blast
  then show ?thesis
    using links slots free l e(1,4,5,11) rd(3,7) unfolding s'_def [symmetric] by (simp add: tx_ring_def link)
qed

lemma tx_ring_full:
  assumes "tx_ring T TB k q s" and "length q = 4" and "p \<noteq> []"
  shows "fst (low_level_output p s) = ERR_USE \<and> tx_ring T TB k q (snd (low_level_output p s))"
proof -
  have o: "tx_owned (TxDesc s) s"
    using tx_ring_next [OF assms(1)] assms(2) by simp
  have "\<not> tx_suspended s"
    using tx_ringD(8) [OF assms(1)] assms(2) by auto
  then have "tx_same T TB s (tx_underflow s)"
    by (simp add: tx_same_def)
  from tx_ring_same [OF assms(1) this] show ?thesis
    by (simp add: output_owned [OF o assms(3)])
qed

text \<open>The transmit DMA puts the first frame that waits on the wire.\<close>

lemma tx_ring_dma:
  assumes r: "tx_ring T TB k (f # q) s" and "unat T + 128 \<le> 2 ^ 32"
  shows "tx_ring T TB (Suc k) q (eth_tx_dma s) \<and> wire (eth_tx_dma s) = wire s @ [f]"
proof -
  note rd = tx_ringD [OF r]
  define s' where "s' = eth_tx_dma s"
  let ?d = "descs s (ring_desc T k)"
  have sl: "tx_slot T TB s k f"
    using rd(5) [of 0] by simp
  have m: "\<not> tx_suspended s"
    using rd(8) by auto
  have b: "DMAOMR s AND ETH_DMAOMR_ST \<noteq> 0"
    using rd(7) by (simp add: flag_bits)
  have o: "tx_owned (tx_at s) s"
    using sl by (simp add: rd(3) tx_owned_def tx_slot_def Let_def flag_bits)
  have link: "Buffer2NextDescAddr ?d = ring_desc T (Suc k)" "Buffer1Addr ?d = ring_buf TB k"
    using ring_linksD [OF rd(1), of k] by simp_all
  have fl: "Status ?d AND ETH_DMATXDESC_FS \<noteq> 0" "Status ?d AND ETH_DMATXDESC_LS \<noteq> 0"
      "read_bytes (ebuf s) (ring_buf TB k) (unat (ControlBufferSize ?d AND ETH_DMATXDESC_TBS1)) = f"
    using sl by (simp_all add: tx_slot_def Let_def flag_bits)
  have e: "s' = s\<lparr>descs := (descs s)(ring_desc T k := ?d\<lparr>Status := Status ?d AND NOT ETH_DMATXDESC_OWN\<rparr>),
      wire := wire s @ [f], tx_part := [], tx_at := ring_desc T (Suc k)\<rparr>"
    using m b o fl link by (simp add: s'_def eth_tx_dma_def Let_def rd(3) upd_desc_def)
  have other: "descs s' (ring_desc T (k + j)) = descs s (ring_desc T (k + j))" if "0 < j" "j < 4" for j
  proof -
    have "(k + j) mod 4 \<noteq> (k + 0) mod 4"
      using that by (subst mod4_other) simp_all
    then show ?thesis
      by (simp add: e ring_desc_inj [OF assms(2)])
  qed
  have slots: "tx_slot T TB s' (Suc k + j) (q ! j)" if j: "j < length q" for j
  proof (rule tx_slot_cong [where s = s])
    show "tx_slot T TB s (Suc k + j) (q ! j)"
      using rd(5) [of "Suc j"] j by simp
    show "descs s' (ring_desc T (Suc k + j)) = descs s (ring_desc T (Suc k + j))"
      using other [of "Suc j"] rd(2) j by simp
  qed (simp add: e)
  have free: "\<not> tx_owned (ring_desc T (Suc k + j)) s'" if j: "j < 4" "length q \<le> j" for j
  proof (cases "j = 3")
    case True
    have "ring_desc T (Suc k + 3) = ring_desc T k"
      by (simp add: ring_desc_def)
    with True show ?thesis
      by (simp add: e tx_owned_def flag_bits bit_simps)
  next
    case False
    then show ?thesis
      using rd(6) [of "Suc j"] other [of "Suc j"] j by (simp add: tx_owned_def)
  qed
  have links: "ring_links T TB s'"
    by (rule ring_linksI [OF rd(1)]) (simp_all add: e)
  have "tx_ring T TB (Suc k) q s'"
    using links slots free rd(2,4,7) m by (simp add: tx_ring_def e)
  then show ?thesis
    unfolding s'_def [symmetric] by (simp add: e)
qed

lemma tx_ring_idle:
  assumes r: "tx_ring T TB k [] s"
  shows "tx_ring T TB k [] (eth_tx_dma s) \<and> wire (eth_tx_dma s) = wire s"
proof (cases "tx_suspended s")
  case True
  with r show ?thesis
    by (simp add: eth_tx_dma_def)
next
  case False
  note rd = tx_ringD [OF r]
  have o: "\<not> tx_owned (tx_at s) s"
    using rd(6) [of 0] by (simp add: rd(3))
  have b: "DMAOMR s AND ETH_DMAOMR_ST \<noteq> 0"
    using rd(7) by (simp add: flag_bits)
  have e: "eth_tx_dma s = s\<lparr>DMASR := DMASR s OR ETH_DMASR_TBUS, tx_suspended := True\<rparr>"
    using False o b by (simp add: eth_tx_dma_def)
  have "ring_links T TB (eth_tx_dma s)"
    by (rule ring_linksI [OF rd(1)]) (simp_all add: e)
  then show ?thesis
    using rd(3,4,6,7) by (simp add: tx_ring_def e tx_owned_def bit_simps)
qed

section \<open>The receive ring as a queue\<close>

text \<open>The descriptor \<open>i\<close> holds the frame \<open>f\<close>.\<close>

definition rx_slot :: "u32 \<Rightarrow> u32 \<Rightarrow> 'a eth_scheme \<Rightarrow> nat \<Rightarrow> u8 list \<Rightarrow> bool" where
  "rx_slot R RB s i f \<longleftrightarrow>
     Status (descs s (ring_desc R i)) = rx_status (length f) \<and> frame_ok f \<and> read_bytes (ebuf s) (ring_buf RB i) (length f) = f"

text \<open>The frames \<open>q\<close>, at most four, are stored from the descriptor \<open>k\<close> on, where the processor is; the DMA is suspended only if there are
  four.\<close>

definition rx_ring :: "u32 \<Rightarrow> u32 \<Rightarrow> nat \<Rightarrow> u8 list list \<Rightarrow> 'a eth_scheme \<Rightarrow> bool" where
  "rx_ring R RB k q s \<longleftrightarrow>
     ring_links R RB s \<and> length q \<le> 4 \<and> RxDesc s = ring_desc R k \<and> rx_at s = ring_desc R (k + length q) \<and>
     (\<forall>j < length q. rx_slot R RB s (k + j) (q ! j)) \<and>
     (\<forall>j < 4. length q \<le> j \<longrightarrow> bit (Status (descs s (ring_desc R (k + j)))) 31) \<and>
     SegCount (RxFrameInfos s) = 0 \<and> bit (DMAOMR s) 1 \<and> (rx_suspended s \<longrightarrow> length q = 4 \<and> bit (DMASR s) 7)"

lemma rx_ringD:
  assumes "rx_ring R RB k q s"
  shows "ring_links R RB s" and "length q \<le> 4" and "RxDesc s = ring_desc R k" and "rx_at s = ring_desc R (k + length q)"
    and "\<And>j. j < length q \<Longrightarrow> rx_slot R RB s (k + j) (q ! j)"
    and "\<And>j. j < 4 \<Longrightarrow> length q \<le> j \<Longrightarrow> bit (Status (descs s (ring_desc R (k + j)))) 31"
    and "SegCount (RxFrameInfos s) = 0" and "bit (DMAOMR s) 1"
    and "rx_suspended s \<Longrightarrow> length q = 4" and "rx_suspended s \<Longrightarrow> bit (DMASR s) 7"
  using assms by (simp_all add: rx_ring_def)

definition rx_same :: "u32 \<Rightarrow> u32 \<Rightarrow> 'a eth_scheme \<Rightarrow> 'a eth_scheme \<Rightarrow> bool" where
  "rx_same R RB s s' \<longleftrightarrow>
     (\<forall>i. descs s' (ring_desc R i) = descs s (ring_desc R i)) \<and>
     (\<forall>i. \<forall>x < 1524. ebuf s' (ring_buf RB i + of_nat x) = ebuf s (ring_buf RB i + of_nat x)) \<and>
     RxDesc s' = RxDesc s \<and> rx_at s' = rx_at s \<and> rx_suspended s' = rx_suspended s \<and> RxFrameInfos s' = RxFrameInfos s \<and>
     bit (DMASR s') 7 = bit (DMASR s) 7 \<and> bit (DMAOMR s') 1 = bit (DMAOMR s) 1"

lemma rx_same_refl [simp]: "rx_same R RB s s"
  by (simp add: rx_same_def)

lemma rx_same_trans: "rx_same R RB s s' \<Longrightarrow> rx_same R RB s' s'' \<Longrightarrow> rx_same R RB s s''"
  by (simp add: rx_same_def)

lemma rx_slot_cong:
  assumes "rx_slot R RB s i f" and "descs s' (ring_desc R i) = descs s (ring_desc R i)"
    and "\<And>x. x < 1524 \<Longrightarrow> ebuf s' (ring_buf RB i + of_nat x) = ebuf s (ring_buf RB i + of_nat x)"
  shows "rx_slot R RB s' i f"
proof -
  have n: "length f \<le> 1522"
    using assms(1) by (simp add: rx_slot_def frame_ok_def)
  have "read_bytes (ebuf s') (ring_buf RB i) (length f) = read_bytes (ebuf s) (ring_buf RB i) (length f)"
    using n by (intro read_bytes_cong assms(3)) simp
  with assms(1,2) show ?thesis
    by (simp add: rx_slot_def)
qed

lemma rx_ring_same:
  assumes "rx_ring R RB k q s" and "rx_same R RB s s'"
  shows "rx_ring R RB k q s'"
proof -
  have d: "descs s' (ring_desc R i) = descs s (ring_desc R i)" for i
    using assms(2) unfolding rx_same_def by blast
  have b: "ebuf s' (ring_buf RB i + of_nat x) = ebuf s (ring_buf RB i + of_nat x)" if "x < 1524" for i x
    using assms(2) that unfolding rx_same_def by blast
  have l: "ring_links R RB s'"
    by (rule ring_linksI [OF rx_ringD(1) [OF assms(1)]]) (simp_all only: d)
  have sl: "rx_slot R RB s' (k + j) (q ! j)" if "j < length q" for j
    using rx_ringD(5) [OF assms(1) that] by (rule rx_slot_cong) (simp_all only: d b)
  have r: "RxDesc s' = RxDesc s" "rx_at s' = rx_at s" "rx_suspended s' = rx_suspended s" "RxFrameInfos s' = RxFrameInfos s"
    "bit (DMASR s') 7 = bit (DMASR s) 7" "bit (DMAOMR s') 1 = bit (DMAOMR s) 1"
    using assms(2) unfolding rx_same_def by blast+
  show ?thesis
    using assms(1) l sl unfolding rx_ring_def r d by simp
qed

lemma write_other:
  assumes "length bs \<le> 1524" and "\<And>y. y < 1524 \<Longrightarrow> c \<noteq> a + of_nat y"
  shows "write_bytes m a bs c = m c"
proof -
  have "read_bytes (write_bytes m a bs) c 1 = read_bytes m c 1"
    using assms by (intro read_write_apart) simp_all
  then show ?thesis
    by simp
qed

text \<open>A frame arrives.\<close>

lemma rx_ring_store:
  assumes r: "rx_ring R RB k q s" and a: "eth_layout T TB R RB" and l: "length q < 4" and f: "frame_ok f"
  shows "rx_ring R RB k (q @ [f]) (eth_rx_dma f s) \<and> tx_same T TB s (eth_rx_dma f s)"
proof -
  note rd = rx_ringD [OF r]
  let ?i = "k + length q"
  define s' where "s' = eth_rx_dma f s"
  have lay: "unat R + 128 \<le> 2 ^ 32" "unat RB + 6096 \<le> 2 ^ 32"
    using a by (simp_all add: eth_layout_def)
  have n: "length f \<le> 1524"
    using f by (simp add: frame_ok_def)
  have link: "Buffer2NextDescAddr (descs s (ring_desc R ?i)) = ring_desc R (Suc ?i)" "Buffer1Addr (descs s (ring_desc R ?i)) = ring_buf RB ?i"
    using ring_linksD [OF rd(1), of ?i] by simp_all
  have c: "\<not> rx_suspended s" "DMAOMR s AND ETH_DMAOMR_SR \<noteq> 0" "Status (descs s (ring_desc R ?i)) AND ETH_DMARXDESC_OWN \<noteq> 0"
    using rd(8,9) rd(6) [of "length q"] l by (auto simp: flag_bits)
  have e: "s' = s\<lparr>ebuf := write_bytes (ebuf s) (ring_buf RB ?i) f,
      descs := (descs s)(ring_desc R ?i := (descs s (ring_desc R ?i))\<lparr>Status := rx_status (length f)\<rparr>),
      DMASR := DMASR s OR ETH_DMA_IT_R OR ETH_DMA_IT_NIS, rx_at := ring_desc R (Suc ?i)\<rparr>"
    using c f by (simp add: s'_def eth_rx_dma_def Let_def rd(4) link upd_desc_def rx_status_def)
  have other: "descs s' (ring_desc R (k + j)) = descs s (ring_desc R (k + j))" if "j < 4" "j \<noteq> length q" for j
    using that l by (simp add: e ring_desc_inj [OF lay(1)] mod4_other)
  have slot: "rx_slot R RB s' (k + j) (q ! j)" if j: "j < length q" for j
  proof (rule rx_slot_cong [OF rd(5) [OF j]])
    have jl: "(k + j) mod 4 \<noteq> ?i mod 4"
      using j l by (simp add: mod4_other)
    show "descs s' (ring_desc R (k + j)) = descs s (ring_desc R (k + j))"
      using other [of j] j l by simp
    fix x :: nat
    assume x: "x < 1524"
    show "ebuf s' (ring_buf RB (k + j) + of_nat x) = ebuf s (ring_buf RB (k + j) + of_nat x)"
      unfolding e using write_other [OF n ring_buf_apart [OF lay(2) jl x]] by simp
  qed
  have new: "rx_slot R RB s' ?i f"
    using f n read_write_bytes [of f "ebuf s" "ring_buf RB ?i"] by (simp add: rx_slot_def e)
  have slots: "rx_slot R RB s' (k + j) ((q @ [f]) ! j)" if "j < length (q @ [f])" for j
    using that slot new by (cases "j = length q") (simp_all add: nth_append)
  have free: "bit (Status (descs s' (ring_desc R (k + j)))) 31" if "j < 4" "length (q @ [f]) \<le> j" for j
    using rd(6) [of j] other [of j] that by simp
  have links: "ring_links R RB s'"
    by (rule ring_linksI [OF rd(1)]) (simp_all add: e)
  have ring: "rx_ring R RB k (q @ [f]) s'"
    using links slots free l c(1) rd(3,7,8) by (simp add: rx_ring_def e)
  have "ebuf s' (ring_buf TB j + of_nat x) = ebuf s (ring_buf TB j + of_nat x)" if "x < 1524" for j x
    unfolding e using write_other [OF n ring_bufs_apart [OF a that]] by simp
  moreover have "ring_desc T j \<noteq> ring_desc R ?i" for j
    by (rule ring_desc_apart [OF a])
  ultimately have "tx_same T TB s s'"
    by (simp add: tx_same_def e bit_simps)
  with ring show ?thesis
    unfolding s'_def [symmetric] by simp
qed

lemma rx_ring_lost:
  assumes r: "rx_ring R RB k q s" and l: "length q = 4 \<or> \<not> frame_ok f"
  shows "rx_ring R RB k q (eth_rx_dma f s) \<and> tx_same T TB s (eth_rx_dma f s)"
proof (cases "frame_ok f \<and> \<not> rx_suspended s")
  case False
  with r show ?thesis
    by (auto simp: eth_rx_dma_def)
next
  case True
  note rd = rx_ringD [OF r]
  have q: "length q = 4"
    using l True by simp
  have "ring_desc R (k + length q) = ring_desc R (k + 0)"
    by (simp add: ring_desc_def q)
  moreover have "rx_slot R RB s (k + 0) (q ! 0)"
    using q by (intro rd(5)) simp
  ultimately have "\<not> bit (Status (descs s (rx_at s))) 31"
    by (simp add: rd(4) rx_slot_def frame_ok_def rx_status_bits)
  then have e: "eth_rx_dma f s = s\<lparr>DMASR := DMASR s OR ETH_DMASR_RBUS, rx_suspended := True\<rparr>"
    using True rd(8) by (simp add: eth_rx_dma_def Let_def flag_bits)
  have "ring_links R RB (eth_rx_dma f s)"
    by (rule ring_linksI [OF rd(1)]) (simp_all add: e)
  then have "rx_ring R RB k q (eth_rx_dma f s)"
    using rd(3,4,7,8) rd(5) q by (simp add: rx_ring_def e rx_slot_def bit_simps)
  then show ?thesis
    by (simp add: e tx_same_def bit_simps)
qed

section \<open>Input of a frame\<close>

lemma get_frame:
  assumes r: "rx_ring R RB k (f # q) s" and "ELock s = HAL_UNLOCKED"
  shows "HAL_ETH_GetReceivedFrame s = (HAL_OK, s\<lparr>RxFrameInfos := \<lparr>FSRxDesc = ring_desc R k, LSRxDesc = ring_desc R k,
      SegCount = 1, frame_length = of_nat (length f) - 4, frame_buffer = ring_buf RB k\<rparr>,
    RxDesc := ring_desc R (Suc k), EState := HAL_ETH_STATE_READY, ELock := HAL_UNLOCKED\<rparr>)"
proof -
  note rd = rx_ringD [OF r]
  have sl: "rx_slot R RB s k f"
    using rd(5) [of 0] by simp
  then have st: "Status (descs s (ring_desc R k)) = rx_status (length f)" and n: "length f < 16384"
    by (simp_all add: rx_slot_def frame_ok_def)
  have c: "rx_status (length f) AND ETH_DMARXDESC_OWN = 0" "rx_status (length f) AND ETH_DMARXDESC_LS \<noteq> 0"
    using n by (simp_all add: flag_bits rx_status_bits)
  have fl: "rx_frame_length (descs s (ring_desc R k)) = of_nat (length f) - 4"
    unfolding rx_frame_length_def st rx_status_length [OF n] by (rule refl)
  have link: "Buffer2NextDescAddr (descs s (ring_desc R k)) = ring_desc R (Suc k)" "Buffer1Addr (descs s (ring_desc R k)) = ring_buf RB k"
    using ring_linksD [OF rd(1), of k] by simp_all
  have one: "SegCount (RxFrameInfos s) + 1 = 1"
    using rd(7) by simp
  show ?thesis
    unfolding HAL_ETH_GetReceivedFrame_def rx_last_segment_def
    using assms(2) c fl link one
    by (simp add: Let_def rd(3) st upd_info_def next_RxDesc_def)
qed

lemma in_while_fits: "n + roffset r \<le> 1524 \<Longrightarrow> in_while n r pl s = (n, r, pl)"
  by (subst in_while.simps) simp

lemma in_chain_fits:
  "roffset r + sum_list (map unat ns) \<le> 1524 \<Longrightarrow>
   concat (in_chain ns r s) = read_bytes (ebuf s) (rbuffer r + of_nat (roffset r)) (sum_list (map unat ns))"
proof (induction ns arbitrary: r)
  case Nil
  then show ?case by simp
next
  case (Cons n ns)
  have w: "in_while (unat n) r [] s = (unat n, r, [])"
    using Cons.prems by (intro in_while_fits) simp
  have "concat (in_chain ns (r\<lparr>roffset := roffset r + unat n\<rparr>) s) =
      read_bytes (ebuf s) (rbuffer r + of_nat (roffset r + unat n)) (sum_list (map unat ns))"
    using Cons.IH [of "r\<lparr>roffset := roffset r + unat n\<rparr>"] Cons.prems by simp
  then show ?case
    by (simp add: w Let_def read_bytes_append add.assoc)
qed

lemma read_bytes_take: "m \<le> n \<Longrightarrow> read_bytes mem a m = take m (read_bytes mem a n)"
  using read_bytes_append [of mem a m "n - m"] by simp

text \<open>The checksum of four bytes is not passed on.\<close>

definition frame_data :: "u8 list \<Rightarrow> u8 list" where
  "frame_data f = take (length f - 4) f"

text \<open>A chain allocated has the length asked for.\<close>

definition alloc_ok :: "'a lwip_fns \<Rightarrow> bool" where
  "alloc_ok fns \<longleftrightarrow> (\<forall>n w ns w'. pbuf_alloc fns n w = (Some ns, w') \<longrightarrow> sum_list (map unat ns) = unat n)"

definition rx_demand :: "'a eth_scheme \<Rightarrow> 'a eth_scheme" where
  "rx_demand s = (if DMASR s AND ETH_DMASR_RBUS \<noteq> 0 then write_DMARPDR (write_DMASR ETH_DMASR_RBUS s) else s)"

lemma rx_demand_fields [simp]:
  "descs (rx_demand s) = descs s" "ebuf (rx_demand s) = ebuf s" "TxDesc (rx_demand s) = TxDesc s"
  "tx_at (rx_demand s) = tx_at s" "RxDesc (rx_demand s) = RxDesc s" "RxFrameInfos (rx_demand s) = RxFrameInfos s"
  "rx_at (rx_demand s) = rx_at s" "tx_suspended (rx_demand s) = tx_suspended s" "wire (rx_demand s) = wire s"
  "DMAOMR (rx_demand s) = DMAOMR s" "ELock (rx_demand s) = ELock s"
  "rx_suspended (rx_demand s) \<longleftrightarrow> rx_suspended s \<and> \<not> bit (DMASR s) 7"
  "bit (DMASR (rx_demand s)) 2 = bit (DMASR s) 2"
  by (auto simp: rx_demand_def write_DMARPDR_def write_DMASR_def flag_bits bit_simps)

lemma rx_demand_net [simp]: "given (rx_demand s) = given s" "net.more (rx_demand s) = net.more s"
  by (simp_all add: rx_demand_def write_DMARPDR_def write_DMASR_def)

lemma input_frame:
  fixes s :: "'a net_scheme"
  assumes r: "rx_ring R RB k (f # q) s" and u: "ELock s = HAL_UNLOCKED" and a: "eth_layout T TB R RB" and ok: "alloc_ok fns"
  obtains p ns s' where "low_level_input fns s = (p, s')" "rx_ring R RB (Suc k) q s'" "tx_same T TB s s'"
    "ELock s' = HAL_UNLOCKED" "given s' = given s" "\<not> rx_suspended s'"
    "pbuf_alloc fns (of_nat (length f - 4)) (net.more s) = (ns, net.more s')" "ns = None \<longleftrightarrow> p = None"
    "p \<noteq> None \<longrightarrow> concat (the p) = frame_data f"
proof -
  note rd = rx_ringD [OF r]
  have lay: "unat R + 128 \<le> 2 ^ 32" "unat RB + 6096 \<le> 2 ^ 32"
    using a by (simp_all add: eth_layout_def)
  have sl: "rx_slot R RB s k f"
    using rd(5) [of 0] by simp
  then have fk: "frame_ok f" and rb: "read_bytes (ebuf s) (ring_buf RB k) (length f) = f"
    by (simp_all add: rx_slot_def)
  have n: "64 \<le> length f" "length f \<le> 1522"
    using fk by (simp_all add: frame_ok_def)
  have len: "ucast (of_nat (length f) - 4 :: u32) = (of_nat (length f - 4) :: u16)" "0 < (of_nat (length f - 4) :: u16)"
      "unat (of_nat (length f - 4) :: u16) = length f - 4"
  proof -
    have e: "of_nat (length f) - 4 = (of_nat (length f - 4) :: u32)"
      using n by (simp add: of_nat_diff)
    have u32: "unat (of_nat (length f - 4) :: u32) = length f - 4"
      using n by (intro unat_small) simp
    show "ucast (of_nat (length f) - 4 :: u32) = (of_nat (length f - 4) :: u16)"
      unfolding e by (metis of_nat_unat u32 unsigned_of_nat)
    show u16: "unat (of_nat (length f - 4) :: u16) = length f - 4"
      using n by (simp only: unat_of_nat) simp
    show "0 < (of_nat (length f - 4) :: u16)"
      using n u16 by (simp add: word_less_nat_alt)
  qed
  obtain ns w where al: "pbuf_alloc fns (of_nat (length f - 4)) (net.more s) = (ns, w)"
    by (cases "pbuf_alloc fns (of_nat (length f - 4)) (net.more s)")
  define info where "info = \<lparr>FSRxDesc = ring_desc R k, LSRxDesc = ring_desc R k, SegCount = 1 :: u32,
    frame_length = of_nat (length f) - 4 :: u32, frame_buffer = ring_buf RB k\<rparr>"
  define p where "p = map_option (\<lambda>ns. in_chain ns \<lparr>rbuffer = ring_buf RB k, dmarxdesc = ring_desc R k, roffset = 0\<rparr>
    (s\<lparr>RxFrameInfos := info, RxDesc := ring_desc R (Suc k), EState := HAL_ETH_STATE_READY, ELock := HAL_UNLOCKED, net.more := w\<rparr>)) ns"
  let ?d = "descs s (ring_desc R k)"
  define s' where "s' = rx_demand (s\<lparr>RxDesc := ring_desc R (Suc k), EState := HAL_ETH_STATE_READY,
    ELock := HAL_UNLOCKED, net.more := w, descs := (descs s)(ring_desc R k := ?d\<lparr>Status := Status ?d OR ETH_DMARXDESC_OWN\<rparr>),
    RxFrameInfos := info\<lparr>SegCount := 0\<rparr>\<rparr>)"
  have one: "unat (SegCount info) = Suc 0"
    by (simp add: info_def)
  have l: "(0 :: u16) < of_nat (length f - 4)"
    by (rule len(2))
  have in1: "low_level_input fns s = (p, s')"
    unfolding low_level_input_def get_frame [OF r u, folded info_def]
    apply (simp add: info_def len(1) l al Let_def upd_desc_def upd_info_def del: of_nat_diff)
    apply (simp add: s'_def p_def info_def rx_demand_def split: option.splits)
    done
  have other: "descs s' (ring_desc R (k + j)) = descs s (ring_desc R (k + j))" if "0 < j" "j < 4" for j
  proof -
    have "(k + j) mod 4 \<noteq> (k + 0) mod 4"
      using that by (subst mod4_other) simp_all
    then show ?thesis
      by (simp add: s'_def ring_desc_inj [OF lay(1)])
  qed
  have slots: "rx_slot R RB s' (Suc k + j) (q ! j)" if j: "j < length q" for j
  proof (rule rx_slot_cong [where s = s])
    show "rx_slot R RB s (Suc k + j) (q ! j)"
      using rd(5) [of "Suc j"] j by simp
    show "descs s' (ring_desc R (Suc k + j)) = descs s (ring_desc R (Suc k + j))"
      using other [of "Suc j"] rd(2) j by simp
  qed (simp add: s'_def)
  have free: "bit (Status (descs s' (ring_desc R (Suc k + j)))) 31" if j: "j < 4" "length q \<le> j" for j
  proof (cases "j = 3")
    case True
    have "ring_desc R (Suc k + 3) = ring_desc R k"
      by (simp add: ring_desc_def)
    with True show ?thesis
      by (simp add: s'_def bit_simps)
  next
    case False
    then show ?thesis
      using rd(6) [of "Suc j"] other [of "Suc j"] j by simp
  qed
  have links: "ring_links R RB s'"
    by (rule ring_linksI [OF rd(1)]) (simp_all add: s'_def)
  have susp: "\<not> rx_suspended s'"
    using rd(10) by (auto simp: s'_def)
  have ring: "rx_ring R RB (Suc k) q s'"
    using links slots free susp rd(2,4,8) by (simp add: rx_ring_def s'_def)
  have ap: "ring_desc T i \<noteq> ring_desc R k" for i
    by (rule ring_desc_apart [OF a])
  have tx: "tx_same T TB s s'"
    using ap by (simp add: tx_same_def s'_def)
  have c: "concat c = frame_data f" if pc: "p = Some c" for c
  proof -
    obtain ls where ls: "ns = Some ls"
      and cc: "c = in_chain ls \<lparr>rbuffer = ring_buf RB k, dmarxdesc = ring_desc R k, roffset = 0\<rparr> (s\<lparr>RxFrameInfos := info,
        RxDesc := ring_desc R (Suc k), EState := HAL_ETH_STATE_READY, ELock := HAL_UNLOCKED, net.more := w\<rparr>)"
      using pc by (auto simp: p_def)
    have sum: "sum_list (map unat ls) = length f - 4"
      using ok al ls len(3) unfolding alloc_ok_def by metis
    have "concat c = read_bytes (ebuf s) (ring_buf RB k) (length f - 4)"
      unfolding cc using sum n by (subst in_chain_fits) simp_all
    also have "\<dots> = frame_data f"
      by (subst read_bytes_take [where n = "length f"]) (simp_all add: rb frame_data_def)
    finally show ?thesis .
  qed
  show ?thesis
    by (rule that [OF in1 ring tx _ _ susp]) (auto simp: s'_def al p_def [symmetric] c, auto simp: p_def)
qed

end
