(* ===== verification/EthStart.thy ===== *)
theory EthStart
  imports EthRing
begin

text \<open>
  The start of the network interface: the loops that set up the descriptors, and the state of both rings after \<open>ethernetif_init\<close>.
\<close>

section \<open>The start\<close>

lemma tx_desc_loop_effect:
  assumes "unat T + 128 \<le> 2 ^ 32"
  shows "i + n \<le> 4 \<Longrightarrow>
    \<exists>D. tx_desc_loop n (of_nat i) T TB 4 s = s\<lparr>descs := D\<rparr> \<and> (\<forall>a. (\<forall>j. a \<noteq> ring_desc T j) \<longrightarrow> D a = descs s a) \<and>
      (\<forall>j < 4. if i \<le> j \<and> j < i + n
        then \<not> bit (Status (D (ring_desc T j))) 31 \<and> Buffer1Addr (D (ring_desc T j)) = ring_buf TB j \<and>
          Buffer2NextDescAddr (D (ring_desc T j)) = ring_desc T (Suc j)
        else D (ring_desc T j) = descs s (ring_desc T j))"
proof (induction n arbitrary: i s)
  case 0
  show ?case
    by (intro exI [of _ "descs s"]) auto
next
  case (Suc n)
  have i: "i < 4"
    using Suc.prems by simp
  have a: "T + 32 * of_nat i = ring_desc T i" "TB + of_nat i * ETH_TX_BUF_SIZE = ring_buf TB i"
    using i by (simp_all add: ring_desc_def ring_buf_def)
  have nx: "(if (of_nat i :: u32) < 4 - 1 then T + 32 * (of_nat i + 1) else T) = ring_desc T (Suc i)"
  proof (cases "i = 3")
    case True
    then show ?thesis
      by (simp add: ring_desc_def)
  next
    case False
    have u: "unat (of_nat i :: u32) = i"
      using i by (intro unat_small) simp
    have "(of_nat i :: u32) < 4 - 1"
      using i False u by (simp add: word_less_nat_alt)
    then show ?thesis
      using i False by (simp add: ring_desc_def)
  qed
  obtain d where st: "tx_desc_loop (Suc n) (of_nat i) T TB 4 s = tx_desc_loop n (of_nat (Suc i)) T TB 4 (s\<lparr>descs := (descs s)(ring_desc T i := d)\<rparr>)"
      and d: "\<not> bit (Status d) 31" "Buffer1Addr d = ring_buf TB i" "Buffer2NextDescAddr d = ring_desc T (Suc i)"
  proof
    let ?d = "if ChecksumMode (EInit s) = ETH_CHECKSUM_BY_HARDWARE
      then descs s (ring_desc T i)\<lparr>Buffer1Addr := ring_buf TB i,
        Status := ETH_DMATXDESC_TCH OR ETH_DMATXDESC_CHECKSUMTCPUDPICMPFULL, Buffer2NextDescAddr := ring_desc T (Suc i)\<rparr>
      else descs s (ring_desc T i)\<lparr>Status := ETH_DMATXDESC_TCH, Buffer1Addr := ring_buf TB i,
        Buffer2NextDescAddr := ring_desc T (Suc i)\<rparr>"
    show "tx_desc_loop (Suc n) (of_nat i) T TB 4 s = tx_desc_loop n (of_nat (Suc i)) T TB 4 (s\<lparr>descs := (descs s)(ring_desc T i := ?d)\<rparr>)"
      unfolding tx_desc_loop.simps a nx by (simp add: Let_def upd_desc_def add.commute)
    show "\<not> bit (Status ?d) 31"
      by (simp add: bit_simps)
  qed simp_all
  obtain D where D: "tx_desc_loop n (of_nat (Suc i)) T TB 4 (s\<lparr>descs := (descs s)(ring_desc T i := d)\<rparr>) =
        s\<lparr>descs := (descs s)(ring_desc T i := d)\<rparr>\<lparr>descs := D\<rparr>"
      "\<forall>a. (\<forall>j. a \<noteq> ring_desc T j) \<longrightarrow> D a = ((descs s)(ring_desc T i := d)) a"
      "\<forall>j < 4. if Suc i \<le> j \<and> j < Suc i + n
        then \<not> bit (Status (D (ring_desc T j))) 31 \<and> Buffer1Addr (D (ring_desc T j)) = ring_buf TB j \<and>
          Buffer2NextDescAddr (D (ring_desc T j)) = ring_desc T (Suc j)
        else D (ring_desc T j) = ((descs s)(ring_desc T i := d)) (ring_desc T j)"
    using Suc.IH [of "Suc i" "s\<lparr>descs := (descs s)(ring_desc T i := d)\<rparr>"] Suc.prems by auto
  have inj: "ring_desc T j = ring_desc T i \<longleftrightarrow> j = i" if "j < 4" for j
    using that i by (simp add: ring_desc_inj [OF assms])
  have "(if i \<le> j \<and> j < i + Suc n
        then \<not> bit (Status (D (ring_desc T j))) 31 \<and> Buffer1Addr (D (ring_desc T j)) = ring_buf TB j \<and>
          Buffer2NextDescAddr (D (ring_desc T j)) = ring_desc T (Suc j)
        else D (ring_desc T j) = descs s (ring_desc T j))" if j: "j < 4" for j
    using D(3) [rule_format, OF j] d inj [OF j] Suc.prems by (cases "j = i") (auto split: if_splits)
  then show ?case
    unfolding st D(1) using D(2) by (intro exI [of _ D]) simp
qed

lemma rx_desc_loop_effect:
  assumes "unat R + 128 \<le> 2 ^ 32"
  shows "i + n \<le> 4 \<Longrightarrow>
    \<exists>D. rx_desc_loop n (of_nat i) R RB 4 s = s\<lparr>descs := D\<rparr> \<and> (\<forall>a. (\<forall>j. a \<noteq> ring_desc R j) \<longrightarrow> D a = descs s a) \<and>
      (\<forall>j < 4. if i \<le> j \<and> j < i + n
        then bit (Status (D (ring_desc R j))) 31 \<and> Buffer1Addr (D (ring_desc R j)) = ring_buf RB j \<and>
          Buffer2NextDescAddr (D (ring_desc R j)) = ring_desc R (Suc j)
        else D (ring_desc R j) = descs s (ring_desc R j))"
proof (induction n arbitrary: i s)
  case 0
  show ?case
    by (intro exI [of _ "descs s"]) auto
next
  case (Suc n)
  have i: "i < 4"
    using Suc.prems by simp
  have a: "R + 32 * of_nat i = ring_desc R i" "RB + of_nat i * ETH_RX_BUF_SIZE = ring_buf RB i"
    using i by (simp_all add: ring_desc_def ring_buf_def)
  have nx: "(if (of_nat i :: u32) < 4 - 1 then R + 32 * (of_nat i + 1) else R) = ring_desc R (Suc i)"
  proof (cases "i = 3")
    case True
    then show ?thesis
      by (simp add: ring_desc_def)
  next
    case False
    have u: "unat (of_nat i :: u32) = i"
      using i by (intro unat_small) simp
    have "(of_nat i :: u32) < 4 - 1"
      using i False u by (simp add: word_less_nat_alt)
    then show ?thesis
      using i False by (simp add: ring_desc_def)
  qed
  obtain d where st: "rx_desc_loop (Suc n) (of_nat i) R RB 4 s = rx_desc_loop n (of_nat (Suc i)) R RB 4 (s\<lparr>descs := (descs s)(ring_desc R i := d)\<rparr>)"
      and d: "bit (Status d) 31" "Buffer1Addr d = ring_buf RB i" "Buffer2NextDescAddr d = ring_desc R (Suc i)"
  proof
    let ?size = "ETH_DMARXDESC_RCH OR ETH_RX_BUF_SIZE"
    let ?d = "if RxMode (EInit s) = ETH_RXINTERRUPT_MODE
      then descs s (ring_desc R i)\<lparr>Status := ETH_DMARXDESC_OWN, Buffer1Addr := ring_buf RB i,
        ControlBufferSize := ?size AND NOT ETH_DMARXDESC_DIC, Buffer2NextDescAddr := ring_desc R (Suc i)\<rparr>
      else descs s (ring_desc R i)\<lparr>Status := ETH_DMARXDESC_OWN, ControlBufferSize := ?size,
        Buffer1Addr := ring_buf RB i, Buffer2NextDescAddr := ring_desc R (Suc i)\<rparr>"
    show "rx_desc_loop (Suc n) (of_nat i) R RB 4 s = rx_desc_loop n (of_nat (Suc i)) R RB 4 (s\<lparr>descs := (descs s)(ring_desc R i := ?d)\<rparr>)"
      unfolding rx_desc_loop.simps a nx by (simp add: Let_def upd_desc_def add.commute)
    show "bit (Status ?d) 31"
      by (simp add: bit_simps)
  qed simp_all
  obtain D where D: "rx_desc_loop n (of_nat (Suc i)) R RB 4 (s\<lparr>descs := (descs s)(ring_desc R i := d)\<rparr>) =
        s\<lparr>descs := (descs s)(ring_desc R i := d)\<rparr>\<lparr>descs := D\<rparr>"
      "\<forall>a. (\<forall>j. a \<noteq> ring_desc R j) \<longrightarrow> D a = ((descs s)(ring_desc R i := d)) a"
      "\<forall>j < 4. if Suc i \<le> j \<and> j < Suc i + n
        then bit (Status (D (ring_desc R j))) 31 \<and> Buffer1Addr (D (ring_desc R j)) = ring_buf RB j \<and>
          Buffer2NextDescAddr (D (ring_desc R j)) = ring_desc R (Suc j)
        else D (ring_desc R j) = ((descs s)(ring_desc R i := d)) (ring_desc R j)"
    using Suc.IH [of "Suc i" "s\<lparr>descs := (descs s)(ring_desc R i := d)\<rparr>"] Suc.prems by auto
  have inj: "ring_desc R j = ring_desc R i \<longleftrightarrow> j = i" if "j < 4" for j
    using that i by (simp add: ring_desc_inj [OF assms])
  have "(if i \<le> j \<and> j < i + Suc n
        then bit (Status (D (ring_desc R j))) 31 \<and> Buffer1Addr (D (ring_desc R j)) = ring_buf RB j \<and>
          Buffer2NextDescAddr (D (ring_desc R j)) = ring_desc R (Suc j)
        else D (ring_desc R j) = descs s (ring_desc R j))" if j: "j < 4" for j
    using D(3) [rule_format, OF j] d inj [OF j] Suc.prems by (cases "j = i") (auto split: if_splits)
  then show ?case
    unfolding st D(1) using D(2) by (intro exI [of _ D]) simp
qed

lemma start_fields [simp]:
  "descs (snd (HAL_ETH_Start s)) = descs s" "ebuf (snd (HAL_ETH_Start s)) = ebuf s" "TxDesc (snd (HAL_ETH_Start s)) = TxDesc s"
  "tx_at (snd (HAL_ETH_Start s)) = tx_at s" "RxDesc (snd (HAL_ETH_Start s)) = RxDesc s"
  "RxFrameInfos (snd (HAL_ETH_Start s)) = RxFrameInfos s" "rx_at (snd (HAL_ETH_Start s)) = rx_at s"
  "tx_suspended (snd (HAL_ETH_Start s)) = tx_suspended s" "rx_suspended (snd (HAL_ETH_Start s)) = rx_suspended s"
  "wire (snd (HAL_ETH_Start s)) = wire s"
  "given (snd (HAL_ETH_Start r)) = given r" "net.more (snd (HAL_ETH_Start r)) = net.more r"
  by (simp_all add: HAL_ETH_Start_def Let_def ETH_MACTransmissionEnable_def ETH_MACReceptionEnable_def ETH_FlushTransmitFIFO_def
    ETH_DMATransmissionEnable_def ETH_DMAReceptionEnable_def write_DMAOMR_def upd_mac_def)

lemma start_bits:
  "ELock s = HAL_UNLOCKED \<Longrightarrow> bit (DMAOMR (snd (HAL_ETH_Start s))) 13"
  "ELock s = HAL_UNLOCKED \<Longrightarrow> bit (DMAOMR (snd (HAL_ETH_Start s))) 1"
  "ELock s = HAL_UNLOCKED \<Longrightarrow> ELock (snd (HAL_ETH_Start s)) = HAL_UNLOCKED"
  by (simp_all add: HAL_ETH_Start_def Let_def ETH_MACTransmissionEnable_def ETH_MACReceptionEnable_def ETH_FlushTransmitFIFO_def
    ETH_DMATransmissionEnable_def ETH_DMAReceptionEnable_def write_DMAOMR_def upd_mac_def bit_simps)

text \<open>Both rings together.\<close>

definition net_inv :: "u32 \<Rightarrow> u32 \<Rightarrow> u32 \<Rightarrow> u32 \<Rightarrow> nat \<Rightarrow> u8 list list \<Rightarrow> nat \<Rightarrow> u8 list list \<Rightarrow> 'a eth_scheme \<Rightarrow> bool" where
  "net_inv T TB R RB kt qt kr qr s \<longleftrightarrow>
     eth_layout T TB R RB \<and> tx_ring T TB kt qt s \<and> rx_ring R RB kr qr s \<and> ELock s = HAL_UNLOCKED"

text \<open>What the start asks of the handle: it is unlocked, and neither direction of the DMA has been used.\<close>

definition eth_fresh :: "'a eth_scheme \<Rightarrow> bool" where
  "eth_fresh s \<longleftrightarrow> ELock s = HAL_UNLOCKED \<and> \<not> tx_suspended s \<and> \<not> rx_suspended s \<and> SegCount (RxFrameInfos s) = 0"

lemma net_inv_start:
  fixes s :: "'a net_scheme"
  assumes a: "eth_layout T TB R RB" and f: "eth_fresh s"
  shows "net_inv T TB R RB 0 [] 0 [] (snd (ethernetif_init mac T TB R RB s)) \<and>
    wire (snd (ethernetif_init mac T TB R RB s)) = wire s \<and> given (snd (ethernetif_init mac T TB R RB s)) = given s"
proof -
  have lay: "unat T + 128 \<le> 2 ^ 32" "unat R + 128 \<le> 2 ^ 32"
    using a by (simp_all add: eth_layout_def)
  have four: "unat (of_nat 4 :: u32) = 4" "(of_nat 4 :: u32) = 4"
    by simp_all
  define s1 where "s1 = s\<lparr>netif_name := ''en'', hwaddr_len := ETHARP_HWADDR_LEN,
      hwaddr := [mac ! 0, mac ! 1, mac ! 2, mac ! 3, mac ! 4, mac ! 5], mtu := 1500,
      netif_flags := NETIF_FLAG_BROADCAST OR NETIF_FLAG_ETHARP OR NETIF_FLAG_LINK_UP\<rparr>"
  define s2 where "s2 = s1\<lparr>ELock := HAL_LOCKED, EState := HAL_ETH_STATE_BUSY, TxDesc := T\<rparr>"
  obtain D where D: "tx_desc_loop 4 0 T TB 4 s2 = s2\<lparr>descs := D\<rparr>"
      "\<And>j. j < 4 \<Longrightarrow> \<not> bit (Status (D (ring_desc T j))) 31 \<and> Buffer1Addr (D (ring_desc T j)) = ring_buf TB j \<and>
          Buffer2NextDescAddr (D (ring_desc T j)) = ring_desc T (Suc j)"
    using tx_desc_loop_effect [OF lay(1), of 0 4 TB s2] by auto
  define s3 where "s3 = s2\<lparr>descs := D, DMATDLAR := T, tx_at := T, EState := HAL_ETH_STATE_READY, ELock := HAL_UNLOCKED\<rparr>"
  have tx: "HAL_ETH_DMATxDescListInit T TB (of_nat ETH_TXBUFNB) s1 = (HAL_OK, s3)"
    using f D(1) by (simp add: HAL_ETH_DMATxDescListInit_def four s1_def eth_fresh_def write_DMATDLAR_def s3_def s2_def Let_def)
  define s4 where "s4 = s3\<lparr>ELock := HAL_LOCKED, EState := HAL_ETH_STATE_BUSY, RxDesc := R\<rparr>"
  obtain D' where D': "rx_desc_loop 4 0 R RB 4 s4 = s4\<lparr>descs := D'\<rparr>" "\<And>j. D' (ring_desc T j) = D (ring_desc T j)"
      "\<And>j. j < 4 \<Longrightarrow> bit (Status (D' (ring_desc R j))) 31 \<and> Buffer1Addr (D' (ring_desc R j)) = ring_buf RB j \<and>
          Buffer2NextDescAddr (D' (ring_desc R j)) = ring_desc R (Suc j)"
    using rx_desc_loop_effect [OF lay(2), of 0 4 RB s4] ring_desc_apart [OF a] by (auto simp: s4_def s3_def)
  define s5 where "s5 = s4\<lparr>descs := D', DMARDLAR := R, rx_at := R, EState := HAL_ETH_STATE_READY, ELock := HAL_UNLOCKED\<rparr>"
  have rx: "HAL_ETH_DMARxDescListInit R RB (of_nat ETH_RXBUFNB) s3 = (HAL_OK, s5)"
    using D'(1) by (simp add: HAL_ETH_DMARxDescListInit_def four s3_def write_DMARDLAR_def s5_def s4_def Let_def)
  have e: "snd (ethernetif_init mac T TB R RB s) = snd (HAL_ETH_Start s5)"
    using tx rx unfolding s1_def by (simp add: ethernetif_init_def low_level_init_def Let_def)
  have z: "ring_desc T 0 = T" "ring_desc R 0 = R"
    by (simp_all add: ring_desc_def)
  have u: "ELock s5 = HAL_UNLOCKED" "wire s5 = wire s" "given s5 = given s"
    by (simp_all add: s5_def s4_def s3_def s2_def s1_def)
  have "tx_ring T TB 0 [] (snd (HAL_ETH_Start s5))"
    using D(2) D'(2) start_bits(1) [OF u(1)] f
    by (simp add: tx_ring_def ring_links_def z tx_owned_def flag_bits s5_def s4_def s3_def s2_def s1_def eth_fresh_def)
  moreover have "rx_ring R RB 0 [] (snd (HAL_ETH_Start s5))"
    using D'(3) start_bits(2) [OF u(1)] f
    by (simp add: rx_ring_def ring_links_def z s5_def s4_def s3_def s2_def s1_def eth_fresh_def)
  ultimately show ?thesis
    using a start_bits(3) [OF u(1)] u unfolding e by (simp add: net_inv_def)
qed

end
