(* ===== verification/EthProps.thy ===== *)
theory EthProps
  imports EthStart
begin

text \<open>
  The network interface at work: the events of lwIP, driver and hardware, the abstract queues they
  implement, and the properties of transmission and reception.
\<close>

section \<open>Events\<close>

text \<open>
  What lwIP may do while it handles a frame: work on its own state and send frames of up to 1524 bytes (its MTU is 1500);
  meanwhile the transmit DMA goes on.
\<close>

inductive lwip_acts :: "'a net_scheme \<Rightarrow> 'a net_scheme \<Rightarrow> bool" where
  acts_nothing: "lwip_acts s s"
| acts_own: "lwip_acts s s' \<Longrightarrow> lwip_acts s (s'\<lparr>net.more := w\<rparr>)"
| acts_send: "lwip_acts s s' \<Longrightarrow> 1 \<le> length (concat p) \<Longrightarrow> length (concat p) \<le> 1524 \<Longrightarrow>
    lwip_acts s (snd (low_level_output p s'))"
| acts_dma: "lwip_acts s s' \<Longrightarrow> lwip_acts s (eth_tx_dma s')"

definition lwip_ok :: "'a lwip_fns \<Rightarrow> bool" where
  "lwip_ok fns \<longleftrightarrow> alloc_ok fns \<and> (\<forall>p s. lwip_acts s (snd (netif_input fns p s)))"

text \<open>The memory of the pbufs never runs out.\<close>

definition pool_suffices :: "'a lwip_fns \<Rightarrow> bool" where
  "pool_suffices fns \<longleftrightarrow> (\<forall>n w. fst (pbuf_alloc fns n w) \<noteq> None)"

text \<open>
  The events of the running interface, each taken as a whole: lwIP sends a frame, the DMA looks at its next descriptor, a frame arrives,
  the interrupt handler runs, lwIP works on its own state.
\<close>

inductive eth_step :: "'a lwip_fns \<Rightarrow> 'a net_scheme \<Rightarrow> 'a net_scheme \<Rightarrow> bool" for fns where
  step_send: "1 \<le> length (concat p) \<Longrightarrow> length (concat p) \<le> 1524 \<Longrightarrow> eth_step fns s (snd (low_level_output p s))"
| step_transmit: "eth_step fns s (eth_tx_dma s)"
| step_receive: "eth_step fns s (eth_rx_dma f s)"
| step_interrupt: "ETH_IRQHandler fns fuel s = Some s' \<Longrightarrow> eth_step fns s s'"
| step_own: "eth_step fns s (s\<lparr>net.more := w\<rparr>)"

inductive eth_reach :: "'a lwip_fns \<Rightarrow> u8 list \<Rightarrow> u32 \<Rightarrow> u32 \<Rightarrow> u32 \<Rightarrow> u32 \<Rightarrow> 'a net_scheme \<Rightarrow> bool" for fns mac T TB R RB where
  reach_start: "eth_fresh s \<Longrightarrow> eth_reach fns mac T TB R RB (snd (ethernetif_init mac T TB R RB s))"
| reach_step: "eth_reach fns mac T TB R RB s \<Longrightarrow> eth_step fns s s' \<Longrightarrow> eth_reach fns mac T TB R RB s'"

section \<open>The abstract queues\<close>

text \<open>Two queues of at most four frames: to the wire, and to lwIP, which gets a frame without its checksum.\<close>

record net_spec =
  n_queue :: "u8 list list"
  n_wire :: "u8 list list"
  n_stored :: "u8 list list"
  n_given :: "u8 list list"

inductive spec_step :: "net_spec \<Rightarrow> net_spec \<Rightarrow> bool" where
  spec_accept: "length (n_queue a) < 4 \<Longrightarrow> spec_step a (a\<lparr>n_queue := n_queue a @ [f]\<rparr>)"
| spec_transmit: "n_queue a = f # q \<Longrightarrow> spec_step a (a\<lparr>n_queue := q, n_wire := n_wire a @ [f]\<rparr>)"
| spec_store: "length (n_stored a) < 4 \<Longrightarrow> spec_step a (a\<lparr>n_stored := n_stored a @ [f]\<rparr>)"
| spec_give: "n_stored a = f # q \<Longrightarrow> spec_step a (a\<lparr>n_stored := q, n_given := n_given a @ [frame_data f]\<rparr>)"
| spec_drop: "n_stored a = f # q \<Longrightarrow> spec_step a (a\<lparr>n_stored := q\<rparr>)"

definition net_rel :: "u32 \<Rightarrow> u32 \<Rightarrow> u32 \<Rightarrow> u32 \<Rightarrow> 'a net_scheme \<Rightarrow> net_spec \<Rightarrow> bool" where
  "net_rel T TB R RB s a \<longleftrightarrow>
     (\<exists>kt kr. net_inv T TB R RB kt (n_queue a) kr (n_stored a) s) \<and> n_wire a = wire s \<and> n_given a = given s"

section \<open>One event\<close>

lemma output_net:
  assumes "ELock s = HAL_UNLOCKED" "\<not> tx_owned (TxDesc s) s" "1 \<le> length (concat p)" "length (concat p) \<le> 1524"
  shows "given (snd (low_level_output p s)) = given s"
  by (simp add: output_fits [OF assms] tx_underflow_def tx_demand_def write_DMATPDR_def write_DMASR_def)

lemma net_invD:
  assumes "net_inv T TB R RB kt qt kr qr s"
  shows "eth_layout T TB R RB" "tx_ring T TB kt qt s" "rx_ring R RB kr qr s" "ELock s = HAL_UNLOCKED"
  using assms by (simp_all add: net_inv_def)

lemma layoutD:
  assumes "eth_layout T TB R RB"
  shows "unat T + 128 \<le> 2 ^ 32" "unat R + 128 \<le> 2 ^ 32" "unat TB + 6096 \<le> 2 ^ 32" "unat RB + 6096 \<le> 2 ^ 32"
  using assms by (simp_all add: eth_layout_def)

text \<open>A frame is sent: accepted if fewer than four wait.\<close>

lemma net_send:
  fixes s :: "'a net_scheme"
  assumes i: "net_inv T TB R RB kt qt kr qr s" and p: "1 \<le> length (concat p)" "length (concat p) \<le> 1524" and l: "length qt < 4"
  shows "fst (low_level_output p s) = ERR_OK" "net_inv T TB R RB kt (qt @ [concat p]) kr qr (snd (low_level_output p s))"
    "wire (snd (low_level_output p s)) = wire s" "given (snd (low_level_output p s)) = given s"
proof -
  note d = net_invD [OF i]
  note lay = layoutD [OF d(1)]
  have o: "\<not> tx_owned (TxDesc s) s"
    using tx_ring_next [OF d(2)] l by simp
  note e = output_effect [OF d(4) o p]
  have td: "TxDesc s = ring_desc T (kt + length qt)"
    by (rule tx_ringD(4) [OF d(2)])
  have b: "Buffer1Addr (descs s (TxDesc s)) = ring_buf TB (kt + length qt)"
    unfolding td by (rule ring_linksD(2) [OF tx_ringD(1) [OF d(2)]])
  have ap: "ring_desc R j \<noteq> ring_desc T (kt + length qt)" for j
    using ring_desc_apart [OF d(1), of "kt + length qt" j] by simp
  have bb: "write_bytes (ebuf s) (ring_buf TB (kt + length qt)) (concat p) (ring_buf RB j + of_nat x) = ebuf s (ring_buf RB j + of_nat x)"
    if "x < 1524" for j x
    using ring_bufs_apart [OF d(1), where i = "kt + length qt" and j = j and y = x] that by (intro write_other p) metis
  have rs: "rx_same R RB s (snd (low_level_output p s))"
    unfolding rx_same_def e(2,3,6,7,8,9,11) b using e(14) ap bb by (simp add: td)
  from tx_ring_send [OF d(2) lay(1,3) d(4) p l] rx_ring_same [OF d(3) rs] d(1) e(12)
  show "net_inv T TB R RB kt (qt @ [concat p]) kr qr (snd (low_level_output p s))" "fst (low_level_output p s) = ERR_OK"
    by (simp_all add: net_inv_def)
  show "wire (snd (low_level_output p s)) = wire s" "given (snd (low_level_output p s)) = given s"
    by (rule e(10), rule output_net [OF d(4) o p])
qed

lemma net_send_full:
  fixes s :: "'a net_scheme"
  assumes i: "net_inv T TB R RB kt qt kr qr s" and p: "p \<noteq> []" and l: "length qt = 4"
  shows "fst (low_level_output p s) = ERR_USE" "net_inv T TB R RB kt qt kr qr (snd (low_level_output p s))"
    "wire (snd (low_level_output p s)) = wire s" "given (snd (low_level_output p s)) = given s"
proof -
  note d = net_invD [OF i]
  have o: "tx_owned (TxDesc s) s"
    using tx_ring_next [OF d(2)] l by simp
  have e: "snd (low_level_output p s) = tx_underflow s"
    by (simp add: output_owned [OF o p])
  have rs: "rx_same R RB s (snd (low_level_output p s))"
    unfolding e by (simp add: rx_same_def)
  show "net_inv T TB R RB kt qt kr qr (snd (low_level_output p s))" "fst (low_level_output p s) = ERR_USE"
    using tx_ring_full [OF d(2) l p] rx_ring_same [OF d(3) rs] d(1,4) by (simp_all add: net_inv_def e)
  show "wire (snd (low_level_output p s)) = wire s" "given (snd (low_level_output p s)) = given s"
    by (simp_all add: e) (simp add: tx_underflow_def write_DMATPDR_def write_DMASR_def)
qed

text \<open>The transmit DMA does not touch the receive side.\<close>

lemma tx_dma_rx_same:
  assumes "eth_layout T TB R RB" and "tx_ring T TB k q s"
  shows "rx_same R RB s (eth_tx_dma s)" "ELock (eth_tx_dma s) = ELock s"
proof -
  have "ring_desc R j \<noteq> ring_desc T k" for j
    using ring_desc_apart [OF assms(1), of k j] by simp
  then show "rx_same R RB s (eth_tx_dma s)"
    using tx_ringD(3) [OF assms(2)] by (auto simp: rx_same_def eth_tx_dma_def Let_def upd_desc_def bit_simps)
  show "ELock (eth_tx_dma s) = ELock s"
    by (simp add: eth_tx_dma_def Let_def upd_desc_def)
qed

lemma tx_dma_given [simp]: "given (eth_tx_dma s) = given s"
  by (simp add: eth_tx_dma_def Let_def upd_desc_def)

lemma net_transmit:
  fixes s :: "'a net_scheme"
  assumes i: "net_inv T TB R RB kt (f # qt) kr qr s"
  shows "net_inv T TB R RB (Suc kt) qt kr qr (eth_tx_dma s)" "wire (eth_tx_dma s) = wire s @ [f]"
proof -
  note d = net_invD [OF i]
  show "net_inv T TB R RB (Suc kt) qt kr qr (eth_tx_dma s)" "wire (eth_tx_dma s) = wire s @ [f]"
    using tx_ring_dma [OF d(2) layoutD(1) [OF d(1)]] rx_ring_same [OF d(3) tx_dma_rx_same(1) [OF d(1,2)]]
      tx_dma_rx_same(2) [OF d(1,2)] d(1,4) by (simp_all add: net_inv_def)
qed

lemma net_idle:
  fixes s :: "'a net_scheme"
  assumes i: "net_inv T TB R RB kt [] kr qr s"
  shows "net_inv T TB R RB kt [] kr qr (eth_tx_dma s)" "wire (eth_tx_dma s) = wire s"
proof -
  note d = net_invD [OF i]
  show "net_inv T TB R RB kt [] kr qr (eth_tx_dma s)" "wire (eth_tx_dma s) = wire s"
    using tx_ring_idle [OF d(2)] rx_ring_same [OF d(3) tx_dma_rx_same(1) [OF d(1,2)]]
      tx_dma_rx_same(2) [OF d(1,2)] d(1,4) by (simp_all add: net_inv_def)
qed

text \<open>A frame arrives.\<close>

lemma rx_dma_fields [simp]:
  "ELock (eth_rx_dma f s) = ELock s" "wire (eth_rx_dma f s) = wire s" "given (eth_rx_dma f r) = given r"
  "net.more (eth_rx_dma f r) = net.more r"
  by (simp_all add: eth_rx_dma_def Let_def upd_desc_def)

lemma net_receive:
  fixes s :: "'a net_scheme"
  assumes i: "net_inv T TB R RB kt qt kr qr s"
  shows "net_inv T TB R RB kt qt kr (if length qr < 4 \<and> frame_ok f then qr @ [f] else qr) (eth_rx_dma f s)"
proof -
  note d = net_invD [OF i]
  show ?thesis
  proof (cases "length qr < 4 \<and> frame_ok f")
    case True
    then have "rx_ring R RB kr (qr @ [f]) (eth_rx_dma f s) \<and> tx_same T TB s (eth_rx_dma f s)"
      by (intro rx_ring_store [OF d(3,1)]) simp_all
    with True d(1,4) tx_ring_same [OF d(2)] show ?thesis
      by (simp add: net_inv_def)
  next
    case False
    then have "length qr = 4 \<or> \<not> frame_ok f"
      using rx_ringD(2) [OF d(3)] by auto
    then have "rx_ring R RB kr qr (eth_rx_dma f s) \<and> tx_same T TB s (eth_rx_dma f s)"
      by (rule rx_ring_lost [OF d(3)])
    with False d(1,4) tx_ring_same [OF d(2)] show ?thesis
      by (auto simp: net_inv_def)
  qed
qed

section \<open>The events implement the queues\<close>

lemma net_own: "net_inv T TB R RB kt qt kr qr (s\<lparr>net.more := w\<rparr>) \<longleftrightarrow> net_inv T TB R RB kt qt kr qr s"
proof -
  have t: "tx_ring T TB kt qt (s\<lparr>net.more := w\<rparr>) \<longleftrightarrow> tx_ring T TB kt qt s"
    by (rule iffI; erule tx_ring_same) (simp_all add: tx_same_def)
  have r: "rx_ring R RB kr qr (s\<lparr>net.more := w\<rparr>) \<longleftrightarrow> rx_ring R RB kr qr s"
    by (rule iffI; erule rx_ring_same) (simp_all add: rx_same_def)
  show ?thesis
    by (simp add: net_inv_def t r)
qed

lemma rel_own: "net_rel T TB R RB s a \<Longrightarrow> net_rel T TB R RB (s\<lparr>net.more := w\<rparr>) a"
  by (simp add: net_rel_def net_own)

lemma rel_send:
  assumes r: "net_rel T TB R RB s a" and p: "1 \<le> length (concat p)" "length (concat p) \<le> 1524"
  shows "\<exists>a'. spec_step\<^sup>*\<^sup>* a a' \<and> net_rel T TB R RB (snd (low_level_output p s)) a' \<and> n_stored a' = n_stored a \<and> n_given a' = n_given a"
proof -
  obtain kt kr where i: "net_inv T TB R RB kt (n_queue a) kr (n_stored a) s"
    and w: "n_wire a = wire s" "n_given a = given s"
    using r unfolding net_rel_def by blast
  show ?thesis
  proof (cases "length (n_queue a) < 4")
    case True
    note e = net_send [OF i p True]
    from spec_accept [OF True] have "spec_step\<^sup>*\<^sup>* a (a\<lparr>n_queue := n_queue a @ [concat p]\<rparr>)"
      by blast
    moreover have "net_rel T TB R RB (snd (low_level_output p s)) (a\<lparr>n_queue := n_queue a @ [concat p]\<rparr>)"
      using e(2-4) w by (auto simp: net_rel_def)
    ultimately show ?thesis
      by (intro exI [of _ "a\<lparr>n_queue := n_queue a @ [concat p]\<rparr>"]) simp
  next
    case False
    then have l: "length (n_queue a) = 4"
      using tx_ringD(2) [OF net_invD(2) [OF i]] by simp
    have "p \<noteq> []"
      using p by auto
    note e = net_send_full [OF i this l]
    have "net_rel T TB R RB (snd (low_level_output p s)) a"
      using e(2-4) w by (auto simp: net_rel_def)
    then show ?thesis
      by blast
  qed
qed

lemma rel_transmit:
  assumes r: "net_rel T TB R RB s a"
  shows "\<exists>a'. spec_step\<^sup>*\<^sup>* a a' \<and> net_rel T TB R RB (eth_tx_dma s) a' \<and> n_stored a' = n_stored a \<and> n_given a' = n_given a"
proof -
  obtain kt kr where i: "net_inv T TB R RB kt (n_queue a) kr (n_stored a) s"
    and w: "n_wire a = wire s" "n_given a = given s"
    using r unfolding net_rel_def by blast
  show ?thesis
  proof (cases "n_queue a")
    case Nil
    from net_idle [OF i [unfolded Nil]] w Nil have "net_rel T TB R RB (eth_tx_dma s) a"
      by (auto simp: net_rel_def)
    then show ?thesis
      by blast
  next
    case (Cons f q)
    note e = net_transmit [OF i [unfolded Cons]]
    from spec_transmit [OF Cons] have "spec_step\<^sup>*\<^sup>* a (a\<lparr>n_queue := q, n_wire := n_wire a @ [f]\<rparr>)"
      by blast
    moreover have "net_rel T TB R RB (eth_tx_dma s) (a\<lparr>n_queue := q, n_wire := n_wire a @ [f]\<rparr>)"
      using e w by (auto simp: net_rel_def)
    ultimately show ?thesis
      by (intro exI [of _ "a\<lparr>n_queue := q, n_wire := n_wire a @ [f]\<rparr>"]) simp
  qed
qed

lemma rel_receive:
  assumes r: "net_rel T TB R RB s a"
  shows "\<exists>a'. spec_step\<^sup>*\<^sup>* a a' \<and> net_rel T TB R RB (eth_rx_dma f s) a' \<and>
    n_stored a' = (if length (n_stored a) < 4 \<and> frame_ok f then n_stored a @ [f] else n_stored a) \<and> n_given a' = n_given a"
proof -
  obtain kt kr where i: "net_inv T TB R RB kt (n_queue a) kr (n_stored a) s"
    and w: "n_wire a = wire s" "n_given a = given s"
    using r unfolding net_rel_def by blast
  let ?a = "if length (n_stored a) < 4 \<and> frame_ok f then a\<lparr>n_stored := n_stored a @ [f]\<rparr> else a"
  have "spec_step\<^sup>*\<^sup>* a ?a"
    using spec_store [of a f] by auto
  moreover have "net_rel T TB R RB (eth_rx_dma f s) ?a"
    using net_receive [OF i, of f] w by (auto simp: net_rel_def split: if_splits)
  ultimately show ?thesis
    by (intro exI [of _ ?a]) simp
qed

lemma rel_acts:
  assumes "lwip_acts s s'"
  shows "net_rel T TB R RB s a \<Longrightarrow>
    \<exists>a'. spec_step\<^sup>*\<^sup>* a a' \<and> net_rel T TB R RB s' a' \<and> n_stored a' = n_stored a \<and> n_given a' = n_given a"
  using assms
proof (induction rule: lwip_acts.induct)
  case (acts_nothing s)
  then show ?case by blast
next
  case (acts_own s s' w)
  then obtain b where b: "spec_step\<^sup>*\<^sup>* a b" "net_rel T TB R RB s' b" "n_stored b = n_stored a" "n_given b = n_given a"
    by blast
  from rel_own [OF b(2)] b show ?case
    by (intro exI [of _ b]) simp
next
  case (acts_send s s' p)
  then obtain b where b: "spec_step\<^sup>*\<^sup>* a b" "net_rel T TB R RB s' b" "n_stored b = n_stored a" "n_given b = n_given a"
    by blast
  from rel_send [OF b(2) acts_send.hyps(2,3)] obtain c where c: "spec_step\<^sup>*\<^sup>* b c"
      "net_rel T TB R RB (snd (low_level_output p s')) c" "n_stored c = n_stored b" "n_given c = n_given b"
    by blast
  from rtranclp_trans [OF b(1) c(1)] b c show ?case
    by (intro exI [of _ c]) simp
next
  case (acts_dma s s')
  then obtain b where b: "spec_step\<^sup>*\<^sup>* a b" "net_rel T TB R RB s' b" "n_stored b = n_stored a" "n_given b = n_given a"
    by blast
  from rel_transmit [OF b(2)] obtain c where c: "spec_step\<^sup>*\<^sup>* b c" "net_rel T TB R RB (eth_tx_dma s') c"
      "n_stored c = n_stored b" "n_given c = n_given b"
    by blast
  from rtranclp_trans [OF b(1) c(1)] b c show ?case
    by (intro exI [of _ c]) simp
qed

text \<open>One round of the interrupt handler takes one frame.\<close>

lemma rel_input:
  assumes r: "net_rel T TB R RB s a" and q: "n_stored a = f # q" and ok: "lwip_ok fns"
  shows "\<exists>a'. spec_step\<^sup>*\<^sup>* a a' \<and> net_rel T TB R RB (lwip_pkt_handle fns s) a' \<and> n_stored a' = q \<and>
    (pool_suffices fns \<longrightarrow> n_given a' = n_given a @ [frame_data f])"
proof -
  obtain kt kr where i: "net_inv T TB R RB kt (n_queue a) kr (f # q) s"
    and w: "n_wire a = wire s" "n_given a = given s"
    using r q unfolding net_rel_def by auto
  note d = net_invD [OF i]
  have al: "alloc_ok fns" and na: "\<And>p s. lwip_acts s (snd (netif_input fns p s))"
    using ok by (simp_all add: lwip_ok_def)
  obtain p ns s1 where s1: "low_level_input fns s = (p, s1)" "rx_ring R RB (Suc kr) q s1" "tx_same T TB s s1"
      "ELock s1 = HAL_UNLOCKED" "given s1 = given s" "\<not> rx_suspended s1"
      "pbuf_alloc fns (of_nat (length f - 4)) (net.more s) = (ns, net.more s1)" "ns = None \<longleftrightarrow> p = None"
      "p \<noteq> None \<longrightarrow> concat (the p) = frame_data f"
    by (rule input_frame [OF d(3,4,1) al])
  have i1: "net_inv T TB R RB kt (n_queue a) (Suc kr) q s1" and w1: "wire s1 = wire s"
    using d(1) tx_ring_same [OF d(2) s1(3)] s1(2,3,4) by (simp_all add: net_inv_def tx_same_def)
  show ?thesis
  proof (cases p)
    case None
    have e: "lwip_pkt_handle fns s = s1"
      using s1(1) None by (simp add: lwip_pkt_handle_def ethernetif_input_def)
    have "\<not> pool_suffices fns"
      using s1(7,8) None unfolding pool_suffices_def by (metis fst_conv)
    moreover have "spec_step\<^sup>*\<^sup>* a (a\<lparr>n_stored := q\<rparr>)"
      using spec_drop [OF q] by blast
    moreover have "net_rel T TB R RB s1 (a\<lparr>n_stored := q\<rparr>)"
      using i1 w1 w s1(5) by (auto simp: net_rel_def)
    ultimately show ?thesis
      unfolding e by (intro exI [of _ "a\<lparr>n_stored := q\<rparr>"]) simp
  next
    case (Some c)
    let ?s = "s1\<lparr>given := given s1 @ [concat c]\<rparr>"
    obtain err s2 where s2: "netif_input fns c ?s = (err, s2)"
      by (cases "netif_input fns c ?s")
    have act: "lwip_acts ?s s2"
      using na [of ?s c] s2 by simp
    define b where "b = a\<lparr>n_stored := q, n_given := n_given a @ [frame_data f]\<rparr>"
    have st: "spec_step\<^sup>*\<^sup>* a b"
      using spec_give [OF q] unfolding b_def by blast
    have "tx_ring T TB kt (n_queue a) ?s"
      by (rule tx_ring_same [OF net_invD(2) [OF i1]]) (simp add: tx_same_def)
    moreover have "rx_ring R RB (Suc kr) q ?s"
      by (rule rx_ring_same [OF net_invD(3) [OF i1]]) (simp add: rx_same_def)
    ultimately have "net_rel T TB R RB ?s b"
      using net_invD(1,4) [OF i1] w w1 s1(5,9) Some unfolding net_rel_def net_inv_def b_def by auto
    from rel_acts [OF act this] obtain b' where b': "spec_step\<^sup>*\<^sup>* b b'" "net_rel T TB R RB s2 b'" "n_stored b' = q"
        "n_given b' = n_given a @ [frame_data f]"
      by (auto simp: b_def)
    have e: "lwip_pkt_handle fns s = (if err \<noteq> ERR_OK then s2\<lparr>net.more := pbuf_free fns c (net.more s2)\<rparr> else s2)"
      using s1(1) Some s2 by (simp add: lwip_pkt_handle_def ethernetif_input_def)
    have "net_rel T TB R RB (lwip_pkt_handle fns s) b'"
      unfolding e using b'(2) rel_own [OF b'(2)] by simp
    with rtranclp_trans [OF st b'(1)] b' show ?thesis
      by (intro exI [of _ b']) simp
  qed
qed

lemma rx_pending:
  assumes "rx_ring R RB k q s"
  shows "ETH_GetRxPktSize (RxDesc s) s \<noteq> 0 \<longleftrightarrow> q \<noteq> []"
proof (cases q)
  case Nil
  then show ?thesis
    using rx_ringD(3) [OF assms] rx_ringD(6) [OF assms, of 0] by (simp add: ETH_GetRxPktSize_def flag_bits)
next
  case (Cons f r)
  then have "rx_slot R RB s k f"
    using rx_ringD(5) [OF assms, of 0] by simp
  then have st: "Status (descs s (ring_desc R k)) = rx_status (length f)" and n: "length f < 16384" "64 \<le> length f"
    by (simp_all add: rx_slot_def frame_ok_def)
  have "(of_nat (length f) :: u32) \<noteq> 0"
    using n by (intro of_nat_u32_nonzero) linarith+
  moreover have "ETH_GetRxPktSize (RxDesc s) s = of_nat (length f)"
    unfolding ETH_GetRxPktSize_def rx_ringD(3) [OF assms] st rx_status_length [OF n(1)] using n(1)
    by (simp add: flag_bits rx_status_bits)
  ultimately have "ETH_GetRxPktSize (RxDesc s) s \<noteq> 0"
    by metis
  then show ?thesis
    using Cons by blast
qed

lemma rel_loop:
  assumes "lwip_ok fns"
  shows "net_rel T TB R RB s a \<Longrightarrow>
    (length (n_stored a) < fuel \<longrightarrow> irq_loop fns fuel s \<noteq> None) \<and>
    (\<forall>s'. irq_loop fns fuel s = Some s' \<longrightarrow> (\<exists>a'. spec_step\<^sup>*\<^sup>* a a' \<and> net_rel T TB R RB s' a' \<and> n_stored a' = [] \<and>
       (pool_suffices fns \<longrightarrow> n_given a' = n_given a @ map frame_data (n_stored a))))"
proof (induction fuel arbitrary: s a)
  case 0
  then show ?case by simp
next
  case (Suc fuel)
  obtain kt kr where "net_inv T TB R RB kt (n_queue a) kr (n_stored a) s"
    using Suc.prems unfolding net_rel_def by blast
  note pend = rx_pending [OF net_invD(3) [OF this]]
  show ?case
  proof (cases "n_stored a")
    case Nil
    then show ?thesis
      using pend Suc.prems by auto
  next
    case (Cons f q)
    have e: "irq_loop fns (Suc fuel) s = irq_loop fns fuel (lwip_pkt_handle fns s)"
      using pend Cons by simp
    obtain b where b: "spec_step\<^sup>*\<^sup>* a b" "net_rel T TB R RB (lwip_pkt_handle fns s) b" "n_stored b = q"
        "pool_suffices fns \<longrightarrow> n_given b = n_given a @ [frame_data f]"
      using rel_input [OF Suc.prems Cons assms] by blast
    have rest: "\<exists>a'. spec_step\<^sup>*\<^sup>* a a' \<and> net_rel T TB R RB s' a' \<and> n_stored a' = [] \<and>
        (pool_suffices fns \<longrightarrow> n_given a' = n_given a @ map frame_data (n_stored a))"
      if s': "irq_loop fns fuel (lwip_pkt_handle fns s) = Some s'" for s'
    proof -
      obtain c where "spec_step\<^sup>*\<^sup>* b c" "net_rel T TB R RB s' c" "n_stored c = []"
          "pool_suffices fns \<longrightarrow> n_given c = n_given b @ map frame_data (n_stored b)"
        using Suc.IH [OF b(2)] s' by blast
      with b Cons show ?thesis
        by (intro exI [of _ c]) (auto intro: rtranclp_trans)
    qed
    from Suc.IH [OF b(2)] b(3) rest show ?thesis
      unfolding e Cons by simp
  qed
qed

lemma rel_clear: "net_rel T TB R RB s a \<Longrightarrow>
    net_rel T TB R RB (HAL_ETH_DMA_CLEAR_IT ETH_DMA_IT_R (HAL_ETH_DMA_CLEAR_IT ETH_DMA_IT_NIS s)) a"
proof -
  let ?s = "HAL_ETH_DMA_CLEAR_IT ETH_DMA_IT_R (HAL_ETH_DMA_CLEAR_IT ETH_DMA_IT_NIS s)"
  assume "net_rel T TB R RB s a"
  then obtain kt kr where i: "net_inv T TB R RB kt (n_queue a) kr (n_stored a) s"
    and w: "n_wire a = wire s" "n_given a = given s"
    unfolding net_rel_def by blast
  have e: "?s = s\<lparr>DMASR := (DMASR s AND NOT ETH_DMA_IT_NIS) AND NOT ETH_DMA_IT_R\<rparr>"
    by (simp add: HAL_ETH_DMA_CLEAR_IT_def write_DMASR_def)
  have "tx_ring T TB kt (n_queue a) ?s"
    by (rule tx_ring_same [OF net_invD(2) [OF i]]) (simp add: e tx_same_def bit_simps)
  moreover have "rx_ring R RB kr (n_stored a) ?s"
    by (rule rx_ring_same [OF net_invD(3) [OF i]]) (simp add: e rx_same_def bit_simps)
  ultimately have "net_inv T TB R RB kt (n_queue a) kr (n_stored a) ?s"
    using net_invD(1,4) [OF i] by (simp add: net_inv_def e)
  then show ?thesis
    using w unfolding net_rel_def by (auto simp: e)
qed

text \<open>The interrupt handler returns once its fuel exceeds the number of frames stored, and empties the ring.\<close>

lemma rel_interrupt:
  assumes "lwip_ok fns" and "net_rel T TB R RB s a"
  shows "length (n_stored a) < fuel \<Longrightarrow> ETH_IRQHandler fns fuel s \<noteq> None"
    and "ETH_IRQHandler fns fuel s = Some s' \<Longrightarrow> \<exists>a'. spec_step\<^sup>*\<^sup>* a a' \<and> net_rel T TB R RB s' a' \<and> n_stored a' = [] \<and>
       (pool_suffices fns \<longrightarrow> n_given a' = n_given a @ map frame_data (n_stored a))"
proof -
  note l = rel_loop [OF assms, of fuel]
  show "length (n_stored a) < fuel \<Longrightarrow> ETH_IRQHandler fns fuel s \<noteq> None"
    using l by (auto simp: ETH_IRQHandler_def Let_def split: option.splits)
  assume "ETH_IRQHandler fns fuel s = Some s'"
  then obtain s1 where s1: "irq_loop fns fuel s = Some s1"
      and e: "s' = HAL_ETH_DMA_CLEAR_IT ETH_DMA_IT_R (HAL_ETH_DMA_CLEAR_IT ETH_DMA_IT_NIS s1)"
    by (auto simp: ETH_IRQHandler_def Let_def split: option.splits)
  from l s1 obtain b where "spec_step\<^sup>*\<^sup>* a b" "net_rel T TB R RB s1 b" "n_stored b = []"
      "pool_suffices fns \<longrightarrow> n_given b = n_given a @ map frame_data (n_stored a)"
    by blast
  with rel_clear [of T TB R RB s1 b] show "\<exists>a'. spec_step\<^sup>*\<^sup>* a a' \<and> net_rel T TB R RB s' a' \<and> n_stored a' = [] \<and>
       (pool_suffices fns \<longrightarrow> n_given a' = n_given a @ map frame_data (n_stored a))"
    unfolding e by blast
qed

lemma rel_step:
  assumes "eth_step fns s s'" and "lwip_ok fns" and "net_rel T TB R RB s a"
  shows "\<exists>a'. spec_step\<^sup>*\<^sup>* a a' \<and> net_rel T TB R RB s' a'"
  using assms(1)
proof cases
  case (step_send p)
  then show ?thesis
    using rel_send [OF assms(3)] by blast
next
  case step_transmit
  then show ?thesis
    using rel_transmit [OF assms(3)] by blast
next
  case (step_receive f)
  then show ?thesis
    using rel_receive [OF assms(3)] by blast
next
  case (step_interrupt fuel)
  then show ?thesis
    using rel_interrupt(2) [OF assms(2,3)] by blast
next
  case (step_own w)
  then show ?thesis
    using rel_own [OF assms(3)] by blast
qed

definition spec_start :: "'a net_scheme \<Rightarrow> net_spec" where
  "spec_start s = \<lparr>n_queue = [], n_wire = wire s, n_stored = [], n_given = given s\<rparr>"

lemma rel_start:
  "eth_layout T TB R RB \<Longrightarrow> eth_fresh s \<Longrightarrow> net_rel T TB R RB (snd (ethernetif_init mac T TB R RB s)) (spec_start s)"
  using net_inv_start [of T TB R RB s mac] by (auto simp: net_rel_def spec_start_def)

text \<open>The fresh states from which a state is reached are those with the frames of the start on the wire.\<close>

lemma reach_rel:
  fixes s :: "'a net_scheme"
  assumes "eth_reach fns mac T TB R RB s" and "eth_layout T TB R RB" and "lwip_ok fns"
  shows "\<exists>(s0 :: 'a net_scheme) a. eth_fresh s0 \<and> spec_step\<^sup>*\<^sup>* (spec_start s0) a \<and> net_rel T TB R RB s a"
  using assms(1)
proof (induction rule: eth_reach.induct)
  case (reach_start s)
  then show ?case
    using rel_start [OF assms(2) reach_start, of mac] by blast
next
  case (reach_step s s')
  then obtain s0 a where a: "eth_fresh (s0 :: 'a net_scheme)" "spec_step\<^sup>*\<^sup>* (spec_start s0) a" "net_rel T TB R RB s a"
    by blast
  from rel_step [OF reach_step.hyps(2) assms(3) a(3)] obtain b where b: "spec_step\<^sup>*\<^sup>* a b" "net_rel T TB R RB s' b"
    by blast
  from rtranclp_trans [OF a(2) b(1)] b(2) a(1) show ?case
    by blast
qed

section \<open>Properties\<close>

text \<open>The memory before the start: everything zero, the handle unlocked.\<close>

definition reset_net :: net where
  "reset_net = \<lparr>emac = \<lparr>MACCR = 0x8000, MACFFR = 0, MACHTHR = 0, MACHTLR = 0, MACMIIAR = 0, MACMIIDR = 0, MACFCR = 0,
       MACVLANTR = 0, MACAHR = (\<lambda>_. 0), MACALR = (\<lambda>_. 0), PMC = 0, syscfg_clock = False\<rparr>,
     DMABMR = 0, DMARDLAR = 0, DMATDLAR = 0, DMASR = 0, DMAOMR = 0, DMAIER = 0,
     EInit = \<lparr>AutoNegotiation = 1, Speed = 0x4000, DuplexMode = 0x800, PhyAddress = 0, MACAddr = [2, 0, 0, 1, 2, 3],
       RxMode = 1, ChecksumMode = 0, MediaInterface = 0x00800000\<rparr>,
     RxDesc = 0, TxDesc = 0,
     RxFrameInfos = \<lparr>FSRxDesc = 0, LSRxDesc = 0, SegCount = 0, frame_length = 0, frame_buffer = 0\<rparr>,
     EState = HAL_ETH_STATE_READY, ELock = HAL_UNLOCKED,
     descs = (\<lambda>_. \<lparr>Status = 0, ControlBufferSize = 0, Buffer1Addr = 0, Buffer2NextDescAddr = 0, ExtendedStatus = 0,
       Reserved1 = 0, TimeStampLow = 0, TimeStampHigh = 0\<rparr>),
     ebuf = (\<lambda>_. 0), tx_at = 0, rx_at = 0, tx_suspended = False, rx_suspended = False, tx_part = [], wire = [],
     eth_polls = 0, hwaddr_len = 0, hwaddr = [], mtu = 0, netif_flags = 0, netif_name = [], given = []\<rparr>"

text \<open>A stack that takes every frame and sends none.\<close>

definition quiet_stack :: "unit lwip_fns" where
  "quiet_stack = \<lparr>pbuf_alloc = (\<lambda>n w. (Some [n], w)), netif_input = (\<lambda>p s. (ERR_OK, s)), pbuf_free = (\<lambda>p w. w)\<rparr>"

lemma quiet_stack_ok: "lwip_ok quiet_stack" "pool_suffices quiet_stack"
  by (auto simp: lwip_ok_def alloc_ok_def quiet_stack_def pool_suffices_def intro: acts_nothing)

lemma example_layout: "eth_layout 0x20001000 0x20002000 0x20001100 0x20004000"
  by (simp add: eth_layout_def)

lemma example_reach: "eth_reach quiet_stack [2, 0, 0, 1, 2, 3] 0x20001000 0x20002000 0x20001100 0x20004000
    (snd (ethernetif_init [2, 0, 0, 1, 2, 3] 0x20001000 0x20002000 0x20001100 0x20004000 reset_net))"
  by (rule reach_start) (simp add: eth_fresh_def reset_net_def)

lemma reach_net_rel:
  assumes "eth_reach fns mac T TB R RB s" "eth_layout T TB R RB" "lwip_ok fns"
  obtains a kt kr where "net_rel T TB R RB s a" "net_inv T TB R RB kt (n_queue a) kr (n_stored a) s"
    "n_wire a = wire s" "n_given a = given s"
proof -
  obtain a where "net_rel T TB R RB s a"
    using reach_rel [OF assms] by blast
  with that show ?thesis
    unfolding net_rel_def by blast
qed

text \<open>
  C6. In every state the network interface reaches after \<open>ethernetif_init\<close>, whatever lwIP sends, whatever frames arrive and whenever the
  interrupt runs, the rings of descriptors are two queues of at most four frames, and every further event
  is a sequence of steps of these queues: a frame accepted is appended to the first, the DMA puts its first frame on the wire,
  a frame that arrives is appended to the second, and lwIP gets its first frame or that is dropped.
\<close>

theorem network_interface_refines_queues:
  fixes s :: "'a net_scheme"
  assumes "eth_reach fns mac T TB R RB s" "eth_layout T TB R RB" "lwip_ok fns"
  shows "\<exists>(s0 :: 'a net_scheme) a. eth_fresh s0 \<and> spec_step\<^sup>*\<^sup>* (spec_start s0) a \<and> net_rel T TB R RB s a \<and>
    (\<forall>s'. eth_step fns s s' \<longrightarrow> (\<exists>a'. spec_step\<^sup>*\<^sup>* a a' \<and> net_rel T TB R RB s' a'))"
proof -
  obtain s0 a where a: "eth_fresh (s0 :: 'a net_scheme)" "spec_step\<^sup>*\<^sup>* (spec_start s0) a" "net_rel T TB R RB s a"
    using reach_rel [OF assms] by blast
  with rel_step [OF _ assms(3) a(3)] show ?thesis
    by blast
qed

theorem network_interface_refines_queues_witness:
  "\<exists>(s0 :: net) a. eth_fresh s0 \<and> spec_step\<^sup>*\<^sup>* (spec_start s0) a \<and>
    net_rel 0x20001000 0x20002000 0x20001100 0x20004000
      (snd (ethernetif_init [2, 0, 0, 1, 2, 3] 0x20001000 0x20002000 0x20001100 0x20004000 reset_net)) a"
  using network_interface_refines_queues [OF example_reach example_layout quiet_stack_ok(1)] by blast

text \<open>All frames that wait are on the wire after as many steps of the DMA.\<close>

lemma drained:
  fixes s :: "'a net_scheme"
  shows "net_inv T TB R RB kt qt kr qr s \<Longrightarrow> wire ((eth_tx_dma ^^ length qt) s) = wire s @ qt"
proof (induction qt arbitrary: kt s)
  case Nil
  then show ?case by simp
next
  case (Cons f qt)
  from Cons.IH [OF net_transmit(1) [OF Cons.prems]] net_transmit(2) [OF Cons.prems] show ?case
    by (simp add: funpow_swap1)
qed

text \<open>
  C8. \<open>low_level_output\<close> on a frame of 1 to 1524 bytes, however it is divided into pbufs, in any state the network interface
  reaches: with fewer than four frames waiting it returns \<open>ERR_OK\<close>, and the DMA puts the frames that wait and then this one on the wire, byte for
  byte and in order; with four waiting it returns \<open>ERR_USE\<close>, and those four still go out.
\<close>

theorem frame_sent:
  assumes "eth_reach fns mac T TB R RB s" "eth_layout T TB R RB" "lwip_ok fns"
    and p: "1 \<le> length (concat p)" "length (concat p) \<le> 1524"
  shows "\<exists>q. length q \<le> 4 \<and> wire ((eth_tx_dma ^^ length q) s) = wire s @ q \<and>
    (if length q < 4
     then fst (low_level_output p s) = ERR_OK \<and>
       wire ((eth_tx_dma ^^ (length q + 1)) (snd (low_level_output p s))) = wire s @ q @ [concat p]
     else fst (low_level_output p s) = ERR_USE \<and>
       wire ((eth_tx_dma ^^ length q) (snd (low_level_output p s))) = wire s @ q)"
proof -
  obtain a kt kr where "net_rel T TB R RB s a" and i: "net_inv T TB R RB kt (n_queue a) kr (n_stored a) s"
    by (rule reach_net_rel [OF assms(1-3)])
  have l: "length (n_queue a) \<le> 4"
    by (rule tx_ringD(2) [OF net_invD(2) [OF i]])
  have "p \<noteq> []"
    using p by auto
  then show ?thesis
    using drained [OF i] net_send(1,3) [OF i p] net_send_full(1,3) [OF i]
      drained [OF net_send(2) [OF i p]] drained [OF net_send_full(2) [OF i]] l
    by (intro exI [of _ "n_queue a"]) auto
qed

theorem frame_sent_witness:
  "\<exists>s :: net. \<exists>q. length q \<le> 4 \<and> wire ((eth_tx_dma ^^ length q) s) = wire s @ q \<and>
    (if length q < 4
     then fst (low_level_output [[1, 2], [3]] s) = ERR_OK \<and>
       wire ((eth_tx_dma ^^ (length q + 1)) (snd (low_level_output [[1, 2], [3]] s))) = wire s @ q @ [concat [[1, 2], [3]]]
     else fst (low_level_output [[1, 2], [3]] s) = ERR_USE \<and>
       wire ((eth_tx_dma ^^ length q) (snd (low_level_output [[1, 2], [3]] s))) = wire s @ q)"
  by (rule exI, rule frame_sent [OF example_reach example_layout quiet_stack_ok(1)]) simp_all

text \<open>Up to four frames that arrive at an empty ring are stored.\<close>

lemma rel_receives:
  assumes "\<forall>f \<in> set fs. frame_ok f"
  shows "net_rel T TB R RB s a \<Longrightarrow> length (n_stored a) + length fs \<le> 4 \<Longrightarrow>
    \<exists>b. net_rel T TB R RB (fold eth_rx_dma fs s) b \<and> n_stored b = n_stored a @ fs \<and> n_given b = n_given a"
  using assms
proof (induction fs arbitrary: s a)
  case Nil
  then show ?case by auto
next
  case (Cons f fs)
  obtain b where b: "net_rel T TB R RB (eth_rx_dma f s) b" "n_stored b = n_stored a @ [f]" "n_given b = n_given a"
    using rel_receive [OF Cons.prems(1), of f] Cons.prems(2,3) by auto
  from Cons.IH [OF b(1)] Cons.prems(2,3) b(2,3) show ?case
    by simp
qed

text \<open>
  C7. Once the interrupt handler has run, up to four frames of 64 to 1522 bytes that then arrive are passed to lwIP by its next
  run, each once, in order, byte for byte and without the checksum; the handler returns after at most
  five tests of its loop, as long as the memory of the pbufs suffices.
\<close>

theorem frames_delivered:
  assumes "eth_reach fns mac T TB R RB s" "eth_layout T TB R RB" "lwip_ok fns" "pool_suffices fns"
    and "ETH_IRQHandler fns fuel s = Some s1" and "length fs \<le> 4" "\<forall>f \<in> set fs. frame_ok f"
  shows "\<exists>s2. ETH_IRQHandler fns 5 (fold eth_rx_dma fs s1) = Some s2 \<and> given s2 = given s1 @ map frame_data fs"
proof -
  obtain a kt kr where a: "net_rel T TB R RB s a"
    by (rule reach_net_rel [OF assms(1-3)])
  obtain b where b: "net_rel T TB R RB s1 b" "n_stored b = []"
    using rel_interrupt(2) [OF assms(3) a assms(5)] by blast
  obtain c where c: "net_rel T TB R RB (fold eth_rx_dma fs s1) c" "n_stored c = fs" "n_given c = n_given b"
    using rel_receives [OF assms(7) b(1)] b(2) assms(6) by auto
  obtain s2 where s2: "ETH_IRQHandler fns 5 (fold eth_rx_dma fs s1) = Some s2"
    using rel_interrupt(1) [OF assms(3) c(1), of 5] c(2) assms(6) by auto
  obtain d where "net_rel T TB R RB s2 d" "n_given d = n_given c @ map frame_data (n_stored c)"
    using rel_interrupt(2) [OF assms(3) c(1) s2] assms(4) by blast
  then have "given s2 = given s1 @ map frame_data fs"
    using b(1) c(2,3) by (simp add: net_rel_def)
  with s2 show ?thesis
    by blast
qed

theorem frames_delivered_witness:
  "\<exists>s1 s2 :: net. ETH_IRQHandler quiet_stack 5 (fold eth_rx_dma [replicate 64 1, replicate 65 2] s1) = Some s2 \<and>
    given s2 = given s1 @ map frame_data [replicate 64 1, replicate 65 2]"
proof -
  let ?s = "snd (ethernetif_init [2, 0, 0, 1, 2, 3] 0x20001000 0x20002000 0x20001100 0x20004000 reset_net)"
  obtain a where a: "net_rel 0x20001000 0x20002000 0x20001100 0x20004000 ?s a" "n_stored a = []"
    using rel_start [OF example_layout, of reset_net "[2, 0, 0, 1, 2, 3]"] by (auto simp: eth_fresh_def reset_net_def spec_start_def)
  obtain s1 where s1: "ETH_IRQHandler quiet_stack 1 ?s = Some s1"
    using rel_interrupt(1) [OF quiet_stack_ok(1) a(1), of 1] a(2) by auto
  have "length [replicate 64 1, replicate 65 (2 :: u8)] \<le> 4" "\<forall>f \<in> set [replicate 64 1, replicate 65 (2 :: u8)]. frame_ok f"
    by (simp_all add: frame_ok_def)
  from frames_delivered [OF example_reach example_layout quiet_stack_ok s1 this] show ?thesis
    by blast
qed

text \<open>
  C31. An interrupt by a frame that arrives while the main program is inside \<open>HAL_ETH_TransmitFrame\<close>, between its \<open>__HAL_LOCK\<close>
  and its \<open>__HAL_UNLOCK\<close>, never returns: \<open>HAL_ETH_GetReceivedFrame\<close> refuses the
  locked handle without taking the frame, so that the loop of \<open>ETH_IRQHandler\<close> sees it for ever.
\<close>

theorem interrupt_during_transmission_hangs:
  assumes "eth_reach fns mac T TB R RB s" "eth_layout T TB R RB" "lwip_ok fns" "frame_ok f"
  shows "ETH_IRQHandler fns fuel (eth_rx_dma f (s\<lparr>ELock := HAL_LOCKED\<rparr>)) = None"
proof -
  obtain a kt kr where "net_rel T TB R RB s a" and i: "net_inv T TB R RB kt (n_queue a) kr (n_stored a) s"
    by (rule reach_net_rel [OF assms(1-3)])
  note d = net_invD [OF i]
  let ?s = "s\<lparr>ELock := HAL_LOCKED\<rparr>"
  have r: "rx_ring R RB kr (n_stored a) ?s"
    by (rule rx_ring_same [OF d(3)]) (simp add: rx_same_def)
  obtain q where q: "rx_ring R RB kr q (eth_rx_dma f ?s)" "q \<noteq> []"
  proof (cases "length (n_stored a) < 4")
    case True
    with rx_ring_store [OF r d(1) True assms(4)] that show ?thesis
      by blast
  next
    case False
    then have l: "length (n_stored a) = 4"
      using rx_ringD(2) [OF r] by simp
    then have "n_stored a \<noteq> []"
      by auto
    with rx_ring_lost [OF r, of f T TB] l that show ?thesis
      by blast
  qed
  have "irq_loop fns fuel s' = None" if "ELock s' = HAL_LOCKED" "ETH_GetRxPktSize (RxDesc s') s' \<noteq> 0" for s' :: "'a net_scheme"
    using that
  proof (induction fuel)
    case 0
    then show ?case by simp
  next
    case (Suc fuel)
    have "lwip_pkt_handle fns s' = s'"
      using Suc.prems(1) by (simp add: lwip_pkt_handle_def ethernetif_input_def low_level_input_def HAL_ETH_GetReceivedFrame_def)
    with Suc show ?case
      by simp
  qed
  from this [of "eth_rx_dma f ?s"] rx_pending [OF q(1)] q(2) show ?thesis
    by (simp add: ETH_IRQHandler_def)
qed

theorem interrupt_during_transmission_hangs_witness:
  "ETH_IRQHandler quiet_stack 1000 (eth_rx_dma (replicate 64 1)
    ((snd (ethernetif_init [2, 0, 0, 1, 2, 3] 0x20001000 0x20002000 0x20001100 0x20004000 reset_net))\<lparr>ELock := HAL_LOCKED\<rparr>)) = None"
  by (rule interrupt_during_transmission_hangs [OF example_reach example_layout quiet_stack_ok(1)]) (simp add: frame_ok_def)

end
