(* ===== verification/LanInit.thy ===== *)
theory LanInit
  imports EthProps
begin

text \<open>
  How long the initialisation of the Ethernet takes: every wait of the driver is limited by the tick, so that \<open>LAN8720_Init\<close> returns for
  every behaviour of MAC, DMA and transceiver.
\<close>

section \<open>The clock\<close>

text \<open>
  The value of the tick at the \<open>k\<close>-th reading is \<open>tau k\<close>: it advances by at most one between two readings, and by at least one
  in \<open>N\<close> readings. The hardware does not count readings.
\<close>

definition clock_runs :: "nat \<Rightarrow> (nat \<Rightarrow> nat) \<Rightarrow> 'a eth_env \<Rightarrow> bool" where
  "clock_runs N tau env \<longleftrightarrow> (\<forall>k. e_tick env k = of_nat (tau k) \<and> tau k \<le> tau (Suc k) \<and> tau (Suc k) \<le> tau k + 1 \<and> tau k < tau (k + N)) \<and>
     (\<forall>k s. eth_polls (e_hw env k s) = eth_polls s)"

lemma clock_mono: "clock_runs N tau env \<Longrightarrow> j \<le> k \<Longrightarrow> tau j \<le> tau k"
  by (rule lift_Suc_mono_le [of tau]) (simp_all add: clock_runs_def)

lemma clock_progress:
  assumes "clock_runs N tau env"
  shows "tau k + d \<le> tau (k + N * d)"
proof (induction d)
  case (Suc d)
  have "tau (k + N * d) < tau (k + N * d + N)"
    using assms by (simp add: clock_runs_def)
  then show ?case
    using Suc by (simp add: algebra_simps)
qed simp

definition eth_poll :: "'a eth_env \<Rightarrow> 'a eth_scheme \<Rightarrow> 'a eth_scheme" where
  "eth_poll env s = snd (read_tick env s)"

lemma read_tick_poll:
  "clock_runs N tau env \<Longrightarrow> read_tick env s = (of_nat (tau (eth_polls s)), eth_poll env s)"
  "clock_runs N tau env \<Longrightarrow> eth_polls (eth_poll env s) = Suc (eth_polls s)"
  by (simp_all add: read_tick_def eth_poll_def clock_runs_def Let_def)

lemma tick_elapsed:
  assumes "a \<le> b" "b - a < 2 ^ 32"
  shows "(of_nat b - of_nat a :: u32) = of_nat (b - a)" "unat (of_nat b - of_nat a :: u32) = b - a"
proof -
  show e: "(of_nat b - of_nat a :: u32) = of_nat (b - a)"
    using assms(1) by (simp add: of_nat_diff)
  show "unat (of_nat b - of_nat a :: u32) = b - a"
    unfolding e by (rule unat_of_nat32) (rule assms(2))
qed

section \<open>Returning in time\<close>

text \<open>
  A computation that starts at reading \<open>k\<close> returns, and the tick then shows at most \<open>d\<close> more; \<open>st\<close> takes the state from the result.
\<close>

definition returns_in :: "(nat \<Rightarrow> nat) \<Rightarrow> ('r \<Rightarrow> 'a eth_scheme) \<Rightarrow> nat \<Rightarrow> nat \<Rightarrow> 'r option \<Rightarrow> bool" where
  "returns_in tau st d k m \<longleftrightarrow> (\<exists>x. m = Some x \<and> k \<le> eth_polls (st x) \<and> tau (eth_polls (st x)) \<le> tau k + d)"

lemma returns_in_Some: "k \<le> eth_polls (st x) \<Longrightarrow> tau (eth_polls (st x)) \<le> tau k + d \<Longrightarrow> returns_in tau st d k (Some x)"
  by (simp add: returns_in_def)

lemma returns_in_now: "eth_polls (st x) = k \<Longrightarrow> returns_in tau st d k (Some x)"
  by (simp add: returns_in_def)

lemma returns_in_weaken: "returns_in tau st d k m \<Longrightarrow> d \<le> e \<Longrightarrow> returns_in tau st e k m"
  by (auto simp: returns_in_def)

lemma returns_in_bind:
  assumes "returns_in tau st d k m" "\<And>x. m = Some x \<Longrightarrow> returns_in tau st' e (eth_polls (st x)) (g x)" "d + e \<le> f"
  shows "returns_in tau st' f k (Option.bind m g)"
proof -
  obtain x where x: "m = Some x" "k \<le> eth_polls (st x)" "tau (eth_polls (st x)) \<le> tau k + d"
    using assms(1) by (auto simp: returns_in_def)
  obtain y where "g x = Some y" "eth_polls (st x) \<le> eth_polls (st' y)" "tau (eth_polls (st' y)) \<le> tau (eth_polls (st x)) + e"
    using assms(2) [OF x(1)] by (auto simp: returns_in_def)
  then show ?thesis
    using x assms(3) by (auto simp: returns_in_def)
qed

lemma returns_in_tick:
  assumes "clock_runs N tau env" "returns_in tau st d (Suc k) m" "d + 1 \<le> e"
  shows "returns_in tau st e k m"
proof -
  have "tau (Suc k) \<le> tau k + 1"
    using assms(1) by (simp add: clock_runs_def)
  then show ?thesis
    using assms(2,3) by (force simp: returns_in_def)
qed

lemma clock_within:
  assumes "clock_runs N tau env" "k \<le> p" "tau p < tau k + d"
  shows "p < k + N * d"
proof (rule ccontr)
  assume "\<not> p < k + N * d"
  then have "tau (k + N * d) \<le> tau p"
    by (intro clock_mono [OF assms(1)]) simp
  then show False
    using clock_progress [OF assms(1), of k d] assms(3) by simp
qed

section \<open>The loops\<close>

text \<open>
  A loop that has begun at reading \<open>k\<close> and waits for at most \<open>W\<close> ticks is at reading \<open>p\<close>.
\<close>

definition waiting :: "nat \<Rightarrow> (nat \<Rightarrow> nat) \<Rightarrow> nat \<Rightarrow> nat \<Rightarrow> nat \<Rightarrow> nat \<Rightarrow> bool" where
  "waiting N tau W k p fuel \<longleftrightarrow> k \<le> p \<and> tau p \<le> tau k + W \<and> p \<le> k + N * W \<and> k + N * W < p + fuel \<and> W < 2 ^ 31"

lemma waiting_start:
  assumes "clock_runs N tau env" "0 < W" "W < 2 ^ 31" "N * W \<le> fuel"
  shows "waiting N tau W k (Suc k) fuel"
proof -
  have "tau k < tau (k + N)" "tau (Suc k) \<le> tau k + 1"
    using assms(1) by (simp_all add: clock_runs_def)
  then have "0 < N"
    by (cases N) auto
  then have "1 \<le> N * W"
    using assms(2) by (simp add: Suc_le_eq)
  then show ?thesis
    using \<open>tau (Suc k) \<le> tau k + 1\<close> assms(2-4) by (simp add: waiting_def)
qed

text \<open>
  At a later reading \<open>q\<close>: less than \<open>W\<close> ticks, and the loop goes on; otherwise it ends there.
\<close>

lemma waiting_step:
  assumes "clock_runs N tau env" "waiting N tau W k p (Suc fuel)" "p \<le> q" "tau q \<le> tau p + 2 ^ 30"
  shows "unat (of_nat (tau q) - of_nat (tau k) :: u32) = tau q - tau k"
    "tau q < tau k + W \<Longrightarrow> waiting N tau W k (Suc q) fuel" "tau k \<le> tau q" "k \<le> p" "tau p \<le> tau k + W"
    "tau (Suc q) \<le> tau q + 1"
proof -
  have m: "tau k \<le> tau q" "tau (Suc q) \<le> tau q + 1" "k \<le> q"
    using assms clock_mono [OF assms(1), of k q] by (simp_all add: waiting_def clock_runs_def)
  then show "unat (of_nat (tau q) - of_nat (tau k) :: u32) = tau q - tau k" "tau k \<le> tau q" "k \<le> p" "tau p \<le> tau k + W"
      "tau (Suc q) \<le> tau q + 1"
    using assms(2-4) by (auto simp: waiting_def intro!: tick_elapsed(2))
  show "tau q < tau k + W \<Longrightarrow> waiting N tau W k (Suc q) fuel"
    using assms(2,3) m clock_within [OF assms(1), of k q W] by (simp add: waiting_def)
qed

lemma waiting_late:
  assumes "clock_runs N tau env" "waiting N tau W k p (Suc fuel)" "p \<le> q" "tau q \<le> tau p + 2 ^ 30"
  shows "W = unat T + 1 \<Longrightarrow> T < (of_nat (tau q) - of_nat (tau k) :: u32) \<longleftrightarrow> \<not> tau q < tau k + W"
    "W = unat T \<Longrightarrow> (of_nat (tau q) - of_nat (tau k) :: u32) < T \<longleftrightarrow> tau q < tau k + W"
  using waiting_step(1,3) [OF assms] by (auto simp: word_less_nat_alt)

lemma waiting_fuel: "waiting N tau W k p fuel \<Longrightarrow> \<exists>f. fuel = Suc f"
  by (cases fuel) (auto simp: waiting_def)

lemma delay_loop_returns:
  assumes c: "clock_runs N tau env" and w: "W = unat wait"
  shows "waiting N tau W k (eth_polls s) fuel \<Longrightarrow>
    \<exists>s'. delay_loop env fuel (of_nat (tau k)) wait s = Some s' \<and> k \<le> eth_polls s' \<and> tau (eth_polls s') \<le> tau k + W + 1"
proof (induction fuel arbitrary: s)
  case (Suc fuel)
  note st = waiting_step [OF c Suc.prems order_refl le_add1]
  have "(of_nat (tau (eth_polls s)) - of_nat (tau k) :: u32) < wait \<longleftrightarrow> tau (eth_polls s) < tau k + W"
    by (rule waiting_late(2) [OF c Suc.prems order_refl le_add1 w])
  then show ?case
    using Suc.IH [of "eth_poll env s"] st(2-) by (auto simp: read_tick_poll [OF c])
qed (use waiting_fuel in blast)

lemma phy_wait_returns:
  assumes c: "clock_runs N tau env" and w: "W = unat T + 1"
  shows "waiting N tau W k (eth_polls s) fuel \<Longrightarrow>
    \<exists>b s'. phy_wait env fuel (of_nat (tau k)) T r s = Some (b, s') \<and> k \<le> eth_polls s' \<and> tau (eth_polls s') \<le> tau k + W + 1"
proof (induction fuel arbitrary: s r)
  case (Suc fuel)
  note st = waiting_step [OF c Suc.prems order_refl le_add1]
  have "T < (of_nat (tau (eth_polls s)) - of_nat (tau k) :: u32) \<longleftrightarrow> \<not> tau (eth_polls s) < tau k + W"
    by (rule waiting_late(1) [OF c Suc.prems order_refl le_add1 w])
  then show ?case
    using Suc.IH [of "eth_poll env s"] st(2-) by (auto simp: read_tick_poll [OF c])
qed (use waiting_fuel in blast)

lemma reset_wait_returns:
  assumes c: "clock_runs N tau env" and w: "W = unat ETH_TIMEOUT_SWRESET + 1"
  shows "waiting N tau W k (eth_polls s) fuel \<Longrightarrow>
    \<exists>b s'. reset_wait env fuel (of_nat (tau k)) s = Some (b, s') \<and> k \<le> eth_polls s' \<and> tau (eth_polls s') \<le> tau k + W + 1"
proof (induction fuel arbitrary: s)
  case (Suc fuel)
  note st = waiting_step [OF c Suc.prems order_refl le_add1]
  have "ETH_TIMEOUT_SWRESET < (of_nat (tau (eth_polls s)) - of_nat (tau k) :: u32) \<longleftrightarrow> \<not> tau (eth_polls s) < tau k + W"
    by (rule waiting_late(1) [OF c Suc.prems order_refl le_add1 w])
  then show ?case
    using Suc.IH [of "eth_poll env s"] st(2-) by (auto simp: read_tick_poll [OF c])
qed (use waiting_fuel in blast)

section \<open>Registers of the transceiver and delays\<close>

text \<open>Enough fuel for every limit of the driver.\<close>

definition enough :: "nat \<Rightarrow> nat \<Rightarrow> bool" where
  "enough N fuel \<longleftrightarrow> N * 65536 \<le> fuel"

lemma enoughD: "enough N fuel \<Longrightarrow> W \<le> 65536 \<Longrightarrow> N * W \<le> fuel"
  unfolding enough_def by (meson mult_le_mono2 order_trans)

lemma HAL_Delay_returns:
  assumes c: "clock_runs N tau env" and "enough N fuel" "unat Delay < 65536"
  shows "returns_in tau (\<lambda>s. s) (unat Delay + 2) (eth_polls s) (HAL_Delay env fuel Delay s)"
proof -
  have d: "Delay < 0xFFFFFFFF"
    using assms(3) by (simp add: word_less_nat_alt)
  have w: "unat (Delay + 1) = unat Delay + 1"
    using assms(3) by (subst unat_add_lem [THEN iffD1]) simp_all
  have "waiting N tau (unat Delay + 1) (eth_polls s) (Suc (eth_polls s)) fuel"
    using assms(3) by (intro waiting_start [OF c] enoughD [OF assms(2)]) simp_all
  then show ?thesis
    using delay_loop_returns [OF c w [symmetric], of "eth_polls s" "eth_poll env s" fuel] d
    by (auto simp: HAL_Delay_def read_tick_poll [OF c] returns_in_def)
qed

lemma settle_returns:
  assumes c: "clock_runs N tau env" and "enough N fuel" "\<And>v s. eth_polls (put v s) = eth_polls s"
  shows "returns_in tau (\<lambda>s. s) 3 (eth_polls s) (settle env fuel get put s)"
  unfolding settle_def Let_def
  by (rule returns_in_bind [OF HAL_Delay_returns [OF c assms(2)], where e = 0]) (simp_all add: assms(3) returns_in_now)

lemma polls_keep [simp]:
  "eth_polls (upd_mac f s) = eth_polls s" "eth_polls (put_MACCR v s) = eth_polls s" "eth_polls (put_MACFFR v s) = eth_polls s"
  "eth_polls (put_MACFCR v s) = eth_polls s" "eth_polls (put_MACVLANTR v s) = eth_polls s" "eth_polls (put_DMABMR v s) = eth_polls s"
  "eth_polls (write_DMAOMR v s) = eth_polls s" "eth_polls (ETH_MACAddressConfig a m s) = eth_polls s"
  "eth_polls (HAL_ETH_DMA_ENABLE_IT it s) = eth_polls s"
  by (simp_all add: upd_mac_def put_MACCR_def put_MACFFR_def put_MACFCR_def put_MACVLANTR_def put_DMABMR_def write_DMAOMR_def
      ETH_MACAddressConfig_def HAL_ETH_DMA_ENABLE_IT_def Let_def)

lemma ReadPHY_returns:
  assumes c: "clock_runs N tau env" and e: "enough N fuel"
  shows "returns_in tau (\<lambda>(_, _, s). s) 65537 (eth_polls s) (HAL_ETH_ReadPHYRegister env fuel r s)"
proof (cases "EState s = HAL_ETH_STATE_BUSY_RD")
  case True
  then show ?thesis by (simp add: HAL_ETH_ReadPHYRegister_def returns_in_now)
next
  case False
  let ?v = "(phy_address r (s\<lparr>EState := HAL_ETH_STATE_BUSY_RD\<rparr>) AND NOT ETH_MACMIIAR_MW) OR ETH_MACMIIAR_MB"
  let ?s = "upd_mac (\<lambda>e. e\<lparr>MACMIIAR := ?v\<rparr>) (s\<lparr>EState := HAL_ETH_STATE_BUSY_RD\<rparr>)"
  have w: "65536 = unat PHY_READ_TO + 1"
    by simp
  have "waiting N tau 65536 (eth_polls s) (Suc (eth_polls s)) fuel"
    by (intro waiting_start [OF c] enoughD [OF e]) simp_all
  then obtain b s' where "phy_wait env fuel (of_nat (tau (eth_polls s))) PHY_READ_TO ?v (eth_poll env ?s) = Some (b, s')"
    "eth_polls s \<le> eth_polls s'" "tau (eth_polls s') \<le> tau (eth_polls s) + 65536 + 1"
    using phy_wait_returns [OF c w, of "eth_polls s" "eth_poll env ?s" fuel ?v] by (auto simp: read_tick_poll [OF c])
  then show ?thesis
    using False by (simp add: HAL_ETH_ReadPHYRegister_def Let_def read_tick_poll [OF c] returns_in_def)
qed

lemma WritePHY_returns:
  assumes c: "clock_runs N tau env" and e: "enough N fuel"
  shows "returns_in tau snd 65537 (eth_polls s) (HAL_ETH_WritePHYRegister env fuel r v s)"
proof (cases "EState s = HAL_ETH_STATE_BUSY_WR")
  case True
  then show ?thesis by (simp add: HAL_ETH_WritePHYRegister_def returns_in_now)
next
  case False
  let ?v = "phy_address r (s\<lparr>EState := HAL_ETH_STATE_BUSY_WR\<rparr>) OR ETH_MACMIIAR_MW OR ETH_MACMIIAR_MB"
  let ?s = "upd_mac (\<lambda>e. e\<lparr>MACMIIAR := ?v\<rparr>) (upd_mac (\<lambda>e. e\<lparr>MACMIIDR := ucast (ucast v :: u16)\<rparr>) (s\<lparr>EState := HAL_ETH_STATE_BUSY_WR\<rparr>))"
  have w: "65536 = unat PHY_WRITE_TO + 1"
    by simp
  have "waiting N tau 65536 (eth_polls s) (Suc (eth_polls s)) fuel"
    by (intro waiting_start [OF c] enoughD [OF e]) simp_all
  then obtain b s' where "phy_wait env fuel (of_nat (tau (eth_polls s))) PHY_WRITE_TO ?v (eth_poll env ?s) = Some (b, s')"
    "eth_polls s \<le> eth_polls s'" "tau (eth_polls s') \<le> tau (eth_polls s) + 65536 + 1"
    using phy_wait_returns [OF c w, of "eth_polls s" "eth_poll env ?s" fuel ?v] by (auto simp: read_tick_poll [OF c])
  then show ?thesis
    using False by (simp add: HAL_ETH_WritePHYRegister_def Let_def read_tick_poll [OF c] returns_in_def or.assoc)
qed

lemma phy_poll_returns:
  assumes c: "clock_runs N tau env" and e: "enough N rfuel" and w: "W = unat T + 1"
  shows "waiting N tau W k (eth_polls s) fuel \<Longrightarrow>
    \<exists>b r' s'. phy_poll env rfuel fuel (of_nat (tau k)) T m r s = Some (b, r', s') \<and> k \<le> eth_polls s' \<and>
      tau (eth_polls s') \<le> tau k + W + 65538"
proof (induction fuel arbitrary: s r)
  case (Suc fuel)
  obtain st v u where u: "HAL_ETH_ReadPHYRegister env rfuel PHY_BSR s = Some (st, v, u)" "eth_polls s \<le> eth_polls u"
    "tau (eth_polls u) \<le> tau (eth_polls s) + 65537"
    using ReadPHY_returns [OF c e, of s PHY_BSR] by (auto simp: returns_in_def)
  have q: "tau (eth_polls u) \<le> tau (eth_polls s) + 2 ^ 30"
    by (rule order_trans [OF u(3)]) simp
  note st = waiting_step [OF c Suc.prems u(2) q]
  have "T < (of_nat (tau (eth_polls u)) - of_nat (tau k) :: u32) \<longleftrightarrow> \<not> tau (eth_polls u) < tau k + W"
    by (rule waiting_late(1) [OF c Suc.prems u(2) q w])
  moreover define r1 where "r1 = (case v of None \<Rightarrow> r | Some v \<Rightarrow> v)"
  ultimately have eq: "phy_poll env rfuel (Suc fuel) (of_nat (tau k)) T m r s =
      (if \<not> tau (eth_polls u) < tau k + W then Some (True, r1, eth_poll env u)
       else if r1 AND m \<noteq> m then phy_poll env rfuel fuel (of_nat (tau k)) T m r1 (eth_poll env u)
       else Some (False, r1, eth_poll env u))"
    by (simp add: u(1) read_tick_poll [OF c] Let_def)
  show ?case
    using Suc.IH [of "eth_poll env u" r1] st(2-) u unfolding eq by (auto simp: read_tick_poll [OF c])
qed (use waiting_fuel in blast)

section \<open>Initialisation\<close>

lemma MACDMAConfig_returns:
  assumes c: "clock_runs N tau env" and e: "enough N fuel"
  shows "returns_in tau (\<lambda>s. s) 18 (eth_polls s) (ETH_MACDMAConfig env fuel err s)"
proof -
  have s: "returns_in tau (\<lambda>s. s) 3 k (settle env fuel get put u)"
    if "\<And>v s. eth_polls (put v s) = eth_polls s" "eth_polls u = k" for get put k u
    using settle_returns [OF c e that(1), where get = get and s = u] that(2) by simp
  show ?thesis
    unfolding ETH_MACDMAConfig_def Let_def
    by (rule returns_in_bind [OF s, where e = 15], simp, simp)
       (rule returns_in_bind [OF s, where e = 12], simp, simp,
        rule returns_in_bind [OF s, where e = 9], simp, simp,
        rule returns_in_bind [OF s, where e = 6], simp, simp,
        rule returns_in_bind [OF s, where e = 3], simp, simp,
        rule returns_in_bind [OF s, where e = 0], simp, simp, simp_all add: returns_in_now)
qed

lemma init_ends_return:
  assumes c: "clock_runs N tau env" and e: "enough N fuel" and d: "18 \<le> d"
  shows "returns_in tau snd d (eth_polls s) (eth_init_failed env fuel st s)"
    "returns_in tau snd d (eth_polls s) (eth_init_done env fuel s)"
  unfolding eth_init_failed_def eth_init_done_def Let_def
  by (rule returns_in_bind [OF MACDMAConfig_returns [OF c e], where e = 0], use d in \<open>simp_all add: returns_in_now\<close>)+

lemma init_done_phy: "clock_runs N tau env \<Longrightarrow> enough N fuel \<Longrightarrow>
    returns_in tau snd 18 (eth_polls s) (eth_init_done env fuel (s\<lparr>EInit := i\<rparr>))"
  using init_ends_return(2) [of N tau env fuel 18 "s\<lparr>EInit := i\<rparr>"] by simp

text \<open>A wait for the status register, from its first reading of the tick.\<close>

lemma phy_poll_takes:
  assumes c: "clock_runs N tau env" and e: "enough N fuel" and T: "unat T < 65536" and s: "k = eth_polls s"
  shows "returns_in tau (\<lambda>(_, _, s). s) (unat T + 65539) k (phy_poll env fuel fuel (of_nat (tau k)) T m r (eth_poll env s))"
proof -
  have "waiting N tau (unat T + 1) k (eth_polls (eth_poll env s)) fuel"
    unfolding read_tick_poll(2) [OF c] s [symmetric]
    using T by (intro waiting_start [OF c] enoughD [OF e]) simp_all
  then obtain b r' s' where "phy_poll env fuel fuel (of_nat (tau k)) T m r (eth_poll env s) = Some (b, r', s')"
    "k \<le> eth_polls s'" "tau (eth_polls s') \<le> tau k + (unat T + 1) + 65538"
    using phy_poll_returns [OF c e refl] by blast
  then show ?thesis
    by (simp add: returns_in_def)
qed

lemma autonegotiate_returns:
  assumes c: "clock_runs N tau env" and e: "enough N fuel"
  shows "returns_in tau snd 272170 (eth_polls s) (eth_autonegotiate env fuel s)"
proof -
  note fin = init_ends_return [OF c e]
  let ?read = "\<lambda>r u. Option.bind (HAL_ETH_ReadPHYRegister env fuel PHY_SR u) (\<lambda>(st, v, s).
    if st \<noteq> HAL_OK then eth_init_failed env fuel HAL_ERROR s
    else eth_init_done env fuel (s\<lparr>EInit := phy_mode (case v of None \<Rightarrow> r | Some v \<Rightarrow> v) (EInit s)\<rparr>))"
  let ?poll = "\<lambda>r u. Option.bind
    (phy_poll env fuel fuel (of_nat (tau (eth_polls u))) ETH_TIMEOUT_AUTONEGO_COMPLETED PHY_AUTONEGO_COMPLETE r (eth_poll env u))
    (\<lambda>(late, phyreg, s). if late then eth_init_failed env fuel HAL_TIMEOUT s else ?read phyreg s)"
  let ?put = "\<lambda>r u. Option.bind (HAL_ETH_WritePHYRegister env fuel PHY_BCR PHY_AUTONEGOTIATION u) (\<lambda>(st, s).
    if st \<noteq> HAL_OK then eth_init_failed env fuel HAL_ERROR s else ?poll r s)"
  have rd: "returns_in tau snd 65555 (eth_polls u) (?read r u)" for r and u :: "'a eth_scheme"
    by (rule returns_in_bind [OF ReadPHY_returns [OF c e], where e = 18])
       (use fin [of 18] init_done_phy [OF c e] in \<open>auto split: if_splits\<close>)
  have poll: "returns_in tau snd 136094 (eth_polls u) (?poll r u)" for r and u :: "'a eth_scheme"
    by (rule returns_in_bind [OF phy_poll_takes [OF c e _ refl], where e = 65555]) (use fin [of 65555] rd in auto)
  have wr: "returns_in tau snd 201631 (eth_polls u) (?put r u)" for r and u :: "'a eth_scheme"
    by (rule returns_in_bind [OF WritePHY_returns [OF c e], where e = 136094]) (use fin [of 136094] poll in auto)
  show ?thesis
    unfolding eth_autonegotiate_def Let_def read_tick_poll(1) [OF c] prod.case
    by (rule returns_in_bind [OF phy_poll_takes [OF c e _ refl], where e = 201631]) (use fin [of 201631] wr in auto)
qed

lemma fixed_mode_returns:
  assumes c: "clock_runs N tau env" and e: "enough N fuel"
  shows "returns_in tau snd 69652 (eth_polls s) (eth_fixed_mode env fuel s)"
proof -
  note fin = init_ends_return [OF c e]
  have "returns_in tau snd 4115 (eth_polls u) (Option.bind (HAL_Delay env fuel PHY_CONFIG_DELAY u) (eth_init_done env fuel))" for u :: "'a eth_scheme"
    by (rule returns_in_bind [OF HAL_Delay_returns [OF c e], where e = 18]) (use fin [of 18] in auto)
  then show ?thesis
    unfolding eth_fixed_mode_def
    by (intro returns_in_bind [OF WritePHY_returns [OF c e], where e = 4115]) (use fin [of 4115] in auto)
qed

lemma reset_takes:
  assumes c: "clock_runs N tau env" and e: "enough N fuel" and u: "eth_polls u = k"
  shows "returns_in tau snd 502 k (reset_wait env fuel (of_nat (tau k)) (eth_poll env u))"
proof -
  have "waiting N tau (unat ETH_TIMEOUT_SWRESET + 1) k (eth_polls (eth_poll env u)) fuel"
    unfolding read_tick_poll(2) [OF c] u by (intro waiting_start [OF c] enoughD [OF e]) simp_all
  then obtain b s' where "reset_wait env fuel (of_nat (tau k)) (eth_poll env u) = Some (b, s')"
    "k \<le> eth_polls s'" "tau (eth_polls s') \<le> tau k + (unat ETH_TIMEOUT_SWRESET + 1) + 1"
    using reset_wait_returns [OF c refl] by blast
  then show ?thesis
    by (simp add: returns_in_def)
qed

lemma HAL_ETH_Init_returns:
  assumes c: "clock_runs N tau env" and e: "enough N fuel" and m: "\<And>s. eth_polls (msp s) = eth_polls s"
  shows "returns_in tau snd 338466 (eth_polls s) (HAL_ETH_Init env fuel hclk msp s)"
proof -
  note fin = init_ends_return [OF c e]
  let ?s = "upd_mac (\<lambda>e. e\<lparr>PMC := PMC e OR MediaInterface (EInit (upd_mac (\<lambda>e. e\<lparr>PMC := PMC e AND NOT SYSCFG_PMC_MII_RMII_SEL\<rparr>)
    (upd_mac (\<lambda>e. e\<lparr>syscfg_clock := True\<rparr>) (if EState s = HAL_ETH_STATE_RESET then msp (s\<lparr>ELock := HAL_UNLOCKED\<rparr>) else s))))\<rparr>)
    (upd_mac (\<lambda>e. e\<lparr>PMC := PMC e AND NOT SYSCFG_PMC_MII_RMII_SEL\<rparr>)
    (upd_mac (\<lambda>e. e\<lparr>syscfg_clock := True\<rparr>) (if EState s = HAL_ETH_STATE_RESET then msp (s\<lparr>ELock := HAL_UNLOCKED\<rparr>) else s)))"
  let ?r = "?s\<lparr>DMABMR := DMABMR ?s OR ETH_DMABMR_SR\<rparr>"
  have k: "eth_polls ?r = eth_polls s"
    by (simp add: m)
  have reset: "returns_in tau snd 502 k (reset_wait env fuel (of_nat (tau k)) (eth_poll env u))" if "eth_polls u = k" for k u
    by (rule reset_takes [OF c e that])
  have mode: "returns_in tau snd 272427 (eth_polls u) (Option.bind (HAL_Delay env fuel PHY_RESET_DELAY u)
      (\<lambda>s. if AutoNegotiation (EInit s) \<noteq> ETH_AUTONEGOTIATION_DISABLE then eth_autonegotiate env fuel s else eth_fixed_mode env fuel s))"
    for u :: "'a eth_scheme"
    by (rule returns_in_bind [OF HAL_Delay_returns [OF c e], where e = 272170])
       (use autonegotiate_returns [OF c e] returns_in_weaken [OF fixed_mode_returns [OF c e], of 272170] in auto)
  have phy: "returns_in tau snd 337964 k (Option.bind (HAL_ETH_WritePHYRegister env fuel PHY_BCR PHY_RESET u)
      (\<lambda>(st, s). if st \<noteq> HAL_OK then eth_init_failed env fuel HAL_ERROR s
        else Option.bind (HAL_Delay env fuel PHY_RESET_DELAY s)
          (\<lambda>s. if AutoNegotiation (EInit s) \<noteq> ETH_AUTONEGOTIATION_DISABLE then eth_autonegotiate env fuel s else eth_fixed_mode env fuel s)))"
    if "k = eth_polls u" for k and u :: "'a eth_scheme"
    unfolding that
    by (rule returns_in_bind [OF WritePHY_returns [OF c e], where e = 272427]) (use fin [of 272427] mode in auto)
  show ?thesis
    unfolding HAL_ETH_Init_def Let_def read_tick_poll(1) [OF c] prod.case k
  proof (rule returns_in_bind [OF reset [OF k], where e = 337964], goal_cases)
    case (1 x)
    obtain late v where x: "x = (late, v)"
      by (cases x)
    show ?case
    proof (cases late)
      case True
      then show ?thesis
        by (simp add: x returns_in_now)
    next
      case False
      then show ?thesis
        unfolding x prod.case if_False snd_conv by (simp only: if_False, intro phy) simp
    qed
  qed simp
qed

text \<open>
  C9. LAN8720_Init returns for every behaviour of MAC, DMA and transceiver, with 0 or 1, before the tick has advanced by 338466: every
  wait of the driver is limited, and no limit can be missed. The waits all depend on the tick: with a tick that stands still the first does not end.
\<close>

theorem lan8720_init_returns:
  assumes "clock_runs N tau env" "N * 65536 \<le> fuel"
    and "\<And>s. eth_polls (msp s) = eth_polls s" "\<And>s. eth_polls (hard_reset s) = eth_polls s"
  shows "\<exists>r s'. LAN8720_Init env fuel hclk msp hard_reset mac s = Some (r, s') \<and> r \<in> {0, 1} \<and>
    tau (eth_polls s') \<le> tau (eth_polls s) + 338466"
proof -
  have e: "enough N fuel"
    using assms(2) by (simp add: enough_def)
  define i where "i = \<lparr>AutoNegotiation = ETH_AUTONEGOTIATION_ENABLE, Speed = ETH_SPEED_100M, DuplexMode = ETH_MODE_FULLDUPLEX,
    PhyAddress = LAN8720_PHY_ADDRESS, MACAddr = [mac ! 0, mac ! 1, mac ! 2, mac ! 3, mac ! 4, mac ! 5],
    RxMode = ETH_RXINTERRUPT_MODE, ChecksumMode = ETH_CHECKSUM_BY_HARDWARE, MediaInterface = ETH_MEDIA_INTERFACE_RMII\<rparr>"
  obtain st s' where "HAL_ETH_Init env fuel hclk msp (hard_reset s\<lparr>EInit := i\<rparr>) = Some (st, s')"
    "tau (eth_polls s') \<le> tau (eth_polls s) + 338466"
    using HAL_ETH_Init_returns [OF assms(1) e assms(3), of "hard_reset s\<lparr>EInit := i\<rparr>" hclk] assms(4) by (auto simp: returns_in_def)
  then show ?thesis
    unfolding LAN8720_Init_def Let_def i_def [symmetric] by simp
qed

theorem lan8720_init_returns_witness:
  "\<exists>r s'. LAN8720_Init \<lparr>e_hw = \<lambda>_ s. s, e_tick = of_nat\<rparr> 65536 168000000 (\<lambda>s. s) (\<lambda>s. s) [2, 0, 0, 1, 2, 3] reset_net = Some (r, s') \<and>
    r \<in> {0, 1} \<and> eth_polls s' \<le> eth_polls reset_net + 338466"
  using lan8720_init_returns [of 1 "\<lambda>k. k" "\<lparr>e_hw = \<lambda>_ s. s, e_tick = of_nat\<rparr>" 65536 "\<lambda>s. s" "\<lambda>s. s" 168000000 "[2, 0, 0, 1, 2, 3]" reset_net]
  by (simp add: clock_runs_def)

end
