(* ===== verification/Rcc.thy ===== *)
theory Rcc
  imports Prelude "HOL-Library.Monad_Syntax"
begin

text \<open>
  The clocks: SYSTEM/sys/sys.c, USER/system_stm32f4xx.c, the clock driver stm32f4xx_hal_rcc.c and the start of the tick
  in stm32f4xx_hal.c. Oscillators that start and the switch of the system clock are the work of the hardware, which acts before each reading of the
  tick; \<open>None\<close> is a loop that is still running.
\<close>

section \<open>Registers\<close>

text \<open>
  The registers of RCC, of PWR, FLASH, SCB and SysTick as far as these files use them, the device identity, the variable
  \<open>SystemCoreClock\<close>, and the number of readings of the tick.
\<close>

record rcc =
  RCC_CR :: u32
  RCC_PLLCFGR :: u32
  RCC_CFGR :: u32
  RCC_CIR :: u32
  RCC_APB1ENR :: u32
  RCC_BDCR :: u32
  RCC_CSR :: u32
  PWR_CR :: u32
  FLASH_ACR :: u32
  SCB_CPACR :: u32
  SCB_VTOR :: u32
  SysTick_CTRL :: u32
  SysTick_LOAD :: u32
  SysTick_VAL :: u32
  DBGMCU_IDCODE :: u32
  SystemCoreClock :: u32
  rcc_polls :: nat

abbreviation RCC_CR_HSION :: u32 where "RCC_CR_HSION \<equiv> 0x1"
abbreviation RCC_CR_HSIRDY :: u32 where "RCC_CR_HSIRDY \<equiv> 0x2"
abbreviation RCC_CR_HSITRIM :: u32 where "RCC_CR_HSITRIM \<equiv> 0xF8"
abbreviation RCC_CR_HSEON :: u32 where "RCC_CR_HSEON \<equiv> 0x10000"
abbreviation RCC_CR_HSERDY :: u32 where "RCC_CR_HSERDY \<equiv> 0x20000"
abbreviation RCC_CR_HSEBYP :: u32 where "RCC_CR_HSEBYP \<equiv> 0x40000"
abbreviation RCC_CR_CSSON :: u32 where "RCC_CR_CSSON \<equiv> 0x80000"
abbreviation RCC_CR_PLLON :: u32 where "RCC_CR_PLLON \<equiv> 0x1000000"
abbreviation RCC_CR_PLLRDY :: u32 where "RCC_CR_PLLRDY \<equiv> 0x2000000"
abbreviation RCC_PLLCFGR_PLLM :: u32 where "RCC_PLLCFGR_PLLM \<equiv> 0x3F"
abbreviation RCC_PLLCFGR_PLLN :: u32 where "RCC_PLLCFGR_PLLN \<equiv> 0x7FC0"
abbreviation RCC_PLLCFGR_PLLP :: u32 where "RCC_PLLCFGR_PLLP \<equiv> 0x30000"
abbreviation RCC_PLLCFGR_PLLP_0 :: u32 where "RCC_PLLCFGR_PLLP_0 \<equiv> 0x10000"
abbreviation RCC_PLLCFGR_PLLSRC :: u32 where "RCC_PLLCFGR_PLLSRC \<equiv> 0x400000"
abbreviation RCC_PLLCFGR_PLLQ :: u32 where "RCC_PLLCFGR_PLLQ \<equiv> 0x0F000000"
abbreviation RCC_CFGR_SW :: u32 where "RCC_CFGR_SW \<equiv> 0x3"
abbreviation RCC_CFGR_SWS :: u32 where "RCC_CFGR_SWS \<equiv> 0xC"
abbreviation RCC_CFGR_SWS_HSI :: u32 where "RCC_CFGR_SWS_HSI \<equiv> 0"
abbreviation RCC_CFGR_SWS_HSE :: u32 where "RCC_CFGR_SWS_HSE \<equiv> 0x4"
abbreviation RCC_CFGR_SWS_PLL :: u32 where "RCC_CFGR_SWS_PLL \<equiv> 0x8"
abbreviation RCC_CFGR_SWS_PLLR :: u32 where "RCC_CFGR_SWS_PLLR \<equiv> 0xC"
abbreviation RCC_CFGR_HPRE :: u32 where "RCC_CFGR_HPRE \<equiv> 0xF0"
abbreviation RCC_CFGR_PPRE1 :: u32 where "RCC_CFGR_PPRE1 \<equiv> 0x1C00"
abbreviation RCC_CFGR_PPRE2 :: u32 where "RCC_CFGR_PPRE2 \<equiv> 0xE000"
abbreviation RCC_APB1ENR_PWREN :: u32 where "RCC_APB1ENR_PWREN \<equiv> 0x10000000"
abbreviation RCC_BDCR_LSEON :: u32 where "RCC_BDCR_LSEON \<equiv> 0x1"
abbreviation RCC_BDCR_LSERDY :: u32 where "RCC_BDCR_LSERDY \<equiv> 0x2"
abbreviation RCC_BDCR_LSEBYP :: u32 where "RCC_BDCR_LSEBYP \<equiv> 0x4"
abbreviation RCC_CSR_LSION :: u32 where "RCC_CSR_LSION \<equiv> 0x1"
abbreviation RCC_CSR_LSIRDY :: u32 where "RCC_CSR_LSIRDY \<equiv> 0x2"
abbreviation RCC_IT_CSS :: u32 where "RCC_IT_CSS \<equiv> 0x80"
abbreviation PWR_CR_DBP :: u32 where "PWR_CR_DBP \<equiv> 0x100"
abbreviation PWR_CR_VOS :: u32 where "PWR_CR_VOS \<equiv> 0x4000"
abbreviation FLASH_ACR_LATENCY :: u32 where "FLASH_ACR_LATENCY \<equiv> 0xF"
abbreviation FLASH_ACR_PRFTEN :: u32 where "FLASH_ACR_PRFTEN \<equiv> 0x100"
abbreviation FLASH_ACR_ICEN :: u32 where "FLASH_ACR_ICEN \<equiv> 0x200"
abbreviation FLASH_ACR_DCEN :: u32 where "FLASH_ACR_DCEN \<equiv> 0x400"
abbreviation FLASH_BASE :: u32 where "FLASH_BASE \<equiv> 0x08000000"

abbreviation HSE_VALUE :: u32 where "HSE_VALUE \<equiv> 8000000"
abbreviation HSI_VALUE :: u32 where "HSI_VALUE \<equiv> 16000000"
abbreviation HSE_TIMEOUT_VALUE :: u32 where "HSE_TIMEOUT_VALUE \<equiv> 100"
abbreviation HSI_TIMEOUT_VALUE :: u32 where "HSI_TIMEOUT_VALUE \<equiv> 2"
abbreviation LSI_TIMEOUT_VALUE :: u32 where "LSI_TIMEOUT_VALUE \<equiv> 2"
abbreviation RCC_DBP_TIMEOUT_VALUE :: u32 where "RCC_DBP_TIMEOUT_VALUE \<equiv> 2"
abbreviation RCC_LSE_TIMEOUT_VALUE :: u32 where "RCC_LSE_TIMEOUT_VALUE \<equiv> 5000"
abbreviation PLL_TIMEOUT_VALUE :: u32 where "PLL_TIMEOUT_VALUE \<equiv> 2"
abbreviation CLOCKSWITCH_TIMEOUT_VALUE :: u32 where "CLOCKSWITCH_TIMEOUT_VALUE \<equiv> 5000"

abbreviation RCC_OSCILLATORTYPE_HSE :: u32 where "RCC_OSCILLATORTYPE_HSE \<equiv> 1"
abbreviation RCC_OSCILLATORTYPE_HSI :: u32 where "RCC_OSCILLATORTYPE_HSI \<equiv> 2"
abbreviation RCC_OSCILLATORTYPE_LSE :: u32 where "RCC_OSCILLATORTYPE_LSE \<equiv> 4"
abbreviation RCC_OSCILLATORTYPE_LSI :: u32 where "RCC_OSCILLATORTYPE_LSI \<equiv> 8"
abbreviation RCC_HSE_OFF :: u32 where "RCC_HSE_OFF \<equiv> 0"
abbreviation RCC_HSE_ON :: u32 where "RCC_HSE_ON \<equiv> RCC_CR_HSEON"
abbreviation RCC_HSE_BYPASS :: u32 where "RCC_HSE_BYPASS \<equiv> 0x50000"
abbreviation RCC_LSE_OFF :: u32 where "RCC_LSE_OFF \<equiv> 0"
abbreviation RCC_LSE_ON :: u32 where "RCC_LSE_ON \<equiv> RCC_BDCR_LSEON"
abbreviation RCC_LSE_BYPASS :: u32 where "RCC_LSE_BYPASS \<equiv> 0x5"
abbreviation RCC_HSI_OFF :: u32 where "RCC_HSI_OFF \<equiv> 0"
abbreviation RCC_HSI_ON :: u32 where "RCC_HSI_ON \<equiv> 1"
abbreviation RCC_LSI_OFF :: u32 where "RCC_LSI_OFF \<equiv> 0"
abbreviation RCC_LSI_ON :: u32 where "RCC_LSI_ON \<equiv> 1"
abbreviation RCC_PLL_NONE :: u32 where "RCC_PLL_NONE \<equiv> 0"
abbreviation RCC_PLL_OFF :: u32 where "RCC_PLL_OFF \<equiv> 1"
abbreviation RCC_PLL_ON :: u32 where "RCC_PLL_ON \<equiv> 2"
abbreviation RCC_PLLSOURCE_HSI :: u32 where "RCC_PLLSOURCE_HSI \<equiv> 0"
abbreviation RCC_PLLSOURCE_HSE :: u32 where "RCC_PLLSOURCE_HSE \<equiv> RCC_PLLCFGR_PLLSRC"
abbreviation RCC_CLOCKTYPE_SYSCLK :: u32 where "RCC_CLOCKTYPE_SYSCLK \<equiv> 1"
abbreviation RCC_CLOCKTYPE_HCLK :: u32 where "RCC_CLOCKTYPE_HCLK \<equiv> 2"
abbreviation RCC_CLOCKTYPE_PCLK1 :: u32 where "RCC_CLOCKTYPE_PCLK1 \<equiv> 4"
abbreviation RCC_CLOCKTYPE_PCLK2 :: u32 where "RCC_CLOCKTYPE_PCLK2 \<equiv> 8"
abbreviation RCC_SYSCLKSOURCE_HSI :: u32 where "RCC_SYSCLKSOURCE_HSI \<equiv> 0"
abbreviation RCC_SYSCLKSOURCE_HSE :: u32 where "RCC_SYSCLKSOURCE_HSE \<equiv> 1"
abbreviation RCC_SYSCLKSOURCE_PLLCLK :: u32 where "RCC_SYSCLKSOURCE_PLLCLK \<equiv> 2"
abbreviation RCC_SYSCLKSOURCE_PLLRCLK :: u32 where "RCC_SYSCLKSOURCE_PLLRCLK \<equiv> 3"
abbreviation RCC_SYSCLK_DIV1 :: u32 where "RCC_SYSCLK_DIV1 \<equiv> 0"
abbreviation RCC_HCLK_DIV2 :: u32 where "RCC_HCLK_DIV2 \<equiv> 0x1000"
abbreviation RCC_HCLK_DIV4 :: u32 where "RCC_HCLK_DIV4 \<equiv> 0x1400"
abbreviation FLASH_LATENCY_5 :: u32 where "FLASH_LATENCY_5 \<equiv> 5"

record RCC_PLLInitTypeDef =
  PLLState :: u32
  PLLSource :: u32
  PLLM :: u32
  PLLN :: u32
  PLLP :: u32
  PLLQ :: u32

record RCC_OscInitTypeDef =
  OscillatorType :: u32
  HSEState :: u32
  LSEState :: u32
  HSIState :: u32
  HSICalibrationValue :: u32
  LSIState :: u32
  PLL :: RCC_PLLInitTypeDef

record RCC_ClkInitTypeDef =
  ClockType :: u32
  SYSCLKSource :: u32
  AHBCLKDivider :: u32
  APB1CLKDivider :: u32
  APB2CLKDivider :: u32

definition MODIFY_REG :: "u32 \<Rightarrow> u32 \<Rightarrow> u32 \<Rightarrow> u32" where
  "MODIFY_REG r clearmask setmask = (r AND NOT clearmask) OR setmask"

definition put_bits :: "u32 \<Rightarrow> bool \<Rightarrow> u32 \<Rightarrow> u32" where
  "put_bits m b r = (if b then SET_BIT r m else CLEAR_BIT r m)"

section \<open>Waiting\<close>

text \<open>Before the tick is read for the \<open>k\<close>-th time, the hardware does \<open>c_hw k\<close>; the value read is \<open>c_tick k\<close>.\<close>

record rcc_env =
  c_hw :: "nat \<Rightarrow> rcc \<Rightarrow> rcc"
  c_tick :: "nat \<Rightarrow> u32"

definition rcc_tick :: "rcc_env \<Rightarrow> rcc \<Rightarrow> u32 \<times> rcc" where
  "rcc_tick env s =
     (let k = rcc_polls s; s = c_hw env k s
      in (c_tick env k, s\<lparr>rcc_polls := Suc k\<rparr>))"

text \<open>Whether the wait for \<open>ready\<close> took too long.\<close>

fun rcc_wait_loop :: "rcc_env \<Rightarrow> nat \<Rightarrow> (rcc \<Rightarrow> bool) \<Rightarrow> u32 \<Rightarrow> u32 \<Rightarrow> rcc \<Rightarrow> (bool \<times> rcc) option" where
  "rcc_wait_loop env 0 ready timeout start s = None"
| "rcc_wait_loop env (Suc fuel) ready timeout start s =
     (if ready s then Some (False, s)
      else case rcc_tick env s of (now, s) \<Rightarrow>
        if now - start > timeout then Some (True, s) else rcc_wait_loop env fuel ready timeout start s)"

text \<open>
  A part of a function: \<open>Some st\<close> if the function returns \<open>st\<close> there, \<open>None\<close> if it goes on.
\<close>

type_synonym rcc_part = "rcc \<Rightarrow> (HAL_StatusTypeDef option \<times> rcc) option"

definition rcc_wait :: "rcc_env \<Rightarrow> nat \<Rightarrow> (rcc \<Rightarrow> bool) \<Rightarrow> u32 \<Rightarrow> rcc_part" where
  "rcc_wait env fuel ready timeout s =
     (case rcc_tick env s of (start, s) \<Rightarrow> do {
        (late, s) \<leftarrow> rcc_wait_loop env fuel ready timeout start s;
        Some (if late then Some HAL_TIMEOUT else None, s)
      })"

definition rcc_then :: "rcc_part \<Rightarrow> rcc_part \<Rightarrow> rcc_part" where
  "rcc_then f g s = do {
     (r, s) \<leftarrow> f s;
     case r of None \<Rightarrow> g s | Some st \<Rightarrow> Some (Some st, s)
   }"

definition go_on :: rcc_part where
  "go_on s = Some (None, s)"

definition returns :: "HAL_StatusTypeDef \<Rightarrow> rcc_part" where
  "returns st s = Some (Some st, s)"

definition does :: "(rcc \<Rightarrow> rcc) \<Rightarrow> rcc_part" where
  "does f s = Some (None, f s)"

section \<open>Oscillators\<close>

definition HSE_ready :: "rcc \<Rightarrow> bool" where "HSE_ready s \<longleftrightarrow> HAL_IS_BIT_SET (RCC_CR s) RCC_CR_HSERDY"
definition HSI_ready :: "rcc \<Rightarrow> bool" where "HSI_ready s \<longleftrightarrow> HAL_IS_BIT_SET (RCC_CR s) RCC_CR_HSIRDY"
definition PLL_ready :: "rcc \<Rightarrow> bool" where "PLL_ready s \<longleftrightarrow> HAL_IS_BIT_SET (RCC_CR s) RCC_CR_PLLRDY"
definition LSI_ready :: "rcc \<Rightarrow> bool" where "LSI_ready s \<longleftrightarrow> HAL_IS_BIT_SET (RCC_CSR s) RCC_CSR_LSIRDY"
definition LSE_ready :: "rcc \<Rightarrow> bool" where "LSE_ready s \<longleftrightarrow> HAL_IS_BIT_SET (RCC_BDCR s) RCC_BDCR_LSERDY"

definition HAL_RCC_GET_SYSCLK_SOURCE :: "rcc \<Rightarrow> u32" where
  "HAL_RCC_GET_SYSCLK_SOURCE s = RCC_CFGR s AND RCC_CFGR_SWS"

definition HAL_RCC_HSE_CONFIG :: "u32 \<Rightarrow> rcc \<Rightarrow> rcc" where
  "HAL_RCC_HSE_CONFIG st s =
     (if st = RCC_HSE_ON then s\<lparr>RCC_CR := SET_BIT (RCC_CR s) RCC_CR_HSEON\<rparr>
      else if st = RCC_HSE_BYPASS then
        (let s = s\<lparr>RCC_CR := SET_BIT (RCC_CR s) RCC_CR_HSEBYP\<rparr> in s\<lparr>RCC_CR := SET_BIT (RCC_CR s) RCC_CR_HSEON\<rparr>)
      else
        (let s = s\<lparr>RCC_CR := CLEAR_BIT (RCC_CR s) RCC_CR_HSEON\<rparr> in s\<lparr>RCC_CR := CLEAR_BIT (RCC_CR s) RCC_CR_HSEBYP\<rparr>))"

definition HAL_RCC_LSE_CONFIG :: "u32 \<Rightarrow> rcc \<Rightarrow> rcc" where
  "HAL_RCC_LSE_CONFIG st s =
     (if st = RCC_LSE_ON then s\<lparr>RCC_BDCR := SET_BIT (RCC_BDCR s) RCC_BDCR_LSEON\<rparr>
      else if st = RCC_LSE_BYPASS then
        (let s = s\<lparr>RCC_BDCR := SET_BIT (RCC_BDCR s) RCC_BDCR_LSEBYP\<rparr> in s\<lparr>RCC_BDCR := SET_BIT (RCC_BDCR s) RCC_BDCR_LSEON\<rparr>)
      else
        (let s = s\<lparr>RCC_BDCR := CLEAR_BIT (RCC_BDCR s) RCC_BDCR_LSEON\<rparr> in s\<lparr>RCC_BDCR := CLEAR_BIT (RCC_BDCR s) RCC_BDCR_LSEBYP\<rparr>))"

definition HSI_CALIBRATIONVALUE_ADJUST :: "u32 \<Rightarrow> rcc \<Rightarrow> rcc" where
  "HSI_CALIBRATIONVALUE_ADJUST v s = s\<lparr>RCC_CR := MODIFY_REG (RCC_CR s) RCC_CR_HSITRIM (push_bit 3 v)\<rparr>"

definition HSI_switch :: "bool \<Rightarrow> rcc \<Rightarrow> rcc" where
  "HSI_switch b s = s\<lparr>RCC_CR := put_bits RCC_CR_HSION b (RCC_CR s)\<rparr>"

definition LSI_switch :: "bool \<Rightarrow> rcc \<Rightarrow> rcc" where
  "LSI_switch b s = s\<lparr>RCC_CSR := put_bits RCC_CSR_LSION b (RCC_CSR s)\<rparr>"

definition PLL_switch :: "bool \<Rightarrow> rcc \<Rightarrow> rcc" where
  "PLL_switch b s = s\<lparr>RCC_CR := put_bits RCC_CR_PLLON b (RCC_CR s)\<rparr>"

definition PWR_CLK_ENABLE :: "rcc \<Rightarrow> rcc" where
  "PWR_CLK_ENABLE s = s\<lparr>RCC_APB1ENR := SET_BIT (RCC_APB1ENR s) RCC_APB1ENR_PWREN\<rparr>"

text \<open>Whether the source is the system clock, itself or through the PLL.\<close>

definition drives_SYSCLK :: "u32 \<Rightarrow> u32 \<Rightarrow> rcc \<Rightarrow> bool" where
  "drives_SYSCLK sws src s \<longleftrightarrow> HAL_RCC_GET_SYSCLK_SOURCE s = sws \<or>
     HAL_RCC_GET_SYSCLK_SOURCE s = RCC_CFGR_SWS_PLL \<and> RCC_PLLCFGR s AND RCC_PLLCFGR_PLLSRC = src"

definition osc_HSE :: "rcc_env \<Rightarrow> nat \<Rightarrow> RCC_OscInitTypeDef \<Rightarrow> rcc_part" where
  "osc_HSE env fuel osc s =
     (if OscillatorType osc AND RCC_OSCILLATORTYPE_HSE = RCC_OSCILLATORTYPE_HSE then
        (if drives_SYSCLK RCC_CFGR_SWS_HSE RCC_PLLSOURCE_HSE s then
           (if HSE_ready s \<and> HSEState osc = RCC_HSE_OFF then returns HAL_ERROR s else go_on s)
         else
           (let s = HAL_RCC_HSE_CONFIG (HSEState osc) s
            in if HSEState osc \<noteq> RCC_HSE_OFF then rcc_wait env fuel HSE_ready HSE_TIMEOUT_VALUE s
               else rcc_wait env fuel (\<lambda>s. \<not> HSE_ready s) HSE_TIMEOUT_VALUE s))
      else go_on s)"

definition osc_HSI :: "rcc_env \<Rightarrow> nat \<Rightarrow> RCC_OscInitTypeDef \<Rightarrow> rcc_part" where
  "osc_HSI env fuel osc s =
     (if OscillatorType osc AND RCC_OSCILLATORTYPE_HSI = RCC_OSCILLATORTYPE_HSI then
        (if drives_SYSCLK RCC_CFGR_SWS_HSI RCC_PLLSOURCE_HSI s then
           (if HSI_ready s \<and> HSIState osc \<noteq> RCC_HSI_ON then returns HAL_ERROR s
            else does (HSI_CALIBRATIONVALUE_ADJUST (HSICalibrationValue osc)) s)
         else if HSIState osc \<noteq> RCC_HSI_OFF then
           rcc_then (rcc_wait env fuel HSI_ready HSI_TIMEOUT_VALUE)
             (does (HSI_CALIBRATIONVALUE_ADJUST (HSICalibrationValue osc))) (HSI_switch True s)
         else rcc_wait env fuel (\<lambda>s. \<not> HSI_ready s) HSI_TIMEOUT_VALUE (HSI_switch False s))
      else go_on s)"

definition osc_LSI :: "rcc_env \<Rightarrow> nat \<Rightarrow> RCC_OscInitTypeDef \<Rightarrow> rcc_part" where
  "osc_LSI env fuel osc s =
     (if OscillatorType osc AND RCC_OSCILLATORTYPE_LSI = RCC_OSCILLATORTYPE_LSI then
        (if LSIState osc \<noteq> RCC_LSI_OFF then rcc_wait env fuel LSI_ready LSI_TIMEOUT_VALUE (LSI_switch True s)
         else rcc_wait env fuel (\<lambda>s. \<not> LSI_ready s) LSI_TIMEOUT_VALUE (LSI_switch False s))
      else go_on s)"

definition osc_LSE :: "rcc_env \<Rightarrow> nat \<Rightarrow> RCC_OscInitTypeDef \<Rightarrow> rcc_part" where
  "osc_LSE env fuel osc s =
     (if OscillatorType osc AND RCC_OSCILLATORTYPE_LSE = RCC_OSCILLATORTYPE_LSE then
        (let s = PWR_CLK_ENABLE s;
             s = s\<lparr>PWR_CR := SET_BIT (PWR_CR s) PWR_CR_DBP\<rparr>
         in rcc_then (rcc_wait env fuel (\<lambda>s. HAL_IS_BIT_SET (PWR_CR s) PWR_CR_DBP) RCC_DBP_TIMEOUT_VALUE)
              (\<lambda>s. let s = HAL_RCC_LSE_CONFIG (LSEState osc) s
                   in if LSEState osc \<noteq> RCC_LSE_OFF then rcc_wait env fuel LSE_ready RCC_LSE_TIMEOUT_VALUE s
                      else rcc_wait env fuel (\<lambda>s. \<not> LSE_ready s) RCC_LSE_TIMEOUT_VALUE s) s)
      else go_on s)"

definition PLL_config :: "RCC_PLLInitTypeDef \<Rightarrow> u32" where
  "PLL_config p = PLLSource p OR PLLM p OR push_bit 6 (PLLN p) OR push_bit 16 (drop_bit 1 (PLLP p) - 1) OR push_bit 24 (PLLQ p)"

definition osc_PLL :: "rcc_env \<Rightarrow> nat \<Rightarrow> RCC_OscInitTypeDef \<Rightarrow> rcc_part" where
  "osc_PLL env fuel osc s =
     (if PLLState (PLL osc) \<noteq> RCC_PLL_NONE then
        (if HAL_RCC_GET_SYSCLK_SOURCE s \<noteq> RCC_CFGR_SWS_PLL then
           (if PLLState (PLL osc) = RCC_PLL_ON then
              rcc_then (rcc_wait env fuel (\<lambda>s. \<not> PLL_ready s) PLL_TIMEOUT_VALUE)
                (\<lambda>s. let s = s\<lparr>RCC_PLLCFGR := PLL_config (PLL osc)\<rparr>;
                         s = PLL_switch True s
                     in rcc_wait env fuel PLL_ready PLL_TIMEOUT_VALUE s) (PLL_switch False s)
            else rcc_wait env fuel (\<lambda>s. \<not> PLL_ready s) PLL_TIMEOUT_VALUE (PLL_switch False s))
         else returns HAL_ERROR s)
      else go_on s)"

definition status_of :: "(HAL_StatusTypeDef option \<times> rcc) option \<Rightarrow> (HAL_StatusTypeDef \<times> rcc) option" where
  "status_of r = map_option (\<lambda>(st, s). (case st of None \<Rightarrow> HAL_OK | Some st \<Rightarrow> st, s)) r"

definition HAL_RCC_OscConfig :: "rcc_env \<Rightarrow> nat \<Rightarrow> RCC_OscInitTypeDef \<Rightarrow> rcc \<Rightarrow> (HAL_StatusTypeDef \<times> rcc) option" where
  "HAL_RCC_OscConfig env fuel osc s =
     status_of (rcc_then (osc_HSE env fuel osc) (rcc_then (osc_HSI env fuel osc) (rcc_then (osc_LSI env fuel osc)
       (rcc_then (osc_LSE env fuel osc) (osc_PLL env fuel osc)))) s)"

section \<open>Frequencies\<close>

definition AHBPrescTable :: "nat list" where
  "AHBPrescTable = [0, 0, 0, 0, 0, 0, 0, 0, 1, 2, 3, 4, 6, 7, 8, 9]"

definition APBPrescTable :: "nat list" where
  "APBPrescTable = [0, 0, 0, 0, 1, 2, 3, 4]"

definition HAL_RCC_GetSysClockFreq :: "rcc \<Rightarrow> u32" where
  "HAL_RCC_GetSysClockFreq s =
     (let sws = RCC_CFGR s AND RCC_CFGR_SWS
      in if sws = RCC_CFGR_SWS_HSI then HSI_VALUE
         else if sws = RCC_CFGR_SWS_HSE then HSE_VALUE
         else if sws = RCC_CFGR_SWS_PLL then
           (let pllm = RCC_PLLCFGR s AND RCC_PLLCFGR_PLLM;
                plln = drop_bit 6 (RCC_PLLCFGR s AND RCC_PLLCFGR_PLLN);
                pllvco = (if RCC_PLLCFGR s AND RCC_PLLCFGR_PLLSRC \<noteq> RCC_PLLSOURCE_HSI then HSE_VALUE div pllm * plln
                          else HSI_VALUE div pllm * plln);
                pllp = (drop_bit 16 (RCC_PLLCFGR s AND RCC_PLLCFGR_PLLP) + 1) * 2
            in pllvco div pllp)
         else HSI_VALUE)"

definition HAL_RCC_GetHCLKFreq :: "rcc \<Rightarrow> u32" where
  "HAL_RCC_GetHCLKFreq s = SystemCoreClock s"

definition HAL_RCC_GetPCLK1Freq :: "rcc \<Rightarrow> u32" where
  "HAL_RCC_GetPCLK1Freq s = drop_bit (APBPrescTable ! unat (drop_bit 10 (RCC_CFGR s AND RCC_CFGR_PPRE1))) (HAL_RCC_GetHCLKFreq s)"

definition HAL_RCC_GetPCLK2Freq :: "rcc \<Rightarrow> u32" where
  "HAL_RCC_GetPCLK2Freq s = drop_bit (APBPrescTable ! unat (drop_bit 13 (RCC_CFGR s AND RCC_CFGR_PPRE2))) (HAL_RCC_GetHCLKFreq s)"

section \<open>The tick\<close>

text \<open>\<open>SysTick_Config\<close> of core_cm4.h; a reload value beyond 24 bits is refused. The priorities are not modelled.\<close>

definition SysTick_Config :: "u32 \<Rightarrow> rcc \<Rightarrow> u32 \<times> rcc" where
  "SysTick_Config ticks s =
     (if ticks - 1 > 0xFFFFFF then (1, s)
      else (0, s\<lparr>SysTick_LOAD := ticks - 1, SysTick_VAL := 0, SysTick_CTRL := 0x4 OR 0x2 OR 0x1\<rparr>))"

definition HAL_SYSTICK_Config :: "u32 \<Rightarrow> rcc \<Rightarrow> u32 \<times> rcc" where
  "HAL_SYSTICK_Config TicksNumb s = SysTick_Config TicksNumb s"

definition HAL_InitTick :: "rcc \<Rightarrow> rcc" where
  "HAL_InitTick s = snd (HAL_SYSTICK_Config (SystemCoreClock s div 1000) s)"

section \<open>Bus clocks\<close>

definition set_FLASH_LATENCY :: "u32 \<Rightarrow> rcc_part" where
  "set_FLASH_LATENCY l s =
     (let s = s\<lparr>FLASH_ACR := (FLASH_ACR s AND NOT 0xFF) OR (l AND 0xFF)\<rparr>
      in if FLASH_ACR s AND FLASH_ACR_LATENCY \<noteq> l then returns HAL_ERROR s else go_on s)"

definition clk_SYSCLK :: "rcc_env \<Rightarrow> nat \<Rightarrow> RCC_ClkInitTypeDef \<Rightarrow> rcc_part" where
  "clk_SYSCLK env fuel c s =
     (if ClockType c AND RCC_CLOCKTYPE_SYSCLK = RCC_CLOCKTYPE_SYSCLK then
        (let src = SYSCLKSource c;
             ready = (if src = RCC_SYSCLKSOURCE_HSE then HSE_ready s
                      else if src = RCC_SYSCLKSOURCE_PLLCLK \<or> src = RCC_SYSCLKSOURCE_PLLRCLK then PLL_ready s
                      else HSI_ready s)
         in if \<not> ready then returns HAL_ERROR s
            else
              (let s = s\<lparr>RCC_CFGR := MODIFY_REG (RCC_CFGR s) RCC_CFGR_SW src\<rparr>;
                   sws = (if src = RCC_SYSCLKSOURCE_HSE then RCC_CFGR_SWS_HSE
                          else if src = RCC_SYSCLKSOURCE_PLLCLK then RCC_CFGR_SWS_PLL
                          else if src = RCC_SYSCLKSOURCE_PLLRCLK then RCC_CFGR_SWS_PLLR
                          else RCC_CFGR_SWS_HSI)
               in rcc_wait env fuel (\<lambda>s. HAL_RCC_GET_SYSCLK_SOURCE s = sws) CLOCKSWITCH_TIMEOUT_VALUE s))
      else go_on s)"

definition clk_dividers :: "RCC_ClkInitTypeDef \<Rightarrow> rcc \<Rightarrow> rcc" where
  "clk_dividers c s =
     (let s = (if ClockType c AND RCC_CLOCKTYPE_PCLK1 = RCC_CLOCKTYPE_PCLK1
               then s\<lparr>RCC_CFGR := MODIFY_REG (RCC_CFGR s) RCC_CFGR_PPRE1 (APB1CLKDivider c)\<rparr> else s);
          s = (if ClockType c AND RCC_CLOCKTYPE_PCLK2 = RCC_CLOCKTYPE_PCLK2
               then s\<lparr>RCC_CFGR := MODIFY_REG (RCC_CFGR s) RCC_CFGR_PPRE2 (push_bit 3 (APB2CLKDivider c))\<rparr> else s);
          s = s\<lparr>SystemCoreClock := drop_bit (AHBPrescTable ! unat (drop_bit 4 (RCC_CFGR s AND RCC_CFGR_HPRE))) (HAL_RCC_GetSysClockFreq s)\<rparr>
      in HAL_InitTick s)"

definition HAL_RCC_ClockConfig :: "rcc_env \<Rightarrow> nat \<Rightarrow> RCC_ClkInitTypeDef \<Rightarrow> u32 \<Rightarrow> rcc \<Rightarrow> (HAL_StatusTypeDef \<times> rcc) option" where
  "HAL_RCC_ClockConfig env fuel c FLatency s =
     status_of (rcc_then (\<lambda>s. if FLatency > FLASH_ACR s AND FLASH_ACR_LATENCY then set_FLASH_LATENCY FLatency s else go_on s)
       (rcc_then (does (\<lambda>s. if ClockType c AND RCC_CLOCKTYPE_HCLK = RCC_CLOCKTYPE_HCLK
          then s\<lparr>RCC_CFGR := MODIFY_REG (RCC_CFGR s) RCC_CFGR_HPRE (AHBCLKDivider c)\<rparr> else s))
       (rcc_then (clk_SYSCLK env fuel c)
       (rcc_then (\<lambda>s. if FLatency < FLASH_ACR s AND FLASH_ACR_LATENCY then set_FLASH_LATENCY FLatency s else go_on s)
         (does (clk_dividers c))))) s)"

section \<open>Reading the configuration back\<close>

definition HAL_RCC_GetOscConfig :: "rcc \<Rightarrow> RCC_OscInitTypeDef" where
  "HAL_RCC_GetOscConfig s =
   \<lparr>OscillatorType = RCC_OSCILLATORTYPE_HSE OR RCC_OSCILLATORTYPE_HSI OR RCC_OSCILLATORTYPE_LSE OR RCC_OSCILLATORTYPE_LSI,
    HSEState = (if RCC_CR s AND RCC_CR_HSEBYP = RCC_CR_HSEBYP then RCC_HSE_BYPASS
                else if RCC_CR s AND RCC_CR_HSEON = RCC_CR_HSEON then RCC_HSE_ON else RCC_HSE_OFF),
    LSEState = (if RCC_BDCR s AND RCC_BDCR_LSEBYP = RCC_BDCR_LSEBYP then RCC_LSE_BYPASS
                else if RCC_BDCR s AND RCC_BDCR_LSEON = RCC_BDCR_LSEON then RCC_LSE_ON else RCC_LSE_OFF),
    HSIState = (if RCC_CR s AND RCC_CR_HSION = RCC_CR_HSION then RCC_HSI_ON else RCC_HSI_OFF),
    HSICalibrationValue = drop_bit 3 (RCC_CR s AND RCC_CR_HSITRIM),
    LSIState = (if RCC_CSR s AND RCC_CSR_LSION = RCC_CSR_LSION then RCC_LSI_ON else RCC_LSI_OFF),
    PLL = \<lparr>PLLState = (if RCC_CR s AND RCC_CR_PLLON = RCC_CR_PLLON then RCC_PLL_ON else RCC_PLL_OFF),
      PLLSource = RCC_PLLCFGR s AND RCC_PLLCFGR_PLLSRC,
      PLLM = RCC_PLLCFGR s AND RCC_PLLCFGR_PLLM,
      PLLN = drop_bit 6 (RCC_PLLCFGR s AND RCC_PLLCFGR_PLLN),
      PLLP = drop_bit 16 (push_bit 1 ((RCC_PLLCFGR s AND RCC_PLLCFGR_PLLP) + RCC_PLLCFGR_PLLP_0)),
      PLLQ = drop_bit 24 (RCC_PLLCFGR s AND RCC_PLLCFGR_PLLQ)\<rparr>\<rparr>"

text \<open>The configuration and the latency.\<close>

definition HAL_RCC_GetClockConfig :: "rcc \<Rightarrow> RCC_ClkInitTypeDef \<times> u32" where
  "HAL_RCC_GetClockConfig s =
    (\<lparr>ClockType = RCC_CLOCKTYPE_SYSCLK OR RCC_CLOCKTYPE_HCLK OR RCC_CLOCKTYPE_PCLK1 OR RCC_CLOCKTYPE_PCLK2,
      SYSCLKSource = RCC_CFGR s AND RCC_CFGR_SW, AHBCLKDivider = RCC_CFGR s AND RCC_CFGR_HPRE,
      APB1CLKDivider = RCC_CFGR s AND RCC_CFGR_PPRE1, APB2CLKDivider = drop_bit 3 (RCC_CFGR s AND RCC_CFGR_PPRE2)\<rparr>,
     FLASH_ACR s AND FLASH_ACR_LATENCY)"

definition HAL_RCC_EnableCSS :: "rcc \<Rightarrow> rcc" where
  "HAL_RCC_EnableCSS s = s\<lparr>RCC_CR := put_bits RCC_CR_CSSON True (RCC_CR s)\<rparr>"

definition HAL_RCC_DisableCSS :: "rcc \<Rightarrow> rcc" where
  "HAL_RCC_DisableCSS s = s\<lparr>RCC_CR := put_bits RCC_CR_CSSON False (RCC_CR s)\<rparr>"

text \<open>Writing 1 to the bits 16 to 23 of \<open>CIR\<close> clears the flag 16 bits below.\<close>

definition HAL_RCC_NMI_IRQHandler :: "(rcc \<Rightarrow> rcc) \<Rightarrow> rcc \<Rightarrow> rcc" where
  "HAL_RCC_NMI_IRQHandler css_callback s =
     (if RCC_CIR s AND RCC_IT_CSS = RCC_IT_CSS then
        (let s = css_callback s in s\<lparr>RCC_CIR := CLEAR_BIT (RCC_CIR s) RCC_IT_CSS\<rparr>)
      else s)"

section \<open>From reset to the final clocks\<close>

definition SystemInit :: "rcc \<Rightarrow> rcc" where
  "SystemInit s =
     (let s = s\<lparr>SCB_CPACR := SCB_CPACR s OR 0x00F00000\<rparr>;
          s = s\<lparr>RCC_CR := RCC_CR s OR 0x00000001\<rparr>;
          s = s\<lparr>RCC_CFGR := RCC_CFGR s AND RCC_CFGR_SWS\<rparr>;
          s = s\<lparr>RCC_CR := RCC_CR s AND 0xFEF6FFFF\<rparr>;
          s = s\<lparr>RCC_PLLCFGR := 0x24003010\<rparr>;
          s = s\<lparr>RCC_CR := RCC_CR s AND 0xFFFBFFFF\<rparr>;
          s = s\<lparr>RCC_CIR := 0\<rparr>
      in s\<lparr>SCB_VTOR := FLASH_BASE\<rparr>)"

definition SystemCoreClockUpdate :: "rcc \<Rightarrow> rcc" where
  "SystemCoreClockUpdate s =
     (let tmp = RCC_CFGR s AND RCC_CFGR_SWS;
          clock =
            (if tmp = 0x00 then HSI_VALUE
             else if tmp = 0x04 then HSE_VALUE
             else if tmp = 0x08 then
               (let pllsource = drop_bit 22 (RCC_PLLCFGR s AND RCC_PLLCFGR_PLLSRC);
                    pllm = RCC_PLLCFGR s AND RCC_PLLCFGR_PLLM;
                    plln = drop_bit 6 (RCC_PLLCFGR s AND RCC_PLLCFGR_PLLN);
                    pllvco = (if pllsource \<noteq> 0 then HSE_VALUE div pllm * plln else HSI_VALUE div pllm * plln);
                    pllp = (drop_bit 16 (RCC_PLLCFGR s AND RCC_PLLCFGR_PLLP) + 1) * 2
                in pllvco div pllp)
             else HSI_VALUE);
          s = s\<lparr>SystemCoreClock := clock\<rparr>;
          tmp = AHBPrescTable ! unat (drop_bit 4 (RCC_CFGR s AND RCC_CFGR_HPRE))
      in s\<lparr>SystemCoreClock := drop_bit tmp (SystemCoreClock s)\<rparr>)"

text \<open>\<open>HAL_MspInit\<close> does nothing; the priority grouping is not modelled.\<close>

definition HAL_Init :: "rcc \<Rightarrow> HAL_StatusTypeDef \<times> rcc" where
  "HAL_Init s =
     (let s = s\<lparr>FLASH_ACR := FLASH_ACR s OR FLASH_ACR_ICEN\<rparr>;
          s = s\<lparr>FLASH_ACR := FLASH_ACR s OR FLASH_ACR_DCEN\<rparr>
      in (HAL_OK, HAL_InitTick s))"

definition HAL_GetREVID :: "rcc \<Rightarrow> u32" where
  "HAL_GetREVID s = drop_bit 16 (DBGMCU_IDCODE s)"

text \<open>\<open>None\<close>: it runs for ever, either in a loop of the driver or in one of its own.\<close>

definition Stm32_Clock_Init :: "rcc_env \<Rightarrow> nat \<Rightarrow> u32 \<Rightarrow> u32 \<Rightarrow> u32 \<Rightarrow> u32 \<Rightarrow> RCC_OscInitTypeDef \<Rightarrow> rcc \<Rightarrow> rcc option" where
  "Stm32_Clock_Init env fuel plln pllm pllp pllq uninit s = do {
     let s = PWR_CLK_ENABLE s;
     let s = s\<lparr>PWR_CR := MODIFY_REG (PWR_CR s) PWR_CR_VOS PWR_CR_VOS\<rparr>;
     let osc = uninit\<lparr>OscillatorType := RCC_OSCILLATORTYPE_HSE, HSEState := RCC_HSE_ON,
       PLL := \<lparr>PLLState = RCC_PLL_ON, PLLSource = RCC_PLLSOURCE_HSE, PLLM = pllm, PLLN = plln, PLLP = pllp, PLLQ = pllq\<rparr>\<rparr>;
     (ret, s) \<leftarrow> HAL_RCC_OscConfig env fuel osc s;
     if ret \<noteq> HAL_OK then None
     else do {
       (ret, s) \<leftarrow> HAL_RCC_ClockConfig env fuel
         \<lparr>ClockType = RCC_CLOCKTYPE_SYSCLK OR RCC_CLOCKTYPE_HCLK OR RCC_CLOCKTYPE_PCLK1 OR RCC_CLOCKTYPE_PCLK2,
          SYSCLKSource = RCC_SYSCLKSOURCE_PLLCLK, AHBCLKDivider = RCC_SYSCLK_DIV1,
          APB1CLKDivider = RCC_HCLK_DIV4, APB2CLKDivider = RCC_HCLK_DIV2\<rparr> FLASH_LATENCY_5 s;
       if ret \<noteq> HAL_OK then None
       else Some (if HAL_GetREVID s = 0x1001 then s\<lparr>FLASH_ACR := FLASH_ACR s OR FLASH_ACR_PRFTEN\<rparr> else s)
     }
   }"

end
