(* ===== verification/RccProps.thy ===== *)
theory RccProps
  imports Rcc
begin

text \<open>
  What the clock set-up reaches: the frequencies, the settings read back, the behaviour without a crystal.
\<close>

section \<open>Waiting\<close>

definition rcc_poll :: "rcc_env \<Rightarrow> rcc \<Rightarrow> rcc" where
  "rcc_poll env s = snd (rcc_tick env s)"

lemma rcc_tick_poll: "rcc_tick env s = (c_tick env (rcc_polls s), rcc_poll env s)"
  by (simp add: rcc_poll_def rcc_tick_def Let_def)

lemma rcc_polls_poll:
  "(\<And>k t. rcc_polls (c_hw env k t) = rcc_polls t) \<Longrightarrow> rcc_polls (rcc_poll env s) = Suc (rcc_polls s)"
  by (simp add: rcc_poll_def rcc_tick_def Let_def)

text \<open>
  The flags of the hardware: the crystal is ready while it is on and \<open>hse\<close> holds, the PLL likewise, and the system
  clock is the selected one once \<open>sw\<close> holds.
\<close>

definition clk_hw :: "(nat \<Rightarrow> bool) \<Rightarrow> (nat \<Rightarrow> bool) \<Rightarrow> (nat \<Rightarrow> bool) \<Rightarrow> nat \<Rightarrow> rcc \<Rightarrow> rcc" where
  "clk_hw hse pll sw k s =
     (let s = s\<lparr>RCC_CR := put_bits RCC_CR_HSERDY (HAL_IS_BIT_SET (RCC_CR s) RCC_CR_HSEON \<and> hse k) (RCC_CR s)\<rparr>;
          s = s\<lparr>RCC_CR := put_bits RCC_CR_PLLRDY (HAL_IS_BIT_SET (RCC_CR s) RCC_CR_PLLON \<and> pll k) (RCC_CR s)\<rparr>
      in if sw k then s\<lparr>RCC_CFGR := MODIFY_REG (RCC_CFGR s) RCC_CFGR_SWS (push_bit 2 (RCC_CFGR s AND RCC_CFGR_SW))\<rparr> else s)"

text \<open>What only the program changes.\<close>

definition clk_cfg :: "rcc \<Rightarrow> rcc" where
  "clk_cfg s = s\<lparr>RCC_CR := CLEAR_BIT (RCC_CR s) (RCC_CR_HSERDY OR RCC_CR_PLLRDY),
     RCC_CFGR := CLEAR_BIT (RCC_CFGR s) RCC_CFGR_SWS, rcc_polls := 0\<rparr>"

lemma CLEAR_put_bits: "m AND k = m \<Longrightarrow> CLEAR_BIT (put_bits m b r) k = CLEAR_BIT r k"
  unfolding sub_iff by (subst u32_eq_iff) (auto simp: put_bits_def bit_SET_BIT bit_CLEAR_BIT)

lemma CLEAR_MODIFY_REG: "c AND k = c \<Longrightarrow> v AND k = v \<Longrightarrow> CLEAR_BIT (MODIFY_REG r c v) k = CLEAR_BIT r k"
  unfolding sub_iff by (subst u32_eq_iff) (auto simp: MODIFY_REG_def CLEAR_BIT_def bit_simps)

lemma clk_cfg_hw: "clk_cfg (clk_hw hse pll sw k s) = clk_cfg s"
  by (simp add: clk_cfg_def clk_hw_def Let_def CLEAR_put_bits CLEAR_MODIFY_REG and.assoc)

lemma clk_cfg_poll:
  "c_hw env = clk_hw hse pll sw \<Longrightarrow> clk_cfg (rcc_poll env s) = clk_cfg s"
proof -
  have "clk_cfg (s\<lparr>rcc_polls := n\<rparr>) = clk_cfg s" for s n
    by (simp add: clk_cfg_def)
  then show "c_hw env = clk_hw hse pll sw \<Longrightarrow> clk_cfg (rcc_poll env s) = clk_cfg s"
    by (simp add: rcc_poll_def rcc_tick_def Let_def clk_cfg_hw)
qed

lemma rcc_wait_loop_ready:
  assumes "\<And>t. rcc_polls (rcc_poll env t) = Suc (rcc_polls t)" "\<And>t. J t \<Longrightarrow> J (rcc_poll env t)"
    and "\<And>t. J t \<Longrightarrow> h (rcc_polls t) \<Longrightarrow> ready (rcc_poll env t)"
  shows "J s \<Longrightarrow> h (rcc_polls s + n) \<Longrightarrow> n + 1 < fuel \<Longrightarrow> \<forall>j \<le> n. c_tick env (rcc_polls s + j) - start \<le> T \<Longrightarrow>
    \<exists>t. rcc_wait_loop env fuel ready T start s = Some (False, t) \<and> J t \<and> ready t"
proof (induction n arbitrary: s fuel)
  case 0
  obtain f where f: "fuel = Suc (Suc f)"
    using that [of "fuel - 2"] "0.prems"(3) by simp
  show ?case
    using 0 assms(2,3) [of s] by (auto simp: f rcc_tick_poll not_less)
next
  case (Suc n)
  obtain f where f: "fuel = Suc f" "n + 1 < f"
    using Suc.prems(3) by (cases fuel) auto
  show ?case
  proof (cases "ready s")
    case True
    then show ?thesis using Suc.prems(1) by (simp add: f)
  next
    case False
    have "\<exists>t. rcc_wait_loop env f ready T start (rcc_poll env s) = Some (False, t) \<and> J t \<and> ready t"
      using Suc.prems f by (intro Suc.IH) (auto simp: assms(1,2) dest: spec [of _ "Suc _"])
    then show ?thesis
      using False Suc.prems(4) by (auto simp: f rcc_tick_poll not_less)
  qed
qed

lemma rcc_wait_ready:
  assumes "\<And>t. rcc_polls (rcc_poll env t) = Suc (rcc_polls t)" "\<And>t. J t \<Longrightarrow> J (rcc_poll env t)"
    and "\<And>t. J t \<Longrightarrow> h (rcc_polls t) \<Longrightarrow> ready (rcc_poll env t)"
    and "J s" "\<forall>k. \<exists>j < B. h (k + j)" "\<forall>k. \<forall>j \<le> B. c_tick env (k + j) - c_tick env k \<le> T" "B < fuel"
  shows "\<exists>t. rcc_wait env fuel ready T s = Some (None, t) \<and> J t \<and> ready t"
proof -
  let ?s = "rcc_poll env s"
  obtain n where n: "n < B" "h (rcc_polls ?s + n)"
    using assms(5) by blast
  obtain t where "rcc_wait_loop env fuel ready T (c_tick env (rcc_polls s)) ?s = Some (False, t)" "J t" "ready t"
  proof (atomize_elim, rule rcc_wait_loop_ready [where h = h and n = n and J = J and ready = ready, OF assms(1,2,3)])
    show "J ?s" by (rule assms(2)) (rule assms(4))
    show "\<forall>j \<le> n. c_tick env (rcc_polls ?s + j) - c_tick env (rcc_polls s) \<le> T"
    proof (intro allI impI)
      fix j assume "j \<le> n"
      then have "c_tick env (rcc_polls s + Suc j) - c_tick env (rcc_polls s) \<le> T"
        using assms(6) n(1) by (metis Suc_leI le_less_trans)
      then show "c_tick env (rcc_polls ?s + j) - c_tick env (rcc_polls s) \<le> T"
        by (simp add: assms(1))
    qed
  qed (use n assms(7) in simp_all)
  then show ?thesis
    by (intro exI [of _ t]) (simp add: rcc_wait_def rcc_tick_poll)
qed

section \<open>The stages of the set-up\<close>

text \<open>
  Oscillator, PLL and switch take at most \<open>B\<close> readings of the tick, in which it advances by at most 2.
\<close>

definition clocks_start :: "nat \<Rightarrow> rcc_env \<Rightarrow> bool" where
  "clocks_start B env \<longleftrightarrow> (\<exists>hse pll sw. c_hw env = clk_hw hse pll sw \<and>
     (\<forall>k. \<exists>j < B. hse (k + j)) \<and> (\<forall>k. \<exists>j < B. pll (k + j)) \<and> (\<forall>k. \<exists>j < B. sw (k + j))) \<and>
     (\<forall>k. \<forall>j \<le> B. c_tick env (k + j) - c_tick env k \<le> 2)"

text \<open>A state with the configuration \<open>c\<close> whose system clock is the HSI or the one selected.\<close>

definition clk_at :: "rcc \<Rightarrow> rcc \<Rightarrow> bool" where
  "clk_at c t \<longleftrightarrow> clk_cfg t = clk_cfg c \<and>
     HAL_RCC_GET_SYSCLK_SOURCE t \<in> {0, push_bit 2 (RCC_CFGR c AND RCC_CFGR_SW)}"

lemma clk_cfg_fields:
  assumes "clk_cfg t = clk_cfg c"
  shows "RCC_PLLCFGR t = RCC_PLLCFGR c" "FLASH_ACR t = FLASH_ACR c" "SystemCoreClock t = SystemCoreClock c"
    "SysTick_LOAD t = SysTick_LOAD c" "SysTick_CTRL t = SysTick_CTRL c" "PWR_CR t = PWR_CR c" "DBGMCU_IDCODE t = DBGMCU_IDCODE c"
    "RCC_APB1ENR t = RCC_APB1ENR c"
    "CLEAR_BIT (RCC_CR t) 0x2020000 = CLEAR_BIT (RCC_CR c) 0x2020000" "CLEAR_BIT (RCC_CFGR t) RCC_CFGR_SWS = CLEAR_BIT (RCC_CFGR c) RCC_CFGR_SWS"
  using arg_cong [OF assms, of RCC_PLLCFGR] arg_cong [OF assms, of FLASH_ACR] arg_cong [OF assms, of SystemCoreClock]
    arg_cong [OF assms, of SysTick_LOAD] arg_cong [OF assms, of SysTick_CTRL] arg_cong [OF assms, of PWR_CR]
    arg_cong [OF assms, of DBGMCU_IDCODE] arg_cong [OF assms, of RCC_APB1ENR] arg_cong [OF assms, of RCC_CR] arg_cong [OF assms, of RCC_CFGR]
  by (simp_all add: clk_cfg_def)

lemma is_set_CLEAR_cong:
  "CLEAR_BIT r k = CLEAR_BIT r' k \<Longrightarrow> m AND k = 0 \<Longrightarrow> HAL_IS_BIT_SET r m = HAL_IS_BIT_SET r' m"
  by (metis is_set_CLEAR_other)

lemma AND_CLEAR_cong:
  assumes "CLEAR_BIT r k = CLEAR_BIT r' k" "m AND k = 0"
  shows "r AND m = r' AND m"
proof -
  have "CLEAR_BIT x k AND m = x AND m" for x
    unfolding CLEAR_BIT_def using assms(2) unfolding disjoint_iff by (subst u32_eq_iff) (auto simp: bit_simps)
  then show ?thesis
    using assms(1) by metis
qed

lemma clk_cfg_is_set:
  assumes "clk_cfg t = clk_cfg c"
  shows "HAL_IS_BIT_SET (RCC_CR t) RCC_CR_HSEON = HAL_IS_BIT_SET (RCC_CR c) RCC_CR_HSEON"
    "HAL_IS_BIT_SET (RCC_CR t) RCC_CR_PLLON = HAL_IS_BIT_SET (RCC_CR c) RCC_CR_PLLON"
    "RCC_CFGR t AND RCC_CFGR_SW = RCC_CFGR c AND RCC_CFGR_SW"
    "RCC_CFGR t AND RCC_CFGR_HPRE = RCC_CFGR c AND RCC_CFGR_HPRE"
  using is_set_CLEAR_cong [OF clk_cfg_fields(9) [OF assms]] AND_CLEAR_cong [OF clk_cfg_fields(10) [OF assms]] by simp_all

lemma poll_flags:
  assumes "c_hw env = clk_hw hse pll sw"
  shows "HSE_ready (rcc_poll env t) \<longleftrightarrow> HAL_IS_BIT_SET (RCC_CR t) RCC_CR_HSEON \<and> hse (rcc_polls t)"
    "PLL_ready (rcc_poll env t) \<longleftrightarrow> HAL_IS_BIT_SET (RCC_CR t) RCC_CR_PLLON \<and> pll (rcc_polls t)"
    "HAL_RCC_GET_SYSCLK_SOURCE (rcc_poll env t) =
       (if sw (rcc_polls t) then push_bit 2 (RCC_CFGR t AND RCC_CFGR_SW) else HAL_RCC_GET_SYSCLK_SOURCE t)"
proof -
  have m: "MODIFY_REG r 12 (push_bit 2 r AND 12) AND 12 = push_bit 2 r AND 12" for r :: u32
    by (subst u32_eq_iff) (auto simp: MODIFY_REG_def bit_simps)
  show "HSE_ready (rcc_poll env t) \<longleftrightarrow> HAL_IS_BIT_SET (RCC_CR t) RCC_CR_HSEON \<and> hse (rcc_polls t)"
    "PLL_ready (rcc_poll env t) \<longleftrightarrow> HAL_IS_BIT_SET (RCC_CR t) RCC_CR_PLLON \<and> pll (rcc_polls t)"
    "HAL_RCC_GET_SYSCLK_SOURCE (rcc_poll env t) =
       (if sw (rcc_polls t) then push_bit 2 (RCC_CFGR t AND RCC_CFGR_SW) else HAL_RCC_GET_SYSCLK_SOURCE t)"
    using assms by (simp_all add: rcc_poll_def rcc_tick_def Let_def clk_hw_def put_bits_def HSE_ready_def PLL_ready_def
        flag_simps HAL_RCC_GET_SYSCLK_SOURCE_def m)
qed

lemma clk_at_poll:
  assumes "c_hw env = clk_hw hse pll sw" "clk_at c t"
  shows "clk_at c (rcc_poll env t)"
  using assms clk_cfg_poll [OF assms(1), of t] poll_flags(3) [OF assms(1), of t] clk_cfg_is_set(3) [of t c]
  by (auto simp: clk_at_def)

lemma rcc_polls_hw: "c_hw env = clk_hw hse pll sw \<Longrightarrow> rcc_polls (rcc_poll env t) = Suc (rcc_polls t)"
  by (rule rcc_polls_poll) (simp add: clk_hw_def Let_def)

lemma clk_wait:
  assumes "clocks_start B env" "B < fuel" "clk_at c s" "2 \<le> T"
  shows "HAL_IS_BIT_SET (RCC_CR c) RCC_CR_HSEON \<Longrightarrow>
      \<exists>t. rcc_wait env fuel HSE_ready T s = Some (None, t) \<and> clk_at c t \<and> HSE_ready t"
    "HAL_IS_BIT_SET (RCC_CR c) RCC_CR_PLLON \<Longrightarrow>
      \<exists>t. rcc_wait env fuel PLL_ready T s = Some (None, t) \<and> clk_at c t \<and> PLL_ready t"
    "\<not> HAL_IS_BIT_SET (RCC_CR c) RCC_CR_PLLON \<Longrightarrow>
      \<exists>t. rcc_wait env fuel (\<lambda>s. \<not> PLL_ready s) T s = Some (None, t) \<and> clk_at c t \<and> \<not> PLL_ready t"
    "\<exists>t. rcc_wait env fuel (\<lambda>s. HAL_RCC_GET_SYSCLK_SOURCE s = push_bit 2 (RCC_CFGR c AND RCC_CFGR_SW)) T s = Some (None, t) \<and>
       clk_at c t \<and> HAL_RCC_GET_SYSCLK_SOURCE t = push_bit 2 (RCC_CFGR c AND RCC_CFGR_SW)"
proof -
  obtain hse pll sw where e: "c_hw env = clk_hw hse pll sw" "\<forall>k. \<exists>j < B. hse (k + j)" "\<forall>k. \<exists>j < B. pll (k + j)"
    "\<forall>k. \<exists>j < B. sw (k + j)" and "\<forall>k. \<forall>j \<le> B. c_tick env (k + j) - c_tick env k \<le> 2"
    using assms(1) unfolding clocks_start_def by blast
  then have l: "\<forall>k. \<forall>j \<le> B. c_tick env (k + j) - c_tick env k \<le> T"
    using assms(4) by (meson order_trans)
  have c: "clk_cfg t = clk_cfg c" if "clk_at c t" for t
    using that by (simp add: clk_at_def)
  note w = rcc_wait_ready [where J = "clk_at c", OF rcc_polls_hw [OF e(1)] clk_at_poll [OF e(1)] _ assms(3) _ l assms(2)]
  show "HAL_IS_BIT_SET (RCC_CR c) RCC_CR_HSEON \<Longrightarrow>
      \<exists>t. rcc_wait env fuel HSE_ready T s = Some (None, t) \<and> clk_at c t \<and> HSE_ready t"
    by (rule w [where h = hse]) (simp_all add: poll_flags [OF e(1)] clk_cfg_is_set [OF c] e(2))
  show "HAL_IS_BIT_SET (RCC_CR c) RCC_CR_PLLON \<Longrightarrow>
      \<exists>t. rcc_wait env fuel PLL_ready T s = Some (None, t) \<and> clk_at c t \<and> PLL_ready t"
    by (rule w [where h = pll]) (simp_all add: poll_flags [OF e(1)] clk_cfg_is_set [OF c] e(3))
  show "\<not> HAL_IS_BIT_SET (RCC_CR c) RCC_CR_PLLON \<Longrightarrow>
      \<exists>t. rcc_wait env fuel (\<lambda>s. \<not> PLL_ready s) T s = Some (None, t) \<and> clk_at c t \<and> \<not> PLL_ready t"
    by (rule w [where h = pll]) (simp_all add: poll_flags [OF e(1)] clk_cfg_is_set [OF c] e(3))
  show "\<exists>t. rcc_wait env fuel (\<lambda>s. HAL_RCC_GET_SYSCLK_SOURCE s = push_bit 2 (RCC_CFGR c AND RCC_CFGR_SW)) T s = Some (None, t) \<and>
       clk_at c t \<and> HAL_RCC_GET_SYSCLK_SOURCE t = push_bit 2 (RCC_CFGR c AND RCC_CFGR_SW)"
  proof (rule w [where h = sw])
    show "HAL_RCC_GET_SYSCLK_SOURCE (rcc_poll env t) = push_bit 2 (RCC_CFGR c AND RCC_CFGR_SW)"
      if "clk_at c t" "sw (rcc_polls t)" for t
      using that by (simp only: poll_flags(3) [OF e(1)] if_True clk_cfg_is_set(3) [OF c])
  qed (use e(4) in simp_all)
qed

lemma CLEAR_put_cong: "CLEAR_BIT r k = CLEAR_BIT r' k \<Longrightarrow> CLEAR_BIT (put_bits m b r) k = CLEAR_BIT (put_bits m b r') k"
  unfolding u32_eq_iff by (auto simp: put_bits_def bit_SET_BIT bit_CLEAR_BIT)

lemma CLEAR_MODIFY_cong:
  "CLEAR_BIT r k = CLEAR_BIT r' k \<Longrightarrow> CLEAR_BIT (MODIFY_REG r m v) k = CLEAR_BIT (MODIFY_REG r' m v) k"
  unfolding u32_eq_iff by (auto simp: MODIFY_REG_def CLEAR_BIT_def bit_simps)

lemma clk_cfg_eq:
  "clk_cfg s = clk_cfg t \<longleftrightarrow> s\<lparr>RCC_CR := 0, RCC_CFGR := 0, rcc_polls := 0\<rparr> = t\<lparr>RCC_CR := 0, RCC_CFGR := 0, rcc_polls := 0\<rparr> \<and>
     CLEAR_BIT (RCC_CR s) 0x2020000 = CLEAR_BIT (RCC_CR t) 0x2020000 \<and>
     CLEAR_BIT (RCC_CFGR s) RCC_CFGR_SWS = CLEAR_BIT (RCC_CFGR t) RCC_CFGR_SWS"
  unfolding clk_cfg_def by (cases s; cases t) auto

lemma clk_cfg_congs:
  assumes "clk_cfg s = clk_cfg t"
  shows "clk_cfg (PLL_switch b s) = clk_cfg (PLL_switch b t)"
    "clk_cfg (HAL_RCC_HSE_CONFIG RCC_HSE_ON s) = clk_cfg (HAL_RCC_HSE_CONFIG RCC_HSE_ON t)"
    "clk_cfg (s\<lparr>RCC_PLLCFGR := v\<rparr>) = clk_cfg (t\<lparr>RCC_PLLCFGR := v\<rparr>)"
    "clk_cfg (s\<lparr>FLASH_ACR := v\<rparr>) = clk_cfg (t\<lparr>FLASH_ACR := v\<rparr>)"
    "clk_cfg (s\<lparr>RCC_CFGR := MODIFY_REG (RCC_CFGR s) m v\<rparr>) = clk_cfg (t\<lparr>RCC_CFGR := MODIFY_REG (RCC_CFGR t) m v\<rparr>)"
proof -
  have a: "s\<lparr>RCC_CR := 0, RCC_CFGR := 0, rcc_polls := 0\<rparr> = t\<lparr>RCC_CR := 0, RCC_CFGR := 0, rcc_polls := 0\<rparr>"
    "CLEAR_BIT (RCC_CR s) 0x2020000 = CLEAR_BIT (RCC_CR t) 0x2020000"
    "CLEAR_BIT (RCC_CFGR s) RCC_CFGR_SWS = CLEAR_BIT (RCC_CFGR t) RCC_CFGR_SWS"
    using assms by (simp_all only: clk_cfg_eq)
  have f: "f s\<lparr>RCC_CR := 0, RCC_CFGR := 0, rcc_polls := 0\<rparr> = f t\<lparr>RCC_CR := 0, RCC_CFGR := 0, rcc_polls := 0\<rparr>"
    if "\<And>u. f u\<lparr>RCC_CR := 0, RCC_CFGR := 0, rcc_polls := 0\<rparr> = f (u\<lparr>RCC_CR := 0, RCC_CFGR := 0, rcc_polls := 0\<rparr>)" for f :: "rcc \<Rightarrow> rcc"
    using a(1) that by metis
  show "clk_cfg (PLL_switch b s) = clk_cfg (PLL_switch b t)"
    "clk_cfg (HAL_RCC_HSE_CONFIG RCC_HSE_ON s) = clk_cfg (HAL_RCC_HSE_CONFIG RCC_HSE_ON t)"
    "clk_cfg (s\<lparr>RCC_CFGR := MODIFY_REG (RCC_CFGR s) m v\<rparr>) = clk_cfg (t\<lparr>RCC_CFGR := MODIFY_REG (RCC_CFGR t) m v\<rparr>)"
    using a CLEAR_put_cong [OF a(2), of _ True] CLEAR_put_cong [OF a(2)] CLEAR_MODIFY_cong [OF a(3)]
    by (simp_all add: clk_cfg_eq PLL_switch_def HAL_RCC_HSE_CONFIG_def put_bits_def)
  show "clk_cfg (s\<lparr>RCC_PLLCFGR := v\<rparr>) = clk_cfg (t\<lparr>RCC_PLLCFGR := v\<rparr>)"
    "clk_cfg (s\<lparr>FLASH_ACR := v\<rparr>) = clk_cfg (t\<lparr>FLASH_ACR := v\<rparr>)"
    using a f [of "\<lambda>u. u\<lparr>RCC_PLLCFGR := v\<rparr>"] f [of "\<lambda>u. u\<lparr>FLASH_ACR := v\<rparr>"] by (simp_all add: clk_cfg_eq)
qed

section \<open>Oscillator and PLL\<close>

lemma RCC_CFGR_same [simp]:
  "RCC_CFGR (PLL_switch b s) = RCC_CFGR s" "RCC_CFGR (HAL_RCC_HSE_CONFIG st s) = RCC_CFGR s"
  by (simp_all add: PLL_switch_def HAL_RCC_HSE_CONFIG_def Let_def)

lemma clk_at_same:
  "clk_cfg t = clk_cfg c \<Longrightarrow> HAL_RCC_GET_SYSCLK_SOURCE t = 0 \<Longrightarrow> clk_at c t"
  by (simp add: clk_at_def)

definition with_PLL :: "RCC_PLLInitTypeDef \<Rightarrow> rcc \<Rightarrow> rcc" where
  "with_PLL p s =
     PLL_switch True ((PLL_switch False (HAL_RCC_HSE_CONFIG RCC_HSE_ON s))\<lparr>RCC_PLLCFGR := PLL_config p\<rparr>)"

lemma osc_HSE_on:
  assumes "clocks_start B env" "B < fuel" "HAL_RCC_GET_SYSCLK_SOURCE s = 0" "RCC_CFGR s AND RCC_CFGR_SW = 0"
    and "OscillatorType osc = RCC_OSCILLATORTYPE_HSE" "HSEState osc = RCC_HSE_ON"
  shows "\<exists>t. osc_HSE env fuel osc s = Some (None, t) \<and> clk_cfg t = clk_cfg (HAL_RCC_HSE_CONFIG RCC_HSE_ON s) \<and>
    HAL_RCC_GET_SYSCLK_SOURCE t = 0"
proof -
  let ?c = "HAL_RCC_HSE_CONFIG RCC_HSE_ON s"
  have a: "clk_at ?c ?c"
    using assms(3) by (simp add: clk_at_def HAL_RCC_GET_SYSCLK_SOURCE_def)
  have on: "HAL_IS_BIT_SET (RCC_CR ?c) RCC_CR_HSEON"
    by (simp add: HAL_RCC_HSE_CONFIG_def flag_simps)
  have l: "(2 :: u32) \<le> HSE_TIMEOUT_VALUE"
    by simp
  obtain t where "rcc_wait env fuel HSE_ready HSE_TIMEOUT_VALUE ?c = Some (None, t)" "clk_at ?c t"
    using clk_wait(1) [OF assms(1,2) a l on] by blast
  moreover have "\<not> drives_SYSCLK RCC_CFGR_SWS_HSE RCC_PLLSOURCE_HSE s"
    using assms(3) by (simp add: drives_SYSCLK_def)
  ultimately show ?thesis
    using assms(4-6) by (simp add: osc_HSE_def Let_def clk_at_def)
qed

lemma osc_PLL_on:
  assumes "clocks_start B env" "B < fuel" "HAL_RCC_GET_SYSCLK_SOURCE s = 0" "RCC_CFGR s AND RCC_CFGR_SW = 0"
    and "PLLState p = RCC_PLL_ON" "PLL osc = p"
  shows "\<exists>t. osc_PLL env fuel osc s = Some (None, t) \<and>
    clk_cfg t = clk_cfg (PLL_switch True ((PLL_switch False s)\<lparr>RCC_PLLCFGR := PLL_config p\<rparr>)) \<and>
    HAL_RCC_GET_SYSCLK_SOURCE t = 0 \<and> PLL_ready t"
proof -
  let ?c = "PLL_switch False s"
  have a: "clk_at ?c ?c"
    using assms(3) by (simp add: clk_at_def HAL_RCC_GET_SYSCLK_SOURCE_def)
  have off: "\<not> HAL_IS_BIT_SET (RCC_CR ?c) RCC_CR_PLLON"
    by (simp add: PLL_switch_def put_bits_def flag_simps)
  obtain t where t: "rcc_wait env fuel (\<lambda>s. \<not> PLL_ready s) PLL_TIMEOUT_VALUE ?c = Some (None, t)" "clk_at ?c t"
    using clk_wait(3) [OF assms(1,2) a order_refl off] by blast
  let ?d = "PLL_switch True (t\<lparr>RCC_PLLCFGR := PLL_config p\<rparr>)"
  have tc: "clk_cfg t = clk_cfg ?c" "HAL_RCC_GET_SYSCLK_SOURCE t = 0"
    using t(2) assms(4) by (simp_all add: clk_at_def)
  have dc: "clk_cfg ?d = clk_cfg (PLL_switch True (?c\<lparr>RCC_PLLCFGR := PLL_config p\<rparr>))"
    by (intro clk_cfg_congs tc)
  have b: "clk_at ?d ?d"
    using tc(2) by (simp add: clk_at_def HAL_RCC_GET_SYSCLK_SOURCE_def)
  have on: "HAL_IS_BIT_SET (RCC_CR ?d) RCC_CR_PLLON"
    by (simp add: PLL_switch_def put_bits_def flag_simps)
  obtain u where u: "rcc_wait env fuel PLL_ready PLL_TIMEOUT_VALUE ?d = Some (None, u)" "clk_at ?d u" "PLL_ready u"
    using clk_wait(2) [OF assms(1,2) b order_refl on] by blast
  have "RCC_CFGR t AND RCC_CFGR_SW = 0"
    using clk_cfg_is_set(3) [OF tc(1)] assms(4) by simp
  then have "HAL_RCC_GET_SYSCLK_SOURCE u = 0" "clk_cfg u = clk_cfg ?d"
    using u(2) by (simp_all add: clk_at_def)
  then show ?thesis
    using t(1) u(1,3) assms(3,5,6) dc by (simp add: osc_PLL_def rcc_then_def Let_def)
qed

lemma OscConfig_PLL:
  assumes "clocks_start B env" "B < fuel" "HAL_RCC_GET_SYSCLK_SOURCE s = 0" "RCC_CFGR s AND RCC_CFGR_SW = 0"
    and "OscillatorType osc = RCC_OSCILLATORTYPE_HSE" "HSEState osc = RCC_HSE_ON" "PLLState (PLL osc) = RCC_PLL_ON"
  shows "\<exists>t. HAL_RCC_OscConfig env fuel osc s = Some (HAL_OK, t) \<and> clk_cfg t = clk_cfg (with_PLL (PLL osc) s) \<and>
    HAL_RCC_GET_SYSCLK_SOURCE t = 0 \<and> PLL_ready t"
proof -
  obtain t where t: "osc_HSE env fuel osc s = Some (None, t)" "clk_cfg t = clk_cfg (HAL_RCC_HSE_CONFIG RCC_HSE_ON s)"
    "HAL_RCC_GET_SYSCLK_SOURCE t = 0"
    using osc_HSE_on [OF assms(1-6)] by blast
  have sw: "RCC_CFGR t AND RCC_CFGR_SW = 0"
    using clk_cfg_is_set(3) [OF t(2)] assms(4) by simp
  obtain u where u: "osc_PLL env fuel osc t = Some (None, u)" "HAL_RCC_GET_SYSCLK_SOURCE u = 0" "PLL_ready u"
    "clk_cfg u = clk_cfg (PLL_switch True ((PLL_switch False t)\<lparr>RCC_PLLCFGR := PLL_config (PLL osc)\<rparr>))"
    using osc_PLL_on [OF assms(1,2) t(3) sw assms(7) refl] by blast
  have "clk_cfg u = clk_cfg (with_PLL (PLL osc) s)"
    unfolding u(4) with_PLL_def by (intro clk_cfg_congs t(2))
  moreover have "osc_HSI env fuel osc t = go_on t" "osc_LSI env fuel osc t = go_on t" "osc_LSE env fuel osc t = go_on t"
    using assms(5) by (simp_all add: osc_HSI_def osc_LSI_def osc_LSE_def)
  ultimately show ?thesis
    using t(1) u by (simp add: HAL_RCC_OscConfig_def status_of_def rcc_then_def go_on_def)
qed

section \<open>Bus clocks\<close>

definition clk_main :: RCC_ClkInitTypeDef where
  "clk_main = \<lparr>ClockType = RCC_CLOCKTYPE_SYSCLK OR RCC_CLOCKTYPE_HCLK OR RCC_CLOCKTYPE_PCLK1 OR RCC_CLOCKTYPE_PCLK2,
     SYSCLKSource = RCC_SYSCLKSOURCE_PLLCLK, AHBCLKDivider = RCC_SYSCLK_DIV1,
     APB1CLKDivider = RCC_HCLK_DIV4, APB2CLKDivider = RCC_HCLK_DIV2\<rparr>"

definition latency_5 :: "rcc \<Rightarrow> rcc" where
  "latency_5 s = s\<lparr>FLASH_ACR := (FLASH_ACR s AND NOT 0xFF) OR 5\<rparr>"

definition pll_selected :: "rcc \<Rightarrow> rcc" where
  "pll_selected s =
     (let s = s\<lparr>RCC_CFGR := MODIFY_REG (RCC_CFGR s) RCC_CFGR_HPRE 0\<rparr>
      in s\<lparr>RCC_CFGR := MODIFY_REG (RCC_CFGR s) RCC_CFGR_SW 2\<rparr>)"

lemma MODIFY_REG_AND: "v AND c = v \<Longrightarrow> MODIFY_REG r c v AND c = v"
  unfolding sub_iff by (subst u32_eq_iff) (auto simp: MODIFY_REG_def bit_simps)

lemma MODIFY_REG_AND_other: "v AND k = 0 \<Longrightarrow> c AND k = 0 \<Longrightarrow> MODIFY_REG r c v AND k = r AND k"
  unfolding disjoint_iff by (subst u32_eq_iff) (auto simp: MODIFY_REG_def bit_simps)

lemma SYSCLK_PLL:
  assumes "clocks_start B env" "B < fuel" "HAL_RCC_GET_SYSCLK_SOURCE s = 0" "PLL_ready s"
    and "c = s\<lparr>RCC_CFGR := MODIFY_REG (RCC_CFGR s) RCC_CFGR_SW 2\<rparr>"
  shows "\<exists>t. clk_SYSCLK env fuel clk_main s = Some (None, t) \<and> clk_cfg t = clk_cfg c \<and> HAL_RCC_GET_SYSCLK_SOURCE t = RCC_CFGR_SWS_PLL"
proof -
  have sw: "RCC_CFGR c AND RCC_CFGR_SW = 2"
    unfolding assms(5) by (simp add: MODIFY_REG_AND)
  have "MODIFY_REG (RCC_CFGR s) RCC_CFGR_SW 2 AND RCC_CFGR_SWS = RCC_CFGR s AND RCC_CFGR_SWS"
    by (rule MODIFY_REG_AND_other) simp_all
  then have a: "clk_at c c"
    using assms(3,5) by (simp add: clk_at_def HAL_RCC_GET_SYSCLK_SOURCE_def)
  have l: "(2 :: u32) \<le> CLOCKSWITCH_TIMEOUT_VALUE"
    by simp
  obtain t where "rcc_wait env fuel (\<lambda>s. HAL_RCC_GET_SYSCLK_SOURCE s = RCC_CFGR_SWS_PLL) CLOCKSWITCH_TIMEOUT_VALUE c = Some (None, t)"
    "clk_at c t" "HAL_RCC_GET_SYSCLK_SOURCE t = RCC_CFGR_SWS_PLL"
    using clk_wait(4) [OF assms(1,2) a l] unfolding sw by auto
  then show ?thesis
    using assms(4,5) by (simp add: clk_SYSCLK_def clk_main_def Let_def clk_at_def)
qed

lemma HAL_InitTick_fields [simp]:
  "RCC_CFGR (HAL_InitTick s) = RCC_CFGR s" "RCC_PLLCFGR (HAL_InitTick s) = RCC_PLLCFGR s" "RCC_CR (HAL_InitTick s) = RCC_CR s"
  "FLASH_ACR (HAL_InitTick s) = FLASH_ACR s" "SystemCoreClock (HAL_InitTick s) = SystemCoreClock s"
  "PWR_CR (HAL_InitTick s) = PWR_CR s" "DBGMCU_IDCODE (HAL_InitTick s) = DBGMCU_IDCODE s" "RCC_APB1ENR (HAL_InitTick s) = RCC_APB1ENR s"
  by (simp_all add: HAL_InitTick_def HAL_SYSTICK_Config_def SysTick_Config_def)

lemma HAL_InitTick_reload:
  assumes "1000 \<le> SystemCoreClock s" "SystemCoreClock s \<le> 1000000000"
  shows "SysTick_LOAD (HAL_InitTick s) = SystemCoreClock s div 1000 - 1" "SysTick_CTRL (HAL_InitTick s) = 7"
proof -
  have "unat (SystemCoreClock s div 1000) \<le> 1000000" "1 \<le> unat (SystemCoreClock s div 1000)"
    using assms by (simp_all add: unat_div word_le_nat_alt)
  then have "unat (SystemCoreClock s div 1000 - 1) \<le> 1000000"
    by (simp add: unat_sub word_le_nat_alt)
  then have "\<not> SystemCoreClock s div 1000 - 1 > 0xFFFFFF"
    by (simp add: word_less_nat_alt)
  then show "SysTick_LOAD (HAL_InitTick s) = SystemCoreClock s div 1000 - 1" "SysTick_CTRL (HAL_InitTick s) = 7"
    by (simp_all add: HAL_InitTick_def HAL_SYSTICK_Config_def SysTick_Config_def)
qed

lemma HAL_RCC_GetSysClockFreq_cong:
  "RCC_CFGR s AND RCC_CFGR_SWS = RCC_CFGR t AND RCC_CFGR_SWS \<Longrightarrow> RCC_PLLCFGR s = RCC_PLLCFGR t \<Longrightarrow>
   HAL_RCC_GetSysClockFreq s = HAL_RCC_GetSysClockFreq t"
  by (simp add: HAL_RCC_GetSysClockFreq_def Let_def)

lemma dividers_main:
  assumes "RCC_CFGR s AND RCC_CFGR_SWS = RCC_CFGR_SWS_PLL" "RCC_CFGR s AND RCC_CFGR_HPRE = 0"
  shows "\<exists>u. clk_dividers clk_main s = HAL_InitTick u \<and> RCC_PLLCFGR u = RCC_PLLCFGR s \<and> FLASH_ACR u = FLASH_ACR s \<and>
    PWR_CR u = PWR_CR s \<and> DBGMCU_IDCODE u = DBGMCU_IDCODE s \<and>
    RCC_CFGR u AND RCC_CFGR_SWS = RCC_CFGR_SWS_PLL \<and> RCC_CFGR u AND RCC_CFGR_HPRE = 0 \<and>
    RCC_CFGR u AND RCC_CFGR_PPRE1 = 0x1400 \<and> RCC_CFGR u AND RCC_CFGR_PPRE2 = 0x8000 \<and>
    SystemCoreClock u = HAL_RCC_GetSysClockFreq u"
proof -
  let ?r = "MODIFY_REG (MODIFY_REG (RCC_CFGR s) RCC_CFGR_PPRE1 0x1400) RCC_CFGR_PPRE2 0x8000"
  let ?u = "s\<lparr>RCC_CFGR := ?r, SystemCoreClock := HAL_RCC_GetSysClockFreq (s\<lparr>RCC_CFGR := ?r\<rparr>)\<rparr>"
  have r: "?r AND RCC_CFGR_SWS = RCC_CFGR_SWS_PLL" "?r AND RCC_CFGR_HPRE = 0" "?r AND RCC_CFGR_PPRE1 = 0x1400"
    "?r AND RCC_CFGR_PPRE2 = 0x8000"
    using assms by (simp_all add: MODIFY_REG_AND_other MODIFY_REG_AND)
  have h: "drop_bit 4 ?r AND 0xF = 0"
    using arg_cong [OF r(2), of "drop_bit 4"] by simp
  have "clk_dividers clk_main s = HAL_InitTick ?u"
    using h by (simp add: clk_dividers_def clk_main_def Let_def AHBPrescTable_def)
  moreover have "HAL_RCC_GetSysClockFreq ?u = HAL_RCC_GetSysClockFreq (s\<lparr>RCC_CFGR := ?r\<rparr>)"
    by (rule HAL_RCC_GetSysClockFreq_cong) simp_all
  ultimately show ?thesis
    using r by (intro exI [of _ ?u]) simp
qed

lemma ClockConfig_main:
  assumes "clocks_start B env" "B < fuel" "HAL_RCC_GET_SYSCLK_SOURCE s = 0" "PLL_ready s" "FLASH_ACR s AND FLASH_ACR_LATENCY = 0"
  shows "\<exists>u. HAL_RCC_ClockConfig env fuel clk_main FLASH_LATENCY_5 s = Some (HAL_OK, HAL_InitTick u) \<and>
    RCC_PLLCFGR u = RCC_PLLCFGR s \<and> FLASH_ACR u AND FLASH_ACR_LATENCY = 5 \<and>
    PWR_CR u = PWR_CR s \<and> DBGMCU_IDCODE u = DBGMCU_IDCODE s \<and>
    RCC_CFGR u AND RCC_CFGR_SWS = RCC_CFGR_SWS_PLL \<and> RCC_CFGR u AND RCC_CFGR_HPRE = 0 \<and>
    RCC_CFGR u AND RCC_CFGR_PPRE1 = 0x1400 \<and> RCC_CFGR u AND RCC_CFGR_PPRE2 = 0x8000 \<and>
    SystemCoreClock u = HAL_RCC_GetSysClockFreq u"
proof -
  let ?a = "(FLASH_ACR s AND NOT 0xFF) OR 5"
  let ?s1 = "s\<lparr>FLASH_ACR := ?a\<rparr>"
  let ?s2 = "?s1\<lparr>RCC_CFGR := MODIFY_REG (RCC_CFGR s) RCC_CFGR_HPRE 0\<rparr>"
  let ?c = "?s2\<lparr>RCC_CFGR := MODIFY_REG (RCC_CFGR ?s2) RCC_CFGR_SW 2\<rparr>"
  have acr: "?a AND FLASH_ACR_LATENCY = 5"
    by (simp add: bit.conj_disj_distrib2 and.assoc)
  have s2: "HAL_RCC_GET_SYSCLK_SOURCE ?s2 = 0" "PLL_ready ?s2"
    using assms(3,4) by (simp_all add: HAL_RCC_GET_SYSCLK_SOURCE_def MODIFY_REG_AND_other PLL_ready_def)
  obtain t where t: "clk_SYSCLK env fuel clk_main ?s2 = Some (None, t)" "clk_cfg t = clk_cfg ?c"
    "HAL_RCC_GET_SYSCLK_SOURCE t = RCC_CFGR_SWS_PLL"
    using SYSCLK_PLL [OF assms(1,2) s2 refl] by blast
  have h: "RCC_CFGR t AND RCC_CFGR_HPRE = 0"
    unfolding clk_cfg_is_set(4) [OF t(2)] by (simp add: MODIFY_REG_AND_other MODIFY_REG_AND)
  obtain u where u: "clk_dividers clk_main t = HAL_InitTick u" "RCC_PLLCFGR u = RCC_PLLCFGR t" "FLASH_ACR u = FLASH_ACR t"
    "PWR_CR u = PWR_CR t" "DBGMCU_IDCODE u = DBGMCU_IDCODE t"
    "RCC_CFGR u AND RCC_CFGR_SWS = RCC_CFGR_SWS_PLL" "RCC_CFGR u AND RCC_CFGR_HPRE = 0"
    "RCC_CFGR u AND RCC_CFGR_PPRE1 = 0x1400" "RCC_CFGR u AND RCC_CFGR_PPRE2 = 0x8000"
    "SystemCoreClock u = HAL_RCC_GetSysClockFreq u"
    using dividers_main [OF t(3) [unfolded HAL_RCC_GET_SYSCLK_SOURCE_def] h] by blast
  have "set_FLASH_LATENCY FLASH_LATENCY_5 s = Some (None, ?s1)"
    using acr by (simp add: set_FLASH_LATENCY_def go_on_def Let_def)
  moreover have "does (\<lambda>s. if ClockType clk_main AND RCC_CLOCKTYPE_HCLK = RCC_CLOCKTYPE_HCLK
      then s\<lparr>RCC_CFGR := MODIFY_REG (RCC_CFGR s) RCC_CFGR_HPRE (AHBCLKDivider clk_main)\<rparr> else s) ?s1 = Some (None, ?s2)"
    by (simp add: does_def clk_main_def)
  moreover have "FLASH_ACR t AND FLASH_ACR_LATENCY = 5"
    using clk_cfg_fields(2) [OF t(2)] acr by simp
  ultimately have "HAL_RCC_ClockConfig env fuel clk_main FLASH_LATENCY_5 s = Some (HAL_OK, HAL_InitTick u)"
    using assms(5) t(1) u(1) by (simp add: HAL_RCC_ClockConfig_def status_of_def rcc_then_def go_on_def does_def)
  then show ?thesis
    using u(2-10) clk_cfg_fields [OF t(2)] acr by (intro exI [of _ u]) simp
qed

section \<open>The fields of \<open>PLLCFGR\<close>\<close>

definition pll_ok :: "RCC_PLLInitTypeDef \<Rightarrow> bool" where
  "pll_ok p \<longleftrightarrow> PLLSource p \<in> {RCC_PLLSOURCE_HSI, RCC_PLLSOURCE_HSE} \<and> PLLM p < 64 \<and> PLLN p < 512 \<and>
     PLLP p \<in> {2, 4, 6, 8} \<and> PLLQ p < 16"

lemma PLL_config_fields:
  assumes "pll_ok p"
  shows "PLL_config p AND RCC_PLLCFGR_PLLM = PLLM p"
    "drop_bit 6 (PLL_config p AND RCC_PLLCFGR_PLLN) = PLLN p"
    "PLL_config p AND RCC_PLLCFGR_PLLP = push_bit 16 (drop_bit 1 (PLLP p) - 1)"
    "PLL_config p AND RCC_PLLCFGR_PLLSRC = PLLSource p"
    "drop_bit 24 (PLL_config p AND RCC_PLLCFGR_PLLQ) = PLLQ p"
proof -
  obtain b where b: "PLLSource p = push_bit 22 b" "b < 2 ^ 1"
  proof (cases "PLLSource p = RCC_PLLSOURCE_HSI")
    case True
    then show ?thesis using that [of 0] by simp
  next
    case False
    then show ?thesis using assms that [of 1] by (simp add: pll_ok_def)
  qed
  define d where "d = drop_bit 1 (PLLP p) - 1"
  have d: "d < 2 ^ 2"
    using assms by (auto simp: d_def pll_ok_def)
  have r: "PLLM p < 2 ^ 6" "PLLN p < 2 ^ 9" "PLLQ p < 2 ^ 4"
    using assms by (simp_all add: pll_ok_def)
  note s [dest] = bit_small [OF r(1)] bit_small [OF r(2)] bit_small [OF r(3)] bit_small [OF d] bit_small [OF b(2)]
  have c: "PLL_config p = push_bit 22 b OR PLLM p OR push_bit 6 (PLLN p) OR push_bit 16 d OR push_bit 24 (PLLQ p)"
    by (simp add: PLL_config_def b(1) d_def)
  have m: "RCC_PLLCFGR_PLLM = mask 6" "RCC_PLLCFGR_PLLN = push_bit 6 (mask 9)" "RCC_PLLCFGR_PLLP = push_bit 16 (mask 2)"
    "RCC_PLLCFGR_PLLSRC = push_bit 22 (mask 1)" "RCC_PLLCFGR_PLLQ = push_bit 24 (mask 4)"
    by (simp_all add: mask_numeral)
  show "PLL_config p AND RCC_PLLCFGR_PLLM = PLLM p"
    unfolding c m by (subst u32_eq_iff) (auto simp: bit_simps)
  show "drop_bit 6 (PLL_config p AND RCC_PLLCFGR_PLLN) = PLLN p"
    unfolding c m by (subst u32_eq_iff) (auto simp: bit_simps)
  show "PLL_config p AND RCC_PLLCFGR_PLLP = push_bit 16 (drop_bit 1 (PLLP p) - 1)"
    unfolding c m d_def [symmetric] by (subst u32_eq_iff) (auto simp: bit_simps)
  show "PLL_config p AND RCC_PLLCFGR_PLLSRC = PLLSource p"
  proof -
    have e: "RCC_PLLCFGR_PLLSRC = 2 ^ 22"
      by simp
    have src: "bit RCC_PLLCFGR_PLLSRC n \<longleftrightarrow> n = 22" for n
      unfolding e by (simp only: bit_exp_iff) auto
    have "bit (PLL_config p) 22 = bit b 0"
      unfolding c by (auto simp: bit_simps)
    moreover have "bit (push_bit 22 b) n \<longleftrightarrow> n = 22 \<and> bit b 0" for n
    proof -
      have "bit b (n - 22) \<Longrightarrow> n - 22 = 0"
        using bit_small [OF b(2), of "n - 22"] by simp
      then show ?thesis
        by (auto simp: bit_push_bit_iff)
    qed
    ultimately show ?thesis
      unfolding b(1) by (subst u32_eq_iff) (auto simp only: bit_and_iff src)
  qed
  show "drop_bit 24 (PLL_config p AND RCC_PLLCFGR_PLLQ) = PLLQ p"
    unfolding c m by (subst u32_eq_iff) (auto simp: bit_simps)
qed

section \<open>The clock set-up\<close>

lemma GetSysClockFreq_PLL:
  assumes "RCC_CFGR s AND RCC_CFGR_SWS = RCC_CFGR_SWS_PLL" "RCC_PLLCFGR s = PLL_config p" "pll_ok p"
    and "PLLSource p = RCC_PLLSOURCE_HSE" "2 \<le> PLLM p" "PLLN p \<le> 432"
  shows "unat (HAL_RCC_GetSysClockFreq s) = 8000000 div unat (PLLM p) * unat (PLLN p) div unat (PLLP p)"
    "unat (HAL_RCC_GetSysClockFreq s) \<le> 864000000"
proof -
  have d: "8000000 div unat (PLLM p) \<le> 4000000"
  proof -
    have "8000000 div unat (PLLM p) \<le> 8000000 div 2"
      using assms(5) by (intro div_le_mono2) (simp_all add: word_le_nat_alt)
    then show ?thesis by simp
  qed
  have n: "unat (PLLN p) \<le> 432"
    using assms(6) by (simp add: word_le_nat_alt)
  have b: "8000000 div unat (PLLM p) * unat (PLLN p) \<le> 4000000 * 432"
    by (rule mult_le_mono) (rule d, rule n)
  have q: "(drop_bit 16 (push_bit 16 (drop_bit 1 (PLLP p) - 1)) + 1) * 2 = PLLP p"
    using assms(3) by (auto simp: pll_ok_def)
  have f: "HAL_RCC_GetSysClockFreq s = 8000000 div PLLM p * PLLN p div PLLP p"
    using assms(1) PLL_config_fields [OF assms(3)] q assms(4) by (simp only: HAL_RCC_GetSysClockFreq_def assms(2) Let_def) simp
  have "unat (8000000 div PLLM p * PLLN p) = 8000000 div unat (PLLM p) * unat (PLLN p)"
    using b by (subst unat_mult_lem [THEN iffD1]) (simp_all add: unat_div)
  then show g: "unat (HAL_RCC_GetSysClockFreq s) = 8000000 div unat (PLLM p) * unat (PLLN p) div unat (PLLP p)"
    by (simp add: f unat_div)
  have "2 \<le> unat (PLLP p)"
    using assms(3) by (auto simp: pll_ok_def)
  then have "8000000 div unat (PLLM p) * unat (PLLN p) div unat (PLLP p) \<le> 4000000 * 432 div 2"
    using div_le_mono [OF b, of "unat (PLLP p)"] div_le_mono2 [of 2 "unat (PLLP p)" "4000000 * 432"] by linarith
  then show "unat (HAL_RCC_GetSysClockFreq s) \<le> 864000000"
    using g by simp
qed

definition clk_off :: "rcc \<Rightarrow> bool" where
  "clk_off s \<longleftrightarrow> RCC_CFGR s AND (RCC_CFGR_SWS OR RCC_CFGR_SW) = 0 \<and> FLASH_ACR s AND FLASH_ACR_LATENCY = 0"

lemma clk_off_parts:
  assumes "clk_off s"
  shows "HAL_RCC_GET_SYSCLK_SOURCE s = 0" "RCC_CFGR s AND RCC_CFGR_SW = 0" "FLASH_ACR s AND FLASH_ACR_LATENCY = 0"
proof -
  have "RCC_CFGR s AND 0xF = 0"
    using assms by (simp add: clk_off_def)
  then have "RCC_CFGR s AND (0xF AND 0xC) = 0" "RCC_CFGR s AND (0xF AND 0x3) = 0"
    by (simp_all only: and.assoc [symmetric] bit.conj_zero_left)
  then show "HAL_RCC_GET_SYSCLK_SOURCE s = 0" "RCC_CFGR s AND RCC_CFGR_SW = 0" "FLASH_ACR s AND FLASH_ACR_LATENCY = 0"
    using assms by (simp_all add: HAL_RCC_GET_SYSCLK_SOURCE_def clk_off_def)
qed

lemma clock_init_reaches:
  assumes "clocks_start B env" "B < fuel" "clk_off s"
    and "2 \<le> pllm" "pllm \<le> 63" "64 \<le> plln" "plln \<le> 432" "pllp \<in> {2, 4, 6, 8}" "pllq < 16"
  shows "\<exists>t. Stm32_Clock_Init env fuel plln pllm pllp pllq uninit s = Some t \<and>
    unat (SystemCoreClock t) = 8000000 div unat pllm * unat plln div unat pllp \<and>
    HAL_RCC_GetSysClockFreq t = SystemCoreClock t \<and>
    HAL_RCC_GetPCLK1Freq t = SystemCoreClock t div 4 \<and> HAL_RCC_GetPCLK2Freq t = SystemCoreClock t div 2 \<and>
    FLASH_ACR t AND FLASH_ACR_LATENCY = 5 \<and> PWR_CR t AND PWR_CR_VOS = PWR_CR_VOS \<and>
    SysTick_LOAD t = SystemCoreClock t div 1000 - 1 \<and> SysTick_CTRL t = 7"
proof -
  define p where "p = \<lparr>PLLState = RCC_PLL_ON, PLLSource = RCC_PLLSOURCE_HSE, PLLM = pllm, PLLN = plln, PLLP = pllp, PLLQ = pllq\<rparr>"
  define osc where "osc = uninit\<lparr>OscillatorType := RCC_OSCILLATORTYPE_HSE, HSEState := RCC_HSE_ON, PLL := p\<rparr>"
  define s1 where "s1 = PWR_CLK_ENABLE s\<lparr>PWR_CR := MODIFY_REG (PWR_CR (PWR_CLK_ENABLE s)) PWR_CR_VOS PWR_CR_VOS\<rparr>"
  have os: "OscillatorType osc = RCC_OSCILLATORTYPE_HSE" "HSEState osc = RCC_HSE_ON" "PLLState (PLL osc) = RCC_PLL_ON" "PLL osc = p"
    by (simp_all add: osc_def p_def)
  have lt: "pllm < 64" "plln < 512"
    using assms(5,7) by (simp_all add: word_less_nat_alt word_le_nat_alt)
  have p: "pll_ok p" "PLLSource p = RCC_PLLSOURCE_HSE" "PLLM p = pllm" "PLLN p = plln" "PLLP p = pllp"
    using lt assms(8,9) by (simp_all add: pll_ok_def p_def)
  have f1: "RCC_CFGR s1 = RCC_CFGR s" "FLASH_ACR s1 = FLASH_ACR s" "PWR_CR s1 AND PWR_CR_VOS = PWR_CR_VOS"
    by (simp_all add: s1_def PWR_CLK_ENABLE_def MODIFY_REG_AND)
  have z: "HAL_RCC_GET_SYSCLK_SOURCE s1 = 0" "RCC_CFGR s1 AND RCC_CFGR_SW = 0" "FLASH_ACR s1 AND FLASH_ACR_LATENCY = 0"
    using clk_off_parts [OF assms(3)] f1 by (simp_all add: HAL_RCC_GET_SYSCLK_SOURCE_def)
  obtain t where t: "HAL_RCC_OscConfig env fuel osc s1 = Some (HAL_OK, t)" "clk_cfg t = clk_cfg (with_PLL p s1)"
    "HAL_RCC_GET_SYSCLK_SOURCE t = 0" "PLL_ready t"
    using OscConfig_PLL [OF assms(1,2) z(1,2) os(1-3)] os(4) by auto
  note tf = clk_cfg_fields [OF t(2)]
  have w: "RCC_PLLCFGR (with_PLL p s1) = PLL_config p" "FLASH_ACR (with_PLL p s1) = FLASH_ACR s1" "PWR_CR (with_PLL p s1) = PWR_CR s1"
    by (simp_all add: with_PLL_def PLL_switch_def HAL_RCC_HSE_CONFIG_def)
  have l: "FLASH_ACR t AND FLASH_ACR_LATENCY = 0"
    using tf(2) w(2) z(3) by simp
  obtain u where u: "HAL_RCC_ClockConfig env fuel clk_main FLASH_LATENCY_5 t = Some (HAL_OK, HAL_InitTick u)"
    "RCC_PLLCFGR u = RCC_PLLCFGR t" "FLASH_ACR u AND FLASH_ACR_LATENCY = 5" "PWR_CR u = PWR_CR t"
    "RCC_CFGR u AND RCC_CFGR_SWS = RCC_CFGR_SWS_PLL" "RCC_CFGR u AND RCC_CFGR_HPRE = 0"
    "RCC_CFGR u AND RCC_CFGR_PPRE1 = 0x1400" "RCC_CFGR u AND RCC_CFGR_PPRE2 = 0x8000"
    "SystemCoreClock u = HAL_RCC_GetSysClockFreq u"
    using ClockConfig_main [OF assms(1,2) t(3,4) l] by blast
  have up: "RCC_PLLCFGR u = PLL_config p"
    using u(2) tf(1) w(1) by simp
  note fr = GetSysClockFreq_PLL [OF u(5) up p(1,2), unfolded p(3-5), OF assms(4,7)]
  define v where "v = (if HAL_GetREVID (HAL_InitTick u) = 0x1001
    then (HAL_InitTick u)\<lparr>FLASH_ACR := FLASH_ACR (HAL_InitTick u) OR FLASH_ACR_PRFTEN\<rparr> else HAL_InitTick u)"
  have r: "Stm32_Clock_Init env fuel plln pllm pllp pllq uninit s = Some v"
    using t(1) u(1) by (simp add: Stm32_Clock_Init_def Let_def osc_def p_def s1_def clk_main_def v_def)
  have vf: "RCC_CFGR v = RCC_CFGR u" "RCC_PLLCFGR v = RCC_PLLCFGR u" "SystemCoreClock v = SystemCoreClock u" "PWR_CR v = PWR_CR u"
    "SysTick_LOAD v = SysTick_LOAD (HAL_InitTick u)" "SysTick_CTRL v = SysTick_CTRL (HAL_InitTick u)"
    by (simp_all add: v_def)
  have va: "FLASH_ACR v AND FLASH_ACR_LATENCY = 5"
    using u(3) by (simp add: v_def bit.conj_disj_distrib2)
  have big: "1000 \<le> SystemCoreClock u"
  proof -
    have "8000000 div unat pllm \<ge> 8000000 div 63"
      using assms(4,5) by (intro div_le_mono2) (simp_all add: word_le_nat_alt)
    moreover have "64 \<le> unat plln"
      using assms(6) by (simp add: word_le_nat_alt)
    ultimately have "126984 * 64 \<le> 8000000 div unat pllm * unat plln"
      by (intro mult_le_mono) simp_all
    moreover have "8 \<ge> unat pllp" "0 < unat pllp"
      using assms(8) by auto
    ultimately have "126984 * 64 div 8 \<le> 8000000 div unat pllm * unat plln div unat pllp"
      by (meson div_le_mono div_le_mono2 order_trans)
    then show ?thesis
      using fr(1) u(9) by (simp add: word_le_nat_alt)
  qed
  have small: "SystemCoreClock u \<le> 1000000000"
    using fr(2) u(9) by (simp add: word_le_nat_alt)
  have c: "HAL_RCC_GetSysClockFreq v = SystemCoreClock v"
    using HAL_RCC_GetSysClockFreq_cong [of v u] u(9) vf by simp
  have pc: "HAL_RCC_GetPCLK1Freq v = SystemCoreClock v div 4" "HAL_RCC_GetPCLK2Freq v = SystemCoreClock v div 2"
  proof -
    have "drop_bit 10 (RCC_CFGR v AND RCC_CFGR_PPRE1) = 5" "drop_bit 13 (RCC_CFGR v AND RCC_CFGR_PPRE2) = 4"
      by (simp_all only: u(7,8) vf(1)) simp_all
    then show "HAL_RCC_GetPCLK1Freq v = SystemCoreClock v div 4" "HAL_RCC_GetPCLK2Freq v = SystemCoreClock v div 2"
      by (simp_all only: HAL_RCC_GetPCLK1Freq_def HAL_RCC_GetPCLK2Freq_def HAL_RCC_GetHCLKFreq_def)
         (simp_all add: APBPrescTable_def drop_bit_eq_div)
  qed
  have "unat (SystemCoreClock v) = 8000000 div unat pllm * unat plln div unat pllp"
    using fr(1) u(9) vf(3) by simp
  moreover have "PWR_CR v AND PWR_CR_VOS = PWR_CR_VOS"
    using vf(4) u(4) tf(6) w(3) f1(3) by simp
  ultimately show ?thesis
    using r c pc va vf(3,5,6) HAL_InitTick_reload [OF big small] by auto
qed

section \<open>Reading the settings back\<close>

text \<open>Hardware that leaves \<open>f\<close> alone.\<close>

definition hw_keeps :: "(rcc \<Rightarrow> 'b) \<Rightarrow> rcc_env \<Rightarrow> bool" where
  "hw_keeps f env \<longleftrightarrow> (\<forall>k t. f (c_hw env k t) = f t) \<and> (\<forall>t n. f (t\<lparr>rcc_polls := n\<rparr>) = f t)"

lemma poll_keeps: "hw_keeps f env \<Longrightarrow> f (rcc_poll env s) = f s"
  by (simp add: hw_keeps_def rcc_poll_def rcc_tick_def Let_def)

lemma rcc_wait_loop_keeps:
  assumes "hw_keeps f env"
  shows "rcc_wait_loop env fuel ready T start s = Some (late, t) \<Longrightarrow> f t = f s"
proof (induction fuel arbitrary: s)
  case (Suc fuel)
  then show ?case
    using poll_keeps [OF assms, of s] by (auto simp: rcc_tick_poll split: if_splits)
qed simp

lemma rcc_wait_keeps:
  assumes "hw_keeps f env" "rcc_wait env fuel ready T s = Some (r, t)"
  shows "f t = f s" "r \<in> {None, Some HAL_TIMEOUT}"
proof -
  obtain late where l: "rcc_wait_loop env fuel ready T (c_tick env (rcc_polls s)) (rcc_poll env s) = Some (late, t)"
    "r = (if late then Some HAL_TIMEOUT else None)"
    using assms(2) by (auto simp: rcc_wait_def rcc_tick_poll bind_eq_Some_conv)
  show "f t = f s"
    using rcc_wait_loop_keeps [OF assms(1) l(1)] poll_keeps [OF assms(1)] by metis
  show "r \<in> {None, Some HAL_TIMEOUT}"
    using l(2) by simp
qed

lemma rcc_then_Some:
  "rcc_then f g s = Some (r, t) \<longleftrightarrow> f s = Some (r, t) \<and> r \<noteq> None \<or> (\<exists>u. f s = Some (None, u) \<and> g u = Some (r, t))"
  by (auto simp: rcc_then_def bind_eq_Some_conv split: option.splits)

lemma rcc_wait_not_OK: "rcc_wait env fuel ready T s \<noteq> Some (Some HAL_OK, t)"
  by (auto simp: rcc_wait_def bind_eq_Some_conv rcc_tick_poll split: if_splits)

lemma osc_not_OK:
  "osc_HSE env fuel osc s \<noteq> Some (Some HAL_OK, t)" "osc_HSI env fuel osc s \<noteq> Some (Some HAL_OK, t)"
  "osc_LSI env fuel osc s \<noteq> Some (Some HAL_OK, t)" "osc_LSE env fuel osc s \<noteq> Some (Some HAL_OK, t)"
  "osc_PLL env fuel osc s \<noteq> Some (Some HAL_OK, t)"
  by (auto simp: osc_HSE_def osc_HSI_def osc_LSI_def osc_LSE_def osc_PLL_def Let_def rcc_then_Some returns_def go_on_def does_def
      rcc_wait_not_OK)

text \<open>A successful configuration went through every part.\<close>

lemma OscConfig_OK:
  assumes "HAL_RCC_OscConfig env fuel osc s = Some (HAL_OK, t)"
  obtains s1 s2 s3 s4 where "osc_HSE env fuel osc s = Some (None, s1)" "osc_HSI env fuel osc s1 = Some (None, s2)"
    "osc_LSI env fuel osc s2 = Some (None, s3)" "osc_LSE env fuel osc s3 = Some (None, s4)" "osc_PLL env fuel osc s4 = Some (None, t)"
proof -
  let ?f = "rcc_then (osc_HSE env fuel osc) (rcc_then (osc_HSI env fuel osc) (rcc_then (osc_LSI env fuel osc)
       (rcc_then (osc_LSE env fuel osc) (osc_PLL env fuel osc)))) s"
  obtain r where f: "?f = Some (r, t)" "(case r of None \<Rightarrow> HAL_OK | Some st \<Rightarrow> st) = HAL_OK"
    using assms by (auto simp: HAL_RCC_OscConfig_def status_of_def)
  then have r: "?f = Some (r, t)" "r = None \<or> r = Some HAL_OK"
    by (auto split: option.splits)
  have "r = None"
    using r by (auto simp: rcc_then_Some osc_not_OK)
  then show thesis
    using r(1) that by (auto simp: rcc_then_Some)
qed

text \<open>
  C18. HAL_RCC_GetOscConfig reads back the settings of the PLL that a successful HAL_RCC_OscConfig wrote, whatever
  flags the hardware shows meanwhile.
\<close>

theorem pll_settings_roundtrip:
  assumes "HAL_RCC_OscConfig env fuel osc s = Some (HAL_OK, t)" "PLLState (PLL osc) = RCC_PLL_ON" "pll_ok (PLL osc)"
    and "hw_keeps RCC_PLLCFGR env" "hw_keeps (\<lambda>s. RCC_CR s AND RCC_CR_PLLON) env"
  shows "PLL (HAL_RCC_GetOscConfig t) = PLL osc"
proof -
  obtain s4 where "osc_PLL env fuel osc s4 = Some (None, t)"
    using OscConfig_OK [OF assms(1)] .
  then obtain u where
    "rcc_wait env fuel PLL_ready PLL_TIMEOUT_VALUE (PLL_switch True (u\<lparr>RCC_PLLCFGR := PLL_config (PLL osc)\<rparr>)) = Some (None, t)"
    using assms(2) by (auto simp: osc_PLL_def Let_def rcc_then_Some returns_def split: if_splits)
  from rcc_wait_keeps(1) [OF assms(4) this] rcc_wait_keeps(1) [OF assms(5) this]
  have t: "RCC_PLLCFGR t = PLL_config (PLL osc)" "RCC_CR t AND RCC_CR_PLLON = RCC_CR_PLLON"
    by (simp_all add: PLL_switch_def put_bits_def SET_BIT_def bit.conj_disj_distrib2)
  have "drop_bit 16 (push_bit 1 (push_bit 16 (drop_bit 1 (PLLP (PLL osc)) - 1) + RCC_PLLCFGR_PLLP_0)) = PLLP (PLL osc)"
    using assms(3) by (auto simp: pll_ok_def)
  then show ?thesis
    using assms(2) t(2) by (intro RCC_PLLInitTypeDef.equality)
      (simp_all only: HAL_RCC_GetOscConfig_def RCC_OscInitTypeDef.select_convs RCC_PLLInitTypeDef.select_convs t
        PLL_config_fields [OF assms(3)] if_True refl old.unit.exhaust, simp_all)
qed

lemma rcc_wait_loop_late:
  assumes "\<And>t. \<not> ready (rcc_poll env t)" "\<And>t. rcc_polls (rcc_poll env t) = Suc (rcc_polls t)"
  shows "\<not> ready s \<Longrightarrow> c_tick env (rcc_polls s + n) - start > T \<Longrightarrow> n < fuel \<Longrightarrow>
    \<exists>t. rcc_wait_loop env fuel ready T start s = Some (True, t)"
proof (induction n arbitrary: s fuel)
  case 0
  then show ?case by (cases fuel) (simp_all add: rcc_tick_poll)
next
  case (Suc n)
  obtain f where f: "fuel = Suc f"
    using Suc.prems(3) by (cases fuel) auto
  have "\<exists>t. rcc_wait_loop env f ready T start (rcc_poll env s) = Some (True, t)"
    using Suc.prems assms f by (intro Suc.IH) simp_all
  then show ?case
    using Suc.prems(1) by (simp add: f rcc_tick_poll)
qed

lemma rcc_wait_loop_not_ready:
  assumes "\<And>t. \<not> ready (rcc_poll env t)"
  shows "\<not> ready s \<Longrightarrow> rcc_wait_loop env fuel ready T start s \<noteq> Some (False, t)"
  using assms by (induction fuel arbitrary: s) (simp_all add: rcc_tick_poll)

lemma rcc_wait_not_ready:
  assumes "\<And>t. \<not> ready (rcc_poll env t)"
  shows "rcc_wait env fuel ready T s \<noteq> Some (None, t)"
  using rcc_wait_loop_not_ready [of ready env, OF assms assms]
  by (auto simp: rcc_wait_def rcc_tick_poll bind_eq_Some_conv split: if_splits)

lemma osc_HSE_waits:
  assumes "HAL_RCC_GET_SYSCLK_SOURCE s = RCC_CFGR_SWS_HSI" "OscillatorType osc = RCC_OSCILLATORTYPE_HSE" "HSEState osc = RCC_HSE_ON"
  shows "osc_HSE env fuel osc s = rcc_wait env fuel HSE_ready HSE_TIMEOUT_VALUE (HAL_RCC_HSE_CONFIG RCC_HSE_ON s)"
  using assms by (simp add: osc_HSE_def drives_SYSCLK_def Let_def)

text \<open>
  C33. Without a crystal, HAL_RCC_OscConfig reports a time-out as soon as the tick has passed 100 ms, with the system
  clock still on the internal oscillator; Stm32_Clock_Init, whose comment promises the result 1 for a failure, never returns.
\<close>

theorem crystal_missing:
  assumes "\<And>k t. \<not> HSE_ready (c_hw env k t)" "\<And>k t. rcc_polls (c_hw env k t) = rcc_polls t"
    and "hw_keeps HAL_RCC_GET_SYSCLK_SOURCE env" "HAL_RCC_GET_SYSCLK_SOURCE s = RCC_CFGR_SWS_HSI"
    and "OscillatorType osc = RCC_OSCILLATORTYPE_HSE" "HSEState osc = RCC_HSE_ON"
    and "c_tick env (rcc_polls s + Suc n) - c_tick env (rcc_polls s) > HSE_TIMEOUT_VALUE" "n < fuel"
  shows "(\<exists>t. HAL_RCC_OscConfig env fuel osc s = Some (HAL_TIMEOUT, t) \<and> HAL_RCC_GET_SYSCLK_SOURCE t = RCC_CFGR_SWS_HSI) \<and>
    (\<forall>fuel. Stm32_Clock_Init env fuel plln pllm pllp pllq uninit s = None)"
proof
  let ?s = "HAL_RCC_HSE_CONFIG RCC_HSE_ON s"
  have never: "\<not> HSE_ready (rcc_poll env t)" for t
    using assms(1) by (simp add: rcc_poll_def rcc_tick_def Let_def HSE_ready_def)
  have polls: "rcc_polls (rcc_poll env t) = Suc (rcc_polls t)" "rcc_polls ?s = rcc_polls s" for t
    using rcc_polls_poll [of env t, OF assms(2)] by (simp_all add: HAL_RCC_HSE_CONFIG_def)
  have "\<exists>t. rcc_wait_loop env fuel HSE_ready HSE_TIMEOUT_VALUE (c_tick env (rcc_polls s)) (rcc_poll env ?s) = Some (True, t)"
    using assms(7,8) by (intro rcc_wait_loop_late [where n = n] never) (simp_all add: polls)
  then obtain t where t: "rcc_wait env fuel HSE_ready HSE_TIMEOUT_VALUE ?s = Some (Some HAL_TIMEOUT, t)"
    by (auto simp: rcc_wait_def rcc_tick_poll polls)
  have "HAL_RCC_GET_SYSCLK_SOURCE t = RCC_CFGR_SWS_HSI"
    using rcc_wait_keeps(1) [OF assms(3) t] assms(4) by (simp add: HAL_RCC_GET_SYSCLK_SOURCE_def)
  then show "\<exists>t. HAL_RCC_OscConfig env fuel osc s = Some (HAL_TIMEOUT, t) \<and> HAL_RCC_GET_SYSCLK_SOURCE t = RCC_CFGR_SWS_HSI"
    using osc_HSE_waits [OF assms(4-6), of env fuel] t by (simp add: HAL_RCC_OscConfig_def rcc_then_def status_of_def)
  show "\<forall>fuel. Stm32_Clock_Init env fuel plln pllm pllp pllq uninit s = None"
  proof
    fix fuel
    let ?o = "uninit\<lparr>OscillatorType := RCC_OSCILLATORTYPE_HSE, HSEState := RCC_HSE_ON,
      PLL := \<lparr>PLLState = RCC_PLL_ON, PLLSource = RCC_PLLSOURCE_HSE, PLLM = pllm, PLLN = plln, PLLP = pllp, PLLQ = pllq\<rparr>\<rparr>"
    let ?u = "PWR_CLK_ENABLE s\<lparr>PWR_CR := MODIFY_REG (PWR_CR (PWR_CLK_ENABLE s)) PWR_CR_VOS PWR_CR_VOS\<rparr>"
    have "HAL_RCC_GET_SYSCLK_SOURCE ?u = RCC_CFGR_SWS_HSI"
      using assms(4) by (simp add: HAL_RCC_GET_SYSCLK_SOURCE_def PWR_CLK_ENABLE_def)
    then have "\<forall>t. HAL_RCC_OscConfig env fuel ?o ?u \<noteq> Some (HAL_OK, t)"
      using rcc_wait_not_ready [of HSE_ready env, OF never] by (auto simp: osc_HSE_waits elim!: OscConfig_OK)
    then show "Stm32_Clock_Init env fuel plln pllm pllp pllq uninit s = None"
      by (cases "HAL_RCC_OscConfig env fuel ?o ?u") (auto simp: Stm32_Clock_Init_def Let_def)
  qed
qed

section \<open>Concrete inputs\<close>

definition rcc_zero :: rcc where
  "rcc_zero = \<lparr>RCC_CR = 0x83, RCC_PLLCFGR = 0, RCC_CFGR = 0, RCC_CIR = 0, RCC_APB1ENR = 0, RCC_BDCR = 0, RCC_CSR = 0,
     PWR_CR = 0, FLASH_ACR = 0, SCB_CPACR = 0, SCB_VTOR = 0, SysTick_CTRL = 0, SysTick_LOAD = 0, SysTick_VAL = 0,
     DBGMCU_IDCODE = 0x10010000, SystemCoreClock = 16000000, rcc_polls = 0\<rparr>"

text \<open>Everything is ready at the first reading, and the tick moves by \<open>n\<close> with each.\<close>

definition env_clk :: "u32 \<Rightarrow> rcc_env" where
  "env_clk n = \<lparr>c_hw = clk_hw (\<lambda>_. True) (\<lambda>_. True) (\<lambda>_. True), c_tick = (\<lambda>k. n * of_nat k)\<rparr>"

definition osc_main :: RCC_OscInitTypeDef where
  "osc_main = \<lparr>OscillatorType = RCC_OSCILLATORTYPE_HSE, HSEState = RCC_HSE_ON, LSEState = 0, HSIState = 0,
     HSICalibrationValue = 0, LSIState = 0,
     PLL = \<lparr>PLLState = RCC_PLL_ON, PLLSource = RCC_PLLSOURCE_HSE, PLLM = 8, PLLN = 336, PLLP = 2, PLLQ = 7\<rparr>\<rparr>"

lemma env_clk_starts: "clocks_start 1 (env_clk 0)"
  by (auto simp: clocks_start_def env_clk_def)

lemma put_bits_AND: "m AND k = 0 \<Longrightarrow> put_bits m b r AND k = r AND k"
  unfolding disjoint_iff by (subst u32_eq_iff) (auto simp: put_bits_def SET_BIT_def CLEAR_BIT_def bit_simps)

lemma env_clk_keeps:
  "hw_keeps RCC_PLLCFGR (env_clk n)" "hw_keeps (\<lambda>s. RCC_CR s AND RCC_CR_PLLON) (env_clk n)"
  by (simp_all add: hw_keeps_def env_clk_def clk_hw_def Let_def put_bits_AND)

theorem pll_settings_roundtrip_witness:
  "\<exists>t. HAL_RCC_OscConfig (env_clk 0) 2 osc_main rcc_zero = Some (HAL_OK, t) \<and> PLL (HAL_RCC_GetOscConfig t) = PLL osc_main"
proof -
  have "HAL_RCC_GET_SYSCLK_SOURCE rcc_zero = 0" "RCC_CFGR rcc_zero AND RCC_CFGR_SW = 0"
    by (simp_all add: rcc_zero_def HAL_RCC_GET_SYSCLK_SOURCE_def)
  then obtain t where t: "HAL_RCC_OscConfig (env_clk 0) 2 osc_main rcc_zero = Some (HAL_OK, t)"
    using OscConfig_PLL [OF env_clk_starts, of 2 rcc_zero osc_main] by (auto simp: osc_main_def)
  have "pll_ok (PLL osc_main)" "PLLState (PLL osc_main) = RCC_PLL_ON"
    by (simp_all add: osc_main_def pll_ok_def)
  then show ?thesis
    using pll_settings_roundtrip [OF t _ _ env_clk_keeps] t by blast
qed

text \<open>Nothing ever becomes ready.\<close>

definition env_dead :: "u32 \<Rightarrow> rcc_env" where
  "env_dead n = \<lparr>c_hw = clk_hw (\<lambda>_. False) (\<lambda>_. False) (\<lambda>_. False), c_tick = (\<lambda>k. n * of_nat k)\<rparr>"

theorem crystal_missing_witness:
  "(\<exists>t. HAL_RCC_OscConfig (env_dead 101) 1 osc_main rcc_zero = Some (HAL_TIMEOUT, t)) \<and>
   (\<forall>fuel. Stm32_Clock_Init (env_dead 101) fuel 336 8 2 7 osc_main rcc_zero = None)"
proof -
  have d: "\<not> HSE_ready (c_hw (env_dead 101) k t)" "rcc_polls (c_hw (env_dead 101) k t) = rcc_polls t"
    "hw_keeps HAL_RCC_GET_SYSCLK_SOURCE (env_dead 101)" for k t
    by (simp_all add: env_dead_def clk_hw_def Let_def HSE_ready_def put_bits_def flag_simps hw_keeps_def HAL_RCC_GET_SYSCLK_SOURCE_def)
  have z: "HAL_RCC_GET_SYSCLK_SOURCE rcc_zero = RCC_CFGR_SWS_HSI" "OscillatorType osc_main = RCC_OSCILLATORTYPE_HSE"
    "HSEState osc_main = RCC_HSE_ON"
    by (simp_all add: rcc_zero_def osc_main_def HAL_RCC_GET_SYSCLK_SOURCE_def)
  have c: "c_tick (env_dead 101) (rcc_polls rcc_zero + Suc 0) - c_tick (env_dead 101) (rcc_polls rcc_zero) > HSE_TIMEOUT_VALUE"
    by (simp add: env_dead_def rcc_zero_def)
  show ?thesis
    using crystal_missing [OF d z c zero_less_one, of 336 8 2 7 osc_main] by blast
qed

end
