(* ===== verification/Delay.thy ===== *)
theory Delay
  imports RccProps
begin

text \<open>
  SYSTEM/delay/delay.c: busy waiting on the counter of SysTick. The successive readings of its value register are a parameter
  of the functions; the state counts them.
\<close>

section \<open>Operations\<close>

record delay_state = rcc +
  fac_us :: u32
  val_reads :: nat

abbreviation SYSTICK_CLKSOURCE_HCLK :: u32 where "SYSTICK_CLKSOURCE_HCLK \<equiv> 4"
abbreviation SysTick_CTRL_TICKINT_Msk :: u32 where "SysTick_CTRL_TICKINT_Msk \<equiv> 2"

definition HAL_SYSTICK_CLKSourceConfig :: "u32 \<Rightarrow> 'a rcc_scheme \<Rightarrow> 'a rcc_scheme" where
  "HAL_SYSTICK_CLKSourceConfig CLKSource s =
     (if CLKSource = SYSTICK_CLKSOURCE_HCLK then s\<lparr>SysTick_CTRL := SysTick_CTRL s OR SYSTICK_CLKSOURCE_HCLK\<rparr>
      else s\<lparr>SysTick_CTRL := SysTick_CTRL s AND NOT SYSTICK_CLKSOURCE_HCLK\<rparr>)"

definition delay_init :: "u8 \<Rightarrow> delay_state \<Rightarrow> delay_state" where
  "delay_init SYSCLK s =
     (let s = HAL_SYSTICK_CLKSourceConfig SYSTICK_CLKSOURCE_HCLK s;
          s = s\<lparr>SysTick_CTRL := SysTick_CTRL s AND NOT SysTick_CTRL_TICKINT_Msk\<rparr>
      in s\<lparr>fac_us := ucast SYSCLK\<rparr>)"

text \<open>The loop; \<open>n\<close> is the number of the next reading, the result that after the last one.\<close>

fun delay_us_loop :: "(nat \<Rightarrow> u32) \<Rightarrow> nat \<Rightarrow> u32 \<Rightarrow> u32 \<Rightarrow> u32 \<Rightarrow> u32 \<Rightarrow> nat \<Rightarrow> nat option" where
  "delay_us_loop vals 0 reload ticks told tcnt n = None"
| "delay_us_loop vals (Suc fuel) reload ticks told tcnt n =
     (let tnow = vals n
      in if tnow \<noteq> told then
           (let tcnt = (if tnow < told then tcnt + (told - tnow) else tcnt + (reload - tnow + told))
            in if tcnt \<ge> ticks then Some (Suc n) else delay_us_loop vals fuel reload ticks tnow tcnt (Suc n))
         else delay_us_loop vals fuel reload ticks told tcnt (Suc n))"

definition delay_us :: "(nat \<Rightarrow> u32) \<Rightarrow> nat \<Rightarrow> u32 \<Rightarrow> delay_state \<Rightarrow> delay_state option" where
  "delay_us vals fuel nus s =
     (let reload = SysTick_LOAD s;
          ticks = nus * fac_us s;
          told = vals (val_reads s)
      in map_option (\<lambda>n. s\<lparr>val_reads := n\<rparr>) (delay_us_loop vals fuel reload ticks told 0 (Suc (val_reads s))))"

fun delay_ms_loop :: "(nat \<Rightarrow> u32) \<Rightarrow> nat \<Rightarrow> nat \<Rightarrow> delay_state \<Rightarrow> delay_state option" where
  "delay_ms_loop vals fuel 0 s = Some s"
| "delay_ms_loop vals fuel (Suc i) s =
     (case delay_us vals fuel 1000 s of None \<Rightarrow> None | Some s \<Rightarrow> delay_ms_loop vals fuel i s)"

definition delay_ms :: "(nat \<Rightarrow> u32) \<Rightarrow> nat \<Rightarrow> u16 \<Rightarrow> delay_state \<Rightarrow> delay_state option" where
  "delay_ms vals fuel nms s = delay_ms_loop vals fuel (unat nms) s"

section \<open>The counter\<close>

text \<open>The value register \<open>t\<close> clocks after the counter was at \<open>L\<close>: it counts down to 0 and reloads, with a period of \<open>L + 1\<close>.\<close>

definition systick_val :: "nat \<Rightarrow> nat \<Rightarrow> u32" where
  "systick_val L t = of_nat (L - t mod Suc L)"

text \<open>The clocks without those on which the counter reloads: what the loop counts.\<close>

definition counted :: "nat \<Rightarrow> nat \<Rightarrow> nat" where
  "counted L t = t - t div Suc L"

lemma counted_mono: "t \<le> u \<Longrightarrow> counted L t \<le> counted L u"
proof (induction u)
  case (Suc u)
  have "counted L u \<le> counted L (Suc u)"
    using div_le_dividend [of u "Suc L"] by (auto simp: counted_def div_Suc)
  then show ?case
    using Suc by (auto simp: le_Suc_eq)
qed simp

lemma count_arith:
  fixes a b p q L :: nat
  assumes "a \<le> L" "b \<le> L" "q \<le> p"
  shows "a \<le> b \<Longrightarrow> (L - b = L - a \<longleftrightarrow> p + b = p + a) \<and> (L - b < L - a \<longrightarrow> p + b - q - (p + a - q) = L - a - (L - b)) \<and> \<not> L - a < L - b"
    "b < a \<Longrightarrow> L - b \<noteq> L - a \<and> \<not> L - b < L - a \<and> p + Suc L + b - Suc q - (p + a - q) = L - (L - b) + (L - a)"
  using assms by (auto simp: diff_le_mono2)

lemma counted_step:
  assumes "t \<le> u" "u \<le> t + L"
  defines "v \<equiv> L - t mod Suc L" and "w \<equiv> L - u mod Suc L"
  shows "w = v \<longleftrightarrow> u = t" "w < v \<Longrightarrow> counted L u - counted L t = v - w" "v < w \<Longrightarrow> counted L u - counted L t = L - w + v"
proof -
  let ?P = "Suc L"
  have m: "t mod ?P \<le> L" "u mod ?P \<le> L"
    using mod_less_divisor [of ?P] by (simp_all add: less_Suc_eq_le)
  have e: "t = t div ?P * ?P + t mod ?P" "u = u div ?P * ?P + u mod ?P"
    by (simp_all only: div_mult_mod_eq)
  have q: "u div ?P = t div ?P \<or> u div ?P = Suc (t div ?P)"
  proof -
    have "(t + ?P) div ?P = Suc (t div ?P)"
      using div_add_self2 [of ?P t] by (simp only: nat.simps not_False_eq_True simp_thms Suc_eq_plus1)
    moreover have "u div ?P \<le> (t + ?P) div ?P"
      using assms(2) by (intro div_le_mono) simp
    moreover have "t div ?P \<le> u div ?P"
      by (rule div_le_mono) (rule assms(1))
    ultimately show ?thesis by linarith
  qed
  have d: "t div ?P \<le> t" "u div ?P \<le> u"
    by simp_all
  let ?p = "t div ?P * ?P"
  have p: "t div ?P \<le> ?p" "t = ?p + t mod ?P"
    using e(1) by simp_all
  show "w = v \<longleftrightarrow> u = t" "w < v \<Longrightarrow> counted L u - counted L t = v - w" "v < w \<Longrightarrow> counted L u - counted L t = L - w + v"
    using q
  proof (atomize (full), elim disjE)
    assume s: "u div ?P = t div ?P"
    then have u: "u = ?p + u mod ?P"
      using e(2) by simp
    have "t mod ?P \<le> u mod ?P"
      using assms(1) p(2) u by linarith
    note a = count_arith(1) [OF m p(1) this]
    have "counted L t = ?p + t mod ?P - t div ?P" "counted L u = ?p + u mod ?P - t div ?P" "u = t \<longleftrightarrow> ?p + u mod ?P = ?p + t mod ?P"
      using p(2) u s by (simp_all only: counted_def)
    then show "(w = v \<longleftrightarrow> u = t) \<and> (w < v \<longrightarrow> counted L u - counted L t = v - w) \<and> (v < w \<longrightarrow> counted L u - counted L t = L - w + v)"
      using a by (simp only: v_def w_def) blast
  next
    assume s: "u div ?P = Suc (t div ?P)"
    then have u: "u = ?p + ?P + u mod ?P"
      using e(2) by (metis add.commute mult_Suc)
    have "u mod ?P < t mod ?P"
      using assms(2) p(2) u by linarith
    note a = count_arith(2) [OF m p(1) this]
    have "counted L t = ?p + t mod ?P - t div ?P" "counted L u = ?p + ?P + u mod ?P - Suc (t div ?P)"
      using p(2) u s by (simp_all only: counted_def)
    moreover have "u \<noteq> t"
      using s by auto
    ultimately show "(w = v \<longleftrightarrow> u = t) \<and> (w < v \<longrightarrow> counted L u - counted L t = v - w) \<and> (v < w \<longrightarrow> counted L u - counted L t = L - w + v)"
      using a by (simp only: v_def w_def) blast
  qed
qed

lemma count_word:
  "w \<le> L \<Longrightarrow> (if w < v then of_nat c + (of_nat v - of_nat w) else of_nat c + (of_nat L - of_nat w + of_nat v)) =
    (of_nat (c + (if w < v then v - w else L - w + v)) :: u32)"
  by (simp add: of_nat_diff)

section \<open>The loop\<close>

text \<open>
  The readings come at times \<open>T\<close>, at most \<open>G\<close> clocks apart, which is less than a period of the counter.
\<close>

definition val_readings :: "nat \<Rightarrow> nat \<Rightarrow> (nat \<Rightarrow> nat) \<Rightarrow> (nat \<Rightarrow> u32) \<Rightarrow> bool" where
  "val_readings L G T vals \<longleftrightarrow> 0 < L \<and> L < 2 ^ 24 \<and> G \<le> L \<and> (\<forall>n. T n \<le> T (Suc n) \<and> T (Suc n) \<le> T n + G) \<and>
     (\<forall>n. vals n = systick_val L (T n))"

lemma val_readings_mono: "val_readings L G T vals \<Longrightarrow> m \<le> n \<Longrightarrow> T m \<le> T n"
  by (rule lift_Suc_mono_le [of T]) (simp_all add: val_readings_def)

lemma delay_us_loop_count:
  assumes r: "val_readings L G T vals" and small: "unat ticks + L < 2 ^ 32"
  defines "c \<equiv> \<lambda>k m. counted L (T m) - counted L (T k)"
  shows "k \<le> m \<Longrightarrow> c k m < unat ticks \<or> T m = T k \<Longrightarrow> unat ticks \<le> c k (m + fuel) \<Longrightarrow> T m < T (m + fuel) \<Longrightarrow>
    \<exists>r. delay_us_loop vals fuel (of_nat L) ticks (systick_val L (T m)) (of_nat (c k m)) (Suc m) = Some (Suc r) \<and>
      m < r \<and> unat ticks \<le> c k r \<and> (c k (r - 1) < unat ticks \<or> T (r - 1) = T k)"
proof (induction fuel arbitrary: m)
  case 0
  then show ?case by simp
next
  case (Suc f)
  have T: "T m \<le> T (Suc m)" "T (Suc m) \<le> T m + L" "L < 2 ^ 24" "vals (Suc m) = systick_val L (T (Suc m))"
    using r by (auto simp: val_readings_def intro: order_trans)
  let ?v = "L - T m mod Suc L" and ?w = "L - T (Suc m) mod Suc L"
  have vw: "unat (systick_val L (T m)) = ?v" "unat (systick_val L (T (Suc m))) = ?w"
    unfolding systick_val_def using T(3) by (rule_tac [!] unat_of_nat32) simp_all
  note st = counted_step [OF T(1,2)]
  have eq: "vals (Suc m) = systick_val L (T m) \<longleftrightarrow> T (Suc m) = T m"
    unfolding T(4) using st(1) vw by (metis word_unat_eq_iff)
  show ?case
  proof (cases "T (Suc m) = T m")
    case True
    have "\<exists>r. delay_us_loop vals f (of_nat L) ticks (systick_val L (T (Suc m))) (of_nat (c k (Suc m))) (Suc (Suc m)) = Some (Suc r) \<and>
      Suc m < r \<and> unat ticks \<le> c k r \<and> (c k (r - 1) < unat ticks \<or> T (r - 1) = T k)"
      using Suc.prems True by (intro Suc.IH) (simp_all add: c_def)
    moreover have "c k (Suc m) = c k m"
      by (simp add: c_def True)
    ultimately show ?thesis
      using eq True by (auto simp: Let_def)
  next
    case False
    have ck: "counted L (T k) \<le> counted L (T m)"
      using val_readings_mono [OF r Suc.prems(1)] by (rule counted_mono)
    have step: "c k (Suc m) = c k m + (if ?w < ?v then ?v - ?w else L - ?w + ?v)"
    proof -
      have "counted L (T (Suc m)) - counted L (T m) = (if ?w < ?v then ?v - ?w else L - ?w + ?v)"
        using st False by (metis linorder_neqE_nat)
      then show ?thesis
        using ck counted_mono [OF T(1), of L] by (simp only: c_def) linarith
    qed
    have le: "c k m \<le> unat ticks"
      using Suc.prems(2) by (auto simp: c_def)
    have "(if ?w < ?v then ?v - ?w else L - ?w + ?v) \<le> L"
      using st(1) False by auto
    then have cs: "c k (Suc m) < 2 ^ 32" "c k m < 2 ^ 32"
      using step le small by linarith+
    let ?told = "systick_val L (T m)" and ?tnow = "systick_val L (T (Suc m))"
    have ar: "(if ?tnow < ?told then of_nat (c k m) + (?told - ?tnow) else of_nat (c k m) + (of_nat L - ?tnow + ?told)) =
        (of_nat (c k (Suc m)) :: u32)"
    proof -
      have lt: "?tnow < ?told \<longleftrightarrow> ?w < ?v"
        by (simp add: word_less_nat_alt vw)
      show ?thesis
        by (simp only: lt step) (simp only: systick_val_def count_word diff_le_self)
    qed
    have ge: "(of_nat (c k (Suc m)) :: u32) \<ge> ticks \<longleftrightarrow> unat ticks \<le> c k (Suc m)"
      by (simp add: word_le_nat_alt unat_of_nat32 [OF cs(1)])
    show ?thesis
    proof (cases "unat ticks \<le> c k (Suc m)")
      case True
      then show ?thesis
        using eq False ar ge Suc.prems(2) by (intro exI [of _ "Suc m"]) (simp add: Let_def T(4) del: of_nat_diff)
    next
      case no: False
      have "T (Suc m) \<noteq> T (Suc m + f)"
      proof
        assume "T (Suc m) = T (Suc m + f)"
        then have "c k (m + Suc f) = c k (Suc m)"
          by (simp add: c_def)
        then show False
          using no Suc.prems(3) by simp
      qed
      moreover have "T (Suc m) \<le> T (Suc m + f)"
        by (rule val_readings_mono [OF r]) simp
      ultimately have "\<exists>r. delay_us_loop vals f (of_nat L) ticks ?tnow (of_nat (c k (Suc m))) (Suc (Suc m)) = Some (Suc r) \<and>
        Suc m < r \<and> unat ticks \<le> c k r \<and> (c k (r - 1) < unat ticks \<or> T (r - 1) = T k)"
        using Suc.prems no by (intro Suc.IH) simp_all
      then show ?thesis
        using eq False ar ge no by (auto simp: Let_def T(4) simp del: of_nat_diff)
    qed
  qed
qed

section \<open>Delays\<close>

lemma elapsed_counted:
  assumes "t \<le> u"
  shows "counted L u - counted L t \<le> u - t" "u - t \<le> counted L u - counted L t + (u - t) div Suc L + 1"
proof -
  have d: "t div Suc L \<le> u div Suc L" "t div Suc L \<le> t" "u div Suc L \<le> u"
    using assms by (simp_all add: div_le_mono)
  then show "counted L u - counted L t \<le> u - t"
    using assms by (simp add: counted_def)
  have "u div Suc L \<le> t div Suc L + (u - t) div Suc L + 1"
  proof -
    have "t mod Suc L + (u - t) mod Suc L < 2 * Suc L"
      using add_strict_mono [OF mod_less_divisor [OF zero_less_Suc, of t L] mod_less_divisor [OF zero_less_Suc, of "u - t" L]]
      by (simp only: mult_2)
    then have "(t mod Suc L + (u - t) mod Suc L) div Suc L < 2"
      by (rule less_mult_imp_div_less)
    then have "(t + (u - t)) div Suc L \<le> t div Suc L + (u - t) div Suc L + 1"
      unfolding div_add1_eq [of t "u - t"] by linarith
    then show ?thesis
      using assms by simp
  qed
  then show "u - t \<le> counted L u - counted L t + (u - t) div Suc L + 1"
    using d assms unfolding counted_def by linarith
qed

lemma delay_us_takes:
  assumes r: "val_readings L G T vals" and l: "SysTick_LOAD s = of_nat L"
    and small: "unat (nus * fac_us s) + L < 2 ^ 32" and fuel: "T k + 2 * unat (nus * fac_us s) + 2 \<le> T (k + fuel)"
    and k: "k = val_reads s"
  shows "\<exists>r. delay_us vals fuel nus s = Some (s\<lparr>val_reads := Suc r\<rparr>) \<and> k < r \<and>
    unat (nus * fac_us s) \<le> T r - T k \<and>
    T r - T k \<le> unat (nus * fac_us s) + (T r - T k) div Suc L + 1 + G"
proof -
  let ?t = "unat (nus * fac_us s)"
  let ?c = "\<lambda>m. counted L (T m) - counted L (T k)"
  note mono = val_readings_mono [OF r]
  have L: "0 < L"
    using r by (simp add: val_readings_def)
  let ?e = "T (k + fuel) - T k"
  have "?e \<le> ?c (k + fuel) + ?e div Suc L + 1"
    by (rule elapsed_counted(2)) (rule mono, simp)
  moreover have "?e div Suc L \<le> ?e div 2"
    using L by (intro div_le_mono2) simp_all
  ultimately have enough: "?t \<le> ?c (k + fuel)"
    using fuel by linarith
  have "T k < T (k + fuel)"
    using fuel by simp
  then obtain r where r': "delay_us_loop vals fuel (of_nat L) (nus * fac_us s) (systick_val L (T k)) (of_nat (?c k)) (Suc k) = Some (Suc r)"
    "k < r" "?t \<le> ?c r" "?c (r - 1) < ?t \<or> T (r - 1) = T k"
    using delay_us_loop_count [OF r small, of k k fuel] enough by auto
  have v: "vals k = systick_val L (T k)"
    using r by (simp add: val_readings_def)
  have up: "?c r \<le> ?t + G"
  proof -
    obtain q where q: "r = Suc q" "k \<le> q"
      using r'(2) by (cases r) simp_all
    have "counted L (T r) - counted L (T q) \<le> T r - T q"
      unfolding q by (rule elapsed_counted(1)) (rule mono, simp)
    moreover have "T r - T q \<le> G"
      using r by (simp add: q val_readings_def le_diff_conv add.commute)
    moreover have "counted L (T k) \<le> counted L (T q)" "counted L (T q) \<le> counted L (T r)"
      using q by (simp_all add: counted_mono mono)
    moreover have "?c q \<le> ?t"
      using r'(4) by (auto simp: q)
    ultimately show ?thesis by linarith
  qed
  have kr: "T k \<le> T r"
    using r'(2) by (intro mono) simp
  have "delay_us vals fuel nus s = Some (s\<lparr>val_reads := Suc r\<rparr>)"
    using r'(1) v by (simp add: delay_us_def l k)
  then show ?thesis
    using r'(2,3) up elapsed_counted [OF kr, of L] by (intro exI [of _ r]) linarith
qed

lemma delay_ms_loop_takes:
  assumes r: "val_readings L G T vals" and l: "SysTick_LOAD s = of_nat L"
    and small: "unat (1000 * fac_us s) + L < 2 ^ 32" and fuel: "\<And>k. T k + 2 * unat (1000 * fac_us s) + 2 \<le> T (k + fuel)"
  shows "\<exists>n. delay_ms_loop vals fuel i s = Some (s\<lparr>val_reads := n\<rparr>) \<and> val_reads s \<le> n \<and>
    i * unat (1000 * fac_us s) \<le> T n - T (val_reads s)"
  using l small fuel
proof (induction i arbitrary: s)
  case (Suc i)
  let ?t = "unat (1000 * fac_us s)"
  obtain m where m: "delay_us vals fuel 1000 s = Some (s\<lparr>val_reads := Suc m\<rparr>)" "val_reads s < m" "?t \<le> T m - T (val_reads s)"
    using delay_us_takes [OF r Suc.prems(1,2,3) refl] by blast
  obtain n where n: "delay_ms_loop vals fuel i (s\<lparr>val_reads := Suc m\<rparr>) = Some (s\<lparr>val_reads := n\<rparr>)" "Suc m \<le> n"
    "i * ?t \<le> T n - T (Suc m)"
    using Suc.IH [of "s\<lparr>val_reads := Suc m\<rparr>"] Suc.prems by auto
  have "T (val_reads s) \<le> T m" "T m \<le> T (Suc m)" "T (Suc m) \<le> T n"
    using m(2) n(2) by (simp_all add: val_readings_mono [OF r])
  then show ?case
    using m n by (intro exI [of _ n]) simp
next
  case 0
  show ?case by (intro exI [of _ "val_reads s"]) simp
qed

text \<open>
  C14. With readings that are less than a period of SysTick apart, delay_us returns, never before the time asked for
  and, but for the clocks at which the counter reloads, at most two readings later; delay_ms never returns too early. The product of the
  argument and the clocks per microsecond must fit in 32 bits.
\<close>

theorem delay_bounds:
  assumes "val_readings L G T vals" "SysTick_LOAD s = of_nat L" "unat nus * unat mhz + L < 2 ^ 32"
    and "\<And>k. T k + 2 * (unat nus * unat mhz) + 2 * (1000 * unat mhz) + 2 \<le> T (k + fuel)"
  defines "d \<equiv> delay_init mhz s" and "k \<equiv> val_reads s"
  shows "(\<exists>r. delay_us vals fuel nus d = Some (d\<lparr>val_reads := Suc r\<rparr>) \<and>
      unat nus * unat mhz \<le> T r - T k \<and>
      T r - T k \<le> unat nus * unat mhz + (T r - T k) div Suc L + 1 + G) \<and>
    (\<exists>n. delay_ms vals fuel nms d = Some (d\<lparr>val_reads := n\<rparr>) \<and> unat nms * (1000 * unat mhz) \<le> T n - T k)"
proof
  have f: "fac_us d = ucast mhz" "SysTick_LOAD d = of_nat L" "val_reads d = k"
    using assms(2) by (simp_all add: d_def k_def delay_init_def HAL_SYSTICK_CLKSourceConfig_def Let_def)
  have u: "unat (fac_us d) = unat mhz"
    by (simp add: f unsigned_ucast_eq)
  have t: "unat (nus * fac_us d) = unat nus * unat mhz"
    using assms(3) by (subst unat_mult_lem [THEN iffD1]) (simp_all add: u)
  have mhz: "unat mhz < 256" and L: "L < 2 ^ 24"
    using unsigned_less [of mhz] assms(1) by (simp_all add: val_readings_def)
  have t1: "unat (1000 * fac_us d) = 1000 * unat mhz"
    using mhz by (subst unat_mult_lem [THEN iffD1]) (simp_all add: u)
  have fuel: "T i + 2 * unat (nus * fac_us d) + 2 \<le> T (i + fuel)" "T i + 2 * unat (1000 * fac_us d) + 2 \<le> T (i + fuel)" for i
    using assms(4) [of i] unfolding t t1 by linarith+
  show "\<exists>r. delay_us vals fuel nus d = Some (d\<lparr>val_reads := Suc r\<rparr>) \<and>
      unat nus * unat mhz \<le> T r - T k \<and> T r - T k \<le> unat nus * unat mhz + (T r - T k) div Suc L + 1 + G"
    using delay_us_takes [OF assms(1) f(2) _ fuel(1) f(3) [symmetric]] assms(3) unfolding t by blast
  have "unat (1000 * fac_us d) + L < 2 ^ 32"
    using mhz L unfolding t1 by simp
  then show "\<exists>n. delay_ms vals fuel nms d = Some (d\<lparr>val_reads := n\<rparr>) \<and> unat nms * (1000 * unat mhz) \<le> T n - T k"
    using delay_ms_loop_takes [OF assms(1) f(2) _ fuel(2), of "unat nms"] unfolding t1 f(3) delay_ms_def by blast
qed

definition delay_zero :: delay_state where
  "delay_zero = rcc.extend (rcc_zero\<lparr>SysTick_LOAD := 167999\<rparr>) (delay_state.fields 0 0)"

theorem delay_bounds_witness:
  "\<exists>r. delay_us (\<lambda>n. systick_val 167999 (10 * n)) 33735 4 (delay_init 168 delay_zero) =
      Some ((delay_init 168 delay_zero)\<lparr>val_reads := Suc r\<rparr>) \<and> 672 \<le> 10 * r"
proof -
  have v: "val_readings 167999 10 (\<lambda>n. 10 * n) (\<lambda>n. systick_val 167999 (10 * n))"
    by (simp add: val_readings_def)
  have l: "SysTick_LOAD delay_zero = of_nat 167999" "val_reads delay_zero = 0"
    by (simp_all add: delay_zero_def rcc.defs delay_state.defs rcc_zero_def)
  have u: "unat (4 :: u32) * unat (168 :: u8) + 167999 < 2 ^ 32"
    by simp
  have f: "10 * k + 2 * (unat (4 :: u32) * unat (168 :: u8)) + 2 * (1000 * unat (168 :: u8)) + 2 \<le> 10 * (k + 33735)" for k
    by simp
  show ?thesis
    using delay_bounds [OF v l(1) u f] l(2) by auto
qed

end
