(* ===== verification/ClockMain.thy ===== *)
theory ClockMain
  imports Delay MainApp
begin

text \<open>
  The start of \<open>main\<close>: the clocks, the delays, the serial ports, with what this means for the rate of the ports and for the length of a
  delay.
\<close>

text \<open>From reset: \<open>SystemInit\<close> of the start-up code, then the first two calls of \<open>main\<close>.\<close>

definition main_clocks :: "rcc_env \<Rightarrow> nat \<Rightarrow> RCC_OscInitTypeDef \<Rightarrow> rcc \<Rightarrow> rcc option" where
  "main_clocks env fuel uninit s = Stm32_Clock_Init env fuel 336 8 2 7 uninit (snd (HAL_Init (SystemInit s)))"

definition bus_freq :: "rcc \<Rightarrow> rcc_freq" where
  "bus_freq s = \<lparr>PCLK1Freq = HAL_RCC_GetPCLK1Freq s, PCLK2Freq = HAL_RCC_GetPCLK2Freq s\<rparr>"

text \<open>The registers after reset, as far as they matter.\<close>

definition after_reset :: "rcc \<Rightarrow> bool" where
  "after_reset s \<longleftrightarrow> HAL_RCC_GET_SYSCLK_SOURCE s = RCC_CFGR_SWS_HSI \<and> FLASH_ACR s AND FLASH_ACR_LATENCY = 0"

lemma reset_clk_off:
  assumes "after_reset s"
  shows "clk_off (snd (HAL_Init (SystemInit s)))"
proof -
  have "RCC_CFGR (SystemInit s) = 0" "FLASH_ACR (SystemInit s) = FLASH_ACR s"
    using assms by (simp_all add: SystemInit_def Let_def after_reset_def HAL_RCC_GET_SYSCLK_SOURCE_def)
  then show ?thesis
    using assms by (simp add: clk_off_def HAL_Init_def Let_def after_reset_def bit.conj_disj_distrib2)
qed

lemma main_clocks_reach:
  assumes "clocks_start B env" "B < fuel" "after_reset s"
  shows "\<exists>t. main_clocks env fuel uninit s = Some t \<and> SystemCoreClock t = 168000000 \<and> HAL_RCC_GetSysClockFreq t = 168000000 \<and>
    HAL_RCC_GetPCLK1Freq t = 42000000 \<and> HAL_RCC_GetPCLK2Freq t = 84000000 \<and>
    FLASH_ACR t AND FLASH_ACR_LATENCY = 5 \<and> SysTick_LOAD t = 167999 \<and> SysTick_CTRL t = 7"
proof -
  obtain t where t: "main_clocks env fuel uninit s = Some t" "unat (SystemCoreClock t) = 168000000"
    "HAL_RCC_GetSysClockFreq t = SystemCoreClock t" "HAL_RCC_GetPCLK1Freq t = SystemCoreClock t div 4"
    "HAL_RCC_GetPCLK2Freq t = SystemCoreClock t div 2" "FLASH_ACR t AND FLASH_ACR_LATENCY = 5"
    "SysTick_LOAD t = SystemCoreClock t div 1000 - 1" "SysTick_CTRL t = 7"
    using clock_init_reaches [OF assms(1,2) reset_clk_off [OF assms(3)], of 8 336 2 7 uninit]
    by (auto simp: main_clocks_def)
  have "SystemCoreClock t = 168000000"
    using t(2) by (simp add: word_unat_eq_iff)
  then show ?thesis
    using t by simp
qed

text \<open>
  C12. From reset to the serial ports: if crystal, PLL and switch respond within 2 ms, the clocks come up with 168 MHz for the core,
  42 and 84 MHz for the buses, five wait states for the flash and a SysTick interrupt every millisecond; with these bus clocks usart_init
  makes all six ports ready: each with its own UART, a rate within 0.2 percent of 115200 baud, a user function, its two buffers in place, a
  reception by DMA of 50 bytes running, and a free transmitter.
\<close>

theorem ports_run_at_115200:
  assumes "clocks_start B env" "B < fuel" "after_reset s" "com_zero (ps k)"
  shows "\<exists>t. main_clocks env fuel uninit s = Some t \<and> SystemCoreClock t = 168000000 \<and> HAL_RCC_GetSysClockFreq t = 168000000 \<and>
    FLASH_ACR t AND FLASH_ACR_LATENCY = 5 \<and> SysTick_LOAD t + 1 = SystemCoreClock t div 1000 \<and> SysTick_CTRL t = 7 \<and>
    (let p = usart_init uenv (bus_freq t) ps k; bus = (if k \<in> {usart1, usart6} then 84000000 else 42000000)
     in port_ready p \<and> tx_free p \<and> Instance p = USART_Instance k \<and> func p \<noteq> None \<and> buff p = buff1 (ps k) \<and>
        DMA_buff p = buff2 (ps k) \<and> rx_NDTR p = 50 \<and> 1000 * \<bar>bus - 115200 * int (unat (BRR p))\<bar> \<le> 2 * bus)"
proof -
  obtain t where t: "main_clocks env fuel uninit s = Some t" "SystemCoreClock t = 168000000" "HAL_RCC_GetSysClockFreq t = 168000000"
    "HAL_RCC_GetPCLK1Freq t = 42000000" "HAL_RCC_GetPCLK2Freq t = 84000000" "FLASH_ACR t AND FLASH_ACR_LATENCY = 5"
    "SysTick_LOAD t = 167999" "SysTick_CTRL t = 7"
    using main_clocks_reach [OF assms(1-3), of uninit] by blast
  have b: "UART_BRR_SAMPLING16 42000000 115200 = 364" "UART_BRR_SAMPLING16 84000000 115200 = 729"
    by (simp_all add: UART_BRR_SAMPLING16_def UART_DIVFRAQ_SAMPLING16_def UART_DIVMANT_SAMPLING16_def UART_DIV_SAMPLING16_def)
  have "let p = usart_init uenv (bus_freq t) ps k in port_ready p \<and> tx_free p \<and> Instance p = USART_Instance k \<and> func p \<noteq> None \<and>
      buff p = buff1 (ps k) \<and> DMA_buff p = buff2 (ps k) \<and> rx_NDTR p = 50"
    "BRR (usart_init uenv (bus_freq t) ps k) = (if k \<in> {usart1, usart6} then 729 else 364)"
    using usart_init_state [of ps k, OF assms(4), of uenv "bus_freq t"] t(4,5) b by (simp_all add: Let_def bus_freq_def)
  then show ?thesis
    using t by (intro exI [of _ t]) (simp add: Let_def)
qed

theorem ports_run_at_115200_witness:
  "\<exists>t. main_clocks (env_clk 0) 2 osc_main rcc_zero = Some t \<and> SystemCoreClock t = 168000000 \<and>
    port_ready (usart_init env_example (bus_freq t) ports_zero usart4)"
proof -
  have "after_reset rcc_zero"
    by (simp add: after_reset_def rcc_zero_def HAL_RCC_GET_SYSCLK_SOURCE_def)
  then show ?thesis
    using ports_run_at_115200 [of 1 "env_clk 0" 2 rcc_zero ports_zero usart4 osc_main env_example, OF env_clk_starts _ _ ports_zero_zero]
    by (auto simp: Let_def)
qed

end
