(* ===== verification/Gpio.thy ===== *)
theory Gpio
  imports Prelude
begin

text \<open>
  The pins: the driver stm32f4xx_hal_gpio.c and HARDWARE/LED/led.c, with the abstract view of a pin that the configuration
  of a port implements.
\<close>

section \<open>Registers\<close>

record GPIO_TypeDef =
  MODER :: u32
  OTYPER :: u32
  OSPEEDR :: u32
  PUPDR :: u32
  IDR :: u32
  ODR :: u32
  LCKR :: u32
  AFR :: "nat \<Rightarrow> u32"

text \<open>
  The ports by their address, the registers of SYSCFG, EXTI and RCC that the driver uses. \<open>BSRR\<close> is write-only, its effect is
  on \<open>ODR\<close>.
\<close>

record gpio_state =
  GPIO_regs :: "u32 \<Rightarrow> GPIO_TypeDef"
  EXTICR :: "nat \<Rightarrow> u32"
  EXTI_IMR :: u32
  EXTI_EMR :: u32
  EXTI_RTSR :: u32
  EXTI_FTSR :: u32
  EXTI_PR :: u32
  RCC_AHB1ENR :: u32
  RCC_APB2ENR :: u32

abbreviation GPIOA_BASE :: u32 where "GPIOA_BASE \<equiv> 0x40020000"
abbreviation GPIOB_BASE :: u32 where "GPIOB_BASE \<equiv> 0x40020400"
abbreviation GPIOC_BASE :: u32 where "GPIOC_BASE \<equiv> 0x40020800"
abbreviation GPIOD_BASE :: u32 where "GPIOD_BASE \<equiv> 0x40020C00"
abbreviation GPIOE_BASE :: u32 where "GPIOE_BASE \<equiv> 0x40021000"
abbreviation GPIOF_BASE :: u32 where "GPIOF_BASE \<equiv> 0x40021400"
abbreviation GPIOG_BASE :: u32 where "GPIOG_BASE \<equiv> 0x40021800"
abbreviation GPIOH_BASE :: u32 where "GPIOH_BASE \<equiv> 0x40021C00"

abbreviation GPIO_MODE_INPUT :: u32 where "GPIO_MODE_INPUT \<equiv> 0"
abbreviation GPIO_MODE_OUTPUT_PP :: u32 where "GPIO_MODE_OUTPUT_PP \<equiv> 0x1"
abbreviation GPIO_MODE_OUTPUT_OD :: u32 where "GPIO_MODE_OUTPUT_OD \<equiv> 0x11"
abbreviation GPIO_MODE_AF_PP :: u32 where "GPIO_MODE_AF_PP \<equiv> 0x2"
abbreviation GPIO_MODE_AF_OD :: u32 where "GPIO_MODE_AF_OD \<equiv> 0x12"
abbreviation GPIO_PULLUP :: u32 where "GPIO_PULLUP \<equiv> 1"
abbreviation GPIO_SPEED_FREQ_VERY_HIGH :: u32 where "GPIO_SPEED_FREQ_VERY_HIGH \<equiv> 3"
abbreviation EXTI_MODE :: u32 where "EXTI_MODE \<equiv> 0x10000000"
abbreviation GPIO_MODE_IT :: u32 where "GPIO_MODE_IT \<equiv> 0x00010000"
abbreviation GPIO_MODE_EVT :: u32 where "GPIO_MODE_EVT \<equiv> 0x00020000"
abbreviation RISING_EDGE :: u32 where "RISING_EDGE \<equiv> 0x00100000"
abbreviation FALLING_EDGE :: u32 where "FALLING_EDGE \<equiv> 0x00200000"
abbreviation GPIO_OUTPUT_TYPE :: u32 where "GPIO_OUTPUT_TYPE \<equiv> 0x10"
abbreviation RCC_APB2ENR_SYSCFGEN :: u32 where "RCC_APB2ENR_SYSCFGEN \<equiv> 0x4000"
abbreviation GPIO_LCKR_LCKK :: u32 where "GPIO_LCKR_LCKK \<equiv> 0x10000"

record GPIO_InitTypeDef =
  Pin :: u32
  PinMode :: u32
  Pull :: u32
  PinSpeed :: u32
  Alternate :: u32

datatype GPIO_PinState = GPIO_PIN_RESET | GPIO_PIN_SET

definition GPIO_GET_INDEX :: "u32 \<Rightarrow> u32" where
  "GPIO_GET_INDEX GPIOx =
     (if GPIOx = GPIOA_BASE then 0 else if GPIOx = GPIOB_BASE then 1 else if GPIOx = GPIOC_BASE then 2
      else if GPIOx = GPIOD_BASE then 3 else if GPIOx = GPIOE_BASE then 4 else if GPIOx = GPIOF_BASE then 5
      else if GPIOx = GPIOG_BASE then 6 else if GPIOx = GPIOH_BASE then 7 else 8)"

definition upd_port :: "u32 \<Rightarrow> (GPIO_TypeDef \<Rightarrow> GPIO_TypeDef) \<Rightarrow> gpio_state \<Rightarrow> gpio_state" where
  "upd_port g f s = s\<lparr>GPIO_regs := (GPIO_regs s)(g := f (GPIO_regs s g))\<rparr>"

section \<open>Configuration\<close>

text \<open>\<open>temp &= ~(m << sh); temp |= v << sh\<close>.\<close>

definition put_field :: "u32 \<Rightarrow> nat \<Rightarrow> u32 \<Rightarrow> u32 \<Rightarrow> u32" where
  "put_field m sh v temp = (temp AND NOT (push_bit sh m)) OR push_bit sh v"

definition pin_alternate :: "GPIO_InitTypeDef \<Rightarrow> nat \<Rightarrow> GPIO_TypeDef \<Rightarrow> GPIO_TypeDef" where
  "pin_alternate gi position r =
     (if PinMode gi = GPIO_MODE_AF_PP \<or> PinMode gi = GPIO_MODE_AF_OD
      then r\<lparr>AFR := (AFR r)(position div 8 := put_field 0xF ((position mod 8) * 4) (Alternate gi) (AFR r (position div 8)))\<rparr>
      else r)"

definition pin_output :: "GPIO_InitTypeDef \<Rightarrow> nat \<Rightarrow> GPIO_TypeDef \<Rightarrow> GPIO_TypeDef" where
  "pin_output gi position r =
     (if PinMode gi = GPIO_MODE_OUTPUT_PP \<or> PinMode gi = GPIO_MODE_AF_PP \<or> PinMode gi = GPIO_MODE_OUTPUT_OD \<or> PinMode gi = GPIO_MODE_AF_OD
      then (let r = r\<lparr>OSPEEDR := put_field 0x3 (position * 2) (PinSpeed gi) (OSPEEDR r)\<rparr>
            in r\<lparr>OTYPER := put_field 0x1 position (drop_bit 4 (PinMode gi AND GPIO_OUTPUT_TYPE)) (OTYPER r)\<rparr>)
      else r)"

definition pin_config :: "GPIO_InitTypeDef \<Rightarrow> nat \<Rightarrow> GPIO_TypeDef \<Rightarrow> GPIO_TypeDef" where
  "pin_config gi position r =
     (let r = pin_alternate gi position r;
          r = r\<lparr>MODER := put_field 0x3 (position * 2) (PinMode gi AND 0x3) (MODER r)\<rparr>;
          r = pin_output gi position r
      in r\<lparr>PUPDR := put_field 0x3 (position * 2) (Pull gi) (PUPDR r)\<rparr>)"

text \<open>\<open>temp &= ~iocurrent\<close>, then \<open>temp |= iocurrent\<close> if the mode has the flag.\<close>

definition exti_line :: "u32 \<Rightarrow> u32 \<Rightarrow> u32 \<Rightarrow> u32 \<Rightarrow> u32" where
  "exti_line mode flag iocurrent temp =
     (let temp = temp AND NOT iocurrent in if mode AND flag = flag then temp OR iocurrent else temp)"

definition pin_exti :: "u32 \<Rightarrow> GPIO_InitTypeDef \<Rightarrow> nat \<Rightarrow> u32 \<Rightarrow> gpio_state \<Rightarrow> gpio_state" where
  "pin_exti GPIOx gi position iocurrent s =
     (if PinMode gi AND EXTI_MODE = EXTI_MODE then
        s\<lparr>RCC_APB2ENR := SET_BIT (RCC_APB2ENR s) RCC_APB2ENR_SYSCFGEN,
          EXTICR := (EXTICR s)(position div 4 := put_field 0xF (4 * (position mod 4)) (GPIO_GET_INDEX GPIOx) (EXTICR s (position div 4))),
          EXTI_IMR := exti_line (PinMode gi) GPIO_MODE_IT iocurrent (EXTI_IMR s),
          EXTI_EMR := exti_line (PinMode gi) GPIO_MODE_EVT iocurrent (EXTI_EMR s),
          EXTI_RTSR := exti_line (PinMode gi) RISING_EDGE iocurrent (EXTI_RTSR s),
          EXTI_FTSR := exti_line (PinMode gi) FALLING_EDGE iocurrent (EXTI_FTSR s)\<rparr>
      else s)"

definition gpio_init_pin :: "u32 \<Rightarrow> GPIO_InitTypeDef \<Rightarrow> nat \<Rightarrow> gpio_state \<Rightarrow> gpio_state" where
  "gpio_init_pin GPIOx gi position s =
     (let ioposition = push_bit position 1;
          iocurrent = Pin gi AND ioposition
      in if iocurrent = ioposition then
           pin_exti GPIOx gi position iocurrent (upd_port GPIOx (pin_config gi position) s)
         else s)"

definition HAL_GPIO_Init_port :: "u32 \<Rightarrow> GPIO_InitTypeDef \<Rightarrow> gpio_state \<Rightarrow> gpio_state" where
  "HAL_GPIO_Init_port GPIOx gi s = fold (gpio_init_pin GPIOx gi) [0..<16] s"

definition pin_default :: "nat \<Rightarrow> GPIO_TypeDef \<Rightarrow> GPIO_TypeDef" where
  "pin_default position r =
     (let r = r\<lparr>MODER := MODER r AND NOT (push_bit (position * 2) 0x3)\<rparr>;
          r = r\<lparr>AFR := (AFR r)(position div 8 := AFR r (position div 8) AND NOT (push_bit ((position mod 8) * 4) 0xF))\<rparr>;
          r = r\<lparr>OSPEEDR := OSPEEDR r AND NOT (push_bit (position * 2) 0x3)\<rparr>;
          r = r\<lparr>OTYPER := OTYPER r AND NOT (push_bit position 0x1)\<rparr>
      in r\<lparr>PUPDR := PUPDR r AND NOT (push_bit (position * 2) 0x3)\<rparr>)"

definition gpio_deinit_pin :: "u32 \<Rightarrow> u32 \<Rightarrow> nat \<Rightarrow> gpio_state \<Rightarrow> gpio_state" where
  "gpio_deinit_pin GPIOx pins position s =
     (let ioposition = push_bit position 1;
          iocurrent = pins AND ioposition
      in if iocurrent = ioposition then
           (let s = upd_port GPIOx (pin_default position) s;
                tmp = EXTICR s (position div 4) AND push_bit (4 * (position mod 4)) 0xF
            in if tmp = push_bit (4 * (position mod 4)) (GPIO_GET_INDEX GPIOx) then
                 s\<lparr>EXTICR := (EXTICR s)(position div 4 := EXTICR s (position div 4) AND NOT (push_bit (4 * (position mod 4)) 0xF)),
                   EXTI_IMR := EXTI_IMR s AND NOT iocurrent, EXTI_EMR := EXTI_EMR s AND NOT iocurrent,
                   EXTI_RTSR := EXTI_RTSR s AND NOT iocurrent, EXTI_FTSR := EXTI_FTSR s AND NOT iocurrent\<rparr>
               else s)
         else s)"

definition HAL_GPIO_DeInit :: "u32 \<Rightarrow> u32 \<Rightarrow> gpio_state \<Rightarrow> gpio_state" where
  "HAL_GPIO_DeInit GPIOx pins s = fold (gpio_deinit_pin GPIOx pins) [0..<16] s"

section \<open>Reading and writing\<close>

definition HAL_GPIO_ReadPin :: "u32 \<Rightarrow> u16 \<Rightarrow> GPIO_PinState" where
  "HAL_GPIO_ReadPin idr GPIO_Pin = (if idr AND ucast GPIO_Pin \<noteq> 0 then GPIO_PIN_SET else GPIO_PIN_RESET)"

text \<open>A write to \<open>BSRR\<close>: the low half sets pins, the high half clears pins that are not set.\<close>

definition write_BSRR :: "u32 \<Rightarrow> GPIO_TypeDef \<Rightarrow> GPIO_TypeDef" where
  "write_BSRR v r = r\<lparr>ODR := (ODR r AND NOT (drop_bit 16 v)) OR (v AND 0xFFFF)\<rparr>"

definition HAL_GPIO_WritePin :: "u32 \<Rightarrow> u16 \<Rightarrow> GPIO_PinState \<Rightarrow> gpio_state \<Rightarrow> gpio_state" where
  "HAL_GPIO_WritePin GPIOx GPIO_Pin PinState s =
     (if PinState \<noteq> GPIO_PIN_RESET then upd_port GPIOx (write_BSRR (ucast GPIO_Pin)) s
      else upd_port GPIOx (write_BSRR (push_bit 16 (ucast GPIO_Pin))) s)"

definition HAL_GPIO_TogglePin :: "u32 \<Rightarrow> u16 \<Rightarrow> gpio_state \<Rightarrow> gpio_state" where
  "HAL_GPIO_TogglePin GPIOx GPIO_Pin s = upd_port GPIOx (\<lambda>r. r\<lparr>ODR := ODR r XOR ucast GPIO_Pin\<rparr>) s"

text \<open>The lock register answers each write through \<open>lck\<close>, which sees what was written and returns what is read next.\<close>

definition HAL_GPIO_LockPin :: "(u32 \<Rightarrow> u32 \<Rightarrow> u32) \<Rightarrow> u32 \<Rightarrow> u16 \<Rightarrow> gpio_state \<Rightarrow> HAL_StatusTypeDef \<times> gpio_state" where
  "HAL_GPIO_LockPin lck GPIOx GPIO_Pin s =
     (let tmp = GPIO_LCKR_LCKK OR ucast GPIO_Pin;
          w = (\<lambda>v. upd_port GPIOx (\<lambda>r. r\<lparr>LCKR := lck (LCKR r) v\<rparr>));
          s = w tmp s;
          s = w (ucast GPIO_Pin) s;
          s = w tmp s
      in (if LCKR (GPIO_regs s GPIOx) AND GPIO_LCKR_LCKK \<noteq> 0 then HAL_OK else HAL_ERROR, s))"

text \<open>Writing a 1 to \<open>PR\<close> clears the bit.\<close>

definition HAL_GPIO_EXTI_IRQHandler :: "(u16 \<Rightarrow> gpio_state \<Rightarrow> gpio_state) \<Rightarrow> u16 \<Rightarrow> gpio_state \<Rightarrow> gpio_state" where
  "HAL_GPIO_EXTI_IRQHandler callback GPIO_Pin s =
     (if EXTI_PR s AND ucast GPIO_Pin \<noteq> 0 then
        callback GPIO_Pin (s\<lparr>EXTI_PR := EXTI_PR s AND NOT (ucast GPIO_Pin)\<rparr>)
      else s)"

text \<open>\<open>__HAL_RCC_GPIOx_CLK_ENABLE\<close>: bit \<open>i\<close> of \<open>AHB1ENR\<close> for port \<open>i\<close>.\<close>

definition GPIO_CLK_ENABLE :: "nat \<Rightarrow> gpio_state \<Rightarrow> gpio_state" where
  "GPIO_CLK_ENABLE i s = s\<lparr>RCC_AHB1ENR := SET_BIT (RCC_AHB1ENR s) (push_bit i 1)\<rparr>"

section \<open>One pin\<close>

text \<open>What a pin is configured to: mode, open drain, speed, pull resistor, alternate function.\<close>

definition field :: "nat \<Rightarrow> nat \<Rightarrow> u32 \<Rightarrow> u32" where
  "field n sh r = take_bit n (drop_bit sh r)"

record pin_view =
  v_mode :: u32
  v_od :: bool
  v_speed :: u32
  v_pull :: u32
  v_alternate :: u32

definition pin_of :: "nat \<Rightarrow> GPIO_TypeDef \<Rightarrow> pin_view" where
  "pin_of p r = \<lparr>v_mode = field 2 (p * 2) (MODER r), v_od = bit (OTYPER r) p, v_speed = field 2 (p * 2) (OSPEEDR r),
     v_pull = field 2 (p * 2) (PUPDR r), v_alternate = field 4 ((p mod 8) * 4) (AFR r (p div 8))\<rparr>"

text \<open>The configuration of one pin.\<close>

definition pin_spec :: "GPIO_InitTypeDef \<Rightarrow> pin_view \<Rightarrow> pin_view" where
  "pin_spec gi v =
     (let m = PinMode gi AND 0x3;
          v = v\<lparr>v_mode := m, v_pull := Pull gi\<rparr>;
          v = (if PinMode gi \<in> {GPIO_MODE_AF_PP, GPIO_MODE_AF_OD} then v\<lparr>v_alternate := Alternate gi\<rparr> else v)
      in if PinMode gi \<in> {GPIO_MODE_OUTPUT_PP, GPIO_MODE_OUTPUT_OD, GPIO_MODE_AF_PP, GPIO_MODE_AF_OD}
         then v\<lparr>v_speed := PinSpeed gi, v_od := bit (PinMode gi) 4\<rparr> else v)"

definition gi_ok :: "GPIO_InitTypeDef \<Rightarrow> bool" where
  "gi_ok gi \<longleftrightarrow> Pull gi < 4 \<and> PinSpeed gi < 4 \<and> Alternate gi < 16"

lemma field_put_same:
  assumes "v < 2 ^ n" "sh + n \<le> 32"
  shows "field n sh (put_field (mask n) sh v r) = v"
proof -
  note b [dest] = bit_small [OF assms(1)]
  show ?thesis
    using assms(2) by (subst u32_eq_iff) (auto simp: field_def put_field_def bit_simps)
qed

lemma field_put_other:
  assumes "v < 2 ^ n" "sh + n \<le> sh' \<or> sh' + n \<le> sh" "sh' + n \<le> 32"
  shows "field n sh' (put_field (mask n) sh v r) = field n sh' r"
proof -
  note b = bit_small [OF assms(1)]
  have "\<not> (sh \<le> sh' + i \<and> bit v (sh' + i - sh))" "\<not> (sh \<le> sh' + i \<and> sh' + i - sh < n)" if "i < n" for i
    using b [of "sh' + i - sh"] assms(2) that by auto
  then show ?thesis
    using assms(3) by (subst u32_eq_iff) (auto simp: field_def put_field_def bit_simps)
qed

text \<open>The fields of 2, of 4 and of 1 bits.\<close>

lemma masks: "(0x3 :: u32) = mask 2" "(0xF :: u32) = mask 4" "(0x1 :: u32) = mask 1"
  by (simp_all add: mask_numeral)

lemma field2:
  assumes "v < 4" "p < 16" "q < 16"
  shows "field 2 (p * 2) (put_field 0x3 (q * 2) v r) = (if p = q then v else field 2 (p * 2) r)"
proof (cases "p = q")
  case False
  then have "q * 2 + 2 \<le> p * 2 \<or> p * 2 + 2 \<le> q * 2"
    by arith
  from field_put_other [OF _ this, of v r] show ?thesis
    using assms False unfolding masks(1) by simp
qed (use assms field_put_same [of v 2 "p * 2" r] in \<open>simp add: masks(1)\<close>)

lemma field4:
  assumes "v < 16" "p < 8" "q < 8"
  shows "field 4 (p * 4) (put_field 0xF (q * 4) v r) = (if p = q then v else field 4 (p * 4) r)"
proof (cases "p = q")
  case False
  then have "q * 4 + 4 \<le> p * 4 \<or> p * 4 + 4 \<le> q * 4"
    by arith
  from field_put_other [OF _ this, of v r] show ?thesis
    using assms False unfolding masks(2) by simp
qed (use assms field_put_same [of v 4 "p * 4" r] in \<open>simp add: masks(2)\<close>)

lemma field1: "p < 32 \<Longrightarrow> q < 32 \<Longrightarrow> v < 2 \<Longrightarrow>
    bit (put_field 0x1 q v r) p = (if p = q then bit v 0 else bit r p)"
  using bit_small [of v 1 "p - q"] by (auto simp: put_field_def bit_simps)

lemma pin_of_config:
  assumes "gi_ok gi" "p < 16" "q < 16"
  shows "pin_of p (pin_config gi q r) = (if p = q then pin_spec gi (pin_of p r) else pin_of p r)"
proof -
  have g: "Pull gi < 4" "PinSpeed gi < 4" "Alternate gi < 16" "PinMode gi AND 0x3 < 4"
    using assms(1) le_less_trans [OF word_and_le1, of 3 4 "PinMode gi"] by (simp_all add: gi_ok_def)
  have od: "drop_bit 4 (PinMode gi AND GPIO_OUTPUT_TYPE) < 2" "bit (drop_bit 4 (PinMode gi AND GPIO_OUTPUT_TYPE)) 0 = bit (PinMode gi) 4"
    using le_less_trans [OF word_and_le1, of 1 2 "drop_bit 4 (PinMode gi)"] by (simp_all add: bit_simps)
  have pq: "p div 8 = q div 8 \<Longrightarrow> p mod 8 = q mod 8 \<longleftrightarrow> p = q" "p mod 8 < 8" "q mod 8 < 8"
    by (metis div_mult_mod_eq) simp_all
  show ?thesis
    using assms(2,3) pq g od
    by (auto simp: pin_of_def pin_config_def pin_alternate_def pin_output_def pin_spec_def Let_def field2 field4 field1)
qed

text \<open>The interrupt line of a pin: port, masks, edges.\<close>

record exti_view =
  x_port :: u32
  x_imr :: bool
  x_emr :: bool
  x_rising :: bool
  x_falling :: bool

definition exti_of :: "nat \<Rightarrow> gpio_state \<Rightarrow> exti_view" where
  "exti_of p s = \<lparr>x_port = field 4 ((p mod 4) * 4) (EXTICR s (p div 4)), x_imr = bit (EXTI_IMR s) p, x_emr = bit (EXTI_EMR s) p,
     x_rising = bit (EXTI_RTSR s) p, x_falling = bit (EXTI_FTSR s) p\<rparr>"

definition exti_spec :: "u32 \<Rightarrow> GPIO_InitTypeDef \<Rightarrow> exti_view \<Rightarrow> exti_view" where
  "exti_spec g gi v =
     (if PinMode gi AND EXTI_MODE = EXTI_MODE
      then \<lparr>x_port = GPIO_GET_INDEX g, x_imr = (PinMode gi AND GPIO_MODE_IT = GPIO_MODE_IT),
        x_emr = (PinMode gi AND GPIO_MODE_EVT = GPIO_MODE_EVT), x_rising = (PinMode gi AND RISING_EDGE = RISING_EDGE),
        x_falling = (PinMode gi AND FALLING_EDGE = FALLING_EDGE)\<rparr>
      else v)"

lemma has_pin: "p < 32 \<Longrightarrow> (m :: u32) AND push_bit p 1 = push_bit p 1 \<longleftrightarrow> bit m p"
  by (subst u32_eq_iff) (auto simp: bit_simps)

lemma bit_exti_line:
  "p < 32 \<Longrightarrow> q < 32 \<Longrightarrow> bit (exti_line m f (2 ^ q) r) p = (if p = q then m AND f = f else bit r p)"
  by (auto simp: exti_line_def Let_def bit_simps bit_exp_iff)

lemma exti_of_pin:
  assumes "p < 16" "q < 16"
  shows "exti_of p (pin_exti g gi q (2 ^ q) s) = (if p = q then exti_spec g gi (exti_of p s) else exti_of p s)"
proof -
  have pq: "p div 4 = q div 4 \<Longrightarrow> p mod 4 = q mod 4 \<longleftrightarrow> p = q" "p mod 4 < 8" "q mod 4 < 8"
    by (metis div_mult_mod_eq) (auto intro: less_trans [OF mod_less_divisor])
  have g: "GPIO_GET_INDEX g < 16"
    by (simp add: GPIO_GET_INDEX_def)
  show ?thesis
    using assms pq field4 [OF g pq(2,3)]
    by (auto simp: exti_of_def pin_exti_def exti_spec_def bit_exti_line mult.commute)
qed

lemma fold_pins:
  assumes "\<And>q s. q \<in> set qs \<Longrightarrow> f (step q s) = (if p = q then h (f s) else f s)" "distinct qs"
  shows "f (fold step qs s) = (if p \<in> set qs then h (f s) else f s)"
  using assms
proof (induction qs arbitrary: s)
  case (Cons q qs)
  then have "f (fold step qs (step q s)) = (if p \<in> set qs then h (f (step q s)) else f (step q s))"
    by (intro Cons.IH) auto
  then show ?case
    using Cons.prems by auto
qed simp

lemma fold_keeps: "(\<And>q s. q \<in> set qs \<Longrightarrow> f (step q s) = f s) \<Longrightarrow> f (fold step qs s) = f s"
  by (induction qs arbitrary: s) simp_all

lemma gpio_init_pin_parts:
  assumes "gi_ok gi" "p < 16" "q < 16"
  shows "pin_of p (GPIO_regs (gpio_init_pin g gi q s) g) =
      (if p = q then (if bit (Pin gi) p then pin_spec gi else id) (pin_of p (GPIO_regs s g)) else pin_of p (GPIO_regs s g))"
    "exti_of p (gpio_init_pin g gi q s) =
      (if p = q then (if bit (Pin gi) p then exti_spec g gi else id) (exti_of p s) else exti_of p s)"
    "g' \<noteq> g \<Longrightarrow> GPIO_regs (gpio_init_pin g gi q s) g' = GPIO_regs s g'"
proof -
  have r: "GPIO_regs (pin_exti g gi q c t) = GPIO_regs t" for c t
    by (simp add: pin_exti_def)
  have e: "exti_of p (upd_port g f s) = exti_of p s" for f p
    by (simp add: exti_of_def upd_port_def)
  have u: "GPIO_regs (upd_port g f s) g' = (if g' = g then f (GPIO_regs s g) else GPIO_regs s g')" for f g'
    by (simp add: upd_port_def)
  have m: "gpio_init_pin g gi q s =
      (if bit (Pin gi) q then pin_exti g gi q (2 ^ q) (upd_port g (pin_config gi q) s) else s)"
    using has_pin [of q "Pin gi"] assms(3) by (auto simp: gpio_init_pin_def Let_def)
  show "pin_of p (GPIO_regs (gpio_init_pin g gi q s) g) =
      (if p = q then (if bit (Pin gi) p then pin_spec gi else id) (pin_of p (GPIO_regs s g)) else pin_of p (GPIO_regs s g))"
    by (simp add: m r u pin_of_config [OF assms] pin_of_config [OF assms(1,3,3)])
  show "exti_of p (gpio_init_pin g gi q s) =
      (if p = q then (if bit (Pin gi) p then exti_spec g gi else id) (exti_of p s) else exti_of p s)"
    by (simp add: m e exti_of_pin [OF assms(2,3)] exti_of_pin [OF assms(3,3)])
  show "g' \<noteq> g \<Longrightarrow> GPIO_regs (gpio_init_pin g gi q s) g' = GPIO_regs s g'"
    by (simp add: m r u)
qed

lemma gpio_init_view:
  assumes "gi_ok gi" "p < 16"
  shows "pin_of p (GPIO_regs (HAL_GPIO_Init_port g gi s) g) =
      (if bit (Pin gi) p then pin_spec gi (pin_of p (GPIO_regs s g)) else pin_of p (GPIO_regs s g))"
    "exti_of p (HAL_GPIO_Init_port g gi s) = (if bit (Pin gi) p then exti_spec g gi (exti_of p s) else exti_of p s)"
    "g' \<noteq> g \<Longrightarrow> GPIO_regs (HAL_GPIO_Init_port g gi s) g' = GPIO_regs s g'"
proof -
  note parts = gpio_init_pin_parts [OF assms(1,2), of _ g]
  have "pin_of p (GPIO_regs (HAL_GPIO_Init_port g gi s) g) =
      (if p \<in> set [0..<16] then (if bit (Pin gi) p then pin_spec gi else id) (pin_of p (GPIO_regs s g)) else pin_of p (GPIO_regs s g))"
    unfolding HAL_GPIO_Init_port_def by (rule fold_pins [where f = "\<lambda>s. pin_of p (GPIO_regs s g)"]) (simp_all add: parts)
  then show "pin_of p (GPIO_regs (HAL_GPIO_Init_port g gi s) g) =
      (if bit (Pin gi) p then pin_spec gi (pin_of p (GPIO_regs s g)) else pin_of p (GPIO_regs s g))"
    using assms(2) by simp
  have "exti_of p (HAL_GPIO_Init_port g gi s) =
      (if p \<in> set [0..<16] then (if bit (Pin gi) p then exti_spec g gi else id) (exti_of p s) else exti_of p s)"
    unfolding HAL_GPIO_Init_port_def by (rule fold_pins [where f = "exti_of p"]) (simp_all add: parts)
  then show "exti_of p (HAL_GPIO_Init_port g gi s) = (if bit (Pin gi) p then exti_spec g gi (exti_of p s) else exti_of p s)"
    using assms(2) by simp
  show "g' \<noteq> g \<Longrightarrow> GPIO_regs (HAL_GPIO_Init_port g gi s) g' = GPIO_regs s g'"
    unfolding HAL_GPIO_Init_port_def
    by (rule fold_keeps [where f = "\<lambda>s. GPIO_regs s g'"]) (simp add: gpio_init_pin_parts(3) [OF assms(1,2)])
qed

text \<open>
  C17. HAL_GPIO_Init gives each pin of the mask its mode, output type, speed, pull resistor and alternate function, and its interrupt
  line in the interrupt modes; every other pin and port keeps its configuration.
\<close>

theorem gpio_init_configures:
  assumes "gi_ok gi" "p < 16"
  shows "pin_of p (GPIO_regs (HAL_GPIO_Init_port g gi s) g) =
      (if bit (Pin gi) p then pin_spec gi (pin_of p (GPIO_regs s g)) else pin_of p (GPIO_regs s g)) \<and>
    exti_of p (HAL_GPIO_Init_port g gi s) = (if bit (Pin gi) p then exti_spec g gi (exti_of p s) else exti_of p s) \<and>
    (g' \<noteq> g \<longrightarrow> GPIO_regs (HAL_GPIO_Init_port g gi s) g' = GPIO_regs s g')"
  using gpio_init_view [OF assms] by blast

section \<open>De-initialisation\<close>

definition pin_reset :: pin_view where
  "pin_reset = \<lparr>v_mode = 0, v_od = False, v_speed = 0, v_pull = 0, v_alternate = 0\<rparr>"

lemma put_zero: "r AND NOT (push_bit sh m) = put_field m sh 0 r"
  by (simp add: put_field_def)

lemma pin_of_default:
  assumes "p < 16" "q < 16"
  shows "pin_of p (pin_default q r) = (if p = q then pin_reset else pin_of p r)"
proof -
  have pq: "p div 8 = q div 8 \<Longrightarrow> p mod 8 = q mod 8 \<longleftrightarrow> p = q" "p mod 8 < 8" "q mod 8 < 8"
    by (metis div_mult_mod_eq) simp_all
  show ?thesis
    using assms pq unfolding pin_default_def put_zero
    by (auto simp: pin_of_def pin_reset_def Let_def field2 field4 field1)
qed

lemma gpio_deinit_pin_regs:
  assumes "q < 16"
  shows "GPIO_regs (gpio_deinit_pin g pins q s) =
    (if bit pins q then (GPIO_regs s)(g := pin_default q (GPIO_regs s g)) else GPIO_regs s)"
  using has_pin [of q pins] assms by (auto simp: gpio_deinit_pin_def Let_def upd_port_def)

text \<open>
  HAL_GPIO_DeInit takes the pins of the mask back to their reset configuration, whatever HAL_GPIO_Init had given them, and
  no other pin of the port.
\<close>

theorem gpio_deinit_resets:
  assumes "p < 16"
  shows "pin_of p (GPIO_regs (HAL_GPIO_DeInit g pins s) g) = (if bit pins p then pin_reset else pin_of p (GPIO_regs s g))"
proof -
  have "pin_of p (GPIO_regs (HAL_GPIO_DeInit g pins s) g) =
      (if p \<in> set [0..<16] then (if bit pins p then (\<lambda>_. pin_reset) else id) (pin_of p (GPIO_regs s g)) else pin_of p (GPIO_regs s g))"
    unfolding HAL_GPIO_DeInit_def
    by (rule fold_pins [where f = "\<lambda>s. pin_of p (GPIO_regs s g)"]) (simp_all add: gpio_deinit_pin_regs pin_of_default assms)
  then show ?thesis
    using assms by simp
qed

section \<open>LEDs\<close>

text \<open>\<open>alternate\<close> is the member that is not initialised.\<close>

definition LED_Init :: "u32 \<Rightarrow> gpio_state \<Rightarrow> gpio_state" where
  "LED_Init alternate s =
     (let s = GPIO_CLK_ENABLE 1 s;
          s = HAL_GPIO_Init_port GPIOB_BASE \<lparr>Pin = 0x1 OR 0x2, PinMode = GPIO_MODE_OUTPUT_PP, Pull = GPIO_PULLUP, PinSpeed = GPIO_SPEED_FREQ_VERY_HIGH,
                Alternate = alternate\<rparr> s;
          s = HAL_GPIO_WritePin GPIOB_BASE 0x1 GPIO_PIN_SET s
      in HAL_GPIO_WritePin GPIOB_BASE 0x2 GPIO_PIN_SET s)"

lemma pin_of_ODR [simp]: "pin_of p (write_BSRR v r) = pin_of p r"
  by (simp add: pin_of_def write_BSRR_def)

text \<open>The two LED pins are push-pull outputs, and high: \<open>BSRR\<close> sets one pin at a time.\<close>

lemma LED_Init_pins:
  assumes "alternate < 16" "p \<in> {0, 1}"
  shows "v_mode (pin_of p (GPIO_regs (LED_Init alternate s) GPIOB_BASE)) = 1"
    "\<not> v_od (pin_of p (GPIO_regs (LED_Init alternate s) GPIOB_BASE))"
    "bit (ODR (GPIO_regs (LED_Init alternate s) GPIOB_BASE)) p"
proof -
  let ?gi = "\<lparr>Pin = 0x3, PinMode = GPIO_MODE_OUTPUT_PP, Pull = GPIO_PULLUP, PinSpeed = GPIO_SPEED_FREQ_VERY_HIGH, Alternate = alternate\<rparr>"
  have ok: "gi_ok ?gi"
    using assms(1) by (simp add: gi_ok_def)
  have p: "p < 16" "bit (0x3 :: u32) p"
    using assms(2) by auto
  have "pin_of p (GPIO_regs (HAL_GPIO_Init_port GPIOB_BASE ?gi u) GPIOB_BASE) = pin_spec ?gi (pin_of p (GPIO_regs u GPIOB_BASE))" for u
    using gpio_init_view(1) [OF ok p(1), of GPIOB_BASE u] p(2) by simp
  then show "v_mode (pin_of p (GPIO_regs (LED_Init alternate s) GPIOB_BASE)) = 1"
    "\<not> v_od (pin_of p (GPIO_regs (LED_Init alternate s) GPIOB_BASE))"
    by (simp_all add: LED_Init_def Let_def HAL_GPIO_WritePin_def upd_port_def pin_spec_def)
  show "bit (ODR (GPIO_regs (LED_Init alternate s) GPIOB_BASE)) p"
    using assms(2) by (auto simp: LED_Init_def Let_def HAL_GPIO_WritePin_def upd_port_def write_BSRR_def bit_simps)
qed

section \<open>Concrete inputs\<close>

definition gpio_zero :: gpio_state where
  "gpio_zero = \<lparr>GPIO_regs = (\<lambda>_. \<lparr>MODER = 0, OTYPER = 0, OSPEEDR = 0, PUPDR = 0, IDR = 0, ODR = 0, LCKR = 0, AFR = (\<lambda>_. 0)\<rparr>),
     EXTICR = (\<lambda>_. 0), EXTI_IMR = 0, EXTI_EMR = 0, EXTI_RTSR = 0, EXTI_FTSR = 0, EXTI_PR = 0, RCC_AHB1ENR = 0, RCC_APB2ENR = 0\<rparr>"

theorem gpio_init_configures_witness:
  "pin_of 10 (GPIO_regs (HAL_GPIO_Init_port GPIOA_BASE \<lparr>Pin = 0x400, PinMode = GPIO_MODE_AF_PP, Pull = GPIO_PULLUP,
      PinSpeed = GPIO_SPEED_FREQ_VERY_HIGH, Alternate = 7\<rparr> gpio_zero) GPIOA_BASE) =
    \<lparr>v_mode = 2, v_od = False, v_speed = 3, v_pull = 1, v_alternate = 7\<rparr>"
  using gpio_init_configures [of "\<lparr>Pin = 0x400, PinMode = GPIO_MODE_AF_PP, Pull = GPIO_PULLUP,
      PinSpeed = GPIO_SPEED_FREQ_VERY_HIGH, Alternate = 7\<rparr>" 10 GPIOA_BASE gpio_zero]
  by (simp add: gi_ok_def pin_spec_def pin_of_def gpio_zero_def)

end
