(* ===== verification/ClockOut.thy ===== *)
theory ClockOut
  imports RccProps Gpio
begin

text \<open>
  The clock outputs of stm32f4xx_hal_rcc.c, which work on the registers of \<open>Rcc\<close> and, for the pin, on those of \<open>Gpio\<close>.
\<close>

abbreviation RCC_MCO1 :: u32 where "RCC_MCO1 \<equiv> 0"
abbreviation RCC_CFGR_MCO1 :: u32 where "RCC_CFGR_MCO1 \<equiv> 0x00600000"
abbreviation RCC_CFGR_MCO1PRE :: u32 where "RCC_CFGR_MCO1PRE \<equiv> 0x07000000"
abbreviation RCC_CFGR_MCO2PRE :: u32 where "RCC_CFGR_MCO2PRE \<equiv> 0x38000000"
abbreviation RCC_CFGR_MCO2 :: u32 where "RCC_CFGR_MCO2 \<equiv> 0xC0000000"

definition HAL_RCC_MCOConfig :: "u32 \<Rightarrow> u32 \<Rightarrow> u32 \<Rightarrow> rcc \<times> gpio_state \<Rightarrow> rcc \<times> gpio_state" where
  "HAL_RCC_MCOConfig RCC_MCOx RCC_MCOSource RCC_MCODiv = (\<lambda>(s, g).
     if RCC_MCOx = RCC_MCO1 then
       (let g = GPIO_CLK_ENABLE 0 g;
            gi = \<lparr>Pin = 0x100, PinMode = GPIO_MODE_AF_PP, Pull = 0, PinSpeed = GPIO_SPEED_FREQ_VERY_HIGH, Alternate = 0\<rparr>;
            g = HAL_GPIO_Init_port GPIOA_BASE gi g
        in (s\<lparr>RCC_CFGR := MODIFY_REG (RCC_CFGR s) (RCC_CFGR_MCO1 OR RCC_CFGR_MCO1PRE) (RCC_MCOSource OR RCC_MCODiv)\<rparr>, g))
     else
       (let g = GPIO_CLK_ENABLE 2 g;
            gi = \<lparr>Pin = 0x200, PinMode = GPIO_MODE_AF_PP, Pull = 0, PinSpeed = GPIO_SPEED_FREQ_VERY_HIGH, Alternate = 0\<rparr>;
            g = HAL_GPIO_Init_port GPIOC_BASE gi g
        in (s\<lparr>RCC_CFGR := MODIFY_REG (RCC_CFGR s) (RCC_CFGR_MCO2 OR RCC_CFGR_MCO2PRE) (RCC_MCOSource OR push_bit 3 RCC_MCODiv)\<rparr>, g)))"

text \<open>Empty in the source.\<close>

definition HAL_RCC_DeInit :: "rcc \<Rightarrow> rcc" where
  "HAL_RCC_DeInit s = s"

section \<open>An output leaves the clocks as they are\<close>

lemma modify_outside:
  assumes "c AND m = 0" "v AND m = 0"
  shows "MODIFY_REG r c v AND m = r AND m"
proof (rule bit_eqI)
  fix i :: nat
  have "\<not> (bit c i \<and> bit m i)" "\<not> (bit v i \<and> bit m i)"
    using arg_cong [OF assms(1), of "\<lambda>w. bit w i"] arg_cong [OF assms(2), of "\<lambda>w. bit w i"] by (simp_all add: bit_and_iff)
  then show "bit (MODIFY_REG r c v AND m) i \<longleftrightarrow> bit (r AND m) i" if "possible_bit TYPE(32 word) i"
    using that by (auto simp: MODIFY_REG_def bit_and_iff bit_or_iff bit_not_iff)
qed

lemma masked_outside:
  assumes "v AND c = v" "c AND m = 0"
  shows "v AND (m :: u32) = 0"
  using and.assoc [of v c m] unfolding assms by simp

lemma same_field:
  assumes "x AND c = y AND c" "c AND m = m"
  shows "x AND m = y AND (m :: u32)"
  using and.assoc [of x c m] and.assoc [of y c m] unfolding assms by simp

lemma mco_keeps_low_half:
  assumes "if RCC_MCOx = RCC_MCO1 then src AND RCC_CFGR_MCO1 = src else src AND RCC_CFGR_MCO2 = src" "di AND RCC_CFGR_MCO1PRE = di"
  shows "RCC_CFGR (fst (HAL_RCC_MCOConfig RCC_MCOx src di (s, g))) AND 0xFFFF = RCC_CFGR s AND 0xFFFF"
proof -
  have di: "di AND 0xFFFF = 0" "push_bit 3 di AND 0xFFFF = 0"
    using masked_outside [OF assms(2)] masked_outside [of "push_bit 3 di" RCC_CFGR_MCO2PRE "0xFFFF"] arg_cong [OF assms(2), of "push_bit 3"]
    by (simp_all add: push_bit_and)
  have "src AND 0xFFFF = 0"
    using assms(1) masked_outside [of src RCC_CFGR_MCO1 "0xFFFF"] masked_outside [of src RCC_CFGR_MCO2 "0xFFFF"] by (auto split: if_splits)
  with di show ?thesis
    by (simp add: HAL_RCC_MCOConfig_def Let_def modify_outside word_ao_dist)
qed

lemma mco_keeps_frequencies:
  assumes "if RCC_MCOx = RCC_MCO1 then src AND RCC_CFGR_MCO1 = src else src AND RCC_CFGR_MCO2 = src" "di AND RCC_CFGR_MCO1PRE = di"
  shows "HAL_RCC_GetSysClockFreq (fst (HAL_RCC_MCOConfig RCC_MCOx src di (s, g))) = HAL_RCC_GetSysClockFreq s"
    "HAL_RCC_GetPCLK1Freq (fst (HAL_RCC_MCOConfig RCC_MCOx src di (s, g))) = HAL_RCC_GetPCLK1Freq s"
    "HAL_RCC_GetPCLK2Freq (fst (HAL_RCC_MCOConfig RCC_MCOx src di (s, g))) = HAL_RCC_GetPCLK2Freq s"
proof -
  let ?s = "fst (HAL_RCC_MCOConfig RCC_MCOx src di (s, g))"
  have low: "RCC_CFGR ?s AND RCC_CFGR_SWS = RCC_CFGR s AND RCC_CFGR_SWS" "RCC_CFGR ?s AND RCC_CFGR_PPRE1 = RCC_CFGR s AND RCC_CFGR_PPRE1"
    "RCC_CFGR ?s AND RCC_CFGR_PPRE2 = RCC_CFGR s AND RCC_CFGR_PPRE2"
    by (rule same_field [OF mco_keeps_low_half [OF assms]], simp)+
  have k: "RCC_PLLCFGR ?s = RCC_PLLCFGR s" "SystemCoreClock ?s = SystemCoreClock s"
    by (simp_all add: HAL_RCC_MCOConfig_def Let_def)
  show "HAL_RCC_GetSysClockFreq ?s = HAL_RCC_GetSysClockFreq s" "HAL_RCC_GetPCLK1Freq ?s = HAL_RCC_GetPCLK1Freq s"
    "HAL_RCC_GetPCLK2Freq ?s = HAL_RCC_GetPCLK2Freq s"
    unfolding HAL_RCC_GetSysClockFreq_def HAL_RCC_GetPCLK1Freq_def HAL_RCC_GetPCLK2Freq_def HAL_RCC_GetHCLKFreq_def low k by (rule refl)+
qed

end
