(* ===== verification/Key.thy ===== *)
theory Key
  imports Gpio
begin

text \<open>
  HARDWARE/KEY/key.c: the six keys. The readings of the input register and of the tick that a call makes are parameters; the
  \<open>n\<close>-th reading of the call is \<open>idr n\<close> and \<open>tick n\<close>.
\<close>

section \<open>Operations\<close>

text \<open>\<open>Key_Proc\<close> and the static variable of \<open>KEY_Scan\<close>.\<close>

record key_state =
  Key_Flag :: u16
  Key_Count :: u16
  Key_Value :: u8
  Key_Tri :: u8
  Key_Cnt :: u8
  Key_Time :: u32
  Key_DownTime :: u32
  Key_ProcTime :: u32
  key_up :: u8

abbreviation KEY_UP_PRES :: u8 where "KEY_UP_PRES \<equiv> 1"
abbreviation KEY_DOWN_PRES :: u8 where "KEY_DOWN_PRES \<equiv> 2"
abbreviation KEY_RIGHT_PRES :: u8 where "KEY_RIGHT_PRES \<equiv> 3"
abbreviation KEY_LEFT_PRES :: u8 where "KEY_LEFT_PRES \<equiv> 4"
abbreviation KEY_OK_PRES :: u8 where "KEY_OK_PRES \<equiv> 5"
abbreviation KEY_CANNCE_PRES :: u8 where "KEY_CANNCE_PRES \<equiv> 6"

text \<open>The pins of port E with the codes, in the order in which the code tests them.\<close>

definition key_pins :: "(u16 \<times> u8) list" where
  "key_pins = [(0x8000, KEY_UP_PRES), (0x4000, KEY_DOWN_PRES), (0x0800, KEY_RIGHT_PRES), (0x1000, KEY_LEFT_PRES),
     (0x2000, KEY_OK_PRES), (0x0400, KEY_CANNCE_PRES)]"

definition KEY_Init :: "u32 \<Rightarrow> gpio_state \<Rightarrow> gpio_state" where
  "KEY_Init alternate s =
     (let s = GPIO_CLK_ENABLE 3 s;
          s = GPIO_CLK_ENABLE 4 s;
          gi = \<lparr>Pin = 0x8000 OR 0x4000 OR 0x2000 OR 0x1000 OR 0x0800 OR 0x0400, PinMode = GPIO_MODE_INPUT, Pull = GPIO_PULLUP,
                PinSpeed = 2, Alternate = alternate\<rparr>;
          s = HAL_GPIO_Init_port GPIOE_BASE gi s
      in HAL_GPIO_Init_port GPIOD_BASE (gi\<lparr>Pin := 0x4000, PinMode := GPIO_MODE_OUTPUT_PP\<rparr>) s)"

text \<open>The keys are tested until one is found pressed: its code, and the number of the next reading.\<close>

fun key_test :: "(nat \<Rightarrow> u32) \<Rightarrow> (u16 \<times> u8) list \<Rightarrow> nat \<Rightarrow> u8 option \<times> nat" where
  "key_test idr [] n = (None, n)"
| "key_test idr ((pin, code) # ks) n =
     (if HAL_GPIO_ReadPin (idr n) pin = GPIO_PIN_RESET then (Some code, Suc n) else key_test idr ks (Suc n))"

definition KEY_Scan :: "(nat \<Rightarrow> u32) \<Rightarrow> u8 \<Rightarrow> key_state \<Rightarrow> u8 \<times> key_state" where
  "KEY_Scan idr mode s =
     (let s = (if mode = 1 then s\<lparr>key_up := 1\<rparr> else s);
          released = (\<lambda>n s. (0, if fst (key_test idr key_pins n) = None then s\<lparr>key_up := 1\<rparr> else s))
      in if key_up s \<noteq> 0 then
           (case key_test idr key_pins 0 of
              (Some _, n) \<Rightarrow>
                (let s = s\<lparr>key_up := 0\<rparr>
                 in case fst (key_test idr key_pins n) of Some code \<Rightarrow> (code, s) | None \<Rightarrow> (0, s))
            | (None, n) \<Rightarrow> released n s)
         else released 0 s)"

definition KeyRead :: "(nat \<Rightarrow> u32) \<Rightarrow> (nat \<Rightarrow> u32) \<Rightarrow> key_state \<Rightarrow> key_state" where
  "KeyRead idr tick s =
     (case KEY_Scan idr 1 s of (ReadData, s) \<Rightarrow>
        (let s = s\<lparr>Key_Tri := ReadData AND (ReadData XOR Key_Value s)\<rparr>;
             s = s\<lparr>Key_Value := ReadData\<rparr>
         in if Key_Tri s \<noteq> 0 then s\<lparr>Key_Time := tick 0\<rparr>
            else if ReadData \<noteq> 0 then
              (let s = s\<lparr>Key_Count := Key_Count s + 1\<rparr>;
                   s = (if Key_Count s \<ge> 0xFFFE then s\<lparr>Key_Count := 0xFFFE\<rparr> else s);
                   s = s\<lparr>Key_DownTime := Key_DownTime s + (tick 0 - Key_Time s)\<rparr>;
                   s = (if Key_DownTime s > 3000 then (let s = s\<lparr>Key_DownTime := 3000\<rparr> in s\<lparr>Key_ProcTime := 100\<rparr>)
                        else if Key_DownTime s > 2000 then s\<lparr>Key_ProcTime := 400\<rparr>
                        else s\<lparr>Key_ProcTime := 1000\<rparr>)
               in s\<lparr>Key_Time := tick 1\<rparr>)
            else
              (let s = s\<lparr>Key_Count := 0\<rparr>;
                   s = s\<lparr>Key_DownTime := 0\<rparr>
               in s\<lparr>Key_ProcTime := 1000\<rparr>)))"

section \<open>Stable pins\<close>

text \<open>The code of the pressed keys while the pins do not change, 0 if there is none.\<close>

definition key_code :: "u32 \<Rightarrow> u8" where
  "key_code v = (case fst (key_test (\<lambda>_. v) key_pins 0) of Some c \<Rightarrow> c | None \<Rightarrow> 0)"

lemma key_test_const: "fst (key_test (\<lambda>_. v) ks n) = fst (key_test (\<lambda>_. v) ks 0)"
proof (induction ks arbitrary: n)
  case (Cons k ks)
  show ?case
    using Cons [of "Suc n"] Cons [of "Suc 0"] by (cases k) simp
qed simp

lemma key_code_cases: "fst (key_test (\<lambda>_. v) key_pins n) = (if key_code v = 0 then None else Some (key_code v))"
  unfolding key_test_const [of v _ n] by (simp add: key_code_def key_pins_def)

lemma KEY_Scan_stable:
  "KEY_Scan (\<lambda>_. v) 1 s = (key_code v, s\<lparr>key_up := (if key_code v = 0 then 1 else 0)\<rparr>)"
  by (auto simp: KEY_Scan_def Let_def key_code_cases split: prod.splits option.splits)
     (metis fst_conv key_code_cases option.distinct(1) option.inject)+

section \<open>Holding a key\<close>

text \<open>Calls of \<open>KeyRead\<close> with the same pins, one for each value of the tick.\<close>

definition key_calls :: "u32 \<Rightarrow> nat list \<Rightarrow> key_state \<Rightarrow> key_state" where
  "key_calls v ts s = fold (\<lambda>t. KeyRead (\<lambda>_. v) (\<lambda>_. of_nat t)) ts s"

lemma KeyRead_first:
  assumes "key_code v \<noteq> 0" "Key_Value s = 0"
  shows "KeyRead (\<lambda>_. v) tick s = s\<lparr>key_up := 0, Key_Tri := key_code v, Key_Value := key_code v, Key_Time := tick 0\<rparr>"
  using assms by (simp add: KeyRead_def KEY_Scan_stable)

lemma KeyRead_held:
  fixes tick :: "nat \<Rightarrow> u32" and s :: key_state
  assumes "key_code v \<noteq> 0" "Key_Value s = key_code v"
  defines "d \<equiv> Key_DownTime s + (tick 0 - Key_Time s)" and "c \<equiv> Key_Count s + 1"
  shows "KeyRead (\<lambda>_. v) tick s = s\<lparr>key_up := 0, Key_Tri := 0, Key_Value := key_code v,
    Key_Count := (if c \<ge> 0xFFFE then 0xFFFE else c), Key_DownTime := (if d > 3000 then 3000 else d),
    Key_ProcTime := (if d > 3000 then 100 else if d > 2000 then 400 else 1000), Key_Time := tick 1\<rparr>"
  using assms by (simp add: KeyRead_def KEY_Scan_stable Let_def)

lemma key_calls_held:
  assumes c: "key_code v \<noteq> 0" and z: "Key_Value s = 0" "Key_DownTime s = 0" "Key_Count s = 0"
  shows "sorted_wrt (<) (t # ts) \<Longrightarrow> \<forall>u \<in> set ts. u - t < 2 ^ 31 \<Longrightarrow>
    let r = key_calls v (t # ts) s; e = last (t # ts) - t in
    Key_Value r = key_code v \<and> Key_Tri r = (if ts = [] then key_code v else 0) \<and> Key_Time r = of_nat (last (t # ts)) \<and>
    Key_DownTime r = of_nat (min 3000 e) \<and> unat (Key_Count r) = min (length ts) 0xFFFE \<and>
    (ts \<noteq> [] \<longrightarrow> Key_ProcTime r = (if e > 3000 then 100 else if e > 2000 then 400 else 1000))"
proof (induction ts rule: rev_induct)
  case Nil
  then show ?case
    using KeyRead_first [OF c z(1)] by (simp add: key_calls_def z)
next
  case (snoc u ts)
  define r where "r = key_calls v (t # ts) s"
  define e where "e = last (t # ts) - t"
  have s': "key_calls v (t # ts @ [u]) s = KeyRead (\<lambda>_. v) (\<lambda>_. of_nat u) r"
    by (simp add: key_calls_def r_def)
  have ih: "Key_Value r = key_code v" "Key_Time r = of_nat (last (t # ts))" "Key_DownTime r = of_nat (min 3000 e)"
    "unat (Key_Count r) = min (length ts) 0xFFFE"
    using snoc by (simp_all add: r_def e_def Let_def sorted_wrt_append)
  have ord: "t \<le> last (t # ts)" "last (t # ts) < u" "u - t < 2 ^ 31"
    using snoc.prems by (auto simp: sorted_wrt_append less_imp_le split: if_splits)
  have e: "u - t = e + (u - last (t # ts))" "e < 2 ^ 31"
    using ord by (simp_all add: e_def)
  let ?d = "Key_DownTime r + (of_nat u - Key_Time r)"
  have d: "?d = of_nat (min 3000 e + (u - last (t # ts)))"
    using ord by (simp add: ih of_nat_diff)
  have ud: "unat ?d = min 3000 e + (u - last (t # ts))"
  proof -
    have "min 3000 e + (u - last (t # ts)) \<le> u - t"
      using e by simp
    also have "\<dots> < 2 ^ 32"
      using ord(3) by simp
    finally have "min 3000 e + (u - last (t # ts)) < 2 ^ 32" .
    then show ?thesis
      unfolding d by (rule unat_of_nat32)
  qed
  have gt: "?d > 3000 \<longleftrightarrow> u - t > 3000" "?d > 2000 \<longleftrightarrow> u - t > 2000"
  proof -
    define x where "x = u - last (t # ts)"
    have "u - t = e + x" "0 < x" "unat ?d = min 3000 e + x"
      using e(1) ord(2) ud by (simp_all only: x_def zero_less_diff)
    then show "?d > 3000 \<longleftrightarrow> u - t > 3000" "?d > 2000 \<longleftrightarrow> u - t > 2000"
      unfolding word_less_nat_alt by (simp_all only:) (simp_all add: min_def)
  qed
  have dt: "(if u - t > 3000 then 3000 else ?d) = of_nat (min 3000 (u - t))"
  proof (cases "u - t > 3000")
    case False
    then have m: "min 3000 e + (u - last (t # ts)) = u - t" "min 3000 (u - t) = u - t"
      unfolding e(1) by (simp_all only: not_less min.absorb2 min.absorb1 min_def split: if_split) linarith+
    have "?d = of_nat (u - t)"
      by (rule trans [OF d]) (rule arg_cong [OF m(1)])
    then have "(if u - t > 3000 then 3000 else ?d) = of_nat (u - t)"
      using False by (simp only: if_False)
    then show ?thesis
      unfolding m(2) .
  qed simp
  have cnt: "unat (if Key_Count r + 1 \<ge> 0xFFFE then 0xFFFE else Key_Count r + 1) = min (length (ts @ [u])) 0xFFFE"
  proof -
    have "unat (Key_Count r + 1) = unat (Key_Count r) + 1"
      using ih(4) by (subst unat_add_lem [THEN iffD1]) simp_all
    then show ?thesis
      using ih(4) by (simp add: word_le_nat_alt)
  qed
  show ?case
    unfolding Let_def s' KeyRead_held [OF c ih(1)] gt dt using cnt by simp
qed

lemma ascending_last: "sorted_wrt (<) xs \<Longrightarrow> x \<in> set xs \<Longrightarrow> x \<le> last (xs :: nat list)"
  by (induction xs) (auto simp: less_imp_le intro: less_le_trans split: if_splits)

text \<open>
  C28. Held for a while, a key triggers exactly once, with its code, and the state then shows how long: the time
  since the press up to 3 s, a saturating count of the calls, and the interval of the repetition, which is 1 s, above 2 s of holding
  0.4 s and above 3 s 0.1 s.
\<close>

theorem key_held:
  assumes "key_code v \<noteq> 0" "Key_Value s = 0" "Key_DownTime s = 0" "Key_Count s = 0"
    and "sorted_wrt (<) (t # ts)" "last (t # ts) - t < 2 ^ 31"
  shows "let r = key_calls v (t # ts) s; e = last (t # ts) - t in
    Key_Value r = key_code v \<and> Key_Tri r = (if ts = [] then key_code v else 0) \<and>
    Key_DownTime r = of_nat (min 3000 e) \<and> unat (Key_Count r) = min (length ts) 0xFFFE \<and>
    (ts \<noteq> [] \<longrightarrow> Key_ProcTime r = (if e > 3000 then 100 else if e > 2000 then 400 else 1000))"
proof -
  have "u \<le> last (t # ts)" if "u \<in> set ts" for u
    using ascending_last [OF assms(5), of u] that by simp
  then have "\<forall>u \<in> set ts. u - t < 2 ^ 31"
    using assms(6) by (meson diff_le_mono le_less_trans)
  then show ?thesis
    using key_calls_held [OF assms(1-5)] by (simp add: Let_def)
qed

section \<open>Two keys\<close>

text \<open>The pins with the keys of the given codes pressed: a pressed key pulls its pin low.\<close>

definition keys_pressed :: "u8 set \<Rightarrow> u32" where
  "keys_pressed cs = fold (\<lambda>(pin, code) v. if code \<in> cs then v AND NOT (ucast pin) else v) key_pins 0xFFFF"

text \<open>
  C40. The edge is taken bit by bit from codes that are numbers. A key that is pressed while another is held can so be
  missed, or be taken for a third one: with RIGHT held, UP triggers nothing, and the release of DOWN while RIGHT is held
  triggers UP.
\<close>

theorem second_key_misread:
  "(Key_Value s = KEY_RIGHT_PRES \<longrightarrow>
      (let r = KeyRead (\<lambda>_. keys_pressed {KEY_RIGHT_PRES, KEY_UP_PRES}) tick s in Key_Tri r = 0 \<and> Key_Value r = KEY_UP_PRES)) \<and>
   (Key_Value s = KEY_DOWN_PRES \<longrightarrow>
      (let r = KeyRead (\<lambda>_. keys_pressed {KEY_RIGHT_PRES}) tick s in Key_Tri r = KEY_UP_PRES \<and> Key_Value r = KEY_RIGHT_PRES))"
proof -
  have c: "key_code (keys_pressed {KEY_RIGHT_PRES, KEY_UP_PRES}) = KEY_UP_PRES" "key_code (keys_pressed {KEY_RIGHT_PRES}) = KEY_RIGHT_PRES"
    by (simp_all add: keys_pressed_def key_code_def key_pins_def HAL_GPIO_ReadPin_def)
  show ?thesis
    by (simp add: KeyRead_def KEY_Scan_stable c Let_def)
qed

section \<open>Concrete inputs\<close>

definition key_zero :: key_state where
  "key_zero = \<lparr>Key_Flag = 0, Key_Count = 0, Key_Value = 0, Key_Tri = 0, Key_Cnt = 0, Key_Time = 0, Key_DownTime = 0,
     Key_ProcTime = 0, key_up = 1\<rparr>"

theorem key_held_witness:
  "Key_DownTime (key_calls (keys_pressed {KEY_OK_PRES}) [100, 120, 3110] key_zero) = 3000 \<and>
   Key_ProcTime (key_calls (keys_pressed {KEY_OK_PRES}) [100, 120, 3110] key_zero) = 100"
proof -
  have c: "key_code (keys_pressed {KEY_OK_PRES}) \<noteq> 0"
    by (simp add: keys_pressed_def key_code_def key_pins_def HAL_GPIO_ReadPin_def)
  show ?thesis
    using key_held [OF c, of key_zero 100 "[120, 3110]"] by (simp add: key_zero_def Let_def)
qed

theorem second_key_misread_witness:
  "Key_Tri (KeyRead (\<lambda>_. keys_pressed {KEY_RIGHT_PRES}) (\<lambda>_. 0) (key_zero\<lparr>Key_Value := KEY_DOWN_PRES\<rparr>)) = KEY_UP_PRES"
  using second_key_misread [of "key_zero\<lparr>Key_Value := KEY_DOWN_PRES\<rparr>" "\<lambda>_. 0"] by (simp add: Let_def)

end
