(* ===== verification/Pins.thy ===== *)
theory Pins
  imports Key UsartMsp
begin

text \<open>
  Who uses which pin: the pins that \<open>HAL_UART_MspInit\<close> configures for the six serial ports, and after them \<open>HAL_ETH_MspInit\<close> of
  HARDWARE/LAN8720/lan8720.c for the Ethernet, on the registers of \<open>Gpio\<close>.
\<close>

fun gpio_base :: "gpio \<Rightarrow> u32" where
  "gpio_base GPIOA = GPIOA_BASE"
| "gpio_base GPIOB = GPIOB_BASE"
| "gpio_base GPIOC = GPIOC_BASE"
| "gpio_base GPIOD = GPIOD_BASE"

fun pin_event :: "msp_event \<Rightarrow> gpio_state \<Rightarrow> gpio_state" where
  "pin_event (HAL_GPIO_Init g pin mode pull speed alternate) s =
     HAL_GPIO_Init_port (gpio_base g)
       \<lparr>Pin = pin, PinMode = mode, Pull = pull, PinSpeed = speed, Alternate = alternate\<rparr> s"
| "pin_event (RCC_CLK_ENABLE (GPIO_CLK g)) s = GPIO_CLK_ENABLE (unat (GPIO_GET_INDEX (gpio_base g))) s"
| "pin_event _ s = s"

text \<open>The pins after \<open>usart_init\<close>, which initialises the ports in this order.\<close>

definition usart_pins :: "gpio_state \<Rightarrow> gpio_state" where
  "usart_pins s = fold (\<lambda>k. fold pin_event (msp_events k)) usart_ports s"

abbreviation RCC_AHB1ENR_ETHMACEN :: u32 where "RCC_AHB1ENR_ETHMACEN \<equiv> 0x2000000"
abbreviation RCC_AHB1ENR_ETHMACTXEN :: u32 where "RCC_AHB1ENR_ETHMACTXEN \<equiv> 0x4000000"
abbreviation RCC_AHB1ENR_ETHMACRXEN :: u32 where "RCC_AHB1ENR_ETHMACRXEN \<equiv> 0x8000000"

definition ETH_CLK_ENABLE :: "gpio_state \<Rightarrow> gpio_state" where
  "ETH_CLK_ENABLE s =
     (let s = s\<lparr>RCC_AHB1ENR := SET_BIT (RCC_AHB1ENR s) RCC_AHB1ENR_ETHMACEN\<rparr>;
          s = s\<lparr>RCC_AHB1ENR := SET_BIT (RCC_AHB1ENR s) RCC_AHB1ENR_ETHMACTXEN\<rparr>
      in s\<lparr>RCC_AHB1ENR := SET_BIT (RCC_AHB1ENR s) RCC_AHB1ENR_ETHMACRXEN\<rparr>)"

text \<open>Also the priority (group, sub) with which the interrupt is enabled at the end.\<close>

definition HAL_ETH_MspInit :: "gpio_state \<Rightarrow> (nat \<times> nat) \<times> gpio_state" where
  "HAL_ETH_MspInit s =
     (let s = ETH_CLK_ENABLE s;
          s = GPIO_CLK_ENABLE 0 s;
          s = GPIO_CLK_ENABLE 1 s;
          s = GPIO_CLK_ENABLE 2 s;
          s = GPIO_CLK_ENABLE 6 s;
          gi = \<lparr>Pin = 0x2 OR 0x4 OR 0x80, PinMode = GPIO_MODE_AF_PP, Pull = 0, PinSpeed = GPIO_SPEED_FREQ_VERY_HIGH, Alternate = 11\<rparr>;
          s = HAL_GPIO_Init_port GPIOA_BASE gi s;
          gi = gi\<lparr>Pin := 0x2 OR 0x10 OR 0x20\<rparr>;
          s = HAL_GPIO_Init_port GPIOC_BASE gi s;
          gi = gi\<lparr>Pin := 0x2000 OR 0x4000 OR 0x800\<rparr>;
          s = HAL_GPIO_Init_port GPIOG_BASE gi s
      in ((1, 0), s))"

text \<open>The pins of the serial ports with their alternate functions, for each port transmit pin first.\<close>

definition usart_pin_list :: "(gpio \<times> nat \<times> u32) list" where
  "usart_pin_list = [(GPIOA, 9, 7), (GPIOA, 10, 7), (GPIOA, 2, 7), (GPIOA, 3, 7), (GPIOB, 10, 7), (GPIOB, 11, 7),
     (GPIOC, 10, 8), (GPIOC, 11, 8), (GPIOC, 12, 8), (GPIOD, 2, 8), (GPIOC, 6, 8), (GPIOC, 7, 8)]"

definition pin_at :: "gpio_state \<Rightarrow> gpio \<Rightarrow> nat \<Rightarrow> pin_view" where
  "pin_at s g p = pin_of p (GPIO_regs s (gpio_base g))"

lemma GPIO_regs_CLK [simp]:
  "GPIO_regs (GPIO_CLK_ENABLE i s) = GPIO_regs s" "GPIO_regs (ETH_CLK_ENABLE s) = GPIO_regs s"
  by (simp_all add: GPIO_CLK_ENABLE_def ETH_CLK_ENABLE_def)

lemma pin_of_init:
  assumes "gi_ok gi" "p < 16"
  shows "pin_of p (GPIO_regs (HAL_GPIO_Init_port g gi s) g') =
    (if g' = g \<and> bit (Pin gi) p then pin_spec gi (pin_of p (GPIO_regs s g')) else pin_of p (GPIO_regs s g'))"
  using gpio_init_view [OF assms] by (cases "g' = g") auto

text \<open>
  C32. Each serial port gets its two pins from usart_init; the initialisation of the Ethernet that follows keeps them, except
  for the transmit pin of port 2: it is taken for the management interface of the transceiver, and port 2 can no longer send.
\<close>

theorem ethernet_takes_transmit_pin:
  "\<forall>(g, p, af) \<in> set usart_pin_list. let a = usart_pins s; b = snd (HAL_ETH_MspInit a)
     in v_mode (pin_at a g p) = 2 \<and> v_alternate (pin_at a g p) = af \<and>
       (if (g, p) = (GPIOA, 2) then v_mode (pin_at b g p) = 2 \<and> v_alternate (pin_at b g p) = 11 else pin_at b g p = pin_at a g p)"
  by (simp add: usart_pin_list_def usart_pins_def usart_ports_def msp_usart_defs pin_init_def irq_init_def HAL_ETH_MspInit_def
      Let_def pin_at_def pin_of_init gi_ok_def pin_spec_def)

theorem ethernet_takes_transmit_pin_witness:
  "v_alternate (pin_at (usart_pins gpio_zero) GPIOA 2) = 7 \<and>
   v_alternate (pin_at (snd (HAL_ETH_MspInit (usart_pins gpio_zero))) GPIOA 2) = 11"
  using ethernet_takes_transmit_pin [of gpio_zero] by (simp add: usart_pin_list_def Let_def)

end
