(* ===== verification/Spec2Isabelle.thy ===== *)
theory Spec2Isabelle
  imports MainApp UartProps UsartTx UartIt Lwip UsmartShape MallocRef EthProps LanInit ClockMain ClockOut Pins
begin

text \<open>
  A verification library for the firmware of an STM32F407 board that receives on six serial ports
  by DMA with idle-line detection, and for the parts of the vendor's drivers (STM32F4xx_HAL_Driver) it
  rests on.

  \<^bold>\<open>The program.\<close> \<open>usart_init\<close> (USER/main.c) starts six ports. Each port (\<open>STUsart\<close>,
  SYSTEM/usart/usart.h) is a UART handle with two 50-byte buffers. A DMA stream stores received bytes in one
  of them, the DMA buffer; the other one is the user buffer. When the line goes idle,
  \<open>USARTx_IRQHandler\<close> stops the stream and, if the user buffer has been processed, exchanges the
  buffers; otherwise reception goes on behind the bytes already stored. When the DMA buffer
  becomes full, the DMA interrupt runs \<open>HAL_UART_RxCpltCallback\<close>, which exchanges the buffers in any case. The
  main loop calls \<open>receive_str_manage\<close> for each port (LWIP/lwip_app/lwip_comm/lwip_comm.c), which exchanges the
  buffers if the DMA buffer waits behind a processed user buffer, and hands the user buffer to the
  port's function; the functions of main.c send it out of port 1 with \<open>com_send_str\<close>.

  \<^bold>\<open>The theories.\<close>
  \<^item> \<open>Prelude\<close>: machine integers, register bits, status codes, byte memory, the environment of polling loops.
  \<^item> \<open>HalDma\<close>: stm32f4xx_hal_dma.c. A \<open>DMA_HandleTypeDef\<close> is a record with its configuration, lock,
    state and callbacks, and with the registers of its stream (\<open>S_CR\<close>, \<open>S_NDTR\<close>, ...) and the
    flag register \<open>ISR\<close> it looks at. One definition per function; the interrupt handler is
    split at the comments of the source (\<open>dma_irq_TE\<close> to \<open>dma_irq_error\<close>). It works on the state of
    any client that owns a handle: the locale \<open>dma_owner\<close> states what access to the
    handle has to satisfy, and proves what an interrupt does once for all clients.
  \<^item> \<open>HalUart\<close>: stm32f4xx_hal_uart.c. A \<open>UART_HandleTypeDef\<close> is an extensible record with the registers of the
    UART, the driver's fields, the DMA handles it points to, the memory and a log of the
    data register writes; \<open>fault\<close> records an access through a null pointer. The callbacks are called through
    \<open>run_dma_cb\<close>; the weak user callbacks are the record \<open>uart_user\<close>. The locale \<open>dma_owner\<close> is
    interpreted for both DMA handles.
  \<^item> \<open>UsartMsp\<close>: \<open>HAL_UART_MspInit\<close> and the table of the interrupt handlers, second half of usart.c.
  \<^item> \<open>Usart\<close>: the first half of usart.c. \<open>STUsart\<close> extends the UART handle. The six branches of
    \<open>HAL_UART_RxCpltCallback\<close> and the six \<open>USARTx_IRQHandler\<close> are the same code for different ports, so
    they are one definition each.
  \<^item> \<open>HalPoll\<close>, \<open>HalPollProps\<close>: the polling routines of both drivers, \<open>HAL_UART_Transmit\<close>, \<open>HAL_UART_Receive\<close>,
    \<open>UART_WaitOnFlagUntilTimeout\<close> and \<open>HAL_DMA_PollForTransfer\<close>. What hardware and clock do before
    poll \<open>n\<close> is a function \<open>hw n\<close> and a tick function. The step relation \<open>dma_step\<close> of a DMA handle: every call of the driver,
    polls included, interrupts, hardware and client.
  \<^item> \<open>UartIt\<close>: transfers by interrupt.
  \<^item> \<open>UsartSystem\<close>: the hardware (a received byte, an idle line), the invariant of a port, the
    lemmas that every operation keeps it, and the step relation \<open>sys_step\<close> of one port with its interrupts and
    the main loop, which keeps what became of every byte (delivered, replaced, refused). It has no line error and no transmission.
  \<^item> \<open>UsartProps\<close>, \<open>UsartSend\<close>, \<open>UartProps\<close>: the properties of reception, of transmission, and of the
    driver and the board support.
  \<^item> \<open>UsartTx\<close>: the transmitter of a port as a step relation: the DMA stream feeds the data register, the shift
    register empties it, the interrupts of the streams and of the UART run in any order, bytes and idle lines come on the receiver.
  \<^item> \<open>MainApp\<close>: the six ports together, \<open>usart_init\<close>, the user functions, the polling round and the
    interrupt handlers by their names.
  \<^item> \<open>Malloc\<close>: MALLOC/malloc.c. The controller \<open>_m_mallco_dev\<close> is a record with the tables of the
    three pools; an access outside a table is \<open>None\<close>. The locale \<open>allocator\<close> is the contract of an allocator
    (what a call does to the set of allocations held), with the safety of every client run proved in it; it is
    interpreted for the three pools.
  \<^item> \<open>UsmartStr\<close>, \<open>UsmartStrProps\<close>: USMART/usmart_str.c, the string functions of the shell. A C pointer into a
    string is the list of the bytes from there to the end of its array; \<open>None\<close> is an access behind the
    array, so that a result \<open>Some\<close> is also memory safety.
  \<^item> \<open>MallocRef\<close>: a last-fit reference for the allocator.
  \<^item> \<open>Usmart\<close>: \<open>usmart_cmd_rec\<close> (USMART/usmart.c), the recognition of a command line.
  \<^item> \<open>UsmartExe\<close>: the rest of usmart.c: execution, system commands, scan, run time, timer, and the table of
    usmart_config.c. Printing appends items to a list; what the function at an address does to the world outside the shell is the field
    \<open>sx_call\<close> of a record, for which \<open>table_call\<close> gives the functions of the program's table.
  \<^item> \<open>UsmartExeProps\<close>, \<open>UsmartShape\<close>: the shell from the receive buffer to the call, and its invariant as long as no array is left.
  \<^item> \<open>HalTim\<close>: the base functions and the interrupt handler of stm32f4xx_hal_tim.c, with the counter of a
    timer as a function of its clock (\<open>tim_clock\<close>). \<open>Timer\<close>: HARDWARE/TIMER/timer.c, the system tick.
  \<^item> \<open>Lwip\<close>: lwip_comm.c and the memory of lan8720.c. The functions of lwIP it calls are the record
    \<open>lwip_core\<close>, functions on the network interface; ports, heap and pointers are parts of the state.
  \<^item> \<open>HalEth\<close>, \<open>HalEthInit\<close>: stm32f4xx_hal_eth.c. \<open>ETH_HandleTypeDef\<close> is an extensible record with the registers of MAC and DMA,
    the descriptors by address and the bytes of the buffers. What happens before a reading of the tick, and the tick read, is the record \<open>eth_env\<close>.
  \<^item> \<open>EthNet\<close>: ethernetif.c and lan8720.c between the driver and lwIP (\<open>lwip_fns\<close>: \<open>pbuf_alloc\<close>, \<open>netif->input\<close>), and the steps
    of the DMA on the descriptors. \<open>EthRing\<close>, \<open>EthStart\<close>: either ring as a queue of frames, and its set-up. \<open>EthProps\<close>:
    the abstract queues \<open>net_spec\<close> and the step relation \<open>eth_step\<close> that implements them. \<open>LanInit\<close>: how long \<open>LAN8720_Init\<close> takes; a
    computation that returns in time is \<open>returns_in\<close>, and one rule adds the times of two computations.
  \<^item> \<open>Rcc\<close>, \<open>RccProps\<close>: stm32f4xx_hal_rcc.c, SYSTEM/sys/sys.c, system_stm32f4xx.c, with the registers of RCC, PWR, FLASH and SysTick in a
    record. A function that may return early is a chain of \<open>rcc_part\<close>s; what happens before a reading of the tick is \<open>rcc_env\<close>.
    \<open>ClockOut\<close>: the clock outputs.
  \<^item> \<open>Delay\<close>: delay.c, with the readings of the SysTick counter as a function of their number. \<open>ClockMain\<close>: the start of \<open>main\<close>, from reset
    to the ports.
  \<^item> \<open>Gpio\<close>: stm32f4xx_hal_gpio.c and led.c, the ports by address, and the configuration of one pin (\<open>pin_view\<close>) that the registers amount
    to. \<open>Key\<close>: key.c. \<open>Pins\<close>: the pins of the serial ports and of the Ethernet.

  \<^bold>\<open>What the properties show.\<close> Reception, on a port that does not transmit and sees no line error, the parts of
  \<open>receive_str_manage\<close> uninterrupted: every byte stored is delivered or replaced by a full buffer or waits, in order; memory safety of
  the DMA, also for the buffer a user function works on as long as no full buffer is taken over meanwhile;
  delivery of messages of 1 to 49 bytes; refinement of a deterministic abstract double buffer. Transmission: at every time a prefix of the
  bytes asked for has been sent; it never gets stuck, and all bytes are sent unless an idle line of the receiver aborts it.
  A message is forwarded by port 1 in time when port 1 is free. Polling routines return. The DMA driver: a handle is locked
  while it is busy, and only then or during an abort. The memory manager: allocations never overlap, it is a last-fit allocator, releasing undoes allocating.
  The shell: numbers are read with their value, a well-formed command line is recognised and executed, any other call refused; ten
  parameters are read back, an eleventh is stored beyond its table. The timers: the exact rate of the system tick. The network: the states of the DHCP client, and when the
  ports are served; the rings of descriptors are queues, frames are sent and received whole and in order; its initialisation returns in
  bounded time. Start: the clocks come up, all six ports are ready, at their rate. The clock driver: settings are read back, a missing crystal is
  reported. Delays are neither too short nor too long. Pins get the configuration asked for. Keys: what a held key shows.
  Other theorems of the library, not among the properties: transfers by interrupt and by polling send and store exactly the characters
  asked for; no call of the UART driver leaves the handle locked; the baud rate registers are rounded correctly; interrupts reach the right
  handle; reallocating keeps the contents; the manager of the shell stays well-formed as long as no array is left; a clock output leaves the clocks as they are.
  Some properties state defects: a race in the exchange, starvation after a full
  message that is served before its idle line, a message lost when two ports wait, sending that does not wait, an idle line that aborts a transmission, a time-out of
  \<open>HAL_DMA_PollForTransfer\<close> that leaves the stream on, a string parameter read beyond its array, a network started without
  its heap, an interrupt that never ends when a frame arrives during a transmission, a transmit pin that the Ethernet takes, and a second
  key that is missed or mistaken.

  \<^bold>\<open>Bounds and fuel.\<close> Machine integers have their widths. Polling loops take what the hardware does
  before each poll as a function of the number of the poll, and a number of rounds (\<open>fuel\<close>), \<open>None\<close> being a
  loop still running (in \<open>usmart_scan\<close> the fuel bounds the parameters of a command, and more than their number is enough; in
  \<open>main_lwip_init\<close> the attempts to start the network); \<open>com_send_str_returns\<close> and the properties of \<open>HalPollProps\<close> state how many rounds are
  enough; the loop of \<open>ETH_IRQHandler\<close> needs one more than the frames stored, at most five. The loops that wait for a stream to stop read the tick and the \<open>EN\<close> bit from \<open>hw_env\<close>
  and end on the tick; properties assume \<open>stream_stops\<close>, the hardware's promise that the stream stops within
  the driver's time limit, where they need it.

  \<^bold>\<open>Interrupts.\<close> Interrupt handlers run between the steps of the main loop: the parts of
  \<open>receive_str_manage\<close> are such steps (\<open>rsm_swap\<close>, \<open>rsm_enter\<close>, the user function, \<open>rsm_exit\<close>). That its exchange
  is not safe at a finer grain is the property \<open>swap_race_aliases_buffers\<close>. The handlers of one port have
  the same preemption priority and do not interrupt each other. A function that the shell calls acts on the world outside the shell: an address of
  the shell's own manager given to \<open>write_addr\<close> is outside the model.

  \<^bold>\<open>Not modelled.\<close> lwIP, PTP and the other vendored code, but for the parameters above; the interrupt controller; the drivers that the
  project file does not build (I2C, LCD, SDRAM, NTP).
\<close>

end
